(* ===== verification/Errors.thy ===== *)
theory Errors
  imports Main
begin

text \<open>
  The errors the on-chain modules return.  Every module registers its own sentinel errors
  (\<^verbatim>\<open>sdkerrors.Register\<close>); here each module has a datatype with the source's names, and
  \<open>error\<close> is their sum.  A wrapped error (\<^verbatim>\<open>errors.Wrap(sentinel, text)\<close>) is its sentinel;
  an error made by \<^verbatim>\<open>errors.Errorf\<close> on the spot is \<open>Errorf\<close> with the fixed part of
  its text.  Errors that come out of libraries are \<open>Bech32Error\<close>, \<open>BankError\<close> and
  \<open>ParseError\<close>.
\<close>

datatype escrow_error =
    ErrAccountExists
  | ErrAccountClosed
  | ErrAccountNotFound
  | ErrAccountOverdrawn
  | ErrInvalidDenomination
  | ErrPaymentExists
  | ErrPaymentClosed
  | ErrPaymentNotFound
  | ErrPaymentRateZero
  | ErrInvalidPayment
  | ErrInvalidSettlement
  | ErrInvalidAccountID
  | ErrInvalidAccount

datatype deployment_error =
    ErrNameDoesNotExist
  | ErrInvalidRequest
  | ErrDeploymentExists
  | ErrDeploymentNotFound
  | ErrDeploymentClosed
  | ErrOwnerAcctMissing
  | ErrInvalidGroups
  | ErrInvalidDeploymentID
  | ErrEmptyVersion
  | ErrInvalidVersion
  | ErrInternal
  | ErrInvalidDeployment
  | ErrInvalidGroupID
  | ErrGroupNotFound
  | ErrGroupClosed
  | ErrGroupOpen
  | ErrGroupPaused
  | ErrGroupNotOpen
  | ErrGroupSpecInvalid
  | ErrInvalidDeposit
  | ErrInvalidIDPath
  | ErrInvalidParam
  | ErrGroupEmptyName

datatype market_error =
    ErrEmptyProvider
  | ErrSameAccount
  | ErrInternal
  | ErrBidOverOrder
  | ErrAttributeMismatch
  | ErrUnknownBid
  | ErrUnknownLease
  | ErrUnknownLeaseForBid
  | ErrUnknownOrderForBid
  | ErrLeaseNotActive
  | ErrBidNotActive
  | ErrBidNotOpen
  | ErrOrderNotOpen
  | ErrNoLeaseForOrder
  | ErrOrderNotFound
  | ErrGroupNotFound
  | ErrGroupNotOpen
  | ErrBidNotFound
  | ErrBidZeroPrice
  | ErrLeaseNotFound
  | ErrBidExists
  | ErrBidInvalidPrice
  | ErrOrderActive
  | ErrOrderClosed
  | ErrOrderExists
  | ErrOrderDurationExceeded
  | ErrOrderTooEarly
  | ErrInvalidDeposit
  | ErrInvalidParam
  | ErrUnknownProvider
  | ErrInvalidBid

datatype provider_error =
    ErrInvalidProviderURI
  | ErrNotAbsProviderURI
  | ErrProviderNotFound
  | ErrProviderExists
  | ErrInvalidAddress
  | ErrAttributes
  | ErrIncompatibleAttributes
  | ErrInvalidInfoWebsite
  | ErrInternal

datatype audit_error =
    ErrProviderNotFound
  | ErrInvalidAddress
  | ErrAttributeNotFound

datatype cert_error =
    ErrCertificateNotFound
  | ErrInvalidAddress
  | ErrCertificateExists
  | ErrCertificateAlreadyRevoked
  | ErrInvalidSerialNumber
  | ErrInvalidCertificateValue
  | ErrInvalidPubkeyValue
  | ErrInvalidState
  | ErrInvalidKeySize

datatype attribute_error =
    ErrAttributesDuplicateKeys
  | ErrInvalidAttributeKey

datatype sdk_error =
    ErrInvalidAddress
  | ErrInvalidSequence
  | ErrConflict
  | ErrUnknownRequest

datatype error =
    Escrow escrow_error
  | Deployment deployment_error
  | Market market_error
  | ProviderErr provider_error
  | Audit audit_error
  | Cert cert_error
  | AttributeErr attribute_error
  | Sdk sdk_error
  | Bech32Error
  | BankError
  | ParseError
  | Errorf string

end
