(* ===== verification/Prelude.thy ===== *)
theory Prelude
  imports Errors "HOL-Library.Word" "HOL-Library.Monad_Syntax" "HOL-Library.Char_ord"
    "HOL-Library.List_Lexorder" "HOL-Library.Sublist"
begin

text \<open>
  The shared base of the development: how Go's effects are written down, and the
  program logic all component proofs use.

  A keeper method or message handler is an action \<open>('a, 's) act\<close>: it takes the chain's
  state and gives an \<open>outcome\<close>.  \<open>Ok a s\<close> is a normal return; \<open>Err e s\<close> is a
  returned error, which keeps the writes made before it (a caller may ignore the error and go
  on, as several callers do); \<open>Panic\<close> is a Go panic, which aborts the whole transaction;
  \<open>OutOfFuel\<close> is not a behaviour of the program, it marks that the bound on nested hook
  calls was too small (theory \<open>Hooks\<close> shows that it never occurs).

  Pure code that can only panic has type \<open>'a option\<close> (\<open>None\<close> is the panic).
\<close>

subsection \<open>Actions\<close>

datatype ('a, 's) outcome = Ok 'a 's | Err error 's | Panic | OutOfFuel

type_synonym ('a, 's) act = "'s \<Rightarrow> ('a, 's) outcome"

definition ret :: "'a \<Rightarrow> ('a, 's) act" where
  "ret a s = Ok a s"

definition throw :: "error \<Rightarrow> ('a, 's) act" where
  "throw e s = Err e s"

definition panic :: "('a, 's) act" where
  "panic s = Panic"

definition out_of_fuel :: "('a, 's) act" where
  "out_of_fuel s = OutOfFuel"

definition bind :: "('a, 's) act \<Rightarrow> ('a \<Rightarrow> ('b, 's) act) \<Rightarrow> ('b, 's) act" where
  "bind m f s = (case m s of Ok a s' \<Rightarrow> f a s' | Err e s' \<Rightarrow> Err e s'
     | Panic \<Rightarrow> Panic | OutOfFuel \<Rightarrow> OutOfFuel)"

text \<open>\<open>check b e\<close> is the early return \<^verbatim>\<open>if !b { return e }\<close>.\<close>

definition check :: "bool \<Rightarrow> error \<Rightarrow> (unit, 's) act" where
  "check b e = (if b then ret () else throw e)"

definition gets :: "('s \<Rightarrow> 'a) \<Rightarrow> ('a, 's) act" where
  "gets f s = Ok (f s) s"

definition modify :: "('s \<Rightarrow> 's) \<Rightarrow> (unit, 's) act" where
  "modify f s = Ok () (f s)"

text \<open>\<open>attempt m\<close> hands a returned error to the caller, who may ignore it.\<close>

definition attempt :: "('a, 's) act \<Rightarrow> (error + 'a, 's) act" where
  "attempt m s = (case m s of Ok a s' \<Rightarrow> Ok (Inr a) s' | Err e s' \<Rightarrow> Ok (Inl e) s'
     | Panic \<Rightarrow> Panic | OutOfFuel \<Rightarrow> OutOfFuel)"

definition or_panic :: "'a option \<Rightarrow> ('a, 's) act" where
  "or_panic x = (case x of None \<Rightarrow> panic | Some a \<Rightarrow> ret a)"

definition or_throw :: "error + 'a \<Rightarrow> ('a, 's) act" where
  "or_throw x = (case x of Inl e \<Rightarrow> throw e | Inr a \<Rightarrow> ret a)"

definition found_or :: "error \<Rightarrow> 'a option \<Rightarrow> ('a, 's) act" where
  "found_or e x = (case x of None \<Rightarrow> throw e | Some a \<Rightarrow> ret a)"

text \<open>\<open>each f xs\<close> is a loop over \<open>xs\<close> that stops at the first error;
  \<open>each_map\<close> also collects what the body returns for each element.\<close>

primrec each :: "('x \<Rightarrow> (unit, 's) act) \<Rightarrow> 'x list \<Rightarrow> (unit, 's) act" where
  "each f [] = ret ()"
| "each f (x # xs) = bind (f x) (\<lambda>_. each f xs)"

primrec each_map :: "('x \<Rightarrow> ('y, 's) act) \<Rightarrow> 'x list \<Rightarrow> ('y list, 's) act" where
  "each_map f [] = ret []"
| "each_map f (x # xs) = bind (f x) (\<lambda>y. bind (each_map f xs) (\<lambda>ys. ret (y # ys)))"

named_theorems act_defs \<open>the defining equations of the action combinators\<close>
declare ret_def [act_defs] throw_def [act_defs] panic_def [act_defs] bind_def [act_defs]
  check_def [act_defs] gets_def [act_defs] modify_def [act_defs] attempt_def [act_defs]
  or_panic_def [act_defs] or_throw_def [act_defs] found_or_def [act_defs]
  out_of_fuel_def [act_defs]

text \<open>For evaluation: the continuation is looked at once the first action is done.\<close>

lemma bind_unfold [code_unfold]:
  "bind m f = (\<lambda>s. case m s of Ok a s' \<Rightarrow> f a s' | Err e s' \<Rightarrow> Err e s' | Panic \<Rightarrow> Panic | OutOfFuel \<Rightarrow> OutOfFuel)"
  by (simp add: fun_eq_iff bind_def split: outcome.splits)

lemma bind_Ok_iff:
  "bind m f s = Ok b t \<longleftrightarrow> (\<exists>a u. m s = Ok a u \<and> f a u = Ok b t)"
  by (auto simp: bind_def split: outcome.splits)

lemma bind_ret [simp]: "bind (ret a) f = f a"
  by (simp add: fun_eq_iff act_defs)

lemma bind_assoc: "bind (bind m f) g = bind m (\<lambda>a. bind (f a) g)"
  by (simp add: fun_eq_iff bind_def split: outcome.splits)

lemma check_True [simp]: "check True e = ret ()"
  by (simp add: check_def)

lemma check_False [simp]: "check False e = throw e"
  by (simp add: check_def)

lemma bind_throw [simp]: "bind (throw e) f = throw e"
  by (simp add: fun_eq_iff act_defs)

lemma bind_panic [simp]: "bind panic f = panic"
  by (simp add: fun_eq_iff act_defs)

lemma or_simps [simp]:
  "or_panic (Some a) = ret a" "or_panic None = panic"
  "or_throw (Inr a) = ret a" "or_throw (Inl e) = throw e"
  "found_or e (Some a) = ret a" "found_or e None = throw e"
  by (simp_all add: or_panic_def or_throw_def found_or_def)

lemma each_append: "each f (xs @ ys) = bind (each f xs) (\<lambda>_. each f ys)"
  by (induction xs) (simp_all add: bind_assoc)

subsection \<open>Triples\<close>

text \<open>
  \<open>hoare P m Q R\<close>: from a state with \<open>P\<close>, a normal return of \<open>a\<close> ends in
  \<open>Q a\<close> and an error return ends in \<open>R\<close>.  A panic rolls the transaction back, so
  nothing is said of it.  \<open>keeps I m\<close> is the invariant form.
\<close>

definition hoare ::
  "('s \<Rightarrow> bool) \<Rightarrow> ('a, 's) act \<Rightarrow> ('a \<Rightarrow> 's \<Rightarrow> bool) \<Rightarrow> ('s \<Rightarrow> bool) \<Rightarrow> bool" where
  "hoare P m Q R \<longleftrightarrow> (\<forall>s. P s \<longrightarrow>
     (case m s of Ok a s' \<Rightarrow> Q a s' | Err e s' \<Rightarrow> R s' | Panic \<Rightarrow> True | OutOfFuel \<Rightarrow> True))"

definition keeps :: "('s \<Rightarrow> bool) \<Rightarrow> ('a, 's) act \<Rightarrow> bool" where
  "keeps I m \<longleftrightarrow> hoare I m (\<lambda>_. I) I"

named_theorems keeps_rules \<open>compositional rules for invariants\<close>
named_theorems hoare_rules \<open>compositional rules for triples\<close>

lemma hoare_Ok: "hoare P m Q R \<Longrightarrow> P s \<Longrightarrow> m s = Ok a s' \<Longrightarrow> Q a s'"
  by (auto simp: hoare_def split: outcome.splits)

lemma hoare_Err: "hoare P m Q R \<Longrightarrow> P s \<Longrightarrow> m s = Err e s' \<Longrightarrow> R s'"
  by (auto simp: hoare_def split: outcome.splits)

lemma hoareI:
  assumes "\<And>s a s'. P s \<Longrightarrow> m s = Ok a s' \<Longrightarrow> Q a s'"
    and "\<And>s e s'. P s \<Longrightarrow> m s = Err e s' \<Longrightarrow> R s'"
  shows "hoare P m Q R"
  using assms by (auto simp: hoare_def split: outcome.splits)

lemma hoare_weaken:
  assumes "hoare P' m Q' R'" and "\<And>s. P s \<Longrightarrow> P' s"
    and "\<And>a s. Q' a s \<Longrightarrow> Q a s" and "\<And>s. R' s \<Longrightarrow> R s"
  shows "hoare P m Q R"
  using assms by (fastforce simp: hoare_def split: outcome.splits)

lemma hoare_pre: "hoare P' m Q R \<Longrightarrow> (\<And>s. P s \<Longrightarrow> P' s) \<Longrightarrow> hoare P m Q R"
  by (rule hoare_weaken)

lemma hoare_conj:
  "hoare P m Q R \<Longrightarrow> hoare P' m Q' R' \<Longrightarrow>
   hoare (\<lambda>s. P s \<and> P' s) m (\<lambda>a s. Q a s \<and> Q' a s) (\<lambda>s. R s \<and> R' s)"
  by (fastforce simp: hoare_def split: outcome.splits)

lemma hoare_bind:
  assumes "hoare P m Q R" and "\<And>a. hoare (Q a) (f a) Q' R"
  shows "hoare P (bind m f) Q' R"
  using assms by (fastforce simp: hoare_def bind_def split: outcome.splits)

lemma hoare_ret: "hoare (Q a) (ret a) Q R"
  by (simp add: hoare_def ret_def)

lemma hoare_throw: "hoare R (throw e) Q R"
  by (simp add: hoare_def throw_def)

lemma hoare_panic [simp]: "hoare P panic Q R"
  by (simp add: hoare_def panic_def)

lemma hoare_gets: "hoare (\<lambda>s. Q (f s) s) (gets f) Q R"
  by (simp add: hoare_def gets_def)

lemma hoare_modify: "hoare (\<lambda>s. Q () (f s)) (modify f) Q R"
  by (simp add: hoare_def modify_def)

lemma hoare_check: "hoare (\<lambda>s. (b \<longrightarrow> Q () s) \<and> (\<not> b \<longrightarrow> R s)) (check b e) Q R"
  by (simp add: hoare_def check_def ret_def throw_def)

lemma hoare_or_panic: "hoare (\<lambda>s. \<forall>a. x = Some a \<longrightarrow> Q a s) (or_panic x) Q R"
  by (cases x) (simp_all add: hoare_def act_defs)

lemma hoare_or_throw:
  "hoare (\<lambda>s. (\<forall>a. x = Inr a \<longrightarrow> Q a s) \<and> (\<forall>e. x = Inl e \<longrightarrow> R s)) (or_throw x) Q R"
  by (cases x) (simp_all add: hoare_def act_defs)

lemma hoare_found_or:
  "hoare (\<lambda>s. (\<forall>a. x = Some a \<longrightarrow> Q a s) \<and> (x = None \<longrightarrow> R s)) (found_or e x) Q R"
  by (cases x) (simp_all add: hoare_def act_defs)

lemma hoare_attempt:
  "hoare P m (\<lambda>a. Q (Inr a)) (\<lambda>s. \<forall>e. Q (Inl e) s) \<Longrightarrow> hoare P (attempt m) Q R"
  by (fastforce simp: hoare_def attempt_def split: outcome.splits)

lemmas hoare_basic = hoare_ret hoare_throw hoare_gets hoare_modify hoare_check hoare_or_panic
  hoare_or_throw hoare_found_or

text \<open>Forward rules for the actions that only read, check or decide: symbolic execution of a
  handler from its precondition.\<close>

lemma hoare_bind_gets:
  "(\<And>x. hoare (\<lambda>s. P s \<and> x = f s) (g x) Q R) \<Longrightarrow> hoare P (bind (gets f) g) Q R"
  by (auto simp: hoare_def bind_def gets_def)

lemma hoare_bind_check:
  "(\<And>s. P s \<Longrightarrow> \<not> b \<Longrightarrow> R s) \<Longrightarrow> (b \<Longrightarrow> hoare P (g ()) Q R) \<Longrightarrow> hoare P (bind (check b e) g) Q R"
  by (auto simp: hoare_def bind_def check_def ret_def throw_def)

lemma hoare_bind_or_panic:
  "(\<And>x. v = Some x \<Longrightarrow> hoare P (g x) Q R) \<Longrightarrow> hoare P (bind (or_panic v) g) Q R"
  by (cases v) (simp_all add: hoare_def bind_def panic_def)

lemma hoare_bind_or_throw:
  "(\<And>s e. P s \<Longrightarrow> v = Inl e \<Longrightarrow> R s) \<Longrightarrow> (\<And>x. v = Inr x \<Longrightarrow> hoare P (g x) Q R) \<Longrightarrow>
   hoare P (bind (or_throw v) g) Q R"
  by (cases v) (simp_all add: hoare_def throw_def)

lemma hoare_bind_found_or:
  "(\<And>s. P s \<Longrightarrow> v = None \<Longrightarrow> R s) \<Longrightarrow> (\<And>x. v = Some x \<Longrightarrow> hoare P (g x) Q R) \<Longrightarrow>
   hoare P (bind (found_or e v) g) Q R"
  by (cases v) (simp_all add: hoare_def throw_def)

lemma hoare_if:
  "(b \<Longrightarrow> hoare P m Q R) \<Longrightarrow> (\<not> b \<Longrightarrow> hoare P n Q R) \<Longrightarrow> hoare P (if b then m else n) Q R"
  by simp

lemma hoare_case_prod:
  "(\<And>a b. x = (a, b) \<Longrightarrow> hoare P (f a b) Q R) \<Longrightarrow> hoare P (case x of (a, b) \<Rightarrow> f a b) Q R"
  by (cases x) simp

lemmas hoare_steps = hoare_bind_gets hoare_bind_check hoare_bind_or_panic hoare_bind_or_throw
  hoare_bind_found_or hoare_if

text \<open>A fact that the precondition gives of every state moves into the context.\<close>

lemma hoare_fact: "(\<And>s. P s \<Longrightarrow> F) \<Longrightarrow> (F \<Longrightarrow> hoare P m Q R) \<Longrightarrow> hoare P m Q R"
  unfolding hoare_def by blast

text \<open>A loop keeps an invariant that speaks of the elements still to come.\<close>

lemma hoare_each:
  assumes "\<And>x xs. hoare (I (x # xs)) (f x) (\<lambda>_. I xs) R"
  shows "hoare (I xs) (each f xs) (\<lambda>_. I []) R"
proof (induction xs)
  case Nil
  show ?case unfolding each.simps by (rule hoare_ret)
next
  case (Cons x xs)
  show ?case unfolding each.simps by (rule hoare_bind [OF assms Cons.IH])
qed

lemma hoare_each_map:
  assumes "\<And>x xs. hoare (I (x # xs)) (f x) (\<lambda>_. I xs) R"
  shows "hoare (I xs) (each_map f xs) (\<lambda>_. I []) R"
proof (induction xs)
  case Nil
  show ?case unfolding each_map.simps by (rule hoare_ret)
next
  case (Cons x xs)
  show ?case unfolding each_map.simps
    by (rule hoare_bind [OF assms], rule hoare_bind [OF Cons.IH]) (rule hoare_ret)
qed

subsection \<open>Invariants\<close>

lemma keepsI:
  assumes "\<And>s a s'. I s \<Longrightarrow> m s = Ok a s' \<Longrightarrow> I s'"
    and "\<And>s e s'. I s \<Longrightarrow> m s = Err e s' \<Longrightarrow> I s'"
  shows "keeps I m"
  unfolding keeps_def using assms by (rule hoareI)

lemma keeps_Ok: "keeps I m \<Longrightarrow> I s \<Longrightarrow> m s = Ok a s' \<Longrightarrow> I s'"
  unfolding keeps_def by (rule hoare_Ok)

lemma keeps_Err: "keeps I m \<Longrightarrow> I s \<Longrightarrow> m s = Err e s' \<Longrightarrow> I s'"
  unfolding keeps_def by (rule hoare_Err)

lemma keeps_bind [keeps_rules]:
  "keeps I m \<Longrightarrow> (\<And>a. keeps I (f a)) \<Longrightarrow> keeps I (bind m f)"
  unfolding keeps_def by (rule hoare_bind)

lemma keeps_bind_post:
  "hoare I m (\<lambda>a s. I s \<and> Q a) I \<Longrightarrow> (\<And>a. Q a \<Longrightarrow> keeps I (f a)) \<Longrightarrow> keeps I (bind m f)"
  unfolding keeps_def by (erule hoare_bind) (auto simp: hoare_def)

lemma keeps_basic [keeps_rules]:
  "keeps I (ret a)" "keeps I (throw e)" "keeps I panic" "keeps I out_of_fuel"
  "keeps I (gets g)" "keeps I (check b e)" "keeps I (or_panic x)" "keeps I (or_throw y)"
  "keeps I (found_or e x)"
  by (simp_all add: keeps_def hoare_def act_defs split: option.splits sum.splits)

lemma keeps_modify: "(\<And>s. I s \<Longrightarrow> I (g s)) \<Longrightarrow> keeps I (modify g)"
  by (simp add: keeps_def hoare_def modify_def)

lemma keeps_attempt [keeps_rules]: "keeps I m \<Longrightarrow> keeps I (attempt m)"
  unfolding keeps_def by (rule hoare_attempt) simp

lemma keeps_if [keeps_rules]:
  "(b \<Longrightarrow> keeps I m) \<Longrightarrow> (\<not> b \<Longrightarrow> keeps I n) \<Longrightarrow> keeps I (if b then m else n)"
  by simp

lemma keeps_case_option [keeps_rules]:
  "(x = None \<Longrightarrow> keeps I m) \<Longrightarrow> (\<And>a. x = Some a \<Longrightarrow> keeps I (f a)) \<Longrightarrow>
   keeps I (case x of None \<Rightarrow> m | Some a \<Rightarrow> f a)"
  by (cases x) simp_all

lemma keeps_case_sum [keeps_rules]:
  "(\<And>e. x = Inl e \<Longrightarrow> keeps I (g e)) \<Longrightarrow> (\<And>a. x = Inr a \<Longrightarrow> keeps I (f a)) \<Longrightarrow>
   keeps I (case x of Inl e \<Rightarrow> g e | Inr a \<Rightarrow> f a)"
  by (cases x) simp_all

lemma keeps_case_prod [keeps_rules]:
  "(\<And>a b. x = (a, b) \<Longrightarrow> keeps I (f a b)) \<Longrightarrow> keeps I (case x of (a, b) \<Rightarrow> f a b)"
  by (cases x) simp

lemma keeps_each [keeps_rules]: "(\<And>x. x \<in> set xs \<Longrightarrow> keeps I (f x)) \<Longrightarrow> keeps I (each f xs)"
  by (induction xs) (auto intro: keeps_rules)

lemma keeps_each_map [keeps_rules]:
  "(\<And>x. x \<in> set xs \<Longrightarrow> keeps I (f x)) \<Longrightarrow> keeps I (each_map f xs)"
  by (induction xs) (auto intro!: keeps_rules)

lemma keeps_conj:
  "keeps I m \<Longrightarrow> keeps J m \<Longrightarrow> keeps (\<lambda>s. I s \<and> J s) m"
  unfolding keeps_def by (drule (1) hoare_conj) (erule hoare_weaken; simp)

subsection \<open>Fuel\<close>

text \<open>\<open>fueled P m\<close>: from a state with \<open>P\<close> the action does not run out of fuel.\<close>

definition fueled :: "('s \<Rightarrow> bool) \<Rightarrow> ('a, 's) act \<Rightarrow> bool" where
  "fueled P m \<longleftrightarrow> (\<forall>s. P s \<longrightarrow> m s \<noteq> OutOfFuel)"

lemma fueledD: "fueled P m \<Longrightarrow> P s \<Longrightarrow> m s \<noteq> OutOfFuel"
  by (simp add: fueled_def)

named_theorems fueled_rules \<open>compositional rules for fuel\<close>

lemma fueled_bind:
  "fueled P m \<Longrightarrow> hoare P m Q R \<Longrightarrow> (\<And>a. fueled (Q a) (f a)) \<Longrightarrow> fueled P (bind m f)"
  by (fastforce simp: fueled_def hoare_def bind_def split: outcome.splits)

lemma fueled_bind_inv [fueled_rules]:
  "fueled P m \<Longrightarrow> keeps P m \<Longrightarrow> (\<And>a. fueled P (f a)) \<Longrightarrow> fueled P (bind m f)"
  unfolding keeps_def by (rule fueled_bind)

lemma fueled_basic [fueled_rules]:
  "fueled P (ret a)" "fueled P (throw e)" "fueled P panic" "fueled P (gets g)"
  "fueled P (modify h)" "fueled P (check b e)" "fueled P (or_panic x)" "fueled P (or_throw y)"
  "fueled P (found_or e x)"
  by (simp_all add: fueled_def act_defs split: option.splits sum.splits)

lemma fueled_attempt [fueled_rules]: "fueled P m \<Longrightarrow> fueled P (attempt m)"
  by (fastforce simp: fueled_def attempt_def split: outcome.splits)

lemma fueled_if [fueled_rules]:
  "(b \<Longrightarrow> fueled P m) \<Longrightarrow> (\<not> b \<Longrightarrow> fueled P n) \<Longrightarrow> fueled P (if b then m else n)"
  by simp

lemma fueled_case_option [fueled_rules]:
  "(x = None \<Longrightarrow> fueled P m) \<Longrightarrow> (\<And>a. x = Some a \<Longrightarrow> fueled P (f a)) \<Longrightarrow>
   fueled P (case x of None \<Rightarrow> m | Some a \<Rightarrow> f a)"
  by (cases x) simp_all

lemma fueled_case_prod [fueled_rules]:
  "(\<And>a b. x = (a, b) \<Longrightarrow> fueled P (f a b)) \<Longrightarrow> fueled P (case x of (a, b) \<Rightarrow> f a b)"
  by (cases x) simp

lemma fueled_each [fueled_rules]:
  "(\<And>x. x \<in> set xs \<Longrightarrow> fueled P (f x)) \<Longrightarrow> (\<And>x. x \<in> set xs \<Longrightarrow> keeps P (f x)) \<Longrightarrow>
   fueled P (each f xs)"
  by (induction xs) (auto intro: fueled_rules)

lemma fueled_each_map [fueled_rules]:
  "(\<And>x. x \<in> set xs \<Longrightarrow> fueled P (f x)) \<Longrightarrow> (\<And>x. x \<in> set xs \<Longrightarrow> keeps P (f x)) \<Longrightarrow>
   fueled P (each_map f xs)"
  by (induction xs) (auto intro!: fueled_rules keeps_rules)

lemma fueled_weaken: "fueled P m \<Longrightarrow> (\<And>s. Q s \<Longrightarrow> P s) \<Longrightarrow> fueled Q m"
  by (simp add: fueled_def)

subsection \<open>Lists\<close>

lemma sum_list_map_update:
  fixes f :: "'a \<Rightarrow> int"
  shows "i < length xs \<Longrightarrow> (\<Sum>x\<leftarrow>xs[i := y]. f x) = (\<Sum>x\<leftarrow>xs. f x) - f (xs ! i) + f y"
  by (induction xs arbitrary: i) (auto split: nat.splits)

lemma prefix_append_eq_length:
  "prefix (xs @ ys) (zs @ ws) \<Longrightarrow> length xs = length zs \<Longrightarrow> xs = zs \<and> prefix ys ws"
  by (auto simp: prefix_def append_eq_append_conv)

lemma prefix_eq_length: "prefix xs ys \<Longrightarrow> length xs = length ys \<Longrightarrow> xs = ys"
  by (auto simp: prefix_def)

end
