(* ===== verification/Store.thy ===== *)
theory Store
  imports Prelude
begin

text \<open>
  The key-value store a module writes through \<^verbatim>\<open>ctx.KVStore(key)\<close>.  The code relies on
  its documented contract only: \<^verbatim>\<open>Has\<close>, \<^verbatim>\<open>Get\<close>, \<^verbatim>\<open>Set\<close> and
  \<^verbatim>\<open>Delete\<close> by byte key, and \<^verbatim>\<open>KVStorePrefixIterator\<close>, which runs through the
  entries whose key starts with a prefix in ascending byte order of the keys.  The locale
  \<open>kv_store\<close> states that contract and derives what the keepers need from it; the model
  runs on sorted association lists, which are shown to satisfy it.  Keys are byte strings
  (a \<open>char\<close> is a byte, ordered by its value).  Values are the unmarshalled objects: the
  generated codec is not modelled.  An iteration runs over the entries there are when it begins, also where the loop's body writes.
\<close>

type_synonym 'v kv = "(string \<times> 'v) list"

abbreviation kv_empty :: "'v kv" where
  "kv_empty \<equiv> []"

definition kv_get :: "'v kv \<Rightarrow> string \<Rightarrow> 'v option" where
  "kv_get m k = map_of m k"

fun kv_set :: "string \<Rightarrow> 'v \<Rightarrow> 'v kv \<Rightarrow> 'v kv" where
  "kv_set k v [] = [(k, v)]"
| "kv_set k v ((k', v') # m) =
     (if k = k' then (k, v) # m
      else if k < k' then (k, v) # (k', v') # m
      else (k', v') # kv_set k v m)"

definition kv_del :: "string \<Rightarrow> 'v kv \<Rightarrow> 'v kv" where
  "kv_del k m = filter (\<lambda>e. fst e \<noteq> k) m"

definition kv_has :: "'v kv \<Rightarrow> string \<Rightarrow> bool" where
  "kv_has m k \<longleftrightarrow> kv_get m k \<noteq> None"

definition kv_iter :: "string \<Rightarrow> 'v kv \<Rightarrow> 'v list" where
  "kv_iter p m = map snd (filter (\<lambda>e. prefix p (fst e)) m)"

definition kv_ok :: "'v kv \<Rightarrow> bool" where
  "kv_ok m \<longleftrightarrow> sorted_wrt (<) (map fst m)"

definition kv_entries :: "'v kv \<Rightarrow> (string \<times> 'v) list" where
  "kv_entries m = m"

definition kv_total :: "('v \<Rightarrow> int) \<Rightarrow> 'v kv \<Rightarrow> int" where
  "kv_total f m = (\<Sum>e\<leftarrow>m. f (snd e))"

subsection \<open>The contract\<close>

locale kv_store =
  fixes empty :: 'm
    and get :: "'m \<Rightarrow> string \<Rightarrow> 'v option"
    and put :: "string \<Rightarrow> 'v \<Rightarrow> 'm \<Rightarrow> 'm"
    and del :: "string \<Rightarrow> 'm \<Rightarrow> 'm"
    and entries :: "'m \<Rightarrow> (string \<times> 'v) list"
    and ok :: "'m \<Rightarrow> bool"
  assumes ok_empty: "ok empty"
    and ok_put: "ok m \<Longrightarrow> ok (put k v m)"
    and ok_del: "ok m \<Longrightarrow> ok (del k m)"
    and get_empty: "get empty k = None"
    and get_put: "ok m \<Longrightarrow> get (put k v m) = (get m)(k \<mapsto> v)"
    and get_del: "ok m \<Longrightarrow> get (del k m) = (get m)(k := None)"
    and entries_get: "ok m \<Longrightarrow> (k, v) \<in> set (entries m) \<longleftrightarrow> get m k = Some v"
    and entries_sorted: "ok m \<Longrightarrow> sorted_wrt (<) (map fst (entries m))"
begin

lemma distinct_keys: "ok m \<Longrightarrow> distinct (map fst (entries m))"
  using entries_sorted by (fastforce simp: strict_sorted_iff)

lemma distinct_entries: "ok m \<Longrightarrow> distinct (entries m)"
  using distinct_keys distinct_map by blast

lemma finite_dom: "ok m \<Longrightarrow> finite (dom (get m))"
proof -
  assume "ok m"
  then have "dom (get m) \<subseteq> set (map fst (entries m))"
    by (force simp: entries_get [symmetric])
  then show ?thesis by (rule finite_subset) simp
qed

text \<open>What a prefix iterator visits.\<close>

lemma iter_member:
  "ok m \<Longrightarrow> v \<in> set (map snd (filter (\<lambda>e. prefix p (fst e)) (entries m))) \<longleftrightarrow>
     (\<exists>k. prefix p k \<and> get m k = Some v)"
  by (force simp: entries_get [symmetric])

text \<open>A total over all stored values, and how a write changes it.\<close>

lemma total_dom:
  fixes f :: "'v \<Rightarrow> int"
  assumes "ok m"
  shows "(\<Sum>e\<leftarrow>entries m. f (snd e)) = (\<Sum>k\<in>dom (get m). f (the (get m k)))"
proof -
  have inj: "inj_on fst (set (entries m))"
    using distinct_keys [OF assms] by (simp add: distinct_map)
  have img: "fst ` set (entries m) = dom (get m)"
    using entries_get [OF assms] by force
  have "(\<Sum>e\<leftarrow>entries m. f (snd e)) = (\<Sum>e\<in>set (entries m). f (snd e))"
    by (simp add: sum_list_distinct_conv_sum_set distinct_entries [OF assms])
  also have "\<dots> = (\<Sum>e\<in>set (entries m). f (the (get m (fst e))))"
    by (rule sum.cong) (auto simp: entries_get [OF assms])
  also have "\<dots> = (\<Sum>k\<in>dom (get m). f (the (get m k)))"
    by (simp add: sum.reindex [OF inj, unfolded img comp_def])
  finally show ?thesis .
qed

lemma total_put:
  fixes f :: "'v \<Rightarrow> int"
  assumes "ok m"
  shows "(\<Sum>e\<leftarrow>entries (put k v m). f (snd e)) =
    (\<Sum>e\<leftarrow>entries m. f (snd e)) - (case get m k of None \<Rightarrow> 0 | Some u \<Rightarrow> f u) + f v"
proof -
  let ?g = "\<lambda>m k. f (the (get m k))"
  have fin: "finite (dom (get m) - {k})" using finite_dom [OF assms] by simp
  have "(\<Sum>e\<leftarrow>entries (put k v m). f (snd e)) = (\<Sum>j\<in>insert k (dom (get m) - {k}). ?g (put k v m) j)"
    by (simp add: total_dom ok_put assms get_put)
  also have "\<dots> = f v + (\<Sum>j\<in>dom (get m) - {k}. ?g m j)"
    using fin by (subst sum.insert) (auto simp: get_put assms intro!: sum.cong)
  also have "(\<Sum>j\<in>dom (get m) - {k}. ?g m j) =
      (\<Sum>e\<leftarrow>entries m. f (snd e)) - (case get m k of None \<Rightarrow> 0 | Some u \<Rightarrow> f u)"
    using finite_dom [OF assms]
    by (cases "get m k") (auto simp: total_dom assms sum_diff1 domIff)
  finally show ?thesis by simp
qed

end

subsection \<open>Sorted association lists satisfy it\<close>

lemma kv_ok_Nil [simp]: "kv_ok []"
  by (simp add: kv_ok_def)

lemma fst_set_kv_set: "fst ` set (kv_set k v m) = insert k (fst ` set m)"
  by (induction k v m rule: kv_set.induct) auto

lemma kv_ok_set: "kv_ok m \<Longrightarrow> kv_ok (kv_set k v m)"
proof (induction k v m rule: kv_set.induct)
  case (1 k v)
  show ?case by (simp add: kv_ok_def)
next
  case (2 k v k' v' m)
  have hd: "\<forall>x\<in>fst ` set m. k' < x" and tl: "kv_ok m"
    using "2.prems" by (auto simp: kv_ok_def)
  consider "k = k'" | "k \<noteq> k'" "k < k'" | "k \<noteq> k'" "\<not> k < k'" by blast
  then show ?case
  proof cases
    case 1
    then show ?thesis using hd tl by (simp add: kv_ok_def)
  next
    case 2
    then show ?thesis using hd tl by (auto simp: kv_ok_def intro: less_trans)
  next
    case 3
    then have "kv_ok (kv_set k v m)" using "2.IH" tl by simp
    moreover have "\<forall>x\<in>fst ` set (kv_set k v m). k' < x"
      using 3 hd by (auto simp: fst_set_kv_set)
    ultimately show ?thesis using 3 by (simp add: kv_ok_def)
  qed
qed

lemma kv_get_set: "kv_get (kv_set k v m) j = (if j = k then Some v else kv_get m j)"
  by (induction k v m rule: kv_set.induct) (auto simp: kv_get_def)

lemma kv_get_del: "kv_get (kv_del k m) j = (if j = k then None else kv_get m j)"
  by (induction m) (auto simp: kv_get_def kv_del_def)

lemma kv_ok_distinct: "kv_ok m \<Longrightarrow> distinct (map fst m)"
  by (simp add: kv_ok_def strict_sorted_iff)

interpretation kv: kv_store "[] :: 'v kv" kv_get kv_set kv_del kv_entries kv_ok
proof unfold_locales
  fix m :: "'v kv" and k v
  assume ok: "kv_ok m"
  show "kv_ok (kv_set k v m)" using ok by (rule kv_ok_set)
  show "kv_ok (kv_del k m)" using ok by (simp add: kv_ok_def kv_del_def sorted_wrt_map sorted_wrt_filter)
  show "kv_get (kv_set k v m) = (kv_get m)(k \<mapsto> v)" by (simp add: fun_eq_iff kv_get_set)
  show "kv_get (kv_del k m) = (kv_get m)(k := None)" by (simp add: fun_eq_iff kv_get_del)
  show "(k, v) \<in> set (kv_entries m) \<longleftrightarrow> kv_get m k = Some v"
    using kv_ok_distinct [OF ok] by (simp add: kv_get_def kv_entries_def)
  show "sorted_wrt (<) (map fst (kv_entries m))" using ok by (simp add: kv_ok_def kv_entries_def)
qed (simp_all add: kv_get_def)

lemma kv_get_empty [simp]: "kv_get [] k = None"
  by (simp add: kv_get_def)

lemmas kv_get_simps [simp] = kv_get_set kv_get_del

lemmas kv_ok_intros [simp, intro] = kv.ok_put kv.ok_del

lemma kv_total_set:
  "kv_ok m \<Longrightarrow> kv_total f (kv_set k v m) =
     kv_total f m - (case kv_get m k of None \<Rightarrow> 0 | Some u \<Rightarrow> f u) + f v"
  using kv.total_put [of m f k v] by (simp add: kv_total_def kv_entries_def)

lemma kv_total_Nil [simp]: "kv_total f [] = 0"
  by (simp add: kv_total_def)

lemma kv_iter_member:
  "kv_ok m \<Longrightarrow> v \<in> set (kv_iter p m) \<longleftrightarrow> (\<exists>k. prefix p k \<and> kv_get m k = Some v)"
  using kv.iter_member [of m v p] by (simp add: kv_iter_def kv_entries_def)

end
