(* ===== verification/Sdk.thy ===== *)
theory Sdk
  imports Store
begin

text \<open>
  What the on-chain code takes from the SDK.

  \<open>coin\<close> is \<^verbatim>\<open>sdk.Coin\<close>; its amount is an \<^verbatim>\<open>sdk.Int\<close>.  The operations follow
  the SDK's documented contract: an \<^verbatim>\<open>sdk.Int\<close> operation panics when its result leaves
  the type's range or on a zero divisor and \<^verbatim>\<open>Quo\<close> truncates; \<^verbatim>\<open>Coin.Add\<close> and
  \<^verbatim>\<open>Coin.Sub\<close> panic on different denominations and \<^verbatim>\<open>Coin.Sub\<close> on a negative
  result; \<^verbatim>\<open>NewCoin\<close> panics on a negative amount or a malformed denomination.  A panic
  is \<open>None\<close>.

  Everything else of the SDK the code calls is a field of the environment \<open>env\<close>, which
  the definitions take as an argument: the block height, the range of \<^verbatim>\<open>sdk.Int\<close>, which
  denominations are well formed, bech32 decoding and encoding of addresses, the addresses of
  module accounts, and the two
  transfers of the bank keeper on an arbitrary bank state \<open>'b\<close> (a transfer gives whether
  it failed, and the bank state after it).  Addresses are their raw bytes.
\<close>

record coin =
  Denom :: string
  Amount :: int

record 'b env =
  BlockHeight :: int
  IntMax :: int
  ValidDenom :: "string \<Rightarrow> bool"
  FromBech32 :: "string \<Rightarrow> string option"
  AddrString :: "string \<Rightarrow> string"
  ModuleAddress :: "string \<Rightarrow> string"
  BankToModule :: "string \<Rightarrow> string \<Rightarrow> coin list \<Rightarrow> 'b \<Rightarrow> bool \<times> 'b"
  BankFromModule :: "string \<Rightarrow> string \<Rightarrow> coin list \<Rightarrow> 'b \<Rightarrow> bool \<times> 'b"

subsection \<open>Integers and coins\<close>

definition int_chk :: "'b env \<Rightarrow> int \<Rightarrow> int option" where
  "int_chk E n = (if \<bar>n\<bar> \<le> IntMax E then Some n else None)"

definition int_quo :: "int \<Rightarrow> int \<Rightarrow> int option" where
  "int_quo a b = (if b = 0 then None else Some (sgn a * sgn b * (\<bar>a\<bar> div \<bar>b\<bar>)))"

definition int_mod :: "int \<Rightarrow> int \<Rightarrow> int option" where
  "int_mod a b = (if b = 0 then None else Some (a mod \<bar>b\<bar>))"

definition NewCoin :: "'b env \<Rightarrow> string \<Rightarrow> int \<Rightarrow> coin option" where
  "NewCoin E d n = (if ValidDenom E d \<and> 0 \<le> n then Some \<lparr>Denom = d, Amount = n\<rparr> else None)"

definition coin_add :: "'b env \<Rightarrow> coin \<Rightarrow> coin \<Rightarrow> coin option" where
  "coin_add E a b = (if Denom a \<noteq> Denom b then None else do {
     n \<leftarrow> int_chk E (Amount a + Amount b);
     Some (a\<lparr>Amount := n\<rparr>) })"

definition coin_sub :: "'b env \<Rightarrow> coin \<Rightarrow> coin \<Rightarrow> coin option" where
  "coin_sub E a b = (if Denom a \<noteq> Denom b then None else do {
     n \<leftarrow> int_chk E (Amount a - Amount b);
     if n < 0 then None else Some (a\<lparr>Amount := n\<rparr>) })"

definition coin_IsZero :: "coin \<Rightarrow> bool" where
  "coin_IsZero c \<longleftrightarrow> Amount c = 0"

definition coin_IsValid :: "'b env \<Rightarrow> coin \<Rightarrow> bool" where
  "coin_IsValid E c \<longleftrightarrow> ValidDenom E (Denom c) \<and> 0 \<le> Amount c"

definition coin_IsLT :: "coin \<Rightarrow> coin \<Rightarrow> bool option" where
  "coin_IsLT a b = (if Denom a \<noteq> Denom b then None else Some (Amount a < Amount b))"

text \<open>\<^verbatim>\<open>sdk.NewCoins(c)\<close>: the set without zero coins; panics on an invalid coin.\<close>

definition NewCoins :: "'b env \<Rightarrow> coin \<Rightarrow> coin list option" where
  "NewCoins E c = (if coin_IsZero c then Some []
     else if coin_IsValid E c then Some [c] else None)"

definition coins_amount :: "coin list \<Rightarrow> string \<Rightarrow> int" where
  "coins_amount cs d = (\<Sum>c\<leftarrow>cs. if Denom c = d then Amount c else 0)"

definition coin_in :: "coin \<Rightarrow> string \<Rightarrow> int" where
  "coin_in c d = (if Denom c = d then Amount c else 0)"

lemma int_chk_Some: "int_chk E n = Some m \<longleftrightarrow> m = n \<and> \<bar>n\<bar> \<le> IntMax E"
  by (auto simp: int_chk_def)

lemma int_quo_Some: "0 \<le> a \<Longrightarrow> 0 \<le> b \<Longrightarrow> int_quo a b = Some q \<longleftrightarrow> b \<noteq> 0 \<and> q = a div b"
  by (auto simp: int_quo_def sgn_if)

lemma int_mod_Some: "0 \<le> b \<Longrightarrow> int_mod a b = Some q \<longleftrightarrow> b \<noteq> 0 \<and> q = a mod b"
  by (auto simp: int_mod_def)

lemma NewCoin_Some:
  "NewCoin E d n = Some c \<longleftrightarrow> ValidDenom E d \<and> 0 \<le> n \<and> c = \<lparr>Denom = d, Amount = n\<rparr>"
  by (auto simp: NewCoin_def)

lemma coin_add_Some:
  "coin_add E a b = Some c \<longleftrightarrow>
     Denom a = Denom b \<and> \<bar>Amount a + Amount b\<bar> \<le> IntMax E \<and> c = a\<lparr>Amount := Amount a + Amount b\<rparr>"
  by (auto simp: coin_add_def int_chk_Some bind_eq_Some_conv)

lemma coin_sub_Some:
  "coin_sub E a b = Some c \<longleftrightarrow>
     Denom a = Denom b \<and> Amount b \<le> Amount a \<and> Amount a - Amount b \<le> IntMax E \<and>
     c = a\<lparr>Amount := Amount a - Amount b\<rparr>"
  by (auto simp: coin_sub_def int_chk_Some bind_eq_Some_conv split: if_splits)

lemma NewCoins_amount: "NewCoins E c = Some cs \<Longrightarrow> coins_amount cs d = coin_in c d"
  by (auto simp: NewCoins_def coins_amount_def coin_in_def coin_IsZero_def split: if_splits)

lemma coin_in_add:
  "coin_add E a b = Some c \<Longrightarrow> coin_in c d = coin_in a d + coin_in b d"
  by (auto simp: coin_add_Some coin_in_def)

lemma coin_in_sub:
  "coin_sub E a b = Some c \<Longrightarrow> coin_in c d = coin_in a d - coin_in b d"
  by (auto simp: coin_sub_Some coin_in_def)

lemma coin_in_zero [simp]: "coin_in \<lparr>Denom = e, Amount = 0\<rparr> d = 0"
  by (simp add: coin_in_def)

text \<open>The same without the range bounds, for facts that hold of whatever does not panic.\<close>

lemma coin_SomeD:
  "int_chk E n = Some m \<Longrightarrow> m = n"
  "NewCoin E e n = Some c \<Longrightarrow> 0 \<le> n \<and> c = \<lparr>Denom = e, Amount = n\<rparr>"
  "coin_add E a b = Some c \<Longrightarrow> Denom a = Denom b \<and> c = a\<lparr>Amount := Amount a + Amount b\<rparr>"
  "coin_sub E a b = Some c \<Longrightarrow> Denom a = Denom b \<and> Amount b \<le> Amount a \<and>
     c = a\<lparr>Amount := Amount a - Amount b\<rparr>"
  by (simp_all add: int_chk_Some NewCoin_Some coin_add_Some coin_sub_Some)

lemmas coin_Some = int_chk_Some NewCoin_Some coin_add_Some coin_sub_Some bind_eq_Some_conv

subsection \<open>What the code relies on of the bank and of bech32\<close>

text \<open>
  \<open>bank_laws E m bal\<close>: with \<open>bal b d\<close> the funds of module \<open>m\<close>'s account of
  denomination \<open>d\<close>, a transfer that succeeds moves exactly the coins, and one that fails
  moves nothing.  A transfer to the module says nothing when its sender is the module's own
  address, which has no key and signs no message; a transfer from the module refuses blocked
  recipients, module accounts among them.  \<open>addr_laws E\<close>: the string of an address that was decoded decodes to
  that address again, a decodable string has no slash (bech32 is alphanumeric), and addresses and
  their strings have a fixed length (the SDK admits 20-byte addresses only).  A string
  is \<open>canonical\<close> when it is the one its address prints as; bech32 also accepts the same
  address in upper case, which is not canonical.
\<close>

definition bank_laws :: "'b env \<Rightarrow> string \<Rightarrow> ('b \<Rightarrow> string \<Rightarrow> int) \<Rightarrow> bool" where
  "bank_laws E m bal \<longleftrightarrow>
     (\<forall>a cs b b'. a \<noteq> ModuleAddress E m \<longrightarrow> BankToModule E a m cs b = (True, b') \<longrightarrow>
        (\<forall>d. bal b' d = bal b d + coins_amount cs d)) \<and>
     (\<forall>a cs b b'. BankFromModule E m a cs b = (True, b') \<longrightarrow>
        (\<forall>d. bal b' d = bal b d - coins_amount cs d)) \<and>
     (\<forall>a cs b b'. BankToModule E a m cs b = (False, b') \<longrightarrow> (\<forall>d. bal b' d = bal b d)) \<and>
     (\<forall>a cs b b'. BankFromModule E m a cs b = (False, b') \<longrightarrow> (\<forall>d. bal b' d = bal b d))"

definition addr_laws :: "'b env \<Rightarrow> bool" where
  "addr_laws E \<longleftrightarrow>
     (\<forall>s a. FromBech32 E s = Some a \<longrightarrow> FromBech32 E (AddrString E a) = Some a) \<and>
     (\<forall>s a. FromBech32 E s = Some a \<longrightarrow> CHR ''/'' \<notin> set s) \<and>
     (\<forall>s a t b. FromBech32 E s = Some a \<longrightarrow> FromBech32 E t = Some b \<longrightarrow>
        length s = length t \<and> length a = length b)"

definition canonical :: "'b env \<Rightarrow> string \<Rightarrow> bool" where
  "canonical E s \<longleftrightarrow> (case FromBech32 E s of None \<Rightarrow> False | Some a \<Rightarrow> AddrString E a = s)"

lemma canonical_iff: "canonical E s \<longleftrightarrow> (\<exists>a. FromBech32 E s = Some a \<and> AddrString E a = s)"
  by (simp add: canonical_def split: option.splits)

definition decodable :: "'b env \<Rightarrow> string \<Rightarrow> bool" where
  "decodable E str \<longleftrightarrow> FromBech32 E str \<noteq> None"

text \<open>The spelling the chain prints for the address a string stands for.\<close>

definition std_address :: "'b env \<Rightarrow> string \<Rightarrow> string" where
  "std_address E s = (case FromBech32 E s of None \<Rightarrow> s | Some a \<Rightarrow> AddrString E a)"

lemma std_address_canonical: "canonical E s \<Longrightarrow> std_address E s = s"
  by (auto simp: canonical_iff std_address_def)

end
