(* ===== verification/Strconv.thy ===== *)
theory Strconv
  imports Sdk
begin

text \<open>
  The parts of Go's standard library the identifiers and store keys are built with: decimal
  printing (\<^verbatim>\<open>%d\<close>, \<^verbatim>\<open>%v\<close> and \<^verbatim>\<open>strconv.FormatUint(n, 10)\<close>),
  \<^verbatim>\<open>strconv.ParseUint(s, 10, bits)\<close>, \<^verbatim>\<open>strings.Split(s, "/")\<close> and
  \<^verbatim>\<open>binary.Write(buf, binary.BigEndian, n)\<close>; with their round trips.
\<close>

definition digit :: "nat \<Rightarrow> char" where
  "digit n = char_of (48 + n)"

fun FormatUint :: "nat \<Rightarrow> string" where
  "FormatUint n = (if n < 10 then [digit n] else FormatUint (n div 10) @ [digit (n mod 10)])"

declare FormatUint.simps [simp del]

definition is_digit :: "char \<Rightarrow> bool" where
  "is_digit c \<longleftrightarrow> 48 \<le> (of_char c :: nat) \<and> (of_char c :: nat) \<le> 57"

definition digits_value :: "string \<Rightarrow> nat" where
  "digits_value s = foldl (\<lambda>n c. 10 * n + (of_char c - 48)) 0 s"

definition ParseUint :: "nat \<Rightarrow> string \<Rightarrow> nat option" where
  "ParseUint bits s =
     (if s = [] \<or> \<not> list_all is_digit s then None
      else let n = digits_value s in if n < 2 ^ bits then Some n else None)"

fun split_slash :: "string \<Rightarrow> string list" where
  "split_slash [] = [[]]"
| "split_slash (c # s) =
     (if c = CHR ''/'' then [] # split_slash s
      else (case split_slash s of [] \<Rightarrow> [[c]] | p # ps \<Rightarrow> (c # p) # ps))"

fun big_endian :: "nat \<Rightarrow> nat \<Rightarrow> string" where
  "big_endian 0 n = []"
| "big_endian (Suc k) n = big_endian k (n div 256) @ [char_of (n mod 256)]"

subsection \<open>Decimal\<close>

text \<open>For evaluation: the bound is compared in binary.\<close>

lemma ParseUint_code [code]:
  "ParseUint bits s =
     (if s = [] \<or> \<not> list_all is_digit s then None
      else let n = digits_value s in if int n < 2 ^ bits then Some n else None)"
proof -
  have "int n < 2 ^ bits \<longleftrightarrow> n < 2 ^ bits" for n by (metis of_nat_less_iff of_nat_numeral of_nat_power)
  then show ?thesis by (simp only: ParseUint_def Let_def)
qed


lemma of_char_digit: "n < 10 \<Longrightarrow> (of_char (digit n) :: nat) = 48 + n"
  by (simp add: digit_def)

lemma is_digit_digit [simp]: "n < 10 \<Longrightarrow> is_digit (digit n)"
  by (simp add: is_digit_def of_char_digit)

lemma FormatUint_digits: "list_all is_digit (FormatUint n)"
proof (induction n rule: FormatUint.induct)
  case (1 n)
  then show ?case by (cases "n < 10") (simp_all add: FormatUint.simps [of n])
qed

lemma FormatUint_nonempty [simp]: "FormatUint n \<noteq> []"
  by (simp add: FormatUint.simps [of n])

lemma digits_value_FormatUint: "digits_value (FormatUint n) = n"
proof (induction n rule: FormatUint.induct)
  case (1 n)
  show ?case
  proof (cases "n < 10")
    case True
    then show ?thesis by (simp add: FormatUint.simps [of n] digits_value_def of_char_digit)
  next
    case False
    with 1 have "digits_value (FormatUint (n div 10)) = n div 10" by simp
    with False show ?thesis
      by (simp add: FormatUint.simps [of n] digits_value_def of_char_digit)
  qed
qed

lemma ParseUint_FormatUint: "n < 2 ^ bits \<Longrightarrow> ParseUint bits (FormatUint n) = Some n"
  by (simp add: ParseUint_def FormatUint_digits digits_value_FormatUint)

lemma ParseUint_bound: "ParseUint bits s = Some n \<Longrightarrow> n < 2 ^ bits"
  by (auto simp: ParseUint_def Let_def split: if_splits)

lemma slash_not_digit: "\<not> is_digit (CHR ''/'')"
  by (simp add: is_digit_def)

lemma FormatUint_no_slash [simp]: "CHR ''/'' \<notin> set (FormatUint n)"
  using FormatUint_digits [of n] slash_not_digit by (auto simp: list_all_iff)

lemma FormatUint_inj: "FormatUint m = FormatUint n \<longleftrightarrow> m = n"
  by (metis digits_value_FormatUint)

subsection \<open>Splitting\<close>

lemma split_slash_nonempty [simp]: "split_slash s \<noteq> []"
  by (cases s) (simp_all split: list.split)

lemma split_slash_no_slash: "CHR ''/'' \<notin> set s \<Longrightarrow> split_slash s = [s]"
  by (induction s) auto

lemma split_slash_append:
  "CHR ''/'' \<notin> set s \<Longrightarrow> split_slash (s @ CHR ''/'' # t) = s # split_slash t"
  by (induction s) auto

lemmas split_simps = split_slash_append split_slash_no_slash

subsection \<open>Big endian\<close>

lemma length_big_endian [simp]: "length (big_endian k n) = k"
  by (induction k n rule: big_endian.induct) simp_all

lemma big_endian_inj:
  "m < 256 ^ k \<Longrightarrow> n < 256 ^ k \<Longrightarrow> big_endian k m = big_endian k n \<longleftrightarrow> m = n"
proof (induction k m arbitrary: n rule: big_endian.induct)
  case (1 n)
  then show ?case by simp
next
  case (2 k m)
  have "m div 256 < 256 ^ k" "n div 256 < 256 ^ k"
    using 2 by (simp_all add: less_mult_imp_div_less mult.commute)
  with 2 have IH: "big_endian k (m div 256) = big_endian k (n div 256) \<longleftrightarrow> m div 256 = n div 256"
    by simp
  have c: "char_of (m mod 256) = (char_of (n mod 256) :: char) \<longleftrightarrow> m mod 256 = n mod 256"
    by (metis char_of_quasi_inj mod_mod_trivial)
  show ?case
    using IH c by (auto) (metis div_mult_mod_eq)
qed

definition be64 :: "64 word \<Rightarrow> string" where
  "be64 w = big_endian 8 (unat w)"

definition be32 :: "32 word \<Rightarrow> string" where
  "be32 w = big_endian 4 (unat w)"

text \<open>For evaluation: the bytes of a word that is not known yet are not expanded.\<close>

lemma be_code [code]:
  "be64 v = (if uint v \<le> 18446744073709551615 then big_endian 8 (unat v) else [])"
  "be32 w = (if uint w \<le> 4294967295 then big_endian 4 (unat w) else [])"
  using uint_lt2p [of v] uint_lt2p [of w] by (simp_all add: be64_def be32_def)

lemma length_be [simp]: "length (be64 v) = 8" "length (be32 w) = 4"
  by (simp_all add: be64_def be32_def)

lemma be64_inj [simp]: "be64 v = be64 w \<longleftrightarrow> v = w"
proof -
  have "unat v < 2 ^ LENGTH(64)" "unat w < 2 ^ LENGTH(64)"
    by (rule unsigned_less)+
  then have "unat v < 256 ^ 8" "unat w < 256 ^ 8" by simp_all
  then show ?thesis by (simp add: be64_def big_endian_inj word_unat_eq_iff)
qed

lemma be32_inj [simp]: "be32 v = be32 w \<longleftrightarrow> v = w"
proof -
  have "unat v < 2 ^ LENGTH(32)" "unat w < 2 ^ LENGTH(32)"
    by (rule unsigned_less)+
  then have "unat v < 256 ^ 4" "unat w < 256 ^ 4" by simp_all
  then show ?thesis by (simp add: be32_def big_endian_inj word_unat_eq_iff)
qed

subsection \<open>Words\<close>

definition FormatWord :: "'a::len word \<Rightarrow> string" where
  "FormatWord w = FormatUint (unat w)"

lemma ParseUint_FormatWord:
  fixes w :: "'a::len word"
  shows "ParseUint LENGTH('a) (FormatWord w) = Some (unat w)"
  unfolding FormatWord_def by (rule ParseUint_FormatUint) simp

lemma ParseUint_Format64 [simp]: "ParseUint 64 (FormatWord (w :: 64 word)) = Some (unat w)"
  using ParseUint_FormatWord [of w] by simp

lemma ParseUint_Format32 [simp]: "ParseUint 32 (FormatWord (w :: 32 word)) = Some (unat w)"
  using ParseUint_FormatWord [of w] by simp

lemma FormatWord_no_slash [simp]: "CHR ''/'' \<notin> set (FormatWord w)"
  by (simp add: FormatWord_def)

lemma FormatWord_inj [simp]: "FormatWord v = FormatWord w \<longleftrightarrow> v = w"
  by (simp add: FormatWord_def FormatUint_inj word_unat_eq_iff)

end
