(* ===== verification/Ids.thy ===== *)
theory Ids
  imports Strconv
begin

text \<open>
  Identifiers (\<^verbatim>\<open>x/deployment/types/id.go\<close>, \<^verbatim>\<open>x/market/types/id.go\<close>), the escrow
  accounts and payments named after them (\<^verbatim>\<open>types/escrow.go\<close> of both modules), and the
  store keys of the keepers (\<^verbatim>\<open>keeper/key.go\<close> of escrow, deployment, market).  Sequence
  numbers keep their width.  \<^verbatim>\<open>LeaseID\<close> and \<^verbatim>\<open>BidID\<close> are the same struct in the
  source and convert into each other, so they are one record here.
\<close>

record deployment_id =
  did_Owner :: string
  did_DSeq :: "64 word"

record group_id =
  gid_Owner :: string
  gid_DSeq :: "64 word"
  gid_GSeq :: "32 word"

record order_id =
  oid_Owner :: string
  oid_DSeq :: "64 word"
  oid_GSeq :: "32 word"
  oid_OSeq :: "32 word"

record bid_id =
  bid_Owner :: string
  bid_DSeq :: "64 word"
  bid_GSeq :: "32 word"
  bid_OSeq :: "32 word"
  bid_Provider :: string

type_synonym lease_id = bid_id

record account_id =
  aid_Scope :: string
  aid_XID :: string

subsection \<open>Conversions\<close>

definition MakeGroupID :: "deployment_id \<Rightarrow> 32 word \<Rightarrow> group_id" where
  "MakeGroupID i gseq = \<lparr>gid_Owner = did_Owner i, gid_DSeq = did_DSeq i, gid_GSeq = gseq\<rparr>"

definition GroupID_DeploymentID :: "group_id \<Rightarrow> deployment_id" where
  "GroupID_DeploymentID i = \<lparr>did_Owner = gid_Owner i, did_DSeq = gid_DSeq i\<rparr>"

definition MakeOrderID :: "group_id \<Rightarrow> 32 word \<Rightarrow> order_id" where
  "MakeOrderID i oseq =
     \<lparr>oid_Owner = gid_Owner i, oid_DSeq = gid_DSeq i, oid_GSeq = gid_GSeq i, oid_OSeq = oseq\<rparr>"

definition OrderID_GroupID :: "order_id \<Rightarrow> group_id" where
  "OrderID_GroupID i = \<lparr>gid_Owner = oid_Owner i, gid_DSeq = oid_DSeq i, gid_GSeq = oid_GSeq i\<rparr>"

definition MakeBidID :: "'b env \<Rightarrow> order_id \<Rightarrow> string \<Rightarrow> bid_id" where
  "MakeBidID E i provider =
     \<lparr>bid_Owner = oid_Owner i, bid_DSeq = oid_DSeq i, bid_GSeq = oid_GSeq i,
      bid_OSeq = oid_OSeq i, bid_Provider = AddrString E provider\<rparr>"

definition BidID_OrderID :: "bid_id \<Rightarrow> order_id" where
  "BidID_OrderID i =
     \<lparr>oid_Owner = bid_Owner i, oid_DSeq = bid_DSeq i, oid_GSeq = bid_GSeq i, oid_OSeq = bid_OSeq i\<rparr>"

definition BidID_GroupID :: "bid_id \<Rightarrow> group_id" where
  "BidID_GroupID i = OrderID_GroupID (BidID_OrderID i)"

definition BidID_DeploymentID :: "bid_id \<Rightarrow> deployment_id" where
  "BidID_DeploymentID i = GroupID_DeploymentID (BidID_GroupID i)"

definition MakeLeaseID :: "bid_id \<Rightarrow> lease_id" where
  "MakeLeaseID i = i"

definition DeploymentID_Equals :: "deployment_id \<Rightarrow> deployment_id \<Rightarrow> bool" where
  "DeploymentID_Equals i j \<longleftrightarrow> did_Owner i = did_Owner j \<and> did_DSeq i = did_DSeq j"

definition GroupID_Equals :: "group_id \<Rightarrow> group_id \<Rightarrow> bool" where
  "GroupID_Equals i j \<longleftrightarrow>
     DeploymentID_Equals (GroupID_DeploymentID i) (GroupID_DeploymentID j) \<and> gid_GSeq i = gid_GSeq j"

definition OrderID_Equals :: "order_id \<Rightarrow> order_id \<Rightarrow> bool" where
  "OrderID_Equals i j \<longleftrightarrow>
     GroupID_Equals (OrderID_GroupID i) (OrderID_GroupID j) \<and> oid_OSeq i = oid_OSeq j"

definition BidID_Equals :: "bid_id \<Rightarrow> bid_id \<Rightarrow> bool" where
  "BidID_Equals i j \<longleftrightarrow>
     OrderID_Equals (BidID_OrderID i) (BidID_OrderID j) \<and> bid_Provider i = bid_Provider j"

subsection \<open>Validation\<close>

definition DeploymentID_Validate :: "'b env \<Rightarrow> deployment_id \<Rightarrow> error + unit" where
  "DeploymentID_Validate E i =
     (case FromBech32 E (did_Owner i) of
        None \<Rightarrow> Inl (Sdk sdk_error.ErrInvalidAddress)
      | Some _ \<Rightarrow> if did_DSeq i = 0 then Inl (Sdk ErrInvalidSequence) else Inr ())"

definition GroupID_Validate :: "'b env \<Rightarrow> group_id \<Rightarrow> error + unit" where
  "GroupID_Validate E i =
     (case DeploymentID_Validate E (GroupID_DeploymentID i) of
        Inl e \<Rightarrow> Inl e
      | Inr _ \<Rightarrow> if gid_GSeq i = 0 then Inl (Sdk ErrInvalidSequence) else Inr ())"

definition OrderID_Validate :: "'b env \<Rightarrow> order_id \<Rightarrow> error + unit" where
  "OrderID_Validate E i =
     (case GroupID_Validate E (OrderID_GroupID i) of
        Inl e \<Rightarrow> Inl e
      | Inr _ \<Rightarrow> if oid_OSeq i = 0 then Inl (Sdk ErrInvalidSequence) else Inr ())"

definition BidID_Validate :: "'b env \<Rightarrow> bid_id \<Rightarrow> error + unit" where
  "BidID_Validate E i =
     (case OrderID_Validate E (BidID_OrderID i) of
        Inl e \<Rightarrow> Inl e
      | Inr _ \<Rightarrow> (case FromBech32 E (bid_Provider i) of
           None \<Rightarrow> Inl (Sdk sdk_error.ErrInvalidAddress)
         | Some _ \<Rightarrow> if bid_Owner i = bid_Provider i then Inl (Sdk ErrConflict) else Inr ()))"

definition LeaseID_Validate :: "'b env \<Rightarrow> lease_id \<Rightarrow> error + unit" where
  "LeaseID_Validate E i = BidID_Validate E i"

subsection \<open>Printing and parsing\<close>

definition DeploymentID_String :: "deployment_id \<Rightarrow> string" where
  "DeploymentID_String i = did_Owner i @ ''/'' @ FormatWord (did_DSeq i)"

definition GroupID_String :: "group_id \<Rightarrow> string" where
  "GroupID_String i = DeploymentID_String (GroupID_DeploymentID i) @ ''/'' @ FormatWord (gid_GSeq i)"

definition OrderID_String :: "order_id \<Rightarrow> string" where
  "OrderID_String i = GroupID_String (OrderID_GroupID i) @ ''/'' @ FormatWord (oid_OSeq i)"

definition BidID_String :: "bid_id \<Rightarrow> string" where
  "BidID_String i = OrderID_String (BidID_OrderID i) @ ''/'' @ bid_Provider i"

definition ParseDeploymentPath :: "'b env \<Rightarrow> string list \<Rightarrow> error + deployment_id" where
  "ParseDeploymentPath E parts =
     (case parts of
        [p0, p1] \<Rightarrow>
          (case FromBech32 E p0 of
             None \<Rightarrow> Inl Bech32Error
           | Some owner \<Rightarrow>
               (case ParseUint 64 p1 of
                  None \<Rightarrow> Inl ParseError
                | Some dseq \<Rightarrow>
                    Inr \<lparr>did_Owner = AddrString E owner, did_DSeq = of_nat dseq\<rparr>))
      | _ \<Rightarrow> Inl (Deployment ErrInvalidIDPath))"

definition ParseDeploymentID :: "'b env \<Rightarrow> string \<Rightarrow> error + deployment_id" where
  "ParseDeploymentID E val = ParseDeploymentPath E (split_slash val)"

subsection \<open>Escrow accounts and payments\<close>

definition EscrowScope :: string where
  "EscrowScope = ''deployment''"

definition EscrowAccountForDeployment :: "deployment_id \<Rightarrow> account_id" where
  "EscrowAccountForDeployment i = \<lparr>aid_Scope = EscrowScope, aid_XID = DeploymentID_String i\<rparr>"

definition DeploymentIDFromEscrowAccount :: "'b env \<Rightarrow> account_id \<Rightarrow> deployment_id option" where
  "DeploymentIDFromEscrowAccount E i =
     (if aid_Scope i \<noteq> EscrowScope then None
      else (case ParseDeploymentID E (aid_XID i) of Inl _ \<Rightarrow> None | Inr d \<Rightarrow> Some d))"

definition bidEscrowScope :: string where
  "bidEscrowScope = ''bid''"

definition EscrowAccountForBid :: "bid_id \<Rightarrow> account_id" where
  "EscrowAccountForBid i = \<lparr>aid_Scope = bidEscrowScope, aid_XID = BidID_String i\<rparr>"

definition EscrowPaymentForLease :: "lease_id \<Rightarrow> string" where
  "EscrowPaymentForLease i =
     FormatWord (bid_GSeq i) @ ''/'' @ FormatWord (bid_OSeq i) @ ''/'' @ bid_Provider i"

definition LeaseIDFromEscrowAccount :: "'b env \<Rightarrow> account_id \<Rightarrow> string \<Rightarrow> lease_id option" where
  "LeaseIDFromEscrowAccount E i pid =
     (case DeploymentIDFromEscrowAccount E i of
        None \<Rightarrow> None
      | Some did \<Rightarrow>
          (case split_slash pid of
             [p0, p1, p2] \<Rightarrow>
               (case ParseUint 32 p0 of None \<Rightarrow> None | Some gseq \<Rightarrow>
               (case ParseUint 32 p1 of None \<Rightarrow> None | Some oseq \<Rightarrow>
               (case FromBech32 E p2 of None \<Rightarrow> None | Some owner \<Rightarrow>
                  Some (MakeLeaseID (MakeBidID E
                    (MakeOrderID (MakeGroupID did (of_nat gseq)) (of_nat oseq)) owner)))))
           | _ \<Rightarrow> None))"

subsection \<open>Store keys\<close>

definition accountKey :: "account_id \<Rightarrow> string" where
  "accountKey i = CHR 0x01 # ''/'' @ aid_Scope i @ ''/'' @ aid_XID i"

definition accountPaymentsKey :: "account_id \<Rightarrow> string" where
  "accountPaymentsKey i = CHR 0x02 # ''/'' @ aid_Scope i @ ''/'' @ aid_XID i @ ''/''"

definition paymentKey :: "account_id \<Rightarrow> string \<Rightarrow> string" where
  "paymentKey i pid = CHR 0x02 # ''/'' @ aid_Scope i @ ''/'' @ aid_XID i @ ''/'' @ pid"

definition deploymentKey :: "deployment_id \<Rightarrow> string" where
  "deploymentKey i = CHR 0x01 # did_Owner i @ be64 (did_DSeq i)"

definition groupKey :: "group_id \<Rightarrow> string" where
  "groupKey i = CHR 0x02 # gid_Owner i @ be64 (gid_DSeq i) @ be32 (gid_GSeq i)"

definition groupsKey :: "deployment_id \<Rightarrow> string" where
  "groupsKey i = CHR 0x02 # did_Owner i @ be64 (did_DSeq i)"

definition orderKey :: "order_id \<Rightarrow> string" where
  "orderKey i = CHR 0x01 # CHR 0x00 #
     oid_Owner i @ be64 (oid_DSeq i) @ be32 (oid_GSeq i) @ be32 (oid_OSeq i)"

definition bidKey :: "bid_id \<Rightarrow> string" where
  "bidKey i = CHR 0x02 # CHR 0x00 #
     bid_Owner i @ be64 (bid_DSeq i) @ be32 (bid_GSeq i) @ be32 (bid_OSeq i) @ bid_Provider i"

definition leaseKey :: "lease_id \<Rightarrow> string" where
  "leaseKey i = CHR 0x03 # CHR 0x00 #
     bid_Owner i @ be64 (bid_DSeq i) @ be32 (bid_GSeq i) @ be32 (bid_OSeq i) @ bid_Provider i"

definition ordersForGroupPrefix :: "group_id \<Rightarrow> string" where
  "ordersForGroupPrefix i = CHR 0x01 # CHR 0x00 #
     gid_Owner i @ be64 (gid_DSeq i) @ be32 (gid_GSeq i)"

definition bidsForOrderPrefix :: "order_id \<Rightarrow> string" where
  "bidsForOrderPrefix i = CHR 0x02 # CHR 0x00 #
     oid_Owner i @ be64 (oid_DSeq i) @ be32 (oid_GSeq i) @ be32 (oid_OSeq i)"

subsection \<open>Identifiers are determined by their parts\<close>

named_theorems id_defs \<open>conversions between identifiers\<close>
declare MakeGroupID_def [id_defs] GroupID_DeploymentID_def [id_defs] MakeOrderID_def [id_defs]
  OrderID_GroupID_def [id_defs] BidID_OrderID_def [id_defs] BidID_GroupID_def [id_defs]
  BidID_DeploymentID_def [id_defs] MakeLeaseID_def [id_defs] MakeBidID_def [id_defs]

lemma Equals_iff [simp]:
  "DeploymentID_Equals i j \<longleftrightarrow> i = j"
  "GroupID_Equals g h \<longleftrightarrow> g = h"
  "OrderID_Equals k l \<longleftrightarrow> k = l"
  "BidID_Equals b c \<longleftrightarrow> b = c"
  by (auto simp: DeploymentID_Equals_def GroupID_Equals_def OrderID_Equals_def BidID_Equals_def
      id_defs)

lemma id_roundtrips [simp]:
  "GroupID_DeploymentID (MakeGroupID d n) = d" "gid_GSeq (MakeGroupID d n) = n"
  "OrderID_GroupID (MakeOrderID g m) = g" "oid_OSeq (MakeOrderID g m) = m"
  "BidID_OrderID (MakeBidID E k a) = k" "bid_Provider (MakeBidID E k a) = AddrString E a"
  by (simp_all add: id_defs)

lemma MakeOrderID_eq [simp]: "MakeOrderID g m = MakeOrderID g n \<longleftrightarrow> m = n"
  by (simp add: id_defs)

subsection \<open>Escrow identifiers\<close>

lemma canonical_no_slash: "addr_laws E \<Longrightarrow> canonical E s \<Longrightarrow> CHR ''/'' \<notin> set s"
  by (auto simp: canonical_iff addr_laws_def)

lemma ParseDeploymentID_String:
  assumes "addr_laws E" and "canonical E (did_Owner i)"
  shows "ParseDeploymentID E (DeploymentID_String i) = Inr i"
proof -
  have "split_slash (DeploymentID_String i) = [did_Owner i, FormatWord (did_DSeq i)]"
    using canonical_no_slash [OF assms] by (simp add: DeploymentID_String_def split_simps)
  moreover obtain a where "FromBech32 E (did_Owner i) = Some a" "AddrString E a = did_Owner i"
    using assms(2) by (auto simp: canonical_iff)
  ultimately show ?thesis
    by (simp add: ParseDeploymentID_def ParseDeploymentPath_def)
qed

lemma DeploymentIDFromEscrowAccount_deployment:
  assumes "addr_laws E" and "canonical E (did_Owner i)"
  shows "DeploymentIDFromEscrowAccount E (EscrowAccountForDeployment i) = Some i"
  using ParseDeploymentID_String [OF assms]
  by (simp add: DeploymentIDFromEscrowAccount_def EscrowAccountForDeployment_def)

lemma scopes_differ [simp]: "bidEscrowScope \<noteq> EscrowScope"
  by (simp add: bidEscrowScope_def EscrowScope_def)

lemma DeploymentIDFromEscrowAccount_scope:
  "aid_Scope i \<noteq> EscrowScope \<Longrightarrow> DeploymentIDFromEscrowAccount E i = None"
  by (simp add: DeploymentIDFromEscrowAccount_def)

lemma LeaseIDFromEscrowAccount_scope:
  "aid_Scope i \<noteq> EscrowScope \<Longrightarrow> LeaseIDFromEscrowAccount E i pid = None"
  by (simp add: LeaseIDFromEscrowAccount_def DeploymentIDFromEscrowAccount_scope)

lemma EscrowAccountForBid_scope [simp]: "aid_Scope (EscrowAccountForBid b) = bidEscrowScope"
  by (simp add: EscrowAccountForBid_def)

lemma EscrowAccountForDeployment_scope [simp]:
  "aid_Scope (EscrowAccountForDeployment d) = EscrowScope"
  by (simp add: EscrowAccountForDeployment_def)

lemma LeaseIDFromEscrowAccount_lease:
  assumes "addr_laws E" and "canonical E (bid_Owner i)" and "canonical E (bid_Provider i)"
  shows "LeaseIDFromEscrowAccount E
    (EscrowAccountForDeployment (BidID_DeploymentID i)) (EscrowPaymentForLease i) = Some i"
proof -
  have owner: "canonical E (did_Owner (BidID_DeploymentID i))"
    using assms(2) by (simp add: id_defs)
  have "split_slash (EscrowPaymentForLease i) =
      [FormatWord (bid_GSeq i), FormatWord (bid_OSeq i), bid_Provider i]"
    using canonical_no_slash [OF assms(1,3)]
    by (simp add: EscrowPaymentForLease_def split_simps)
  moreover obtain a where "FromBech32 E (bid_Provider i) = Some a" "AddrString E a = bid_Provider i"
    using assms(3) by (auto simp: canonical_iff)
  ultimately show ?thesis
    using DeploymentIDFromEscrowAccount_deployment [OF assms(1) owner]
    by (simp add: LeaseIDFromEscrowAccount_def) (simp add: id_defs)
qed

subsection \<open>Keys\<close>

lemma append_fixed_eq:
  "xs @ ys = zs @ ws \<Longrightarrow> length ys = length ws \<Longrightarrow> xs = zs \<and> ys = ws"
  by simp

lemma deploymentKey_inj [simp]: "deploymentKey i = deploymentKey j \<longleftrightarrow> i = j"
  by (auto simp: deploymentKey_def)

lemma groupKey_inj [simp]: "groupKey i = groupKey j \<longleftrightarrow> i = j"
proof
  assume "groupKey i = groupKey j"
  then have "(gid_Owner i @ be64 (gid_DSeq i)) @ be32 (gid_GSeq i) =
      (gid_Owner j @ be64 (gid_DSeq j)) @ be32 (gid_GSeq j)"
    by (simp add: groupKey_def)
  then show "i = j" by simp
qed simp

lemma orderKey_inj [simp]: "orderKey i = orderKey j \<longleftrightarrow> i = j"
proof
  assume "orderKey i = orderKey j"
  then have "((oid_Owner i @ be64 (oid_DSeq i)) @ be32 (oid_GSeq i)) @ be32 (oid_OSeq i) =
      ((oid_Owner j @ be64 (oid_DSeq j)) @ be32 (oid_GSeq j)) @ be32 (oid_OSeq j)"
    by (simp add: orderKey_def)
  then show "i = j" by simp
qed simp

text \<open>
  Keys that end in the provider and prefixes have the owner's string in the middle, with no
  length before it: they rely on all owners being of one length (bech32 of 20 bytes).
\<close>

lemma bidKey_inj:
  "length (bid_Owner i) = length (bid_Owner j) \<Longrightarrow> bidKey i = bidKey j \<longleftrightarrow> i = j"
  by (auto simp: bidKey_def)

lemma leaseKey_bidKey: "leaseKey i = leaseKey j \<longleftrightarrow> bidKey i = bidKey j"
  by (simp add: leaseKey_def bidKey_def)

lemma leaseKey_inj:
  "length (bid_Owner i) = length (bid_Owner j) \<Longrightarrow> leaseKey i = leaseKey j \<longleftrightarrow> i = j"
  by (simp add: leaseKey_bidKey bidKey_inj)

lemma prefix_same_length:
  "length xs = length ys \<Longrightarrow> prefix (xs @ us) (ys @ vs) \<longleftrightarrow> xs = ys \<and> prefix us vs"
  by (auto simp: prefix_def)

lemma groupsKey_prefix:
  "length (did_Owner d) = length (gid_Owner g) \<Longrightarrow>
     prefix (groupsKey d) (groupKey g) \<longleftrightarrow> GroupID_DeploymentID g = d"
  using prefix_same_length [of "be64 (did_DSeq d)" "be64 (gid_DSeq g)" "[]" "be32 (gid_GSeq g)"]
  by (auto simp: groupsKey_def groupKey_def prefix_same_length id_defs)

lemma ordersForGroupPrefix_prefix:
  "length (gid_Owner g) = length (oid_Owner i) \<Longrightarrow>
     prefix (ordersForGroupPrefix g) (orderKey i) \<longleftrightarrow> OrderID_GroupID i = g"
  using prefix_same_length [of "be32 (gid_GSeq g)" "be32 (oid_GSeq i)" "[]" "be32 (oid_OSeq i)"]
  by (auto simp: ordersForGroupPrefix_def orderKey_def prefix_same_length id_defs)

lemma bidsForOrderPrefix_prefix:
  "length (oid_Owner i) = length (bid_Owner b) \<Longrightarrow>
     prefix (bidsForOrderPrefix i) (bidKey b) \<longleftrightarrow> BidID_OrderID b = i"
  using prefix_same_length [of "be32 (oid_OSeq i)" "be32 (bid_OSeq b)" "[]" "bid_Provider b"]
  by (auto simp: bidsForOrderPrefix_def bidKey_def prefix_same_length id_defs)

text \<open>
  Escrow keys join the parts of the id with slashes.  The ids the modules make have a fixed
  number of slashes per scope, which is what makes these keys unambiguous.
\<close>

lemma slash_split_unique:
  "CHR ''/'' \<notin> set xs \<Longrightarrow> CHR ''/'' \<notin> set ys \<Longrightarrow>
     xs @ CHR ''/'' # us = ys @ CHR ''/'' # vs \<longleftrightarrow> xs = ys \<and> us = vs"
proof (induction xs arbitrary: ys)
  case Nil
  then show ?case by (cases ys) auto
next
  case (Cons x xs)
  then show ?case by (cases ys) auto
qed

lemma count_slash_unique:
  "count_list xs (CHR ''/'') = count_list ys (CHR ''/'') \<Longrightarrow>
     xs @ CHR ''/'' # us = ys @ CHR ''/'' # vs \<longleftrightarrow> xs = ys \<and> us = vs"
proof (induction xs arbitrary: ys)
  case Nil
  then show ?case by (cases ys) (auto split: if_splits)
next
  case (Cons x xs)
  then show ?case by (cases ys) (auto split: if_splits)
qed

lemma paymentKey_eq:
  assumes "CHR ''/'' \<notin> set (aid_Scope i)" "CHR ''/'' \<notin> set (aid_Scope j)"
    and "count_list (aid_XID i) (CHR ''/'') = count_list (aid_XID j) (CHR ''/'')"
  shows "paymentKey i p = paymentKey j q \<longleftrightarrow> i = j \<and> p = q"
  using slash_split_unique [OF assms(1,2)] count_slash_unique [OF assms(3)]
  by (auto simp: paymentKey_def)

lemma accountKey_eq:
  assumes "CHR ''/'' \<notin> set (aid_Scope i)" "CHR ''/'' \<notin> set (aid_Scope j)"
  shows "accountKey i = accountKey j \<longleftrightarrow> i = j"
  using slash_split_unique [OF assms] by (auto simp: accountKey_def)

lemma accountPaymentsKey_prefix:
  assumes "CHR ''/'' \<notin> set (aid_Scope i)" "CHR ''/'' \<notin> set (aid_Scope j)"
    and "count_list (aid_XID i) (CHR ''/'') = count_list (aid_XID j) (CHR ''/'')"
  shows "prefix (accountPaymentsKey i) (paymentKey j p) \<longleftrightarrow> i = j"
proof
  assume "prefix (accountPaymentsKey i) (paymentKey j p)"
  then obtain q where "paymentKey i q = paymentKey j p"
    by (auto simp: paymentKey_def accountPaymentsKey_def prefix_def)
  then show "i = j" using paymentKey_eq [OF assms] by blast
qed (simp add: paymentKey_def accountPaymentsKey_def prefix_def)

lemma count_slash_no_slash: "CHR ''/'' \<notin> set s \<Longrightarrow> count_list s (CHR ''/'') = 0"
  by (simp add: count_list_0_iff)

lemma DeploymentID_String_slashes:
  "CHR ''/'' \<notin> set (did_Owner d) \<Longrightarrow> count_list (DeploymentID_String d) (CHR ''/'') = 1"
  by (simp add: DeploymentID_String_def count_slash_no_slash)

lemma BidID_String_slashes:
  "CHR ''/'' \<notin> set (bid_Owner b) \<Longrightarrow> CHR ''/'' \<notin> set (bid_Provider b) \<Longrightarrow>
     count_list (BidID_String b) (CHR ''/'') = 4"
  by (simp add: BidID_String_def OrderID_String_def GroupID_String_def DeploymentID_String_def
      id_defs count_slash_no_slash)

lemma BidID_String_inj:
  assumes "CHR ''/'' \<notin> set (bid_Owner b)" "CHR ''/'' \<notin> set (bid_Owner c)"
    and "CHR ''/'' \<notin> set (bid_Provider b)" "CHR ''/'' \<notin> set (bid_Provider c)"
  shows "BidID_String b = BidID_String c \<longleftrightarrow> b = c"
proof
  assume eq: "BidID_String b = BidID_String c"
  have "split_slash (BidID_String x) =
      [bid_Owner x, FormatWord (bid_DSeq x), FormatWord (bid_GSeq x), FormatWord (bid_OSeq x),
       bid_Provider x]"
    if "CHR ''/'' \<notin> set (bid_Owner x)" "CHR ''/'' \<notin> set (bid_Provider x)" for x
    using that
    by (simp add: BidID_String_def OrderID_String_def GroupID_String_def DeploymentID_String_def
        id_defs split_simps)
  from this [OF assms(1,3)] this [OF assms(2,4)] eq show "b = c" by simp
qed simp

end
