(* ===== verification/Events.thy ===== *)
theory Events
  imports Ids
begin

text \<open>
  The module events the keepers emit (the \<^verbatim>\<open>Event...\<close> structs of the modules'
  \<^verbatim>\<open>types/event.go\<close>); the \<^verbatim>\<open>Context\<close> field of each struct is the fixed pair of
  module and action that the constructor here stands for.  The chain state keeps the list of
  events emitted so far.
\<close>

datatype event =
    EventDeploymentCreated deployment_id string
  | EventDeploymentUpdated deployment_id string
  | EventDeploymentClosed deployment_id
  | EventGroupClosed group_id
  | EventGroupPaused group_id
  | EventGroupStarted group_id
  | EventOrderCreated order_id
  | EventOrderClosed order_id
  | EventBidCreated bid_id coin
  | EventBidClosed bid_id coin
  | EventLeaseCreated lease_id coin
  | EventLeaseClosed lease_id coin
  | EventProviderCreated string
  | EventProviderUpdated string
  | EventProviderDeleted string
  | EventTrustedAuditorCreated string string
  | EventTrustedAuditorDeleted string string

end
