(* ===== verification/Escrow.thy ===== *)
theory Escrow
  imports Events
begin

text \<open>
  The escrow module: \<^verbatim>\<open>x/escrow/keeper/keeper.go\<close>, \<^verbatim>\<open>x/escrow/types/validate.go\<close>
  and \<^verbatim>\<open>x/escrow/genesis.go\<close>.

  \<open>escrow_state\<close> is what the keeper reads and writes: the bank, the emitted events, and
  the account and payment objects of the escrow store (the store's two key prefixes as two
  key-value stores).  It is an extensible record: the other modules add their stores to it, and
  the hooks the keeper calls act on the whole.  Every operation takes the environment \<open>E\<close>
  and, where the code reaches \<^verbatim>\<open>k.hooks\<close>, the registered hooks \<open>H\<close>.
\<close>

subsection \<open>State\<close>

datatype account_state = AccountStateInvalid | AccountOpen | AccountClosed | AccountOverdrawn

datatype payment_state = PaymentStateInvalid | PaymentOpen | PaymentClosed | PaymentOverdrawn

record account =
  acc_ID :: account_id
  acc_Owner :: string
  acc_State :: account_state
  acc_Balance :: coin
  acc_Transferred :: coin
  acc_SettledAt :: int

record payment =
  pay_AccountID :: account_id
  pay_PaymentID :: string
  pay_Owner :: string
  pay_State :: payment_state
  pay_Rate :: coin
  pay_Balance :: coin
  pay_Withdrawn :: coin

record 'b escrow_state =
  bank :: 'b
  events :: "event list"
  accounts :: "account kv"
  payments :: "payment kv"

type_synonym ('b, 'x) est = "('b, 'x) escrow_state_scheme"

record ('b, 'x) hooks =
  onAccountClosed :: "(account \<Rightarrow> (unit, ('b, 'x) est) act) list"
  onPaymentClosed :: "(payment \<Rightarrow> (unit, ('b, 'x) est) act) list"

text \<open>\<^verbatim>\<open>NewKeeper\<close> gives a keeper with no hooks registered.\<close>

definition NewKeeper :: "('b, 'x) hooks" where
  "NewKeeper = \<lparr>onAccountClosed = [], onPaymentClosed = []\<rparr>"

definition AddOnAccountClosedHook ::
  "(account \<Rightarrow> (unit, ('b, 'x) est) act) \<Rightarrow> ('b, 'x) hooks \<Rightarrow> ('b, 'x) hooks" where
  "AddOnAccountClosedHook hook H = H\<lparr>onAccountClosed := onAccountClosed H @ [hook]\<rparr>"

definition AddOnPaymentClosedHook ::
  "(payment \<Rightarrow> (unit, ('b, 'x) est) act) \<Rightarrow> ('b, 'x) hooks \<Rightarrow> ('b, 'x) hooks" where
  "AddOnPaymentClosedHook hook H = H\<lparr>onPaymentClosed := onPaymentClosed H @ [hook]\<rparr>"

definition emit :: "event \<Rightarrow> (unit, ('b, 'x) est) act" where
  "emit ev = modify (\<lambda>s. s\<lparr>events := events s @ [ev]\<rparr>)"

definition ModuleName :: string where
  "ModuleName = ''escrow''"

definition SendCoinsFromAccountToModule ::
  "'b env \<Rightarrow> string \<Rightarrow> string \<Rightarrow> coin list \<Rightarrow> (unit, ('b, 'x) est) act" where
  "SendCoinsFromAccountToModule E sender m coins s =
     (case BankToModule E sender m coins (bank s) of
        (True, b) \<Rightarrow> Ok () (s\<lparr>bank := b\<rparr>) | (False, b) \<Rightarrow> Err BankError (s\<lparr>bank := b\<rparr>))"

definition SendCoinsFromModuleToAccount ::
  "'b env \<Rightarrow> string \<Rightarrow> string \<Rightarrow> coin list \<Rightarrow> (unit, ('b, 'x) est) act" where
  "SendCoinsFromModuleToAccount E m recipient coins s =
     (case BankFromModule E m recipient coins (bank s) of
        (True, b) \<Rightarrow> Ok () (s\<lparr>bank := b\<rparr>) | (False, b) \<Rightarrow> Err BankError (s\<lparr>bank := b\<rparr>))"

definition AccAddressFromBech32 :: "'b env \<Rightarrow> string \<Rightarrow> (string, 's) act" where
  "AccAddressFromBech32 E str = found_or Bech32Error (FromBech32 E str)"

subsection \<open>Validation\<close>

definition AccountID_ValidateBasic :: "account_id \<Rightarrow> error + unit" where
  "AccountID_ValidateBasic i =
     (if aid_Scope i = [] then Inl (Escrow ErrInvalidAccountID)
      else if aid_XID i = [] then Inl (Escrow ErrInvalidAccountID)
      else Inr ())"

definition Account_ValidateBasic :: "'b env \<Rightarrow> account \<Rightarrow> error + unit" where
  "Account_ValidateBasic E obj =
     (case AccountID_ValidateBasic (acc_ID obj) of
        Inl _ \<Rightarrow> Inl (Escrow ErrInvalidAccount)
      | Inr _ \<Rightarrow>
          if FromBech32 E (acc_Owner obj) = None then Inl (Escrow ErrInvalidAccount)
          else if acc_State obj = AccountStateInvalid then Inl (Escrow ErrInvalidAccount)
          else Inr ())"

definition Payment_ValidateBasic :: "payment \<Rightarrow> error + unit" where
  "Payment_ValidateBasic obj =
     (case AccountID_ValidateBasic (pay_AccountID obj) of
        Inl _ \<Rightarrow> Inl (Escrow ErrInvalidPayment)
      | Inr _ \<Rightarrow>
          if pay_PaymentID obj = [] then Inl (Escrow ErrInvalidPayment)
          else if coin_IsZero (pay_Rate obj) then Inl (Escrow ErrInvalidPayment)
          else if pay_State obj = PaymentStateInvalid then Inl (Escrow ErrInvalidPayment)
          else Inr ())"

subsection \<open>Reading and writing objects\<close>

definition GetAccount :: "account_id \<Rightarrow> (account, ('b, 'x) est) act" where
  "GetAccount i =
     bind (gets (\<lambda>s. kv_get (accounts s) (accountKey i))) (found_or (Escrow ErrAccountNotFound))"

definition GetPayment :: "account_id \<Rightarrow> string \<Rightarrow> (payment, ('b, 'x) est) act" where
  "GetPayment i pid =
     bind (gets (\<lambda>s. kv_get (payments s) (paymentKey i pid)))
       (found_or (Escrow ErrPaymentNotFound))"

definition saveAccount :: "account \<Rightarrow> (unit, ('b, 'x) est) act" where
  "saveAccount obj = modify (\<lambda>s. s\<lparr>accounts := kv_set (accountKey (acc_ID obj)) obj (accounts s)\<rparr>)"

definition savePayment :: "payment \<Rightarrow> (unit, ('b, 'x) est) act" where
  "savePayment obj =
     modify (\<lambda>s. s\<lparr>payments :=
       kv_set (paymentKey (pay_AccountID obj) (pay_PaymentID obj)) obj (payments s)\<rparr>)"

definition accountPayments :: "account_id \<Rightarrow> (payment list, ('b, 'x) est) act" where
  "accountPayments i = gets (\<lambda>s. kv_iter (accountPaymentsKey i) (payments s))"

definition accountOpenPayments :: "account_id \<Rightarrow> (payment list, ('b, 'x) est) act" where
  "accountOpenPayments i =
     bind (accountPayments i) (\<lambda>allPayments. ret (filter (\<lambda>p. pay_State p = PaymentOpen) allPayments))"

text \<open>\<^verbatim>\<open>WithAccounts\<close> and \<^verbatim>\<open>WithPayments\<close> run through the objects in key order;
  their only callers collect all of them.\<close>

definition WithAccounts :: "('b, 'x) est \<Rightarrow> account list" where
  "WithAccounts s = kv_iter [CHR 0x01] (accounts s)"

definition WithPayments :: "('b, 'x) est \<Rightarrow> payment list" where
  "WithPayments s = kv_iter [CHR 0x02] (payments s)"

subsection \<open>Withdrawals\<close>

definition accountWithdraw :: "'b env \<Rightarrow> account \<Rightarrow> (account, ('b, 'x) est) act" where
  "accountWithdraw E obj =
     bind (AccAddressFromBech32 E (acc_Owner obj)) (\<lambda>owner.
     if coin_IsZero (acc_Balance obj) then ret obj else
     bind (or_panic (NewCoins E (acc_Balance obj))) (\<lambda>coins.
     bind (SendCoinsFromModuleToAccount E ModuleName owner coins) (\<lambda>_.
     bind (or_panic (NewCoin E (Denom (acc_Balance obj)) 0)) (\<lambda>zero.
     let obj = obj\<lparr>acc_Balance := zero\<rparr> in
     bind (saveAccount obj) (\<lambda>_. ret obj)))))"

definition paymentWithdraw :: "'b env \<Rightarrow> payment \<Rightarrow> (payment, ('b, 'x) est) act" where
  "paymentWithdraw E obj =
     bind (AccAddressFromBech32 E (pay_Owner obj)) (\<lambda>owner.
     if coin_IsZero (pay_Balance obj) then ret obj else
     bind (or_panic (NewCoins E (pay_Balance obj))) (\<lambda>coins.
     bind (SendCoinsFromModuleToAccount E ModuleName owner coins) (\<lambda>_.
     bind (or_panic (coin_add E (pay_Withdrawn obj) (pay_Balance obj))) (\<lambda>withdrawn.
     bind (or_panic (NewCoin E (Denom (pay_Balance obj)) 0)) (\<lambda>zero.
     let obj = obj\<lparr>pay_Withdrawn := withdrawn, pay_Balance := zero\<rparr> in
     bind (savePayment obj) (\<lambda>_. ret obj))))))"

subsection \<open>Settlement\<close>

text \<open>A loop over the payments that rewrites each of them and may panic.\<close>

primrec opt_map :: "('a \<Rightarrow> 'c option) \<Rightarrow> 'a list \<Rightarrow> 'c list option" where
  "opt_map f [] = Some []"
| "opt_map f (x # xs) = do { y \<leftarrow> f x; ys \<leftarrow> opt_map f xs; Some (y # ys) }"

primrec sum_rates :: "'b env \<Rightarrow> coin \<Rightarrow> payment list \<Rightarrow> coin option" where
  "sum_rates E blockRate [] = Some blockRate"
| "sum_rates E blockRate (p # ps) =
     do { r \<leftarrow> coin_add E blockRate (pay_Rate p); sum_rates E r ps }"

definition accountSettleFullblocks ::
  "'b env \<Rightarrow> account \<Rightarrow> payment list \<Rightarrow> int \<Rightarrow> coin \<Rightarrow>
   (account \<times> payment list \<times> bool \<times> coin) option" where
  "accountSettleFullblocks E account ps heightDelta blockRate = do {
     q \<leftarrow> int_quo (Amount (acc_Balance account)) (Amount blockRate);
     let numFullBlocks = (if q > heightDelta then heightDelta else q);
     ps \<leftarrow> opt_map (\<lambda>p. do {
       n \<leftarrow> int_chk E (Amount (pay_Rate p) * numFullBlocks);
       c \<leftarrow> NewCoin E (Denom (pay_Rate p)) n;
       b \<leftarrow> coin_add E (pay_Balance p) c;
       Some (p\<lparr>pay_Balance := b\<rparr>) }) ps;
     n \<leftarrow> int_chk E (Amount blockRate * numFullBlocks);
     transferred \<leftarrow> NewCoin E (Denom blockRate) n;
     tr \<leftarrow> coin_add E (acc_Transferred account) transferred;
     bal \<leftarrow> coin_sub E (acc_Balance account) transferred;
     let account = account\<lparr>acc_Transferred := tr, acc_Balance := bal\<rparr>;
     if numFullBlocks = heightDelta then Some (account, ps, False, bal\<lparr>Amount := 0\<rparr>)
     else Some (account, ps, True, bal) }"

primrec weighted_loop ::
  "'b env \<Rightarrow> coin \<Rightarrow> coin \<Rightarrow> payment list \<Rightarrow> int \<Rightarrow> (payment list \<times> int) option" where
  "weighted_loop E blockRate amountRemaining [] actualTransferred = Some ([], actualTransferred)"
| "weighted_loop E blockRate amountRemaining (p # ps) actualTransferred = do {
     m \<leftarrow> int_chk E (Amount amountRemaining * Amount (pay_Rate p));
     amount \<leftarrow> int_quo m (Amount blockRate);
     c \<leftarrow> NewCoin E (Denom (pay_Balance p)) amount;
     b \<leftarrow> coin_add E (pay_Balance p) c;
     t \<leftarrow> int_chk E (actualTransferred + amount);
     (ps', t') \<leftarrow> weighted_loop E blockRate amountRemaining ps t;
     Some (p\<lparr>pay_Balance := b\<rparr> # ps', t') }"

definition accountSettleDistributeWeighted ::
  "'b env \<Rightarrow> account \<Rightarrow> payment list \<Rightarrow> coin \<Rightarrow> coin \<Rightarrow>
   (account \<times> payment list \<times> coin) option" where
  "accountSettleDistributeWeighted E account ps blockRate amountRemaining = do {
     (ps, actualTransferred) \<leftarrow> weighted_loop E blockRate amountRemaining ps 0;
     transferred \<leftarrow> NewCoin E (Denom (acc_Balance account)) actualTransferred;
     tr \<leftarrow> coin_add E (acc_Transferred account) transferred;
     bal \<leftarrow> coin_sub E (acc_Balance account) transferred;
     amountRemaining \<leftarrow> coin_sub E amountRemaining transferred;
     Some (account\<lparr>acc_Transferred := tr, acc_Balance := bal\<rparr>, ps, amountRemaining) }"

primrec evenly_loop ::
  "'b env \<Rightarrow> int \<Rightarrow> int \<Rightarrow> int \<Rightarrow> payment list \<Rightarrow> int \<Rightarrow> (payment list \<times> int) option" where
  "evenly_loop E baseAmt numOverflow idx [] transferred = Some ([], transferred)"
| "evenly_loop E baseAmt numOverflow idx (p # ps) transferred = do {
     amt \<leftarrow> (if idx < numOverflow then int_chk E (baseAmt + 1) else Some baseAmt);
     b \<leftarrow> int_chk E (Amount (pay_Balance p) + amt);
     t \<leftarrow> int_chk E (transferred + amt);
     (ps', t') \<leftarrow> evenly_loop E baseAmt numOverflow (idx + 1) ps t;
     Some (p\<lparr>pay_Balance := (pay_Balance p)\<lparr>Amount := b\<rparr>\<rparr> # ps', t') }"

definition accountSettleDistributeEvenly ::
  "'b env \<Rightarrow> account \<Rightarrow> payment list \<Rightarrow> coin \<Rightarrow> (account \<times> payment list \<times> coin) option" where
  "accountSettleDistributeEvenly E account ps amountRemaining = do {
     baseAmt \<leftarrow> int_quo (Amount amountRemaining) (int (length ps));
     numOverflow \<leftarrow> int_mod (Amount amountRemaining) (int (length ps));
     (ps, transferred) \<leftarrow> evenly_loop E baseAmt numOverflow 0 ps 0;
     tr \<leftarrow> int_chk E (Amount (acc_Transferred account) + transferred);
     bal \<leftarrow> int_chk E (Amount (acc_Balance account) - transferred);
     rem \<leftarrow> int_chk E (Amount amountRemaining - transferred);
     Some (account\<lparr>acc_Transferred := (acc_Transferred account)\<lparr>Amount := tr\<rparr>,
                   acc_Balance := (acc_Balance account)\<lparr>Amount := bal\<rparr>\<rparr>,
           ps, amountRemaining\<lparr>Amount := rem\<rparr>) }"

definition doAccountSettle ::
  "'b env \<Rightarrow> ('b, 'x) hooks \<Rightarrow> account_id \<Rightarrow> (account \<times> payment list \<times> bool, ('b, 'x) est) act" where
  "doAccountSettle E H i =
     bind (GetAccount i) (\<lambda>account.
     bind (check (acc_State account = AccountOpen) (Escrow ErrAccountClosed)) (\<lambda>_.
     let heightDelta = BlockHeight E - acc_SettledAt account in
     if heightDelta = 0 then ret (account, [], False) else
     let account = account\<lparr>acc_SettledAt := BlockHeight E\<rparr> in
     bind (accountOpenPayments i) (\<lambda>ps.
     if ps = [] then bind (saveAccount account) (\<lambda>_. ret (account, [], False)) else
     bind (or_panic (NewCoin E (Denom (acc_Balance account)) 0)) (\<lambda>zero.
     bind (or_panic (sum_rates E zero ps)) (\<lambda>blockRate.
     bind (or_panic (accountSettleFullblocks E account ps heightDelta blockRate))
       (\<lambda>(account, ps, overdrawn, amountRemaining).
     if \<not> overdrawn then
       bind (saveAccount account) (\<lambda>_.
       bind (each savePayment ps) (\<lambda>_.
       ret (account, ps, False)))
     else
       bind (or_panic (accountSettleDistributeWeighted E account ps blockRate amountRemaining))
         (\<lambda>(account, ps, amountRemaining).
       bind (or_panic (accountSettleDistributeEvenly E account ps amountRemaining))
         (\<lambda>(account, ps, amountRemaining).
       bind (check (coin_IsZero amountRemaining) (Escrow ErrInvalidSettlement)) (\<lambda>_.
       let account = account\<lparr>acc_State := AccountOverdrawn\<rparr> in
       bind (saveAccount account) (\<lambda>_.
       bind (each_map (\<lambda>p.
           let p = p\<lparr>pay_State := PaymentOverdrawn\<rparr> in
           bind (savePayment p) (\<lambda>_. paymentWithdraw E p)) ps) (\<lambda>ps.
       bind (each (\<lambda>hook. hook account) (onAccountClosed H)) (\<lambda>_.
       bind (each (\<lambda>hook. each hook ps) (onPaymentClosed H)) (\<lambda>_.
       ret (account, ps, True))))))))))))))"

subsection \<open>The keeper's operations\<close>

definition AccountCreate ::
  "'b env \<Rightarrow> account_id \<Rightarrow> string \<Rightarrow> coin \<Rightarrow> (unit, ('b, 'x) est) act" where
  "AccountCreate E i owner deposit =
     bind (gets (\<lambda>s. kv_has (accounts s) (accountKey i))) (\<lambda>has.
     bind (check (\<not> has) (Escrow ErrAccountExists)) (\<lambda>_.
     bind (or_panic (NewCoin E (Denom deposit) 0)) (\<lambda>zero.
     let obj = \<lparr>acc_ID = i, acc_Owner = AddrString E owner, acc_State = AccountOpen,
                acc_Balance = deposit, acc_Transferred = zero, acc_SettledAt = BlockHeight E\<rparr> in
     bind (or_throw (Account_ValidateBasic E obj)) (\<lambda>_.
     bind (or_panic (NewCoins E deposit)) (\<lambda>coins.
     bind (SendCoinsFromAccountToModule E owner ModuleName coins) (\<lambda>_.
     modify (\<lambda>s. s\<lparr>accounts := kv_set (accountKey i) obj (accounts s)\<rparr>)))))))"

definition AccountDeposit :: "'b env \<Rightarrow> account_id \<Rightarrow> coin \<Rightarrow> (unit, ('b, 'x) est) act" where
  "AccountDeposit E i amount =
     bind (GetAccount i) (\<lambda>obj.
     bind (check (acc_State obj = AccountOpen) (Escrow ErrAccountClosed)) (\<lambda>_.
     bind (AccAddressFromBech32 E (acc_Owner obj)) (\<lambda>owner.
     bind (or_panic (NewCoins E amount)) (\<lambda>coins.
     bind (SendCoinsFromAccountToModule E owner ModuleName coins) (\<lambda>_.
     bind (or_panic (coin_add E (acc_Balance obj) amount)) (\<lambda>b.
     modify (\<lambda>s. s\<lparr>accounts := kv_set (accountKey i) (obj\<lparr>acc_Balance := b\<rparr>) (accounts s)\<rparr>)))))))"

definition AccountSettle ::
  "'b env \<Rightarrow> ('b, 'x) hooks \<Rightarrow> account_id \<Rightarrow> (bool, ('b, 'x) est) act" where
  "AccountSettle E H i = bind (doAccountSettle E H i) (\<lambda>(_, _, od). ret od)"

definition AccountClose ::
  "'b env \<Rightarrow> ('b, 'x) hooks \<Rightarrow> account_id \<Rightarrow> (unit, ('b, 'x) est) act" where
  "AccountClose E H i =
     bind (GetAccount i) (\<lambda>account.
     bind (check (acc_State account = AccountOpen) (Escrow ErrAccountClosed)) (\<lambda>_.
     bind (doAccountSettle E H i) (\<lambda>(account, ps, od).
     if od then ret () else
     bind (accountWithdraw E (account\<lparr>acc_State := AccountClosed\<rparr>)) (\<lambda>account.
     bind (each_map (\<lambda>p. paymentWithdraw E (p\<lparr>pay_State := PaymentClosed\<rparr>)) ps) (\<lambda>ps.
     bind (each (\<lambda>hook. hook account) (onAccountClosed H)) (\<lambda>_.
     each (\<lambda>hook. each hook ps) (onPaymentClosed H)))))))"

definition PaymentCreate ::
  "'b env \<Rightarrow> ('b, 'x) hooks \<Rightarrow> account_id \<Rightarrow> string \<Rightarrow> string \<Rightarrow> coin \<Rightarrow> (unit, ('b, 'x) est) act" where
  "PaymentCreate E H i pid owner rate =
     bind (doAccountSettle E H i) (\<lambda>(account, _, od).
     bind (check (\<not> od) (Escrow ErrAccountOverdrawn)) (\<lambda>_.
     bind (check (Denom rate = Denom (acc_Balance account)) (Escrow ErrInvalidDenomination)) (\<lambda>_.
     bind (check (\<not> coin_IsZero rate) (Escrow ErrPaymentRateZero)) (\<lambda>_.
     bind (gets (\<lambda>s. kv_has (payments s) (paymentKey i pid))) (\<lambda>has.
     bind (check (\<not> has) (Escrow ErrPaymentExists)) (\<lambda>_.
     bind (or_panic (NewCoin E (Denom rate) 0)) (\<lambda>zero.
     let obj = \<lparr>pay_AccountID = i, pay_PaymentID = pid, pay_Owner = AddrString E owner,
                pay_State = PaymentOpen, pay_Rate = rate, pay_Balance = zero,
                pay_Withdrawn = zero\<rparr> in
     modify (\<lambda>s. s\<lparr>payments := kv_set (paymentKey i pid) obj (payments s)\<rparr>))))))))"

definition PaymentWithdraw ::
  "'b env \<Rightarrow> ('b, 'x) hooks \<Rightarrow> account_id \<Rightarrow> string \<Rightarrow> (unit, ('b, 'x) est) act" where
  "PaymentWithdraw E H i pid =
     bind (GetPayment i pid) (\<lambda>payment.
     bind (check (pay_State payment = PaymentOpen) (Escrow ErrPaymentClosed)) (\<lambda>_.
     bind (AccountSettle E H i) (\<lambda>od.
     if od then ret () else
     bind (GetPayment i pid) (\<lambda>payment.
     bind (paymentWithdraw E payment) (\<lambda>_. ret ())))))"

definition PaymentClose ::
  "'b env \<Rightarrow> ('b, 'x) hooks \<Rightarrow> account_id \<Rightarrow> string \<Rightarrow> (unit, ('b, 'x) est) act" where
  "PaymentClose E H i pid =
     bind (GetPayment i pid) (\<lambda>payment.
     bind (check (pay_State payment = PaymentOpen) (Escrow ErrPaymentClosed)) (\<lambda>_.
     bind (AccountSettle E H i) (\<lambda>od.
     if od then ret () else
     bind (GetPayment i pid) (\<lambda>payment.
     bind (paymentWithdraw E (payment\<lparr>pay_State := PaymentClosed\<rparr>)) (\<lambda>payment.
     each (\<lambda>hook. hook payment) (onPaymentClosed H))))))"

subsection \<open>Genesis\<close>

record escrow_genesis =
  gen_Accounts :: "account list"
  gen_Payments :: "payment list"

primrec validate_accounts ::
  "'b env \<Rightarrow> (account_id \<times> account) list \<Rightarrow> account list \<Rightarrow> error + (account_id \<times> account) list" where
  "validate_accounts E amap [] = Inr amap"
| "validate_accounts E amap (a # as) =
     (case Account_ValidateBasic E a of
        Inl e \<Rightarrow> Inl e
      | Inr _ \<Rightarrow>
          if map_of amap (acc_ID a) \<noteq> None then Inl (Escrow ErrAccountExists)
          else validate_accounts E ((acc_ID a, a) # amap) as)"

primrec validate_payments ::
  "(account_id \<times> account) list \<Rightarrow> (account_id \<times> string) list \<Rightarrow> payment list \<Rightarrow> error + unit" where
  "validate_payments amap pmap [] = Inr ()"
| "validate_payments amap pmap (p # ps) =
     (case Payment_ValidateBasic p of
        Inl e \<Rightarrow> Inl e
      | Inr _ \<Rightarrow>
          (case map_of amap (pay_AccountID p) of
             None \<Rightarrow> Inl (Escrow ErrAccountNotFound)
           | Some a \<Rightarrow>
               if pay_State p = PaymentOpen \<and> acc_State a \<noteq> AccountOpen
               then Inl (Escrow ErrInvalidPayment)
               else if pay_State p = PaymentOverdrawn \<and> acc_State a \<noteq> AccountOverdrawn
               then Inl (Escrow ErrInvalidPayment)
               else if (pay_AccountID p, pay_PaymentID p) \<in> set pmap
               then Inl (Escrow ErrPaymentExists)
               else validate_payments amap ((pay_AccountID p, pay_PaymentID p) # pmap) ps))"

definition ValidateGenesis :: "'b env \<Rightarrow> escrow_genesis \<Rightarrow> error + unit" where
  "ValidateGenesis E data =
     (case validate_accounts E [] (gen_Accounts data) of
        Inl e \<Rightarrow> Inl e
      | Inr amap \<Rightarrow> validate_payments amap [] (gen_Payments data))"

definition InitGenesis :: "escrow_genesis \<Rightarrow> (unit, ('b, 'x) est) act" where
  "InitGenesis data =
     bind (each saveAccount (gen_Accounts data)) (\<lambda>_. each savePayment (gen_Payments data))"

definition ExportGenesis :: "('b, 'x) est \<Rightarrow> escrow_genesis" where
  "ExportGenesis s = \<lparr>gen_Accounts = WithAccounts s, gen_Payments = WithPayments s\<rparr>"

end
