(* ===== verification/Escrow_Settle.thy ===== *)
theory Escrow_Settle
  imports Escrow
begin

text \<open>
  The settlement arithmetic of the escrow module (\<^verbatim>\<open>accountSettleFullblocks\<close>,
  \<^verbatim>\<open>accountSettleDistributeWeighted\<close> and \<^verbatim>\<open>accountSettleDistributeEvenly\<close>).

  Two views of it.  Whatever does not panic moves money and nothing else: the account is
  debited by exactly what the payments are credited (\<open>settled\<close>).  And on well-formed
  inputs within the integer range the three stages together compute the pro-rata division
  \<open>settle_shares\<close>, which is stated without stages, and never panic.
\<close>

subsection \<open>Moving money\<close>

definition credit :: "payment \<Rightarrow> int \<Rightarrow> payment" where
  "credit p n = p\<lparr>pay_Balance := (pay_Balance p)\<lparr>Amount := Amount (pay_Balance p) + n\<rparr>\<rparr>"

definition debit :: "account \<Rightarrow> int \<Rightarrow> account" where
  "debit a n = a\<lparr>acc_Transferred := (acc_Transferred a)\<lparr>Amount := Amount (acc_Transferred a) + n\<rparr>,
                 acc_Balance := (acc_Balance a)\<lparr>Amount := Amount (acc_Balance a) - n\<rparr>\<rparr>"

definition credits :: "payment list \<Rightarrow> int list \<Rightarrow> payment list" where
  "credits ps ns = map2 credit ps ns"

lemma credit_credit [simp]: "credit (credit p m) n = credit p (m + n)"
  by (simp add: credit_def)

lemma credit_sel [simp]:
  "pay_AccountID (credit p n) = pay_AccountID p" "pay_PaymentID (credit p n) = pay_PaymentID p"
  "pay_Owner (credit p n) = pay_Owner p" "pay_State (credit p n) = pay_State p"
  "pay_Rate (credit p n) = pay_Rate p" "Denom (pay_Balance (credit p n)) = Denom (pay_Balance p)"
  "Amount (pay_Balance (credit p n)) = Amount (pay_Balance p) + n"
  "pay_Withdrawn (credit p n) = pay_Withdrawn p"
  by (simp_all add: credit_def)

lemma debit_debit [simp]: "debit (debit a m) n = debit a (m + n)"
  by (simp add: debit_def algebra_simps)

lemma debit_sel [simp]:
  "acc_ID (debit a n) = acc_ID a" "acc_Owner (debit a n) = acc_Owner a"
  "acc_State (debit a n) = acc_State a" "acc_SettledAt (debit a n) = acc_SettledAt a"
  "Denom (acc_Balance (debit a n)) = Denom (acc_Balance a)"
  "Amount (acc_Balance (debit a n)) = Amount (acc_Balance a) - n"
  "Denom (acc_Transferred (debit a n)) = Denom (acc_Transferred a)"
  "Amount (acc_Transferred (debit a n)) = Amount (acc_Transferred a) + n"
  by (simp_all add: debit_def)

lemma credits_simps [simp]:
  "credits [] ns = []" "credits (p # ps) (n # ns) = credit p n # credits ps ns"
  "length (credits ps ns) = min (length ps) (length ns)"
  by (simp_all add: credits_def)

lemma credits_nth:
  "i < length ps \<Longrightarrow> i < length ns \<Longrightarrow> credits ps ns ! i = credit (ps ! i) (ns ! i)"
  by (simp add: credits_def)

lemma map_credits:
  assumes "length ns = length ps" and "\<And>p n. f (credit p n) = f p"
  shows "map f (credits ps ns) = map f ps"
  using assms by (induction ns ps rule: list_induct2) simp_all

lemma credits_credits:
  "length ms = length ps \<Longrightarrow> length ns = length ps \<Longrightarrow>
     credits (credits ps ms) ns = credits ps (map2 (+) ms ns)"
  by (induction ps ms arbitrary: ns rule: list_induct2') (auto simp: credits_def Suc_length_conv length_Suc_conv)

lemma sum_list_map2_add:
  fixes ms ns :: "int list"
  shows "length ms = length ns \<Longrightarrow> sum_list (map2 (+) ms ns) = sum_list ms + sum_list ns"
  by (induction ms ns rule: list_induct2) auto

lemma map2_add_nonneg:
  fixes ms ns :: "int list"
  shows "\<forall>n\<in>set ms. 0 \<le> n \<Longrightarrow> \<forall>n\<in>set ns. 0 \<le> n \<Longrightarrow> \<forall>n\<in>set (map2 (+) ms ns). 0 \<le> n"
  by (auto dest!: set_zip_leftD set_zip_rightD elim!: in_set_zipE)

text \<open>The three stages move money: no payment loses, the account pays exactly the sum, and
  never more than it has.\<close>

definition settled ::
  "account \<Rightarrow> payment list \<Rightarrow> account \<Rightarrow> payment list \<Rightarrow> bool" where
  "settled a ps a' ps' \<longleftrightarrow> (\<exists>ns. length ns = length ps \<and> (\<forall>n\<in>set ns. 0 \<le> n) \<and>
     ps' = credits ps ns \<and> a' = debit a (sum_list ns))"

lemma settledI:
  "length ns = length ps \<Longrightarrow> \<forall>n\<in>set ns. 0 \<le> n \<Longrightarrow> ps' = credits ps ns \<Longrightarrow> a' = debit a (sum_list ns) \<Longrightarrow>
   settled a ps a' ps'"
  unfolding settled_def by blast

lemma settled_trans: "settled a ps b qs \<Longrightarrow> settled b qs c rs \<Longrightarrow> settled a ps c rs"
proof -
  assume "settled a ps b qs" "settled b qs c rs"
  then obtain ms ns where m: "length ms = length ps" "\<forall>n\<in>set ms. 0 \<le> n" "qs = credits ps ms"
      "b = debit a (sum_list ms)"
    and n: "length ns = length qs" "\<forall>n\<in>set ns. 0 \<le> n" "rs = credits qs ns" "c = debit b (sum_list ns)"
    by (auto simp: settled_def)
  have "length (map2 (+) ms ns) = length ps" "rs = credits ps (map2 (+) ms ns)"
    "c = debit a (sum_list (map2 (+) ms ns))"
    using m n by (simp_all add: credits_credits sum_list_map2_add)
  then show ?thesis
    unfolding settled_def using map2_add_nonneg [OF m(2) n(2)] by blast
qed

lemma opt_map_Some:
  "opt_map f xs = Some ys \<longleftrightarrow> list_all2 (\<lambda>x y. f x = Some y) xs ys"
  by (induction xs arbitrary: ys) (auto simp: bind_eq_Some_conv list_all2_Cons1)

lemma sum_rates_Some:
  "sum_rates E c ps = Some r \<Longrightarrow>
     (\<forall>p\<in>set ps. Denom (pay_Rate p) = Denom c) \<and> Denom r = Denom c \<and>
     Amount r = Amount c + (\<Sum>p\<leftarrow>ps. Amount (pay_Rate p))"
  by (induction ps arbitrary: c) (auto simp: bind_eq_Some_conv coin_add_Some)

definition fullblocks_step :: "'b env \<Rightarrow> int \<Rightarrow> payment \<Rightarrow> payment option" where
  "fullblocks_step E k p = do {
     n \<leftarrow> int_chk E (Amount (pay_Rate p) * k);
     c \<leftarrow> NewCoin E (Denom (pay_Rate p)) n;
     b \<leftarrow> coin_add E (pay_Balance p) c;
     Some (p\<lparr>pay_Balance := b\<rparr>) }"

lemma fullblocks_step_Some:
  "fullblocks_step E k p = Some q \<Longrightarrow>
     q = credit p (Amount (pay_Rate p) * k) \<and> 0 \<le> Amount (pay_Rate p) * k \<and>
     Denom (pay_Balance p) = Denom (pay_Rate p)"
  by (auto simp: fullblocks_step_def bind_eq_Some_conv credit_def dest!: coin_SomeD)

lemma fullblocks_payments_credits:
  assumes "list_all2 (\<lambda>p q. fullblocks_step E k p = Some q) ps qs"
  shows "qs = credits ps (map (\<lambda>p. Amount (pay_Rate p) * k) ps) \<and>
    (\<forall>p\<in>set ps. 0 \<le> Amount (pay_Rate p) * k \<and> Denom (pay_Balance p) = Denom (pay_Rate p))"
  using assms by (induction rule: list_all2_induct) (auto dest!: fullblocks_step_Some)

lemma accountSettleFullblocks_eq:
  "accountSettleFullblocks E a ps d r = do {
     q \<leftarrow> int_quo (Amount (acc_Balance a)) (Amount r);
     let k = min q d;
     ps \<leftarrow> opt_map (fullblocks_step E k) ps;
     n \<leftarrow> int_chk E (Amount r * k);
     transferred \<leftarrow> NewCoin E (Denom r) n;
     tr \<leftarrow> coin_add E (acc_Transferred a) transferred;
     bal \<leftarrow> coin_sub E (acc_Balance a) transferred;
     Some (a\<lparr>acc_Transferred := tr, acc_Balance := bal\<rparr>, ps, k \<noteq> d,
       if k = d then bal\<lparr>Amount := 0\<rparr> else bal) }"
proof -
  have "(if q > d then d else q) = min q d" for q :: int by simp
  then show ?thesis
    unfolding accountSettleFullblocks_def fullblocks_step_def Let_def
    by (auto intro!: Option.bind_cong)
qed

lemma accountSettleFullblocks_SomeD:
  assumes "accountSettleFullblocks E a ps d r = Some (a', qs, od, rem)"
  shows "\<exists>k. list_all2 (\<lambda>p q. fullblocks_step E k p = Some q) ps qs \<and>
     a' = debit a (Amount r * k) \<and> (od \<longrightarrow> rem = acc_Balance a') \<and> 0 \<le> Amount (acc_Balance a')"
  using assms unfolding accountSettleFullblocks_eq Let_def
  by (auto simp: bind_eq_Some_conv opt_map_Some debit_def dest!: coin_SomeD)

lemma accountSettleFullblocks_Some:
  assumes "accountSettleFullblocks E a ps d r = Some (a', qs, od, rem)"
    and "Amount r = (\<Sum>p\<leftarrow>ps. Amount (pay_Rate p))"
  shows "settled a ps a' qs" "od \<Longrightarrow> rem = acc_Balance a'" "0 \<le> Amount (acc_Balance a')"
    "\<forall>p\<in>set ps. Denom (pay_Balance p) = Denom (pay_Rate p)"
proof -
  from accountSettleFullblocks_SomeD [OF assms(1)] obtain k where
    ps: "list_all2 (\<lambda>p q. fullblocks_step E k p = Some q) ps qs"
    and a': "a' = debit a (Amount r * k)"
    and od: "od \<longrightarrow> rem = acc_Balance a'" and pos: "0 \<le> Amount (acc_Balance a')"
    by blast
  let ?ns = "map (\<lambda>p. Amount (pay_Rate p) * k) ps"
  have qs: "qs = credits ps ?ns" and nn: "\<forall>p\<in>set ps. 0 \<le> Amount (pay_Rate p) * k"
    and dn: "\<forall>p\<in>set ps. Denom (pay_Balance p) = Denom (pay_Rate p)"
    using fullblocks_payments_credits [OF ps] by auto
  have "sum_list ?ns = Amount r * k" by (simp add: assms(2) sum_list_mult_const)
  then show "settled a ps a' qs" 
    using qs nn a' by (intro settledI [of ?ns]) simp_all
  show "od \<Longrightarrow> rem = acc_Balance a'" "0 \<le> Amount (acc_Balance a')" using od pos by auto
  show "\<forall>p\<in>set ps. Denom (pay_Balance p) = Denom (pay_Rate p)" by (rule dn)
qed

lemma weighted_loop_Some:
  "weighted_loop E r c ps t = Some (qs, t') \<Longrightarrow>
     \<exists>ns. length ns = length ps \<and> (\<forall>n\<in>set ns. 0 \<le> n) \<and> qs = credits ps ns \<and> t' = t + sum_list ns"
proof (induction ps arbitrary: t qs)
  case Nil
  then show ?case by simp
next
  case (Cons p ps)
  then obtain n qs' where "weighted_loop E r c ps (t + n) = Some (qs', t')" "0 \<le> n"
      "qs = credit p n # qs'"
    by (auto simp: bind_eq_Some_conv credit_def dest!: coin_SomeD)
  with Cons.IH obtain ns where "length ns = length ps" "\<forall>n\<in>set ns. 0 \<le> n" "qs' = credits ps ns"
      "t' = t + n + sum_list ns" by blast
  with \<open>0 \<le> n\<close> \<open>qs = credit p n # qs'\<close> show ?case by (intro exI [of _ "n # ns"]) auto
qed

lemma accountSettleDistributeWeighted_Some:
  assumes "accountSettleDistributeWeighted E a ps r c = Some (a', qs, rem)"
  shows "settled a ps a' qs" "0 \<le> Amount rem"
    "Amount rem = Amount c - (Amount (acc_Balance a) - Amount (acc_Balance a'))"
proof -
  from assms obtain t where w: "weighted_loop E r c ps 0 = Some (qs, t)" and a': "a' = debit a t"
      and "0 \<le> Amount rem" "Amount rem = Amount c - t"
    unfolding accountSettleDistributeWeighted_def by (auto simp: bind_eq_Some_conv debit_def dest!: coin_SomeD split: prod.splits)
  then show "0 \<le> Amount rem" "Amount rem = Amount c - (Amount (acc_Balance a) - Amount (acc_Balance a'))"
    by simp_all
  show "settled a ps a' qs" using weighted_loop_Some [OF w] a' by (auto simp: settled_def)
qed

text \<open>What the last stage gives to the payments from position \<open>idx\<close> on.\<close>

definition even_shares :: "int \<Rightarrow> int \<Rightarrow> int \<Rightarrow> nat \<Rightarrow> int list" where
  "even_shares base over idx n = map (\<lambda>j. base + (if idx + int j < over then 1 else 0)) [0..<n]"

lemma even_shares_simps [simp]:
  "even_shares base over idx 0 = []"
  "even_shares base over idx (Suc n) =
     (base + (if idx < over then 1 else 0)) # even_shares base over (idx + 1) n"
  "length (even_shares base over idx n) = n"
  by (simp_all add: even_shares_def map_upt_Suc algebra_simps del: upt_Suc)

lemma sum_even_shares:
  "0 \<le> over - idx \<Longrightarrow> over - idx \<le> int n \<Longrightarrow>
     sum_list (even_shares base over idx n) = base * int n + (over - idx)"
proof (induction n arbitrary: idx)
  case (Suc n)
  show ?case
  proof (cases "idx < over")
    case True
    then show ?thesis using Suc.prems Suc.IH [of "idx + 1"] by (simp add: algebra_simps)
  next
    case False
    then have "sum_list (even_shares base over j n) = base * int n" if "idx \<le> j" for j
      using that by (induction n arbitrary: j) (auto simp: algebra_simps)
    then show ?thesis using False Suc.prems by (simp add: algebra_simps)
  qed
qed simp

lemma evenly_loop_Some:
  "evenly_loop E base over idx ps t = Some (qs, t') \<Longrightarrow>
     qs = credits ps (even_shares base over idx (length ps)) \<and>
     t' = t + sum_list (even_shares base over idx (length ps))"
  by (induction ps arbitrary: idx t qs)
     (fastforce simp: bind_eq_Some_conv credit_def dest!: coin_SomeD split: if_splits)+

lemma accountSettleDistributeEvenly_SomeD:
  assumes "accountSettleDistributeEvenly E a ps c = Some (a', qs, rem)" and "0 \<le> Amount c"
  shows "\<exists>t. length ps \<noteq> 0 \<and>
    evenly_loop E (Amount c div int (length ps)) (Amount c mod int (length ps)) 0 ps 0 = Some (qs, t) \<and>
    a' = debit a t \<and> Amount rem = Amount c - t"
  using assms unfolding accountSettleDistributeEvenly_def
  by (clarsimp simp: bind_eq_Some_conv int_quo_Some int_mod_Some debit_def dest!: coin_SomeD)

lemma accountSettleDistributeEvenly_Some:
  assumes "accountSettleDistributeEvenly E a ps c = Some (a', qs, rem)" and "0 \<le> Amount c"
  shows "settled a ps a' qs" "Amount rem = 0"
    "Amount (acc_Balance a') = Amount (acc_Balance a) - Amount c"
proof -
  let ?n = "int (length ps)"
  let ?ns = "even_shares (Amount c div ?n) (Amount c mod ?n) 0 (length ps)"
  from assms obtain t where n0: "length ps \<noteq> 0"
    and w: "evenly_loop E (Amount c div ?n) (Amount c mod ?n) 0 ps 0 = Some (qs, t)"
    and a': "a' = debit a t" and rem: "Amount rem = Amount c - t"
    using accountSettleDistributeEvenly_SomeD by blast
  have "sum_list ?ns = Amount c div ?n * ?n + Amount c mod ?n"
    using n0 by (subst sum_even_shares) (auto intro: less_imp_le simp: pos_mod_bound)
  then have sum: "sum_list ?ns = Amount c" by simp
  have nn: "\<forall>n\<in>set ?ns. 0 \<le> n"
    using assms(2) n0 by (auto simp: even_shares_def pos_imp_zdiv_nonneg_iff)
  from evenly_loop_Some [OF w] have qs: "qs = credits ps ?ns" and t: "t = sum_list ?ns"
    by simp_all
  show "settled a ps a' qs"
    by (rule settledI [OF _ nn qs a' [unfolded t]]) simp
  show "Amount rem = 0" "Amount (acc_Balance a') = Amount (acc_Balance a) - Amount c"
    using rem a' t sum by simp_all
qed

subsection \<open>The stages composed\<close>

definition settle_stages ::
  "'b env \<Rightarrow> account \<Rightarrow> payment list \<Rightarrow> int \<Rightarrow> coin \<Rightarrow> (account \<times> payment list \<times> bool) option" where
  "settle_stages E a ps d r = do {
     (a, ps, overdrawn, rem) \<leftarrow> accountSettleFullblocks E a ps d r;
     if \<not> overdrawn then Some (a, ps, False) else do {
       (a, ps, rem) \<leftarrow> accountSettleDistributeWeighted E a ps r rem;
       (a, ps, rem) \<leftarrow> accountSettleDistributeEvenly E a ps rem;
       Some (a, ps, True) } }"

lemma settle_stages_Some:
  assumes "settle_stages E a ps d r = Some (a', ps', od)"
    and "Amount r = (\<Sum>p\<leftarrow>ps. Amount (pay_Rate p))"
  shows "settled a ps a' ps'" "0 \<le> Amount (acc_Balance a')" "od \<Longrightarrow> Amount (acc_Balance a') = 0"
    "\<forall>p\<in>set ps. Denom (pay_Balance p) = Denom (pay_Rate p)"
proof -
  from assms(1) obtain a1 ps1 od1 rem1 where
    f: "accountSettleFullblocks E a ps d r = Some (a1, ps1, od1, rem1)"
    by (auto simp: settle_stages_def bind_eq_Some_conv)
  note F = accountSettleFullblocks_Some [OF f assms(2)]
  have "settled a ps a' ps' \<and> 0 \<le> Amount (acc_Balance a') \<and> (od \<longrightarrow> Amount (acc_Balance a') = 0)"
  proof (cases od1)
    case False
    then show ?thesis using assms(1) f F by (simp add: settle_stages_def)
  next
    case True
    then obtain a2 ps2 rem2 rem3 where
      w: "accountSettleDistributeWeighted E a1 ps1 r rem1 = Some (a2, ps2, rem2)"
      and e: "accountSettleDistributeEvenly E a2 ps2 rem2 = Some (a', ps', rem3)" and "od"
      using assms(1) f by (auto simp: settle_stages_def bind_eq_Some_conv)
    note W = accountSettleDistributeWeighted_Some [OF w]
    note V = accountSettleDistributeEvenly_Some [OF e W(2)]
    show ?thesis using settled_trans [OF settled_trans [OF F(1) W(1)] V(1)] W(3) V(3) F(2) True
      by simp
  qed
  then show "settled a ps a' ps'" "0 \<le> Amount (acc_Balance a')" "od \<Longrightarrow> Amount (acc_Balance a') = 0"
    by blast+
  show "\<forall>p\<in>set ps. Denom (pay_Balance p) = Denom (pay_Rate p)" by (rule F(4))
qed

text \<open>The final check of the remaining amount never fails.\<close>

lemma settle_stages_bind:
  "bind (or_panic (accountSettleFullblocks E a ps d r)) (\<lambda>(a, ps, overdrawn, rem).
     if \<not> overdrawn then f a ps else
       bind (or_panic (accountSettleDistributeWeighted E a ps r rem)) (\<lambda>(a, ps, rem).
       bind (or_panic (accountSettleDistributeEvenly E a ps rem)) (\<lambda>(a, ps, rem).
       bind (check (coin_IsZero rem) e) (\<lambda>_. g a ps)))) =
   bind (or_panic (settle_stages E a ps d r)) (\<lambda>(a, ps, overdrawn).
     if \<not> overdrawn then f a ps else g a ps)"
proof (cases "accountSettleFullblocks E a ps d r")
  case None
  then show ?thesis by (simp add: settle_stages_def)
next
  case (Some x)
  obtain a1 ps1 od1 rem1 where x: "x = (a1, ps1, od1, rem1)" by (cases x) auto
  show ?thesis
  proof (cases "od1 \<and> accountSettleDistributeWeighted E a1 ps1 r rem1 \<noteq> None")
    case False
    then show ?thesis using Some x
      by (cases "accountSettleDistributeWeighted E a1 ps1 r rem1") (auto simp: settle_stages_def)
  next
    case True
    then obtain a2 ps2 rem2 where
      w: "accountSettleDistributeWeighted E a1 ps1 r rem1 = Some (a2, ps2, rem2)" by auto
    note W = accountSettleDistributeWeighted_Some [OF w]
    show ?thesis using Some x True w
      by (cases "accountSettleDistributeEvenly E a2 ps2 rem2")
        (auto simp: settle_stages_def coin_IsZero_def accountSettleDistributeEvenly_Some(2) [OF _ W(2)])
  qed
qed

subsection \<open>What the stages compute\<close>

text \<open>
  The division without stages.  With balance \<open>bal\<close>, rates \<open>rs\<close> summing to
  \<open>R\<close> and \<open>d\<close> blocks to pay: every payment gets its rate for every block when the
  balance covers that; else the whole balance is divided in proportion to the rates, rounded
  down, and the units lost by rounding go one each to the first payments.
\<close>

definition settle_shares :: "int \<Rightarrow> int list \<Rightarrow> int \<Rightarrow> int list" where
  "settle_shares bal rs d = (let R = sum_list rs in
     if R * d \<le> bal then map (\<lambda>r. r * d) rs
     else let floors = map (\<lambda>r. bal * r div R) rs; left = bal - sum_list floors in
       map2 (+) floors (even_shares 0 left 0 (length rs)))"

definition settleable :: "'b env \<Rightarrow> account \<Rightarrow> payment list \<Rightarrow> bool" where
  "settleable E a ps \<longleftrightarrow> ps \<noteq> [] \<and>
     (let D = Denom (acc_Balance a); bal = Amount (acc_Balance a); R = (\<Sum>p\<leftarrow>ps. Amount (pay_Rate p)) in
      ValidDenom E D \<and> Denom (acc_Transferred a) = D \<and> 0 \<le> bal \<and>
      0 \<le> Amount (acc_Transferred a) \<and> Amount (acc_Transferred a) + bal \<le> IntMax E \<and>
      R \<le> IntMax E \<and> bal * R \<le> IntMax E \<and>
      (\<forall>p\<in>set ps. Denom (pay_Rate p) = D \<and> Denom (pay_Balance p) = D \<and> 0 < Amount (pay_Rate p) \<and>
         0 \<le> Amount (pay_Balance p) \<and> Amount (pay_Balance p) + bal \<le> IntMax E))"

lemma sum_list_nonneg_int:
  fixes xs :: "int list"
  shows "\<forall>x\<in>set xs. 0 \<le> x \<Longrightarrow> 0 \<le> sum_list xs"
  by (induction xs) auto

lemma member_le_sum_int:
  fixes xs :: "int list"
  shows "\<forall>x\<in>set xs. 0 \<le> x \<Longrightarrow> x \<in> set xs \<Longrightarrow> x \<le> sum_list xs"
  by (induction xs) (auto simp: sum_list_nonneg_int add_increasing add_increasing2)

lemma sum_floors:
  fixes rs :: "int list"
  assumes R: "0 < R" and rs: "rs \<noteq> []" and m: "m * sum_list rs = m * R"
  shows "0 \<le> m - (\<Sum>r\<leftarrow>rs. m * r div R)" "m - (\<Sum>r\<leftarrow>rs. m * r div R) < int (length rs)"
proof -
  have split: "m * sum_list ss = R * (\<Sum>r\<leftarrow>ss. m * r div R) + (\<Sum>r\<leftarrow>ss. m * r mod R)" for ss
    by (induction ss) (simp_all add: algebra_simps mult_div_mod_eq [symmetric])
  have lo: "0 \<le> (\<Sum>r\<leftarrow>ss. m * r mod R)" for ss
    using R by (intro sum_list_nonneg_int) simp
  have hi: "ss \<noteq> [] \<Longrightarrow> (\<Sum>r\<leftarrow>ss. m * r mod R) < R * int (length ss)" for ss
    using R
  proof (induction ss)
    case (Cons r ss)
    have "m * r mod R < R" using R by simp
    then show ?case using Cons.IH R by (cases "ss = []") (simp_all add: distrib_left add_strict_mono)
  qed simp
  have eq: "R * (m - (\<Sum>r\<leftarrow>rs. m * r div R)) = (\<Sum>r\<leftarrow>rs. m * r mod R)"
    using split [of rs] m by (simp add: algebra_simps)
  show "0 \<le> m - (\<Sum>r\<leftarrow>rs. m * r div R)"
    using eq lo [of rs] R by (metis zero_le_mult_iff not_le)
  show "m - (\<Sum>r\<leftarrow>rs. m * r div R) < int (length rs)"
    using eq hi [OF rs] R by (metis mult_less_cancel_left_pos)
qed

lemma sum_rates_total:
  assumes "Denom c = D" "0 \<le> Amount c" "\<forall>p\<in>set ps. Denom (pay_Rate p) = D \<and> 0 < Amount (pay_Rate p)"
    and "Amount c + (\<Sum>p\<leftarrow>ps. Amount (pay_Rate p)) \<le> IntMax E"
  shows "sum_rates E c ps = Some \<lparr>Denom = D, Amount = Amount c + (\<Sum>p\<leftarrow>ps. Amount (pay_Rate p))\<rparr>"
  using assms
proof (induction ps arbitrary: c)
  case (Cons p ps)
  have "0 \<le> (\<Sum>p\<leftarrow>ps. Amount (pay_Rate p))"
    using Cons.prems by (intro sum_list_nonneg_int) auto
  then have "coin_add E c (pay_Rate p) = Some (c\<lparr>Amount := Amount c + Amount (pay_Rate p)\<rparr>)"
    using Cons.prems by (simp add: coin_add_Some)
  then show ?case using Cons by (simp add: add.assoc)
qed simp

lemma opt_map_total: "(\<And>x. x \<in> set xs \<Longrightarrow> f x = Some (g x)) \<Longrightarrow> opt_map f xs = Some (map g xs)"
  by (induction xs) auto

lemma map_credits_map: "map (\<lambda>p. credit p (f p)) ps = credits ps (map f ps)"
  by (induction ps) simp_all

lemma coin_update_Amount: "c\<lparr>Amount := n\<rparr> = \<lparr>Denom = Denom c, Amount = n\<rparr>"
  by (cases c) simp

text \<open>The facts of a settleable account, once.\<close>

lemma settleable_facts:
  assumes "settleable E a ps"
  defines "D \<equiv> Denom (acc_Balance a)" and "bal \<equiv> Amount (acc_Balance a)"
    and "R \<equiv> (\<Sum>p\<leftarrow>ps. Amount (pay_Rate p))"
  shows "ValidDenom E D" "Denom (acc_Transferred a) = D" "0 \<le> bal" "0 < R" "R \<le> IntMax E"
    "bal * R \<le> IntMax E" "bal \<le> IntMax E"
    "\<And>n. 0 \<le> n \<Longrightarrow> n \<le> bal \<Longrightarrow> \<bar>Amount (acc_Transferred a) + n\<bar> \<le> IntMax E"
    "\<And>p. p \<in> set ps \<Longrightarrow> Denom (pay_Rate p) = D \<and> Denom (pay_Balance p) = D \<and>
       0 < Amount (pay_Rate p) \<and> Amount (pay_Rate p) \<le> R \<and> 0 \<le> Amount (pay_Balance p)"
    "\<And>p n. p \<in> set ps \<Longrightarrow> 0 \<le> n \<Longrightarrow> n \<le> bal \<Longrightarrow> \<bar>Amount (pay_Balance p) + n\<bar> \<le> IntMax E"
proof -
  note S = assms(1) [unfolded settleable_def Let_def, folded D_def bal_def R_def]
  show R: "0 < R"
  proof -
    obtain p qs where ps: "ps = p # qs" using S by (cases ps) auto
    have "0 \<le> (\<Sum>p\<leftarrow>qs. Amount (pay_Rate p))" using S ps by (intro sum_list_nonneg_int) auto
    then show ?thesis using S ps by (simp add: R_def)
  qed
  have le: "Amount (pay_Rate p) \<le> R" if "p \<in> set ps" for p
    unfolding R_def using S that by (intro member_le_sum_int) (auto simp: less_imp_le)
  show "ValidDenom E D" "Denom (acc_Transferred a) = D" "0 \<le> bal" "R \<le> IntMax E"
    "bal * R \<le> IntMax E" "bal \<le> IntMax E" using S by simp_all
  fix n :: int
  assume n: "0 \<le> n" "n \<le> bal"
  show "\<bar>Amount (acc_Transferred a) + n\<bar> \<le> IntMax E" using n S by simp
  fix p assume p: "p \<in> set ps"
  show "\<bar>Amount (pay_Balance p) + n\<bar> \<le> IntMax E" using n S p by fastforce
next
  fix p assume "p \<in> set ps"
  moreover have "p \<in> set ps \<Longrightarrow> Amount (pay_Rate p) \<le> R"
    unfolding R_def using assms(1) by (intro member_le_sum_int) (auto simp: settleable_def Let_def less_imp_le)
  ultimately show "Denom (pay_Rate p) = D \<and> Denom (pay_Balance p) = D \<and>
       0 < Amount (pay_Rate p) \<and> Amount (pay_Rate p) \<le> R \<and> 0 \<le> Amount (pay_Balance p)"
    using assms(1) by (simp add: settleable_def Let_def D_def)
qed

lemma fullblocks_total:
  assumes S: "settleable E a ps" and d: "0 < d"
  defines "D \<equiv> Denom (acc_Balance a)" and "bal \<equiv> Amount (acc_Balance a)"
    and "R \<equiv> (\<Sum>p\<leftarrow>ps. Amount (pay_Rate p))"
  defines "k \<equiv> min (bal div R) d"
  shows "accountSettleFullblocks E a ps d \<lparr>Denom = D, Amount = R\<rparr> =
    Some (debit a (R * k), credits ps (map (\<lambda>p. Amount (pay_Rate p) * k) ps), k \<noteq> d,
      if k = d then (acc_Balance a)\<lparr>Amount := 0\<rparr> else (acc_Balance a)\<lparr>Amount := bal - R * k\<rparr>)"
proof -
  note F = settleable_facts [OF S, folded D_def bal_def R_def]
  have k0: "0 \<le> k" using F(3,4) d by (simp add: k_def pos_imp_zdiv_nonneg_iff)
  have "R * k \<le> R * (bal div R)" using F(4) by (simp add: k_def)
  also have "\<dots> \<le> bal" using F(4) by (simp add: minus_mod_eq_mult_div [symmetric])
  finally have Rk: "R * k \<le> bal" .
  have step: "fullblocks_step E k p = Some (credit p (Amount (pay_Rate p) * k))" if p: "p \<in> set ps" for p
  proof -
    have "Amount (pay_Rate p) * k \<le> R * k" using F(9) [OF p] k0 by (simp add: mult_right_mono)
    then have "0 \<le> Amount (pay_Rate p) * k" "Amount (pay_Rate p) * k \<le> bal" using F(9) [OF p] k0 Rk by auto
    then show ?thesis using F(1,7) F(9) [OF p] F(10) [OF p]
      by (simp add: fullblocks_step_def int_chk_def NewCoin_def coin_add_def credit_def)
  qed
  have "opt_map (fullblocks_step E k) ps = Some (credits ps (map (\<lambda>p. Amount (pay_Rate p) * k) ps))"
    using step by (simp add: opt_map_total map_credits_map)
  moreover have "int_quo bal R = Some (bal div R)" using F(3,4) by (simp add: int_quo_Some)
  moreover have "0 \<le> R * k" using F(4) k0 by simp
  ultimately show ?thesis
    unfolding accountSettleFullblocks_eq Let_def
    using F(1,2,3,7) F(8) [of "R * k"] Rk k_def
    by (simp add: int_chk_def NewCoin_def coin_add_def coin_sub_def debit_def bal_def [symmetric] D_def [symmetric])
qed

lemma weighted_loop_total:
  assumes "0 < R" "0 \<le> m"
    and "\<forall>p\<in>set ps. 0 < Amount (pay_Rate p) \<and> m * Amount (pay_Rate p) \<le> IntMax E \<and>
      ValidDenom E (Denom (pay_Balance p)) \<and>
      \<bar>Amount (pay_Balance p) + m * Amount (pay_Rate p) div R\<bar> \<le> IntMax E"
    and "0 \<le> t" "t + (\<Sum>p\<leftarrow>ps. m * Amount (pay_Rate p) div R) \<le> IntMax E"
  shows "weighted_loop E \<lparr>Denom = D, Amount = R\<rparr> \<lparr>Denom = D', Amount = m\<rparr> ps t =
    Some (credits ps (map (\<lambda>p. m * Amount (pay_Rate p) div R) ps),
      t + (\<Sum>p\<leftarrow>ps. m * Amount (pay_Rate p) div R))"
  using assms
proof (induction ps arbitrary: t)
  case (Cons p ps)
  let ?n = "m * Amount (pay_Rate p) div R"
  have mr: "0 \<le> m * Amount (pay_Rate p)" using Cons.prems by simp
  then have n: "0 \<le> ?n" using Cons.prems(1) by (simp add: pos_imp_zdiv_nonneg_iff)
  have "0 \<le> (\<Sum>p\<leftarrow>ps. m * Amount (pay_Rate p) div R)"
    using Cons.prems by (intro sum_list_nonneg_int) (auto simp: pos_imp_zdiv_nonneg_iff)
  then have t: "\<bar>t + ?n\<bar> \<le> IntMax E" using Cons.prems n by simp
  have "weighted_loop E \<lparr>Denom = D, Amount = R\<rparr> \<lparr>Denom = D', Amount = m\<rparr> ps (t + ?n) =
    Some (credits ps (map (\<lambda>p. m * Amount (pay_Rate p) div R) ps),
      t + ?n + (\<Sum>p\<leftarrow>ps. m * Amount (pay_Rate p) div R))"
    using Cons.prems n by (intro Cons.IH) auto
  moreover have "int_quo (m * Amount (pay_Rate p)) R = Some ?n"
    using mr Cons.prems(1) by (simp add: int_quo_Some)
  ultimately show ?case
    using Cons.prems t n mr by (simp add: int_chk_def NewCoin_def coin_add_def credit_def add.assoc)
qed simp

lemma evenly_loop_total:
  assumes "list_all2 (\<lambda>p n. 0 \<le> n \<and> 0 \<le> Amount (pay_Balance p) \<and> Amount (pay_Balance p) + n \<le> IntMax E)
      ps (even_shares base over idx (length ps))"
    and "0 \<le> t" "t + sum_list (even_shares base over idx (length ps)) \<le> IntMax E"
  shows "evenly_loop E base over idx ps t =
    Some (credits ps (even_shares base over idx (length ps)),
      t + sum_list (even_shares base over idx (length ps)))"
  using assms
proof (induction ps arbitrary: idx t)
  case (Cons p ps)
  let ?n = "base + (if idx < over then 1 else 0)"
  let ?ns = "even_shares base over (idx + 1) (length ps)"
  have l: "list_all2 (\<lambda>p n. 0 \<le> n \<and> 0 \<le> Amount (pay_Balance p) \<and> Amount (pay_Balance p) + n \<le> IntMax E) ps ?ns"
    and n: "0 \<le> ?n" "0 \<le> Amount (pay_Balance p)" "Amount (pay_Balance p) + ?n \<le> IntMax E"
    using Cons.prems(1) by simp_all
  have "\<forall>n\<in>set ?ns. 0 \<le> n" using l by (auto simp: list_all2_conv_all_nth in_set_conv_nth)
  then have "0 \<le> sum_list ?ns" by (rule sum_list_nonneg_int)
  then have t: "t + ?n \<le> IntMax E" using Cons.prems by simp
  have "evenly_loop E base over (idx + 1) ps (t + ?n) = Some (credits ps ?ns, t + ?n + sum_list ?ns)"
    using Cons.prems n by (intro Cons.IH l) auto
  then show ?case
    using n t Cons.prems(2) by (cases "idx < over") (simp_all add: int_chk_def credit_def add.assoc)
qed simp

lemma accountSettleDistributeWeighted_total:
  assumes "weighted_loop E r \<lparr>Denom = D, Amount = m\<rparr> ps 0 = Some (qs, t)"
    and "ValidDenom E D" "Denom (acc_Balance a) = D" "Denom (acc_Transferred a) = D"
    and "0 \<le> t" "t \<le> m" "m \<le> Amount (acc_Balance a)" "Amount (acc_Balance a) \<le> IntMax E"
    and "\<bar>Amount (acc_Transferred a) + t\<bar> \<le> IntMax E"
  shows "accountSettleDistributeWeighted E a ps r \<lparr>Denom = D, Amount = m\<rparr> =
    Some (debit a t, qs, \<lparr>Denom = D, Amount = m - t\<rparr>)"
  using assms
  by (simp add: accountSettleDistributeWeighted_def NewCoin_def coin_add_def coin_sub_def int_chk_def
    debit_def)

lemma accountSettleDistributeEvenly_total:
  assumes "evenly_loop E 0 l 0 ps 0 = Some (qs, l)"
    and "0 \<le> l" "l < int (length ps)" "l \<le> Amount (acc_Balance a)" "Amount (acc_Balance a) \<le> IntMax E"
    and "\<bar>Amount (acc_Transferred a) + l\<bar> \<le> IntMax E"
  shows "accountSettleDistributeEvenly E a ps \<lparr>Denom = D, Amount = l\<rparr> =
    Some (debit a l, qs, \<lparr>Denom = D, Amount = 0\<rparr>)"
proof -
  have "int_quo l (int (length ps)) = Some 0" "int_mod l (int (length ps)) = Some l"
    using assms(2,3) by (auto simp: int_quo_Some int_mod_Some)
  then show ?thesis
    using assms by (simp add: accountSettleDistributeEvenly_def int_chk_def debit_def)
qed

lemma int_le_div_iff:
  fixes R :: int
  assumes "0 < R"
  shows "d \<le> n div R \<longleftrightarrow> R * d \<le> n"
proof
  assume "d \<le> n div R"
  then have "R * d \<le> R * (n div R)" using assms by simp
  also have "\<dots> \<le> n" using assms by (simp add: minus_mod_eq_mult_div [symmetric])
  finally show "R * d \<le> n" .
next
  assume "R * d \<le> n"
  from zdiv_mono1 [OF this assms] show "d \<le> n div R" using assms by simp
qed

text \<open>Dividing block by block and then the rest is dividing the whole.\<close>

lemma share_split:
  fixes R :: int
  assumes "0 < R"
  shows "r * (bal div R) + (bal mod R) * r div R = bal * r div R"
proof -
  have "bal * r = (bal mod R) * r + (r * (bal div R)) * R"
    by (metis (no_types) distrib_right mod_mult_div_eq mult.assoc mult.commute)
  then show ?thesis using assms by simp
qed

lemma even_shares_nonneg: "0 \<le> base \<Longrightarrow> \<forall>n\<in>set (even_shares base over idx n). 0 \<le> n"
  by (auto simp: even_shares_def)

lemma settle_shares_facts:
  assumes "rs \<noteq> []" "\<forall>r\<in>set rs. 0 < r" "0 \<le> bal" "0 < d"
  shows "length (settle_shares bal rs d) = length rs" "\<forall>n\<in>set (settle_shares bal rs d). 0 \<le> n"
    "sum_list (settle_shares bal rs d) = min bal (sum_list rs * d)"
proof -
  let ?R = "sum_list rs"
  let ?fl = "map (\<lambda>r. bal * r div ?R) rs"
  let ?left = "bal - sum_list ?fl"
  have R: "0 < ?R" using assms(1,2)
    by (cases rs) (auto intro!: add_pos_nonneg sum_list_nonneg_int simp: less_imp_le)
  have left: "0 \<le> ?left" "?left < int (length rs)" using sum_floors [OF R assms(1) refl] by auto
  have fl: "\<forall>n\<in>set ?fl. 0 \<le> n" using R assms(2,3) by (auto simp: pos_imp_zdiv_nonneg_iff)
  show "length (settle_shares bal rs d) = length rs" by (simp add: settle_shares_def Let_def)
  show "\<forall>n\<in>set (settle_shares bal rs d). 0 \<le> n"
  proof (cases "?R * d \<le> bal")
    case True
    then show ?thesis using assms(2,4) by (auto simp: settle_shares_def Let_def)
  next
    case False
    then show ?thesis using map2_add_nonneg [OF fl even_shares_nonneg [OF order_refl]]
      unfolding settle_shares_def Let_def by presburger
  qed
  show "sum_list (settle_shares bal rs d) = min bal (sum_list rs * d)"
  proof (cases "?R * d \<le> bal")
    case True
    then show ?thesis by (simp add: settle_shares_def Let_def sum_list_mult_const)
  next
    case False
    then show ?thesis using left
      by (simp add: settle_shares_def Let_def sum_list_map2_add sum_even_shares)
  qed
qed

lemma settle_stages_covered:
  assumes S: "settleable E a ps" and d: "0 < d"
  defines "bal \<equiv> Amount (acc_Balance a)" and "R \<equiv> (\<Sum>p\<leftarrow>ps. Amount (pay_Rate p))"
  assumes "R * d \<le> bal"
  shows "settle_stages E a ps d \<lparr>Denom = Denom (acc_Balance a), Amount = R\<rparr> =
    Some (debit a (R * d), credits ps (map (\<lambda>p. Amount (pay_Rate p) * d) ps), False)"
proof -
  have "0 < R" unfolding R_def by (rule settleable_facts(4) [OF S])
  then have "d \<le> bal div R" using assms(5) by (simp add: int_le_div_iff)
  then show ?thesis
    using fullblocks_total [OF S d] by (simp add: settle_stages_def bal_def R_def min_def split: if_splits)
qed

text \<open>The amounts of the three stages when the balance does not cover the blocks.\<close>

lemma overdrawn_parts:
  assumes S: "settleable E a ps" and d: "0 < d"
  defines "bal \<equiv> Amount (acc_Balance a)" and "R \<equiv> (\<Sum>p\<leftarrow>ps. Amount (pay_Rate p))"
  defines "A \<equiv> map (\<lambda>p. Amount (pay_Rate p) * (bal div R)) ps"
    and "B \<equiv> map (\<lambda>p. bal mod R * Amount (pay_Rate p) div R) ps"
  defines "C \<equiv> even_shares 0 (bal mod R - sum_list B) 0 (length ps)"
  assumes lt: "bal < R * d"
  shows "settle_shares bal (map (\<lambda>p. Amount (pay_Rate p)) ps) d = map2 (+) (map2 (+) A B) C"
    and "0 \<le> sum_list B" "sum_list B \<le> bal mod R" "bal mod R - sum_list B < int (length ps)"
    and "\<And>i. i < length ps \<Longrightarrow> 0 \<le> A ! i + B ! i \<and> 0 \<le> C ! i \<and> A ! i + B ! i + C ! i \<le> bal"
proof -
  note F = settleable_facts [OF S, folded bal_def R_def]
  let ?rs = "map (\<lambda>p. Amount (pay_Rate p)) ps"
  have rs: "?rs \<noteq> []" "\<forall>r\<in>set ?rs. 0 < r" using S F(9) by (auto simp: settleable_def)
  have AB: "map2 (+) A B = map (\<lambda>p. bal * Amount (pay_Rate p) div R) ps"
    unfolding A_def B_def using share_split [OF F(4)] by (induction ps) simp_all
  have B: "0 \<le> bal mod R - sum_list B" "bal mod R - sum_list B < int (length ps)"
    using sum_floors [OF F(4) rs(1), of "bal mod R"] by (simp_all add: R_def B_def comp_def)
  then show "sum_list B \<le> bal mod R" "bal mod R - sum_list B < int (length ps)" by simp_all
  show "0 \<le> sum_list B"
    using F(4) F(9) by (intro sum_list_nonneg_int) (auto simp: B_def pos_imp_zdiv_nonneg_iff less_imp_le)
  have "sum_list A = bal - bal mod R"
    by (simp add: A_def sum_list_mult_const R_def [symmetric] minus_mod_eq_mult_div)
  then have "bal - sum_list (map2 (+) A B) = bal mod R - sum_list B"
    by (subst sum_list_map2_add) (simp_all add: A_def B_def)
  then show sh: "settle_shares bal ?rs d = map2 (+) (map2 (+) A B) C"
    using lt AB by (simp add: settle_shares_def R_def C_def comp_def Let_def)
  fix i assume i: "i < length ps"
  let ?x = "A ! i + B ! i"
  have len: "length A = length ps" "length B = length ps" "length C = length ps"
    by (simp_all add: A_def B_def C_def)
  have "map2 (+) A B ! i = bal * Amount (pay_Rate (ps ! i)) div R" using i AB by simp
  then have "?x = bal * Amount (pay_Rate (ps ! i)) div R" using i len by simp
  then have x: "0 \<le> ?x" using F(3,4) F(9) [OF nth_mem [OF i]] by (simp add: pos_imp_zdiv_nonneg_iff)
  have y: "0 \<le> C ! i" using even_shares_nonneg [OF order_refl] len(3) i unfolding C_def by (metis nth_mem)
  have "?x + C ! i \<in> set (settle_shares bal ?rs d)"
    unfolding sh in_set_conv_nth using i len by (intro exI [of _ i]) simp
  then have "?x + C ! i \<le> sum_list (settle_shares bal ?rs d)"
    using settle_shares_facts(2) [OF rs F(3) d] by (intro member_le_sum_int)
  then show "0 \<le> ?x \<and> 0 \<le> C ! i \<and> ?x + C ! i \<le> bal"
    using x y settle_shares_facts(3) [OF rs F(3) d] by simp
qed

lemma settle_stages_overdrawn:
  assumes S: "settleable E a ps" and d: "0 < d"
  defines "D \<equiv> Denom (acc_Balance a)" and "bal \<equiv> Amount (acc_Balance a)"
    and "R \<equiv> (\<Sum>p\<leftarrow>ps. Amount (pay_Rate p))"
  assumes lt: "bal < R * d"
  shows "settle_stages E a ps d \<lparr>Denom = D, Amount = R\<rparr> =
    Some (debit a bal, credits ps (settle_shares bal (map (\<lambda>p. Amount (pay_Rate p)) ps) d), True)"
proof -
  note F = settleable_facts [OF S, folded D_def bal_def R_def]
  define m where "m = bal mod R"
  define A where "A = map (\<lambda>p. Amount (pay_Rate p) * (bal div R)) ps"
  define B where "B = map (\<lambda>p. m * Amount (pay_Rate p) div R) ps"
  define C where "C = even_shares 0 (m - sum_list B) 0 (length ps)"
  note P = overdrawn_parts [OF S d, folded bal_def R_def, OF lt, folded m_def, folded A_def B_def,
    folded C_def]
  have m: "0 \<le> m" "m \<le> bal" "R * (bal div R) = bal - m" "m < R"
    using F(3,4) by (auto simp: m_def minus_mod_eq_mult_div [symmetric] zmod_le_nonneg_dividend)
  have A: "sum_list A = bal - m" using m(3) by (simp add: A_def sum_list_mult_const R_def)
  have len: "length A = length ps" "length B = length ps" "length C = length ps"
    by (simp_all add: A_def B_def C_def)
  have "bal div R < d" using lt F(4) by (simp add: int_le_div_iff flip: not_le)
  then have f: "accountSettleFullblocks E a ps d \<lparr>Denom = D, Amount = R\<rparr> =
      Some (debit a (sum_list A), credits ps A, True, \<lparr>Denom = D, Amount = m\<rparr>)"
    using fullblocks_total [OF S d, folded D_def bal_def R_def] m(3)
    by (simp add: A min_def coin_update_Amount D_def A_def [symmetric])
  have bound: "0 < Amount (pay_Rate p) \<and> m * Amount (pay_Rate p) \<le> IntMax E \<and>
      ValidDenom E (Denom (pay_Balance p)) \<and>
      \<bar>Amount (pay_Balance p) + m * Amount (pay_Rate p) div R\<bar> \<le> IntMax E"
    if "p \<in> set (credits ps A)" for p
  proof -
    from that obtain i where i: "i < length ps" and p: "p = credit (ps ! i) (A ! i)"
      by (auto simp: in_set_conv_nth credits_nth len)
    have "m * Amount (pay_Rate (ps ! i)) \<le> bal * R"
      using F(9) [OF nth_mem [OF i]] m F(3) by (intro mult_mono) auto
    moreover have "\<bar>Amount (pay_Balance (ps ! i)) + (A ! i + B ! i)\<bar> \<le> IntMax E"
      using P(5) [OF i] by (intro F(10) nth_mem i) auto
    ultimately show ?thesis using F(1,6) F(9) [OF nth_mem [OF i]] i by (simp add: p B_def add.assoc)
  qed
  have rates: "map (\<lambda>p. m * Amount (pay_Rate p) div R) (credits ps A) = B"
    unfolding B_def by (rule map_credits) (simp_all add: len)
  have "weighted_loop E \<lparr>Denom = D, Amount = R\<rparr> \<lparr>Denom = D, Amount = m\<rparr> (credits ps A) 0 =
      Some (credits (credits ps A) B, sum_list B)"
    using weighted_loop_total [OF F(4) m(1), of "credits ps A" E 0 D D] bound P(3) m(2) F(7)
    unfolding rates by simp
  then have w: "accountSettleDistributeWeighted E (debit a (sum_list A)) (credits ps A)
      \<lparr>Denom = D, Amount = R\<rparr> \<lparr>Denom = D, Amount = m\<rparr> =
      Some (debit a (sum_list A + sum_list B), credits (credits ps A) B, \<lparr>Denom = D, Amount = m - sum_list B\<rparr>)"
    using accountSettleDistributeWeighted_total [of E _ D m "credits ps A" _ "sum_list B" "debit a (sum_list A)"]
      F(1,2,3,7) F(8) [of "sum_list A + sum_list B"] P(2,3) m A
    by (simp add: D_def bal_def [symmetric] add.assoc)
  have "Amount (pay_Balance (ps ! i)) + (A ! i + B ! i + C ! i) \<le> IntMax E" if "i < length ps" for i
    using P(5) [OF that] F(10) [OF nth_mem [OF that], of "A ! i + B ! i + C ! i"] by simp
  then have "list_all2 (\<lambda>p n. 0 \<le> n \<and> 0 \<le> Amount (pay_Balance p) \<and> Amount (pay_Balance p) + n \<le> IntMax E)
      (credits (credits ps A) B) C"
    using F(9) [OF nth_mem] P(5) by (simp add: list_all2_conv_all_nth credits_nth len add.assoc)
  moreover have "sum_list C = m - sum_list B" using P(3,4) by (simp add: C_def sum_even_shares)
  ultimately have "evenly_loop E 0 (m - sum_list B) 0 (credits (credits ps A) B) 0 =
      Some (credits (credits (credits ps A) B) C, m - sum_list B)"
    using evenly_loop_total [of E "credits (credits ps A) B" 0 "m - sum_list B" 0 0] P(2) m(2) F(7)
    by (simp add: len C_def)
  then have e: "accountSettleDistributeEvenly E (debit a (sum_list A + sum_list B))
      (credits (credits ps A) B) \<lparr>Denom = D, Amount = m - sum_list B\<rparr> =
      Some (debit a bal, credits (credits (credits ps A) B) C, \<lparr>Denom = D, Amount = 0\<rparr>)"
    using accountSettleDistributeEvenly_total [of E "m - sum_list B" "credits (credits ps A) B" _
        "debit a (sum_list A + sum_list B)"]
      F(7) F(8) [of bal] F(3) P(2,3,4) m A by (simp add: bal_def [symmetric] len)
  show ?thesis using f w e P(1) by (simp add: settle_stages_def credits_credits len)
qed

lemma settle_stages_total:
  assumes S: "settleable E a ps" and d: "0 < d"
  defines "bal \<equiv> Amount (acc_Balance a)" and "rs \<equiv> map (\<lambda>p. Amount (pay_Rate p)) ps"
  shows "settle_stages E a ps d \<lparr>Denom = Denom (acc_Balance a), Amount = sum_list rs\<rparr> =
    Some (debit a (sum_list (settle_shares bal rs d)), credits ps (settle_shares bal rs d),
      bal < sum_list rs * d)"
proof (cases "sum_list rs * d \<le> bal")
  case True
  then show ?thesis using settle_stages_covered [OF S d]
    by (simp add: settle_shares_def bal_def rs_def comp_def sum_list_mult_const Let_def)
next
  case False
  have "rs \<noteq> []" "\<forall>r\<in>set rs. 0 < r" "0 \<le> bal"
    using S settleable_facts(3,9) [OF S] by (auto simp: settleable_def rs_def bal_def)
  then show ?thesis using False d settle_stages_overdrawn [OF S d] settle_shares_facts(3) [of rs bal d]
    by (simp add: bal_def rs_def)
qed

end
