(* ===== verification/Escrow_Solvency.thy ===== *)
theory Escrow_Solvency
  imports Escrow_Settle
begin

text \<open>
  The escrow module holds what it owes.

  \<open>escrow_inv\<close> is the keeper's invariant: both stores are well formed, every object lies
  under its own key and has no negative balance, accounts are those of deployments and bids and
  payments those of deployments, no account belongs to the module itself, and
  the balances of all accounts and payments are covered, denomination by denomination, by the
  funds of the module account.  Every operation of the keeper keeps it, also where it returns an
  error half way, whatever the registered hooks do as long as they keep it: the locale
  \<open>hooks_keep\<close> is the contract of the hooks.  The parameter \<open>J\<close> is an invariant of
  the other modules' part of the state, which the escrow keeper only changes through its hooks.
\<close>

subsection \<open>The settlement step, with the stages composed\<close>

definition settle_finish ::
  "'b env \<Rightarrow> ('b, 'x) hooks \<Rightarrow> account \<Rightarrow> payment list \<Rightarrow> (account \<times> payment list \<times> bool, ('b, 'x) est) act" where
  "settle_finish E H account ps =
     (let account = account\<lparr>acc_State := AccountOverdrawn\<rparr> in
      bind (saveAccount account) (\<lambda>_.
      bind (each_map (\<lambda>p.
          let p = p\<lparr>pay_State := PaymentOverdrawn\<rparr> in
          bind (savePayment p) (\<lambda>_. paymentWithdraw E p)) ps) (\<lambda>ps.
      bind (each (\<lambda>hook. hook account) (onAccountClosed H)) (\<lambda>_.
      bind (each (\<lambda>hook. each hook ps) (onPaymentClosed H)) (\<lambda>_.
      ret (account, ps, True))))))"

definition settle_save ::
  "account \<Rightarrow> payment list \<Rightarrow> (account \<times> payment list \<times> bool, ('b, 'x) est) act" where
  "settle_save account ps =
     bind (saveAccount account) (\<lambda>_. bind (each savePayment ps) (\<lambda>_. ret (account, ps, False)))"

lemma doAccountSettle_eq:
  "doAccountSettle E H i =
     bind (GetAccount i) (\<lambda>account.
     bind (check (acc_State account = AccountOpen) (Escrow ErrAccountClosed)) (\<lambda>_.
     let heightDelta = BlockHeight E - acc_SettledAt account in
     if heightDelta = 0 then ret (account, [], False) else
     let account = account\<lparr>acc_SettledAt := BlockHeight E\<rparr> in
     bind (accountOpenPayments i) (\<lambda>ps.
     if ps = [] then bind (saveAccount account) (\<lambda>_. ret (account, [], False)) else
     bind (or_panic (NewCoin E (Denom (acc_Balance account)) 0)) (\<lambda>zero.
     bind (or_panic (sum_rates E zero ps)) (\<lambda>blockRate.
     bind (or_panic (settle_stages E account ps heightDelta blockRate)) (\<lambda>(account, ps, overdrawn).
     if \<not> overdrawn then settle_save account ps else settle_finish E H account ps))))))"
  unfolding doAccountSettle_def Let_def settle_stages_bind settle_finish_def settle_save_def ..

subsection \<open>Invariant\<close>

definition payKey :: "payment \<Rightarrow> string" where
  "payKey p = paymentKey (pay_AccountID p) (pay_PaymentID p)"

lemma payKey_update [simp]:
  "payKey (p\<lparr>pay_State := st\<rparr>) = payKey p" "payKey (p\<lparr>pay_Balance := c\<rparr>) = payKey p"
  "payKey (p\<lparr>pay_Withdrawn := c\<rparr>) = payKey p" "payKey (credit p n) = payKey p"
  by (simp_all add: payKey_def)

lemma savePayment_eq:
  "savePayment p = modify (\<lambda>s. s\<lparr>payments := kv_set (payKey p) p (payments s)\<rparr>)"
  by (simp add: savePayment_def payKey_def)

definition owed :: "('b, 'x) est \<Rightarrow> string \<Rightarrow> int" where
  "owed s d = kv_total (\<lambda>a. coin_in (acc_Balance a) d) (accounts s) +
     kv_total (\<lambda>p. coin_in (pay_Balance p) d) (payments s)"

text \<open>Accounts belong to deployments and to bids, payments to deployments.\<close>

definition payment_id_ok :: "'b env \<Rightarrow> account_id \<Rightarrow> bool" where
  "payment_id_ok E i \<longleftrightarrow> (\<exists>d. i = EscrowAccountForDeployment d \<and> decodable E (did_Owner d))"

definition account_id_ok :: "'b env \<Rightarrow> account_id \<Rightarrow> bool" where
  "account_id_ok E i \<longleftrightarrow> payment_id_ok E i \<or>
     (\<exists>b. i = EscrowAccountForBid b \<and> decodable E (bid_Owner b) \<and> decodable E (bid_Provider b))"

definition account_ok :: "'b env \<Rightarrow> account \<Rightarrow> bool" where
  "account_ok E a \<longleftrightarrow> 0 \<le> Amount (acc_Balance a) \<and> account_id_ok E (acc_ID a) \<and>
     FromBech32 E (acc_Owner a) \<noteq> Some (ModuleAddress E ModuleName)"

definition payment_ok :: "'b env \<Rightarrow> payment \<Rightarrow> bool" where
  "payment_ok E p \<longleftrightarrow> 0 \<le> Amount (pay_Balance p) \<and> payment_id_ok E (pay_AccountID p)"

definition escrow_wf :: "'b env \<Rightarrow> ('x \<Rightarrow> bool) \<Rightarrow> ('b, 'x) est \<Rightarrow> bool" where
  "escrow_wf E J s \<longleftrightarrow> kv_ok (accounts s) \<and> kv_ok (payments s) \<and> J (escrow_state.more s) \<and>
     (\<forall>k a. kv_get (accounts s) k = Some a \<longrightarrow> k = accountKey (acc_ID a) \<and> account_ok E a) \<and>
     (\<forall>k p. kv_get (payments s) k = Some p \<longrightarrow> k = payKey p \<and> payment_ok E p)"

definition escrow_inv ::
  "'b env \<Rightarrow> ('b \<Rightarrow> string \<Rightarrow> int) \<Rightarrow> ('x \<Rightarrow> bool) \<Rightarrow> ('b, 'x) est \<Rightarrow> bool" where
  "escrow_inv E bal J s \<longleftrightarrow> escrow_wf E J s \<and> (\<forall>d. owed s d \<le> bal (bank s) d)"

definition stored :: "payment \<Rightarrow> ('b, 'x) est \<Rightarrow> bool" where
  "stored p s \<longleftrightarrow> (\<exists>q. kv_get (payments s) (payKey p) = Some q \<and> pay_Balance q = pay_Balance p \<and>
     pay_AccountID q = pay_AccountID p)"

lemma coin_in_nonneg: "0 \<le> Amount c \<Longrightarrow> 0 \<le> coin_in c d"
  by (simp add: coin_in_def)

lemma coin_in_same: "Denom c = Denom c' \<Longrightarrow> Amount c \<le> Amount c' \<Longrightarrow> coin_in c d \<le> coin_in c' d"
  by (simp add: coin_in_def)

lemma NewCoins_nonneg: "NewCoins E c = Some cs \<Longrightarrow> 0 \<le> Amount c"
  by (auto simp: NewCoins_def coin_IsZero_def coin_IsValid_def split: if_splits)

lemma owed_set_account:
  "kv_ok (accounts s) \<Longrightarrow> owed (s\<lparr>accounts := kv_set k a (accounts s)\<rparr>) d = owed s d + coin_in (acc_Balance a) d -
     (case kv_get (accounts s) k of None \<Rightarrow> 0 | Some b \<Rightarrow> coin_in (acc_Balance b) d)"
  by (simp add: owed_def kv_total_set)

lemma owed_set_payment:
  "kv_ok (payments s) \<Longrightarrow> owed (s\<lparr>payments := kv_set k p (payments s)\<rparr>) d = owed s d + coin_in (pay_Balance p) d -
     (case kv_get (payments s) k of None \<Rightarrow> 0 | Some q \<Rightarrow> coin_in (pay_Balance q) d)"
  by (simp add: owed_def kv_total_set)

lemma owed_bank [simp]: "owed (s\<lparr>bank := b\<rparr>) d = owed s d"
  by (simp add: owed_def)

lemma owed_events [simp]: "owed (s\<lparr>events := es\<rparr>) d = owed s d"
  by (simp add: owed_def)

lemma wf_set_account:
  "escrow_wf E J s \<Longrightarrow> account_ok E a \<Longrightarrow> k = accountKey (acc_ID a) \<Longrightarrow>
   escrow_wf E J (s\<lparr>accounts := kv_set k a (accounts s)\<rparr>)"
  by (auto simp: escrow_wf_def)

lemma wf_set_payment:
  "escrow_wf E J s \<Longrightarrow> payment_ok E p \<Longrightarrow> k = payKey p \<Longrightarrow>
   escrow_wf E J (s\<lparr>payments := kv_set k p (payments s)\<rparr>)"
  by (auto simp: escrow_wf_def)

lemma wf_bank [simp]: "escrow_wf E J (s\<lparr>bank := b\<rparr>) = escrow_wf E J s"
  by (simp add: escrow_wf_def)

lemma wf_events [simp]: "escrow_wf E J (s\<lparr>events := b\<rparr>) = escrow_wf E J s"
  by (simp add: escrow_wf_def)

lemma wf_kv_ok: "escrow_wf E J s \<Longrightarrow> kv_ok (accounts s)" "escrow_wf E J s \<Longrightarrow> kv_ok (payments s)"
  by (simp_all add: escrow_wf_def)

lemma wf_account:
  "escrow_wf E J s \<Longrightarrow> kv_get (accounts s) k = Some a \<Longrightarrow> k = accountKey (acc_ID a)"
  "escrow_wf E J s \<Longrightarrow> kv_get (accounts s) k = Some a \<Longrightarrow> account_ok E a"
  by (simp_all add: escrow_wf_def)

lemma wf_payment:
  "escrow_wf E J s \<Longrightarrow> kv_get (payments s) k = Some p \<Longrightarrow> k = payKey p"
  "escrow_wf E J s \<Longrightarrow> kv_get (payments s) k = Some p \<Longrightarrow> payment_ok E p"
  by (simp_all add: escrow_wf_def)

lemma inv_own_key:
  "escrow_inv E bal J s \<Longrightarrow> kv_get (accounts s) k = Some a \<Longrightarrow> k = accountKey (acc_ID a)"
  "escrow_inv E bal J s \<Longrightarrow> kv_get (payments s) k = Some p \<Longrightarrow> k = payKey p"
  using wf_account(1) wf_payment(1) by (auto simp: escrow_inv_def)

lemma inv_set_account:
  assumes "escrow_inv E bal J s" "kv_get (accounts s) k = Some a0"
    and "acc_ID a = acc_ID a0" "acc_Balance a = acc_Balance a0" "acc_Owner a = acc_Owner a0"
  shows "escrow_inv E bal J (s\<lparr>accounts := kv_set k a (accounts s)\<rparr>)"
proof -
  have wf: "escrow_wf E J s" using assms(1) by (simp add: escrow_inv_def)
  have "escrow_wf E J (s\<lparr>accounts := kv_set k a (accounts s)\<rparr>)"
    using wf_account [OF wf assms(2)] assms(3-5) by (intro wf_set_account [OF wf]) (simp_all add: account_ok_def)
  then show ?thesis
    using assms by (simp add: escrow_inv_def owed_set_account [OF wf_kv_ok(1) [OF wf]])
qed

subsection \<open>Withdrawals\<close>

text \<open>What a withdrawal does to the state, in each of its branches.\<close>

lemma paymentWithdraw_Ok:
  assumes "paymentWithdraw E p s = Ok q s'"
  shows "(s' = s \<and> q = p \<and> Amount (pay_Balance p) = 0) \<or>
    (\<exists>owner cs b. NewCoins E (pay_Balance p) = Some cs \<and> Amount (pay_Balance p) \<noteq> 0 \<and>
       FromBech32 E (pay_Owner p) = Some owner \<and>
       BankFromModule E ModuleName owner cs (bank s) = (True, b) \<and>
       q = p\<lparr>pay_Withdrawn := (pay_Withdrawn p)\<lparr>Amount := Amount (pay_Withdrawn p) + Amount (pay_Balance p)\<rparr>,
             pay_Balance := (pay_Balance p)\<lparr>Amount := 0\<rparr>\<rparr> \<and>
       s' = s\<lparr>bank := b, payments := kv_set (payKey p) q (payments s)\<rparr>)"
proof (cases "Amount (pay_Balance p) = 0")
  case True
  then show ?thesis using assms
    by (auto simp: paymentWithdraw_def act_defs AccAddressFromBech32_def coin_IsZero_def split: option.splits)
next
  case False
  obtain owner where owner: "FromBech32 E (pay_Owner p) = Some owner"
    using assms by (auto simp: paymentWithdraw_def AccAddressFromBech32_def Let_def act_defs split: option.splits)
  obtain cs where cs: "NewCoins E (pay_Balance p) = Some cs"
    using assms owner False
    by (cases "NewCoins E (pay_Balance p)")
      (auto simp: paymentWithdraw_def AccAddressFromBech32_def Let_def act_defs coin_IsZero_def)
  obtain ok b where bk: "BankFromModule E ModuleName owner cs (bank s) = (ok, b)" by fastforce
  show ?thesis using assms owner cs bk False
    by (cases ok) (auto simp: paymentWithdraw_def AccAddressFromBech32_def Let_def act_defs coin_IsZero_def
      SendCoinsFromModuleToAccount_def savePayment_eq coin_update_Amount
      dest!: coin_SomeD split: option.splits)
qed

lemma paymentWithdraw_Err:
  assumes "paymentWithdraw E p s = Err e s'"
  shows "s' = s \<or> (\<exists>owner cs b. BankFromModule E ModuleName owner cs (bank s) = (False, b) \<and> s' = s\<lparr>bank := b\<rparr>)"
  using assms by (auto simp: paymentWithdraw_def AccAddressFromBech32_def Let_def act_defs
      SendCoinsFromModuleToAccount_def savePayment_eq split: option.splits if_splits prod.splits bool.splits)

lemma accountWithdraw_Ok:
  assumes "accountWithdraw E a s = Ok c s'"
  shows "(s' = s \<and> c = a \<and> Amount (acc_Balance a) = 0) \<or>
    (\<exists>owner cs b. NewCoins E (acc_Balance a) = Some cs \<and> Amount (acc_Balance a) \<noteq> 0 \<and>
       FromBech32 E (acc_Owner a) = Some owner \<and>
       BankFromModule E ModuleName owner cs (bank s) = (True, b) \<and>
       c = a\<lparr>acc_Balance := (acc_Balance a)\<lparr>Amount := 0\<rparr>\<rparr> \<and>
       s' = s\<lparr>bank := b, accounts := kv_set (accountKey (acc_ID a)) c (accounts s)\<rparr>)"
proof (cases "Amount (acc_Balance a) = 0")
  case True
  then show ?thesis using assms
    by (auto simp: accountWithdraw_def act_defs AccAddressFromBech32_def coin_IsZero_def split: option.splits)
next
  case False
  obtain owner where owner: "FromBech32 E (acc_Owner a) = Some owner"
    using assms by (auto simp: accountWithdraw_def AccAddressFromBech32_def Let_def act_defs split: option.splits)
  obtain cs where cs: "NewCoins E (acc_Balance a) = Some cs"
    using assms owner False
    by (cases "NewCoins E (acc_Balance a)")
      (auto simp: accountWithdraw_def AccAddressFromBech32_def Let_def act_defs coin_IsZero_def)
  obtain ok b where bk: "BankFromModule E ModuleName owner cs (bank s) = (ok, b)" by fastforce
  show ?thesis using assms owner cs bk False
    by (cases ok) (auto simp: accountWithdraw_def AccAddressFromBech32_def Let_def act_defs coin_IsZero_def
      SendCoinsFromModuleToAccount_def saveAccount_def coin_update_Amount
      dest!: coin_SomeD split: option.splits)
qed

lemma accountWithdraw_Err:
  assumes "accountWithdraw E a s = Err e s'"
  shows "s' = s \<or> (\<exists>owner cs b. BankFromModule E ModuleName owner cs (bank s) = (False, b) \<and> s' = s\<lparr>bank := b\<rparr>)"
  using assms by (auto simp: accountWithdraw_def AccAddressFromBech32_def Let_def act_defs
      SendCoinsFromModuleToAccount_def saveAccount_def split: option.splits if_splits prod.splits bool.splits)

text \<open>Funds are covered with some amount per denomination to spare.\<close>

definition covered ::
  "'b env \<Rightarrow> ('b \<Rightarrow> string \<Rightarrow> int) \<Rightarrow> ('x \<Rightarrow> bool) \<Rightarrow> (string \<Rightarrow> int) \<Rightarrow> ('b, 'x) est \<Rightarrow> bool" where
  "covered E bal J spare s \<longleftrightarrow> escrow_wf E J s \<and> (\<forall>d. owed s d + spare d \<le> bal (bank s) d)"

lemma covered_inv: "covered E bal J spare s \<Longrightarrow> (\<And>d. 0 \<le> spare d) \<Longrightarrow> escrow_inv E bal J s"
  unfolding covered_def escrow_inv_def by (meson le_add_same_cancel1 order_trans)

lemma inv_covered: "escrow_inv E bal J s = covered E bal J (\<lambda>_. 0) s"
  by (simp add: covered_def escrow_inv_def)

lemma covered_wf: "covered E bal J spare s \<Longrightarrow> escrow_wf E J s"
  by (simp add: covered_def)

lemma covered_failed_transfer:
  "bank_laws E ModuleName bal \<Longrightarrow> BankFromModule E ModuleName a cs (bank s) = (False, b) \<Longrightarrow>
   covered E bal J spare s \<Longrightarrow> covered E bal J spare (s\<lparr>bank := b\<rparr>)"
  by (simp add: covered_def bank_laws_def)

lemma paymentWithdraw_covered:
  assumes laws: "bank_laws E ModuleName bal" and s: "covered E bal J spare s" "stored p s"
    and ok: "paymentWithdraw E p s = Ok q s'"
  shows "covered E bal J spare s' \<and> accounts s' = accounts s \<and>
    (\<forall>k. k \<noteq> payKey p \<longrightarrow> kv_get (payments s') k = kv_get (payments s) k)"
  using paymentWithdraw_Ok [OF ok]
proof (elim disjE exE conjE)
  fix owner cs b
  assume cs: "NewCoins E (pay_Balance p) = Some cs"
    and b: "BankFromModule E ModuleName owner cs (bank s) = (True, b)"
    and q: "q = p\<lparr>pay_Withdrawn := (pay_Withdrawn p)\<lparr>Amount := Amount (pay_Withdrawn p) + Amount (pay_Balance p)\<rparr>,
             pay_Balance := (pay_Balance p)\<lparr>Amount := 0\<rparr>\<rparr>"
    and s': "s' = s\<lparr>bank := b, payments := kv_set (payKey p) q (payments s)\<rparr>"
  have wf: "escrow_wf E J s" using s(1) by (rule covered_wf)
  from s obtain p0 where p0: "kv_get (payments s) (payKey p) = Some p0" "pay_Balance p0 = pay_Balance p"
      "pay_AccountID p0 = pay_AccountID p"
    by (auto simp: stored_def)
  have "bal b d = bal (bank s) d - coin_in (pay_Balance p) d" for d
    using laws b NewCoins_amount [OF cs] by (simp add: bank_laws_def)
  moreover have "escrow_wf E J (s\<lparr>payments := kv_set (payKey p) q (payments s)\<rparr>)"
    using wf_payment(2) [OF wf p0(1)] p0(3) by (intro wf_set_payment [OF wf]) (simp_all add: q payment_ok_def)
  moreover have "owed (s\<lparr>payments := kv_set (payKey p) q (payments s)\<rparr>) d = owed s d - coin_in (pay_Balance p) d" for d
    using p0 wf_kv_ok(2) [OF wf] by (simp add: owed_set_payment q coin_update_Amount)
  moreover have "s' = s\<lparr>payments := kv_set (payKey p) q (payments s), bank := b\<rparr>" by (simp add: s')
  moreover have "owed s d + spare d \<le> bal (bank s) d" for d using s by (simp add: covered_def)
  ultimately have "covered E bal J spare s'" by (simp add: covered_def)
  then show ?thesis by (simp add: s')
qed (use s in simp)

lemma paymentWithdraw_covered_Err:
  assumes "bank_laws E ModuleName bal" "covered E bal J spare s" "paymentWithdraw E p s = Err e s'"
  shows "covered E bal J spare s'"
  using paymentWithdraw_Err [OF assms(3)] covered_failed_transfer [OF assms(1) _ assms(2)] assms(2)
  by (elim disjE exE conjE) simp_all

lemma accountWithdraw_covered:
  assumes laws: "bank_laws E ModuleName bal" and s: "covered E bal J spare s"
    and a0: "kv_get (accounts s) (accountKey (acc_ID a)) = Some a0" "acc_Balance a0 = acc_Balance a"
      "acc_Owner a0 = acc_Owner a" "acc_ID a0 = acc_ID a"
    and ok: "accountWithdraw E a s = Ok c s'"
  shows "covered E bal J spare s' \<and> payments s' = payments s"
  using accountWithdraw_Ok [OF ok]
proof (elim disjE exE conjE)
  fix owner cs b
  assume cs: "NewCoins E (acc_Balance a) = Some cs"
    and b: "BankFromModule E ModuleName owner cs (bank s) = (True, b)"
    and c: "c = a\<lparr>acc_Balance := (acc_Balance a)\<lparr>Amount := 0\<rparr>\<rparr>"
    and s': "s' = s\<lparr>bank := b, accounts := kv_set (accountKey (acc_ID a)) c (accounts s)\<rparr>"
  have wf: "escrow_wf E J s" using s(1) by (rule covered_wf)
  have "bal b d = bal (bank s) d - coin_in (acc_Balance a) d" for d
    using laws b NewCoins_amount [OF cs] by (simp add: bank_laws_def)
  moreover have "escrow_wf E J (s\<lparr>accounts := kv_set (accountKey (acc_ID a)) c (accounts s)\<rparr>)"
    using wf_account(2) [OF wf a0(1)] a0 by (intro wf_set_account [OF wf]) (simp_all add: c account_ok_def)
  moreover have "owed (s\<lparr>accounts := kv_set (accountKey (acc_ID a)) c (accounts s)\<rparr>) d = owed s d - coin_in (acc_Balance a) d" for d
    using a0 wf_kv_ok(1) [OF wf] by (simp add: owed_set_account c coin_update_Amount)
  moreover have "s' = s\<lparr>accounts := kv_set (accountKey (acc_ID a)) c (accounts s), bank := b\<rparr>" by (simp add: s')
  moreover have "owed s d + spare d \<le> bal (bank s) d" for d using s by (simp add: covered_def)
  ultimately have "covered E bal J spare s'" by (simp add: covered_def)
  then show ?thesis by (simp add: s')
qed (use s in simp)

lemma accountWithdraw_covered_Err:
  assumes "bank_laws E ModuleName bal" "covered E bal J spare s" "accountWithdraw E a s = Err e s'"
  shows "covered E bal J spare s'"
  using accountWithdraw_Err [OF assms(3)] covered_failed_transfer [OF assms(1) _ assms(2)] assms(2)
  by (elim disjE exE conjE) simp_all

subsection \<open>Saving a settlement\<close>

text \<open>What a payment still to be written back gains over its stored version.\<close>

definition gain :: "('b, 'x) est \<Rightarrow> payment \<Rightarrow> string \<Rightarrow> int" where
  "gain s p d = coin_in (pay_Balance p) d -
     (case kv_get (payments s) (payKey p) of None \<Rightarrow> 0 | Some q \<Rightarrow> coin_in (pay_Balance q) d)"

definition pending ::
  "'b env \<Rightarrow> ('b \<Rightarrow> string \<Rightarrow> int) \<Rightarrow> ('x \<Rightarrow> bool) \<Rightarrow> payment list \<Rightarrow> ('b, 'x) est \<Rightarrow> bool" where
  "pending E bal J ps s \<longleftrightarrow> covered E bal J (\<lambda>d. \<Sum>p\<leftarrow>ps. gain s p d) s \<and> distinct (map payKey ps) \<and>
     (\<forall>p\<in>set ps. payment_ok E p \<and> (\<forall>d. 0 \<le> gain s p d))"

lemma gain_cong:
  "kv_get (payments s') (payKey p) = kv_get (payments s) (payKey p) \<Longrightarrow> gain s' p = gain s p"
  by (simp add: gain_def fun_eq_iff)

lemma pending_covered: "pending E bal J ps s \<Longrightarrow> escrow_inv E bal J s"
  unfolding pending_def by (elim conjE, erule covered_inv) (rule sum_list_nonneg_int, auto)

lemma pending_mono:
  assumes "covered E bal J (\<lambda>d. \<Sum>p\<leftarrow>ps. gain s p d) s'" "pending E bal J (p # ps) s"
    and "\<And>k. k \<noteq> payKey p \<Longrightarrow> kv_get (payments s') k = kv_get (payments s) k"
  shows "pending E bal J ps s'"
proof -
  have "gain s' q = gain s q" if "q \<in> set ps" for q
  proof (rule gain_cong, rule assms(3))
    have "payKey p \<notin> payKey ` set ps" using assms(2) by (simp add: pending_def)
    then show "payKey q \<noteq> payKey p" using that by (metis imageI)
  qed
  moreover from this have "(\<lambda>d. \<Sum>p\<leftarrow>ps. gain s' p d) = (\<lambda>d. \<Sum>p\<leftarrow>ps. gain s p d)"
    by (intro ext arg_cong [where f = sum_list] map_cong) simp_all
  ultimately show ?thesis using assms(1,2) by (simp add: pending_def)
qed

lemma pending_save:
  assumes s: "pending E bal J (p # ps) s" and k: "p' = p\<lparr>pay_State := st\<rparr>"
  defines "s' \<equiv> s\<lparr>payments := kv_set (payKey p) p' (payments s)\<rparr>"
  shows "covered E bal J (\<lambda>d. \<Sum>p\<leftarrow>ps. gain s p d) s'" "stored p' s'" "pending E bal J ps s'"
proof -
  have cov: "covered E bal J (\<lambda>d. \<Sum>p\<leftarrow>p # ps. gain s p d) s" and ok: "payment_ok E p"
    using s by (auto simp: pending_def)
  have wf: "escrow_wf E J s" by (rule covered_wf [OF cov])
  have "owed s' d = owed s d + gain s p d" for d
    unfolding s'_def by (simp add: owed_set_payment [OF wf_kv_ok(2) [OF wf]] gain_def k)
  moreover have "escrow_wf E J s'"
    unfolding s'_def using ok by (intro wf_set_payment [OF wf]) (simp_all add: payment_ok_def k)
  ultimately show c: "covered E bal J (\<lambda>d. \<Sum>p\<leftarrow>ps. gain s p d) s'"
    using cov by (simp add: covered_def s'_def algebra_simps)
  show "stored p' s'" by (simp add: stored_def s'_def k)
  show "pending E bal J ps s'" using c s by (rule pending_mono) (simp add: s'_def)
qed

lemma overdrawn_payments:
  assumes "bank_laws E ModuleName bal"
  shows "hoare (pending E bal J ps)
    (each_map (\<lambda>p. let p = p\<lparr>pay_State := PaymentOverdrawn\<rparr> in
       bind (savePayment p) (\<lambda>_. paymentWithdraw E p)) ps) (\<lambda>_. escrow_inv E bal J) (escrow_inv E bal J)"
proof (rule hoare_weaken [OF hoare_each_map [of "pending E bal J"]])
  fix p :: payment and ps
  let ?p = "p\<lparr>pay_State := PaymentOverdrawn\<rparr>"
  show "hoare (pending E bal J (p # ps)) (let p = ?p in bind (savePayment p) (\<lambda>_. paymentWithdraw E p))
      (\<lambda>_. pending E bal J ps) (escrow_inv E bal J)"
  proof (rule hoareI)
    fix s q s'
    assume s: "pending E bal J (p # ps) s"
      and ok: "(let p = ?p in bind (savePayment p) (\<lambda>_. paymentWithdraw E p)) s = Ok q s'"
    let ?s = "s\<lparr>payments := kv_set (payKey p) ?p (payments s)\<rparr>"
    have "paymentWithdraw E ?p ?s = Ok q s'"
      using ok by (simp add: savePayment_eq Let_def act_defs)
    from paymentWithdraw_covered [OF assms pending_save(1,2) [OF s refl] this]
    have c: "covered E bal J (\<lambda>d. \<Sum>p\<leftarrow>ps. gain s p d) s'"
      and k: "\<And>k. k \<noteq> payKey p \<Longrightarrow> kv_get (payments s') k = kv_get (payments s) k" by simp_all
    show "pending E bal J ps s'" by (rule pending_mono [OF c s k])
  next
    fix s e s'
    assume s: "pending E bal J (p # ps) s"
      and er: "(let p = ?p in bind (savePayment p) (\<lambda>_. paymentWithdraw E p)) s = Err e s'"
    let ?s = "s\<lparr>payments := kv_set (payKey p) ?p (payments s)\<rparr>"
    have "paymentWithdraw E ?p ?s = Err e s'"
      using er by (simp add: savePayment_eq Let_def act_defs)
    moreover have "covered E bal J (\<lambda>_. 0) ?s"
      using pending_covered [OF pending_save(3) [OF s refl]] by (simp add: inv_covered)
    ultimately show "escrow_inv E bal J s'"
      using paymentWithdraw_covered_Err [OF assms] by (simp add: inv_covered)
  qed
qed (simp_all add: pending_covered)

lemma saved_payments:
  "hoare (\<lambda>s. pending E bal J ps s \<and> F (accounts s)) (each savePayment ps)
     (\<lambda>_ s. escrow_inv E bal J s \<and> F (accounts s) \<and> distinct (map payKey ps) \<and> (\<forall>p\<in>set ps. stored p s)) R"
proof (rule hoare_weaken [OF hoare_each [of "\<lambda>rest s. pending E bal J rest s \<and> F (accounts s) \<and>
      distinct (map payKey ps) \<and> (\<exists>ds. ps = ds @ rest \<and> (\<forall>p\<in>set ds. stored p s))" savePayment R]])
  fix p :: payment and rest
  show "hoare (\<lambda>s. pending E bal J (p # rest) s \<and> F (accounts s) \<and> distinct (map payKey ps) \<and>
          (\<exists>ds. ps = ds @ p # rest \<and> (\<forall>p\<in>set ds. stored p s)))
      (savePayment p)
      (\<lambda>_ s. pending E bal J rest s \<and> F (accounts s) \<and> distinct (map payKey ps) \<and>
          (\<exists>ds. ps = ds @ rest \<and> (\<forall>p\<in>set ds. stored p s))) R"
    unfolding savePayment_eq
  proof (rule hoare_pre [OF hoare_modify], elim conjE exE)
    fix s ds
    assume s: "pending E bal J (p # rest) s" "F (accounts s)" "distinct (map payKey ps)"
      "ps = ds @ p # rest" "\<forall>p\<in>set ds. stored p s"
    let ?s = "s\<lparr>payments := kv_set (payKey p) p (payments s)\<rparr>"
    have "pending E bal J rest ?s" "stored p ?s"
      using pending_save(2,3) [OF s(1), of p "pay_State p"] by simp_all
    moreover have "stored q ?s" if "q \<in> set ds" for q
    proof -
      have "payKey p \<notin> payKey ` set ds" using s(3,4) by auto
      then have "payKey q \<noteq> payKey p" using that by (metis imageI)
      then show ?thesis using s(5) that by (simp add: stored_def)
    qed
    ultimately show "pending E bal J rest ?s \<and> F (accounts ?s) \<and> distinct (map payKey ps) \<and>
          (\<exists>ds. ps = ds @ rest \<and> (\<forall>p\<in>set ds. stored p ?s))"
      using s by (auto intro!: exI [of _ "ds @ [p]"])
  qed
qed (auto simp: pending_def inv_covered)

subsection \<open>Settlement\<close>

lemma iter_payments:
  assumes wf: "escrow_wf E J s"
  shows "distinct (map payKey (kv_iter pre (payments s)))"
    and "\<And>p. p \<in> set (kv_iter pre (payments s)) \<Longrightarrow> kv_get (payments s) (payKey p) = Some p"
proof -
  have own: "payKey (snd e) = fst e" if "e \<in> set (payments s)" for e
  proof -
    have "kv_get (payments s) (fst e) = Some (snd e)"
      using that kv.entries_get [OF wf_kv_ok(2) [OF wf]] by (metis kv_entries_def prod.collapse)
    then show ?thesis using wf_payment(1) [OF wf] by metis
  qed
  have "map payKey (kv_iter pre (payments s)) = map fst (filter (\<lambda>e. prefix pre (fst e)) (payments s))"
    unfolding kv_iter_def using own by simp
  then show "distinct (map payKey (kv_iter pre (payments s)))"
    using kv_ok_distinct [OF wf_kv_ok(2) [OF wf]] by (simp add: distinct_map_filter)
  fix p assume "p \<in> set (kv_iter pre (payments s))"
  then obtain k where "kv_get (payments s) k = Some p"
    using kv_iter_member [OF wf_kv_ok(2) [OF wf]] by blast
  then show "kv_get (payments s) (payKey p) = Some p" using wf_payment(1) [OF wf] by metis
qed

lemma credits_gain:
  assumes "length ns = length ps" "\<forall>n\<in>set ns. 0 \<le> n"
    and "\<forall>p\<in>set ps. kv_get (payments s) (payKey p) = Some p \<and> Denom (pay_Balance p) = D \<and> payment_ok E p"
  shows "(\<Sum>p\<leftarrow>credits ps ns. gain s p d) = (if d = D then sum_list ns else 0)"
    "\<forall>p\<in>set (credits ps ns). payment_ok E p \<and> (\<forall>d. 0 \<le> gain s p d)"
proof -
  have one: "gain s (credit p n) d = (if d = D then n else 0)" "0 \<le> n \<Longrightarrow> payment_ok E (credit p n)"
    if "kv_get (payments s) (payKey p) = Some p \<and> Denom (pay_Balance p) = D \<and> payment_ok E p" for p n d
    using that by (auto simp: gain_def coin_in_def payment_ok_def)
  show "(\<Sum>p\<leftarrow>credits ps ns. gain s p d) = (if d = D then sum_list ns else 0)"
    using assms by (induction ns ps rule: list_induct2) (simp_all add: one)
  show "\<forall>p\<in>set (credits ps ns). payment_ok E p \<and> (\<forall>d. 0 \<le> gain s p d)"
    using assms by (induction ns ps rule: list_induct2) (simp_all add: one)
qed

lemma settled_pending:
  assumes inv: "escrow_inv E bal J s" and a0: "kv_get (accounts s) (accountKey (acc_ID a0)) = Some a0"
    and st: "settled (a0\<lparr>acc_SettledAt := h\<rparr>) ps a ps'" and nn: "0 \<le> Amount (acc_Balance a)"
    and ps: "distinct (map payKey ps)" "\<forall>p\<in>set ps. kv_get (payments s) (payKey p) = Some p \<and>
      Denom (pay_Balance p) = Denom (acc_Balance a0)"
  shows "pending E bal J ps' (s\<lparr>accounts := kv_set (accountKey (acc_ID a)) (a\<lparr>acc_State := x\<rparr>) (accounts s)\<rparr>)"
proof -
  from st obtain ns where ns: "length ns = length ps" "\<forall>n\<in>set ns. 0 \<le> n" "ps' = credits ps ns"
      "a = debit (a0\<lparr>acc_SettledAt := h\<rparr>) (sum_list ns)"
    by (auto simp: settled_def)
  let ?s = "s\<lparr>accounts := kv_set (accountKey (acc_ID a)) (a\<lparr>acc_State := x\<rparr>) (accounts s)\<rparr>"
  have wf: "escrow_wf E J s" and cov: "\<And>d. owed s d \<le> bal (bank s) d" using inv by (auto simp: escrow_inv_def)
  have "escrow_wf E J ?s"
    using nn wf_account(2) [OF wf a0] by (intro wf_set_account [OF wf]) (simp_all add: account_ok_def ns(4))
  moreover have "owed ?s d = owed s d - (if d = Denom (acc_Balance a0) then sum_list ns else 0)" for d
    using a0 by (simp add: owed_set_account [OF wf_kv_ok(1) [OF wf]] ns(4) coin_in_def debit_def)
  moreover note G = credits_gain [OF ns(1,2), of ?s "Denom (acc_Balance a0)" E]
  moreover have "\<forall>p\<in>set ps. kv_get (payments ?s) (payKey p) = Some p \<and>
      Denom (pay_Balance p) = Denom (acc_Balance a0) \<and> payment_ok E p"
    using ps(2) wf_payment(2) [OF wf] by auto
  moreover have "map payKey ps' = map payKey ps" unfolding ns(3) by (rule map_credits [OF ns(1)]) simp
  ultimately show ?thesis using cov ps(1) by (simp add: pending_def covered_def ns(3))
qed

lemma settle_save_inv:
  "hoare (\<lambda>s. pending E bal J ps (s\<lparr>accounts := kv_set (accountKey (acc_ID a)) a (accounts s)\<rparr>))
     (settle_save a ps)
     (\<lambda>(b, qs, od) s. escrow_inv E bal J s \<and> kv_get (accounts s) (accountKey (acc_ID b)) = Some b \<and>
        distinct (map payKey qs) \<and> (\<forall>p\<in>set qs. stored p s)) (escrow_inv E bal J)"
proof -
  let ?F = "\<lambda>ac. kv_get ac (accountKey (acc_ID a)) = Some a"
  have "hoare (\<lambda>s. pending E bal J ps (s\<lparr>accounts := kv_set (accountKey (acc_ID a)) a (accounts s)\<rparr>))
     (saveAccount a) (\<lambda>_ s. pending E bal J ps s \<and> ?F (accounts s)) (escrow_inv E bal J)"
    unfolding saveAccount_def by (rule hoare_pre [OF hoare_modify]) simp
  moreover have "hoare (\<lambda>s. escrow_inv E bal J s \<and> ?F (accounts s) \<and> distinct (map payKey ps) \<and> (\<forall>p\<in>set ps. stored p s))
     (ret (a, ps, False)) (\<lambda>(b, qs, od) s. escrow_inv E bal J s \<and>
        kv_get (accounts s) (accountKey (acc_ID b)) = Some b \<and>
        distinct (map payKey qs) \<and> (\<forall>p\<in>set qs. stored p s)) (escrow_inv E bal J)"
    by (rule hoare_pre [OF hoare_ret]) simp
  ultimately show ?thesis
    unfolding settle_save_def by (intro hoare_bind [OF _ hoare_bind [OF saved_payments]])
qed

subsection \<open>The hooks' contract\<close>

locale hooks_keep =
  fixes H :: "('b, 'x) hooks" and I :: "('b, 'x) est \<Rightarrow> bool"
  assumes account_hook: "hook \<in> set (onAccountClosed H) \<Longrightarrow> keeps I (hook a)"
    and payment_hook: "phook \<in> set (onPaymentClosed H) \<Longrightarrow> keeps I (phook p)"
begin

lemma run_hooks:
  "keeps I (each (\<lambda>hook. hook a) (onAccountClosed H))"
  "keeps I (each (\<lambda>hook. hook p) (onPaymentClosed H))"
  "keeps I (each (\<lambda>hook. each hook ps) (onPaymentClosed H))"
    by (rule keeps_each, erule account_hook)
      (rule keeps_each, (erule payment_hook | rule keeps_each, erule payment_hook))+

end

text \<open>An invariant that holds under a law of the environment.\<close>

definition under :: "bool \<Rightarrow> ('s \<Rightarrow> bool) \<Rightarrow> 's \<Rightarrow> bool" where
  "under L I s \<longleftrightarrow> (L \<longrightarrow> I s)"

lemma keeps_under: "keeps (under L I) m \<longleftrightarrow> (L \<longrightarrow> keeps I m)"
  by (cases L) (simp_all add: under_def keeps_def hoare_def split: outcome.splits)

text \<open>Coins sent to the module cover an account that is then saved with that much more.\<close>

definition tops_up :: "'b env \<Rightarrow> string \<Rightarrow> account option \<Rightarrow> coin \<Rightarrow> account \<Rightarrow> bool" where
  "tops_up E k old c a \<longleftrightarrow> account_ok E a \<and> k = accountKey (acc_ID a) \<and>
     (\<forall>d. coin_in (acc_Balance a) d = coin_in c d + (case old of None \<Rightarrow> 0 | Some b \<Rightarrow> coin_in (acc_Balance b) d))"

locale escrow_keeper = hooks_keep H "under (bank_laws E ModuleName bal) (escrow_inv E bal J)"
  for E :: "'b env" and bal :: "'b \<Rightarrow> string \<Rightarrow> int" and J :: "'x \<Rightarrow> bool" and H :: "('b, 'x) hooks"
begin

lemma lawful_hooks:
  assumes bank: "bank_laws E ModuleName bal"
  shows "keeps (escrow_inv E bal J) (each (\<lambda>hook. hook a) (onAccountClosed H))"
    "keeps (escrow_inv E bal J) (each (\<lambda>hook. hook p) (onPaymentClosed H))"
    "keeps (escrow_inv E bal J) (each (\<lambda>hook. each hook ps) (onPaymentClosed H))"
  using run_hooks bank by (simp_all add: keeps_under)

lemma settle_finish_inv:
  assumes bank: "bank_laws E ModuleName bal"
  shows "hoare (\<lambda>s. pending E bal J ps (s\<lparr>accounts :=
       kv_set (accountKey (acc_ID a)) (a\<lparr>acc_State := AccountOverdrawn\<rparr>) (accounts s)\<rparr>))
     (settle_finish E H a ps) (\<lambda>(b, qs, od) s. escrow_inv E bal J s \<and> od) (escrow_inv E bal J)"
  unfolding settle_finish_def Let_def saveAccount_def
  apply (rule hoare_bind [where Q = "\<lambda>_. pending E bal J ps"])
   apply (rule hoare_pre [OF hoare_modify], simp)
  apply (rule hoare_bind [OF overdrawn_payments [OF bank, unfolded Let_def]])
  apply (rule hoare_bind [OF lawful_hooks(1) [OF bank, unfolded keeps_def]])
  apply (rule hoare_bind [OF lawful_hooks(3) [OF bank, unfolded keeps_def]])
  apply (rule hoare_pre [OF hoare_ret], simp)
  done

lemma settle_step_pending:
  assumes "escrow_inv E bal J s" and "kv_get (accounts s) (accountKey i) = Some a0"
    and "ps = filter (\<lambda>p. pay_State p = PaymentOpen) (kv_iter pre (payments s))"
    and "NewCoin E (Denom (acc_Balance a0)) 0 = Some z" "sum_rates E z ps = Some r"
    and "settle_stages E (a0\<lparr>acc_SettledAt := h\<rparr>) ps d r = Some (a, ps', od)"
  shows "pending E bal J ps' (s\<lparr>accounts := kv_set (accountKey (acc_ID a)) (a\<lparr>acc_State := x\<rparr>) (accounts s)\<rparr>)"
proof -
  have wf: "escrow_wf E J s" using assms(1) by (simp add: escrow_inv_def)
  have z: "z = \<lparr>Denom = Denom (acc_Balance a0), Amount = 0\<rparr>" using assms(4) by (simp add: NewCoin_Some)
  note R = sum_rates_Some [OF assms(5)]
  have "Amount r = (\<Sum>p\<leftarrow>ps. Amount (pay_Rate p))" using R by (simp add: z)
  note S = settle_stages_Some [OF assms(6) this]
  have "distinct (map payKey ps)"
    using iter_payments(1) [OF wf, of pre] by (simp add: assms(3) distinct_map_filter)
  moreover have "\<forall>p\<in>set ps. kv_get (payments s) (payKey p) = Some p \<and> Denom (pay_Balance p) = Denom (acc_Balance a0)"
    using iter_payments(2) [OF wf, of _ pre] S(4) R z by (auto simp: assms(3))
  moreover have "kv_get (accounts s) (accountKey (acc_ID a0)) = Some a0"
    using wf_account(1) [OF wf assms(2)] assms(2) by simp
  ultimately show ?thesis by (intro settled_pending [OF assms(1) _ S(1,2)])
qed

lemma doAccountSettle_inv:
  assumes bank: "bank_laws E ModuleName bal"
  shows "hoare (escrow_inv E bal J) (doAccountSettle E H i)
     (\<lambda>(b, qs, od) s. escrow_inv E bal J s \<and> (\<not> od \<longrightarrow> kv_get (accounts s) (accountKey (acc_ID b)) = Some b \<and>
        distinct (map payKey qs) \<and> (\<forall>p\<in>set qs. stored p s))) (escrow_inv E bal J)"
  (is "hoare ?I _ ?Q ?R")
  unfolding doAccountSettle_eq GetAccount_def accountOpenPayments_def accountPayments_def bind_assoc
    Let_def bind_ret
proof (intro hoare_steps, simp_all, goal_cases)
  case (1 _ a)
  have "accountKey (acc_ID a) = accountKey i" if "?I s" "Some a = kv_get (accounts s) (accountKey i)" for s
    using that wf_account(1) [of E J s] by (metis escrow_inv_def)
  then show ?case by (intro hoare_pre [OF hoare_ret]) auto
next
  case (2 _ a all)
  let ?a = "a\<lparr>acc_SettledAt := BlockHeight E\<rparr>"
  have "?I (s\<lparr>accounts := kv_set (accountKey (acc_ID a)) ?a (accounts s)\<rparr>)"
    if "?I s" "Some a = kv_get (accounts s) (accountKey i)" for s
    using inv_own_key(1) inv_set_account [of E bal J s "accountKey i" a ?a] that by fastforce
  then show ?case
    unfolding saveAccount_def by (intro hoare_pre [OF hoare_bind [OF hoare_modify hoare_ret]]) auto
next
  case (3 _ a all z r x)
  obtain b qs od where x: "x = (b, qs, od)" by (cases x) auto
  note step = settle_step_pending [OF _ _ _ 3(5,6) 3(7) [unfolded x]]
  show ?case
  proof (cases od)
    case True
    show ?thesis unfolding x using True
      by (auto intro!: hoare_weaken [OF settle_finish_inv [OF bank]] step)
  next
    case False
    show ?thesis unfolding x using False
      by (auto intro!: hoare_weaken [OF settle_save_inv] step [where x = "acc_State b", simplified])
  qed
qed

lemma AccountSettle_inv:
  assumes bank: "bank_laws E ModuleName bal"
  shows "keeps (escrow_inv E bal J) (AccountSettle E H i)"
  unfolding keeps_def AccountSettle_def
  by (rule hoare_bind [OF doAccountSettle_inv [OF bank]])
    (auto intro!: hoare_case_prod hoare_pre [OF hoare_ret])

lemma send_to_module:
  assumes bank: "bank_laws E ModuleName bal" and cs: "NewCoins E c = Some cs" and own: "owner \<noteq> ModuleAddress E ModuleName"
  shows "hoare (\<lambda>s. escrow_inv E bal J s \<and> old = kv_get (accounts s) k)
    (SendCoinsFromAccountToModule E owner ModuleName cs)
    (\<lambda>_ s. escrow_inv E bal J s \<and> (\<forall>a. tops_up E k old c a \<longrightarrow> escrow_inv E bal J (s\<lparr>accounts := kv_set k a (accounts s)\<rparr>)))
    (escrow_inv E bal J)"
proof (rule hoareI)
  fix s u s'
  assume s: "escrow_inv E bal J s \<and> old = kv_get (accounts s) k"
    and "SendCoinsFromAccountToModule E owner ModuleName cs s = Ok u s'"
  then obtain b where b: "BankToModule E owner ModuleName cs (bank s) = (True, b)" "s' = s\<lparr>bank := b\<rparr>"
    by (auto simp: SendCoinsFromAccountToModule_def split: prod.splits bool.splits)
  have gain: "bal b d = bal (bank s) d + coin_in c d" for d
    using bank b(1) own NewCoins_amount [OF cs] by (simp add: bank_laws_def)
  have wf: "escrow_wf E J s" and cov: "\<And>d. owed s d \<le> bal (bank s) d" using s by (auto simp: escrow_inv_def)
  have "escrow_inv E bal J (s'\<lparr>accounts := kv_set k a (accounts s')\<rparr>)" if a: "tops_up E k old c a" for a
  proof -
    let ?s = "s\<lparr>accounts := kv_set k a (accounts s)\<rparr>"
    have "escrow_wf E J ?s" using a by (intro wf_set_account [OF wf]) (simp_all add: tops_up_def)
    moreover have "owed ?s d = owed s d + coin_in c d" for d
      using a s by (simp add: owed_set_account [OF wf_kv_ok(1) [OF wf]] tops_up_def)
    moreover have "s'\<lparr>accounts := kv_set k a (accounts s')\<rparr> = ?s\<lparr>bank := b\<rparr>" by (simp add: b(2))
    ultimately show ?thesis using cov gain by (simp add: escrow_inv_def)
  qed
  moreover have "0 \<le> coin_in c d" for d using NewCoins_nonneg [OF cs] by (rule coin_in_nonneg)
  then have "escrow_inv E bal J s'" using wf cov gain
    unfolding escrow_inv_def b(2) by (auto intro: add_increasing2)
  ultimately show "escrow_inv E bal J s' \<and>
      (\<forall>a. tops_up E k old c a \<longrightarrow> escrow_inv E bal J (s'\<lparr>accounts := kv_set k a (accounts s')\<rparr>))" by blast
next
  fix s e s'
  assume "escrow_inv E bal J s \<and> old = kv_get (accounts s) k"
    and "SendCoinsFromAccountToModule E owner ModuleName cs s = Err e s'"
  then show "escrow_inv E bal J s'" using bank
    by (auto simp: SendCoinsFromAccountToModule_def escrow_inv_def bank_laws_def split: prod.splits bool.splits)
qed

lemma tops_up_new:
  "NewCoins E c = Some cs \<Longrightarrow> account_id_ok E i \<Longrightarrow> FromBech32 E o' \<noteq> Some (ModuleAddress E ModuleName) \<Longrightarrow>
   tops_up E (accountKey i) None c \<lparr>acc_ID = i, acc_Owner = o', acc_State = st, acc_Balance = c,
     acc_Transferred = t, acc_SettledAt = h\<rparr>"
  by (simp add: tops_up_def account_ok_def NewCoins_nonneg)

lemma AccountCreate_inv:
  assumes bank: "bank_laws E ModuleName bal" and "account_id_ok E i" "owner \<noteq> ModuleAddress E ModuleName" "FromBech32 E (AddrString E owner) \<noteq> Some (ModuleAddress E ModuleName)"
  shows "keeps (escrow_inv E bal J) (AccountCreate E i owner deposit)"
  unfolding keeps_def AccountCreate_def Let_def
  using assms
  by (intro hoare_steps, simp_all)
    (rule hoare_bind [OF hoare_pre [OF send_to_module [OF bank, where k = "accountKey i" and old = None]]],
      auto intro!: hoare_pre [OF hoare_modify] tops_up_new simp: kv_has_def)

lemma tops_up_add:
  "NewCoins E c = Some cs \<Longrightarrow> account_ok E a \<Longrightarrow> accountKey i = accountKey (acc_ID a) \<Longrightarrow>
   coin_add E (acc_Balance a) c = Some b \<Longrightarrow> tops_up E (accountKey i) (Some a) c (a\<lparr>acc_Balance := b\<rparr>)"
  using coin_in_add [of E "acc_Balance a" c b] NewCoins_nonneg [of E c cs]
  by (auto simp: tops_up_def account_ok_def coin_add_Some)

lemma AccountDeposit_inv:
  assumes bank: "bank_laws E ModuleName bal"
  shows "keeps (escrow_inv E bal J) (AccountDeposit E i amount)"
  unfolding keeps_def AccountDeposit_def GetAccount_def AccAddressFromBech32_def bind_assoc
proof (intro hoare_steps, simp_all, goal_cases)
  case (1 _ a owner cs)
  show ?case
  proof (rule hoare_fact [where F = "account_ok E a \<and> accountKey i = accountKey (acc_ID a)"], goal_cases)
    case (1 s)
    then show ?case using wf_account by (metis escrow_inv_def)
  next
    case 2
    then have own: "owner \<noteq> ModuleAddress E ModuleName" using 1 by (auto simp: account_ok_def)
    show ?case
      by (rule hoare_bind [OF hoare_pre [OF send_to_module [OF bank 1(4) own, of "Some a" "accountKey i"]]])
        (use 1 2 in \<open>auto intro!: hoare_bind_or_panic hoare_pre [OF hoare_modify] intro: tops_up_add\<close>)
  qed
qed

lemma GetPayment_stored:
  "hoare (escrow_inv E bal J) (GetPayment i pid)
     (\<lambda>p s. escrow_inv E bal J s \<and> stored p s \<and> kv_get (payments s) (paymentKey i pid) = Some p \<and> payKey p = paymentKey i pid)
     (escrow_inv E bal J)"
  unfolding GetPayment_def
  using inv_own_key(2) by (intro hoare_steps hoare_pre [OF hoare_found_or]) (force simp: stored_def)

lemma stored_update [simp]:
  "stored (p\<lparr>pay_State := x\<rparr>) s = stored p s"
  by (simp add: stored_def)

lemma paymentWithdraw_inv:
  assumes bank: "bank_laws E ModuleName bal"
  shows "hoare (\<lambda>s. escrow_inv E bal J s \<and> stored p s) (paymentWithdraw E p) (\<lambda>_. escrow_inv E bal J) (escrow_inv E bal J)"
  unfolding inv_covered
  by (rule hoareI) (use paymentWithdraw_covered [OF bank] paymentWithdraw_covered_Err [OF bank] in blast)+

lemma GetPayment_keeps: "keeps I (GetPayment i pid)"
  unfolding GetPayment_def by (intro keeps_rules)

lemma doAccountSettle_keeps:
  assumes bank: "bank_laws E ModuleName bal"
  shows "keeps (escrow_inv E bal J) (doAccountSettle E H i)"
  unfolding keeps_def by (rule hoare_weaken [OF doAccountSettle_inv [OF bank]]) auto

lemma PaymentWithdraw_inv:
  assumes bank: "bank_laws E ModuleName bal"
  shows "keeps (escrow_inv E bal J) (PaymentWithdraw E H i pid)"
  unfolding keeps_def PaymentWithdraw_def
  apply (rule hoare_bind [OF GetPayment_keeps [unfolded keeps_def]])
  apply (intro hoare_steps, simp)
  apply (rule hoare_bind [OF AccountSettle_inv [OF bank, unfolded keeps_def]])
  apply (intro hoare_steps hoare_ret hoare_bind [OF GetPayment_stored])
  apply (rule hoare_bind [OF hoare_pre [OF paymentWithdraw_inv [OF bank]]], simp)
  apply (rule hoare_ret)
  done

lemma PaymentClose_inv:
  assumes bank: "bank_laws E ModuleName bal"
  shows "keeps (escrow_inv E bal J) (PaymentClose E H i pid)"
  unfolding keeps_def PaymentClose_def
  apply (rule hoare_bind [OF GetPayment_keeps [unfolded keeps_def]])
  apply (intro hoare_steps, simp)
  apply (rule hoare_bind [OF AccountSettle_inv [OF bank, unfolded keeps_def]])
  apply (intro hoare_steps hoare_ret hoare_bind [OF GetPayment_stored])
  apply (rule hoare_bind [OF hoare_pre [OF paymentWithdraw_inv [OF bank]] lawful_hooks(2) [OF bank, unfolded keeps_def]], simp)
  done

lemma close_payments:
  assumes bank: "bank_laws E ModuleName bal"
  shows "hoare (\<lambda>s. escrow_inv E bal J s \<and> distinct (map payKey ps) \<and> (\<forall>p\<in>set ps. stored p s))
     (each_map (\<lambda>p. paymentWithdraw E (p\<lparr>pay_State := PaymentClosed\<rparr>)) ps)
     (\<lambda>_. escrow_inv E bal J) (escrow_inv E bal J)"
proof (rule hoare_weaken [OF hoare_each_map [of "\<lambda>ps s. escrow_inv E bal J s \<and> distinct (map payKey ps) \<and>
      (\<forall>p\<in>set ps. stored p s)"]])
  fix p :: payment and ps
  let ?p = "p\<lparr>pay_State := PaymentClosed\<rparr>"
  show "hoare (\<lambda>s. escrow_inv E bal J s \<and> distinct (map payKey (p # ps)) \<and> (\<forall>q\<in>set (p # ps). stored q s))
      (paymentWithdraw E ?p)
      (\<lambda>_ s. escrow_inv E bal J s \<and> distinct (map payKey ps) \<and> (\<forall>q\<in>set ps. stored q s)) (escrow_inv E bal J)"
  proof (rule hoareI)
    fix s q s'
    assume s: "escrow_inv E bal J s \<and> distinct (map payKey (p # ps)) \<and> (\<forall>q\<in>set (p # ps). stored q s)"
      and ok: "paymentWithdraw E ?p s = Ok q s'"
    have "stored ?p s" using s by simp
    from paymentWithdraw_covered [OF bank _ this ok, of J "\<lambda>_. 0"] s
    have w: "escrow_inv E bal J s'" "\<And>k. k \<noteq> payKey p \<Longrightarrow> kv_get (payments s') k = kv_get (payments s) k"
      by (simp_all add: inv_covered)
    moreover have "stored r s'" if "r \<in> set ps" for r
    proof -
      have "payKey r \<noteq> payKey p" using s that by (metis distinct.simps(2) image_eqI list.map(2) set_map)
      then show ?thesis using s that w(2) by (simp add: stored_def)
    qed
    ultimately show "escrow_inv E bal J s' \<and> distinct (map payKey ps) \<and> (\<forall>q\<in>set ps. stored q s')"
      using s by simp
  qed (use paymentWithdraw_covered_Err [OF bank] in \<open>auto simp: inv_covered\<close>)
qed simp_all

lemma withdraw_keeps_payments:
  assumes bank: "bank_laws E ModuleName bal"
  shows "hoare (\<lambda>s. escrow_inv E bal J s \<and> kv_get (accounts s) (accountKey (acc_ID a)) = Some a \<and>
        distinct (map payKey ps) \<and> (\<forall>p\<in>set ps. stored p s))
      (accountWithdraw E (a\<lparr>acc_State := AccountClosed\<rparr>))
      (\<lambda>_ s. escrow_inv E bal J s \<and> distinct (map payKey ps) \<and> (\<forall>p\<in>set ps. stored p s)) (escrow_inv E bal J)"
proof (rule hoareI, goal_cases)
  case (1 s b s')
  then have "covered E bal J (\<lambda>_. 0) s' \<and> payments s' = payments s"
    by (intro accountWithdraw_covered [OF bank _ _ _ _ _ 1(2), of J _ a]) (simp_all add: inv_covered)
  then show ?case using 1(1) unfolding inv_covered stored_def by simp
next
  case (2 s e s')
  then show ?case using accountWithdraw_covered_Err [OF bank _ 2(2)] by (simp add: inv_covered)
qed

lemma AccountClose_inv:
  assumes bank: "bank_laws E ModuleName bal"
  shows "keeps (escrow_inv E bal J) (AccountClose E H i)"
  unfolding keeps_def AccountClose_def GetAccount_def bind_assoc
  apply (intro hoare_steps, simp_all)
  apply (rule hoare_bind [OF hoare_pre [OF doAccountSettle_inv [OF bank]]], simp)
  apply (rule hoare_case_prod, rule hoare_case_prod, rule hoare_if)
   apply (rule hoare_pre [OF hoare_ret], simp)
  subgoal for x a r c q ps od
    apply (rule hoare_bind [OF hoare_pre [OF withdraw_keeps_payments [OF bank, of c ps]]], simp)
    apply (rule hoare_bind [OF close_payments [OF bank]])
    apply (rule hoare_bind [OF lawful_hooks(1) [OF bank, unfolded keeps_def] lawful_hooks(3) [OF bank, unfolded keeps_def]])
    done
  done

lemma new_payment_inv:
  assumes "escrow_inv E bal J s" "kv_get (payments s) (payKey p) = None" "Amount (pay_Balance p) = 0"
    "payment_id_ok E (pay_AccountID p)"
  shows "escrow_inv E bal J (s\<lparr>payments := kv_set (payKey p) p (payments s)\<rparr>)"
proof -
  have wf: "escrow_wf E J s" using assms(1) by (simp add: escrow_inv_def)
  have "escrow_wf E J (s\<lparr>payments := kv_set (payKey p) p (payments s)\<rparr>)"
    using assms(3,4) by (intro wf_set_payment [OF wf]) (simp_all add: payment_ok_def)
  then show ?thesis
    using assms by (simp add: escrow_inv_def owed_set_payment [OF wf_kv_ok(2) [OF wf]] coin_in_def)
qed

lemma PaymentCreate_inv:
  assumes bank: "bank_laws E ModuleName bal" and "payment_id_ok E i"
  shows "keeps (escrow_inv E bal J) (PaymentCreate E H i pid owner rate)"
  unfolding keeps_def PaymentCreate_def Let_def
proof (rule hoare_bind [OF doAccountSettle_keeps [OF bank, unfolded keeps_def]],
    intro hoare_case_prod hoare_steps, simp_all, goal_cases)
  case (1 _ a _ _ od has z)
  let ?p = "\<lparr>pay_AccountID = i, pay_PaymentID = pid, pay_Owner = AddrString E owner, pay_State = PaymentOpen,
    pay_Rate = rate, pay_Balance = z, pay_Withdrawn = z\<rparr>"
  have "payKey ?p = paymentKey i pid" "Amount (pay_Balance ?p) = 0"
    using 1 by (auto simp: payKey_def NewCoin_Some)
  then show ?case using new_payment_inv [of _ ?p] assms 1 by (intro hoare_pre [OF hoare_modify]) (auto simp: kv_has_def)
qed

end

end
