(* ===== verification/Example.thy ===== *)
theory Example
  imports Escrow
begin

text \<open>
  A concrete environment and a concrete state.  The environment satisfies every law the
  development assumes of the SDK, so the theorems that assume them apply to something: its bank is
  the table of the module's funds, its addresses are their own strings.  The state has one open
  escrow account with two open payments.
\<close>

definition demo_env :: "(string \<Rightarrow> int) env" where
  "demo_env = \<lparr>BlockHeight = 10, IntMax = 2 ^ 255 - 1, ValidDenom = (\<lambda>d. d \<noteq> []),
     FromBech32 = (\<lambda>s. if length s = 5 \<and> CHR ''/'' \<notin> set s then Some s else None),
     AddrString = (\<lambda>a. a), ModuleAddress = (\<lambda>m. m @ ''/''),
     BankToModule = (\<lambda>a m cs b. (True, \<lambda>d. b d + coins_amount cs d)),
     BankFromModule = (\<lambda>m a cs b.
       if list_all (\<lambda>c. coins_amount cs (Denom c) \<le> b (Denom c)) cs
       then (True, \<lambda>d. b d - coins_amount cs d) else (False, b))\<rparr>"

lemma demo_bank_laws: "bank_laws demo_env m (\<lambda>b. b)"
  by (auto simp: bank_laws_def demo_env_def split: if_splits)

lemma demo_addr_laws: "addr_laws demo_env"
  by (auto simp: addr_laws_def demo_env_def split: if_splits)

definition demo_account_id :: account_id where
  "demo_account_id = \<lparr>aid_Scope = ''deployment'', aid_XID = ''owner/1''\<rparr>"

definition demo_account :: account where
  "demo_account = \<lparr>acc_ID = demo_account_id, acc_Owner = ''owner'', acc_State = AccountOpen,
     acc_Balance = \<lparr>Denom = ''uve'', Amount = 100\<rparr>, acc_Transferred = \<lparr>Denom = ''uve'', Amount = 0\<rparr>,
     acc_SettledAt = 5\<rparr>"

definition demo_payment :: "string \<Rightarrow> int \<Rightarrow> payment" where
  "demo_payment pid rate = \<lparr>pay_AccountID = demo_account_id, pay_PaymentID = pid, pay_Owner = ''prova'',
     pay_State = PaymentOpen, pay_Rate = \<lparr>Denom = ''uve'', Amount = rate\<rparr>,
     pay_Balance = \<lparr>Denom = ''uve'', Amount = 0\<rparr>, pay_Withdrawn = \<lparr>Denom = ''uve'', Amount = 0\<rparr>\<rparr>"

definition demo_state :: "(string \<Rightarrow> int) escrow_state" where
  "demo_state = \<lparr>bank = (\<lambda>d. if d = ''uve'' then 100 else 0), events = [],
     accounts = kv_set (accountKey demo_account_id) demo_account [],
     payments = kv_set (paymentKey demo_account_id ''1/1/b'') (demo_payment ''1/1/b'' 1)
       (kv_set (paymentKey demo_account_id ''1/1/a'') (demo_payment ''1/1/a'' 2) [])\<rparr>"

end
