(* ===== verification/Escrow_Properties.thy ===== *)
theory Escrow_Properties
  imports Escrow_Solvency Example
begin

text \<open>
  What the escrow keeper's operations promise: settlement pays every open payment its share, a
  settled or closed account stays as it is, the branches of account creation, and the genesis
  export.  Also two behaviours of closing that the code has and a reader might not expect.
\<close>

subsection \<open>Settlement\<close>

abbreviation rates_of :: "payment list \<Rightarrow> int list" where
  "rates_of ps \<equiv> map (\<lambda>p. Amount (pay_Rate p)) ps"

definition open_payments :: "account_id \<Rightarrow> ('b, 'x) est \<Rightarrow> payment list" where
  "open_payments i s = filter (\<lambda>p. pay_State p = PaymentOpen) (kv_iter (accountPaymentsKey i) (payments s))"

lemma sum_rates_settleable:
  assumes "settleable E a ps"
  shows "sum_rates E \<lparr>Denom = Denom (acc_Balance a), Amount = 0\<rparr> ps =
    Some \<lparr>Denom = Denom (acc_Balance a), Amount = sum_list (rates_of ps)\<rparr>"
  using sum_rates_total [of "\<lparr>Denom = Denom (acc_Balance a), Amount = 0\<rparr>" "Denom (acc_Balance a)" ps E]
    settleable_facts(5,9) [OF assms] by simp

lemma settleable_SettledAt [simp]: "settleable E (a\<lparr>acc_SettledAt := h\<rparr>) ps = settleable E a ps"
  by (simp add: settleable_def)

text \<open>
  C2. Settlement divides the account's balance as specified and nothing stops it.  For an open
  account that was last settled \<open>d > 0\<close> blocks ago, whose open payments have positive rates in
  the account's denomination and whose amounts stay in the integer range: with
  \<open>shares = settle_shares balance rates d\<close> (each payment's rate times \<open>d\<close> when the
  balance covers all of them, else the whole balance divided in proportion to the rates, the units
  lost in rounding going one each to the first payments), \<^verbatim>\<open>doAccountSettle\<close> neither
  fails nor panics in its arithmetic: it credits the shares to the payments and debits their sum
  from the account.  It then saves them when the balance covered the blocks, and otherwise goes on
  to close the account as overdrawn.
\<close>
theorem doAccountSettle_pays_shares:
  assumes "kv_get (accounts s) (accountKey i) = Some a" and "acc_State a = AccountOpen"
    and "acc_SettledAt a < BlockHeight E" and "settleable E a (open_payments i s)"
  defines "ps \<equiv> open_payments i s" and "d \<equiv> BlockHeight E - acc_SettledAt a"
  defines "shares \<equiv> settle_shares (Amount (acc_Balance a)) (rates_of ps) d"
  defines "a' \<equiv> debit (a\<lparr>acc_SettledAt := BlockHeight E\<rparr>) (sum_list shares)"
  shows "doAccountSettle E H i s =
      (if sum_list (rates_of ps) * d \<le> Amount (acc_Balance a) then settle_save a' (credits ps shares) s
       else settle_finish E H a' (credits ps shares) s) \<and>
    length shares = length ps \<and> (\<forall>n\<in>set shares. 0 \<le> n) \<and>
    sum_list shares = min (Amount (acc_Balance a)) (sum_list (rates_of ps) * d)"
proof -
  have S: "settleable E a ps" using assms(4) by (simp add: ps_def)
  have d: "0 < d" using assms(3) by (simp add: d_def)
  have ne: "ps \<noteq> []" and vd: "ValidDenom E (Denom (acc_Balance a))"
    using S settleable_facts(1) [OF S] by (auto simp: settleable_def)
  have st: "settle_stages E (a\<lparr>acc_SettledAt := BlockHeight E\<rparr>) ps d
      \<lparr>Denom = Denom (acc_Balance a), Amount = sum_list (rates_of ps)\<rparr> =
      Some (a', credits ps shares, Amount (acc_Balance a) < sum_list (rates_of ps) * d)"
    using settle_stages_total [of E "a\<lparr>acc_SettledAt := BlockHeight E\<rparr>" ps d] S d
    by (simp add: a'_def shares_def)
  have run: "doAccountSettle E H i s =
      (if sum_list (rates_of ps) * d \<le> Amount (acc_Balance a) then settle_save a' (credits ps shares) s
       else settle_finish E H a' (credits ps shares) s)"
    unfolding doAccountSettle_eq GetAccount_def accountOpenPayments_def accountPayments_def bind_assoc Let_def
    using assms(1,2,3) ne vd st sum_rates_settleable [OF S]
    by (simp add: bind_def gets_def ret_def NewCoin_def d_def ps_def open_payments_def or_panic_def found_or_def)
  have "rates_of ps \<noteq> []" "\<forall>r\<in>set (rates_of ps). 0 < r" using ne settleable_facts(9) [OF S] by auto
  from settle_shares_facts [OF this settleable_facts(3) [OF S] d] run show ?thesis
    by (simp add: shares_def)
qed

theorem doAccountSettle_pays_shares_witness:
  "doAccountSettle demo_env NewKeeper demo_account_id demo_state =
     settle_save (debit (demo_account\<lparr>acc_SettledAt := 10\<rparr>) 15)
       (credits (open_payments demo_account_id demo_state) [10, 5]) demo_state \<and>
   doAccountSettle (demo_env\<lparr>BlockHeight := 1000\<rparr>) NewKeeper demo_account_id demo_state =
     settle_finish (demo_env\<lparr>BlockHeight := 1000\<rparr>) NewKeeper (debit (demo_account\<lparr>acc_SettledAt := 1000\<rparr>) 100)
       (credits (open_payments demo_account_id demo_state) [67, 33]) demo_state"
proof -
  have a: "kv_get (accounts demo_state) (accountKey demo_account_id) = Some demo_account"
    and st: "acc_State demo_account = AccountOpen" "acc_SettledAt demo_account = 5"
    and ps: "open_payments demo_account_id demo_state = [demo_payment ''1/1/a'' 2, demo_payment ''1/1/b'' 1]"
    by code_simp+
  have S: "settleable demo_env demo_account (open_payments demo_account_id demo_state)"
    "settleable (demo_env\<lparr>BlockHeight := 1000\<rparr>) demo_account (open_payments demo_account_id demo_state)"
    by code_simp+
  have "settle_shares 100 [2, 1] 5 = [10, 5]" "settle_shares 100 [2, 1] 995 = [67, 33]"
    by code_simp+
  then show ?thesis
    using doAccountSettle_pays_shares [OF a st(1) _ S(1), of NewKeeper] doAccountSettle_pays_shares [OF a st(1) _ S(2), of NewKeeper]
    by (simp add: st ps demo_account_def demo_payment_def demo_env_def)
qed

definition demo_closed_state :: "(string \<Rightarrow> int) escrow_state" where
  "demo_closed_state = demo_state\<lparr>accounts := kv_set (accountKey demo_account_id) (demo_account\<lparr>acc_State := AccountClosed\<rparr>) (accounts demo_state)\<rparr>"

definition demo_empty_state :: "(string \<Rightarrow> int) escrow_state" where
  "demo_empty_state = demo_state\<lparr>accounts := kv_set (accountKey demo_account_id)
     (demo_account\<lparr>acc_Balance := \<lparr>Denom = ''uve'', Amount = 0\<rparr>\<rparr>) (accounts demo_state)\<rparr>"

definition demo_settled :: "(string \<Rightarrow> int) escrow_state" where
  "demo_settled = (case AccountSettle demo_env NewKeeper demo_account_id demo_state of Ok _ t \<Rightarrow> t | _ \<Rightarrow> demo_state)"

subsection \<open>Errors\<close>

text \<open>
  C40. An account that is not open is left alone: depositing, settling, closing and creating a payment
  all return \<^verbatim>\<open>ErrAccountClosed\<close> and write nothing, whatever hooks are registered.
\<close>
theorem closed_account_rejects:
  assumes "kv_get (accounts s) (accountKey i) = Some a" and "acc_State a \<noteq> AccountOpen"
  shows "AccountDeposit E i amount s = Err (Escrow ErrAccountClosed) s \<and>
    AccountSettle E H i s = Err (Escrow ErrAccountClosed) s \<and>
    AccountClose E H i s = Err (Escrow ErrAccountClosed) s \<and>
    PaymentCreate E H i pid owner rate s = Err (Escrow ErrAccountClosed) s"
  using assms
  by (simp add: AccountDeposit_def AccountSettle_def AccountClose_def PaymentCreate_def doAccountSettle_def GetAccount_def
    act_defs)

theorem closed_account_rejects_witness:
  "AccountDeposit demo_env demo_account_id \<lparr>Denom = ''uve'', Amount = 1\<rparr> demo_closed_state = Err (Escrow ErrAccountClosed) demo_closed_state \<and>
   AccountSettle demo_env NewKeeper demo_account_id demo_closed_state = Err (Escrow ErrAccountClosed) demo_closed_state \<and>
   AccountClose demo_env NewKeeper demo_account_id demo_closed_state = Err (Escrow ErrAccountClosed) demo_closed_state \<and>
   PaymentCreate demo_env NewKeeper demo_account_id ''1/1/c'' ''provc'' \<lparr>Denom = ''uve'', Amount = 1\<rparr> demo_closed_state =
     Err (Escrow ErrAccountClosed) demo_closed_state"
  by (rule closed_account_rejects [of _ _ "demo_account\<lparr>acc_State := AccountClosed\<rparr>"])
    (simp_all add: demo_closed_state_def demo_account_def)

subsection \<open>Creating an account\<close>

text \<open>
  \<^verbatim>\<open>AccountCreate\<close> on every branch, for a valid owner, identifier and deposit: an account that exists is
  refused with nothing written; when the bank moves the deposit to the module, the account is stored open, with the deposit as its
  balance, nothing transferred and settled at this height; when the bank refuses, its error is returned and no account is stored.
\<close>
lemma AccountCreate_creates:
  assumes "ValidDenom E (Denom deposit)" and "0 \<le> Amount deposit"
    and "aid_Scope i \<noteq> []" and "aid_XID i \<noteq> []" and "FromBech32 E (AddrString E owner) \<noteq> None"
    and "NewCoins E deposit = Some coins" and "BankToModule E owner ModuleName coins (bank s) = (ok, b)"
  shows "AccountCreate E i owner deposit s =
    (if kv_has (accounts s) (accountKey i) then Err (Escrow ErrAccountExists) s
     else if ok then
       Ok () (s\<lparr>bank := b, accounts := kv_set (accountKey i)
         \<lparr>acc_ID = i, acc_Owner = AddrString E owner, acc_State = AccountOpen, acc_Balance = deposit,
          acc_Transferred = \<lparr>Denom = Denom deposit, Amount = 0\<rparr>, acc_SettledAt = BlockHeight E\<rparr> (accounts s)\<rparr>)
     else Err BankError (s\<lparr>bank := b\<rparr>))"
  using assms
  by (auto simp: AccountCreate_def act_defs Let_def NewCoin_def Account_ValidateBasic_def AccountID_ValidateBasic_def
    SendCoinsFromAccountToModule_def split: bool.splits)

subsection \<open>Settling twice\<close>

lemma hoare_at_gets: "hoare (\<lambda>u. u = s) (f (g s)) Q R \<Longrightarrow> hoare (\<lambda>u. u = s) (bind (gets g) f) Q R"
  by (simp add: hoare_def act_defs)

lemma settle_again:
  assumes "kv_get (accounts t) (accountKey i) = Some a" "acc_State a = AccountOpen" "acc_SettledAt a = BlockHeight E"
  shows "doAccountSettle E H i t = Ok (a, [], False) t"
  using assms by (simp add: doAccountSettle_def GetAccount_def act_defs Let_def)

text \<open>
  Settling twice in a block is settling once: after a settlement that did not overdraw the account, a second one at
  the same height returns the same answer and writes nothing.
\<close>
lemma AccountSettle_idempotent:
  assumes "kv_get (accounts s) (accountKey i) = Some a" and "acc_ID a = i"
    and "AccountSettle E H i s = Ok False t"
  shows "AccountSettle E H i t = Ok False t"
proof -
  let ?now = "\<lambda>t. \<exists>b. kv_get (accounts t) (accountKey i) = Some b \<and> acc_State b = AccountOpen \<and> acc_SettledAt b = BlockHeight E"
  let ?Q = "\<lambda>(b, ps, od) t. \<not> od \<longrightarrow> ?now t"
  have save: "hoare P (settle_save b ps) ?Q (\<lambda>_. True)" "hoare P (bind (saveAccount b) (\<lambda>_. ret (b, [], False))) ?Q (\<lambda>_. True)"
    if b: "acc_ID b = i" "acc_State b = AccountOpen" "acc_SettledAt b = BlockHeight E" for P b ps
  proof -
    have "keeps ?now (each savePayment ps)" unfolding savePayment_def by (intro keeps_each keeps_modify) simp
    then have ps: "hoare ?now (each savePayment ps) (\<lambda>_. ?now) (\<lambda>_. True)" unfolding keeps_def by (rule hoare_weaken) simp_all
    have a: "hoare P (saveAccount b) (\<lambda>_. ?now) (\<lambda>_. True)" unfolding saveAccount_def using b by (intro hoare_pre [OF hoare_modify]) simp
    show "hoare P (settle_save b ps) ?Q (\<lambda>_. True)"
      unfolding settle_save_def by (rule hoare_bind [OF a hoare_bind [OF ps hoare_pre [OF hoare_ret]]]) simp
    show "hoare P (bind (saveAccount b) (\<lambda>_. ret (b, [], False))) ?Q (\<lambda>_. True)"
      by (rule hoare_bind [OF a hoare_pre [OF hoare_ret]]) simp
  qed
  have over: "hoare (\<lambda>_. True) (settle_finish E H b ps) (\<lambda>(b, ps, od) t. \<not> od \<longrightarrow> ?now t) (\<lambda>_. True)" for b ps
    unfolding settle_finish_def Let_def by (auto simp: hoare_def bind_def ret_def split: outcome.splits)
  have same: "acc_ID b = i \<and> acc_State b = AccountOpen \<and> acc_SettledAt b = BlockHeight E"
    if "settle_stages E (a\<lparr>acc_SettledAt := BlockHeight E\<rparr>) ps k r = Some (b, qs, od)" "sum_rates E z ps = Some r"
      "NewCoin E x 0 = Some z" "acc_State a = AccountOpen" for b ps k r qs od z x
    using settle_stages_Some(1) [OF that(1)] sum_rates_Some [OF that(2)] that(3,4) assms(2) by (auto simp: settled_def NewCoin_Some)
  have "hoare (\<lambda>u. u = s) (doAccountSettle E H i) (\<lambda>(b, ps, od) t. \<not> od \<longrightarrow> ?now t) (\<lambda>_. True)"
    unfolding doAccountSettle_eq GetAccount_def accountOpenPayments_def accountPayments_def bind_assoc bind_ret Let_def
    by (rule hoare_at_gets, unfold assms(1) or_simps bind_ret,
        intro hoare_bind_check TrueI hoare_if hoare_bind_gets hoare_bind_or_panic hoare_case_prod save hoare_pre [OF over])
      (auto simp: assms hoare_def ret_def dest: same)
  then have "?now t" using hoare_Ok [of _ _ _ _ s] assms(3)
    by (fastforce simp: AccountSettle_def bind_Ok_iff ret_def split: prod.splits)
  then show ?thesis using settle_again by (fastforce simp: AccountSettle_def act_defs)
qed

subsection \<open>Closing with nothing to withdraw\<close>

text \<open>
  Closing a payment that has nothing to withdraw does not close it: when the account was settled in
  this block and the payment's balance is zero, \<^verbatim>\<open>PaymentClose\<close> runs the hooks on a payment marked closed but writes nothing,
  so the stored payment stays open (\<^verbatim>\<open>paymentWithdraw\<close> returns before it saves the object).
\<close>
lemma PaymentClose_empty_keeps_open:
  assumes "kv_get (accounts s) (accountKey i) = Some a" and "acc_State a = AccountOpen" and "acc_SettledAt a = BlockHeight E"
    and "kv_get (payments s) (paymentKey i pid) = Some p" and "pay_State p = PaymentOpen" and "Amount (pay_Balance p) = 0"
    and "FromBech32 E (pay_Owner p) \<noteq> None"
  shows "PaymentClose E H i pid s = each (\<lambda>hook. hook (p\<lparr>pay_State := PaymentClosed\<rparr>)) (onPaymentClosed H) s"
  using assms settle_again [OF assms(1-3)]
  by (auto simp: PaymentClose_def AccountSettle_def GetPayment_def paymentWithdraw_def AccAddressFromBech32_def coin_IsZero_def
    act_defs fun_eq_iff)

text \<open>
  Closing an account that was settled in this block and has nothing left does not close it:
  \<^verbatim>\<open>AccountClose\<close> runs the account hooks on an account marked closed and the payment hooks on no payment, but the stored account
  stays open, and so do its payments.
\<close>
lemma AccountClose_empty_keeps_open:
  assumes "kv_get (accounts s) (accountKey i) = Some a" and "acc_State a = AccountOpen" and "acc_SettledAt a = BlockHeight E"
    and "Amount (acc_Balance a) = 0" and "FromBech32 E (acc_Owner a) \<noteq> None"
  shows "AccountClose E H i s =
    bind (each (\<lambda>hook. hook (a\<lparr>acc_State := AccountClosed\<rparr>)) (onAccountClosed H)) (\<lambda>_.
      each (\<lambda>hook. each hook []) (onPaymentClosed H)) s"
  using assms settle_again [OF assms(1-3)]
  by (auto simp: AccountClose_def GetAccount_def accountWithdraw_def AccAddressFromBech32_def coin_IsZero_def
    act_defs fun_eq_iff)

subsection \<open>Genesis\<close>

lemma kv_set_last: "\<forall>e\<in>set m. fst e < k \<Longrightarrow> kv_set k v m = m @ [(k, v)]"
  by (induction m) (auto dest: less_asym)

lemma kv_build: "kv_ok m \<Longrightarrow> fold (\<lambda>(k, v). kv_set k v) m [] = m"
proof (induction m rule: rev_induct)
  case (snoc e m)
  then have "kv_ok m" "\<forall>x\<in>set m. fst x < fst e" by (auto simp: kv_ok_def sorted_wrt_append)
  then show ?case using snoc.IH kv_set_last [of m "fst e" "snd e"] by (simp add: case_prod_beta)
qed simp

lemma each_modify: "each (\<lambda>x. modify (f x)) xs s = Ok () (fold f xs s)"
  by (induction xs arbitrary: s) (simp_all add: act_defs)

lemma import_accounts:
  "each saveAccount xs s = Ok () (s\<lparr>accounts := fold (\<lambda>a. kv_set (accountKey (acc_ID a)) a) xs (accounts s)\<rparr>)"
  by (induction xs arbitrary: s) (simp_all add: saveAccount_def act_defs)

lemma import_payments:
  "each savePayment ps s = Ok () (s\<lparr>payments := fold (\<lambda>p. kv_set (paymentKey (pay_AccountID p) (pay_PaymentID p)) p) ps (payments s)\<rparr>)"
  by (induction ps arbitrary: s) (simp_all add: savePayment_def act_defs)

text \<open>Reading all values back under their own keys rebuilds the store.\<close>

lemma kv_rebuild:
  assumes "kv_ok m" "\<And>k v. kv_get m k = Some v \<Longrightarrow> k = key v \<and> prefix p k"
  shows "fold (\<lambda>v. kv_set (key v) v) (kv_iter p m) [] = m"
proof -
  have own: "fst e = key (snd e) \<and> prefix p (fst e)" if "e \<in> set m" for e
    by (rule assms(2)) (use that kv_ok_distinct [OF assms(1)] in \<open>simp add: kv_get_def\<close>)
  then have "filter (\<lambda>e. prefix p (fst e)) m = m" by (metis filter_True)
  then have "fold (\<lambda>v. kv_set (key v) v) (kv_iter p m) [] = fold (\<lambda>e. kv_set (key (snd e)) (snd e)) m []"
    by (simp add: kv_iter_def fold_map comp_def)
  also have "\<dots> = fold (\<lambda>(k, v). kv_set k v) m []" using own by (intro fold_cong) auto
  finally show ?thesis using kv_build [OF assms(1)] by simp
qed

lemma key_tags: "prefix [CHR 0x01] (accountKey i)" "prefix [CHR 0x02] (paymentKey i pid)"
  by (simp_all add: accountKey_def paymentKey_def)

lemma genesis_restores:
  assumes "escrow_wf E J s"
  shows "InitGenesis (ExportGenesis s) (s\<lparr>accounts := [], payments := []\<rparr>) = Ok () s"
proof -
  have a: "fold (\<lambda>a. kv_set (accountKey (acc_ID a)) a) (WithAccounts s) [] = accounts s"
    unfolding WithAccounts_def
    by (rule kv_rebuild [OF wf_kv_ok(1) [OF assms]]) (metis wf_account(1) [OF assms] key_tags(1))
  have p: "fold (\<lambda>p. kv_set (paymentKey (pay_AccountID p) (pay_PaymentID p)) p) (WithPayments s) [] = payments s"
    unfolding WithPayments_def
    by (rule kv_rebuild [OF wf_kv_ok(2) [OF assms]]) (metis wf_payment(1) [OF assms] key_tags(2) payKey_def)
  show ?thesis by (simp add: InitGenesis_def ExportGenesis_def bind_def import_accounts import_payments a p)
qed

end
