(* ===== verification/Ids_Properties.thy ===== *)
theory Ids_Properties
  imports Ids Example
begin

text \<open>
  Identifiers and store keys: what is printed into an escrow identifier is read back from it, ids are
  accepted exactly when all their parts are, and a scan of the store by prefix finds exactly the
  objects it is meant to find.
\<close>

subsection \<open>Round trips\<close>

text \<open>
  The escrow account of a deployment leads back to the deployment: \<^verbatim>\<open>ParseDeploymentID\<close> reads the
  identifier that \<^verbatim>\<open>String\<close> printed, for every sequence number of 64 bits, when the owner is an address as the codec prints it.
\<close>
lemma deployment_id_roundtrip:
  assumes "addr_laws E" and "canonical E (did_Owner i)"
  shows "ParseDeploymentID E (DeploymentID_String i) = Inr i \<and>
    DeploymentIDFromEscrowAccount E (EscrowAccountForDeployment i) = Some i"
  using ParseDeploymentID_String [OF assms] DeploymentIDFromEscrowAccount_deployment [OF assms] by simp

text \<open>
  The escrow payment of a lease, together with the account it is paid from, leads back to the lease:
  the hooks on closed payments find the lease the payment was made for.
\<close>
lemma lease_payment_roundtrip:
  assumes "addr_laws E" and "canonical E (bid_Owner i)" and "canonical E (bid_Provider i)"
  shows "LeaseIDFromEscrowAccount E
    (EscrowAccountForDeployment (BidID_DeploymentID i)) (EscrowPaymentForLease i) = Some i"
  using assms by (rule LeaseIDFromEscrowAccount_lease)

subsection \<open>Validation\<close>

text \<open>
  A bid's identifier is valid exactly when owner and provider decode and are written differently and
  no sequence number is zero; the first part that is wrong decides the error.
\<close>
lemma BidID_Validate_cases:
  "BidID_Validate E i =
    (if FromBech32 E (bid_Owner i) = None then Inl (Sdk sdk_error.ErrInvalidAddress)
     else if bid_DSeq i = 0 \<or> bid_GSeq i = 0 \<or> bid_OSeq i = 0 then Inl (Sdk ErrInvalidSequence)
     else if FromBech32 E (bid_Provider i) = None then Inl (Sdk sdk_error.ErrInvalidAddress)
     else if bid_Owner i = bid_Provider i then Inl (Sdk ErrConflict)
     else Inr ())"
  by (auto simp: BidID_Validate_def OrderID_Validate_def GroupID_Validate_def DeploymentID_Validate_def id_defs
    split: option.splits)

subsection \<open>Store keys\<close>

text \<open>
  Scans by prefix are exact.  When the owners' strings have one length, the key of a group, an order or
  a bid starts with the prefix of a deployment, a group or an order exactly when it belongs to it, and different objects
  have different keys: no sequence number of one object can be mistaken for part of another.
\<close>
lemma prefix_scans_exact:
  assumes "length (did_Owner d) = n" and "length (gid_Owner g) = n" and "length (oid_Owner r) = n"
    and "length (bid_Owner b) = n" and "length (bid_Owner c) = n"
  shows "(prefix (groupsKey d) (groupKey g) \<longleftrightarrow> GroupID_DeploymentID g = d) \<and>
    (prefix (ordersForGroupPrefix g) (orderKey r) \<longleftrightarrow> OrderID_GroupID r = g) \<and>
    (prefix (bidsForOrderPrefix r) (bidKey b) \<longleftrightarrow> BidID_OrderID b = r) \<and>
    (bidKey b = bidKey c \<longleftrightarrow> b = c) \<and> (leaseKey b = leaseKey c \<longleftrightarrow> b = c)"
  using assms by (simp add: groupsKey_prefix ordersForGroupPrefix_prefix bidsForOrderPrefix_prefix bidKey_inj leaseKey_inj)

end
