(* ===== verification/Resources.thy ===== *)
theory Resources
  imports Sdk
begin

text \<open>
  Attributes and compute resources: \<^verbatim>\<open>types/attribute.go\<close>,
  \<^verbatim>\<open>types/resourcevalue.go\<close> and \<^verbatim>\<open>types/resource.go\<close>.

  A nil pointer is \<open>None\<close>.  A pure operation that can fail and can panic has type
  \<open>(error + 'a) option\<close>: \<open>None\<close> is the panic, \<open>Some (Inl e)\<close> a returned error.
  Where a method changes its receiver through a pointer the model returns the receiver too.
\<close>

subsection \<open>Attributes\<close>

record attribute =
  attr_Key :: string
  attr_Value :: string

definition NewStringAttribute :: "string \<Rightarrow> string \<Rightarrow> attribute" where
  "NewStringAttribute key val = \<lparr>attr_Key = key, attr_Value = val\<rparr>"

definition Attribute_Equal :: "attribute \<Rightarrow> attribute \<Rightarrow> bool" where
  "Attribute_Equal m rhs \<longleftrightarrow> m = rhs"

definition Attribute_SubsetOf :: "attribute \<Rightarrow> attribute \<Rightarrow> bool" where
  "Attribute_SubsetOf m rhs \<longleftrightarrow> attr_Key m = attr_Key rhs \<and> attr_Value m = attr_Value rhs"

text \<open>The regular expression \<^verbatim>\<open>^[a-zA-Z][\w-]{1,30}[a-zA-Z0-9]$\<close>.\<close>

definition char_in :: "char \<Rightarrow> char \<Rightarrow> char \<Rightarrow> bool" where
  "char_in lo hi c \<longleftrightarrow> lo \<le> c \<and> c \<le> hi"

definition is_alpha :: "char \<Rightarrow> bool" where
  "is_alpha c \<longleftrightarrow> char_in (CHR ''a'') (CHR ''z'') c \<or> char_in (CHR ''A'') (CHR ''Z'') c"

definition is_alnum :: "char \<Rightarrow> bool" where
  "is_alnum c \<longleftrightarrow> is_alpha c \<or> char_in (CHR ''0'') (CHR ''9'') c"

definition is_word :: "char \<Rightarrow> bool" where
  "is_word c \<longleftrightarrow> is_alnum c \<or> c = CHR ''_''"

definition attributeNameRegexp :: "string \<Rightarrow> bool" where
  "attributeNameRegexp s \<longleftrightarrow> 3 \<le> length s \<and> length s \<le> 32 \<and> is_alpha (hd s) \<and> is_alnum (last s) \<and>
     list_all (\<lambda>c. is_word c \<or> c = CHR ''-'') (butlast (tl s))"

primrec Attributes_Validate_loop :: "string list \<Rightarrow> attribute list \<Rightarrow> error + unit" where
  "Attributes_Validate_loop seen [] = Inr ()"
| "Attributes_Validate_loop seen (a # attr) =
     (if \<not> attributeNameRegexp (attr_Key a) then Inl (AttributeErr ErrInvalidAttributeKey)
      else if attr_Key a \<in> set seen then Inl (AttributeErr ErrAttributesDuplicateKeys)
      else Attributes_Validate_loop (attr_Key a # seen) attr)"

definition Attributes_Validate :: "attribute list \<Rightarrow> error + unit" where
  "Attributes_Validate attr = Attributes_Validate_loop [] attr"

primrec AttributesSubsetOf :: "attribute list \<Rightarrow> attribute list \<Rightarrow> bool" where
  "AttributesSubsetOf [] b = True"
| "AttributesSubsetOf (req # a) b =
     (if list_ex (\<lambda>attr. Attribute_SubsetOf req attr) b then AttributesSubsetOf a b else False)"

lemma Attribute_SubsetOf_eq [simp]: "Attribute_SubsetOf a b \<longleftrightarrow> a = b"
  by (cases a; cases b) (simp add: Attribute_SubsetOf_def)

lemma AttributesSubsetOf_iff: "AttributesSubsetOf a b \<longleftrightarrow> set a \<subseteq> set b"
  by (induction a) (auto simp: list_ex_iff)

lemma Attributes_Validate_loop_iff:
  "Attributes_Validate_loop seen attr = Inr () \<longleftrightarrow>
     (\<forall>a\<in>set attr. attributeNameRegexp (attr_Key a)) \<and> distinct (map attr_Key attr) \<and>
     set seen \<inter> attr_Key ` set attr = {}"
  by (induction attr arbitrary: seen) auto

lemma Attributes_Validate_iff:
  "Attributes_Validate attr = Inr () \<longleftrightarrow>
     (\<forall>a\<in>set attr. attributeNameRegexp (attr_Key a)) \<and> distinct (map attr_Key attr)"
  by (simp add: Attributes_Validate_def Attributes_Validate_loop_iff)

subsection \<open>Resource values\<close>

record resource_value =
  Val :: int

definition NewResourceValue :: "64 word \<Rightarrow> resource_value" where
  "NewResourceValue val = \<lparr>Val = uint val\<rparr>"

text \<open>\<^verbatim>\<open>Value\<close> panics when the integer is no \<^verbatim>\<open>uint64\<close>.\<close>

definition ResourceValue_Value :: "resource_value \<Rightarrow> 64 word option" where
  "ResourceValue_Value m = (if 0 \<le> Val m \<and> Val m < 2 ^ 64 then Some (word_of_int (Val m)) else None)"

definition ResourceValue_equals :: "resource_value \<Rightarrow> resource_value \<Rightarrow> bool" where
  "ResourceValue_equals m rhs \<longleftrightarrow> Val m = Val rhs"

definition ResourceValue_le :: "resource_value \<Rightarrow> resource_value \<Rightarrow> bool" where
  "ResourceValue_le m rhs \<longleftrightarrow> Val m \<le> Val rhs"

definition ResourceValue_add ::
  "'b env \<Rightarrow> resource_value \<Rightarrow> resource_value \<Rightarrow> (error + resource_value) option" where
  "ResourceValue_add E m rhs = do {
     res \<leftarrow> int_chk E (Val m + Val rhs);
     Some (if res < 0 then Inl (Errorf ''resource value overflow'') else Inr \<lparr>Val = res\<rparr>) }"

definition ResourceValue_sub ::
  "'b env \<Rightarrow> resource_value \<Rightarrow> resource_value \<Rightarrow> (error + resource_value) option" where
  "ResourceValue_sub E m rhs = do {
     res \<leftarrow> int_chk E (Val m - Val rhs);
     Some (if res < 0 then Inl (Errorf ''result of subtraction is negative'') else Inr \<lparr>Val = res\<rparr>) }"

subsection \<open>Units\<close>

record cpu =
  cpu_Units :: resource_value
  cpu_Attributes :: "attribute list"

record memory =
  mem_Quantity :: resource_value
  mem_Attributes :: "attribute list"

record storage =
  sto_Quantity :: resource_value
  sto_Attributes :: "attribute list"

datatype endpoint_kind = Endpoint_SHARED_HTTP | Endpoint_RANDOM_PORT

record endpoint =
  ep_Kind :: endpoint_kind

record resource_units =
  CPU :: "cpu option"
  Memory :: "memory option"
  Storage :: "storage option"
  Endpoints :: "endpoint list"

text \<open>The interface \<^verbatim>\<open>Unit\<close>: a pointer of one of the three types, possibly nil.  A method
  whose argument has another dynamic type gives up quietly; on a nil pointer of its own type it
  dereferences it and panics.\<close>

datatype unit_ref = CPU_ref "cpu option" | Memory_ref "memory option" | Storage_ref "storage option"

definition CPU_equals :: "cpu \<Rightarrow> unit_ref \<Rightarrow> bool option" where
  "CPU_equals m other = (case other of
     CPU_ref (Some rhs) \<Rightarrow> Some (ResourceValue_equals (cpu_Units m) (cpu_Units rhs) \<and>
       cpu_Attributes m = cpu_Attributes rhs)
   | CPU_ref None \<Rightarrow> None | _ \<Rightarrow> Some False)"

definition CPU_le :: "cpu \<Rightarrow> unit_ref \<Rightarrow> bool option" where
  "CPU_le m other = (case other of
     CPU_ref (Some rhs) \<Rightarrow> Some (ResourceValue_le (cpu_Units m) (cpu_Units rhs))
   | CPU_ref None \<Rightarrow> None | _ \<Rightarrow> Some False)"

definition CPU_add :: "'b env \<Rightarrow> cpu \<Rightarrow> unit_ref \<Rightarrow> (error + cpu) option" where
  "CPU_add E m other = (case other of
     CPU_ref (Some rhs) \<Rightarrow> do {
       res \<leftarrow> ResourceValue_add E (cpu_Units m) (cpu_Units rhs);
       Some (case res of Inl e \<Rightarrow> Inl e | Inr v \<Rightarrow> Inr (m\<lparr>cpu_Units := v\<rparr>)) }
   | CPU_ref None \<Rightarrow> None | _ \<Rightarrow> Some (Inr m))"

definition CPU_sub :: "'b env \<Rightarrow> cpu \<Rightarrow> unit_ref \<Rightarrow> (error + cpu) option" where
  "CPU_sub E m other = (case other of
     CPU_ref (Some rhs) \<Rightarrow> do {
       res \<leftarrow> ResourceValue_sub E (cpu_Units m) (cpu_Units rhs);
       Some (case res of Inl e \<Rightarrow> Inl e | Inr v \<Rightarrow> Inr (m\<lparr>cpu_Units := v\<rparr>)) }
   | CPU_ref None \<Rightarrow> None | _ \<Rightarrow> Some (Inr m))"

definition Memory_equals :: "memory \<Rightarrow> unit_ref \<Rightarrow> bool option" where
  "Memory_equals m other = (case other of
     Memory_ref (Some rhs) \<Rightarrow> Some (ResourceValue_equals (mem_Quantity m) (mem_Quantity rhs) \<and>
       mem_Attributes m = mem_Attributes rhs)
   | Memory_ref None \<Rightarrow> None | _ \<Rightarrow> Some False)"

definition Memory_le :: "memory \<Rightarrow> unit_ref \<Rightarrow> bool option" where
  "Memory_le m other = (case other of
     Memory_ref (Some rhs) \<Rightarrow> Some (ResourceValue_le (mem_Quantity m) (mem_Quantity rhs))
   | Memory_ref None \<Rightarrow> None | _ \<Rightarrow> Some False)"

definition Memory_add :: "'b env \<Rightarrow> memory \<Rightarrow> unit_ref \<Rightarrow> (error + memory) option" where
  "Memory_add E m other = (case other of
     Memory_ref (Some rhs) \<Rightarrow> do {
       res \<leftarrow> ResourceValue_add E (mem_Quantity m) (mem_Quantity rhs);
       Some (case res of Inl e \<Rightarrow> Inl e | Inr v \<Rightarrow> Inr (m\<lparr>mem_Quantity := v\<rparr>)) }
   | Memory_ref None \<Rightarrow> None | _ \<Rightarrow> Some (Inr m))"

definition Memory_sub :: "'b env \<Rightarrow> memory \<Rightarrow> unit_ref \<Rightarrow> (error + memory) option" where
  "Memory_sub E m other = (case other of
     Memory_ref (Some rhs) \<Rightarrow> do {
       res \<leftarrow> ResourceValue_sub E (mem_Quantity m) (mem_Quantity rhs);
       Some (case res of Inl e \<Rightarrow> Inl e | Inr v \<Rightarrow> Inr (m\<lparr>mem_Quantity := v\<rparr>)) }
   | Memory_ref None \<Rightarrow> None | _ \<Rightarrow> Some (Inr m))"

definition Storage_equals :: "storage \<Rightarrow> unit_ref \<Rightarrow> bool option" where
  "Storage_equals m other = (case other of
     Storage_ref (Some rhs) \<Rightarrow> Some (ResourceValue_equals (sto_Quantity m) (sto_Quantity rhs) \<and>
       sto_Attributes m = sto_Attributes rhs)
   | Storage_ref None \<Rightarrow> None | _ \<Rightarrow> Some False)"

definition Storage_le :: "storage \<Rightarrow> unit_ref \<Rightarrow> bool option" where
  "Storage_le m other = (case other of
     Storage_ref (Some rhs) \<Rightarrow> Some (ResourceValue_le (sto_Quantity m) (sto_Quantity rhs))
   | Storage_ref None \<Rightarrow> None | _ \<Rightarrow> Some False)"

definition Storage_add :: "'b env \<Rightarrow> storage \<Rightarrow> unit_ref \<Rightarrow> (error + storage) option" where
  "Storage_add E m other = (case other of
     Storage_ref (Some rhs) \<Rightarrow> do {
       res \<leftarrow> ResourceValue_add E (sto_Quantity m) (sto_Quantity rhs);
       Some (case res of Inl e \<Rightarrow> Inl e | Inr v \<Rightarrow> Inr (m\<lparr>sto_Quantity := v\<rparr>)) }
   | Storage_ref None \<Rightarrow> None | _ \<Rightarrow> Some (Inr m))"

definition Storage_sub :: "'b env \<Rightarrow> storage \<Rightarrow> unit_ref \<Rightarrow> (error + storage) option" where
  "Storage_sub E m other = (case other of
     Storage_ref (Some rhs) \<Rightarrow> do {
       res \<leftarrow> ResourceValue_sub E (sto_Quantity m) (sto_Quantity rhs);
       Some (case res of Inl e \<Rightarrow> Inl e | Inr v \<Rightarrow> Inr (m\<lparr>sto_Quantity := v\<rparr>)) }
   | Storage_ref None \<Rightarrow> None | _ \<Rightarrow> Some (Inr m))"

subsection \<open>Sums and differences of resource units\<close>

text \<open>
  \<^verbatim>\<open>ResourceUnits.Add\<close> copies the struct but not what its pointers point to: where the
  receiver has a unit, that unit is changed in place.  The model gives the receiver as it is
  afterwards and the returned value (or error).  Where the receiver has no unit the result shares
  the right-hand side's.
\<close>

definition ResourceUnits_Add ::
  "'b env \<Rightarrow> resource_units \<Rightarrow> resource_units \<Rightarrow> (resource_units \<times> (error + resource_units)) option" where
  "ResourceUnits_Add E m rhs = do {
     c \<leftarrow> (case CPU m of None \<Rightarrow> Some (Inr (m, m\<lparr>CPU := CPU rhs\<rparr>))
        | Some u \<Rightarrow> do {
            r \<leftarrow> CPU_add E u (CPU_ref (CPU rhs));
            Some (case r of Inl e \<Rightarrow> Inl e | Inr u' \<Rightarrow> Inr (m\<lparr>CPU := Some u'\<rparr>, m\<lparr>CPU := Some u'\<rparr>)) });
     case c of Inl e \<Rightarrow> Some (m, Inl e) | Inr (m, res) \<Rightarrow> do {
     c \<leftarrow> (case Memory res of None \<Rightarrow> Some (Inr (m, res\<lparr>Memory := Memory rhs\<rparr>))
        | Some u \<Rightarrow> do {
            r \<leftarrow> Memory_add E u (Memory_ref (Memory rhs));
            Some (case r of Inl e \<Rightarrow> Inl e
              | Inr u' \<Rightarrow> Inr (m\<lparr>Memory := Some u'\<rparr>, res\<lparr>Memory := Some u'\<rparr>)) });
     case c of Inl e \<Rightarrow> Some (m, Inl e) | Inr (m, res) \<Rightarrow> do {
     c \<leftarrow> (case Storage res of None \<Rightarrow> Some (Inr (m, res\<lparr>Storage := Storage rhs\<rparr>))
        | Some u \<Rightarrow> do {
            r \<leftarrow> Storage_add E u (Storage_ref (Storage rhs));
            Some (case r of Inl e \<Rightarrow> Inl e
              | Inr u' \<Rightarrow> Inr (m\<lparr>Storage := Some u'\<rparr>, res\<lparr>Storage := Some u'\<rparr>)) });
     Some (case c of Inl e \<Rightarrow> (m, Inl e) | Inr (m, res) \<Rightarrow> (m, Inr res)) } } }"

text \<open>\<^verbatim>\<open>ResourceUnits.Sub\<close> copies the units first; a unit that both sides lack is
  dereferenced by the copy.\<close>

definition ResourceUnits_Sub ::
  "'b env \<Rightarrow> resource_units \<Rightarrow> resource_units \<Rightarrow> (error + resource_units) option" where
  "ResourceUnits_Sub E m rhs =
     (if (CPU m = None \<and> CPU rhs \<noteq> None) \<or> (Memory m = None \<and> Memory rhs \<noteq> None) \<or>
         (Storage m = None \<and> Storage rhs \<noteq> None)
      then Some (Inl (Errorf ''cannot subtract resources when lhs does not have same units as rhs''))
      else do {
        c \<leftarrow> CPU m; me \<leftarrow> Memory m; st \<leftarrow> Storage m;
        rc \<leftarrow> CPU_sub E c (CPU_ref (CPU rhs));
        case rc of Inl e \<Rightarrow> Some (Inl e) | Inr c' \<Rightarrow> do {
        rm \<leftarrow> Memory_sub E me (Memory_ref (Memory rhs));
        case rm of Inl e \<Rightarrow> Some (Inl e) | Inr me' \<Rightarrow> do {
        rs \<leftarrow> Storage_sub E st (Storage_ref (Storage rhs));
        case rs of Inl e \<Rightarrow> Some (Inl e) | Inr st' \<Rightarrow>
        Some (Inr \<lparr>CPU = Some c', Memory = Some me', Storage = Some st', Endpoints = Endpoints m\<rparr>) } } })"

end
