(* ===== verification/Deployment.thy ===== *)
theory Deployment
  imports Escrow Resources
begin

text \<open>
  The deployment module: its objects, the validation of groups
  (\<^verbatim>\<open>x/deployment/types\<close>), the keeper (\<^verbatim>\<open>x/deployment/keeper/keeper.go\<close>) and
  genesis.  The message handlers are in theory \<open>Handlers\<close>, because they call the market.

  A validation that can fail and can panic is an action that leaves the state alone.
\<close>

subsection \<open>Objects\<close>

datatype deployment_state_enum = DeploymentStateInvalid | DeploymentActive | DeploymentClosed

datatype group_state = GroupStateInvalid | GroupOpen | GroupPaused | GroupInsufficientFunds | GroupClosed

record signed_by =
  AllOf :: "string list"
  AnyOf :: "string list"

record placement_requirements =
  SignedBy :: signed_by
  req_Attributes :: "attribute list"

record resource =
  res_Resources :: resource_units
  res_Count :: "32 word"
  res_Price :: coin

record group_spec =
  gs_Name :: string
  gs_Requirements :: placement_requirements
  gs_Resources :: "resource list"

record deployment =
  dep_ID :: deployment_id
  dep_State :: deployment_state_enum
  dep_Version :: string
  dep_CreatedAt :: int

record group =
  grp_ID :: group_id
  grp_State :: group_state
  grp_Spec :: group_spec
  grp_CreatedAt :: int

record deployment_params =
  DeploymentMinDeposit :: coin

record 'b deployment_state = "'b escrow_state" +
  deployments :: "deployment kv"
  groups :: "group kv"
  deploymentParams :: deployment_params

type_synonym ('b, 'x) dst = "('b, 'x) deployment_state_scheme"

subsection \<open>Prices and requirements\<close>

text \<open>\<^verbatim>\<open>FullPrice\<close> and \<^verbatim>\<open>Price\<close>; the price of a group without resources is the
  zero coin of Go (no denomination, a nil amount), \<open>None\<close> inside.\<close>

definition Resource_FullPrice :: "'b env \<Rightarrow> resource \<Rightarrow> coin option" where
  "Resource_FullPrice E r = do {
     n \<leftarrow> int_chk E (Amount (res_Price r) * uint (res_Count r));
     NewCoin E (Denom (res_Price r)) n }"

primrec GroupSpec_Price_rest :: "'b env \<Rightarrow> coin \<Rightarrow> resource list \<Rightarrow> coin option" where
  "GroupSpec_Price_rest E price [] = Some price"
| "GroupSpec_Price_rest E price (r # rs) = do {
     c \<leftarrow> Resource_FullPrice E r;
     price \<leftarrow> coin_add E price c;
     GroupSpec_Price_rest E price rs }"

definition GroupSpec_Price :: "'b env \<Rightarrow> group_spec \<Rightarrow> coin option option" where
  "GroupSpec_Price E g = (case gs_Resources g of
     [] \<Rightarrow> Some None
   | r # rs \<Rightarrow> do { c \<leftarrow> Resource_FullPrice E r; p \<leftarrow> GroupSpec_Price_rest E c rs; Some (Some p) })"

text \<open>A provider's attributes as one auditor signed them (\<^verbatim>\<open>x/audit\<close>); the entry at the head
  of a provider list has no auditor and the attributes the provider declares itself.\<close>

record audit_provider =
  ap_Owner :: string
  ap_Auditor :: string
  ap_Attributes :: "attribute list"

definition existing_requirements :: "audit_provider list \<Rightarrow> string \<Rightarrow> attribute list option" where
  "existing_requirements ps = map_of (rev (map (\<lambda>p. (ap_Auditor p, ap_Attributes p)) ps))"

definition signed_match :: "group_spec \<Rightarrow> audit_provider list \<Rightarrow> string \<Rightarrow> bool" where
  "signed_match g ps validator = (case existing_requirements ps validator of
     None \<Rightarrow> False | Some attrs \<Rightarrow> AttributesSubsetOf (req_Attributes (gs_Requirements g)) attrs)"

text \<open>\<open>None\<close> is the panic on an empty list.\<close>

definition GroupSpec_MatchRequirements :: "group_spec \<Rightarrow> audit_provider list \<Rightarrow> bool option" where
  "GroupSpec_MatchRequirements g provider =
     (let sb = SignedBy (gs_Requirements g) in
      if AnyOf sb \<noteq> [] \<or> AllOf sb \<noteq> [] then
        if length provider < 2 then Some False
        else if AllOf sb \<noteq> [] \<and> list_ex (\<lambda>v. \<not> signed_match g (tl provider) v) (AllOf sb) then Some False
        else if AnyOf sb \<noteq> [] then Some (list_ex (signed_match g (tl provider)) (AnyOf sb))
        else Some True
      else (case provider of [] \<Rightarrow> None
        | p # _ \<Rightarrow> Some (AttributesSubsetOf (req_Attributes (gs_Requirements g)) (ap_Attributes p))))"

definition GroupSpec_MatchAttributes :: "group_spec \<Rightarrow> attribute list \<Rightarrow> bool" where
  "GroupSpec_MatchAttributes g attr = AttributesSubsetOf (req_Attributes (gs_Requirements g)) attr"

subsection \<open>The group state machine\<close>

definition ValidateClosable :: "group \<Rightarrow> error + unit" where
  "ValidateClosable g = (case grp_State g of
     GroupClosed \<Rightarrow> Inl (Deployment ErrGroupClosed) | _ \<Rightarrow> Inr ())"

definition ValidatePausable :: "group \<Rightarrow> error + unit" where
  "ValidatePausable g = (case grp_State g of
     GroupClosed \<Rightarrow> Inl (Deployment ErrGroupClosed)
   | GroupPaused \<Rightarrow> Inl (Deployment ErrGroupPaused) | _ \<Rightarrow> Inr ())"

definition ValidateStartable :: "group \<Rightarrow> error + unit" where
  "ValidateStartable g = (case grp_State g of
     GroupClosed \<Rightarrow> Inl (Deployment ErrGroupClosed)
   | GroupOpen \<Rightarrow> Inl (Deployment ErrGroupOpen) | _ \<Rightarrow> Inr ())"

text \<open>Query filters; an enum value of zero is \<open>DeploymentStateInvalid\<close>.\<close>

record deployment_filters =
  df_Owner :: string
  df_DSeq :: "64 word"

definition DeploymentFilters_Accept ::
  "deployment_filters \<Rightarrow> deployment \<Rightarrow> deployment_state_enum \<Rightarrow> bool" where
  "DeploymentFilters_Accept f obj stateVal =
     (if df_Owner f \<noteq> [] \<and> df_Owner f \<noteq> did_Owner (dep_ID obj) then False
      else if df_DSeq f \<noteq> 0 \<and> df_DSeq f \<noteq> did_DSeq (dep_ID obj) then False
      else if stateVal \<noteq> DeploymentStateInvalid \<and> stateVal \<noteq> dep_State obj then False
      else True)"

subsection \<open>Validation of groups\<close>

record validation_config =
  MaxUnitCPU :: int
  MaxUnitMemory :: int
  MaxUnitStorage :: int
  MaxUnitCount :: int
  MaxUnitPrice :: int
  MinUnitCPU :: int
  MinUnitMemory :: int
  MinUnitStorage :: int
  MinUnitCount :: int
  MinUnitPrice :: int
  MaxGroupCount :: int
  MaxGroupUnits :: int
  MaxGroupCPU :: int
  MaxGroupMemory :: int
  MaxGroupStorage :: int

definition validationConfig :: validation_config where
  "validationConfig = \<lparr>
     MaxUnitCPU = 10 * 1000, MaxUnitMemory = 16 * 2 ^ 30, MaxUnitStorage = 2 ^ 40,
     MaxUnitCount = 50, MaxUnitPrice = 10000000,
     MinUnitCPU = 10, MinUnitMemory = 2 ^ 20, MinUnitStorage = 5 * 2 ^ 20,
     MinUnitCount = 1, MinUnitPrice = 1,
     MaxGroupCount = 20, MaxGroupUnits = 20,
     MaxGroupCPU = 20 * 1000, MaxGroupMemory = 32 * 2 ^ 30, MaxGroupStorage = 2 ^ 40\<rparr>"

record resource_limits =
  lim_cpu :: int
  lim_memory :: int
  lim_storage :: int

definition newLimits :: resource_limits where
  "newLimits = \<lparr>lim_cpu = 0, lim_memory = 0, lim_storage = 0\<rparr>"

definition resourceLimits_add :: "'b env \<Rightarrow> resource_limits \<Rightarrow> resource_limits \<Rightarrow> resource_limits option" where
  "resourceLimits_add E u rhs = do {
     c \<leftarrow> int_chk E (lim_cpu u + lim_cpu rhs);
     m \<leftarrow> int_chk E (lim_memory u + lim_memory rhs);
     s \<leftarrow> int_chk E (lim_storage u + lim_storage rhs);
     Some \<lparr>lim_cpu = c, lim_memory = m, lim_storage = s\<rparr> }"

definition resourceLimits_mul :: "'b env \<Rightarrow> resource_limits \<Rightarrow> 32 word \<Rightarrow> resource_limits option" where
  "resourceLimits_mul E u count = do {
     c \<leftarrow> int_chk E (lim_cpu u * uint count);
     m \<leftarrow> int_chk E (lim_memory u * uint count);
     s \<leftarrow> int_chk E (lim_storage u * uint count);
     Some \<lparr>lim_cpu = c, lim_memory = m, lim_storage = s\<rparr> }"

definition validateCPU :: "cpu option \<Rightarrow> (int, 's) act" where
  "validateCPU u = (case u of
     None \<Rightarrow> throw (Errorf ''error: invalid unit CPU, cannot be nil'')
   | Some u \<Rightarrow> bind (or_panic (ResourceValue_Value (cpu_Units u))) (\<lambda>v.
       if uint v > MaxUnitCPU validationConfig \<or> uint v < MinUnitCPU validationConfig
       then throw (Errorf ''error: invalid unit CPU'') else ret (Val (cpu_Units u))))"

definition validateMemory :: "memory option \<Rightarrow> (int, 's) act" where
  "validateMemory u = (case u of
     None \<Rightarrow> throw (Errorf ''error: invalid unit memory, cannot be nil'')
   | Some u \<Rightarrow> bind (or_panic (ResourceValue_Value (mem_Quantity u))) (\<lambda>v.
       if uint v > MaxUnitMemory validationConfig \<or> uint v < MinUnitMemory validationConfig
       then throw (Errorf ''error: invalid unit memory'') else ret (Val (mem_Quantity u))))"

definition validateStorage :: "storage option \<Rightarrow> (int, 's) act" where
  "validateStorage u = (case u of
     None \<Rightarrow> throw (Errorf ''error: invalid unit storage, cannot be nil'')
   | Some u \<Rightarrow> bind (or_panic (ResourceValue_Value (sto_Quantity u))) (\<lambda>v.
       if uint v > MaxUnitStorage validationConfig \<or> uint v < MinUnitStorage validationConfig
       then throw (Errorf ''error: invalid unit storage'') else ret (Val (sto_Quantity u))))"

definition validateResourceUnit :: "'b env \<Rightarrow> resource_units \<Rightarrow> (resource_limits, 's) act" where
  "validateResourceUnit E units =
     bind (validateCPU (CPU units)) (\<lambda>v.
     bind (or_panic (int_chk E (0 + v))) (\<lambda>c.
     bind (validateMemory (Memory units)) (\<lambda>v.
     bind (or_panic (int_chk E (0 + v))) (\<lambda>m.
     bind (validateStorage (Storage units)) (\<lambda>v.
     bind (or_panic (int_chk E (0 + v))) (\<lambda>s.
     ret \<lparr>lim_cpu = c, lim_memory = m, lim_storage = s\<rparr>))))))"

definition validateResourceGroup :: "'b env \<Rightarrow> resource \<Rightarrow> (resource_limits, 's) act" where
  "validateResourceGroup E rg =
     bind (validateResourceUnit E (res_Resources rg)) (\<lambda>limits.
     if uint (res_Count rg) > MaxUnitCount validationConfig \<or>
        uint (res_Count rg) < MinUnitCount validationConfig
     then throw (Errorf ''error: invalid unit count'') else ret limits)"

primrec sum_limits :: "'b env \<Rightarrow> resource_limits \<Rightarrow> resource list \<Rightarrow> (resource_limits, 's) act" where
  "sum_limits E limits [] = ret limits"
| "sum_limits E limits (r # rs) =
     bind (validateResourceGroup E r) (\<lambda>gLimits.
     bind (or_panic (resourceLimits_mul E gLimits (res_Count r))) (\<lambda>gLimits.
     bind (or_panic (resourceLimits_add E limits gLimits)) (\<lambda>limits.
     sum_limits E limits rs)))"

definition ValidateResourceList :: "'b env \<Rightarrow> group_spec \<Rightarrow> (unit, 's) act" where
  "ValidateResourceList E g =
     bind (check (gs_Name g \<noteq> []) (Deployment ErrGroupEmptyName)) (\<lambda>_.
     bind (check (\<not> int (length (gs_Resources g)) > MaxGroupUnits validationConfig)
       (Errorf ''group: too many units'')) (\<lambda>_.
     bind (sum_limits E newLimits (gs_Resources g)) (\<lambda>limits.
     bind (check (\<not> (lim_cpu limits > MaxGroupCPU validationConfig \<or> lim_cpu limits \<le> 0))
       (Errorf ''group: invalid total CPU'')) (\<lambda>_.
     bind (check (\<not> (lim_memory limits > MaxGroupMemory validationConfig \<or> lim_memory limits \<le> 0))
       (Errorf ''group: invalid total memory'')) (\<lambda>_.
     check (\<not> (lim_storage limits > MaxGroupStorage validationConfig \<or> lim_storage limits \<le> 0))
       (Errorf ''group: invalid total storage''))))))"

definition VirtEngineDenom :: string where
  "VirtEngineDenom = ''uve''"

definition validateUnitPricing :: "'b env \<Rightarrow> resource \<Rightarrow> (unit, 's) act" where
  "validateUnitPricing E rg =
     bind (check (coin_IsValid E (res_Price rg)) (Errorf ''error: invalid price object'')) (\<lambda>_.
     bind (check (\<not> Amount (res_Price rg) > MaxUnitPrice validationConfig)
       (Errorf ''error: invalid unit price'')) (\<lambda>_.
     check (\<not> Amount (res_Price rg) < MinUnitPrice validationConfig)
       (Errorf ''error: invalid unit price'')))"

text \<open>The loop of \<^verbatim>\<open>validateGroupPricing\<close>: \<open>price\<close> is \<open>None\<close> before the first
  resource.  The memory total it keeps stays zero (the result of \<^verbatim>\<open>memCount.Add\<close> is dropped),
  but reading the quantity can panic.\<close>

primrec group_pricing_loop :: "'b env \<Rightarrow> coin option \<Rightarrow> resource list \<Rightarrow> (unit, 's) act" where
  "group_pricing_loop E price [] = ret ()"
| "group_pricing_loop E price (r # rs) =
     bind (validateUnitPricing E r) (\<lambda>_.
     bind (or_panic (Resource_FullPrice E r)) (\<lambda>full.
     bind (check (Denom full = VirtEngineDenom) (Deployment ErrInvalidDeployment)) (\<lambda>_.
     bind (case price of
         None \<Rightarrow> ret full
       | Some p \<Rightarrow> bind (check (Denom full = Denom p) (Errorf ''multi-denonimation group'')) (\<lambda>_.
           or_panic (coin_add E p full))) (\<lambda>price.
     bind (case Memory (res_Resources r) of
         None \<Rightarrow> ret () | Some u \<Rightarrow> bind (or_panic (ResourceValue_Value (mem_Quantity u))) (\<lambda>_. ret ())) (\<lambda>_.
     group_pricing_loop E (Some price) rs)))))"

definition validateGroupPricing :: "'b env \<Rightarrow> group_spec \<Rightarrow> (unit, 's) act" where
  "validateGroupPricing E g = group_pricing_loop E None (gs_Resources g)"

definition validateOrderBidDuration :: "group_spec \<Rightarrow> (unit, 's) act" where
  "validateOrderBidDuration g = ret ()"

definition validateDeploymentGroup :: "'b env \<Rightarrow> group_spec \<Rightarrow> (unit, 's) act" where
  "validateDeploymentGroup E g =
     bind (ValidateResourceList E g) (\<lambda>_.
     bind (validateGroupPricing E g) (\<lambda>_.
     validateOrderBidDuration g))"

primrec validate_groups_loop :: "'b env \<Rightarrow> string list \<Rightarrow> group_spec list \<Rightarrow> (unit, 's) act" where
  "validate_groups_loop E names [] = ret ()"
| "validate_groups_loop E names (g # gs) =
     bind (validateDeploymentGroup E g) (\<lambda>_.
     bind (check (gs_Name g \<notin> set names) (Errorf ''duplicate deployment group name'')) (\<lambda>_.
     validate_groups_loop E (gs_Name g # names) gs))"

definition ValidateDeploymentGroups :: "'b env \<Rightarrow> group_spec list \<Rightarrow> (unit, 's) act" where
  "ValidateDeploymentGroups E gspecs =
     (if gspecs = [] then throw (Deployment ErrInvalidGroups) else validate_groups_loop E [] gspecs)"

subsection \<open>Keeper\<close>

definition GetDeployment :: "deployment_id \<Rightarrow> (deployment option, ('b, 'x) dst) act" where
  "GetDeployment i = gets (\<lambda>s. kv_get (deployments s) (deploymentKey i))"

definition GetGroup :: "group_id \<Rightarrow> (group option, ('b, 'x) dst) act" where
  "GetGroup i = gets (\<lambda>s. kv_get (groups s) (groupKey i))"

definition GetGroups :: "deployment_id \<Rightarrow> (group list, ('b, 'x) dst) act" where
  "GetGroups i = gets (\<lambda>s. kv_iter (groupsKey i) (groups s))"

definition setDeployment :: "deployment \<Rightarrow> (unit, ('b, 'x) dst) act" where
  "setDeployment d = modify (\<lambda>s. s\<lparr>deployments := kv_set (deploymentKey (dep_ID d)) d (deployments s)\<rparr>)"

definition setGroup :: "group \<Rightarrow> (unit, ('b, 'x) dst) act" where
  "setGroup g = modify (\<lambda>s. s\<lparr>groups := kv_set (groupKey (grp_ID g)) g (groups s)\<rparr>)"

definition Deployment_Create :: "deployment \<Rightarrow> group list \<Rightarrow> (unit, ('b, 'x) dst) act" where
  "Deployment_Create d gs =
     bind (gets (\<lambda>s. kv_has (deployments s) (deploymentKey (dep_ID d)))) (\<lambda>has.
     bind (check (\<not> has) (Deployment ErrDeploymentExists)) (\<lambda>_.
     bind (setDeployment d) (\<lambda>_.
     bind (each (\<lambda>g.
       bind (check (DeploymentID_Equals (GroupID_DeploymentID (grp_ID g)) (dep_ID d))
         (Deployment ErrInvalidGroupID)) (\<lambda>_.
       setGroup g)) gs) (\<lambda>_.
     emit (EventDeploymentCreated (dep_ID d) (dep_Version d))))))"

definition Deployment_Update :: "deployment \<Rightarrow> (unit, ('b, 'x) dst) act" where
  "Deployment_Update d =
     bind (gets (\<lambda>s. kv_has (deployments s) (deploymentKey (dep_ID d)))) (\<lambda>has.
     bind (check has (Deployment ErrDeploymentNotFound)) (\<lambda>_.
     bind (emit (EventDeploymentUpdated (dep_ID d) (dep_Version d))) (\<lambda>_.
     setDeployment d)))"

definition CloseDeployment :: "deployment \<Rightarrow> (unit, ('b, 'x) dst) act" where
  "CloseDeployment d =
     (if dep_State d = DeploymentClosed then ret () else
      bind (gets (\<lambda>s. kv_has (deployments s) (deploymentKey (dep_ID d)))) (\<lambda>has.
      if \<not> has then ret () else
      let d = d\<lparr>dep_State := DeploymentClosed\<rparr> in
      bind (emit (EventDeploymentClosed (dep_ID d))) (\<lambda>_.
      setDeployment d)))"

definition OnCloseGroup :: "group \<Rightarrow> group_state \<Rightarrow> (unit, ('b, 'x) dst) act" where
  "OnCloseGroup g st =
     bind (gets (\<lambda>s. kv_has (groups s) (groupKey (grp_ID g)))) (\<lambda>has.
     bind (check has (Deployment deployment_error.ErrGroupNotFound)) (\<lambda>_.
     let g = g\<lparr>grp_State := st\<rparr> in
     bind (emit (EventGroupClosed (grp_ID g))) (\<lambda>_.
     setGroup g)))"

definition OnPauseGroup :: "group \<Rightarrow> (unit, ('b, 'x) dst) act" where
  "OnPauseGroup g =
     bind (gets (\<lambda>s. kv_has (groups s) (groupKey (grp_ID g)))) (\<lambda>has.
     bind (check has (Deployment deployment_error.ErrGroupNotFound)) (\<lambda>_.
     let g = g\<lparr>grp_State := GroupPaused\<rparr> in
     bind (emit (EventGroupPaused (grp_ID g))) (\<lambda>_.
     setGroup g)))"

definition OnStartGroup :: "group \<Rightarrow> (unit, ('b, 'x) dst) act" where
  "OnStartGroup g =
     bind (gets (\<lambda>s. kv_has (groups s) (groupKey (grp_ID g)))) (\<lambda>has.
     bind (check has (Deployment deployment_error.ErrGroupNotFound)) (\<lambda>_.
     let g = g\<lparr>grp_State := GroupOpen\<rparr> in
     bind (emit (EventGroupStarted (grp_ID g))) (\<lambda>_.
     setGroup g)))"

definition WithDeployments :: "('b, 'x) dst \<Rightarrow> deployment list" where
  "WithDeployments s = kv_iter [CHR 0x01] (deployments s)"

definition Deployment_OnBidClosed :: "group_id \<Rightarrow> (unit, ('b, 'x) dst) act" where
  "Deployment_OnBidClosed i =
     bind (GetGroup i) (\<lambda>g.
     bind (found_or (Deployment deployment_error.ErrGroupNotFound) g) OnPauseGroup)"

definition Deployment_OnLeaseClosed :: "group_id \<Rightarrow> (group, ('b, 'x) dst) act" where
  "Deployment_OnLeaseClosed i =
     bind (GetGroup i) (\<lambda>g.
     found_or (Deployment deployment_error.ErrGroupNotFound) g)"

definition Deployment_GetParams :: "(deployment_params, ('b, 'x) dst) act" where
  "Deployment_GetParams = gets deploymentParams"

definition Deployment_SetParams :: "deployment_params \<Rightarrow> (unit, ('b, 'x) dst) act" where
  "Deployment_SetParams p = modify (\<lambda>s. s\<lparr>deploymentParams := p\<rparr>)"

definition Deployment_DefaultParams :: deployment_params where
  "Deployment_DefaultParams = \<lparr>DeploymentMinDeposit = \<lparr>Denom = ''uve'', Amount = 5000000\<rparr>\<rparr>"

subsection \<open>Genesis\<close>

record genesis_deployment =
  gd_Deployment :: deployment
  gd_Groups :: "group list"

record deployment_genesis =
  dg_Deployments :: "genesis_deployment list"
  dg_Params :: deployment_params

primrec Deployment_ValidateGenesis_loop :: "'b env \<Rightarrow> genesis_deployment list \<Rightarrow> error + unit" where
  "Deployment_ValidateGenesis_loop E [] = Inr ()"
| "Deployment_ValidateGenesis_loop E (r # rs) =
     (case DeploymentID_Validate E (dep_ID (gd_Deployment r)) of
        Inl e \<Rightarrow> Inl e | Inr _ \<Rightarrow> Deployment_ValidateGenesis_loop E rs)"

text \<open>The validation of the parameters accepts every value of their type.\<close>

definition Deployment_ValidateGenesis :: "'b env \<Rightarrow> deployment_genesis \<Rightarrow> error + unit" where
  "Deployment_ValidateGenesis E data = Deployment_ValidateGenesis_loop E (dg_Deployments data)"

text \<open>An error of \<^verbatim>\<open>Create\<close> makes \<^verbatim>\<open>InitGenesis\<close> return early, without an error and
  without the parameters.\<close>

definition Deployment_InitGenesis :: "deployment_genesis \<Rightarrow> (unit, ('b, 'x) dst) act" where
  "Deployment_InitGenesis data =
     bind (attempt (each (\<lambda>r. Deployment_Create (gd_Deployment r) (gd_Groups r)) (dg_Deployments data)))
       (\<lambda>r. case r of Inl _ \<Rightarrow> ret () | Inr _ \<Rightarrow> Deployment_SetParams (dg_Params data))"

definition Deployment_ExportGenesis :: "('b, 'x) dst \<Rightarrow> deployment_genesis" where
  "Deployment_ExportGenesis s = \<lparr>
     dg_Deployments = map (\<lambda>d. \<lparr>gd_Deployment = d, gd_Groups = kv_iter (groupsKey (dep_ID d)) (groups s)\<rparr>)
       (WithDeployments s),
     dg_Params = deploymentParams s\<rparr>"

end
