(* ===== verification/Deployment_Properties.thy ===== *)
theory Deployment_Properties
  imports Deployment Example
begin

text \<open>
  The pure parts of the deployment module against reference definitions: attributes are compared as
  sets, units add and subtract, a group's price is the sum of its parts, requirements match as
  specified, and groups are accepted exactly when they are within the published limits.
\<close>

subsection \<open>Validation\<close>

text \<open>Reference definitions: the limits of \<^verbatim>\<open>validationConfig\<close> as inequalities.\<close>

definition units_within :: "resource_units \<Rightarrow> bool" where
  "units_within u \<longleftrightarrow> (case (CPU u, Memory u, Storage u) of
     (Some c, Some m, Some st) \<Rightarrow>
       10 \<le> Val (cpu_Units c) \<and> Val (cpu_Units c) \<le> 10000 \<and>
       2 ^ 20 \<le> Val (mem_Quantity m) \<and> Val (mem_Quantity m) \<le> 16 * 2 ^ 30 \<and>
       5 * 2 ^ 20 \<le> Val (sto_Quantity st) \<and> Val (sto_Quantity st) \<le> 2 ^ 40
   | _ \<Rightarrow> False)"

definition resource_within :: "resource \<Rightarrow> bool" where
  "resource_within r \<longleftrightarrow> units_within (res_Resources r) \<and> 1 \<le> uint (res_Count r) \<and> uint (res_Count r) \<le> 50"

definition price_within :: "'b env \<Rightarrow> resource \<Rightarrow> bool" where
  "price_within E r \<longleftrightarrow> coin_IsValid E (res_Price r) \<and> Denom (res_Price r) = ''uve'' \<and>
     1 \<le> Amount (res_Price r) \<and> Amount (res_Price r) \<le> 10000000"

definition cpu_of :: "resource \<Rightarrow> int" where
  "cpu_of r = (case CPU (res_Resources r) of None \<Rightarrow> 0 | Some u \<Rightarrow> Val (cpu_Units u)) * uint (res_Count r)"

definition memory_of :: "resource \<Rightarrow> int" where
  "memory_of r = (case Memory (res_Resources r) of None \<Rightarrow> 0 | Some u \<Rightarrow> Val (mem_Quantity u)) * uint (res_Count r)"

definition storage_of :: "resource \<Rightarrow> int" where
  "storage_of r = (case Storage (res_Resources r) of None \<Rightarrow> 0 | Some u \<Rightarrow> Val (sto_Quantity u)) * uint (res_Count r)"

definition list_within :: "group_spec \<Rightarrow> bool" where
  "list_within g \<longleftrightarrow> gs_Name g \<noteq> [] \<and> gs_Resources g \<noteq> [] \<and> length (gs_Resources g) \<le> 20 \<and>
     list_all resource_within (gs_Resources g) \<and>
     (\<Sum>r\<leftarrow>gs_Resources g. cpu_of r) \<le> 20000 \<and> (\<Sum>r\<leftarrow>gs_Resources g. memory_of r) \<le> 32 * 2 ^ 30 \<and>
     (\<Sum>r\<leftarrow>gs_Resources g. storage_of r) \<le> 2 ^ 40"

definition group_within :: "'b env \<Rightarrow> group_spec \<Rightarrow> bool" where
  "group_within E g \<longleftrightarrow> list_within g \<and> list_all (price_within E) (gs_Resources g)"

lemma act_Ok:
  "ret a s = Ok b t \<longleftrightarrow> a = b \<and> t = s" "check c e s = Ok () t \<longleftrightarrow> c \<and> t = s"
  "or_panic x s = Ok b t \<longleftrightarrow> x = Some b \<and> t = s" "throw e s \<noteq> Ok b t"
  by (auto simp: act_defs split: option.splits)

lemma ResourceValue_Value_Some:
  "ResourceValue_Value m = Some v \<longleftrightarrow> 0 \<le> Val m \<and> Val m < 2 ^ 64 \<and> v = word_of_int (Val m)"
  by (auto simp: ResourceValue_Value_def)

lemma uint_Value: "0 \<le> n \<Longrightarrow> n < 2 ^ 64 \<Longrightarrow> uint (word_of_int n :: 64 word) = n"
  by (simp add: uint_word_of_int)

lemma validate_units:
  "validateCPU c s = Ok v t \<longleftrightarrow> t = s \<and> (\<exists>u. c = Some u \<and> v = Val (cpu_Units u) \<and> 10 \<le> v \<and> v \<le> 10000)"
  "validateMemory m s = Ok v t \<longleftrightarrow> t = s \<and> (\<exists>u. m = Some u \<and> v = Val (mem_Quantity u) \<and> 2 ^ 20 \<le> v \<and> v \<le> 16 * 2 ^ 30)"
  "validateStorage st s = Ok v t \<longleftrightarrow> t = s \<and> (\<exists>u. st = Some u \<and> v = Val (sto_Quantity u) \<and> 5 * 2 ^ 20 \<le> v \<and> v \<le> 2 ^ 40)"
  by (auto simp: validateCPU_def validateMemory_def validateStorage_def validationConfig_def bind_Ok_iff act_Ok
    ResourceValue_Value_Some uint_Value split: option.splits if_splits)

lemma validateResourceGroup_Ok:
  assumes "2 ^ 64 \<le> IntMax E"
  shows "validateResourceGroup E r s = Ok l t \<longleftrightarrow> t = s \<and> resource_within r \<and>
    l = \<lparr>lim_cpu = Val (cpu_Units (the (CPU (res_Resources r)))),
         lim_memory = Val (mem_Quantity (the (Memory (res_Resources r)))),
         lim_storage = Val (sto_Quantity (the (Storage (res_Resources r))))\<rparr>"
  using assms unfolding validateResourceGroup_def validateResourceUnit_def resource_within_def units_within_def
  by (auto simp: bind_Ok_iff act_Ok validate_units validationConfig_def int_chk_Some split: if_splits option.splits)

lemma of_nonneg: "resource_within r \<Longrightarrow> 0 < cpu_of r \<and> 0 < memory_of r \<and> 0 < storage_of r \<and>
    cpu_of r \<le> 2 ^ 46 \<and> memory_of r \<le> 2 ^ 46 \<and> storage_of r \<le> 2 ^ 46"
proof -
  assume r: "resource_within r"
  have b: "x * uint (res_Count r) \<le> 2 ^ 46" "0 < x * uint (res_Count r)" if "0 < x" "x \<le> 2 ^ 40" for x
  proof -
    have "x * uint (res_Count r) \<le> 2 ^ 40 * 50" using r that by (intro mult_mono) (auto simp: resource_within_def)
    then show "x * uint (res_Count r) \<le> 2 ^ 46" by simp
    show "0 < x * uint (res_Count r)" using r that by (auto simp: resource_within_def intro: mult_pos_pos)
  qed
  from r obtain c m st where "CPU (res_Resources r) = Some c" "Memory (res_Resources r) = Some m" "Storage (res_Resources r) = Some st"
    "10 \<le> Val (cpu_Units c)" "Val (cpu_Units c) \<le> 10000" "2 ^ 20 \<le> Val (mem_Quantity m)" "Val (mem_Quantity m) \<le> 16 * 2 ^ 30"
    "5 * 2 ^ 20 \<le> Val (sto_Quantity st)" "Val (sto_Quantity st) \<le> 2 ^ 40"
    by (auto simp: resource_within_def units_within_def split: option.splits)
  then show ?thesis using b by (simp add: cpu_of_def memory_of_def storage_of_def)
qed

lemma sum_limits_Ok:
  assumes "2 ^ 64 \<le> IntMax E" "0 \<le> lim_cpu l" "0 \<le> lim_memory l" "0 \<le> lim_storage l"
    "lim_cpu l + 2 ^ 46 * int (length rs) \<le> 2 ^ 64" "lim_memory l + 2 ^ 46 * int (length rs) \<le> 2 ^ 64"
    "lim_storage l + 2 ^ 46 * int (length rs) \<le> 2 ^ 64"
  shows "sum_limits E l rs s = Ok l' t \<longleftrightarrow> t = s \<and> list_all resource_within rs \<and>
    l' = \<lparr>lim_cpu = lim_cpu l + (\<Sum>r\<leftarrow>rs. cpu_of r), lim_memory = lim_memory l + (\<Sum>r\<leftarrow>rs. memory_of r),
          lim_storage = lim_storage l + (\<Sum>r\<leftarrow>rs. storage_of r)\<rparr>"
  using assms(2-)
proof (induction rs arbitrary: l)
  case Nil
  then show ?case by (auto simp: act_Ok)
next
  case (Cons r rs)
  have chk: "int_chk E n = Some n" if "0 \<le> n" "n \<le> 2 ^ 64" for n
    using assms(1) that by (simp add: int_chk_def)
  let ?l = "\<lparr>lim_cpu = lim_cpu l + cpu_of r, lim_memory = lim_memory l + memory_of r, lim_storage = lim_storage l + storage_of r\<rparr>"
  show ?case
  proof (cases "resource_within r")
    case True
    then obtain c m st where u: "CPU (res_Resources r) = Some c" "Memory (res_Resources r) = Some m" "Storage (res_Resources r) = Some st"
      by (auto simp: resource_within_def units_within_def split: option.splits)
    note b = of_nonneg [OF True]
    have "validateResourceGroup E r s = Ok \<lparr>lim_cpu = Val (cpu_Units c), lim_memory = Val (mem_Quantity m),
        lim_storage = Val (sto_Quantity st)\<rparr> s" using True u by (simp add: validateResourceGroup_Ok [OF assms(1)])
    then have "sum_limits E l (r # rs) s = sum_limits E ?l rs s"
      using Cons.prems b u
      by (simp add: bind_def [of "validateResourceGroup E r"] resourceLimits_mul_def resourceLimits_add_def chk
        cpu_of_def memory_of_def storage_of_def)
    then show ?thesis
      using Cons.IH [of ?l] Cons.prems b True by (simp add: algebra_simps)
  next
    case False
    then show ?thesis by (auto simp: bind_Ok_iff validateResourceGroup_Ok [OF assms(1)])
  qed
qed

lemma FullPrice_Some:
  assumes "2 ^ 64 \<le> IntMax E" "uint (res_Count r) \<le> 50" "price_within E r"
  shows "Resource_FullPrice E r = Some \<lparr>Denom = ''uve'', Amount = Amount (res_Price r) * uint (res_Count r)\<rparr>"
    "0 \<le> Amount (res_Price r) * uint (res_Count r)" "Amount (res_Price r) * uint (res_Count r) \<le> 2 ^ 30"
proof -
  have "Amount (res_Price r) * uint (res_Count r) \<le> 10000000 * 50"
    using assms by (intro mult_mono) (auto simp: price_within_def)
  then show n: "0 \<le> Amount (res_Price r) * uint (res_Count r)" "Amount (res_Price r) * uint (res_Count r) \<le> 2 ^ 30"
    using assms(3) by (simp_all add: price_within_def)
  show "Resource_FullPrice E r = Some \<lparr>Denom = ''uve'', Amount = Amount (res_Price r) * uint (res_Count r)\<rparr>"
    using assms n by (auto simp: Resource_FullPrice_def int_chk_def NewCoin_def price_within_def coin_IsValid_def)
qed

lemma validateUnitPricing_Ok:
  "validateUnitPricing E r s = Ok () t \<longleftrightarrow> t = s \<and> coin_IsValid E (res_Price r) \<and>
     1 \<le> Amount (res_Price r) \<and> Amount (res_Price r) \<le> 10000000"
  by (auto simp: validateUnitPricing_def bind_Ok_iff act_Ok validationConfig_def)

lemma pricing_denom:
  assumes "validateUnitPricing E r s = Ok () u" "Resource_FullPrice E r = Some c" "Denom c = ''uve''"
  shows "price_within E r"
  using assms unfolding validateUnitPricing_Ok price_within_def
  by (auto simp: Resource_FullPrice_def NewCoin_def bind_eq_Some_conv split: if_splits)

definition running_price :: "nat \<Rightarrow> coin option \<Rightarrow> bool" where
  "running_price n p \<longleftrightarrow> (case p of None \<Rightarrow> True
     | Some c \<Rightarrow> Denom c = ''uve'' \<and> 0 \<le> Amount c \<and> Amount c + 2 ^ 30 * int n \<le> 2 ^ 60)"

lemma group_pricing_Ok:
  assumes "2 ^ 64 \<le> IntMax E" "list_all resource_within rs" "running_price (length rs) p" "length rs \<le> 20"
  shows "group_pricing_loop E p rs s = Ok () t \<longleftrightarrow> t = s \<and> list_all (price_within E) rs"
  using assms(2-)
proof (induction rs arbitrary: p)
  case Nil
  then show ?case by (auto simp: act_Ok)
next
  case (Cons r rs)
  show ?case
  proof (cases "price_within E r")
    case True
    have r: "uint (res_Count r) \<le> 50" and mem: "\<exists>m v. Memory (res_Resources r) = Some m \<and> ResourceValue_Value (mem_Quantity m) = Some v"
      using Cons.prems(1)
      by (auto simp: resource_within_def units_within_def ResourceValue_Value_Some split: option.splits)
    note full = FullPrice_Some [OF assms(1) r True]
    let ?c = "\<lparr>Denom = ''uve'', Amount = Amount (res_Price r) * uint (res_Count r)\<rparr>"
    let ?p = "case p of None \<Rightarrow> ?c | Some c \<Rightarrow> c\<lparr>Amount := Amount c + Amount (res_Price r) * uint (res_Count r)\<rparr>"
    have "validateUnitPricing E r s = Ok () s" using True by (simp add: validateUnitPricing_Ok price_within_def)
    then have "group_pricing_loop E p (r # rs) s = group_pricing_loop E (Some ?p) rs s"
      using full Cons.prems(2) mem assms(1)
      by (auto simp: bind_def [of "validateUnitPricing E r"] VirtEngineDenom_def coin_add_def int_chk_def running_price_def
        split: option.splits)
    moreover have "running_price (length rs) (Some ?p)"
      using Cons.prems(2,3) full(2,3) by (auto simp: running_price_def algebra_simps split: option.splits)
    ultimately show ?thesis using Cons.IH [of "Some ?p"] Cons.prems(1,3) True by simp
  next
    case False
    then show ?thesis by (auto simp: bind_Ok_iff act_Ok VirtEngineDenom_def dest: pricing_denom)
  qed
qed

lemma ValidateResourceList_Ok:
  fixes s t :: 's
  assumes "2 ^ 64 \<le> IntMax E"
  shows "ValidateResourceList E g s = Ok () t \<longleftrightarrow> t = s \<and> list_within g"
proof -
  have pos: "0 < (\<Sum>r\<leftarrow>rs. f r)" if "list_all resource_within rs" "rs \<noteq> []" "\<And>r. resource_within r \<Longrightarrow> 0 < f r"
    for rs and f :: "resource \<Rightarrow> int"
    using that(2,1,3) by (induction rs rule: list_nonempty_induct) (auto intro: add_pos_pos)
  have lim: "sum_limits E newLimits (gs_Resources g) s = Ok l t \<longleftrightarrow> t = s \<and> list_all resource_within (gs_Resources g) \<and>
      l = \<lparr>lim_cpu = (\<Sum>r\<leftarrow>gs_Resources g. cpu_of r), lim_memory = (\<Sum>r\<leftarrow>gs_Resources g. memory_of r),
          lim_storage = (\<Sum>r\<leftarrow>gs_Resources g. storage_of r)\<rparr>" if "length (gs_Resources g) \<le> 20" for l and s t :: 's
    using sum_limits_Ok [OF assms, of newLimits "gs_Resources g"] that by (simp add: newLimits_def)
  show ?thesis
    unfolding list_within_def
    using lim pos [of "gs_Resources g" cpu_of] pos [of "gs_Resources g" memory_of] pos [of "gs_Resources g" storage_of] of_nonneg
    by (cases "gs_Resources g = []") (auto simp: ValidateResourceList_def bind_Ok_iff act_Ok validationConfig_def newLimits_def)
qed

lemma validateDeploymentGroup_Ok:
  fixes s t :: 's
  assumes "2 ^ 64 \<le> IntMax E"
  shows "validateDeploymentGroup E g s = Ok () t \<longleftrightarrow> t = s \<and> group_within E g"
proof -
  have price: "group_pricing_loop E None (gs_Resources g) s = Ok () t \<longleftrightarrow> t = s \<and> list_all (price_within E) (gs_Resources g)"
    if "list_within g" for s t :: 's
    by (rule group_pricing_Ok) (use assms that in \<open>simp_all add: running_price_def list_within_def\<close>)
  then show ?thesis
    unfolding validateDeploymentGroup_def group_within_def validateGroupPricing_def validateOrderBidDuration_def
    by (auto simp: bind_Ok_iff act_Ok ValidateResourceList_Ok [OF assms])
qed

lemma validate_groups_loop_Ok:
  assumes "2 ^ 64 \<le> IntMax E"
  shows "validate_groups_loop E names gs s = Ok () t \<longleftrightarrow> t = s \<and> list_all (group_within E) gs \<and>
    distinct (map gs_Name gs) \<and> set names \<inter> gs_Name ` set gs = {}"
  by (induction gs arbitrary: names) (auto simp: bind_Ok_iff act_Ok validateDeploymentGroup_Ok [OF assms])

text \<open>
  C14. The groups of a deployment are accepted exactly when each is within the limits of a group: there is at least one group,
  all names different and not empty, one to twenty kinds of units per group, every unit's CPU, memory, storage, count and price
  within its bounds and priced in \<^verbatim>\<open>uve\<close>, and the group's totals within theirs.  No amount on the way leaves the range of
  \<^verbatim>\<open>sdk.Int\<close>, and validation writes nothing.  The number of groups is not limited: the published maximum of twenty groups per
  deployment (\<^verbatim>\<open>MaxGroupCount\<close>) is not checked.
\<close>
theorem ValidateDeploymentGroups_iff:
  assumes "2 ^ 64 \<le> IntMax E"
  shows "ValidateDeploymentGroups E gs s = Ok () t \<longleftrightarrow>
    t = s \<and> gs \<noteq> [] \<and> distinct (map gs_Name gs) \<and> list_all (group_within E) gs"
  by (auto simp: ValidateDeploymentGroups_def act_Ok validate_groups_loop_Ok [OF assms])

text \<open>A group of one unit, for the examples.\<close>

definition demo_resource :: resource where
  "demo_resource = \<lparr>res_Resources = \<lparr>
       CPU = Some \<lparr>cpu_Units = NewResourceValue 100, cpu_Attributes = []\<rparr>,
       Memory = Some \<lparr>mem_Quantity = NewResourceValue (2 ^ 20), mem_Attributes = []\<rparr>,
       Storage = Some \<lparr>sto_Quantity = NewResourceValue (2 ^ 30), sto_Attributes = []\<rparr>, Endpoints = []\<rparr>,
     res_Count = 2, res_Price = \<lparr>Denom = ''uve'', Amount = 7\<rparr>\<rparr>"

definition demo_group :: "string list \<Rightarrow> string list \<Rightarrow> group_spec" where
  "demo_group all any = \<lparr>gs_Name = ''web'',
     gs_Requirements = \<lparr>SignedBy = \<lparr>AllOf = all, AnyOf = any\<rparr>, req_Attributes = [\<lparr>attr_Key = ''region'', attr_Value = ''eu''\<rparr>]\<rparr>,
     gs_Resources = [demo_resource, demo_resource]\<rparr>"

theorem ValidateDeploymentGroups_iff_witness:
  "ValidateDeploymentGroups demo_env [demo_group [] []] demo_state = Ok () demo_state \<and>
   ValidateDeploymentGroups demo_env [demo_group [] [], demo_group [] []] demo_state \<noteq> Ok () demo_state"
proof -
  have max: "2 ^ 64 \<le> IntMax demo_env" by (simp add: demo_env_def)
  have "list_all (group_within demo_env) [demo_group [] []]" by code_simp
  then show ?thesis by (simp add: ValidateDeploymentGroups_iff [OF max])
qed

text \<open>The published maximum of groups per deployment is \<^verbatim>\<open>MaxGroupCount\<close>, twenty; twenty-one are accepted.\<close>

lemma group_count_unlimited:
  "\<exists>gs. length gs = 21 \<and> ValidateDeploymentGroups demo_env gs demo_state = Ok () demo_state"
proof -
  let ?gs = "map (\<lambda>n. demo_group [] []\<lparr>gs_Name := replicate (Suc n) (CHR ''g'')\<rparr>) [0..<21]"
  have within: "group_within demo_env (demo_group [] [])" by code_simp
  have "group_within demo_env (demo_group [] []\<lparr>gs_Name := CHR ''g'' # n\<rparr>)" for n
    using within by (simp add: group_within_def list_within_def)
  then have "list_all (group_within demo_env) ?gs" by (simp add: list_all_iff)
  moreover have "distinct (map gs_Name ?gs)" by (simp add: distinct_map inj_on_def comp_def)
  moreover have "2 ^ 64 \<le> IntMax demo_env" by (simp add: demo_env_def)
  ultimately have "ValidateDeploymentGroups demo_env ?gs demo_state = Ok () demo_state"
    by (auto simp: ValidateDeploymentGroups_def act_Ok validate_groups_loop_Ok)
  then show ?thesis by (intro exI [of _ ?gs]) simp
qed

subsection \<open>Prices\<close>

text \<open>
  The price of an accepted group is the sum over its units of price times count, in \<^verbatim>\<open>uve\<close>; it
  is at most ten thousand million, and computing it does not panic.
\<close>
lemma GroupSpec_Price_sum:
  assumes "2 ^ 64 \<le> IntMax E" and "group_within E g"
  shows "GroupSpec_Price E g =
      Some (Some \<lparr>Denom = ''uve'', Amount = (\<Sum>r\<leftarrow>gs_Resources g. Amount (res_Price r) * uint (res_Count r))\<rparr>) \<and>
    0 < (\<Sum>r\<leftarrow>gs_Resources g. Amount (res_Price r) * uint (res_Count r)) \<and>
    (\<Sum>r\<leftarrow>gs_Resources g. Amount (res_Price r) * uint (res_Count r)) \<le> 10 ^ 10"
proof -
  have each: "Resource_FullPrice E r = Some \<lparr>Denom = ''uve'', Amount = Amount (res_Price r) * uint (res_Count r)\<rparr>"
    "0 < Amount (res_Price r) * uint (res_Count r)" "Amount (res_Price r) * uint (res_Count r) \<le> 500000000"
    if "r \<in> set (gs_Resources g)" for r
  proof -
    from assms(2) that have r: "resource_within r" "price_within E r" by (auto simp: group_within_def list_within_def list_all_iff)
    show "Resource_FullPrice E r = Some \<lparr>Denom = ''uve'', Amount = Amount (res_Price r) * uint (res_Count r)\<rparr>"
      using FullPrice_Some [OF assms(1) _ r(2)] r(1) by (simp add: resource_within_def)
    show "0 < Amount (res_Price r) * uint (res_Count r)"
      using r by (intro mult_pos_pos) (auto simp: resource_within_def price_within_def)
    have "Amount (res_Price r) * uint (res_Count r) \<le> 10000000 * 50"
      using r by (intro mult_mono) (auto simp: resource_within_def price_within_def)
    then show "Amount (res_Price r) * uint (res_Count r) \<le> 500000000" by simp
  qed
  have sum: "0 \<le> (\<Sum>r\<leftarrow>rs. Amount (res_Price r) * uint (res_Count r))"
    "(\<Sum>r\<leftarrow>rs. Amount (res_Price r) * uint (res_Count r)) \<le> 500000000 * int (length rs)"
    if "set rs \<subseteq> set (gs_Resources g)" for rs
    using that by (induction rs) (auto simp: algebra_simps dest: each(2,3))
  have rest: "GroupSpec_Price_rest E c rs = Some \<lparr>Denom = ''uve'', Amount = Amount c + (\<Sum>r\<leftarrow>rs. Amount (res_Price r) * uint (res_Count r))\<rparr>"
    if "set rs \<subseteq> set (gs_Resources g)" "Denom c = ''uve''" "0 \<le> Amount c" "Amount c + 500000000 * int (length rs) \<le> 2 ^ 64" for rs c
    using that
  proof (induction rs arbitrary: c)
    case Nil
    then show ?case by simp
  next
    case (Cons r rs)
    then have r: "r \<in> set (gs_Resources g)" by simp
    show ?case
      using Cons.prems Cons.IH [of "c\<lparr>Amount := Amount c + Amount (res_Price r) * uint (res_Count r)\<rparr>"] each [OF r] assms(1)
      by (simp add: coin_add_def int_chk_def algebra_simps)
  qed
  obtain r rs where g: "gs_Resources g = r # rs" "length rs \<le> 19"
    using assms(2) by (cases "gs_Resources g") (auto simp: group_within_def list_within_def)
  have r: "r \<in> set (gs_Resources g)" "set rs \<subseteq> set (gs_Resources g)" using g by auto
  have "GroupSpec_Price E g = Some (Some \<lparr>Denom = ''uve'', Amount = (\<Sum>r\<leftarrow>gs_Resources g. Amount (res_Price r) * uint (res_Count r))\<rparr>)"
    using rest [OF r(2), of "\<lparr>Denom = ''uve'', Amount = Amount (res_Price r) * uint (res_Count r)\<rparr>"] each [OF r(1)] g
    by (simp add: GroupSpec_Price_def)
  then show ?thesis using sum [OF r(2)] each(2,3) [OF r(1)] g by simp
qed

subsection \<open>Requirements\<close>

text \<open>A provider's attributes as signed by the auditor \<open>v\<close>, when no auditor occurs twice.\<close>

lemma existing_requirements_Some:
  assumes "distinct (map ap_Auditor ps)"
  shows "existing_requirements ps v = Some attrs \<longleftrightarrow> (\<exists>p\<in>set ps. ap_Auditor p = v \<and> ap_Attributes p = attrs)"
proof -
  have "distinct (map fst (rev (map (\<lambda>p. (ap_Auditor p, ap_Attributes p)) ps)))"
    using assms by (simp add: rev_map comp_def distinct_rev flip: rev_map)
  then show ?thesis unfolding existing_requirements_def by (subst map_of_eq_Some_iff) auto
qed

lemma signed_match_iff:
  "distinct (map ap_Auditor ps) \<Longrightarrow> signed_match g ps v \<longleftrightarrow>
     (\<exists>p\<in>set ps. ap_Auditor p = v \<and> set (req_Attributes (gs_Requirements g)) \<subseteq> set (ap_Attributes p))"
proof -
  assume "distinct (map ap_Auditor ps)"
  note found = existing_requirements_Some [OF this, of v]
  have "signed_match g ps v \<longleftrightarrow>
      (\<exists>attrs. existing_requirements ps v = Some attrs \<and> set (req_Attributes (gs_Requirements g)) \<subseteq> set attrs)"
    by (auto simp: signed_match_def AttributesSubsetOf_iff split: option.splits)
  then show ?thesis unfolding found by blast
qed

text \<open>
  C35. A provider meets a group's requirements exactly when the attributes that count contain all the required ones.  Its list starts with what it declares
  itself and goes on with what auditors signed, one entry per auditor.  Without auditors in the requirements, the declared
  attributes must contain the required ones; with them, every auditor of \<^verbatim>\<open>AllOf\<close> and, if there are any, one of
  \<^verbatim>\<open>AnyOf\<close>, must have signed attributes that contain the required ones (what the provider declares does not count).  Containing means
  that each required pair of key and value is there; the third example in the comment of \<^verbatim>\<open>AttributesSubsetOf\<close>, which calls two
  regions a subset of one of them, is not what the code does.
\<close>
theorem MatchRequirements_spec:
  fixes g :: group_spec
  assumes "distinct (map ap_Auditor audited)"
  defines "needs \<equiv> \<lambda>attrs. set (req_Attributes (gs_Requirements g)) \<subseteq> set attrs"
    and "sb \<equiv> SignedBy (gs_Requirements g)"
  shows "GroupSpec_MatchRequirements g (declared # audited) =
    Some (if AllOf sb = [] \<and> AnyOf sb = [] then needs (ap_Attributes declared)
      else (\<forall>v\<in>set (AllOf sb). \<exists>p\<in>set audited. ap_Auditor p = v \<and> needs (ap_Attributes p)) \<and>
        (AnyOf sb \<noteq> [] \<longrightarrow> (\<exists>p\<in>set audited. ap_Auditor p \<in> set (AnyOf sb) \<and> needs (ap_Attributes p))))"
proof -
  have none: "\<not> signed_match g [] v" for v by (simp add: signed_match_def existing_requirements_def)
  have "GroupSpec_MatchRequirements g (declared # audited) =
    Some (if AllOf sb = [] \<and> AnyOf sb = [] then needs (ap_Attributes declared)
      else (\<forall>v\<in>set (AllOf sb). signed_match g audited v) \<and> (AnyOf sb \<noteq> [] \<longrightarrow> (\<exists>v\<in>set (AnyOf sb). signed_match g audited v)))"
  proof (cases audited)
    case Nil
    then show ?thesis
      by (cases "AllOf sb"; cases "AnyOf sb")
        (auto simp: GroupSpec_MatchRequirements_def Let_def AttributesSubsetOf_iff needs_def sb_def none)
  next
    case (Cons p ps)
    then show ?thesis
      by (simp add: GroupSpec_MatchRequirements_def Let_def list_ex_iff AttributesSubsetOf_iff needs_def sb_def)
  qed
  moreover have "(\<exists>v\<in>set (AnyOf sb). signed_match g audited v) \<longleftrightarrow>
      (\<exists>p\<in>set audited. ap_Auditor p \<in> set (AnyOf sb) \<and> needs (ap_Attributes p))"
    unfolding signed_match_iff [OF assms(1)] needs_def by blast
  ultimately show ?thesis unfolding signed_match_iff [OF assms(1)] needs_def by presburger
qed

theorem MatchRequirements_spec_witness:
  "GroupSpec_MatchRequirements (demo_group [''audi1''] [])
     [\<lparr>ap_Owner = ''prova'', ap_Auditor = [], ap_Attributes = []\<rparr>,
      \<lparr>ap_Owner = ''prova'', ap_Auditor = ''audi1'', ap_Attributes = [\<lparr>attr_Key = ''region'', attr_Value = ''eu''\<rparr>]\<rparr>] = Some True \<and>
   GroupSpec_MatchRequirements (demo_group [''audi1'', ''audi2''] [])
     [\<lparr>ap_Owner = ''prova'', ap_Auditor = [], ap_Attributes = []\<rparr>,
      \<lparr>ap_Owner = ''prova'', ap_Auditor = ''audi1'', ap_Attributes = [\<lparr>attr_Key = ''region'', attr_Value = ''eu''\<rparr>]\<rparr>] = Some False"
  by (simp add: MatchRequirements_spec demo_group_def)

subsection \<open>Units\<close>

definition nonneg_units :: "resource_units \<Rightarrow> bool" where
  "nonneg_units u \<longleftrightarrow> (case (CPU u, Memory u, Storage u) of
     (Some c, Some m, Some st) \<Rightarrow> 0 \<le> Val (cpu_Units c) \<and> 0 \<le> Val (mem_Quantity m) \<and> 0 \<le> Val (sto_Quantity st)
   | _ \<Rightarrow> False)"

definition sum_fits :: "'b env \<Rightarrow> resource_units \<Rightarrow> resource_units \<Rightarrow> bool" where
  "sum_fits E u v \<longleftrightarrow> (case (CPU u, Memory u, Storage u, CPU v, Memory v, Storage v) of
     (Some c, Some m, Some st, Some c', Some m', Some st') \<Rightarrow>
       Val (cpu_Units c) + Val (cpu_Units c') \<le> IntMax E \<and> Val (mem_Quantity m) + Val (mem_Quantity m') \<le> IntMax E \<and>
       Val (sto_Quantity st) + Val (sto_Quantity st') \<le> IntMax E
   | _ \<Rightarrow> False)"

text \<open>
  Subtracting what was added gives back what was there: for units that are all present, not negative and
  whose sums fit, \<^verbatim>\<open>Add\<close> succeeds and \<^verbatim>\<open>Sub\<close> of the same units from the sum returns the first operand, attributes
  and endpoints included.  \<^verbatim>\<open>Add\<close> also leaves the sum in its receiver (the first component of the model's result), since the
  struct it copies shares its units.
\<close>
lemma ResourceUnits_add_sub:
  assumes "nonneg_units u" and "nonneg_units v" and "sum_fits E u v"
  shows "\<exists>w. ResourceUnits_Add E u v = Some (w, Inr w) \<and> ResourceUnits_Sub E w v = Some (Inr u)"
proof -
  obtain c m st c' m' st' where u: "CPU u = Some c" "Memory u = Some m" "Storage u = Some st"
      and v: "CPU v = Some c'" "Memory v = Some m'" "Storage v = Some st'"
    using assms(1,2) by (auto simp: nonneg_units_def split: option.splits)
  let ?w = "u\<lparr>CPU := Some (c\<lparr>cpu_Units := \<lparr>Val = Val (cpu_Units c) + Val (cpu_Units c')\<rparr>\<rparr>),
    Memory := Some (m\<lparr>mem_Quantity := \<lparr>Val = Val (mem_Quantity m) + Val (mem_Quantity m')\<rparr>\<rparr>),
    Storage := Some (st\<lparr>sto_Quantity := \<lparr>Val = Val (sto_Quantity st) + Val (sto_Quantity st')\<rparr>\<rparr>)\<rparr>"
  have "ResourceUnits_Add E u v = Some (?w, Inr ?w)"
    using assms by (simp add: u v nonneg_units_def sum_fits_def ResourceUnits_Add_def CPU_add_def Memory_add_def Storage_add_def
      ResourceValue_add_def int_chk_def)
  moreover have "ResourceUnits_Sub E ?w v = Some (Inr u)"
    using assms by (simp add: u v nonneg_units_def sum_fits_def ResourceUnits_Sub_def CPU_sub_def Memory_sub_def Storage_sub_def
      ResourceValue_sub_def int_chk_def)
  ultimately show ?thesis by blast
qed

text \<open>
  Units are subtracted with panics and errors where a unit is missing: a unit that only the right-hand
  side has is an error, and one that neither side has is dereferenced, whatever the other units are.
\<close>
lemma ResourceUnits_Sub_missing:
  "(CPU u = None \<and> CPU v \<noteq> None \<longrightarrow> (\<exists>e. ResourceUnits_Sub E u v = Some (Inl e))) \<and>
   (CPU u = None \<and> Memory u \<noteq> None \<and> Storage u \<noteq> None \<and> CPU v = None \<longrightarrow> ResourceUnits_Sub E u v = None)"
  by (auto simp: ResourceUnits_Sub_def)

end
