(* ===== verification/Frame.thy ===== *)
theory Frame
  imports Escrow_Solvency
begin

text \<open>
  What the escrow keeper leaves alone: a property of the chain's state that does not read the
  escrow stores, the bank or the events is kept by every escrow operation, provided the hooks
  keep it.  The market's and the deployments' own invariants are such properties.
\<close>

definition frame_ok :: "(('b, 'x) est \<Rightarrow> bool) \<Rightarrow> bool" where
  "frame_ok P \<longleftrightarrow> (\<forall>s b e a p. P (s\<lparr>bank := b, events := e, accounts := a, payments := p\<rparr>) = P s)"

lemma frame_okD:
  assumes "frame_ok P"
  shows "P (s\<lparr>bank := b\<rparr>) = P s" "P (s\<lparr>events := e\<rparr>) = P s" "P (s\<lparr>accounts := a\<rparr>) = P s"
    "P (s\<lparr>payments := p\<rparr>) = P s"
  using assms unfolding frame_ok_def by (metis (no_types) escrow_state.surjective escrow_state.update_convs)+

locale outside = hooks_keep H I for H :: "('b, 'x) hooks" and I :: "('b, 'x) est \<Rightarrow> bool" +
  assumes frame: "frame_ok I"
begin

lemmas I_frame = frame_okD [OF frame]

lemma writes:
  "keeps I (emit ev)" "keeps I (saveAccount a)" "keeps I (savePayment p)"
  "keeps I (modify (\<lambda>s. s\<lparr>accounts := f s\<rparr>))" "keeps I (modify (\<lambda>s. s\<lparr>payments := g s\<rparr>))"
  unfolding emit_def saveAccount_def savePayment_def by (auto intro!: keeps_modify simp: I_frame)

lemma transfers:
  "keeps I (SendCoinsFromAccountToModule E a m cs)" "keeps I (SendCoinsFromModuleToAccount E m a cs)"
  unfolding SendCoinsFromAccountToModule_def SendCoinsFromModuleToAccount_def
  by (auto intro!: keepsI simp: I_frame split: prod.splits bool.splits if_splits)

lemma reads:
  "keeps I (GetAccount i)" "keeps I (GetPayment i pid)" "keeps I (AccAddressFromBech32 E str)"
  "keeps I (accountOpenPayments i)"
  unfolding GetAccount_def GetPayment_def AccAddressFromBech32_def accountOpenPayments_def accountPayments_def
  by (auto intro!: keeps_rules)

lemma withdraws: "keeps I (accountWithdraw E a)" "keeps I (paymentWithdraw E p)"
  unfolding accountWithdraw_def paymentWithdraw_def Let_def
  by (auto intro!: keeps_rules writes transfers reads)

lemma doAccountSettle_frame: "keeps I (doAccountSettle E H i)"
  unfolding doAccountSettle_eq settle_finish_def settle_save_def Let_def
  by (auto intro!: keeps_rules writes reads withdraws run_hooks)

lemma escrow_frame:
  "keeps I (AccountCreate E i owner deposit)" "keeps I (AccountDeposit E i amount)" "keeps I (AccountSettle E H i)"
  "keeps I (AccountClose E H i)" "keeps I (PaymentCreate E H i pid powner rate)"
  "keeps I (PaymentWithdraw E H i pid)" "keeps I (PaymentClose E H i pid)"
  unfolding AccountCreate_def AccountDeposit_def AccountSettle_def AccountClose_def PaymentCreate_def
    PaymentWithdraw_def PaymentClose_def Let_def
  by (auto intro!: keeps_rules writes reads withdraws transfers doAccountSettle_frame run_hooks)

end

end
