(* ===== verification/Escrow_Fuel.thy ===== *)
theory Escrow_Fuel
  imports Escrow_Solvency
begin

text \<open>
  The escrow operations call the hooks with the objects of one account only, so they do not run
  out of fuel when the hooks do not on that account and its payments (\<open>hooks_fueled\<close>).
\<close>

subsection \<open>Rules\<close>

lemma fueled_fact: "(\<And>s. P s \<Longrightarrow> F) \<Longrightarrow> (F \<Longrightarrow> fueled P m) \<Longrightarrow> fueled P m"
  unfolding fueled_def by blast

lemma fueled_bind_gets:
  "(\<And>x. fueled (\<lambda>s. P s \<and> f s = x) (g x)) \<Longrightarrow> fueled P (bind (gets f) g)"
  by (auto simp: fueled_def bind_def gets_def)

lemma fueled_bind_check: "(b \<Longrightarrow> fueled P (g ())) \<Longrightarrow> fueled P (bind (check b e) g)"
  by (auto simp: fueled_def bind_def check_def ret_def throw_def)

lemma fueled_bind_or_panic: "(\<And>x. v = Some x \<Longrightarrow> fueled P (g x)) \<Longrightarrow> fueled P (bind (or_panic v) g)"
  by (cases v) (simp_all add: fueled_def bind_def panic_def)

lemma fueled_bind_or_throw: "(\<And>x. v = Inr x \<Longrightarrow> fueled P (g x)) \<Longrightarrow> fueled P (bind (or_throw v) g)"
  by (cases v) (simp_all add: fueled_def throw_def)

lemma fueled_bind_found_or: "(\<And>x. v = Some x \<Longrightarrow> fueled P (g x)) \<Longrightarrow> fueled P (bind (found_or e v) g)"
  by (cases v) (simp_all add: fueled_def throw_def)

lemma fueled_bind_modify: "fueled Q (g ()) \<Longrightarrow> (\<And>s. P s \<Longrightarrow> Q (f s)) \<Longrightarrow> fueled P (bind (modify f) g)"
  by (simp add: fueled_def bind_def modify_def)

lemmas fueled_steps = fueled_bind_gets fueled_bind_check fueled_bind_or_panic fueled_bind_or_throw
  fueled_bind_found_or fueled_if

lemma hoare_each_map_values:
  assumes "\<And>x. x \<in> set xs \<Longrightarrow> hoare (\<lambda>_. True) (f x) (\<lambda>y _. Q y) (\<lambda>_. True)"
  shows "hoare (\<lambda>_. True) (each_map f xs) (\<lambda>ys _. \<forall>y\<in>set ys. Q y) (\<lambda>_. True)"
  using assms
proof (induction xs)
  case Nil
  show ?case by (simp add: hoare_def ret_def)
next
  case (Cons x xs)
  show ?case
    unfolding each_map.simps
  proof (rule hoare_bind [OF Cons.prems [of x]])
    have xs: "hoare (\<lambda>_. True) (each_map f xs) (\<lambda>ys _. \<forall>y\<in>set ys. Q y) (\<lambda>_. True)"
      using Cons by simp
    show "hoare (\<lambda>_. Q y) (bind (each_map f xs) (\<lambda>ys. ret (y # ys))) (\<lambda>ys _. \<forall>y\<in>set ys. Q y) (\<lambda>_. True)" for y
      using xs by (auto simp: hoare_def bind_def ret_def split: outcome.splits)
  qed simp
qed

lemma hoare_const: "hoare (\<lambda>_. F) m (\<lambda>_ _. F) (\<lambda>_. F)"
  by (simp add: hoare_def split: outcome.splits)

lemma fueled_act [fueled_rules]:
  "fueled P (emit ev)" "fueled P (saveAccount a)" "fueled P (savePayment p)"
  "fueled P (AccAddressFromBech32 E str)" "fueled P (GetAccount i)" "fueled P (GetPayment i pid)"
  "fueled P (SendCoinsFromAccountToModule E ad md cs)" "fueled P (SendCoinsFromModuleToAccount E md ad cs)"
  by (auto simp: fueled_def emit_def saveAccount_def savePayment_def AccAddressFromBech32_def GetAccount_def
    GetPayment_def SendCoinsFromAccountToModule_def SendCoinsFromModuleToAccount_def act_defs
    split: option.splits prod.splits bool.splits)

lemma fueled_all: "fueled (\<lambda>_. True) m \<Longrightarrow> fueled P m"
  by (simp add: fueled_def)

lemma keeps_all: "keeps (\<lambda>_. True) m"
  by (simp add: keeps_def hoare_def split: outcome.splits)

lemma fueled_withdraws [fueled_rules]: "fueled P (accountWithdraw E a)" "fueled P (paymentWithdraw E p)"
  unfolding accountWithdraw_def paymentWithdraw_def Let_def
  by (rule fueled_all, intro fueled_rules keeps_all)+

lemma fueled_deposits [fueled_rules]: "fueled P (AccountCreate E i owner c)" "fueled P (AccountDeposit E i c)"
  unfolding AccountCreate_def AccountDeposit_def Let_def
  by (rule fueled_all, intro fueled_rules keeps_all)+

subsection \<open>Which objects an operation reaches\<close>

lemma id_scope: "account_id_ok E i \<Longrightarrow> CHR ''/'' \<notin> set (aid_Scope i)"
  by (auto simp: account_id_ok_def payment_id_ok_def EscrowScope_def bidEscrowScope_def)

lemma payment_id_slashes:
  "addr_laws E \<Longrightarrow> payment_id_ok E i \<Longrightarrow> count_list (aid_XID i) (CHR ''/'') = 1"
  using DeploymentID_String_slashes
  by (fastforce simp: payment_id_ok_def decodable_def EscrowAccountForDeployment_def addr_laws_def)

lemma payment_prefix:
  assumes "addr_laws E" "account_id_ok E i" "payment_id_ok E j" "prefix (accountPaymentsKey i) (paymentKey j pid)"
  shows "i = j"
proof -
  have scopes: "CHR ''/'' \<notin> set (aid_Scope i)" "CHR ''/'' \<notin> set (aid_Scope j)"
    using assms id_scope [of E] by (auto simp: account_id_ok_def)
  have "aid_Scope i = aid_Scope j"
    using assms(4) slash_split_unique [OF scopes(2,1)]
    by (auto simp: accountPaymentsKey_def paymentKey_def prefix_def)
  then have "payment_id_ok E i" using assms(2,3) by (auto simp: account_id_ok_def payment_id_ok_def)
  then show ?thesis
    using accountPaymentsKey_prefix [OF scopes] assms payment_id_slashes by metis
qed

lemma payment_of_account:
  assumes "addr_laws E" "account_id_ok E i" "escrow_wf E J s" "p \<in> set (kv_iter (accountPaymentsKey i) (payments s))"
  shows "pay_AccountID p = i"
proof -
  have "kv_get (payments s) (payKey p) = Some p" using iter_payments(2) [OF assms(3,4)] .
  moreover have "prefix (accountPaymentsKey i) (payKey p)"
    using assms(3,4) kv_iter_member [of "payments s" p "accountPaymentsKey i"]
    by (auto simp: escrow_wf_def)
  ultimately show ?thesis
    using payment_prefix [OF assms(1,2)] wf_payment(2) [OF assms(3)] by (auto simp: payKey_def payment_ok_def)
qed

lemma account_of_key:
  assumes "account_id_ok E i" "escrow_wf E J s" "kv_get (accounts s) (accountKey i) = Some a"
  shows "acc_ID a = i"
  using wf_account [OF assms(2,3)] accountKey_eq [of i "acc_ID a"] id_scope assms(1)
  by (auto simp: account_ok_def)

lemma account_read:
  "account_id_ok E i \<Longrightarrow> escrow_inv E bal J s \<Longrightarrow> Some a = kv_get (accounts s) (accountKey i) \<Longrightarrow> acc_ID a = i"
  using account_of_key [of E i J s a] by (simp add: escrow_inv_def)

lemma settle_save_fueled [fueled_rules]: "fueled P (settle_save b qs)"
  unfolding settle_save_def by (rule fueled_all, intro fueled_rules keeps_all)

lemma settle_stages_ids:
  assumes "settle_stages E a ps d r = Some (b, qs, od)" "NewCoin E e 0 = Some z" "sum_rates E z ps = Some r"
  shows "acc_ID b = acc_ID a" "\<forall>q\<in>set qs. \<exists>p\<in>set ps. pay_AccountID q = pay_AccountID p"
proof -
  have "Amount r = (\<Sum>p\<leftarrow>ps. Amount (pay_Rate p))"
    using sum_rates_Some [OF assms(3)] assms(2) by (simp add: NewCoin_Some)
  from settle_stages_Some(1) [OF assms(1) this] show "acc_ID b = acc_ID a"
    "\<forall>q\<in>set qs. \<exists>p\<in>set ps. pay_AccountID q = pay_AccountID p"
    by (auto simp: settled_def credits_def) (metis credit_sel(1) set_zip_leftD)
qed

lemma paymentWithdraw_id:
  "hoare (\<lambda>_. True) (paymentWithdraw E p) (\<lambda>q _. pay_AccountID q = pay_AccountID p) (\<lambda>_. True)"
  unfolding paymentWithdraw_def Let_def savePayment_def
  by (auto simp: hoare_def bind_def or_panic_def ret_def panic_def modify_def split: outcome.splits option.splits)

lemma accountWithdraw_id:
  "hoare (\<lambda>_. True) (accountWithdraw E a) (\<lambda>b _. acc_ID b = acc_ID a) (\<lambda>_. True)"
  unfolding accountWithdraw_def Let_def saveAccount_def
  by (auto simp: hoare_def bind_def or_panic_def ret_def panic_def modify_def split: outcome.splits option.splits)

subsection \<open>Operations\<close>

definition hooks_fueled :: "('b, 'x) hooks \<Rightarrow> (('b, 'x) est \<Rightarrow> bool) \<Rightarrow> account_id \<Rightarrow> bool" where
  "hooks_fueled H P i \<longleftrightarrow>
     (\<forall>hook\<in>set (onAccountClosed H). \<forall>a. acc_ID a = i \<longrightarrow> fueled P (hook a)) \<and>
     (\<forall>hook\<in>set (onPaymentClosed H). \<forall>p. pay_AccountID p = i \<longrightarrow> fueled P (hook p))"

context escrow_keeper
begin

lemma lawful_hook:
  assumes "bank_laws E ModuleName bal"
  shows "hook \<in> set (onAccountClosed H) \<Longrightarrow> keeps (escrow_inv E bal J) (hook a)"
    "phook \<in> set (onPaymentClosed H) \<Longrightarrow> keeps (escrow_inv E bal J) (phook p)"
  using account_hook payment_hook assms by (simp_all add: keeps_under)

lemma run_hooks_fueled:
  assumes bank: "bank_laws E ModuleName bal" and "hooks_fueled H (escrow_inv E bal J) i"
  shows "acc_ID a = i \<Longrightarrow> fueled (escrow_inv E bal J) (each (\<lambda>hook. hook a) (onAccountClosed H))"
    "pay_AccountID p = i \<Longrightarrow> fueled (escrow_inv E bal J) (each (\<lambda>hook. hook p) (onPaymentClosed H))"
    "\<forall>p\<in>set ps. pay_AccountID p = i \<Longrightarrow>
       fueled (escrow_inv E bal J) (each (\<lambda>hook. each hook ps) (onPaymentClosed H))"
  using assms(2) lawful_hook [OF bank] unfolding hooks_fueled_def
  by (auto intro!: fueled_each keeps_each)

lemma close_hooks_fueled:
  assumes bank: "bank_laws E ModuleName bal" and "hooks_fueled H (escrow_inv E bal J) i"
    and "acc_ID a = i" "\<forall>p\<in>set ps. pay_AccountID p = i" "\<And>u. fueled (escrow_inv E bal J) (f u)"
  shows "fueled (escrow_inv E bal J) (bind (each (\<lambda>hook. hook a) (onAccountClosed H)) (\<lambda>_.
    bind (each (\<lambda>hook. each hook ps) (onPaymentClosed H)) f))"
  by (intro fueled_bind_inv run_hooks_fueled [OF bank assms(2)] assms lawful_hooks [OF bank])

lemma settle_finish_fueled:
  assumes bank: "bank_laws E ModuleName bal" and H: "hooks_fueled H (escrow_inv E bal J) i"
    and ids: "acc_ID a = i" "\<forall>p\<in>set ps. pay_AccountID p = i"
  shows "fueled (\<lambda>s. pending E bal J ps (s\<lparr>accounts :=
       kv_set (accountKey (acc_ID a)) (a\<lparr>acc_State := AccountOverdrawn\<rparr>) (accounts s)\<rparr>)) (settle_finish E H a ps)"
proof -
  let ?step = "\<lambda>p. bind (savePayment (p\<lparr>pay_State := PaymentOverdrawn\<rparr>)) (\<lambda>_. paymentWithdraw E (p\<lparr>pay_State := PaymentOverdrawn\<rparr>))"
  have "hoare (\<lambda>_. True) (?step p) (\<lambda>q _. pay_AccountID q = i) (\<lambda>_. True)" if "p \<in> set ps" for p
    using that ids(2) paymentWithdraw_id [of E "p\<lparr>pay_State := PaymentOverdrawn\<rparr>"]
    by (auto simp: savePayment_def hoare_def modify_def bind_def)
  then have vals: "hoare (\<lambda>_. True) (each_map ?step ps) (\<lambda>qs _. \<forall>q\<in>set qs. pay_AccountID q = i) (\<lambda>_. True)"
    by (rule hoare_each_map_values)
  have keep: "hoare (pending E bal J ps) (each_map ?step ps)
      (\<lambda>qs s. escrow_inv E bal J s \<and> (\<forall>q\<in>set qs. pay_AccountID q = i)) (\<lambda>_. True)"
    using hoare_conj [OF overdrawn_payments [OF bank, unfolded Let_def] vals] by (rule hoare_weaken) auto
  have "fueled (pending E bal J ps) (each_map ?step ps)"
    by (rule fueled_all, intro fueled_rules keeps_all)
  then have "fueled (pending E bal J ps) (bind (each_map ?step ps) (\<lambda>qs.
      bind (each (\<lambda>hook. hook (a\<lparr>acc_State := AccountOverdrawn\<rparr>)) (onAccountClosed H)) (\<lambda>_.
      bind (each (\<lambda>hook. each hook qs) (onPaymentClosed H)) (\<lambda>_. ret (a\<lparr>acc_State := AccountOverdrawn\<rparr>, qs, True)))))"
  proof (rule fueled_bind [OF _ keep])
    fix qs
    show "fueled (\<lambda>s. escrow_inv E bal J s \<and> (\<forall>q\<in>set qs. pay_AccountID q = i))
      (bind (each (\<lambda>hook. hook (a\<lparr>acc_State := AccountOverdrawn\<rparr>)) (onAccountClosed H)) (\<lambda>_.
      bind (each (\<lambda>hook. each hook qs) (onPaymentClosed H)) (\<lambda>_. ret (a\<lparr>acc_State := AccountOverdrawn\<rparr>, qs, True))))"
      by (rule fueled_fact [where F = "\<forall>q\<in>set qs. pay_AccountID q = i"], blast)
        (rule fueled_weaken [OF close_hooks_fueled [OF bank H]], simp_all add: fueled_basic ids)
  qed
  then show ?thesis
    unfolding settle_finish_def Let_def saveAccount_def
    by (rule fueled_bind_modify) simp
qed

lemma settle_reads:
  assumes "addr_laws E" "account_id_ok E i" "escrow_inv E bal J s \<and> kv_get (accounts s) (accountKey i) = Some a \<and>
      kv_iter (accountPaymentsKey i) (payments s) = ps"
  shows "acc_ID a = i \<and> (\<forall>p\<in>set ps. pay_AccountID p = i)"
  using assms account_of_key [OF assms(2)] payment_of_account [OF assms(1,2)] by (auto simp: escrow_inv_def)

lemma doAccountSettle_fueled:
  assumes bank: "bank_laws E ModuleName bal" and H: "hooks_fueled H (escrow_inv E bal J) i"
    and laws: "addr_laws E" and i: "account_id_ok E i"
  shows "fueled (escrow_inv E bal J) (doAccountSettle E H i)"
  unfolding doAccountSettle_eq GetAccount_def accountOpenPayments_def accountPayments_def bind_assoc
    Let_def bind_ret
proof (intro fueled_steps, simp_all add: fueled_basic, goal_cases)
  case 1
  show ?case by (rule fueled_all, intro fueled_rules keeps_all)
next
  case (2 _ a all z r x)
  obtain b qs od where x: "x = (b, qs, od)" by (cases x) auto
  note ids = settle_stages_ids [OF 2(7) [unfolded x] 2(5,6)]
  note step = settle_step_pending [OF _ _ _ 2(5,6) 2(7) [unfolded x]]
  show ?case
  proof (rule fueled_fact [where F = "acc_ID a = i \<and> (\<forall>p\<in>set all. pay_AccountID p = i)"], erule settle_reads [OF laws i])
    assume F: "acc_ID a = i \<and> (\<forall>p\<in>set all. pay_AccountID p = i)"
    have "acc_ID b = i" "\<forall>q\<in>set qs. pay_AccountID q = i" using F ids by auto
    note fin = fueled_weaken [OF settle_finish_fueled [OF bank H this]]
    show "fueled (\<lambda>s. escrow_inv E bal J s \<and> kv_get (accounts s) (accountKey i) = Some a \<and>
        kv_iter (accountPaymentsKey i) (payments s) = all)
      (case x of (account, ps, overdrawn) \<Rightarrow> if \<not> overdrawn then settle_save account ps else settle_finish E H account ps)"
      by (auto simp: x intro!: settle_save_fueled fin step)
  qed
qed

lemma doAccountSettle_ids:
  assumes laws: "addr_laws E" and i: "account_id_ok E i"
  shows "hoare (escrow_inv E bal J) (doAccountSettle E H i)
    (\<lambda>(b, qs, od) s. acc_ID b = i \<and> (\<not> od \<longrightarrow> (\<forall>q\<in>set qs. pay_AccountID q = i))) (\<lambda>_. True)"
  unfolding doAccountSettle_eq GetAccount_def accountOpenPayments_def accountPayments_def bind_assoc
    Let_def bind_ret
proof (intro hoare_steps, simp_all, goal_cases)
  case (1 _ a)
  show ?case by (rule hoare_pre [OF hoare_ret]) (auto dest: account_read [OF i])
next
  case (2 _ a)
  show ?case
    unfolding saveAccount_def
    by (rule hoare_pre [OF hoare_bind [OF hoare_modify hoare_ret]])
      (auto dest: account_read [OF i])
next
  case (3 _ a all z r x)
  obtain b qs od where x: "x = (b, qs, od)" by (cases x) auto
  note ids = settle_stages_ids [OF 3(7) [unfolded x] 3(5,6)]
  have F: "acc_ID b = i \<and> (\<forall>q\<in>set qs. pay_AccountID q = i)"
    if "(escrow_inv E bal J s \<and> Some a = kv_get (accounts s) (accountKey i)) \<and>
        all = kv_iter (accountPaymentsKey i) (payments s)" for s
    using settle_reads [OF laws i, of s a all] that ids by (auto simp: eq_commute)
  have "hoare (\<lambda>s. acc_ID b = i \<and> (\<forall>q\<in>set qs. pay_AccountID q = i)) (settle_finish E H b qs)
      (\<lambda>(b, qs, od) s. acc_ID b = i \<and> (\<not> od \<longrightarrow> (\<forall>q\<in>set qs. pay_AccountID q = i))) (\<lambda>_. True)"
    by (auto simp: settle_finish_def Let_def hoare_def bind_def ret_def split: outcome.splits)
  moreover have "hoare (\<lambda>s. acc_ID b = i \<and> (\<forall>q\<in>set qs. pay_AccountID q = i)) (settle_save b qs)
      (\<lambda>(b, qs, od) s. acc_ID b = i \<and> (\<not> od \<longrightarrow> (\<forall>q\<in>set qs. pay_AccountID q = i))) (\<lambda>_. True)"
    by (auto simp: settle_save_def Let_def hoare_def bind_def ret_def split: outcome.splits)
  ultimately show ?case using F by (auto simp: x intro: hoare_pre)
qed

lemma AccountSettle_fueled:
  assumes "bank_laws E ModuleName bal" "hooks_fueled H (escrow_inv E bal J) i" "addr_laws E" "account_id_ok E i"
  shows "fueled (escrow_inv E bal J) (AccountSettle E H i)"
  unfolding AccountSettle_def
  by (intro fueled_bind_inv doAccountSettle_fueled [OF assms] doAccountSettle_keeps assms fueled_rules)

lemma PaymentCreate_fueled:
  assumes "bank_laws E ModuleName bal" "hooks_fueled H (escrow_inv E bal J) i" "addr_laws E" "account_id_ok E i"
  shows "fueled (escrow_inv E bal J) (PaymentCreate E H i pid owner rate)"
  unfolding PaymentCreate_def Let_def
  by (intro fueled_bind_inv doAccountSettle_fueled [OF assms] doAccountSettle_keeps assms fueled_rules keeps_basic)

lemma PaymentWithdraw_fueled:
  assumes "bank_laws E ModuleName bal" "hooks_fueled H (escrow_inv E bal J) i" "addr_laws E" "account_id_ok E i"
  shows "fueled (escrow_inv E bal J) (PaymentWithdraw E H i pid)"
proof -
  have fin: "fueled P (bind (GetPayment i pid) (\<lambda>p. bind (paymentWithdraw E p) (\<lambda>_. ret ())))" for P
    by (rule fueled_all, intro fueled_rules keeps_all)
  show ?thesis
    unfolding PaymentWithdraw_def
    by (intro fueled_bind_inv [OF _ AccountSettle_inv] fueled_bind_inv [OF _ GetPayment_keeps] AccountSettle_fueled
      assms fueled_steps fueled_rules keeps_basic fin)
qed

lemma GetPayment_id:
  assumes "payment_id_ok E i" "addr_laws E"
  shows "hoare (escrow_inv E bal J) (GetPayment i pid) (\<lambda>p s. escrow_inv E bal J s \<and> stored p s \<and> pay_AccountID p = i)
    (escrow_inv E bal J)"
proof (rule hoare_weaken [OF GetPayment_stored])
  fix p s
  assume s: "escrow_inv E bal J s \<and> stored p s \<and> kv_get (payments s) (paymentKey i pid) = Some p \<and> payKey p = paymentKey i pid"
  then have "payment_id_ok E (pay_AccountID p)"
    using wf_payment(2) [of E J s] by (auto simp: escrow_inv_def payment_ok_def)
  then have "pay_AccountID p = i"
    using paymentKey_eq [of "pay_AccountID p" i] s assms payment_id_slashes id_scope [of E]
    by (metis account_id_ok_def payKey_def)
  then show "escrow_inv E bal J s \<and> stored p s \<and> pay_AccountID p = i" using s by simp
qed simp_all

lemma PaymentClose_fueled:
  assumes bank: "bank_laws E ModuleName bal" and H: "hooks_fueled H (escrow_inv E bal J) i"
    and laws: "addr_laws E" "payment_id_ok E i"
  shows "fueled (escrow_inv E bal J) (PaymentClose E H i pid)"
proof -
  have i: "account_id_ok E i" using laws(2) by (simp add: account_id_ok_def)
  have w: "hoare (\<lambda>s. escrow_inv E bal J s \<and> stored p s \<and> pay_AccountID p = i)
      (paymentWithdraw E (p\<lparr>pay_State := PaymentClosed\<rparr>))
      (\<lambda>q s. escrow_inv E bal J s \<and> pay_AccountID q = i) (\<lambda>_. True)" for p
    by (rule hoare_weaken [OF hoare_conj [OF paymentWithdraw_inv [OF bank, of "p\<lparr>pay_State := PaymentClosed\<rparr>"]
      hoare_conj [OF paymentWithdraw_id [of E "p\<lparr>pay_State := PaymentClosed\<rparr>"] hoare_const [of "pay_AccountID p = i"]]]]) auto
  have h: "fueled (\<lambda>s. escrow_inv E bal J s \<and> pay_AccountID q = i) (each (\<lambda>hook. hook q) (onPaymentClosed H))" for q
    by (rule fueled_fact [where F = "pay_AccountID q = i"], simp)
      (rule fueled_weaken [OF run_hooks_fueled(2) [OF bank H]], simp_all)
  have fin: "fueled (escrow_inv E bal J) (bind (GetPayment i pid) (\<lambda>p.
      bind (paymentWithdraw E (p\<lparr>pay_State := PaymentClosed\<rparr>)) (\<lambda>p. each (\<lambda>hook. hook p) (onPaymentClosed H))))"
    by (rule fueled_bind [OF _ GetPayment_id [OF laws(2,1)]], rule fueled_act) (rule fueled_bind [OF fueled_withdraws(2) w h])
  show ?thesis
    unfolding PaymentClose_def
    by (intro fueled_bind_inv [OF _ AccountSettle_inv] fueled_bind_inv [OF _ GetPayment_keeps] AccountSettle_fueled
      fueled_steps fueled_rules keeps_basic fin assms i)
qed

lemma close_payments_ids:
  assumes bank: "bank_laws E ModuleName bal"
  shows "hoare (\<lambda>s. escrow_inv E bal J s \<and> distinct (map payKey ps) \<and> (\<forall>p\<in>set ps. stored p s \<and> pay_AccountID p = i))
     (each_map (\<lambda>p. paymentWithdraw E (p\<lparr>pay_State := PaymentClosed\<rparr>)) ps)
     (\<lambda>qs s. escrow_inv E bal J s \<and> (\<forall>q\<in>set qs. pay_AccountID q = i)) (\<lambda>_. True)"
proof (rule hoare_fact [where F = "\<forall>p\<in>set ps. pay_AccountID p = i"], blast)
  assume F: "\<forall>p\<in>set ps. pay_AccountID p = i"
  have "hoare (\<lambda>_. True) (paymentWithdraw E (p\<lparr>pay_State := PaymentClosed\<rparr>)) (\<lambda>q _. pay_AccountID q = i) (\<lambda>_. True)"
    if "p \<in> set ps" for p
    using paymentWithdraw_id [of E "p\<lparr>pay_State := PaymentClosed\<rparr>"] F that by simp
  from hoare_conj [OF close_payments [OF bank] hoare_each_map_values [OF this]]
  show "hoare (\<lambda>s. escrow_inv E bal J s \<and> distinct (map payKey ps) \<and> (\<forall>p\<in>set ps. stored p s \<and> pay_AccountID p = i))
     (each_map (\<lambda>p. paymentWithdraw E (p\<lparr>pay_State := PaymentClosed\<rparr>)) ps)
     (\<lambda>qs s. escrow_inv E bal J s \<and> (\<forall>q\<in>set qs. pay_AccountID q = i)) (\<lambda>_. True)"
    by (rule hoare_weaken) auto
qed

lemma close_account_fueled:
  assumes bank: "bank_laws E ModuleName bal" and H: "hooks_fueled H (escrow_inv E bal J) i"
  shows "fueled (\<lambda>s. escrow_inv E bal J s \<and> acc_ID b = i \<and> kv_get (accounts s) (accountKey (acc_ID b)) = Some b \<and>
      distinct (map payKey ps) \<and> (\<forall>p\<in>set ps. stored p s \<and> pay_AccountID p = i))
    (bind (accountWithdraw E (b\<lparr>acc_State := AccountClosed\<rparr>)) (\<lambda>account.
     bind (each_map (\<lambda>p. paymentWithdraw E (p\<lparr>pay_State := PaymentClosed\<rparr>)) ps) (\<lambda>ps.
     bind (each (\<lambda>hook. hook account) (onAccountClosed H)) (\<lambda>_.
     each (\<lambda>hook. each hook ps) (onPaymentClosed H)))))"
  (is "fueled ?P _")
proof (rule fueled_bind [OF fueled_withdraws(1)])
  let ?Q = "\<lambda>s. escrow_inv E bal J s \<and> distinct (map payKey ps) \<and> (\<forall>p\<in>set ps. stored p s \<and> pay_AccountID p = i)"
  have "hoare ?P (accountWithdraw E (b\<lparr>acc_State := AccountClosed\<rparr>)) (\<lambda>_. ?Q) (\<lambda>_. True)"
    by (rule hoare_weaken [OF hoare_conj [OF withdraw_keeps_payments [OF bank, of b ps]
      hoare_const [of "\<forall>p\<in>set ps. pay_AccountID p = i"]]]) auto
  then show "hoare ?P (accountWithdraw E (b\<lparr>acc_State := AccountClosed\<rparr>)) (\<lambda>a s. ?Q s \<and> acc_ID a = i) (\<lambda>_. True)"
    by (rule hoare_weaken [OF hoare_conj [OF _ hoare_conj [OF accountWithdraw_id
      [of E "b\<lparr>acc_State := AccountClosed\<rparr>"] hoare_const [of "acc_ID b = i"]]]]) auto
  fix a
  show "fueled (\<lambda>s. ?Q s \<and> acc_ID a = i) (bind (each_map (\<lambda>p. paymentWithdraw E (p\<lparr>pay_State := PaymentClosed\<rparr>)) ps) (\<lambda>ps.
     bind (each (\<lambda>hook. hook a) (onAccountClosed H)) (\<lambda>_. each (\<lambda>hook. each hook ps) (onPaymentClosed H))))"
  proof (rule fueled_fact [where F = "acc_ID a = i"], blast)
    assume a: "acc_ID a = i"
    have "fueled (\<lambda>s. escrow_inv E bal J s \<and> (\<forall>q\<in>set qs. pay_AccountID q = i))
      (bind (each (\<lambda>hook. hook a) (onAccountClosed H)) (\<lambda>_. each (\<lambda>hook. each hook qs) (onPaymentClosed H)))" for qs
      by (rule fueled_fact [where F = "\<forall>q\<in>set qs. pay_AccountID q = i"], blast,
        rule fueled_weaken [OF fueled_bind_inv [OF run_hooks_fueled(1) [OF bank H a] lawful_hooks(1) [OF bank]
          run_hooks_fueled(3) [OF bank H]]], simp_all)
    moreover have "fueled P (each_map (\<lambda>p. paymentWithdraw E (p\<lparr>pay_State := PaymentClosed\<rparr>)) ps)" for P
      by (rule fueled_all, intro fueled_rules keeps_all)
    ultimately show ?thesis
      by (intro fueled_bind [OF _ hoare_pre [OF close_payments_ids [OF bank, of ps i]]]) simp_all
  qed
qed

lemma AccountClose_fueled:
  assumes bank: "bank_laws E ModuleName bal" and H: "hooks_fueled H (escrow_inv E bal J) i"
    and laws: "addr_laws E" "account_id_ok E i"
  shows "fueled (escrow_inv E bal J) (AccountClose E H i)"
  unfolding AccountClose_def GetAccount_def bind_assoc
proof (intro fueled_steps)
  let ?Q = "\<lambda>(b, qs, od) s. escrow_inv E bal J s \<and> (\<not> od \<longrightarrow> acc_ID b = i \<and>
      kv_get (accounts s) (accountKey (acc_ID b)) = Some b \<and>
      distinct (map payKey qs) \<and> (\<forall>p\<in>set qs. stored p s \<and> pay_AccountID p = i))"
  fix x a
  have settle: "hoare (\<lambda>s. escrow_inv E bal J s \<and> kv_get (accounts s) (accountKey i) = x) (doAccountSettle E H i) ?Q (\<lambda>_. True)"
    by (rule hoare_weaken [OF hoare_conj [OF doAccountSettle_inv [OF bank] doAccountSettle_ids [OF laws]]]) auto
  show "fueled (\<lambda>s. escrow_inv E bal J s \<and> kv_get (accounts s) (accountKey i) = x)
    (bind (doAccountSettle E H i) (\<lambda>(account, ps, od).
     if od then ret () else
     bind (accountWithdraw E (account\<lparr>acc_State := AccountClosed\<rparr>)) (\<lambda>account.
     bind (each_map (\<lambda>p. paymentWithdraw E (p\<lparr>pay_State := PaymentClosed\<rparr>)) ps) (\<lambda>ps.
     bind (each (\<lambda>hook. hook account) (onAccountClosed H)) (\<lambda>_.
     each (\<lambda>hook. each hook ps) (onPaymentClosed H))))))"
  proof (rule fueled_bind [OF fueled_weaken [OF doAccountSettle_fueled [OF bank H laws]] settle], simp)
    fix r :: "account \<times> payment list \<times> bool"
    obtain b qs od where r: "r = (b, qs, od)" by (cases r) auto
    show "fueled (?Q r) (case r of (account, ps, od) \<Rightarrow> if od then ret () else
     bind (accountWithdraw E (account\<lparr>acc_State := AccountClosed\<rparr>)) (\<lambda>account.
     bind (each_map (\<lambda>p. paymentWithdraw E (p\<lparr>pay_State := PaymentClosed\<rparr>)) ps) (\<lambda>ps.
     bind (each (\<lambda>hook. hook account) (onAccountClosed H)) (\<lambda>_.
     each (\<lambda>hook. each hook ps) (onPaymentClosed H)))))"
      unfolding r by (auto intro!: fueled_basic fueled_weaken [OF close_account_fueled [OF bank H, of b qs]])
  qed
qed

end

end
