(* ===== verification/Provider.thy ===== *)
theory Provider
  imports Deployment
begin

text \<open>
  The provider module (\<^verbatim>\<open>x/provider\<close>): the objects, the validation of its messages and the
  keeper.  \<^verbatim>\<open>url.Parse\<close> is an argument \<open>parse\<close> of the definitions that use it: it
  gives \<open>None\<close> for a string it rejects, and else the parts of the URL the code looks at.
\<close>

record provider_info =
  EMail :: string
  Website :: string

record provider =
  prov_Owner :: string
  prov_HostURI :: string
  prov_Attributes :: "attribute list"
  prov_Info :: provider_info

record url =
  url_IsAbs :: bool
  url_Scheme :: string
  url_Host :: string
  url_Path :: string

record 'b provider_state = "'b deployment_state" +
  providers :: "provider kv"

type_synonym ('b, 'x) pst = "('b, 'x) provider_state_scheme"

subsection \<open>Validation\<close>

definition ProviderInfo_IsEmpty :: "provider_info \<Rightarrow> bool" where
  "ProviderInfo_IsEmpty m \<longleftrightarrow> EMail m = [] \<and> Website m = []"

definition ProviderInfo_Validate :: "(string \<Rightarrow> url option) \<Rightarrow> provider_info \<Rightarrow> error + unit" where
  "ProviderInfo_Validate parse m =
     (if Website m \<noteq> [] \<and> parse (Website m) = None then Inl (ProviderErr ErrInvalidInfoWebsite)
      else Inr ())"

definition validateProviderURI :: "(string \<Rightarrow> url option) \<Rightarrow> string \<Rightarrow> error + unit" where
  "validateProviderURI parse val = (case parse val of
     None \<Rightarrow> Inl (ProviderErr ErrInvalidProviderURI)
   | Some u \<Rightarrow>
       if \<not> url_IsAbs u then Inl (ProviderErr ErrNotAbsProviderURI)
       else if url_Scheme u \<noteq> ''https'' then Inl (ProviderErr ErrInvalidProviderURI)
       else if url_Host u = [] then Inl (ProviderErr ErrInvalidProviderURI)
       else if url_Path u \<noteq> [] then Inl (ProviderErr ErrInvalidProviderURI)
       else Inr ())"

text \<open>\<^verbatim>\<open>MsgCreateProvider\<close> and \<^verbatim>\<open>MsgUpdateProvider\<close> have the fields of a provider
  and are validated alike.\<close>

definition MsgCreateProvider_ValidateBasic ::
  "'b env \<Rightarrow> (string \<Rightarrow> url option) \<Rightarrow> provider \<Rightarrow> error + unit" where
  "MsgCreateProvider_ValidateBasic E parse msg =
     (case validateProviderURI parse (prov_HostURI msg) of Inl e \<Rightarrow> Inl e | Inr _ \<Rightarrow>
      if FromBech32 E (prov_Owner msg) = None then Inl (Sdk sdk_error.ErrInvalidAddress) else
      (case Attributes_Validate (prov_Attributes msg) of Inl e \<Rightarrow> Inl e | Inr _ \<Rightarrow>
      (case ProviderInfo_Validate parse (prov_Info msg) of Inl e \<Rightarrow> Inl e | Inr _ \<Rightarrow> Inr ())))"

definition MsgUpdateProvider_ValidateBasic ::
  "'b env \<Rightarrow> (string \<Rightarrow> url option) \<Rightarrow> provider \<Rightarrow> error + unit" where
  "MsgUpdateProvider_ValidateBasic E parse msg =
     (case validateProviderURI parse (prov_HostURI msg) of Inl e \<Rightarrow> Inl e | Inr _ \<Rightarrow>
      if FromBech32 E (prov_Owner msg) = None then Inl (Sdk sdk_error.ErrInvalidAddress) else
      (case Attributes_Validate (prov_Attributes msg) of Inl e \<Rightarrow> Inl e | Inr _ \<Rightarrow>
      (case ProviderInfo_Validate parse (prov_Info msg) of Inl e \<Rightarrow> Inl e | Inr _ \<Rightarrow> Inr ())))"

definition MsgDeleteProvider_ValidateBasic :: "'b env \<Rightarrow> string \<Rightarrow> error + unit" where
  "MsgDeleteProvider_ValidateBasic E owner =
     (if FromBech32 E owner = None then Inl (Sdk sdk_error.ErrInvalidAddress) else Inr ())"

subsection \<open>Keeper\<close>

text \<open>The key of a provider is its raw address.\<close>

definition providerKey :: "string \<Rightarrow> string" where
  "providerKey i = i"

definition Provider_Get :: "string \<Rightarrow> (provider option, ('b, 'x) pst) act" where
  "Provider_Get i = gets (\<lambda>s. kv_get (providers s) (providerKey i))"

definition Provider_Create :: "'b env \<Rightarrow> provider \<Rightarrow> (unit, ('b, 'x) pst) act" where
  "Provider_Create E p =
     bind (AccAddressFromBech32 E (prov_Owner p)) (\<lambda>owner.
     bind (gets (\<lambda>s. kv_has (providers s) (providerKey owner))) (\<lambda>has.
     bind (check (\<not> has) (ProviderErr ErrProviderExists)) (\<lambda>_.
     bind (modify (\<lambda>s. s\<lparr>providers := kv_set (providerKey owner) p (providers s)\<rparr>)) (\<lambda>_.
     emit (EventProviderCreated owner)))))"

definition Provider_Update :: "'b env \<Rightarrow> provider \<Rightarrow> (unit, ('b, 'x) pst) act" where
  "Provider_Update E p =
     bind (AccAddressFromBech32 E (prov_Owner p)) (\<lambda>owner.
     bind (gets (\<lambda>s. kv_has (providers s) (providerKey owner))) (\<lambda>has.
     bind (check has (ProviderErr provider_error.ErrProviderNotFound)) (\<lambda>_.
     bind (modify (\<lambda>s. s\<lparr>providers := kv_set (providerKey owner) p (providers s)\<rparr>)) (\<lambda>_.
     emit (EventProviderUpdated owner)))))"

definition Provider_WithProviders :: "('b, 'x) pst \<Rightarrow> provider list" where
  "Provider_WithProviders s = kv_iter [] (providers s)"

definition Provider_Delete :: "string \<Rightarrow> (unit, ('b, 'x) pst) act" where
  "Provider_Delete i = panic"

end
