(* ===== verification/Auditing.thy ===== *)
theory Auditing
  imports Provider
begin

text \<open>
  The audit module (\<^verbatim>\<open>x/audit\<close>): auditors sign attributes of providers.  The keeper keeps
  one object per provider and auditor.  Go's map from keys to values, which it fills and then
  writes out sorted, is a store of values by key here.
\<close>

record 'b audit_state = "'b provider_state" +
  audits :: "audit_provider kv"

type_synonym ('b, 'x) ast = "('b, 'x) audit_state_scheme"

record audit_id =
  au_Owner :: string
  au_Auditor :: string

definition auditKey :: "audit_id \<Rightarrow> string" where
  "auditKey i = CHR 0x01 # au_Owner i @ au_Auditor i"

definition auditPrefix :: "string \<Rightarrow> string" where
  "auditPrefix owner = CHR 0x01 # owner"

subsection \<open>Messages\<close>

record msg_sign =
  sign_Owner :: string
  sign_Auditor :: string
  sign_Attributes :: "attribute list"

text \<open>A nil list of keys is \<open>None\<close>.\<close>

record msg_delete_attributes =
  del_Owner :: string
  del_Auditor :: string
  del_Keys :: "string list option"

definition MsgSignProviderAttributes_ValidateBasic :: "'b env \<Rightarrow> msg_sign \<Rightarrow> error + unit" where
  "MsgSignProviderAttributes_ValidateBasic E m =
     (if FromBech32 E (sign_Owner m) = None then Inl (Sdk sdk_error.ErrInvalidAddress)
      else if FromBech32 E (sign_Auditor m) = None then Inl (Sdk sdk_error.ErrInvalidAddress)
      else Inr ())"

definition MsgDeleteProviderAttributes_ValidateBasic ::
  "'b env \<Rightarrow> msg_delete_attributes \<Rightarrow> error + unit" where
  "MsgDeleteProviderAttributes_ValidateBasic E m =
     (if FromBech32 E (del_Owner m) = None then Inl (Sdk sdk_error.ErrInvalidAddress)
      else if FromBech32 E (del_Auditor m) = None then Inl (Sdk sdk_error.ErrInvalidAddress)
      else Inr ())"

subsection \<open>Keeper\<close>

definition attrs_into :: "attribute list \<Rightarrow> string kv \<Rightarrow> string kv" where
  "attrs_into attrs m = fold (\<lambda>e m. kv_set (attr_Key e) (attr_Value e) m) attrs m"

definition attrs_of :: "string kv \<Rightarrow> attribute list" where
  "attrs_of m = map (\<lambda>(k, v). \<lparr>attr_Key = k, attr_Value = v\<rparr>) m"

definition GetProviderByAuditor :: "audit_id \<Rightarrow> (audit_provider option, ('b, 'x) ast) act" where
  "GetProviderByAuditor i = gets (\<lambda>s. kv_get (audits s) (auditKey i))"

definition GetProviderAttributes :: "string \<Rightarrow> (audit_provider list option, ('b, 'x) ast) act" where
  "GetProviderAttributes owner = gets (\<lambda>s.
     let attr = kv_iter (auditPrefix owner) (audits s) in
     if attr = [] then None else Some attr)"

definition CreateOrUpdateProviderAttributes ::
  "'b env \<Rightarrow> audit_id \<Rightarrow> attribute list \<Rightarrow> (unit, ('b, 'x) ast) act" where
  "CreateOrUpdateProviderAttributes E i attr =
     bind (GetProviderByAuditor i) (\<lambda>buf.
     let attr = (case buf of
         None \<Rightarrow> attr
       | Some tmp \<Rightarrow> attrs_of (attrs_into attr (attrs_into (ap_Attributes tmp) [])));
       prov = \<lparr>ap_Owner = AddrString E (au_Owner i), ap_Auditor = AddrString E (au_Auditor i),
         ap_Attributes = sort_key attr_Key attr\<rparr> in
     bind (modify (\<lambda>s. s\<lparr>audits := kv_set (auditKey i) prov (audits s)\<rparr>)) (\<lambda>_.
     emit (EventTrustedAuditorCreated (au_Owner i) (au_Auditor i))))"

primrec delete_keys :: "string list \<Rightarrow> string kv \<Rightarrow> error + string kv" where
  "delete_keys [] m = Inr m"
| "delete_keys (k # ks) m =
     (if \<not> kv_has m k then Inl (Audit ErrAttributeNotFound) else delete_keys ks (kv_del k m))"

definition Audit_DeleteProviderAttributes ::
  "'b env \<Rightarrow> audit_id \<Rightarrow> string list option \<Rightarrow> (unit, ('b, 'x) ast) act" where
  "Audit_DeleteProviderAttributes E i keys =
     bind (GetProviderByAuditor i) (\<lambda>buf.
     bind (found_or (Audit audit_error.ErrProviderNotFound) buf) (\<lambda>tmp.
     bind (case keys of
         None \<Rightarrow> modify (\<lambda>s. s\<lparr>audits := kv_del (auditKey i) (audits s)\<rparr>)
       | Some ks \<Rightarrow>
           bind (or_throw (delete_keys ks (attrs_into (ap_Attributes tmp) []))) (\<lambda>m.
           let attr = attrs_of m in
           if attr = [] then modify (\<lambda>s. s\<lparr>audits := kv_del (auditKey i) (audits s)\<rparr>)
           else modify (\<lambda>s. s\<lparr>audits := kv_set (auditKey i)
             \<lparr>ap_Owner = AddrString E (au_Owner i), ap_Auditor = AddrString E (au_Auditor i),
              ap_Attributes = sort_key attr_Key attr\<rparr> (audits s)\<rparr>))) (\<lambda>_.
     emit (EventTrustedAuditorDeleted (au_Owner i) (au_Auditor i)))))"

definition Audit_WithProviders :: "('b, 'x) ast \<Rightarrow> audit_provider list" where
  "Audit_WithProviders s = kv_iter [] (audits s)"

definition Audit_WithProvider :: "string \<Rightarrow> ('b, 'x) ast \<Rightarrow> audit_provider list" where
  "Audit_WithProvider owner s = kv_iter (auditPrefix owner) (audits s)"

subsection \<open>Message server\<close>

definition SignProviderAttributes :: "'b env \<Rightarrow> msg_sign \<Rightarrow> (unit, ('b, 'x) ast) act" where
  "SignProviderAttributes E msg =
     bind (AccAddressFromBech32 E (sign_Auditor msg)) (\<lambda>auditor.
     bind (AccAddressFromBech32 E (sign_Owner msg)) (\<lambda>owner.
     CreateOrUpdateProviderAttributes E \<lparr>au_Owner = owner, au_Auditor = auditor\<rparr> (sign_Attributes msg)))"

definition DeleteProviderAttributes :: "'b env \<Rightarrow> msg_delete_attributes \<Rightarrow> (unit, ('b, 'x) ast) act" where
  "DeleteProviderAttributes E msg =
     bind (AccAddressFromBech32 E (del_Auditor msg)) (\<lambda>auditor.
     bind (AccAddressFromBech32 E (del_Owner msg)) (\<lambda>owner.
     Audit_DeleteProviderAttributes E \<lparr>au_Owner = owner, au_Auditor = auditor\<rparr> (del_Keys msg)))"

end
