(* ===== verification/Market.thy ===== *)
theory Market
  imports Auditing
begin

text \<open>
  The market module: orders, bids and leases (\<^verbatim>\<open>x/market/types/types.go\<close>) and the keeper
  (\<^verbatim>\<open>x/market/keeper/keeper.go\<close>).  The keeper calls the escrow keeper, so the operations
  that do take the hooks registered there.

  An iterator (\<^verbatim>\<open>WithOrders\<close> and its like) runs over the entries the store has when it is
  created; \<open>each\<close> over \<open>kv_iter\<close> is that loop.
\<close>

subsection \<open>Objects\<close>

datatype order_state = OrderStateInvalid | OrderOpen | OrderActive | OrderClosed

datatype bid_state = BidStateInvalid | BidOpen | BidActive | BidLost | BidClosed

datatype lease_state = LeaseStateInvalid | LeaseActive | LeaseInsufficientFunds | LeaseClosed

record order =
  ord_ID :: order_id
  ord_State :: order_state
  ord_Spec :: group_spec
  ord_CreatedAt :: int

record bid =
  bd_ID :: bid_id
  bd_State :: bid_state
  bd_Price :: coin
  bd_CreatedAt :: int

record lease =
  ls_ID :: lease_id
  ls_State :: lease_state
  ls_Price :: coin
  ls_CreatedAt :: int

record market_params =
  BidMinDeposit :: coin
  OrderMaxBids :: "32 word"

record 'b market_state = "'b audit_state" +
  orders :: "order kv"
  bids :: "bid kv"
  leases :: "lease kv"
  marketParams :: market_params

type_synonym ('b, 'x) mst = "('b, 'x) market_state_scheme"

type_synonym ('b, 'x) mhooks =
  "('b, 'x market_state_ext audit_state_ext provider_state_ext deployment_state_ext) hooks"

definition Order_ValidateCanBid :: "order \<Rightarrow> error + unit" where
  "Order_ValidateCanBid o' = (case ord_State o' of
     OrderOpen \<Rightarrow> Inr ()
   | OrderActive \<Rightarrow> Inl (Market ErrOrderActive)
   | _ \<Rightarrow> Inl (Market ErrOrderClosed))"

definition Order_ValidateInactive :: "order \<Rightarrow> error + unit" where
  "Order_ValidateInactive o' = (case ord_State o' of
     OrderClosed \<Rightarrow> Inr ()
   | OrderActive \<Rightarrow> Inl (Market ErrOrderActive)
   | _ \<Rightarrow> Inl (Market ErrOrderClosed))"

definition Order_Price :: "'b env \<Rightarrow> order \<Rightarrow> coin option option" where
  "Order_Price E o' = GroupSpec_Price E (ord_Spec o')"

definition Order_MatchAttributes :: "order \<Rightarrow> attribute list \<Rightarrow> bool" where
  "Order_MatchAttributes o' attrs = GroupSpec_MatchAttributes (ord_Spec o') attrs"

definition Order_MatchRequirements :: "order \<Rightarrow> audit_provider list \<Rightarrow> bool option" where
  "Order_MatchRequirements o' prov = GroupSpec_MatchRequirements (ord_Spec o') prov"

subsection \<open>Query filters\<close>

record order_filters =
  of_Owner :: string
  of_DSeq :: "64 word"
  of_GSeq :: "32 word"
  of_OSeq :: "32 word"

definition OrderFilters_Accept :: "order_filters \<Rightarrow> order \<Rightarrow> order_state \<Rightarrow> bool" where
  "OrderFilters_Accept f obj stateVal =
     (if of_Owner f \<noteq> [] \<and> of_Owner f \<noteq> oid_Owner (ord_ID obj) then False
      else if of_DSeq f \<noteq> 0 \<and> of_DSeq f \<noteq> oid_DSeq (ord_ID obj) then False
      else if of_GSeq f \<noteq> 0 \<and> of_GSeq f \<noteq> oid_GSeq (ord_ID obj) then False
      else if of_OSeq f \<noteq> 0 \<and> of_OSeq f \<noteq> oid_OSeq (ord_ID obj) then False
      else if stateVal \<noteq> OrderStateInvalid \<and> stateVal \<noteq> ord_State obj then False
      else True)"

record bid_filters =
  bf_Owner :: string
  bf_DSeq :: "64 word"
  bf_GSeq :: "32 word"
  bf_OSeq :: "32 word"
  bf_Provider :: string

definition BidFilters_Accept :: "bid_filters \<Rightarrow> bid \<Rightarrow> bid_state \<Rightarrow> bool" where
  "BidFilters_Accept f obj stateVal =
     (if bf_Owner f \<noteq> [] \<and> bf_Owner f \<noteq> bid_Owner (bd_ID obj) then False
      else if bf_DSeq f \<noteq> 0 \<and> bf_DSeq f \<noteq> bid_DSeq (bd_ID obj) then False
      else if bf_GSeq f \<noteq> 0 \<and> bf_GSeq f \<noteq> bid_GSeq (bd_ID obj) then False
      else if bf_OSeq f \<noteq> 0 \<and> bf_OSeq f \<noteq> bid_OSeq (bd_ID obj) then False
      else if bf_Provider f \<noteq> [] \<and> bf_Provider f \<noteq> bid_Provider (bd_ID obj) then False
      else if stateVal \<noteq> BidStateInvalid \<and> stateVal \<noteq> bd_State obj then False
      else True)"

definition LeaseFilters_Accept :: "bid_filters \<Rightarrow> lease \<Rightarrow> lease_state \<Rightarrow> bool" where
  "LeaseFilters_Accept f obj stateVal =
     (if bf_Owner f \<noteq> [] \<and> bf_Owner f \<noteq> bid_Owner (ls_ID obj) then False
      else if bf_DSeq f \<noteq> 0 \<and> bf_DSeq f \<noteq> bid_DSeq (ls_ID obj) then False
      else if bf_GSeq f \<noteq> 0 \<and> bf_GSeq f \<noteq> bid_GSeq (ls_ID obj) then False
      else if bf_OSeq f \<noteq> 0 \<and> bf_OSeq f \<noteq> bid_OSeq (ls_ID obj) then False
      else if bf_Provider f \<noteq> [] \<and> bf_Provider f \<noteq> bid_Provider (ls_ID obj) then False
      else if stateVal \<noteq> LeaseStateInvalid \<and> stateVal \<noteq> ls_State obj then False
      else True)"

subsection \<open>Parameters\<close>

definition Market_DefaultParams :: market_params where
  "Market_DefaultParams = \<lparr>BidMinDeposit = \<lparr>Denom = ''uve'', Amount = 50000000\<rparr>, OrderMaxBids = 20\<rparr>"

definition validateOrderMaxBids :: "32 word \<Rightarrow> error + unit" where
  "validateOrderMaxBids val =
     (if val = 0 then Inl (Market market_error.ErrInvalidParam)
      else if val > 500 then Inl (Market market_error.ErrInvalidParam)
      else Inr ())"

definition MarketParams_Validate :: "market_params \<Rightarrow> error + unit" where
  "MarketParams_Validate p = validateOrderMaxBids (OrderMaxBids p)"

definition Market_GetParams :: "(market_params, ('b, 'x) mst) act" where
  "Market_GetParams = gets marketParams"

definition Market_SetParams :: "market_params \<Rightarrow> (unit, ('b, 'x) mst) act" where
  "Market_SetParams p = modify (\<lambda>s. s\<lparr>marketParams := p\<rparr>)"

definition Market_InitGenesis :: "market_params \<Rightarrow> (unit, ('b, 'x) mst) act" where
  "Market_InitGenesis p = Market_SetParams p"

definition Market_ExportGenesis :: "('b, 'x) mst \<Rightarrow> market_params" where
  "Market_ExportGenesis s = marketParams s"

subsection \<open>Reading and writing\<close>

definition GetOrder :: "order_id \<Rightarrow> (order option, ('b, 'x) mst) act" where
  "GetOrder i = gets (\<lambda>s. kv_get (orders s) (orderKey i))"

definition GetBid :: "bid_id \<Rightarrow> (bid option, ('b, 'x) mst) act" where
  "GetBid i = gets (\<lambda>s. kv_get (bids s) (bidKey i))"

definition GetLease :: "lease_id \<Rightarrow> (lease option, ('b, 'x) mst) act" where
  "GetLease i = gets (\<lambda>s. kv_get (leases s) (leaseKey i))"

definition updateOrder :: "order \<Rightarrow> (unit, ('b, 'x) mst) act" where
  "updateOrder o' = modify (\<lambda>s. s\<lparr>orders := kv_set (orderKey (ord_ID o')) o' (orders s)\<rparr>)"

definition updateBid :: "bid \<Rightarrow> (unit, ('b, 'x) mst) act" where
  "updateBid b = modify (\<lambda>s. s\<lparr>bids := kv_set (bidKey (bd_ID b)) b (bids s)\<rparr>)"

definition updateLease :: "lease \<Rightarrow> (unit, ('b, 'x) mst) act" where
  "updateLease l = modify (\<lambda>s. s\<lparr>leases := kv_set (leaseKey (ls_ID l)) l (leases s)\<rparr>)"

definition WithOrders :: "('b, 'x) mst \<Rightarrow> order list" where
  "WithOrders s = kv_iter [CHR 0x01, CHR 0x00] (orders s)"

definition WithBids :: "('b, 'x) mst \<Rightarrow> bid list" where
  "WithBids s = kv_iter [CHR 0x02, CHR 0x00] (bids s)"

definition WithLeases :: "('b, 'x) mst \<Rightarrow> lease list" where
  "WithLeases s = kv_iter [CHR 0x03, CHR 0x00] (leases s)"

definition WithOrdersForGroup :: "group_id \<Rightarrow> ('b, 'x) mst \<Rightarrow> order list" where
  "WithOrdersForGroup i s = kv_iter (ordersForGroupPrefix i) (orders s)"

definition WithBidsForOrder :: "order_id \<Rightarrow> ('b, 'x) mst \<Rightarrow> bid list" where
  "WithBidsForOrder i s = kv_iter (bidsForOrderPrefix i) (bids s)"

definition BidCountForOrder :: "order_id \<Rightarrow> (32 word, ('b, 'x) mst) act" where
  "BidCountForOrder i = gets (\<lambda>s. of_nat (length (kv_iter (bidsForOrderPrefix i) (bids s))))"

primrec lease_for_order :: "order_id \<Rightarrow> bid list \<Rightarrow> (lease option, ('b, 'x) mst) act" where
  "lease_for_order i [] = ret None"
| "lease_for_order i (item # items) =
     (if \<not> OrderID_Equals (BidID_OrderID (bd_ID item)) i then lease_for_order i items
      else if bd_State item \<noteq> BidActive then lease_for_order i items
      else GetLease (bd_ID item))"

definition LeaseForOrder :: "order_id \<Rightarrow> (lease option, ('b, 'x) mst) act" where
  "LeaseForOrder i = bind (gets (WithBidsForOrder i)) (lease_for_order i)"

subsection \<open>Operations\<close>

primrec next_oseq :: "32 word \<Rightarrow> order list \<Rightarrow> error + 32 word" where
  "next_oseq oseq [] = Inr oseq"
| "next_oseq oseq (o' # os) =
     (case Order_ValidateInactive o' of Inl e \<Rightarrow> Inl e | Inr _ \<Rightarrow> next_oseq (oseq + 1) os)"

definition CreateOrder :: "'b env \<Rightarrow> group_id \<Rightarrow> group_spec \<Rightarrow> (order, ('b, 'x) mst) act" where
  "CreateOrder E gid spec =
     bind (gets (WithOrdersForGroup gid)) (\<lambda>os.
     bind (or_throw (next_oseq 1 os)) (\<lambda>oseq.
     let order = \<lparr>ord_ID = MakeOrderID gid oseq, ord_State = OrderOpen, ord_Spec = spec,
                  ord_CreatedAt = BlockHeight E\<rparr> in
     bind (gets (\<lambda>s. kv_has (orders s) (orderKey (ord_ID order)))) (\<lambda>has.
     bind (check (\<not> has) (Market ErrOrderExists)) (\<lambda>_.
     bind (updateOrder order) (\<lambda>_.
     bind (emit (EventOrderCreated (ord_ID order))) (\<lambda>_.
     ret order))))))"

definition Keeper_CreateBid :: "'b env \<Rightarrow> order_id \<Rightarrow> string \<Rightarrow> coin \<Rightarrow> (bid, ('b, 'x) mst) act" where
  "Keeper_CreateBid E oid provider price =
     (let b = \<lparr>bd_ID = MakeBidID E oid provider, bd_State = BidOpen, bd_Price = price,
               bd_CreatedAt = BlockHeight E\<rparr> in
      bind (gets (\<lambda>s. kv_has (bids s) (bidKey (bd_ID b)))) (\<lambda>has.
      bind (check (\<not> has) (Market ErrBidExists)) (\<lambda>_.
      bind (updateBid b) (\<lambda>_.
      bind (emit (EventBidCreated (bd_ID b) price)) (\<lambda>_.
      ret b)))))"

definition Keeper_CreateLease :: "'b env \<Rightarrow> bid \<Rightarrow> (unit, ('b, 'x) mst) act" where
  "Keeper_CreateLease E b =
     (let l = \<lparr>ls_ID = MakeLeaseID (bd_ID b), ls_State = LeaseActive, ls_Price = bd_Price b,
               ls_CreatedAt = BlockHeight E\<rparr> in
      bind (updateLease l) (\<lambda>_.
      emit (EventLeaseCreated (ls_ID l) (ls_Price l))))"

definition OnOrderMatched :: "order \<Rightarrow> (unit, ('b, 'x) mst) act" where
  "OnOrderMatched o' = updateOrder (o'\<lparr>ord_State := OrderActive\<rparr>)"

definition OnBidMatched :: "bid \<Rightarrow> (unit, ('b, 'x) mst) act" where
  "OnBidMatched b = updateBid (b\<lparr>bd_State := BidActive\<rparr>)"

definition OnBidLost :: "bid \<Rightarrow> (unit, ('b, 'x) mst) act" where
  "OnBidLost b = updateBid (b\<lparr>bd_State := BidLost\<rparr>)"

text \<open>The error of \<^verbatim>\<open>AccountClose\<close> is ignored here.\<close>

definition OnBidClosed :: "'b env \<Rightarrow> ('b, 'x) mhooks \<Rightarrow> bid \<Rightarrow> (unit, ('b, 'x) mst) act" where
  "OnBidClosed E H b =
     (if bd_State b = BidClosed \<or> bd_State b = BidLost then ret () else
      let b = b\<lparr>bd_State := BidClosed\<rparr> in
      bind (updateBid b) (\<lambda>_.
      bind (attempt (AccountClose E H (EscrowAccountForBid (bd_ID b)))) (\<lambda>_.
      emit (EventBidClosed (bd_ID b) (bd_Price b)))))"

definition OnOrderClosed :: "order \<Rightarrow> (unit, ('b, 'x) mst) act" where
  "OnOrderClosed o' =
     (if ord_State o' = OrderClosed then ret () else
      let o' = o'\<lparr>ord_State := OrderClosed\<rparr> in
      bind (updateOrder o') (\<lambda>_.
      emit (EventOrderClosed (ord_ID o'))))"

definition OnLeaseClosed :: "lease \<Rightarrow> lease_state \<Rightarrow> (unit, ('b, 'x) mst) act" where
  "OnLeaseClosed l st =
     (if ls_State l = LeaseClosed \<or> ls_State l = LeaseInsufficientFunds then ret () else
      let l = l\<lparr>ls_State := st\<rparr> in
      bind (updateLease l) (\<lambda>_.
      emit (EventLeaseClosed (ls_ID l) (ls_Price l))))"

text \<open>The body of the inner loop of \<^verbatim>\<open>OnGroupClosed\<close>, for one bid; a failed
  \<^verbatim>\<open>PaymentClose\<close> is logged only.\<close>

definition group_closed_bid ::
  "'b env \<Rightarrow> ('b, 'x) mhooks \<Rightarrow> group_id \<Rightarrow> bid \<Rightarrow> (unit, ('b, 'x) mst) act" where
  "group_closed_bid E H i b =
     bind (OnBidClosed E H b) (\<lambda>_.
     bind (GetLease (MakeLeaseID (bd_ID b))) (\<lambda>l.
     case l of
       None \<Rightarrow> ret ()
     | Some lease \<Rightarrow>
         bind (OnLeaseClosed lease LeaseClosed) (\<lambda>_.
         bind (attempt (PaymentClose E H (EscrowAccountForDeployment (GroupID_DeploymentID i))
           (EscrowPaymentForLease (ls_ID lease)))) (\<lambda>_.
         ret ()))))"

definition OnGroupClosed :: "'b env \<Rightarrow> ('b, 'x) mhooks \<Rightarrow> group_id \<Rightarrow> (unit, ('b, 'x) mst) act" where
  "OnGroupClosed E H i =
     bind (gets (WithOrdersForGroup i)) (each (\<lambda>order.
       bind (OnOrderClosed order) (\<lambda>_.
       bind (gets (WithBidsForOrder (ord_ID order))) (each (group_closed_bid E H i)))))"

end
