(* ===== verification/Hooks.thy ===== *)
theory Hooks
  imports Market
begin

text \<open>
  The hooks the market registers with the escrow keeper (\<^verbatim>\<open>x/market/hooks/hooks.go\<close>), and
  how the application ties the keepers together (\<^verbatim>\<open>app/app_configure.go\<close>).

  A hook calls the market keeper, which calls the escrow keeper, which runs the hooks again:
  \<open>app_hooks E n\<close> unrolls that recursion to depth \<open>n\<close>, and depth 0 is
  \<open>out_of_fuel\<close>.  Theory \<open>Hooks_Fuel\<close> shows that three levels are enough.
\<close>

primrec close_groups ::
  "'b env \<Rightarrow> ('b, 'x) mhooks \<Rightarrow> group_state \<Rightarrow> group list \<Rightarrow> (unit, ('b, 'x) mst) act" where
  "close_groups E H gstate [] = ret ()"
| "close_groups E H gstate (g # gs) =
     bind (case ValidateClosable g of
         Inl _ \<Rightarrow> ret ()
       | Inr _ \<Rightarrow>
           bind (attempt (OnCloseGroup g gstate)) (\<lambda>_.
           OnGroupClosed E H (grp_ID g))) (\<lambda>_.
     close_groups E H gstate gs)"

definition OnEscrowAccountClosed ::
  "'b env \<Rightarrow> ('b, 'x) mhooks \<Rightarrow> account \<Rightarrow> (unit, ('b, 'x) mst) act" where
  "OnEscrowAccountClosed E H obj =
     (case DeploymentIDFromEscrowAccount E (acc_ID obj) of
        None \<Rightarrow> ret ()
      | Some i \<Rightarrow>
          bind (GetDeployment i) (\<lambda>d. case d of
            None \<Rightarrow> ret ()
          | Some deployment \<Rightarrow>
              if dep_State deployment \<noteq> DeploymentActive then ret () else
              bind (CloseDeployment deployment) (\<lambda>_.
              bind (GetGroups (dep_ID deployment)) (\<lambda>gs.
              close_groups E H
                (if acc_State obj = AccountOverdrawn then GroupInsufficientFunds else GroupClosed) gs))))"

definition OnEscrowPaymentClosed ::
  "'b env \<Rightarrow> ('b, 'x) mhooks \<Rightarrow> payment \<Rightarrow> (unit, ('b, 'x) mst) act" where
  "OnEscrowPaymentClosed E H obj =
     (case LeaseIDFromEscrowAccount E (pay_AccountID obj) (pay_PaymentID obj) of
        None \<Rightarrow> ret ()
      | Some i \<Rightarrow>
          bind (GetBid i) (\<lambda>b. case b of
            None \<Rightarrow> ret ()
          | Some bid \<Rightarrow>
              if bd_State bid \<noteq> BidActive then ret () else
              bind (GetOrder (BidID_OrderID i)) (\<lambda>o'. case o' of
                None \<Rightarrow> ret ()
              | Some order \<Rightarrow>
                  bind (GetLease i) (\<lambda>l. case l of
                    None \<Rightarrow> ret ()
                  | Some lease \<Rightarrow>
                      bind (OnOrderClosed order) (\<lambda>_.
                      bind (OnBidClosed E H bid) (\<lambda>_.
                      OnLeaseClosed lease
                        (if pay_State obj = PaymentOverdrawn then LeaseInsufficientFunds
                         else LeaseClosed)))))))"

primrec app_hooks :: "'b env \<Rightarrow> nat \<Rightarrow> ('b, 'x) mhooks" where
  "app_hooks E 0 =
     AddOnPaymentClosedHook (\<lambda>_. out_of_fuel) (AddOnAccountClosedHook (\<lambda>_. out_of_fuel) NewKeeper)"
| "app_hooks E (Suc n) =
     AddOnPaymentClosedHook (OnEscrowPaymentClosed E (app_hooks E n))
       (AddOnAccountClosedHook (OnEscrowAccountClosed E (app_hooks E n)) NewKeeper)"

lemma app_hooks_sets [simp]:
  "onAccountClosed (app_hooks E (Suc n)) = [OnEscrowAccountClosed E (app_hooks E n)]"
  "onPaymentClosed (app_hooks E (Suc n)) = [OnEscrowPaymentClosed E (app_hooks E n)]"
  "onAccountClosed (app_hooks E 0) = [\<lambda>_. out_of_fuel]"
  "onPaymentClosed (app_hooks E 0) = [\<lambda>_. out_of_fuel]"
  by (simp_all add: AddOnPaymentClosedHook_def AddOnAccountClosedHook_def NewKeeper_def)

declare app_hooks.simps [simp del]

end
