(* ===== verification/Handlers.thy ===== *)
theory Handlers
  imports Hooks
begin

text \<open>
  The messages of the deployment, market and provider modules, their stateless validation
  (\<^verbatim>\<open>types/msgs.go\<close>) and the message servers (\<^verbatim>\<open>handler/server.go\<close>).  The servers run
  on the keepers of the application: \<open>H\<close> stands for the hooks registered with the escrow
  keeper.
\<close>

subsection \<open>Messages\<close>

record msg_create_deployment =
  mcd_ID :: deployment_id
  mcd_Groups :: "group_spec list"
  mcd_Version :: string
  mcd_Deposit :: coin

record msg_deposit_deployment =
  mdd_ID :: deployment_id
  mdd_Amount :: coin

record msg_update_deployment =
  mud_ID :: deployment_id
  mud_Groups :: "group_spec list"
  mud_Version :: string

record msg_create_bid =
  mcb_Order :: order_id
  mcb_Provider :: string
  mcb_Price :: coin
  mcb_Deposit :: coin

definition ManifestVersionLength :: nat where
  "ManifestVersionLength = 32"

definition MsgCreateDeployment_ValidateBasic :: "'b env \<Rightarrow> msg_create_deployment \<Rightarrow> (unit, 's) act" where
  "MsgCreateDeployment_ValidateBasic E msg =
     bind (or_throw (DeploymentID_Validate E (mcd_ID msg))) (\<lambda>_.
     bind (check (mcd_Groups msg \<noteq> []) (Deployment ErrInvalidGroups)) (\<lambda>_.
     bind (check (mcd_Version msg \<noteq> []) (Deployment ErrEmptyVersion)) (\<lambda>_.
     bind (check (length (mcd_Version msg) = ManifestVersionLength) (Deployment ErrInvalidVersion)) (\<lambda>_.
     each (validateDeploymentGroup E) (mcd_Groups msg)))))"

definition MsgDepositDeployment_ValidateBasic :: "'b env \<Rightarrow> msg_deposit_deployment \<Rightarrow> error + unit" where
  "MsgDepositDeployment_ValidateBasic E msg =
     (case DeploymentID_Validate E (mdd_ID msg) of Inl e \<Rightarrow> Inl e | Inr _ \<Rightarrow>
      if coin_IsZero (mdd_Amount msg) then Inl (Deployment deployment_error.ErrInvalidDeposit) else Inr ())"

definition MsgUpdateDeployment_ValidateBasic :: "'b env \<Rightarrow> msg_update_deployment \<Rightarrow> error + unit" where
  "MsgUpdateDeployment_ValidateBasic E msg =
     (case DeploymentID_Validate E (mud_ID msg) of Inl e \<Rightarrow> Inl e | Inr _ \<Rightarrow>
      if mud_Version msg = [] then Inl (Deployment ErrEmptyVersion)
      else if length (mud_Version msg) \<noteq> ManifestVersionLength then Inl (Deployment ErrInvalidVersion)
      else Inr ())"

definition MsgCloseDeployment_ValidateBasic :: "'b env \<Rightarrow> deployment_id \<Rightarrow> error + unit" where
  "MsgCloseDeployment_ValidateBasic E i = DeploymentID_Validate E i"

definition MsgCloseGroup_ValidateBasic :: "'b env \<Rightarrow> group_id \<Rightarrow> error + unit" where
  "MsgCloseGroup_ValidateBasic E i = GroupID_Validate E i"

definition MsgPauseGroup_ValidateBasic :: "'b env \<Rightarrow> group_id \<Rightarrow> error + unit" where
  "MsgPauseGroup_ValidateBasic E i = GroupID_Validate E i"

definition MsgStartGroup_ValidateBasic :: "'b env \<Rightarrow> group_id \<Rightarrow> error + unit" where
  "MsgStartGroup_ValidateBasic E i = GroupID_Validate E i"

definition MsgCreateBid_ValidateBasic :: "'b env \<Rightarrow> msg_create_bid \<Rightarrow> error + unit" where
  "MsgCreateBid_ValidateBasic E msg =
     (case OrderID_Validate E (mcb_Order msg) of Inl e \<Rightarrow> Inl e | Inr _ \<Rightarrow>
     (case FromBech32 E (mcb_Provider msg) of None \<Rightarrow> Inl (Market ErrEmptyProvider) | Some provider \<Rightarrow>
     (case FromBech32 E (oid_Owner (mcb_Order msg)) of None \<Rightarrow> Inl (Market ErrInvalidBid) | Some owner \<Rightarrow>
      if provider = owner then Inl (Market ErrSameAccount)
      else if coin_IsZero (mcb_Price msg) then Inl (Market ErrBidZeroPrice)
      else Inr ())))"

definition MsgCloseBid_ValidateBasic :: "'b env \<Rightarrow> bid_id \<Rightarrow> error + unit" where
  "MsgCloseBid_ValidateBasic E i = BidID_Validate E i"

definition MsgCreateLease_ValidateBasic :: "'b env \<Rightarrow> bid_id \<Rightarrow> error + unit" where
  "MsgCreateLease_ValidateBasic E i = BidID_Validate E i"

definition MsgWithdrawLease_ValidateBasic :: "'b env \<Rightarrow> lease_id \<Rightarrow> error + unit" where
  "MsgWithdrawLease_ValidateBasic E i = LeaseID_Validate E i"

definition MsgCloseLease_ValidateBasic :: "'b env \<Rightarrow> lease_id \<Rightarrow> error + unit" where
  "MsgCloseLease_ValidateBasic E i = LeaseID_Validate E i"

subsection \<open>Deployment server\<close>

text \<open>An error that is wrapped into \<^verbatim>\<open>sentinel\<close>: only the sentinel stays.\<close>

definition wrap_error :: "error \<Rightarrow> ('a, 's) act \<Rightarrow> ('a, 's) act" where
  "wrap_error sentinel m =
     bind (attempt m) (\<lambda>r. case r of Inl _ \<Rightarrow> throw sentinel | Inr a \<Rightarrow> ret a)"

definition make_groups :: "'b env \<Rightarrow> deployment_id \<Rightarrow> group_spec list \<Rightarrow> group list" where
  "make_groups E i specs =
     map (\<lambda>(idx, spec). \<lparr>grp_ID = MakeGroupID i (of_nat (idx + 1)), grp_State = GroupOpen, grp_Spec = spec,
       grp_CreatedAt = BlockHeight E\<rparr>) (enumerate 0 specs)"

definition Msg_CreateDeployment :: "'b env \<Rightarrow> msg_create_deployment \<Rightarrow> (unit, ('b, 'x) mst) act" where
  "Msg_CreateDeployment E msg =
     bind (GetDeployment (mcd_ID msg)) (\<lambda>found.
     bind (check (found = None) (Deployment ErrDeploymentExists)) (\<lambda>_.
     bind Deployment_GetParams (\<lambda>params.
     let minDeposit = DeploymentMinDeposit params in
     bind (check (Denom minDeposit = Denom (mcd_Deposit msg)) (Deployment deployment_error.ErrInvalidDeposit)) (\<lambda>_.
     bind (check (\<not> Amount minDeposit > Amount (mcd_Deposit msg)) (Deployment deployment_error.ErrInvalidDeposit)) (\<lambda>_.
     let deployment = \<lparr>dep_ID = mcd_ID msg, dep_State = DeploymentActive, dep_Version = mcd_Version msg,
                       dep_CreatedAt = BlockHeight E\<rparr> in
     bind (wrap_error (Deployment ErrInvalidGroups) (ValidateDeploymentGroups E (mcd_Groups msg))) (\<lambda>_.
     let gs = make_groups E (dep_ID deployment) (mcd_Groups msg) in
     bind (wrap_error (Deployment deployment_error.ErrInternal) (Deployment_Create deployment gs)) (\<lambda>_.
     bind (each (\<lambda>g. bind (CreateOrder E (grp_ID g) (grp_Spec g)) (\<lambda>_. ret ())) gs) (\<lambda>_.
     bind (AccAddressFromBech32 E (did_Owner (dep_ID deployment))) (\<lambda>owner.
     AccountCreate E (EscrowAccountForDeployment (dep_ID deployment)) owner (mcd_Deposit msg))))))))))"

definition Msg_DepositDeployment :: "'b env \<Rightarrow> msg_deposit_deployment \<Rightarrow> (unit, ('b, 'x) mst) act" where
  "Msg_DepositDeployment E msg =
     bind (GetDeployment (mdd_ID msg)) (\<lambda>found.
     bind (found_or (Deployment ErrDeploymentNotFound) found) (\<lambda>deployment.
     bind (check (dep_State deployment = DeploymentActive) (Deployment ErrDeploymentClosed)) (\<lambda>_.
     AccountDeposit E (EscrowAccountForDeployment (mdd_ID msg)) (mdd_Amount msg))))"

definition Msg_UpdateDeployment :: "msg_update_deployment \<Rightarrow> (unit, ('b, 'x) mst) act" where
  "Msg_UpdateDeployment msg =
     bind (GetDeployment (mud_ID msg)) (\<lambda>found.
     bind (found_or (Deployment ErrDeploymentNotFound) found) (\<lambda>deployment.
     bind (check (dep_State deployment = DeploymentActive) (Deployment ErrDeploymentClosed)) (\<lambda>_.
     let deployment = (if mud_Version msg \<noteq> dep_Version deployment
                       then deployment\<lparr>dep_Version := mud_Version msg\<rparr> else deployment) in
     wrap_error (Deployment deployment_error.ErrInternal) (Deployment_Update deployment))))"

definition Msg_CloseDeployment ::
  "'b env \<Rightarrow> ('b, 'x) mhooks \<Rightarrow> deployment_id \<Rightarrow> (unit, ('b, 'x) mst) act" where
  "Msg_CloseDeployment E H i =
     bind (GetDeployment i) (\<lambda>found.
     bind (found_or (Deployment ErrDeploymentNotFound) found) (\<lambda>deployment.
     bind (check (dep_State deployment = DeploymentActive) (Deployment ErrDeploymentClosed)) (\<lambda>_.
     AccountClose E H (EscrowAccountForDeployment (dep_ID deployment)))))"

definition Msg_CloseGroup :: "'b env \<Rightarrow> ('b, 'x) mhooks \<Rightarrow> group_id \<Rightarrow> (unit, ('b, 'x) mst) act" where
  "Msg_CloseGroup E H i =
     bind (GetGroup i) (\<lambda>found.
     bind (found_or (Deployment deployment_error.ErrGroupNotFound) found) (\<lambda>g.
     bind (or_throw (ValidateClosable g)) (\<lambda>_.
     bind (OnCloseGroup g GroupClosed) (\<lambda>_.
     OnGroupClosed E H (grp_ID g)))))"

definition Msg_PauseGroup :: "'b env \<Rightarrow> ('b, 'x) mhooks \<Rightarrow> group_id \<Rightarrow> (unit, ('b, 'x) mst) act" where
  "Msg_PauseGroup E H i =
     bind (GetGroup i) (\<lambda>found.
     bind (found_or (Deployment deployment_error.ErrGroupNotFound) found) (\<lambda>g.
     bind (or_throw (ValidatePausable g)) (\<lambda>_.
     bind (OnPauseGroup g) (\<lambda>_.
     OnGroupClosed E H (grp_ID g)))))"

definition Msg_StartGroup :: "'b env \<Rightarrow> group_id \<Rightarrow> (unit, ('b, 'x) mst) act" where
  "Msg_StartGroup E i =
     bind (GetGroup i) (\<lambda>found.
     bind (found_or (Deployment deployment_error.ErrGroupNotFound) found) (\<lambda>g.
     bind (or_throw (ValidateStartable g)) (\<lambda>_.
     bind (OnStartGroup g) (\<lambda>_.
     bind (CreateOrder E (grp_ID g) (grp_Spec g)) (\<lambda>_. ret ())))))"

subsection \<open>Market server\<close>

text \<open>An order whose group has no resources has no price; comparing it panics.\<close>

definition Msg_CreateBid :: "'b env \<Rightarrow> msg_create_bid \<Rightarrow> (unit, ('b, 'x) mst) act" where
  "Msg_CreateBid E msg =
     bind Market_GetParams (\<lambda>params.
     let minDeposit = BidMinDeposit params in
     bind (check (Denom (mcb_Deposit msg) = Denom minDeposit) (Market market_error.ErrInvalidDeposit)) (\<lambda>_.
     bind (check (\<not> Amount minDeposit > Amount (mcb_Deposit msg)) (Market market_error.ErrInvalidDeposit)) (\<lambda>_.
     bind (BidCountForOrder (mcb_Order msg)) (\<lambda>count.
     bind (check (\<not> count > OrderMaxBids params) (Market ErrInvalidBid)) (\<lambda>_.
     bind (GetOrder (mcb_Order msg)) (\<lambda>found.
     bind (found_or (Market ErrOrderNotFound) found) (\<lambda>order.
     bind (or_throw (Order_ValidateCanBid order)) (\<lambda>_.
     bind (check (coin_IsValid E (mcb_Price msg)) (Market ErrBidInvalidPrice)) (\<lambda>_.
     bind (or_panic (Order_Price E order)) (\<lambda>price.
     bind (or_panic (case price of None \<Rightarrow> None | Some p \<Rightarrow> coin_IsLT p (mcb_Price msg))) (\<lambda>lt.
     bind (check (\<not> lt) (Market ErrBidOverOrder)) (\<lambda>_.
     bind (found_or (Market ErrEmptyProvider) (FromBech32 E (mcb_Provider msg))) (\<lambda>provider.
     bind (Provider_Get provider) (\<lambda>found.
     bind (found_or (Market ErrUnknownProvider) found) (\<lambda>prov.
     bind (GetProviderAttributes provider) (\<lambda>provAttr.
     let provAttr = \<lparr>ap_Owner = mcb_Provider msg, ap_Auditor = [], ap_Attributes = prov_Attributes prov\<rparr> #
           (case provAttr of None \<Rightarrow> [] | Some ps \<Rightarrow> ps) in
     bind (or_panic (Order_MatchRequirements order provAttr)) (\<lambda>matches.
     bind (check matches (Market ErrAttributeMismatch)) (\<lambda>_.
     bind (Keeper_CreateBid E (mcb_Order msg) provider (mcb_Price msg)) (\<lambda>b.
     AccountCreate E (EscrowAccountForBid (bd_ID b)) provider (mcb_Deposit msg))))))))))))))))))))"

definition Msg_CloseBid :: "'b env \<Rightarrow> ('b, 'x) mhooks \<Rightarrow> bid_id \<Rightarrow> (unit, ('b, 'x) mst) act" where
  "Msg_CloseBid E H i =
     bind (GetBid i) (\<lambda>found.
     bind (found_or (Market ErrUnknownBid) found) (\<lambda>b.
     bind (GetOrder (BidID_OrderID i)) (\<lambda>found.
     bind (found_or (Market ErrUnknownOrderForBid) found) (\<lambda>order.
     if bd_State b = BidOpen then OnBidClosed E H b else
     bind (GetLease (MakeLeaseID i)) (\<lambda>found.
     bind (found_or (Market ErrUnknownLeaseForBid) found) (\<lambda>lease.
     bind (check (ls_State lease = LeaseActive) (Market ErrLeaseNotActive)) (\<lambda>_.
     bind (check (bd_State b = BidActive) (Market ErrBidNotActive)) (\<lambda>_.
     bind (Deployment_OnBidClosed (OrderID_GroupID (ord_ID order))) (\<lambda>_.
     bind (OnLeaseClosed lease LeaseClosed) (\<lambda>_.
     bind (OnBidClosed E H b) (\<lambda>_.
     bind (OnOrderClosed order) (\<lambda>_.
     bind (attempt (PaymentClose E H (EscrowAccountForDeployment (BidID_DeploymentID (ls_ID lease)))
       (EscrowPaymentForLease (ls_ID lease)))) (\<lambda>_.
     ret ())))))))))))))"

definition Msg_WithdrawLease :: "'b env \<Rightarrow> ('b, 'x) mhooks \<Rightarrow> lease_id \<Rightarrow> (unit, ('b, 'x) mst) act" where
  "Msg_WithdrawLease E H i =
     bind (GetLease i) (\<lambda>found.
     bind (found_or (Market ErrUnknownLease) found) (\<lambda>_.
     PaymentWithdraw E H (EscrowAccountForDeployment (BidID_DeploymentID i)) (EscrowPaymentForLease i)))"

definition lost_bids :: "bid_id \<Rightarrow> ('b, 'x) mst \<Rightarrow> bid list" where
  "lost_bids i s =
     filter (\<lambda>b. \<not> BidID_Equals (bd_ID b) i \<and> bd_State b = BidOpen) (WithBidsForOrder (BidID_OrderID i) s)"

definition Msg_CreateLease :: "'b env \<Rightarrow> ('b, 'x) mhooks \<Rightarrow> bid_id \<Rightarrow> (unit, ('b, 'x) mst) act" where
  "Msg_CreateLease E H i =
     bind (GetBid i) (\<lambda>found.
     bind (found_or (Market ErrBidNotFound) found) (\<lambda>b.
     bind (check (bd_State b = BidOpen) (Market ErrBidNotOpen)) (\<lambda>_.
     bind (GetOrder (BidID_OrderID i)) (\<lambda>found.
     bind (found_or (Market ErrOrderNotFound) found) (\<lambda>order.
     bind (check (ord_State order = OrderOpen) (Market ErrOrderNotOpen)) (\<lambda>_.
     bind (GetGroup (OrderID_GroupID (ord_ID order))) (\<lambda>found.
     bind (found_or (Market market_error.ErrGroupNotFound) found) (\<lambda>g.
     bind (check (grp_State g = GroupOpen) (Market market_error.ErrGroupNotOpen)) (\<lambda>_.
     bind (AccAddressFromBech32 E (bid_Provider i)) (\<lambda>owner.
     bind (PaymentCreate E H (EscrowAccountForDeployment (BidID_DeploymentID i))
       (EscrowPaymentForLease (MakeLeaseID i)) owner (bd_Price b)) (\<lambda>_.
     bind (Keeper_CreateLease E b) (\<lambda>_.
     bind (OnOrderMatched order) (\<lambda>_.
     bind (OnBidMatched b) (\<lambda>_.
     bind (gets (lost_bids i)) (each (\<lambda>lb.
       bind (OnBidLost lb) (\<lambda>_.
       AccountClose E H (EscrowAccountForBid (bd_ID lb)))))))))))))))))))"

definition Msg_CloseLease :: "'b env \<Rightarrow> ('b, 'x) mhooks \<Rightarrow> lease_id \<Rightarrow> (unit, ('b, 'x) mst) act" where
  "Msg_CloseLease E H i =
     bind (GetOrder (BidID_OrderID i)) (\<lambda>found.
     bind (found_or (Market ErrOrderNotFound) found) (\<lambda>order.
     bind (check (ord_State order = OrderActive) (Market ErrOrderClosed)) (\<lambda>_.
     bind (GetBid i) (\<lambda>found.
     bind (found_or (Market ErrBidNotFound) found) (\<lambda>b.
     bind (check (bd_State b = BidActive) (Market ErrBidNotActive)) (\<lambda>_.
     bind (GetLease i) (\<lambda>found.
     bind (found_or (Market ErrLeaseNotFound) found) (\<lambda>lease.
     bind (check (ls_State lease = LeaseActive) (Market ErrOrderClosed)) (\<lambda>_.
     bind (OnLeaseClosed lease LeaseClosed) (\<lambda>_.
     bind (OnBidClosed E H b) (\<lambda>_.
     bind (OnOrderClosed order) (\<lambda>_.
     bind (PaymentClose E H (EscrowAccountForDeployment (BidID_DeploymentID (ls_ID lease)))
       (EscrowPaymentForLease (ls_ID lease))) (\<lambda>_.
     bind (Deployment_OnLeaseClosed (BidID_GroupID i)) (\<lambda>g.
     if grp_State g \<noteq> GroupOpen then ret () else
     bind (CreateOrder E (grp_ID g) (grp_Spec g)) (\<lambda>_. ret ())))))))))))))))"

subsection \<open>Provider server\<close>

definition Msg_CreateProvider ::
  "'b env \<Rightarrow> (string \<Rightarrow> url option) \<Rightarrow> provider \<Rightarrow> (unit, ('b, 'x) mst) act" where
  "Msg_CreateProvider E parse msg =
     bind (or_throw (MsgCreateProvider_ValidateBasic E parse msg)) (\<lambda>_.
     bind (AccAddressFromBech32 E (prov_Owner msg)) (\<lambda>owner.
     bind (Provider_Get owner) (\<lambda>found.
     bind (check (found = None) (ProviderErr ErrProviderExists)) (\<lambda>_.
     wrap_error (ProviderErr provider_error.ErrInternal) (Provider_Create E msg)))))"

primrec compatible_with_leases ::
  "string \<Rightarrow> attribute list \<Rightarrow> lease list \<Rightarrow> (unit, ('b, 'x) mst) act" where
  "compatible_with_leases owner attrs [] = ret ()"
| "compatible_with_leases owner attrs (l # ls) =
     (if owner = bid_Provider (ls_ID l) \<and> ls_State l = LeaseActive then
        bind (GetOrder (BidID_OrderID (ls_ID l))) (\<lambda>found.
        bind (found_or (ProviderErr provider_error.ErrInternal) found) (\<lambda>order.
        bind (check (Order_MatchAttributes order attrs) (ProviderErr ErrIncompatibleAttributes)) (\<lambda>_.
        compatible_with_leases owner attrs ls)))
      else compatible_with_leases owner attrs ls)"

definition Msg_UpdateProvider ::
  "'b env \<Rightarrow> (string \<Rightarrow> url option) \<Rightarrow> provider \<Rightarrow> (unit, ('b, 'x) mst) act" where
  "Msg_UpdateProvider E parse msg =
     bind (or_throw (MsgUpdateProvider_ValidateBasic E parse msg)) (\<lambda>_.
     bind (AccAddressFromBech32 E (prov_Owner msg)) (\<lambda>owner.
     bind (Provider_Get owner) (\<lambda>found.
     bind (found_or (ProviderErr provider_error.ErrProviderNotFound) found) (\<lambda>prov.
     bind (gets WithLeases) (\<lambda>ls.
     bind (compatible_with_leases (prov_Owner prov) (prov_Attributes msg) ls) (\<lambda>_.
     wrap_error (ProviderErr provider_error.ErrInternal) (Provider_Update E msg)))))))"

definition Msg_DeleteProvider :: "'b env \<Rightarrow> string \<Rightarrow> (unit, ('b, 'x) mst) act" where
  "Msg_DeleteProvider E o' =
     bind (AccAddressFromBech32 E o') (\<lambda>owner.
     bind (Provider_Get owner) (\<lambda>found.
     bind (check (found \<noteq> None) (ProviderErr provider_error.ErrProviderNotFound)) (\<lambda>_.
     throw (ProviderErr provider_error.ErrInternal))))"

end
