(* ===== verification/Chain_Inv.thy ===== *)
theory Chain_Inv
  imports Frame Escrow_Fuel Handlers
begin

text \<open>
  The invariant of the whole chain state, \<open>chain_inv\<close>: the escrow invariant, and in every
  other store each object lies under the key of its own identifier, whose addresses decode.  All
  keeper operations keep it, nested hook calls included, and all message servers.
\<close>

subsection \<open>Objects under their own keys\<close>

definition own_keys :: "('v \<Rightarrow> string) \<Rightarrow> ('v \<Rightarrow> bool) \<Rightarrow> 'v kv \<Rightarrow> bool" where
  "own_keys key P m \<longleftrightarrow> kv_ok m \<and> (\<forall>k v. kv_get m k = Some v \<longrightarrow> k = key v \<and> P v)"

lemma own_keys_set [intro]:
  "own_keys key P m \<Longrightarrow> P v \<Longrightarrow> k = key v \<Longrightarrow> own_keys key P (kv_set k v m)"
  by (auto simp: own_keys_def)

lemma own_keys_del [intro]: "own_keys key P m \<Longrightarrow> own_keys key P (kv_del k m)"
  by (auto simp: own_keys_def)

lemma own_keys_get:
  "own_keys key P m \<Longrightarrow> kv_get m k = Some v \<Longrightarrow> k = key v"
  "own_keys key P m \<Longrightarrow> kv_get m k = Some v \<Longrightarrow> P v"
  by (auto simp: own_keys_def)

lemma own_keys_iter:
  assumes "own_keys key P m" "v \<in> set (kv_iter pre m)"
  shows "P v" "kv_get m (key v) = Some v" "prefix pre (key v)"
  using assms kv_iter_member [of m v pre] by (auto simp: own_keys_def)

lemma own_keys_empty [simp]: "own_keys key P []"
  by (simp add: own_keys_def)

subsection \<open>The invariant\<close>

definition deployment_ok :: "'b env \<Rightarrow> deployment \<Rightarrow> bool" where
  "deployment_ok E d \<longleftrightarrow> decodable E (did_Owner (dep_ID d))"

definition group_ok :: "'b env \<Rightarrow> group \<Rightarrow> bool" where
  "group_ok E g \<longleftrightarrow> decodable E (gid_Owner (grp_ID g))"

definition order_ok :: "'b env \<Rightarrow> order \<Rightarrow> bool" where
  "order_ok E o' \<longleftrightarrow> decodable E (oid_Owner (ord_ID o'))"

definition bid_id_ok :: "'b env \<Rightarrow> bid_id \<Rightarrow> bool" where
  "bid_id_ok E i \<longleftrightarrow> decodable E (bid_Owner i) \<and> decodable E (bid_Provider i)"

definition store_inv :: "'b env \<Rightarrow> ('b, 'x) mst \<Rightarrow> bool" where
  "store_inv E s \<longleftrightarrow>
     own_keys (\<lambda>d. deploymentKey (dep_ID d)) (deployment_ok E) (deployments s) \<and>
     own_keys (\<lambda>g. groupKey (grp_ID g)) (group_ok E) (groups s) \<and>
     own_keys (\<lambda>o'. orderKey (ord_ID o')) (order_ok E) (orders s) \<and>
     own_keys (\<lambda>b. bidKey (bd_ID b)) (\<lambda>b. bid_id_ok E (bd_ID b)) (bids s) \<and>
     own_keys (\<lambda>l. leaseKey (ls_ID l)) (\<lambda>l. bid_id_ok E (ls_ID l)) (leases s)"

text \<open>A predicate on the stores of the other modules, as one on their part of the record.\<close>

definition others :: "(('b, 'x) mst \<Rightarrow> bool) \<Rightarrow>
  'x market_state_ext audit_state_ext provider_state_ext deployment_state_ext \<Rightarrow> bool" where
  "others P m = P (escrow_state.extend \<lparr>bank = undefined, events = [], accounts = [], payments = []\<rparr> m)"

lemma others_more:
  assumes "frame_ok P"
  shows "others P (escrow_state.more s) = P s"
proof -
  have "escrow_state.extend \<lparr>bank = undefined, events = [], accounts = [], payments = []\<rparr> (escrow_state.more s)
    = s\<lparr>bank := undefined, events := [], accounts := [], payments := []\<rparr>"
    by (cases s) (simp add: escrow_state.extend_def)
  then show ?thesis using assms by (simp add: others_def frame_ok_def)
qed

lemma store_inv_frame: "frame_ok (store_inv E)"
  by (simp add: frame_ok_def store_inv_def)

definition chain_inv :: "'b env \<Rightarrow> ('b \<Rightarrow> string \<Rightarrow> int) \<Rightarrow> ('b, 'x) mst \<Rightarrow> bool" where
  "chain_inv E bal s \<longleftrightarrow> escrow_inv E bal (\<lambda>_. True) s \<and> store_inv E s"

lemma escrow_inv_split:
  assumes "frame_ok P"
  shows "escrow_inv E bal (others P) s \<longleftrightarrow> escrow_inv E bal (\<lambda>_. True) s \<and> P s"
  by (auto simp: escrow_inv_def escrow_wf_def others_more [OF assms])

lemma chain_inv_eq: "chain_inv E bal = escrow_inv E bal (others (store_inv E))"
  by (simp add: fun_eq_iff chain_inv_def escrow_inv_split [OF store_inv_frame])

lemma escrow_inv_update [simp]:
  "escrow_inv E bal (\<lambda>_. True) (s\<lparr>deployments := a\<rparr>) = escrow_inv E bal (\<lambda>_. True) s"
  "escrow_inv E bal (\<lambda>_. True) (s\<lparr>groups := b\<rparr>) = escrow_inv E bal (\<lambda>_. True) s"
  "escrow_inv E bal (\<lambda>_. True) (s\<lparr>deploymentParams := c\<rparr>) = escrow_inv E bal (\<lambda>_. True) s"
  "escrow_inv E bal (\<lambda>_. True) (s'\<lparr>providers := d\<rparr>) = escrow_inv E bal (\<lambda>_. True) s'"
  "escrow_inv E bal (\<lambda>_. True) (s''\<lparr>audits := e\<rparr>) = escrow_inv E bal (\<lambda>_. True) s''"
  "escrow_inv E bal (\<lambda>_. True) (t\<lparr>orders := f\<rparr>) = escrow_inv E bal (\<lambda>_. True) t"
  "escrow_inv E bal (\<lambda>_. True) (t\<lparr>bids := g\<rparr>) = escrow_inv E bal (\<lambda>_. True) t"
  "escrow_inv E bal (\<lambda>_. True) (t\<lparr>leases := h\<rparr>) = escrow_inv E bal (\<lambda>_. True) t"
  "escrow_inv E bal (\<lambda>_. True) (t\<lparr>marketParams := i\<rparr>) = escrow_inv E bal (\<lambda>_. True) t"
  "escrow_inv E bal (\<lambda>_. True) (u\<lparr>events := j\<rparr>) = escrow_inv E bal (\<lambda>_. True) u"
  by (simp_all add: escrow_inv_def escrow_wf_def owed_def)

subsection \<open>Keeper operations that only touch their own store\<close>

named_theorems chain_rules \<open>operations that keep the chain invariant\<close>

lemma keeps_emit [chain_rules]: "keeps (chain_inv E bal) (emit ev)"
  unfolding emit_def by (rule keeps_modify) (simp add: chain_inv_def store_inv_def)

lemma keeps_reads [chain_rules]:
  "keeps I (GetDeployment d)" "keeps I (GetGroup g)" "keeps I (GetGroups d)" "keeps I (GetOrder o')"
  "keeps I (GetBid b)" "keeps I (GetLease l)" "keeps I Deployment_GetParams" "keeps I Market_GetParams"
  "keeps I (BidCountForOrder o')" "keeps I (Provider_Get p)" "keeps I (GetProviderByAuditor ai)"
  "keeps I (GetProviderAttributes p)" "keeps I (AccAddressFromBech32 E str)"
  by (simp_all add: GetDeployment_def GetGroup_def GetGroups_def GetOrder_def GetBid_def GetLease_def
    Deployment_GetParams_def Market_GetParams_def BidCountForOrder_def Provider_Get_def
    GetProviderByAuditor_def GetProviderAttributes_def AccAddressFromBech32_def keeps_basic)

lemma keeps_writes [chain_rules]:
  "deployment_ok E d \<Longrightarrow> keeps (chain_inv E bal) (setDeployment d)"
  "group_ok E g \<Longrightarrow> keeps (chain_inv E bal) (setGroup g)"
  "order_ok E o' \<Longrightarrow> keeps (chain_inv E bal) (updateOrder o')"
  "bid_id_ok E (bd_ID b) \<Longrightarrow> keeps (chain_inv E bal) (updateBid b)"
  "bid_id_ok E (ls_ID l) \<Longrightarrow> keeps (chain_inv E bal) (updateLease l)"
  unfolding setDeployment_def setGroup_def updateOrder_def updateBid_def updateLease_def
  by (auto intro!: keeps_modify simp: chain_inv_def store_inv_def)


lemma keeps_bind_found_or:
  "(\<And>a. x = Some a \<Longrightarrow> keeps I (f a)) \<Longrightarrow> keeps I (bind (found_or e x) f)"
  by (cases x) (simp_all add: keeps_basic)

lemma keeps_bind_or_throw:
  "(\<And>a. x = Inr a \<Longrightarrow> keeps I (f a)) \<Longrightarrow> keeps I (bind (or_throw x) f)"
  by (cases x) (simp_all add: keeps_basic)

lemma keeps_bind_or_panic:
  "(\<And>a. x = Some a \<Longrightarrow> keeps I (f a)) \<Longrightarrow> keeps I (bind (or_panic x) f)"
  by (cases x) (simp_all add: keeps_basic)

lemma keeps_bind_check: "(b \<Longrightarrow> keeps I (f ())) \<Longrightarrow> keeps I (bind (check b e) f)"
  by (cases b) (simp_all add: keeps_basic)

lemmas keeps_steps = keeps_bind_found_or keeps_bind_or_throw keeps_bind_or_panic keeps_bind_check

lemma keeps_bind_gets:
  "(\<And>s x. I s \<Longrightarrow> g s = x \<Longrightarrow> keeps I (f x)) \<Longrightarrow> keeps I (bind (gets g) f)"
  by (auto simp: keeps_def hoare_def act_defs split: outcome.splits)

text \<open>What a read from the stores gives, for the actions that follow it.\<close>

lemma read_deployment:
  assumes "\<And>d. (\<And>x. d = Some x \<Longrightarrow> deployment_ok E x \<and> dep_ID x = i) \<Longrightarrow> keeps (chain_inv E bal) (f d)"
  shows "keeps (chain_inv E bal) (bind (GetDeployment i) f)"
  unfolding GetDeployment_def
  by (rule keeps_bind_gets, rule assms) (auto simp: chain_inv_def store_inv_def dest: own_keys_get)

lemma read_group:
  assumes "\<And>g. (\<And>x. g = Some x \<Longrightarrow> group_ok E x \<and> grp_ID x = i) \<Longrightarrow> keeps (chain_inv E bal) (f g)"
  shows "keeps (chain_inv E bal) (bind (GetGroup i) f)"
  unfolding GetGroup_def
  by (rule keeps_bind_gets, rule assms) (auto simp: chain_inv_def store_inv_def dest: own_keys_get)

lemma read_groups:
  assumes "\<And>gs. (\<And>x. x \<in> set gs \<Longrightarrow> group_ok E x) \<Longrightarrow> keeps (chain_inv E bal) (f gs)"
  shows "keeps (chain_inv E bal) (bind (GetGroups i) f)"
  unfolding GetGroups_def
  by (rule keeps_bind_gets, rule assms) (auto simp: chain_inv_def store_inv_def dest: own_keys_iter)

lemma read_order:
  assumes "\<And>r. (\<And>x. r = Some x \<Longrightarrow> order_ok E x \<and> ord_ID x = i) \<Longrightarrow> keeps (chain_inv E bal) (f r)"
  shows "keeps (chain_inv E bal) (bind (GetOrder i) f)"
  unfolding GetOrder_def
  by (rule keeps_bind_gets, rule assms) (auto simp: chain_inv_def store_inv_def dest: own_keys_get)

lemma read_bid:
  assumes "\<And>b. (\<And>x. b = Some x \<Longrightarrow> bid_id_ok E (bd_ID x) \<and> bidKey (bd_ID x) = bidKey i) \<Longrightarrow> keeps (chain_inv E bal) (f b)"
  shows "keeps (chain_inv E bal) (bind (GetBid i) f)"
  unfolding GetBid_def
  by (rule keeps_bind_gets, rule assms) (auto simp: chain_inv_def store_inv_def dest: own_keys_get)

lemma read_lease:
  assumes "\<And>b. (\<And>x. b = Some x \<Longrightarrow> bid_id_ok E (ls_ID x) \<and> leaseKey (ls_ID x) = leaseKey i) \<Longrightarrow> keeps (chain_inv E bal) (f b)"
  shows "keeps (chain_inv E bal) (bind (GetLease i) f)"
  unfolding GetLease_def
  by (rule keeps_bind_gets, rule assms) (auto simp: chain_inv_def store_inv_def dest: own_keys_get)

lemma read_orders:
  assumes "\<And>os. (\<And>x. x \<in> set os \<Longrightarrow> order_ok E x) \<Longrightarrow> keeps (chain_inv E bal) (f os)"
  shows "keeps (chain_inv E bal) (bind (gets (WithOrdersForGroup i)) f)"
  by (rule keeps_bind_gets, rule assms)
    (auto simp: chain_inv_def store_inv_def WithOrdersForGroup_def dest: own_keys_iter)

lemma read_bids:
  assumes "\<And>bs. (\<And>x. x \<in> set bs \<Longrightarrow> bid_id_ok E (bd_ID x)) \<Longrightarrow> keeps (chain_inv E bal) (f bs)"
  shows "keeps (chain_inv E bal) (bind (gets (WithBidsForOrder i)) f)"
    "keeps (chain_inv E bal) (bind (gets (lost_bids j)) f)"
  by (rule keeps_bind_gets, rule assms,
    auto simp: chain_inv_def store_inv_def WithBidsForOrder_def lost_bids_def dest: own_keys_iter)+

lemmas chain_reads = read_deployment read_group read_groups read_order read_bid read_lease read_orders read_bids

lemma ok_update [simp]:
  "deployment_ok E (d\<lparr>dep_State := a\<rparr>) = deployment_ok E d" "deployment_ok E (d\<lparr>dep_Version := v\<rparr>) = deployment_ok E d"
  "group_ok E (g\<lparr>grp_State := b\<rparr>) = group_ok E g" "order_ok E (o'\<lparr>ord_State := c\<rparr>) = order_ok E o'"
  by (simp_all add: deployment_ok_def group_ok_def order_ok_def)

text \<open>Errors that are wrapped, and loops over values without state.\<close>

lemma keeps_wrap [chain_rules]: "keeps I m \<Longrightarrow> keeps I (wrap_error e m)"
  unfolding wrap_error_def by (intro keeps_rules)

lemma keeps_deployment_ops [chain_rules]:
  "deployment_ok E d \<Longrightarrow> (\<And>g. g \<in> set gs \<Longrightarrow> group_ok E g) \<Longrightarrow> keeps (chain_inv E bal) (Deployment_Create d gs)"
  "deployment_ok E d \<Longrightarrow> keeps (chain_inv E bal) (Deployment_Update d)"
  "deployment_ok E d \<Longrightarrow> keeps (chain_inv E bal) (CloseDeployment d)"
  "group_ok E g \<Longrightarrow> keeps (chain_inv E bal) (OnCloseGroup g st)"
  "group_ok E g \<Longrightarrow> keeps (chain_inv E bal) (OnPauseGroup g)"
  "group_ok E g \<Longrightarrow> keeps (chain_inv E bal) (OnStartGroup g)"
  unfolding Deployment_Create_def Deployment_Update_def CloseDeployment_def OnCloseGroup_def OnPauseGroup_def
    OnStartGroup_def Let_def
  by (auto intro!: keeps_rules chain_rules)

lemma keeps_Deployment_OnBidClosed [chain_rules]: "keeps (chain_inv E bal) (Deployment_OnBidClosed i)"
  unfolding Deployment_OnBidClosed_def by (auto intro!: read_group keeps_steps keeps_deployment_ops)

lemma keeps_market_ops [chain_rules]:
  "order_ok E o' \<Longrightarrow> keeps (chain_inv E bal) (OnOrderMatched o')"
  "order_ok E o' \<Longrightarrow> keeps (chain_inv E bal) (OnOrderClosed o')"
  "bid_id_ok E (bd_ID b) \<Longrightarrow> keeps (chain_inv E bal) (OnBidMatched b)"
  "bid_id_ok E (bd_ID b) \<Longrightarrow> keeps (chain_inv E bal) (OnBidLost b)"
  "bid_id_ok E (bd_ID b) \<Longrightarrow> keeps (chain_inv E bal) (Keeper_CreateLease E b)"
  "bid_id_ok E (ls_ID l) \<Longrightarrow> keeps (chain_inv E bal) (OnLeaseClosed l ls)"
  "decodable E (gid_Owner g) \<Longrightarrow> keeps (chain_inv E bal) (CreateOrder E g spec)"
  "decodable E (oid_Owner i) \<Longrightarrow> decodable E (AddrString E prov) \<Longrightarrow>
     keeps (chain_inv E bal) (Keeper_CreateBid E i prov price)"
  unfolding OnOrderMatched_def OnOrderClosed_def OnBidMatched_def OnBidLost_def Keeper_CreateLease_def
    OnLeaseClosed_def CreateOrder_def Keeper_CreateBid_def Let_def
  by (auto intro!: keeps_rules chain_rules simp: MakeLeaseID_def order_ok_def MakeOrderID_def bid_id_ok_def MakeBidID_def)

subsection \<open>Operations that reach the escrow keeper\<close>

text \<open>The hooks keep the chain invariant, provided the bank does what it promises.\<close>

locale chain_keeper = hooks_keep H "under (bank_laws E ModuleName bal) (chain_inv E bal)"
  for E :: "'b env" and bal :: "'b \<Rightarrow> string \<Rightarrow> int" and H :: "('b, 'x) mhooks"

sublocale chain_keeper \<subseteq> esc: escrow_keeper E bal "others (store_inv E)" H
  by unfold_locales (use account_hook payment_hook in \<open>simp_all add: chain_inv_eq\<close>)

context chain_keeper
begin

lemmas escrow_ops = esc.AccountClose_inv [folded chain_inv_eq] esc.PaymentClose_inv [folded chain_inv_eq]
  esc.PaymentWithdraw_inv [folded chain_inv_eq] esc.AccountDeposit_inv [folded chain_inv_eq]
  esc.AccountSettle_inv [folded chain_inv_eq]

lemma OnBidClosed_chain:
  "bank_laws E ModuleName bal \<Longrightarrow> bid_id_ok E (bd_ID b) \<Longrightarrow> keeps (chain_inv E bal) (OnBidClosed E H b)"
  unfolding OnBidClosed_def Let_def by (auto intro!: keeps_rules chain_rules escrow_ops)

lemma OnGroupClosed_chain:
  "bank_laws E ModuleName bal \<Longrightarrow> keeps (chain_inv E bal) (OnGroupClosed E H i)"
  unfolding OnGroupClosed_def group_closed_bid_def
  by (auto intro!: read_orders read_bids read_lease keeps_case_option keeps_each keeps_bind keeps_basic
    keeps_attempt chain_rules escrow_ops OnBidClosed_chain)

lemma close_groups_chain:
  "bank_laws E ModuleName bal \<Longrightarrow> (\<And>g. g \<in> set gs \<Longrightarrow> group_ok E g) \<Longrightarrow>
   keeps (chain_inv E bal) (close_groups E H st gs)"
  by (induction gs) (auto intro!: keeps_rules chain_rules OnGroupClosed_chain)

lemma account_hook_chain:
  "bank_laws E ModuleName bal \<Longrightarrow> keeps (chain_inv E bal) (OnEscrowAccountClosed E H a)"
  unfolding OnEscrowAccountClosed_def
  by (auto intro!: read_deployment read_groups keeps_case_option keeps_if keeps_basic
    keeps_bind [OF keeps_deployment_ops(3)] close_groups_chain)

lemma payment_hook_chain:
  "bank_laws E ModuleName bal \<Longrightarrow> keeps (chain_inv E bal) (OnEscrowPaymentClosed E H p)"
  unfolding OnEscrowPaymentClosed_def
  by (auto intro!: read_bid read_order read_lease keeps_case_option keeps_if keeps_basic
    keeps_bind [OF keeps_market_ops(2)] keeps_bind [OF OnBidClosed_chain] keeps_market_ops)

end

subsection \<open>The application's hooks\<close>

lemma app_hooks_keep: "chain_keeper E bal (app_hooks E n)"
proof (induction n)
  case 0
  show ?case by unfold_locales (simp_all add: keeps_basic)
next
  case (Suc n)
  note hooks = chain_keeper.account_hook_chain [OF Suc.IH] chain_keeper.payment_hook_chain [OF Suc.IH]
  show ?case by unfold_locales (simp_all add: keeps_under hooks)
qed

interpretation app: chain_keeper E bal "app_hooks E n" for E bal n
  by (rule app_hooks_keep)

subsection \<open>Message servers\<close>

lemma AccountCreate_chain:
  "bank_laws E ModuleName bal \<Longrightarrow> account_id_ok E i \<Longrightarrow> owner \<noteq> ModuleAddress E ModuleName \<Longrightarrow>
   FromBech32 E (AddrString E owner) = Some owner \<Longrightarrow> keeps (chain_inv E bal) (AccountCreate E i owner deposit)"
  unfolding chain_inv_eq by (rule app.esc.AccountCreate_inv) simp_all

lemma PaymentCreate_chain:
  "bank_laws E ModuleName bal \<Longrightarrow> decodable E (did_Owner d) \<Longrightarrow>
   keeps (chain_inv E bal) (PaymentCreate E (app_hooks E n) (EscrowAccountForDeployment d) pid owner rate)"
  unfolding chain_inv_eq by (rule app.esc.PaymentCreate_inv) (auto simp: payment_id_ok_def)

text \<open>The validation of groups reads and writes nothing.\<close>

lemma keeps_validate_unit: "keeps I (validateResourceUnit E u)"
  unfolding validateResourceUnit_def validateCPU_def validateMemory_def validateStorage_def
  by (intro keeps_rules)

lemma keeps_sum_limits: "keeps I (sum_limits E l rs)"
  by (induction rs arbitrary: l) (auto intro!: keeps_rules keeps_validate_unit simp: validateResourceGroup_def)

lemma keeps_pricing: "keeps I (group_pricing_loop E p rs)"
  by (induction rs arbitrary: p) (auto intro!: keeps_rules simp: validateUnitPricing_def)

lemma keeps_validate_group: "keeps I (validateDeploymentGroup E g)"
  unfolding validateDeploymentGroup_def ValidateResourceList_def validateGroupPricing_def validateOrderBidDuration_def
  by (intro keeps_rules keeps_sum_limits keeps_pricing)

lemma keeps_validation [chain_rules]: "keeps I (ValidateDeploymentGroups E gs)"
proof -
  have "keeps I (validate_groups_loop E names gs)" for names
    by (induction gs arbitrary: names) (auto intro!: keeps_rules keeps_validate_group)
  then show ?thesis by (auto simp: ValidateDeploymentGroups_def intro: keeps_rules)
qed

lemma group_ok_make: "decodable E (did_Owner i) \<Longrightarrow> g \<in> set (make_groups E i specs) \<Longrightarrow> group_ok E g"
  by (auto simp: make_groups_def group_ok_def MakeGroupID_def)

lemma addr_laws_string: "addr_laws E \<Longrightarrow> FromBech32 E s = Some a \<Longrightarrow> FromBech32 E (AddrString E a) = Some a"
  by (simp add: addr_laws_def)

lemma AccAddress_keeps:
  "(\<And>a. FromBech32 E str = Some a \<Longrightarrow> keeps I (f a)) \<Longrightarrow> keeps I (bind (AccAddressFromBech32 E str) f)"
  unfolding AccAddressFromBech32_def by (rule keeps_bind_found_or)

lemma account_id_ok_make [simp, intro]:
  "decodable E (did_Owner d) \<Longrightarrow> account_id_ok E (EscrowAccountForDeployment d)"
  "bid_id_ok E b \<Longrightarrow> account_id_ok E (EscrowAccountForBid b)"
  by (auto simp: account_id_ok_def payment_id_ok_def bid_id_ok_def)

lemma Msg_CreateDeployment_chain:
  assumes "bank_laws E ModuleName bal" "addr_laws E" "FromBech32 E (did_Owner (mcd_ID msg)) \<noteq> None"
    "FromBech32 E (did_Owner (mcd_ID msg)) \<noteq> Some (ModuleAddress E ModuleName)"
  shows "keeps (chain_inv E bal) (Msg_CreateDeployment E msg)"
  unfolding Msg_CreateDeployment_def Let_def using assms group_ok_make [of E "mcd_ID msg"]
  by (auto intro!: AccAddress_keeps keeps_rules chain_rules AccountCreate_chain addr_laws_string account_id_ok_make
    simp: deployment_ok_def decodable_def group_ok_def)

lemma Msg_CreateBid_chain:
  assumes "bank_laws E ModuleName bal" "addr_laws E"
    "FromBech32 E (mcb_Provider msg) \<noteq> Some (ModuleAddress E ModuleName)"
  shows "keeps (chain_inv E bal) (Msg_CreateBid E msg)"
proof -
  have key: "keeps (chain_inv E bal) (bind (Keeper_CreateBid E (mcb_Order msg) prov price) (\<lambda>b.
      AccountCreate E (EscrowAccountForBid (bd_ID b)) prov dep))"
    if "FromBech32 E (mcb_Provider msg) = Some prov" "decodable E (oid_Owner (mcb_Order msg))" for prov price dep
  proof (rule keeps_bind_post [where Q = "\<lambda>b. bd_ID b = MakeBidID E (mcb_Order msg) prov"])
    have prov: "FromBech32 E (AddrString E prov) = Some prov" using that assms(2) by (simp add: addr_laws_string)
    have "keeps (chain_inv E bal) (Keeper_CreateBid E (mcb_Order msg) prov price)"
      using that prov by (intro keeps_market_ops) (simp_all add: decodable_def)
    then show "hoare (chain_inv E bal) (Keeper_CreateBid E (mcb_Order msg) prov price)
        (\<lambda>b s. chain_inv E bal s \<and> bd_ID b = MakeBidID E (mcb_Order msg) prov) (chain_inv E bal)"
      by (auto simp: keeps_def hoare_def Keeper_CreateBid_def Let_def bind_Ok_iff emit_def updateBid_def act_defs
        split: outcome.splits if_splits)
    show "keeps (chain_inv E bal) (AccountCreate E (EscrowAccountForBid (bd_ID b)) prov dep)"
      if "bd_ID b = MakeBidID E (mcb_Order msg) prov" for b
      using that \<open>decodable E _\<close> prov assms \<open>FromBech32 E (mcb_Provider msg) = _\<close>
      by (intro AccountCreate_chain account_id_ok_make) (auto simp: bid_id_ok_def MakeBidID_def decodable_def)
  qed
  show ?thesis
    unfolding Msg_CreateBid_def Let_def
    by (auto intro!: keeps_bind [OF keeps_reads(8)] keeps_bind [OF keeps_reads(9)] keeps_bind [OF keeps_reads(10)]
      keeps_bind [OF keeps_reads(12)] keeps_steps read_order key simp: order_ok_def)
qed

lemma Msg_deployment_chain:
  assumes "bank_laws E ModuleName bal"
  shows "keeps (chain_inv E bal) (Msg_DepositDeployment E dmsg)" "keeps (chain_inv E bal) (Msg_UpdateDeployment umsg)"
    "keeps (chain_inv E bal) (Msg_CloseDeployment E (app_hooks E n) d)"
    "keeps (chain_inv E bal) (Msg_CloseGroup E (app_hooks E n) g)"
    "keeps (chain_inv E bal) (Msg_PauseGroup E (app_hooks E n) g)" "keeps (chain_inv E bal) (Msg_StartGroup E g)"
  unfolding Msg_DepositDeployment_def Msg_UpdateDeployment_def Msg_CloseDeployment_def Msg_CloseGroup_def
    Msg_PauseGroup_def Msg_StartGroup_def Let_def
  using assms
  by (auto intro!: read_deployment read_group keeps_steps app.escrow_ops app.OnGroupClosed_chain keeps_wrap
    keeps_bind [OF keeps_deployment_ops(4)] keeps_bind [OF keeps_deployment_ops(5)]
    keeps_bind [OF keeps_deployment_ops(6)] keeps_bind [OF keeps_market_ops(7)] keeps_deployment_ops keeps_basic
    simp: group_ok_def)

lemma Msg_CloseBid_chain:
  assumes "bank_laws E ModuleName bal"
  shows "keeps (chain_inv E bal) (Msg_CloseBid E (app_hooks E n) i)"
  unfolding Msg_CloseBid_def using assms
  by (auto intro!: read_bid read_order read_lease keeps_steps keeps_if app.OnBidClosed_chain
    keeps_bind [OF keeps_Deployment_OnBidClosed] keeps_bind [OF keeps_market_ops(6)]
    keeps_bind [OF app.OnBidClosed_chain] keeps_bind [OF keeps_market_ops(2)]
    keeps_bind [OF keeps_attempt] app.escrow_ops keeps_basic)

lemma Msg_WithdrawLease_chain:
  assumes "bank_laws E ModuleName bal"
  shows "keeps (chain_inv E bal) (Msg_WithdrawLease E (app_hooks E n) i)"
  unfolding Msg_WithdrawLease_def using assms by (auto intro!: read_lease keeps_steps app.escrow_ops)

lemma Msg_CreateLease_chain:
  assumes "bank_laws E ModuleName bal"
  shows "keeps (chain_inv E bal) (Msg_CreateLease E (app_hooks E n) i)"
proof -
  have owner: "order_ok E x \<Longrightarrow> ord_ID x = BidID_OrderID i \<Longrightarrow> decodable E (did_Owner (BidID_DeploymentID i))" for x
    by (simp add: order_ok_def id_defs)
  show ?thesis
    unfolding Msg_CreateLease_def using assms
    by (auto intro!: read_bid read_order read_group read_bids keeps_steps AccAddress_keeps
      keeps_bind [OF PaymentCreate_chain] keeps_bind [OF keeps_market_ops(5)] keeps_bind [OF keeps_market_ops(1)]
      keeps_bind [OF keeps_market_ops(3)] keeps_each keeps_bind [OF keeps_market_ops(4)] app.escrow_ops
      dest: owner)
qed

lemma Msg_CloseLease_chain:
  assumes "bank_laws E ModuleName bal"
  shows "keeps (chain_inv E bal) (Msg_CloseLease E (app_hooks E n) i)"
proof -
  have leave: "keeps (chain_inv E bal) (bind (Deployment_OnLeaseClosed j) (\<lambda>g.
      if grp_State g \<noteq> GroupOpen then ret () else
      bind (CreateOrder E (grp_ID g) (grp_Spec g)) (\<lambda>_. ret ())))" for j
    unfolding Deployment_OnLeaseClosed_def bind_assoc
    by (auto intro!: read_group keeps_steps keeps_market_ops(7) keeps_rules simp: group_ok_def)
  show ?thesis
    unfolding Msg_CloseLease_def using assms
    by (auto intro!: read_order read_bid read_lease keeps_steps keeps_bind [OF keeps_market_ops(6)]
      keeps_bind [OF app.OnBidClosed_chain] keeps_bind [OF keeps_market_ops(2)] keeps_bind [OF app.escrow_ops(2)] leave)
qed

lemma keeps_other_stores [chain_rules]:
  "keeps (chain_inv E bal) (modify (\<lambda>s. s\<lparr>providers := f s\<rparr>))"
  "keeps (chain_inv E bal) (modify (\<lambda>s. s\<lparr>audits := g s\<rparr>))"
  "keeps (chain_inv E bal) (modify (\<lambda>s. s\<lparr>deploymentParams := h s\<rparr>))"
  "keeps (chain_inv E bal) (modify (\<lambda>s. s\<lparr>marketParams := k s\<rparr>))"
  by (auto intro!: keeps_modify simp: chain_inv_def store_inv_def)

lemma keeps_compatible: "keeps I (compatible_with_leases owner attrs ls)"
  by (induction ls) (auto intro!: keeps_rules keeps_reads)

lemma Msg_provider_chain:
  "keeps (chain_inv E bal) (Msg_CreateProvider E parse p)" "keeps (chain_inv E bal) (Msg_UpdateProvider E parse p)"
  "keeps (chain_inv E bal) (Msg_DeleteProvider E o')"
  unfolding Msg_CreateProvider_def Msg_UpdateProvider_def Msg_DeleteProvider_def Provider_Create_def Provider_Update_def
  by (auto intro!: keeps_rules chain_rules keeps_compatible)

lemma Msg_audit_chain:
  "keeps (chain_inv E bal) (SignProviderAttributes E smsg)" "keeps (chain_inv E bal) (DeleteProviderAttributes E dmsg)"
  unfolding SignProviderAttributes_def DeleteProviderAttributes_def CreateOrUpdateProviderAttributes_def
    Audit_DeleteProviderAttributes_def Let_def
  by (auto intro!: keeps_rules chain_rules)

end
