(* ===== verification/Final.thy ===== *)
theory Final
  imports Chain_Inv
begin

text \<open>
  What the hooks of the application leave alone.  \<open>market_frame I\<close> is the contract of a predicate on the stores that every
  write of the market's closing operations keeps: to groups, orders, bids and leases; it is then kept by these operations and by the
  payment hook, and by all hooks to any depth if the account hook keeps it.  \<open>final_state I\<close> adds that closing a deployment keeps it,
  so that it is a state an object does not leave.  It is interpreted on a deployment that is not active, on a closed
  order and on a lease that is over.
\<close>

locale market_frame =
  fixes I :: "('b, 'x) mst \<Rightarrow> bool"
  assumes frame: "frame_ok I"
    and group_write: "keeps I (setGroup g)"
    and bid_write: "keeps I (updateBid b)"
    and order_write: "ord_State r = OrderClosed \<Longrightarrow> keeps I (updateOrder r)"
    and lease_write: "ls_State l \<noteq> LeaseActive \<Longrightarrow> keeps I (updateLease l)"
begin

lemma event_write: "keeps I (emit ev)"
  unfolding emit_def by (rule keeps_modify) (simp add: frame_okD [OF frame])

lemma market_closing:
  "keeps I (OnCloseGroup g gst)" "keeps I (OnPauseGroup g)" "keeps I (OnStartGroup g)"
  "keeps I (OnOrderClosed r)" "st \<noteq> LeaseActive \<Longrightarrow> keeps I (OnLeaseClosed l st)"
  unfolding OnCloseGroup_def OnPauseGroup_def OnStartGroup_def OnOrderClosed_def OnLeaseClosed_def Let_def
  by (auto intro!: keeps_rules event_write group_write bid_write order_write lease_write)

lemma market_ops:
  assumes "outside H I"
  shows "keeps I (OnBidClosed E H b)" "keeps I (group_closed_bid E H gi b)" "keeps I (OnGroupClosed E H gi)"
proof -
  note escrow = outside.escrow_frame [OF assms, of E]
  show bid: "keeps I (OnBidClosed E H b)" for b
    unfolding OnBidClosed_def Let_def by (auto intro!: keeps_rules event_write bid_write escrow)
  show step: "keeps I (group_closed_bid E H gi b)" for b
    unfolding group_closed_bid_def by (auto intro!: keeps_rules keeps_reads market_closing bid escrow)
  show "keeps I (OnGroupClosed E H gi)"
    unfolding OnGroupClosed_def by (auto intro!: keeps_rules market_closing step)
qed

lemma closing_groups:
  assumes "outside H I"
  shows "keeps I (close_groups E H st gs)"
  by (induction gs) (auto intro!: keeps_rules market_closing market_ops [OF assms])

lemma payment_hook:
  assumes "outside H I"
  shows "keeps I (OnEscrowPaymentClosed E H p)"
  unfolding OnEscrowPaymentClosed_def
  by (auto intro!: keeps_rules keeps_reads market_closing market_ops [OF assms])

lemma hooks_outside:
  assumes "\<And>H a. outside H I \<Longrightarrow> keeps I (OnEscrowAccountClosed E H a)"
  shows "outside (app_hooks E n) I"
proof (induction n)
  case 0
  show ?case by unfold_locales (simp_all add: keeps_basic frame)
next
  case (Suc n)
  show ?case by unfold_locales (simp_all add: assms [OF Suc.IH] payment_hook [OF Suc.IH] frame)
qed

end

locale final_state = market_frame I for I :: "('b, 'x) mst \<Rightarrow> bool" +
  assumes deployment_write: "dep_State d \<noteq> DeploymentActive \<Longrightarrow> keeps I (setDeployment d)"
    and provider_frame: "I (s\<lparr>providers := ps\<rparr>) = I s"
    and audit_frame: "I (s\<lparr>audits := as\<rparr>) = I s"
begin

lemmas writes = event_write group_write bid_write deployment_write order_write lease_write

lemma closing_ops:
  "keeps I (CloseDeployment d)" "keeps I (OnCloseGroup g gst)" "keeps I (OnPauseGroup g)" "keeps I (OnStartGroup g)"
  "keeps I (OnOrderClosed r)" "st \<noteq> LeaseActive \<Longrightarrow> keeps I (OnLeaseClosed l st)"
  unfolding CloseDeployment_def Let_def by (auto intro!: keeps_rules writes market_closing)

lemma account_closed_hook:
  assumes "outside H I"
  shows "keeps I (OnEscrowAccountClosed E H a)"
  unfolding OnEscrowAccountClosed_def by (auto intro!: keeps_rules keeps_reads closing_ops closing_groups [OF assms])

lemma app_hooks_outside: "outside (app_hooks E n) I"
  by (rule hooks_outside) (rule account_closed_hook)

end

sublocale final_state \<subseteq> hooks: outside "app_hooks E n" I for E n
  by (rule app_hooks_outside)

subsection \<open>A deployment that is not active\<close>

definition inactive :: "deployment_id \<Rightarrow> ('b, 'x) mst \<Rightarrow> bool" where
  "inactive d s \<longleftrightarrow> (case kv_get (deployments s) (deploymentKey d) of None \<Rightarrow> True | Some x \<Rightarrow> dep_State x \<noteq> DeploymentActive)"

lemma inactive_iff:
  "inactive d s \<longleftrightarrow> (\<forall>x. kv_get (deployments s) (deploymentKey d) = Some x \<longrightarrow> dep_State x \<noteq> DeploymentActive)"
  by (simp add: inactive_def split: option.splits)

interpretation closed: final_state "inactive d" for d
  by unfold_locales
    (auto intro!: keeps_modify simp: frame_ok_def inactive_def setGroup_def updateOrder_def updateBid_def
      updateLease_def setDeployment_def kv_get_set split: if_splits option.splits)

subsection \<open>A closed deployment\<close>

definition deployment_over :: "deployment_id \<Rightarrow> ('b, 'x) mst \<Rightarrow> bool" where
  "deployment_over d s \<longleftrightarrow> (case kv_get (deployments s) (deploymentKey d) of None \<Rightarrow> False | Some x \<Rightarrow> dep_State x \<noteq> DeploymentActive)"

lemma deployment_over_iff:
  "deployment_over d s \<longleftrightarrow> (\<exists>x. kv_get (deployments s) (deploymentKey d) = Some x \<and> dep_State x \<noteq> DeploymentActive)"
  by (simp add: deployment_over_def split: option.splits)

interpretation ended: final_state "deployment_over d" for d
  by unfold_locales
    (auto intro!: keeps_modify simp: frame_ok_def deployment_over_def setGroup_def updateOrder_def updateBid_def
      updateLease_def setDeployment_def kv_get_set split: if_splits option.splits)

subsection \<open>A closed order\<close>

definition order_done :: "order_id \<Rightarrow> ('b, 'x) mst \<Rightarrow> bool" where
  "order_done i s \<longleftrightarrow> map_option ord_State (kv_get (orders s) (orderKey i)) = Some OrderClosed"

interpretation finished: final_state "order_done i" for i
  by unfold_locales
    (auto intro!: keeps_modify simp: frame_ok_def order_done_def setGroup_def updateOrder_def updateBid_def
      updateLease_def setDeployment_def kv_get_set split: if_splits option.splits)

subsection \<open>A lease that is over\<close>

definition lease_over :: "lease_id \<Rightarrow> ('b, 'x) mst \<Rightarrow> bool" where
  "lease_over i s \<longleftrightarrow> (case kv_get (leases s) (leaseKey i) of None \<Rightarrow> False | Some l \<Rightarrow> ls_State l \<noteq> LeaseActive)"

lemma lease_over_iff:
  "lease_over i s \<longleftrightarrow> (\<exists>l. kv_get (leases s) (leaseKey i) = Some l \<and> ls_State l \<noteq> LeaseActive)"
  by (simp add: lease_over_def split: option.splits)

interpretation over: final_state "lease_over i" for i
  by unfold_locales
    (auto intro!: keeps_modify simp: frame_ok_def lease_over_def setGroup_def updateOrder_def updateBid_def
      updateLease_def setDeployment_def kv_get_set split: if_splits option.splits)

end
