(* ===== verification/Hooks_Fuel.thy ===== *)
theory Hooks_Fuel
  imports Final Escrow_Fuel
begin

text \<open>
  Three levels of nested hooks are enough.  Closing the account of a bid runs hooks that do
  nothing (level 1); the payment hook closes such an account (level 2); the account hook closes a
  deployment and then its groups, whose payments settle the same account again, but the nested
  account hook finds the deployment already closed (level 3).
\<close>

lemma frame_ok_conj: "frame_ok P \<Longrightarrow> frame_ok Q \<Longrightarrow> frame_ok (\<lambda>s. P s \<and> Q s)"
  by (simp add: frame_ok_def)

subsection \<open>The invariant with a closed deployment\<close>

definition chain_closed :: "'b env \<Rightarrow> ('b \<Rightarrow> string \<Rightarrow> int) \<Rightarrow> deployment_id \<Rightarrow> ('b, 'x) mst \<Rightarrow> bool" where
  "chain_closed E bal d s \<longleftrightarrow> chain_inv E bal s \<and> inactive d s"

lemma chain_closed_eq: "chain_closed E bal d = escrow_inv E bal (others (\<lambda>s. store_inv E s \<and> inactive d s))"
  by (simp add: fun_eq_iff chain_closed_def chain_inv_def escrow_inv_split frame_ok_conj store_inv_frame closed.frame)

lemma keeps_closed:
  "keeps (chain_inv E bal) m \<Longrightarrow> keeps (inactive d) m \<Longrightarrow> keeps (chain_closed E bal d) m"
  using keeps_conj [of "chain_inv E bal" m "inactive d"] by (simp add: chain_closed_def [abs_def])

interpretation closing: escrow_keeper E bal "others (\<lambda>s. store_inv E s \<and> inactive d s)" "app_hooks E n" for E bal d n
  by (unfold_locales; simp only: keeps_under chain_closed_eq [symmetric])
    (auto intro: keeps_closed app.esc.lawful_hook [folded chain_inv_eq] closed.hooks.account_hook closed.hooks.payment_hook)

subsection \<open>Level 1: bids\<close>

lemma fueled_writes [fueled_rules]:
  "fueled P (setDeployment d)" "fueled P (setGroup g)" "fueled P (updateOrder o')" "fueled P (updateBid b)"
  "fueled P (updateLease l)" "fueled P (GetDeployment di)" "fueled P (GetGroup gi)" "fueled P (GetGroups di)"
  "fueled P (GetOrder oi)" "fueled P (GetBid bi)" "fueled P (GetLease bi)"
  by (simp_all add: fueled_def setDeployment_def setGroup_def updateOrder_def updateBid_def updateLease_def
    GetDeployment_def GetGroup_def GetGroups_def GetOrder_def GetBid_def GetLease_def modify_def gets_def)

lemma fueled_simple [fueled_rules]:
  "fueled P (CloseDeployment x)" "fueled P (OnCloseGroup g st)" "fueled P (OnOrderClosed o')"
  "fueled P (OnLeaseClosed l ls)"
  unfolding CloseDeployment_def OnCloseGroup_def OnOrderClosed_def OnLeaseClosed_def Let_def
  by (rule fueled_all, intro fueled_rules keeps_all)+

lemma bid_hooks_fueled: "hooks_fueled (app_hooks E (Suc n)) P (EscrowAccountForBid b)"
  by (simp add: hooks_fueled_def OnEscrowAccountClosed_def OnEscrowPaymentClosed_def
    DeploymentIDFromEscrowAccount_scope LeaseIDFromEscrowAccount_scope fueled_basic)

lemma bid_close_fueled:
  assumes "bank_laws E ModuleName bal" "addr_laws E" "bid_id_ok E b"
  shows "fueled (chain_inv E bal) (AccountClose E (app_hooks E (Suc n)) (EscrowAccountForBid b))"
  unfolding chain_inv_eq using assms by (intro app.esc.AccountClose_fueled bid_hooks_fueled) auto

lemma OnBidClosed_fueled:
  assumes "bank_laws E ModuleName bal" "addr_laws E" "bid_id_ok E (bd_ID b)"
  shows "fueled (chain_inv E bal) (OnBidClosed E (app_hooks E (Suc n)) b)"
  unfolding OnBidClosed_def Let_def
  using assms by (auto intro!: fueled_rules keeps_rules keeps_writes bid_close_fueled app.escrow_ops)

subsection \<open>Level 2: payments\<close>

lemma fueled_read:
  "(\<And>s x. I s \<Longrightarrow> f s = x \<Longrightarrow> fueled I (g x)) \<Longrightarrow> fueled I (bind (gets f) g)"
  by (auto simp: fueled_def bind_def gets_def)

lemma fueled_read_deployment:
  assumes I: "\<And>s. I s \<Longrightarrow> store_inv E s"
    and f: "\<And>r. (\<And>x. r = Some x \<Longrightarrow> deployment_ok E x \<and> dep_ID x = i) \<Longrightarrow> fueled I (f r)"
  shows "fueled I (bind (GetDeployment i) f)"
  unfolding GetDeployment_def by (rule fueled_read, rule f, drule I) (auto simp: store_inv_def dest: own_keys_get)

lemma fueled_read_group:
  assumes I: "\<And>s. I s \<Longrightarrow> store_inv E s"
    and f: "\<And>r. (\<And>x. r = Some x \<Longrightarrow> group_ok E x \<and> grp_ID x = i) \<Longrightarrow> fueled I (f r)"
  shows "fueled I (bind (GetGroup i) f)"
  unfolding GetGroup_def by (rule fueled_read, rule f, drule I) (auto simp: store_inv_def dest: own_keys_get)

lemma fueled_read_order:
  assumes I: "\<And>s. I s \<Longrightarrow> store_inv E s"
    and f: "\<And>r. (\<And>x. r = Some x \<Longrightarrow> order_ok E x \<and> ord_ID x = i) \<Longrightarrow> fueled I (f r)"
  shows "fueled I (bind (GetOrder i) f)"
  unfolding GetOrder_def by (rule fueled_read, rule f, drule I) (auto simp: store_inv_def dest: own_keys_get)

lemma fueled_read_bid:
  assumes I: "\<And>s. I s \<Longrightarrow> store_inv E s"
    and f: "\<And>r. (\<And>x. r = Some x \<Longrightarrow> bid_id_ok E (bd_ID x)) \<Longrightarrow> fueled I (f r)"
  shows "fueled I (bind (GetBid i) f)"
  unfolding GetBid_def by (rule fueled_read, rule f, drule I) (auto simp: store_inv_def dest: own_keys_get)

lemma fueled_read_lease:
  assumes I: "\<And>s. I s \<Longrightarrow> store_inv E s"
    and f: "\<And>r. (\<And>x. r = Some x \<Longrightarrow> bid_id_ok E (ls_ID x)) \<Longrightarrow> fueled I (f r)"
  shows "fueled I (bind (GetLease i) f)"
  unfolding GetLease_def by (rule fueled_read, rule f, drule I) (auto simp: store_inv_def dest: own_keys_get)

lemma fueled_read_groups:
  assumes I: "\<And>s. I s \<Longrightarrow> store_inv E s"
    and f: "\<And>r. (\<And>x. x \<in> set r \<Longrightarrow> group_ok E x \<and> prefix (groupsKey i) (groupKey (grp_ID x))) \<Longrightarrow> fueled I (f r)"
  shows "fueled I (bind (GetGroups i) f)"
  unfolding GetGroups_def by (rule fueled_read, rule f, drule I)
    (auto simp: store_inv_def  dest: own_keys_iter)

lemma fueled_read_orders:
  assumes I: "\<And>s. I s \<Longrightarrow> store_inv E s"
    and f: "\<And>r. (\<And>x. x \<in> set r \<Longrightarrow> order_ok E x) \<Longrightarrow> fueled I (f r)"
  shows "fueled I (bind (gets (WithOrdersForGroup i)) f)"
  by (rule fueled_read, rule f, drule I)
    (auto simp: store_inv_def WithOrdersForGroup_def dest: own_keys_iter)

lemma fueled_read_bids:
  assumes I: "\<And>s. I s \<Longrightarrow> store_inv E s"
    and f: "\<And>r. (\<And>x. x \<in> set r \<Longrightarrow> bid_id_ok E (bd_ID x)) \<Longrightarrow> fueled I (f r)"
  shows "fueled I (bind (gets (WithBidsForOrder i)) f)"
  by (rule fueled_read, rule f, drule I)
    (auto simp: store_inv_def WithBidsForOrder_def dest: own_keys_iter)

lemma fueled_read_lost:
  assumes I: "\<And>s. I s \<Longrightarrow> store_inv E s"
    and f: "\<And>r. (\<And>x. x \<in> set r \<Longrightarrow> bid_id_ok E (bd_ID x)) \<Longrightarrow> fueled I (f r)"
  shows "fueled I (bind (gets (lost_bids i)) f)"
  by (rule fueled_read, rule f, drule I)
    (auto simp: store_inv_def WithBidsForOrder_def lost_bids_def dest: own_keys_iter)

lemmas fueled_reads = fueled_read_deployment fueled_read_group fueled_read_order fueled_read_bid fueled_read_lease
  fueled_read_groups fueled_read_orders fueled_read_bids fueled_read_lost

lemma chain_store: "chain_inv E bal s \<Longrightarrow> store_inv E s" "chain_closed E bal d s \<Longrightarrow> store_inv E s"
  by (simp_all add: chain_inv_def chain_closed_def)

lemma payment_hook_fueled:
  assumes "bank_laws E ModuleName bal" "addr_laws E"
  shows "fueled (chain_inv E bal) (OnEscrowPaymentClosed E (app_hooks E (Suc n)) p)"
  unfolding OnEscrowPaymentClosed_def
  using assms
  by (auto intro!: fueled_reads [OF chain_store(1)] fueled_case_option fueled_if fueled_basic
    fueled_bind_inv [OF fueled_simple(3)] fueled_bind_inv [OF OnBidClosed_fueled] fueled_simple
    keeps_market_ops app.OnBidClosed_chain)

subsection \<open>Level 3: deployments\<close>

lemma fueled_closed: "fueled (chain_inv E bal) m \<Longrightarrow> fueled (chain_closed E bal d) m"
  by (erule fueled_weaken) (simp add: chain_closed_def)

lemma closed_account_hook:
  assumes "addr_laws E" "canonical E (did_Owner d)" "acc_ID a = EscrowAccountForDeployment d"
  shows "fueled (chain_closed E bal d) (OnEscrowAccountClosed E H a)"
  unfolding OnEscrowAccountClosed_def assms(3) DeploymentIDFromEscrowAccount_deployment [OF assms(1,2)]
  by (auto simp: fueled_def GetDeployment_def bind_def gets_def ret_def chain_closed_def inactive_iff
    split: option.splits)

lemma closed_hooks_fueled:
  assumes "bank_laws E ModuleName bal" "addr_laws E" "canonical E (did_Owner d)"
  shows "hooks_fueled (app_hooks E (Suc (Suc n))) (chain_closed E bal d) (EscrowAccountForDeployment d)"
  using assms
  by (simp add: hooks_fueled_def closed_account_hook fueled_closed payment_hook_fueled)

lemma canonical_decodable: "canonical E str \<Longrightarrow> decodable E str"
  by (auto simp: canonical_iff decodable_def)

lemma closed_payment_fueled:
  assumes "bank_laws E ModuleName bal" "addr_laws E" "canonical E (did_Owner d)"
  shows "fueled (chain_closed E bal d) (PaymentClose E (app_hooks E (Suc (Suc n))) (EscrowAccountForDeployment d) pid)"
  using closed_hooks_fueled [OF assms] assms canonical_decodable unfolding chain_closed_eq
  by (intro closing.PaymentClose_fueled) (auto simp: payment_id_ok_def)

lemma closed_keeps:
  assumes "bank_laws E ModuleName bal"
  shows "bid_id_ok E (bd_ID b) \<Longrightarrow> keeps (chain_closed E bal d) (OnBidClosed E (app_hooks E n) b)"
    "bid_id_ok E (ls_ID l) \<Longrightarrow> keeps (chain_closed E bal d) (OnLeaseClosed l LeaseClosed)"
    "order_ok E o' \<Longrightarrow> keeps (chain_closed E bal d) (OnOrderClosed o')"
    "group_ok E g \<Longrightarrow> keeps (chain_closed E bal d) (OnCloseGroup g st)"
    "keeps (chain_closed E bal d) (PaymentClose E (app_hooks E n) i pid)"
    "keeps (chain_closed E bal d) (GetLease bi)"
    "keeps (chain_closed E bal d) (OnGroupClosed E (app_hooks E n) gi)"
  using assms
  by (auto intro!: keeps_closed app.OnBidClosed_chain app.OnGroupClosed_chain keeps_market_ops keeps_deployment_ops
    app.escrow_ops keeps_reads closed.closing_ops closed.market_ops closed.app_hooks_outside closed.hooks.escrow_frame)

lemma group_bid_keeps:
  assumes "bank_laws E ModuleName bal" "bid_id_ok E (bd_ID b)"
  shows "keeps (chain_inv E bal) (group_closed_bid E (app_hooks E n) i b)"
  unfolding group_closed_bid_def using assms
  by (auto intro!: keeps_bind [OF app.OnBidClosed_chain] read_lease keeps_case_option keeps_basic
    keeps_bind [OF keeps_market_ops(6)] keeps_bind [OF keeps_attempt] app.escrow_ops)

lemma closed_group_bid_keeps:
  assumes "bank_laws E ModuleName bal" "bid_id_ok E (bd_ID b)"
  shows "keeps (chain_closed E bal d) (group_closed_bid E (app_hooks E n) i b)"
  by (intro keeps_closed group_bid_keeps closed.market_ops closed.app_hooks_outside assms)

lemma closed_group_bid_fueled:
  assumes "bank_laws E ModuleName bal" "addr_laws E" "canonical E (gid_Owner i)" "bid_id_ok E (bd_ID b)"
  shows "fueled (chain_closed E bal (GroupID_DeploymentID i)) (group_closed_bid E (app_hooks E (Suc (Suc n))) i b)"
proof -
  have "canonical E (did_Owner (GroupID_DeploymentID i))" using assms(3) by (simp add: id_defs)
  then show ?thesis
    unfolding group_closed_bid_def using assms
    by (auto intro!: fueled_bind_inv [OF fueled_closed [OF OnBidClosed_fueled]] closed_keeps
      fueled_reads [OF chain_store(2)] fueled_case_option fueled_basic fueled_bind_inv [OF fueled_simple(4)]
      fueled_bind_inv [OF fueled_attempt] keeps_attempt closed_payment_fueled)
qed

lemma closed_bids_keeps:
  assumes "bank_laws E ModuleName bal"
  shows "keeps (chain_closed E bal d) (bind (gets (WithBidsForOrder oi)) (each (group_closed_bid E (app_hooks E n) i)))"
proof (rule keeps_bind_gets)
  fix s bs
  assume "chain_closed E bal d s" "WithBidsForOrder oi s = bs"
  then have "bid_id_ok E (bd_ID b)" if "b \<in> set bs" for b
    using that by (auto simp: WithBidsForOrder_def store_inv_def dest!: chain_store dest: own_keys_iter)
  then show "keeps (chain_closed E bal d) (each (group_closed_bid E (app_hooks E n) i) bs)"
    using assms by (auto intro!: keeps_each closed_group_bid_keeps)
qed

lemma closed_OnGroupClosed_fueled:
  assumes "bank_laws E ModuleName bal" "addr_laws E" "canonical E (gid_Owner i)"
  shows "fueled (chain_closed E bal (GroupID_DeploymentID i)) (OnGroupClosed E (app_hooks E (Suc (Suc n))) i)"
  unfolding OnGroupClosed_def using assms
  by (auto intro!: fueled_reads [OF chain_store(2)] fueled_each fueled_bind_inv [OF fueled_simple(3)]
    keeps_bind [OF closed_keeps(3)] closed_keeps(3) closed_bids_keeps closed_group_bid_fueled closed_group_bid_keeps)

lemma close_groups_fueled:
  assumes "bank_laws E ModuleName bal" "addr_laws E" "canonical E (did_Owner d)"
    and "\<And>g. g \<in> set gs \<Longrightarrow> group_ok E g \<and> GroupID_DeploymentID (grp_ID g) = d"
  shows "fueled (chain_closed E bal d) (close_groups E (app_hooks E (Suc (Suc n))) st gs)"
  using assms(4)
proof (induction gs)
  case Nil
  show ?case by (simp add: fueled_basic)
next
  case (Cons g gs)
  then have g: "group_ok E g" "GroupID_DeploymentID (grp_ID g) = d" by auto
  then have "canonical E (gid_Owner (grp_ID g))" using assms(3) by (auto simp: id_defs)
  from closed_OnGroupClosed_fueled [OF assms(1,2) this] g Cons assms(1) show ?case
    by (auto split: sum.splits intro!: fueled_bind_inv fueled_attempt fueled_simple fueled_basic keeps_basic
      keeps_bind keeps_attempt closed_keeps)
qed

lemma decodable_length: "addr_laws E \<Longrightarrow> decodable E a \<Longrightarrow> decodable E b \<Longrightarrow> length a = length b"
  unfolding addr_laws_def decodable_def by blast

lemma groups_of_deployment:
  assumes "addr_laws E" "group_ok E g" "decodable E (did_Owner d)" "prefix (groupsKey d) (groupKey (grp_ID g))"
  shows "GroupID_DeploymentID (grp_ID g) = d"
proof -
  have "length (did_Owner d) = length (gid_Owner (grp_ID g))"
    using assms decodable_length by (simp add: group_ok_def)
  then show ?thesis using assms(4) groupsKey_prefix by blast
qed

lemma CloseDeployment_closes:
  assumes "deployment_ok E x" "dep_State x = DeploymentActive"
  shows "hoare (chain_inv E bal) (CloseDeployment x) (\<lambda>_. chain_closed E bal (dep_ID x)) (\<lambda>_. True)"
proof (rule hoareI)
  fix s u s'
  assume s: "chain_inv E bal s" and ok: "CloseDeployment x s = Ok u s'"
  have "inactive (dep_ID x) s'"
    using ok assms(2)
    by (auto simp: CloseDeployment_def Let_def emit_def setDeployment_def act_defs inactive_iff kv_get_set kv_has_def
      split: if_splits)
  then show "chain_closed E bal (dep_ID x) s'"
    using keeps_Ok [OF keeps_deployment_ops(3) [OF assms(1)] s ok] by (simp add: chain_closed_def)
qed simp

lemma hook_deployment_canonical:
  "addr_laws E \<Longrightarrow> DeploymentIDFromEscrowAccount E i = Some d \<Longrightarrow> canonical E (did_Owner d)"
  by (auto simp: DeploymentIDFromEscrowAccount_def ParseDeploymentID_def ParseDeploymentPath_def canonical_iff
    addr_laws_def split: if_splits sum.splits option.splits list.splits)

lemma account_hook_fueled:
  assumes bank: "bank_laws E ModuleName bal" and laws: "addr_laws E"
  shows "fueled (chain_inv E bal) (OnEscrowAccountClosed E (app_hooks E (Suc (Suc n))) a)"
proof -
  have close: "fueled (chain_inv E bal) (bind (CloseDeployment x) (\<lambda>_.
      bind (GetGroups (dep_ID x)) (close_groups E (app_hooks E (Suc (Suc n))) st)))"
    if x: "deployment_ok E x" "dep_State x = DeploymentActive" "canonical E (did_Owner (dep_ID x))" for x st
  proof (rule fueled_bind [OF fueled_simple(1) CloseDeployment_closes [OF x(1,2)]])
    show "fueled (chain_closed E bal (dep_ID x))
      (bind (GetGroups (dep_ID x)) (close_groups E (app_hooks E (Suc (Suc n))) st))"
      by (rule fueled_read_groups [OF chain_store(2)], assumption, rule close_groups_fueled [OF bank laws x(3)])
        (blast intro: groups_of_deployment [OF laws _ canonical_decodable [OF x(3)]])
  qed
  show ?thesis
    unfolding OnEscrowAccountClosed_def
    by (auto intro!: fueled_case_option fueled_reads [OF chain_store(1)] fueled_if fueled_basic close
      dest: hook_deployment_canonical [OF laws])
qed

subsection \<open>All hooks, all messages\<close>

lemma all_hooks_fueled:
  assumes "bank_laws E ModuleName bal" "addr_laws E"
  shows "hooks_fueled (app_hooks E (n + 3)) (chain_inv E bal) i"
  using assms by (simp add: hooks_fueled_def eval_nat_numeral account_hook_fueled payment_hook_fueled)

lemma escrow_fueled:
  assumes "bank_laws E ModuleName bal" "addr_laws E"
  shows "account_id_ok E i \<Longrightarrow> fueled (chain_inv E bal) (AccountClose E (app_hooks E (n + 3)) i)"
    "account_id_ok E i \<Longrightarrow> fueled (chain_inv E bal) (PaymentCreate E (app_hooks E (n + 3)) i pid owner rate)"
    "account_id_ok E i \<Longrightarrow> fueled (chain_inv E bal) (PaymentWithdraw E (app_hooks E (n + 3)) i pid)"
    "payment_id_ok E i \<Longrightarrow> fueled (chain_inv E bal) (PaymentClose E (app_hooks E (n + 3)) i pid)"
  using assms all_hooks_fueled [OF assms] unfolding chain_inv_eq
  by (auto intro!: app.esc.AccountClose_fueled app.esc.PaymentCreate_fueled app.esc.PaymentWithdraw_fueled
    app.esc.PaymentClose_fueled)

lemma bid_fueled:
  assumes "bank_laws E ModuleName bal" "addr_laws E" "bid_id_ok E (bd_ID b)"
  shows "fueled (chain_inv E bal) (OnBidClosed E (app_hooks E (n + 3)) b)"
  using OnBidClosed_fueled [OF assms, of "n + 2"] by (simp add: eval_nat_numeral)

lemma payment_id_ok_make: "decodable E (did_Owner d) \<Longrightarrow> payment_id_ok E (EscrowAccountForDeployment d)"
  by (auto simp: payment_id_ok_def)

lemma group_fueled:
  assumes "bank_laws E ModuleName bal" "addr_laws E" "decodable E (gid_Owner i)"
  shows "fueled (chain_inv E bal) (OnGroupClosed E (app_hooks E (n + 3)) i)"
proof -
  have bid: "fueled (chain_inv E bal) (group_closed_bid E (app_hooks E (n + 3)) i b)" if "bid_id_ok E (bd_ID b)" for b
    unfolding group_closed_bid_def using that assms
    by (auto intro!: fueled_bind_inv [OF bid_fueled] fueled_reads [OF chain_store(1)] fueled_case_option fueled_basic
      fueled_bind_inv [OF fueled_simple(4)] fueled_bind_inv [OF fueled_attempt] keeps_attempt escrow_fueled
      payment_id_ok_make app.OnBidClosed_chain keeps_market_ops app.escrow_ops simp: id_defs)
  show ?thesis
    unfolding OnGroupClosed_def using assms
    by (auto intro!: fueled_reads [OF chain_store(1)] fueled_each fueled_bind_inv [OF fueled_simple(3)]
      keeps_bind [OF keeps_market_ops(2)] keeps_market_ops(2) read_bids keeps_each bid group_bid_keeps)
qed

lemma fueled_other [fueled_rules]:
  "fueled P Deployment_GetParams" "fueled P Market_GetParams" "fueled P (BidCountForOrder oi)"
  "fueled P (Provider_Get pr)" "fueled P (GetProviderAttributes pr)" "fueled P (GetProviderByAuditor ai)"
  by (simp_all add: fueled_def Deployment_GetParams_def Market_GetParams_def BidCountForOrder_def Provider_Get_def
    GetProviderAttributes_def GetProviderByAuditor_def gets_def Let_def)

lemma fueled_case_sum [fueled_rules]:
  "(\<And>e. x = Inl e \<Longrightarrow> fueled P (g e)) \<Longrightarrow> (\<And>a. x = Inr a \<Longrightarrow> fueled P (f a)) \<Longrightarrow>
   fueled P (case x of Inl e \<Rightarrow> g e | Inr a \<Rightarrow> f a)"
  by (cases x) simp_all

lemma fueled_market [fueled_rules]:
  "fueled P (OnPauseGroup g)" "fueled P (OnStartGroup g)" "fueled P (Deployment_OnBidClosed gi)"
  "fueled P (Deployment_OnLeaseClosed gi)" "fueled P (CreateOrder E gi spec)" "fueled P (Keeper_CreateBid E oi pr c)"
  "fueled P (Keeper_CreateLease E b)" "fueled P (OnOrderMatched o')" "fueled P (OnBidMatched b)" "fueled P (OnBidLost b)"
  "fueled P (Deployment_Create d gs)" "fueled P (Deployment_Update d)"
  unfolding OnPauseGroup_def OnStartGroup_def Deployment_OnBidClosed_def Deployment_OnLeaseClosed_def CreateOrder_def
    Keeper_CreateBid_def Keeper_CreateLease_def OnOrderMatched_def OnBidMatched_def OnBidLost_def Deployment_Create_def
    Deployment_Update_def Let_def
  by (rule fueled_all, intro fueled_rules keeps_all)+

lemma fueled_wrap [fueled_rules]: "fueled (\<lambda>_. True) m \<Longrightarrow> fueled P (wrap_error e m)"
  unfolding wrap_error_def by (rule fueled_all, intro fueled_rules keeps_all)

lemma fueled_validation [fueled_rules]: "fueled P (validateDeploymentGroup E g)"
proof -
  have unit: "fueled (\<lambda>_. True) (validateResourceUnit E u)" for u
    unfolding validateResourceUnit_def validateCPU_def validateMemory_def validateStorage_def
    by (intro fueled_rules keeps_all)
  have limits: "fueled (\<lambda>_. True) (sum_limits E l rs)" for l rs
    by (induction rs arbitrary: l) (auto intro!: fueled_rules keeps_all unit simp: validateResourceGroup_def)
  have pricing: "fueled (\<lambda>_. True) (group_pricing_loop E p rs)" for p rs
    by (induction rs arbitrary: p) (auto intro!: fueled_rules keeps_all simp: validateUnitPricing_def)
  show ?thesis
    unfolding validateDeploymentGroup_def ValidateResourceList_def validateGroupPricing_def validateOrderBidDuration_def
    by (rule fueled_all, intro fueled_rules keeps_all limits pricing)
qed

lemma fueled_validate_groups [fueled_rules]: "fueled P (ValidateDeploymentGroups E gs)"
proof -
  have loop: "fueled (\<lambda>_. True) (validate_groups_loop E names gs)" for names
    by (induction gs arbitrary: names) (auto intro!: fueled_rules keeps_all)
  show ?thesis
    unfolding ValidateDeploymentGroups_def by (rule fueled_all, intro fueled_rules loop)
qed

text \<open>Servers that never reach a hook.\<close>

lemma plain_msgs_fueled [fueled_rules]:
  "fueled P (Msg_CreateDeployment E cmsg)" "fueled P (Msg_DepositDeployment E dmsg)" "fueled P (Msg_UpdateDeployment umsg)"
  "fueled P (Msg_StartGroup E gi)" "fueled P (Msg_CreateBid E bmsg)"
  unfolding Msg_CreateDeployment_def Msg_DepositDeployment_def Msg_UpdateDeployment_def Msg_StartGroup_def
    Msg_CreateBid_def Let_def
  by (rule fueled_all, intro fueled_rules keeps_all)+

lemma provider_msgs_fueled [fueled_rules]:
  "fueled P (Msg_CreateProvider E parse p)" "fueled P (Msg_UpdateProvider E parse p)" "fueled P (Msg_DeleteProvider E o')"
  "fueled P (SignProviderAttributes E smsg)" "fueled P (DeleteProviderAttributes E xmsg)"
proof -
  have leases: "fueled (\<lambda>_. True) (compatible_with_leases owner attrs ls)" for owner attrs ls
    by (induction ls) (auto intro!: fueled_rules keeps_all)
  show "fueled P (Msg_CreateProvider E parse p)" "fueled P (Msg_UpdateProvider E parse p)"
    "fueled P (Msg_DeleteProvider E o')" "fueled P (SignProviderAttributes E smsg)" "fueled P (DeleteProviderAttributes E xmsg)"
    unfolding Msg_CreateProvider_def Msg_UpdateProvider_def Msg_DeleteProvider_def Provider_Create_def Provider_Update_def
      SignProviderAttributes_def DeleteProviderAttributes_def CreateOrUpdateProviderAttributes_def
      Audit_DeleteProviderAttributes_def Let_def
    by (rule fueled_all, intro fueled_rules keeps_all leases)+
qed

text \<open>Servers that do.\<close>

lemma deployment_msgs_fueled:
  assumes "bank_laws E ModuleName bal" "addr_laws E"
  shows "fueled (chain_inv E bal) (Msg_CloseDeployment E (app_hooks E (n + 3)) d)"
    "fueled (chain_inv E bal) (Msg_CloseGroup E (app_hooks E (n + 3)) g)"
    "fueled (chain_inv E bal) (Msg_PauseGroup E (app_hooks E (n + 3)) g)"
  unfolding Msg_CloseDeployment_def Msg_CloseGroup_def Msg_PauseGroup_def using assms
  by (auto intro!: fueled_reads [OF chain_store(1)] fueled_bind_found_or fueled_bind_check fueled_bind_or_throw
    escrow_fueled group_fueled fueled_bind_inv [OF fueled_simple(2)] fueled_bind_inv [OF fueled_market(1)]
    keeps_deployment_ops simp: group_ok_def deployment_ok_def)

lemma Msg_CloseBid_fueled:
  assumes "bank_laws E ModuleName bal" "addr_laws E"
  shows "fueled (chain_inv E bal) (Msg_CloseBid E (app_hooks E (n + 3)) i)"
proof -
  have d: "bid_id_ok E (ls_ID l) \<Longrightarrow> payment_id_ok E (EscrowAccountForDeployment (BidID_DeploymentID (ls_ID l)))" for l
    by (rule payment_id_ok_make) (simp add: bid_id_ok_def id_defs)
  show ?thesis
    unfolding Msg_CloseBid_def using assms
    by (auto intro!: fueled_reads [OF chain_store(1)] fueled_bind_found_or fueled_bind_check fueled_if bid_fueled
      fueled_bind_inv [OF fueled_market(3)] fueled_bind_inv [OF fueled_simple(4)] fueled_bind_inv [OF bid_fueled]
      fueled_bind_inv [OF fueled_simple(3)] fueled_bind_inv [OF fueled_attempt] escrow_fueled d fueled_basic
      keeps_Deployment_OnBidClosed keeps_market_ops app.OnBidClosed_chain app.escrow_ops keeps_attempt)
qed

lemma lease_msgs_fueled:
  assumes "bank_laws E ModuleName bal" "addr_laws E"
  shows "decodable E (bid_Owner i) \<Longrightarrow> fueled (chain_inv E bal) (Msg_WithdrawLease E (app_hooks E (n + 3)) i)"
    "fueled (chain_inv E bal) (Msg_CloseLease E (app_hooks E (n + 3)) i)"
proof -
  show "fueled (chain_inv E bal) (Msg_WithdrawLease E (app_hooks E (n + 3)) i)" if "decodable E (bid_Owner i)"
    unfolding Msg_WithdrawLease_def using assms that
    by (auto intro!: fueled_reads [OF chain_store(1)] fueled_bind_found_or escrow_fueled simp: id_defs)
  have d: "bid_id_ok E (ls_ID l) \<Longrightarrow> payment_id_ok E (EscrowAccountForDeployment (BidID_DeploymentID (ls_ID l)))" for l
    by (rule payment_id_ok_make) (simp add: bid_id_ok_def id_defs)
  have fin: "fueled P (bind (Deployment_OnLeaseClosed gi) (\<lambda>g. if grp_State g \<noteq> GroupOpen then ret () else
      bind (CreateOrder E (grp_ID g) (grp_Spec g)) (\<lambda>_. ret ())))" for P gi
    by (rule fueled_all, intro fueled_rules keeps_all)
  show "fueled (chain_inv E bal) (Msg_CloseLease E (app_hooks E (n + 3)) i)"
    unfolding Msg_CloseLease_def using assms
    by (auto intro!: fueled_reads [OF chain_store(1)] fueled_bind_found_or fueled_bind_check
      fueled_bind_inv [OF fueled_simple(4)] fueled_bind_inv [OF bid_fueled] fueled_bind_inv [OF fueled_simple(3)]
      fueled_bind_inv [OF escrow_fueled(4)] d fin keeps_market_ops app.OnBidClosed_chain app.escrow_ops)
qed

lemma Msg_CreateLease_fueled:
  assumes "bank_laws E ModuleName bal" "addr_laws E"
  shows "fueled (chain_inv E bal) (Msg_CreateLease E (app_hooks E (n + 3)) i)"
proof -
  have owner: "order_ok E x \<Longrightarrow> ord_ID x = BidID_OrderID i \<Longrightarrow> decodable E (did_Owner (BidID_DeploymentID i))" for x
    by (simp add: order_ok_def id_defs)
  show ?thesis
    unfolding Msg_CreateLease_def AccAddressFromBech32_def using assms
    by (auto intro!: fueled_reads [OF chain_store(1)] fueled_bind_found_or fueled_bind_check
      fueled_bind_inv [OF escrow_fueled(2)] PaymentCreate_chain fueled_bind_inv [OF fueled_market(7)]
      fueled_bind_inv [OF fueled_market(8)] fueled_bind_inv [OF fueled_market(9)] fueled_each
      fueled_bind_inv [OF fueled_market(10)] escrow_fueled keeps_market_ops keeps_bind [OF keeps_market_ops(4)]
      app.escrow_ops dest: owner)
qed

end
