(* ===== verification/Chain.thy ===== *)
theory Chain
  imports Hooks_Fuel
begin

text \<open>
  Transactions: the messages of the four modules, whose signatures they need
  (\<^verbatim>\<open>GetSigners\<close> in \<^verbatim>\<open>x/*/types/msgs.go\<close>), the dispatch to the message servers
  (\<^verbatim>\<open>x/*/handler/handler.go\<close>), and what the SDK's \<^verbatim>\<open>runTx\<close> does with them: all
  messages are validated, then run in order; an error or a panic drops every write of the
  transaction.

  \<open>reachable\<close> are the states a chain can be in: it starts with empty stores, runs transactions
  at any height, signed by keys the module account does not have, and other modules may change the bank
  without taking the escrow module's funds.
\<close>

subsection \<open>Messages and signers\<close>

datatype msg =
    MsgCreateDeployment msg_create_deployment
  | MsgDepositDeployment msg_deposit_deployment
  | MsgUpdateDeployment msg_update_deployment
  | MsgCloseDeployment deployment_id
  | MsgCloseGroup group_id
  | MsgPauseGroup group_id
  | MsgStartGroup group_id
  | MsgCreateBid msg_create_bid
  | MsgCloseBid bid_id
  | MsgWithdrawLease lease_id
  | MsgCreateLease bid_id
  | MsgCloseLease lease_id
  | MsgCreateProvider provider
  | MsgUpdateProvider provider
  | MsgDeleteProvider string
  | MsgSignProviderAttributes msg_sign
  | MsgDeleteProviderAttributes msg_delete_attributes

text \<open>\<open>None\<close> is the panic on an address that does not decode.\<close>

definition MsgCreateDeployment_GetSigners :: "'b env \<Rightarrow> msg_create_deployment \<Rightarrow> string list option" where
  "MsgCreateDeployment_GetSigners E msg = map_option (\<lambda>a. [a]) (FromBech32 E (did_Owner (mcd_ID msg)))"

definition MsgDepositDeployment_GetSigners :: "'b env \<Rightarrow> msg_deposit_deployment \<Rightarrow> string list option" where
  "MsgDepositDeployment_GetSigners E msg = map_option (\<lambda>a. [a]) (FromBech32 E (did_Owner (mdd_ID msg)))"

definition MsgUpdateDeployment_GetSigners :: "'b env \<Rightarrow> msg_update_deployment \<Rightarrow> string list option" where
  "MsgUpdateDeployment_GetSigners E msg = map_option (\<lambda>a. [a]) (FromBech32 E (did_Owner (mud_ID msg)))"

definition MsgCloseDeployment_GetSigners :: "'b env \<Rightarrow> deployment_id \<Rightarrow> string list option" where
  "MsgCloseDeployment_GetSigners E i = map_option (\<lambda>a. [a]) (FromBech32 E (did_Owner i))"

definition MsgCloseGroup_GetSigners :: "'b env \<Rightarrow> group_id \<Rightarrow> string list option" where
  "MsgCloseGroup_GetSigners E i = map_option (\<lambda>a. [a]) (FromBech32 E (gid_Owner i))"

definition MsgPauseGroup_GetSigners :: "'b env \<Rightarrow> group_id \<Rightarrow> string list option" where
  "MsgPauseGroup_GetSigners E i = map_option (\<lambda>a. [a]) (FromBech32 E (gid_Owner i))"

definition MsgStartGroup_GetSigners :: "'b env \<Rightarrow> group_id \<Rightarrow> string list option" where
  "MsgStartGroup_GetSigners E i = map_option (\<lambda>a. [a]) (FromBech32 E (gid_Owner i))"

definition MsgCreateBid_GetSigners :: "'b env \<Rightarrow> msg_create_bid \<Rightarrow> string list option" where
  "MsgCreateBid_GetSigners E msg = map_option (\<lambda>a. [a]) (FromBech32 E (mcb_Provider msg))"

definition MsgWithdrawLease_GetSigners :: "'b env \<Rightarrow> lease_id \<Rightarrow> string list option" where
  "MsgWithdrawLease_GetSigners E i = map_option (\<lambda>a. [a]) (FromBech32 E (bid_Provider i))"

definition MsgCreateLease_GetSigners :: "'b env \<Rightarrow> bid_id \<Rightarrow> string list option" where
  "MsgCreateLease_GetSigners E i = map_option (\<lambda>a. [a]) (FromBech32 E (bid_Owner i))"

definition MsgCloseBid_GetSigners :: "'b env \<Rightarrow> bid_id \<Rightarrow> string list option" where
  "MsgCloseBid_GetSigners E i = map_option (\<lambda>a. [a]) (FromBech32 E (bid_Provider i))"

definition MsgCloseLease_GetSigners :: "'b env \<Rightarrow> lease_id \<Rightarrow> string list option" where
  "MsgCloseLease_GetSigners E i = map_option (\<lambda>a. [a]) (FromBech32 E (bid_Owner i))"

definition MsgCreateProvider_GetSigners :: "'b env \<Rightarrow> provider \<Rightarrow> string list option" where
  "MsgCreateProvider_GetSigners E msg = map_option (\<lambda>a. [a]) (FromBech32 E (prov_Owner msg))"

definition MsgUpdateProvider_GetSigners :: "'b env \<Rightarrow> provider \<Rightarrow> string list option" where
  "MsgUpdateProvider_GetSigners E msg = map_option (\<lambda>a. [a]) (FromBech32 E (prov_Owner msg))"

definition MsgDeleteProvider_GetSigners :: "'b env \<Rightarrow> string \<Rightarrow> string list option" where
  "MsgDeleteProvider_GetSigners E owner = map_option (\<lambda>a. [a]) (FromBech32 E owner)"

definition MsgSignProviderAttributes_GetSigners :: "'b env \<Rightarrow> msg_sign \<Rightarrow> string list option" where
  "MsgSignProviderAttributes_GetSigners E m = map_option (\<lambda>a. [a]) (FromBech32 E (sign_Auditor m))"

definition MsgDeleteProviderAttributes_GetSigners :: "'b env \<Rightarrow> msg_delete_attributes \<Rightarrow> string list option" where
  "MsgDeleteProviderAttributes_GetSigners E m = map_option (\<lambda>a. [a]) (FromBech32 E (del_Auditor m))"

named_theorems signer_defs \<open>whose signature a message needs\<close>
declare MsgCreateDeployment_GetSigners_def [signer_defs] MsgDepositDeployment_GetSigners_def [signer_defs]
  MsgUpdateDeployment_GetSigners_def [signer_defs] MsgCloseDeployment_GetSigners_def [signer_defs]
  MsgCloseGroup_GetSigners_def [signer_defs] MsgPauseGroup_GetSigners_def [signer_defs]
  MsgStartGroup_GetSigners_def [signer_defs] MsgCreateBid_GetSigners_def [signer_defs]
  MsgWithdrawLease_GetSigners_def [signer_defs] MsgCreateLease_GetSigners_def [signer_defs]
  MsgCloseBid_GetSigners_def [signer_defs] MsgCloseLease_GetSigners_def [signer_defs]
  MsgCreateProvider_GetSigners_def [signer_defs] MsgUpdateProvider_GetSigners_def [signer_defs]
  MsgDeleteProvider_GetSigners_def [signer_defs] MsgSignProviderAttributes_GetSigners_def [signer_defs]
  MsgDeleteProviderAttributes_GetSigners_def [signer_defs]

definition GetSigners :: "'b env \<Rightarrow> msg \<Rightarrow> string list option" where
  "GetSigners E msg = (case msg of
     MsgCreateDeployment m \<Rightarrow> MsgCreateDeployment_GetSigners E m
   | MsgDepositDeployment m \<Rightarrow> MsgDepositDeployment_GetSigners E m
   | MsgUpdateDeployment m \<Rightarrow> MsgUpdateDeployment_GetSigners E m
   | MsgCloseDeployment i \<Rightarrow> MsgCloseDeployment_GetSigners E i
   | MsgCloseGroup i \<Rightarrow> MsgCloseGroup_GetSigners E i
   | MsgPauseGroup i \<Rightarrow> MsgPauseGroup_GetSigners E i
   | MsgStartGroup i \<Rightarrow> MsgStartGroup_GetSigners E i
   | MsgCreateBid m \<Rightarrow> MsgCreateBid_GetSigners E m
   | MsgCloseBid i \<Rightarrow> MsgCloseBid_GetSigners E i
   | MsgWithdrawLease i \<Rightarrow> MsgWithdrawLease_GetSigners E i
   | MsgCreateLease i \<Rightarrow> MsgCreateLease_GetSigners E i
   | MsgCloseLease i \<Rightarrow> MsgCloseLease_GetSigners E i
   | MsgCreateProvider p \<Rightarrow> MsgCreateProvider_GetSigners E p
   | MsgUpdateProvider p \<Rightarrow> MsgUpdateProvider_GetSigners E p
   | MsgDeleteProvider a \<Rightarrow> MsgDeleteProvider_GetSigners E a
   | MsgSignProviderAttributes m \<Rightarrow> MsgSignProviderAttributes_GetSigners E m
   | MsgDeleteProviderAttributes m \<Rightarrow> MsgDeleteProviderAttributes_GetSigners E m)"

definition ValidateBasic :: "'b env \<Rightarrow> (string \<Rightarrow> url option) \<Rightarrow> msg \<Rightarrow> (unit, 's) act" where
  "ValidateBasic E parse msg = (case msg of
     MsgCreateDeployment m \<Rightarrow> MsgCreateDeployment_ValidateBasic E m
   | MsgDepositDeployment m \<Rightarrow> or_throw (MsgDepositDeployment_ValidateBasic E m)
   | MsgUpdateDeployment m \<Rightarrow> or_throw (MsgUpdateDeployment_ValidateBasic E m)
   | MsgCloseDeployment i \<Rightarrow> or_throw (MsgCloseDeployment_ValidateBasic E i)
   | MsgCloseGroup i \<Rightarrow> or_throw (MsgCloseGroup_ValidateBasic E i)
   | MsgPauseGroup i \<Rightarrow> or_throw (MsgPauseGroup_ValidateBasic E i)
   | MsgStartGroup i \<Rightarrow> or_throw (MsgStartGroup_ValidateBasic E i)
   | MsgCreateBid m \<Rightarrow> or_throw (MsgCreateBid_ValidateBasic E m)
   | MsgCloseBid i \<Rightarrow> or_throw (MsgCloseBid_ValidateBasic E i)
   | MsgWithdrawLease i \<Rightarrow> or_throw (MsgWithdrawLease_ValidateBasic E i)
   | MsgCreateLease i \<Rightarrow> or_throw (MsgCreateLease_ValidateBasic E i)
   | MsgCloseLease i \<Rightarrow> or_throw (MsgCloseLease_ValidateBasic E i)
   | MsgCreateProvider p \<Rightarrow> or_throw (MsgCreateProvider_ValidateBasic E parse p)
   | MsgUpdateProvider p \<Rightarrow> or_throw (MsgUpdateProvider_ValidateBasic E parse p)
   | MsgDeleteProvider a \<Rightarrow> or_throw (MsgDeleteProvider_ValidateBasic E a)
   | MsgSignProviderAttributes m \<Rightarrow> or_throw (MsgSignProviderAttributes_ValidateBasic E m)
   | MsgDeleteProviderAttributes m \<Rightarrow> or_throw (MsgDeleteProviderAttributes_ValidateBasic E m))"

subsection \<open>Handlers\<close>

definition Deployment_NewHandler :: "'b env \<Rightarrow> ('b, 'x) mhooks \<Rightarrow> msg \<Rightarrow> (unit, ('b, 'x) mst) act" where
  "Deployment_NewHandler E H msg = (case msg of
     MsgCreateDeployment m \<Rightarrow> Msg_CreateDeployment E m
   | MsgDepositDeployment m \<Rightarrow> Msg_DepositDeployment E m
   | MsgUpdateDeployment m \<Rightarrow> Msg_UpdateDeployment m
   | MsgCloseDeployment i \<Rightarrow> Msg_CloseDeployment E H i
   | MsgCloseGroup i \<Rightarrow> Msg_CloseGroup E H i
   | MsgPauseGroup i \<Rightarrow> Msg_PauseGroup E H i
   | MsgStartGroup i \<Rightarrow> Msg_StartGroup E i
   | _ \<Rightarrow> throw (Sdk ErrUnknownRequest))"

definition Market_NewHandler :: "'b env \<Rightarrow> ('b, 'x) mhooks \<Rightarrow> msg \<Rightarrow> (unit, ('b, 'x) mst) act" where
  "Market_NewHandler E H msg = (case msg of
     MsgCreateBid m \<Rightarrow> Msg_CreateBid E m
   | MsgCloseBid i \<Rightarrow> Msg_CloseBid E H i
   | MsgWithdrawLease i \<Rightarrow> Msg_WithdrawLease E H i
   | MsgCreateLease i \<Rightarrow> Msg_CreateLease E H i
   | MsgCloseLease i \<Rightarrow> Msg_CloseLease E H i
   | _ \<Rightarrow> throw (Sdk ErrUnknownRequest))"

definition Provider_NewHandler ::
  "'b env \<Rightarrow> (string \<Rightarrow> url option) \<Rightarrow> msg \<Rightarrow> (unit, ('b, 'x) mst) act" where
  "Provider_NewHandler E parse msg = (case msg of
     MsgCreateProvider p \<Rightarrow> Msg_CreateProvider E parse p
   | MsgUpdateProvider p \<Rightarrow> Msg_UpdateProvider E parse p
   | MsgDeleteProvider a \<Rightarrow> Msg_DeleteProvider E a
   | _ \<Rightarrow> throw (Sdk ErrUnknownRequest))"

definition Audit_NewHandler :: "'b env \<Rightarrow> msg \<Rightarrow> (unit, ('b, 'x) mst) act" where
  "Audit_NewHandler E msg = (case msg of
     MsgSignProviderAttributes m \<Rightarrow> SignProviderAttributes E m
   | MsgDeleteProviderAttributes m \<Rightarrow> DeleteProviderAttributes E m
   | _ \<Rightarrow> throw (Sdk ErrUnknownRequest))"

text \<open>The router sends a message to its module.\<close>

definition handle :: "'b env \<Rightarrow> (string \<Rightarrow> url option) \<Rightarrow> ('b, 'x) mhooks \<Rightarrow> msg \<Rightarrow> (unit, ('b, 'x) mst) act" where
  "handle E parse H msg =
     (if (case msg of MsgCreateBid _ \<Rightarrow> True | MsgCloseBid _ \<Rightarrow> True | MsgWithdrawLease _ \<Rightarrow> True
          | MsgCreateLease _ \<Rightarrow> True | MsgCloseLease _ \<Rightarrow> True | _ \<Rightarrow> False)
      then Market_NewHandler E H msg
      else if (case msg of MsgCreateProvider _ \<Rightarrow> True | MsgUpdateProvider _ \<Rightarrow> True
          | MsgDeleteProvider _ \<Rightarrow> True | _ \<Rightarrow> False)
      then Provider_NewHandler E parse msg
      else if (case msg of MsgSignProviderAttributes _ \<Rightarrow> True | MsgDeleteProviderAttributes _ \<Rightarrow> True | _ \<Rightarrow> False)
      then Audit_NewHandler E msg
      else Deployment_NewHandler E H msg)"

subsection \<open>Transactions\<close>

text \<open>The keepers of the application, with enough fuel for the nested hooks.\<close>

definition keeper_hooks :: "'b env \<Rightarrow> ('b, 'x) mhooks" where
  "keeper_hooks E = app_hooks E 3"

definition runTx_with ::
  "'b env \<Rightarrow> (string \<Rightarrow> url option) \<Rightarrow> ('b, 'x) mhooks \<Rightarrow> msg list \<Rightarrow> (unit, ('b, 'x) mst) act" where
  "runTx_with E parse H msgs =
     bind (each (ValidateBasic E parse) msgs) (\<lambda>_.
     each (handle E parse H) msgs)"

definition runTx ::
  "'b env \<Rightarrow> (string \<Rightarrow> url option) \<Rightarrow> msg list \<Rightarrow> (unit, ('b, 'x) mst) act" where
  "runTx E parse msgs = runTx_with E parse (keeper_hooks E) msgs"

definition deliver ::
  "'b env \<Rightarrow> (string \<Rightarrow> url option) \<Rightarrow> msg list \<Rightarrow> ('b, 'x) mst \<Rightarrow> ('b, 'x) mst" where
  "deliver E parse msgs s = (case runTx E parse msgs s of Ok _ s' \<Rightarrow> s' | _ \<Rightarrow> s)"

definition signed_by_users :: "'b env \<Rightarrow> msg list \<Rightarrow> bool" where
  "signed_by_users E msgs \<longleftrightarrow>
     list_all (\<lambda>m. case GetSigners E m of None \<Rightarrow> False | Some as \<Rightarrow> ModuleAddress E ModuleName \<notin> set as) msgs"

definition empty_stores :: "('b, 'x) mst \<Rightarrow> bool" where
  "empty_stores s \<longleftrightarrow> accounts s = [] \<and> payments s = [] \<and> deployments s = [] \<and> groups s = [] \<and>
     orders s = [] \<and> bids s = [] \<and> leases s = [] \<and> providers s = [] \<and> audits s = []"

inductive reachable ::
  "'b env \<Rightarrow> ('b \<Rightarrow> string \<Rightarrow> int) \<Rightarrow> (string \<Rightarrow> url option) \<Rightarrow> ('b, 'x) mst \<Rightarrow> bool"
  for E :: "'b env" and bal :: "'b \<Rightarrow> string \<Rightarrow> int" and parse :: "string \<Rightarrow> url option" where
  start: "empty_stores s \<Longrightarrow> (\<And>d. 0 \<le> bal (bank s) d) \<Longrightarrow> reachable E bal parse s"
| transaction: "reachable E bal parse s \<Longrightarrow> signed_by_users E msgs \<Longrightarrow>
    reachable E bal parse (deliver (E\<lparr>BlockHeight := h\<rparr>) parse msgs s)"
| other_modules: "reachable E bal parse s \<Longrightarrow> (\<And>d. bal (bank s) d \<le> bal b d) \<Longrightarrow>
    reachable E bal parse (s\<lparr>bank := b\<rparr>)"

subsection \<open>The height does not matter to the invariant\<close>

lemma height_laws [simp]:
  "bank_laws (E\<lparr>BlockHeight := h\<rparr>) m bal = bank_laws E m bal" "addr_laws (E\<lparr>BlockHeight := h\<rparr>) = addr_laws E"
  "decodable (E\<lparr>BlockHeight := h\<rparr>) str = decodable E str"
  by (simp_all add: bank_laws_def addr_laws_def decodable_def)

lemma height_ids [simp]:
  "payment_id_ok (E\<lparr>BlockHeight := h\<rparr>) i = payment_id_ok E i" "account_id_ok (E\<lparr>BlockHeight := h\<rparr>) i = account_id_ok E i"
  "bid_id_ok (E\<lparr>BlockHeight := h\<rparr>) b = bid_id_ok E b"
  by (simp_all add: payment_id_ok_def account_id_ok_def bid_id_ok_def)

lemma height_objects [simp]:
  "account_ok (E\<lparr>BlockHeight := h\<rparr>) = account_ok E" "payment_ok (E\<lparr>BlockHeight := h\<rparr>) = payment_ok E"
  "deployment_ok (E\<lparr>BlockHeight := h\<rparr>) = deployment_ok E" "group_ok (E\<lparr>BlockHeight := h\<rparr>) = group_ok E"
  "order_ok (E\<lparr>BlockHeight := h\<rparr>) = order_ok E"
  by (simp_all add: fun_eq_iff account_ok_def payment_ok_def deployment_ok_def group_ok_def order_ok_def)

lemma height_inv [simp]: "chain_inv (E\<lparr>BlockHeight := h\<rparr>) bal = chain_inv E bal"
  by (simp add: fun_eq_iff chain_inv_def escrow_inv_def escrow_wf_def store_inv_def)

lemma height_signed [simp]: "signed_by_users (E\<lparr>BlockHeight := h\<rparr>) msgs = signed_by_users E msgs"
proof -
  have "GetSigners (E\<lparr>BlockHeight := h\<rparr>) m = GetSigners E m" for m
    by (cases m) (simp_all add: GetSigners_def signer_defs)
  then show ?thesis by (simp add: signed_by_users_def cong: option.case_cong)
qed

subsection \<open>Every message keeps the invariant and has enough fuel\<close>

lemma handle_keeps:
  assumes "bank_laws E ModuleName bal" "addr_laws E" "signed_by_users E [m]"
  shows "keeps (chain_inv E bal) (handle E parse (app_hooks E n) m)"
proof (cases m)
  case (MsgCreateDeployment x)
  then show ?thesis using assms
    by (auto simp: handle_def Deployment_NewHandler_def signed_by_users_def GetSigners_def signer_defs
      intro!: Msg_CreateDeployment_chain split: option.splits)
next
  case (MsgCreateBid x)
  then show ?thesis using assms
    by (auto simp: handle_def Market_NewHandler_def signed_by_users_def GetSigners_def signer_defs
      intro!: Msg_CreateBid_chain split: option.splits)
qed (use assms(1) in \<open>simp_all add: handle_def Deployment_NewHandler_def Market_NewHandler_def Provider_NewHandler_def
    Audit_NewHandler_def Msg_deployment_chain Msg_CloseBid_chain Msg_WithdrawLease_chain Msg_CreateLease_chain
    Msg_CloseLease_chain Msg_provider_chain Msg_audit_chain\<close>)

definition basic_ok :: "'b env \<Rightarrow> msg \<Rightarrow> bool" where
  "basic_ok E m = (case m of MsgWithdrawLease i \<Rightarrow> decodable E (bid_Owner i) | _ \<Rightarrow> True)"

lemma keeps_ValidateBasic: "keeps I (ValidateBasic E parse m)"
  by (cases m) (auto simp: ValidateBasic_def MsgCreateDeployment_ValidateBasic_def
    intro!: keeps_rules keeps_validate_group)

lemma fueled_ValidateBasic: "fueled P (ValidateBasic E parse m)"
proof -
  have "fueled (\<lambda>_. True) (ValidateBasic E parse m)"
    by (cases m) (auto simp: ValidateBasic_def MsgCreateDeployment_ValidateBasic_def
      intro!: fueled_rules keeps_all)
  then show ?thesis by (rule fueled_all)
qed

lemma ValidateBasic_ok: "hoare (\<lambda>_. True) (ValidateBasic E parse m) (\<lambda>_ _. basic_ok E m) (\<lambda>_. True)"
proof (cases m)
  case (MsgWithdrawLease i)
  have "LeaseID_Validate E i = Inr () \<Longrightarrow> decodable E (bid_Owner i)"
    by (auto simp: LeaseID_Validate_def BidID_Validate_def OrderID_Validate_def GroupID_Validate_def
      DeploymentID_Validate_def decodable_def id_defs split: option.splits if_splits sum.splits)
  then show ?thesis
    by (auto simp: MsgWithdrawLease ValidateBasic_def MsgWithdrawLease_ValidateBasic_def basic_ok_def hoare_def act_defs
      split: sum.splits)
qed (simp_all add: basic_ok_def hoare_def split: outcome.splits)

lemma validated:
  "hoare I (each (ValidateBasic E parse) msgs) (\<lambda>_ s. I s \<and> (\<forall>m\<in>set msgs. basic_ok E m)) I"
proof (induction msgs)
  case Nil
  show ?case unfolding each.simps by (rule hoare_pre [OF hoare_ret]) simp
next
  case (Cons m msgs)
  have "hoare I (ValidateBasic E parse m) (\<lambda>_ s. I s \<and> basic_ok E m) I"
    by (rule hoare_weaken [OF hoare_conj [OF keeps_ValidateBasic [unfolded keeps_def] ValidateBasic_ok]]) auto
  moreover have "hoare (\<lambda>s. I s \<and> basic_ok E m) (each (ValidateBasic E parse) msgs)
      (\<lambda>_ s. I s \<and> (\<forall>m\<in>set (m # msgs). basic_ok E m)) I"
    by (rule hoare_weaken [OF hoare_conj [OF Cons.IH hoare_const [of "basic_ok E m"]]]) auto
  ultimately show ?case unfolding each.simps by (rule hoare_bind)
qed

lemma handle_fueled:
  assumes "bank_laws E ModuleName bal" "addr_laws E" "basic_ok E m"
  shows "fueled (chain_inv E bal) (handle E parse (app_hooks E (n + 3)) m)"
  using assms
  by (cases m) (simp_all add: handle_def Deployment_NewHandler_def Market_NewHandler_def Provider_NewHandler_def
    Audit_NewHandler_def basic_ok_def plain_msgs_fueled provider_msgs_fueled deployment_msgs_fueled Msg_CloseBid_fueled
    lease_msgs_fueled Msg_CreateLease_fueled)

lemma signed_member: "signed_by_users E msgs \<Longrightarrow> m \<in> set msgs \<Longrightarrow> signed_by_users E [m]"
  by (simp add: signed_by_users_def list_all_iff)

lemma runTx_keeps:
  assumes "bank_laws E ModuleName bal" "addr_laws E" "signed_by_users E msgs"
  shows "keeps (chain_inv E bal) (runTx E parse msgs)"
  unfolding runTx_def runTx_with_def keeper_hooks_def
  by (intro keeps_bind keeps_each keeps_ValidateBasic handle_keeps assms signed_member [OF assms(3)])

lemma runTx_fueled:
  assumes "bank_laws E ModuleName bal" "addr_laws E" "signed_by_users E msgs"
  shows "fueled (chain_inv E bal) (runTx E parse msgs)"
  unfolding runTx_def runTx_with_def keeper_hooks_def
proof (rule fueled_bind [OF _ validated])
  show "fueled (chain_inv E bal) (each (ValidateBasic E parse) msgs)"
    by (intro fueled_each fueled_ValidateBasic keeps_ValidateBasic)
  show "fueled (\<lambda>s. chain_inv E bal s \<and> (\<forall>m\<in>set msgs. basic_ok E m)) (each (handle E parse (app_hooks E 3)) msgs)"
  proof (rule fueled_fact [where F = "\<forall>m\<in>set msgs. basic_ok E m"], blast)
    assume ok: "\<forall>m\<in>set msgs. basic_ok E m"
    have "fueled (chain_inv E bal) (each (handle E parse (app_hooks E 3)) msgs)"
      using handle_fueled [OF assms(1,2), of _ parse 0] ok handle_keeps [OF assms(1,2) signed_member [OF assms(3)]]
      by (intro fueled_each) auto
    then show "fueled (\<lambda>s. chain_inv E bal s \<and> (\<forall>m\<in>set msgs. basic_ok E m)) (each (handle E parse (app_hooks E 3)) msgs)"
      by (rule fueled_weaken) simp
  qed
qed

lemma deliver_keeps:
  assumes "bank_laws E ModuleName bal" "addr_laws E" "signed_by_users E msgs" "chain_inv E bal s"
  shows "chain_inv E bal (deliver E parse msgs s)"
  using keeps_Ok [OF runTx_keeps [OF assms(1-3)] assms(4)] assms(4) by (auto simp: deliver_def split: outcome.splits)

subsection \<open>Reachable states\<close>

lemma empty_inv:
  assumes "empty_stores s" "\<And>d. 0 \<le> bal (bank s) d"
  shows "chain_inv E bal s"
  using assms by (simp add: empty_stores_def chain_inv_def escrow_inv_def escrow_wf_def store_inv_def owed_def)

lemma reachable_inv:
  assumes "reachable E bal parse s" "bank_laws E ModuleName bal" "addr_laws E"
  shows "chain_inv E bal s"
  using assms
proof (induction rule: reachable.induct)
  case (start s)
  then show ?case by (intro empty_inv)
next
  case (transaction s msgs h)
  then show ?case using deliver_keeps [of "E\<lparr>BlockHeight := h\<rparr>" bal msgs s parse] by simp
next
  case (other_modules s b)
  then show ?case
    by (auto simp: chain_inv_def escrow_inv_def store_inv_def intro: order_trans)
qed

end
