(* ===== verification/Fuel_Mono.thy ===== *)
theory Fuel_Mono
  imports Chain
begin

text \<open>
  More fuel never changes a result: \<open>refines m n\<close> says that \<open>m\<close> does what \<open>n\<close> does
  unless it runs out of fuel.  All actions are monotone in the hooks, so hooks of depth 3 give the
  result that hooks of any greater depth give.
\<close>

definition refines :: "('a, 's) act \<Rightarrow> ('a, 's) act \<Rightarrow> bool" where
  "refines m n \<longleftrightarrow> (\<forall>s. m s = OutOfFuel \<or> m s = n s)"

named_theorems refine_rules \<open>monotonicity of actions\<close>

lemma refines_refl [refine_rules]: "refines m m"
  by (simp add: refines_def)

lemma refines_fuel [refine_rules]: "refines out_of_fuel n"
  by (simp add: refines_def out_of_fuel_def)

lemma refines_trans: "refines m n \<Longrightarrow> refines n k \<Longrightarrow> refines m k"
  unfolding refines_def by metis

lemma refines_bind [refine_rules]:
  assumes "refines m n" "\<And>a. refines (f a) (g a)"
  shows "refines (bind m f) (bind n g)"
proof -
  have "bind m f s = OutOfFuel \<or> bind m f s = bind n g s" for s
  proof (cases "m s")
    case (Ok a s')
    then have "n s = Ok a s'" using assms(1) by (metis outcome.distinct(5) refines_def)
    then show ?thesis using Ok assms(2) by (simp add: bind_def refines_def)
  qed (use assms(1) in \<open>auto simp: bind_def refines_def split: outcome.splits dest: spec [of _ s]\<close>)
  then show ?thesis by (simp add: refines_def)
qed

lemma refines_attempt [refine_rules]: "refines m n \<Longrightarrow> refines (attempt m) (attempt n)"
proof -
  assume r: "refines m n"
  have "attempt m s = OutOfFuel \<or> attempt m s = attempt n s" for s
    using r [unfolded refines_def, rule_format, of s] by (auto simp: attempt_def)
  then show ?thesis by (simp add: refines_def)
qed

lemma refines_if [refine_rules]:
  "refines m m' \<Longrightarrow> refines n n' \<Longrightarrow> refines (if b then m else n) (if b then m' else n')"
  by simp

lemma refines_case_option [refine_rules]:
  "refines m m' \<Longrightarrow> (\<And>a. refines (f a) (f' a)) \<Longrightarrow>
   refines (case x of None \<Rightarrow> m | Some a \<Rightarrow> f a) (case x of None \<Rightarrow> m' | Some a \<Rightarrow> f' a)"
  by (cases x) simp_all

lemma refines_case_sum [refine_rules]:
  "(\<And>e. refines (g e) (g' e)) \<Longrightarrow> (\<And>a. refines (f a) (f' a)) \<Longrightarrow>
   refines (case x of Inl e \<Rightarrow> g e | Inr a \<Rightarrow> f a) (case x of Inl e \<Rightarrow> g' e | Inr a \<Rightarrow> f' a)"
  by (cases x) simp_all

lemma refines_case_prod [refine_rules]:
  "(\<And>a b. refines (f a b) (f' a b)) \<Longrightarrow> refines (case x of (a, b) \<Rightarrow> f a b) (case x of (a, b) \<Rightarrow> f' a b)"
  by (cases x) simp

lemma refines_each [refine_rules]: "(\<And>x. refines (f x) (g x)) \<Longrightarrow> refines (each f xs) (each g xs)"
  by (induction xs) (auto intro!: refine_rules)

lemma refines_fueled: "refines m n \<Longrightarrow> fueled P m \<Longrightarrow> P s \<Longrightarrow> m s = n s"
  unfolding refines_def fueled_def by blast

subsection \<open>Escrow\<close>

definition hooks_refine :: "('b, 'x) hooks \<Rightarrow> ('b, 'x) hooks \<Rightarrow> bool" where
  "hooks_refine G H \<longleftrightarrow>
     list_all2 (\<lambda>g h. \<forall>a. refines (g a) (h a)) (onAccountClosed G) (onAccountClosed H) \<and>
     list_all2 (\<lambda>g h. \<forall>p. refines (g p) (h p)) (onPaymentClosed G) (onPaymentClosed H)"

lemma refines_each2:
  "list_all2 (\<lambda>g h. refines (f g) (f' h)) gs hs \<Longrightarrow> refines (each f gs) (each f' hs)"
  by (induction rule: list_all2_induct) (auto intro!: refine_rules)

lemma run_hooks_refine:
  assumes "hooks_refine G H"
  shows "refines (each (\<lambda>hook. hook a) (onAccountClosed G)) (each (\<lambda>hook. hook a) (onAccountClosed H))"
    "refines (each (\<lambda>hook. hook p) (onPaymentClosed G)) (each (\<lambda>hook. hook p) (onPaymentClosed H))"
    "refines (each (\<lambda>hook. each hook ps) (onPaymentClosed G)) (each (\<lambda>hook. each hook ps) (onPaymentClosed H))"
  using assms unfolding hooks_refine_def
  by (auto intro!: refines_each2 refines_each elim!: list_all2_mono)

lemma settle_refine: "hooks_refine G H \<Longrightarrow> refines (doAccountSettle E G i) (doAccountSettle E H i)"
  unfolding doAccountSettle_eq settle_finish_def Let_def by (intro refine_rules run_hooks_refine)

lemma escrow_refine:
  assumes "hooks_refine G H"
  shows "refines (AccountSettle E G i) (AccountSettle E H i)" "refines (AccountClose E G i) (AccountClose E H i)"
    "refines (PaymentCreate E G i pid owner rate) (PaymentCreate E H i pid owner rate)"
    "refines (PaymentWithdraw E G i pid) (PaymentWithdraw E H i pid)"
    "refines (PaymentClose E G i pid) (PaymentClose E H i pid)"
  unfolding AccountSettle_def AccountClose_def PaymentCreate_def PaymentWithdraw_def PaymentClose_def
  by (intro refine_rules settle_refine run_hooks_refine assms)+

subsection \<open>Market, hooks and handlers\<close>

lemma market_refine:
  assumes "hooks_refine G H"
  shows "refines (OnBidClosed E G b) (OnBidClosed E H b)" "refines (OnGroupClosed E G i) (OnGroupClosed E H i)"
  unfolding OnBidClosed_def OnGroupClosed_def group_closed_bid_def Let_def
  by (intro refine_rules escrow_refine assms)+

lemma close_groups_refine: "hooks_refine G H \<Longrightarrow> refines (close_groups E G st gs) (close_groups E H st gs)"
  by (induction gs) (auto intro!: refine_rules market_refine)

lemma hook_refine:
  assumes "hooks_refine G H"
  shows "refines (OnEscrowAccountClosed E G a) (OnEscrowAccountClosed E H a)"
    "refines (OnEscrowPaymentClosed E G p) (OnEscrowPaymentClosed E H p)"
  unfolding OnEscrowAccountClosed_def OnEscrowPaymentClosed_def
  by (intro refine_rules close_groups_refine market_refine assms)+

lemma app_hooks_refine: "hooks_refine (app_hooks E n) (app_hooks E (n + k))"
proof (induction n)
  case 0
  show ?case by (cases k) (simp_all add: hooks_refine_def refine_rules)
next
  case (Suc n)
  then show ?case by (simp add: hooks_refine_def [of "app_hooks E (Suc n)"] hook_refine)
qed

lemma handle_refine:
  assumes "hooks_refine G H"
  shows "refines (handle E parse G m) (handle E parse H m)"
  unfolding handle_def Deployment_NewHandler_def Market_NewHandler_def
  by (cases m) (simp_all add: refine_rules Msg_CloseDeployment_def Msg_CloseGroup_def Msg_PauseGroup_def
    Msg_CloseBid_def Msg_WithdrawLease_def Msg_CreateLease_def Msg_CloseLease_def escrow_refine [OF assms]
    market_refine [OF assms])

lemma runTx_refine:
  assumes "hooks_refine G H"
  shows "refines (runTx_with E parse G msgs) (runTx_with E parse H msgs)"
  unfolding runTx_with_def by (intro refine_rules handle_refine assms)

end
