(* ===== verification/Market_View.thy ===== *)
theory Market_View
  imports Fuel_Mono
begin

text \<open>
  An abstract view of the market: which state each order, bid and lease is in, by identifier.  The
  keeper's operations act on the view as updates of these maps (the rules at the end), whatever the
  escrow keeper does in between: closing the account of a bid runs no hook that acts, so it changes
  nothing but escrow.
\<close>

subsection \<open>Closing the account of a bid\<close>

text \<open>Hooks that do nothing on one account's objects and must not be called on others.\<close>

definition idle_hooks :: "account_id \<Rightarrow> ('b, 'x) hooks" where
  "idle_hooks i = \<lparr>
     onAccountClosed = [\<lambda>a. if acc_ID a = i then ret () else out_of_fuel],
     onPaymentClosed = [\<lambda>p. if pay_AccountID p = i then ret () else out_of_fuel]\<rparr>"

lemma idle_hooks_sel [simp]:
  "onAccountClosed (idle_hooks i) = [\<lambda>a. if acc_ID a = i then ret () else out_of_fuel]"
  "onPaymentClosed (idle_hooks i) = [\<lambda>p. if pay_AccountID p = i then ret () else out_of_fuel]"
  by (simp_all add: idle_hooks_def)

interpretation idle: escrow_keeper E bal J "idle_hooks i" for E bal J i
  by unfold_locales (auto intro: keeps_basic)

lemma idle_outside: "frame_ok Q \<Longrightarrow> outside (idle_hooks i) Q"
  by unfold_locales (auto intro: keeps_basic)

lemma idle_fueled: "hooks_fueled (idle_hooks i) P i"
  by (simp add: hooks_fueled_def fueled_basic)

lemma idle_refine: "hooks_refine (idle_hooks (EscrowAccountForBid b)) (app_hooks E (Suc n))"
  by (auto simp: hooks_refine_def OnEscrowAccountClosed_def OnEscrowPaymentClosed_def
    DeploymentIDFromEscrowAccount_scope LeaseIDFromEscrowAccount_scope refine_rules)

lemma hoare_refines:
  assumes "refines m n" "hoare P n Q R"
  shows "hoare P m Q R"
proof (rule hoareI)
  show "Q a s'" if "P s" "m s = Ok a s'" for s a s'
    using that assms(1) hoare_Ok [OF assms(2), of s a s'] by (metis outcome.distinct(5) refines_def)
  show "R s'" if "P s" "m s = Err e s'" for s e s'
    using that assms(1) hoare_Err [OF assms(2), of s e s'] by (metis outcome.distinct(9) refines_def)
qed

lemma bid_close_idle:
  assumes "bank_laws E ModuleName bal" "addr_laws E" "bid_id_ok E b" "chain_inv E bal s"
  shows "AccountClose E (app_hooks E (Suc n)) (EscrowAccountForBid b) s =
    AccountClose E (idle_hooks (EscrowAccountForBid b)) (EscrowAccountForBid b) s"
  using refines_fueled [OF escrow_refine(2) [OF idle_refine]
      idle.AccountClose_fueled [OF assms(1) idle_fueled assms(2) account_id_ok_make(2) [OF assms(3)]]]
    assms(4) unfolding chain_inv_eq by metis

lemma bid_close_frame:
  assumes "bank_laws E ModuleName bal" "addr_laws E" "bid_id_ok E b" "frame_ok Q"
  shows "keeps (\<lambda>s. chain_inv E bal s \<and> Q s) (AccountClose E (app_hooks E n) (EscrowAccountForBid b))"
proof -
  have "keeps (\<lambda>s. chain_inv E bal s \<and> Q s) (AccountClose E (app_hooks E (Suc n)) (EscrowAccountForBid b))"
  proof (rule keepsI)
    fix s a s' assume s: "chain_inv E bal s \<and> Q s"
      and ok: "AccountClose E (app_hooks E (Suc n)) (EscrowAccountForBid b) s = Ok a s'"
    have "Q s'" using outside.escrow_frame(4) [OF idle_outside [OF assms(4)]] s ok
        bid_close_idle [OF assms(1-3), of s n] by (metis keeps_Ok)
    then show "chain_inv E bal s' \<and> Q s'" using keeps_Ok [OF app.escrow_ops(1) [OF assms(1)] _ ok] s by simp
  next
    fix s e s' assume s: "chain_inv E bal s \<and> Q s"
      and err: "AccountClose E (app_hooks E (Suc n)) (EscrowAccountForBid b) s = Err e s'"
    have "Q s'" using outside.escrow_frame(4) [OF idle_outside [OF assms(4)]] s err
        bid_close_idle [OF assms(1-3), of s n] by (metis keeps_Err)
    then show "chain_inv E bal s' \<and> Q s'" using keeps_Err [OF app.escrow_ops(1) [OF assms(1)] _ err] s by simp
  qed
  then show ?thesis
    using hoare_refines [OF escrow_refine(2) [OF app_hooks_refine [of E n 1]]] by (simp add: keeps_def)
qed

text \<open>A settlement that does not overdraw the account runs no hooks.\<close>

lemma settle_calm:
  assumes "frame_ok Q"
  shows "hoare Q (doAccountSettle E H i) (\<lambda>(a, ps, od) s. \<not> od \<longrightarrow> Q s) (\<lambda>_. True)"
proof -
  have idle: "outside NewKeeper Q" by unfold_locales (simp_all add: NewKeeper_def assms)
  note [simp] = outside.I_frame [OF idle]
  have "hoare Q (settle_save a ps) (\<lambda>(a, ps, od) s. \<not> od \<longrightarrow> Q s) (\<lambda>_. True)" for a ps
    unfolding settle_save_def
    by (rule hoare_bind [where Q = "\<lambda>_. Q"], rule hoare_weaken [OF outside.writes(2) [OF idle, unfolded keeps_def]], simp_all,
      rule hoare_bind [where Q = "\<lambda>_. Q"],
      rule hoare_weaken [OF keeps_each [OF outside.writes(3) [OF idle], unfolded keeps_def]], simp_all, simp add: hoare_def ret_def)
  moreover have "hoare Q (settle_finish E H a ps) (\<lambda>(a, ps, od) s. \<not> od \<longrightarrow> Q s) (\<lambda>_. True)" for a ps
    unfolding settle_finish_def Let_def by (auto simp: hoare_def bind_def ret_def split: outcome.splits)
  ultimately show ?thesis
    unfolding doAccountSettle_eq GetAccount_def accountOpenPayments_def accountPayments_def bind_assoc Let_def bind_ret
    by (intro hoare_steps, simp_all)
      (auto intro!: hoare_pre [of Q] hoare_ret hoare_case_prod simp: hoare_def saveAccount_def act_defs)
qed

lemma PaymentCreate_calm:
  assumes "frame_ok Q"
  shows "hoare Q (PaymentCreate E H i pid owner rate) (\<lambda>_. Q) (\<lambda>_. True)"
  unfolding PaymentCreate_def Let_def
  by (rule hoare_bind [OF settle_calm [OF assms]], intro hoare_case_prod hoare_steps)
    (auto intro!: hoare_pre [OF hoare_modify] simp: frame_okD [OF assms])

subsection \<open>The view\<close>

record market_view =
  vo :: "order_id \<Rightarrow> order_state option"
  vb :: "bid_id \<Rightarrow> bid_state option"
  vl :: "lease_id \<Rightarrow> lease_state option"

definition view :: "'b env \<Rightarrow> ('b, 'x) mst \<Rightarrow> market_view" where
  "view E s = \<lparr>
     vo = (\<lambda>i. map_option ord_State (kv_get (orders s) (orderKey i))),
     vb = (\<lambda>i. if bid_id_ok E i then map_option bd_State (kv_get (bids s) (bidKey i)) else None),
     vl = (\<lambda>i. if bid_id_ok E i then map_option ls_State (kv_get (leases s) (leaseKey i)) else None)\<rparr>"

lemma view_simps [simp]:
  "view E (s\<lparr>bank := x\<rparr>) = view E s" "view E (s\<lparr>events := ev\<rparr>) = view E s" "view E (s\<lparr>accounts := a\<rparr>) = view E s"
  "view E (s\<lparr>payments := p\<rparr>) = view E s" "view E (s\<lparr>deployments := d\<rparr>) = view E s" "view E (s\<lparr>groups := g\<rparr>) = view E s"
  "view E (s\<lparr>deploymentParams := dp\<rparr>) = view E s" "view E (s\<lparr>providers := pr\<rparr>) = view E s"
  "view E (s\<lparr>audits := au\<rparr>) = view E s" "view E (s\<lparr>marketParams := mp\<rparr>) = view E s"
  by (simp_all add: view_def cong: if_cong)

lemma view_frame: "frame_ok (\<lambda>s. P (view E s))"
  by (simp add: frame_ok_def)

lemma same_bid:
  "addr_laws E \<Longrightarrow> bid_id_ok E i \<Longrightarrow> bid_id_ok E j \<Longrightarrow> bidKey i = bidKey j \<longleftrightarrow> i = j"
  "addr_laws E \<Longrightarrow> bid_id_ok E i \<Longrightarrow> bid_id_ok E j \<Longrightarrow> leaseKey i = leaseKey j \<longleftrightarrow> i = j"
  using bidKey_inj [of i j] leaseKey_inj [of i j] decodable_length [of E "bid_Owner i" "bid_Owner j"]
  by (auto simp: bid_id_ok_def)

lemma view_orders [simp]:
  "kv_ok (orders s) \<Longrightarrow> view E (s\<lparr>orders := kv_set (orderKey i) r (orders s)\<rparr>) =
     view E s\<lparr>vo := (vo (view E s))(i \<mapsto> ord_State r)\<rparr>"
  by (auto simp: view_def fun_eq_iff kv_get_set)

lemma view_bids [simp]:
  "kv_ok (bids s) \<Longrightarrow> addr_laws E \<Longrightarrow> bid_id_ok E i \<Longrightarrow>
   view E (s\<lparr>bids := kv_set (bidKey i) b (bids s)\<rparr>) = view E s\<lparr>vb := (vb (view E s))(i \<mapsto> bd_State b)\<rparr>"
  by (auto simp: view_def fun_eq_iff kv_get_set same_bid)

lemma view_leases [simp]:
  "kv_ok (leases s) \<Longrightarrow> addr_laws E \<Longrightarrow> bid_id_ok E i \<Longrightarrow>
   view E (s\<lparr>leases := kv_set (leaseKey i) l (leases s)\<rparr>) = view E s\<lparr>vl := (vl (view E s))(i \<mapsto> ls_State l)\<rparr>"
  by (auto simp: view_def fun_eq_iff kv_get_set same_bid)

lemma store_kv_ok:
  "chain_inv E bal s \<Longrightarrow> kv_ok (orders s)" "chain_inv E bal s \<Longrightarrow> kv_ok (bids s)" "chain_inv E bal s \<Longrightarrow> kv_ok (leases s)"
  by (simp_all add: chain_inv_def store_inv_def own_keys_def)

subsection \<open>Operations on the view\<close>

definition viewed :: "'b env \<Rightarrow> ('b \<Rightarrow> string \<Rightarrow> int) \<Rightarrow> (market_view \<Rightarrow> bool) \<Rightarrow> ('b, 'x) mst \<Rightarrow> bool" where
  "viewed E bal P s \<longleftrightarrow> chain_inv E bal s \<and> P (view E s)"

lemma viewed_keeps:
  assumes "keeps (chain_inv E bal) m" "keeps (\<lambda>s. P (view E s)) m"
  shows "keeps (viewed E bal P) m"
  using keeps_conj [OF assms] by (simp add: viewed_def [abs_def])

text \<open>A write that keeps the invariant and changes the view as given.\<close>

lemma viewed_write:
  assumes "keeps (chain_inv E bal) (modify f)" and "\<And>s. chain_inv E bal s \<Longrightarrow> view E (f s) = g (view E s)"
  shows "hoare (viewed E bal (\<lambda>v. P (g v))) (modify f) (\<lambda>_. viewed E bal P) R"
  using assms by (auto simp: hoare_def keeps_def modify_def viewed_def)

lemma viewed_emit: "hoare (viewed E bal P) (emit ev) (\<lambda>_. viewed E bal P) R"
  using viewed_write [OF keeps_emit [unfolded emit_def], of E bal ev "\<lambda>v. v" P R] by (simp add: emit_def)

lemma viewed_updates:
  assumes "addr_laws E"
  shows "order_ok E o' \<Longrightarrow> hoare (viewed E bal (\<lambda>v. P (v\<lparr>vo := (vo v)(ord_ID o' \<mapsto> ord_State o')\<rparr>))) (updateOrder o')
      (\<lambda>_. viewed E bal P) R"
    "bid_id_ok E (bd_ID b) \<Longrightarrow> hoare (viewed E bal (\<lambda>v. P (v\<lparr>vb := (vb v)(bd_ID b \<mapsto> bd_State b)\<rparr>))) (updateBid b)
      (\<lambda>_. viewed E bal P) R"
    "bid_id_ok E (ls_ID l) \<Longrightarrow> hoare (viewed E bal (\<lambda>v. P (v\<lparr>vl := (vl v)(ls_ID l \<mapsto> ls_State l)\<rparr>))) (updateLease l)
      (\<lambda>_. viewed E bal P) R"
  unfolding updateOrder_def updateBid_def updateLease_def
  by (rule viewed_write, erule keeps_writes [unfolded updateOrder_def updateBid_def updateLease_def],
    simp add: store_kv_ok assms fun_upd_def)+

lemma viewed_OnOrderClosed:
  assumes "addr_laws E" "order_ok E o'"
  shows "hoare (viewed E bal (\<lambda>v. P (if ord_State o' = OrderClosed then v else v\<lparr>vo := (vo v)(ord_ID o' \<mapsto> OrderClosed)\<rparr>)))
    (OnOrderClosed o') (\<lambda>_. viewed E bal P) R"
proof -
  have "hoare (viewed E bal (\<lambda>v. P (v\<lparr>vo := (vo v)(ord_ID o' \<mapsto> OrderClosed)\<rparr>)))
    (bind (updateOrder (o'\<lparr>ord_State := OrderClosed\<rparr>)) (\<lambda>_. emit (EventOrderClosed (ord_ID o')))) (\<lambda>_. viewed E bal P) R"
    using viewed_updates(1) [OF assms(1), of "o'\<lparr>ord_State := OrderClosed\<rparr>" bal P R] assms(2)
    by (intro hoare_bind [OF _ viewed_emit]) simp
  then show ?thesis by (auto simp: OnOrderClosed_def intro: hoare_ret)
qed

lemma viewed_OnLeaseClosed:
  assumes "addr_laws E" "bid_id_ok E (ls_ID l)"
  shows "hoare (viewed E bal (\<lambda>v. P (if ls_State l = LeaseClosed \<or> ls_State l = LeaseInsufficientFunds then v
      else v\<lparr>vl := (vl v)(ls_ID l \<mapsto> st)\<rparr>)))
    (OnLeaseClosed l st) (\<lambda>_. viewed E bal P) R"
proof -
  have "hoare (viewed E bal (\<lambda>v. P (v\<lparr>vl := (vl v)(ls_ID l \<mapsto> st)\<rparr>)))
    (bind (updateLease (l\<lparr>ls_State := st\<rparr>)) (\<lambda>_. emit (EventLeaseClosed (ls_ID l) (ls_Price l)))) (\<lambda>_. viewed E bal P) R"
    using viewed_updates(3) [OF assms(1), of "l\<lparr>ls_State := st\<rparr>" bal P R] assms(2)
    by (intro hoare_bind [OF _ viewed_emit]) simp
  then show ?thesis by (auto simp: OnLeaseClosed_def intro: hoare_ret)
qed

lemma viewed_bid_account:
  assumes "bank_laws E ModuleName bal" "addr_laws E" "bid_id_ok E b"
  shows "keeps (viewed E bal P) (AccountClose E (app_hooks E n) (EscrowAccountForBid b))"
  using bid_close_frame [OF assms view_frame] by (simp add: viewed_def [abs_def])

lemma viewed_OnBidClosed:
  assumes "bank_laws E ModuleName bal" "addr_laws E" "bid_id_ok E (bd_ID b)"
  shows "hoare (viewed E bal (\<lambda>v. P (if bd_State b = BidClosed \<or> bd_State b = BidLost then v
      else v\<lparr>vb := (vb v)(bd_ID b \<mapsto> BidClosed)\<rparr>)))
    (OnBidClosed E (app_hooks E n) b) (\<lambda>_. viewed E bal P) R"
proof -
  have "hoare (viewed E bal (\<lambda>v. P (v\<lparr>vb := (vb v)(bd_ID b \<mapsto> BidClosed)\<rparr>)))
    (bind (updateBid (b\<lparr>bd_State := BidClosed\<rparr>)) (\<lambda>_.
     bind (attempt (AccountClose E (app_hooks E n) (EscrowAccountForBid (bd_ID b)))) (\<lambda>_.
     emit (EventBidClosed (bd_ID b) (bd_Price b))))) (\<lambda>_. viewed E bal P) R"
    using viewed_updates(2) [OF assms(2), of "b\<lparr>bd_State := BidClosed\<rparr>" bal P R] assms
    by (intro hoare_bind [OF _ hoare_bind [OF hoare_attempt viewed_emit]])
      (auto intro: hoare_weaken [OF viewed_bid_account [unfolded keeps_def]])
  then show ?thesis by (auto simp: OnBidClosed_def intro: hoare_ret)
qed

end
