(* ===== verification/Coherence.thy ===== *)
theory Coherence
  imports Market_View
begin

text \<open>
  Orders, bids and leases agree with each other in every reachable state (\<open>coherent\<close>): a lease is
  active exactly when its bid is, and exactly when its order is; an order has at most one lease in
  its whole life; a group has at most one order that is not closed.
\<close>

lemma hoare_case_option:
  "(x = None \<Longrightarrow> hoare P m Q R) \<Longrightarrow> (\<And>a. x = Some a \<Longrightarrow> hoare P (f a) Q R) \<Longrightarrow>
   hoare P (case x of None \<Rightarrow> m | Some a \<Rightarrow> f a) Q R"
  by (cases x) simp_all

subsection \<open>Coherence of the view\<close>

definition live :: "order_state option \<Rightarrow> bool" where
  "live st \<longleftrightarrow> st \<noteq> None \<and> st \<noteq> Some OrderClosed"

text \<open>\<open>X\<close> is the order that is being closed: its lease may still be active.\<close>

definition coherent :: "order_id set \<Rightarrow> market_view \<Rightarrow> bool" where
  "coherent X v \<longleftrightarrow>
     (\<forall>i. vl v i \<noteq> None \<longrightarrow> vo v (BidID_OrderID i) \<noteq> None \<and> vo v (BidID_OrderID i) \<noteq> Some OrderOpen) \<and>
     (\<forall>i. vl v i = Some LeaseActive \<longrightarrow> vo v (BidID_OrderID i) = Some OrderActive \<or> BidID_OrderID i \<in> X) \<and>
     (\<forall>r. vo v r = Some OrderActive \<longrightarrow> (\<exists>i. vl v i = Some LeaseActive \<and> BidID_OrderID i = r)) \<and>
     (\<forall>i j. vl v i \<noteq> None \<longrightarrow> vl v j \<noteq> None \<longrightarrow> BidID_OrderID i = BidID_OrderID j \<longrightarrow> i = j) \<and>
     (\<forall>i. vb v i = Some BidActive \<longleftrightarrow> vl v i = Some LeaseActive) \<and>
     (\<forall>r r'. live (vo v r) \<longrightarrow> live (vo v r') \<longrightarrow> OrderID_GroupID r = OrderID_GroupID r' \<longrightarrow> r = r')"

lemma coherent_mono: "coherent X v \<Longrightarrow> X \<subseteq> Y \<Longrightarrow> coherent Y v"
  unfolding coherent_def by blast

text \<open>No lease of the order that is being closed is active any more.\<close>

lemma coherent_done:
  assumes "coherent {r} v" "\<And>i. vl v i = Some LeaseActive \<Longrightarrow> BidID_OrderID i \<noteq> r"
  shows "coherent {} v"
  using assms unfolding coherent_def by auto

lemma coherent_close_order:
  "coherent {} v \<Longrightarrow> coherent {r} (v\<lparr>vo := (vo v)(r \<mapsto> OrderClosed)\<rparr>)"
  unfolding coherent_def live_def by (auto split: if_splits)

lemma coherent_close_all:
  assumes "coherent {} v" "vb v i = Some BidActive" "st \<noteq> LeaseActive"
  shows "coherent {} (v\<lparr>vo := (vo v)(BidID_OrderID i \<mapsto> OrderClosed), vb := (vb v)(i \<mapsto> BidClosed),
    vl := (vl v)(i \<mapsto> st)\<rparr>)"
  using assms unfolding coherent_def live_def by (auto split: if_splits)

subsection \<open>The invariant\<close>

definition coh_inv :: "'b env \<Rightarrow> ('b \<Rightarrow> string \<Rightarrow> int) \<Rightarrow> ('b, 'x) mst \<Rightarrow> bool" where
  "coh_inv E bal s \<longleftrightarrow> chain_inv E bal s \<and> (addr_laws E \<longrightarrow> coherent {} (view E s))"

lemma coh_inv_viewed: "addr_laws E \<Longrightarrow> coh_inv E bal = viewed E bal (coherent {})"
  by (simp add: fun_eq_iff coh_inv_def viewed_def)

lemma coh_inv_weak: "\<not> addr_laws E \<Longrightarrow> coh_inv E bal = chain_inv E bal"
  by (simp add: fun_eq_iff coh_inv_def)

lemma coh_inv_eq:
  "coh_inv E bal = escrow_inv E bal (others (\<lambda>s. store_inv E s \<and> (addr_laws E \<longrightarrow> coherent {} (view E s))))"
proof -
  have "frame_ok (\<lambda>s. addr_laws E \<longrightarrow> coherent {} (view E s))"
    by (rule view_frame [of "\<lambda>v. addr_laws E \<longrightarrow> coherent {} v"])
  from escrow_inv_split [OF frame_ok_conj [OF store_inv_frame this]] show ?thesis
    by (auto simp: fun_eq_iff coh_inv_def chain_inv_def)
qed

text \<open>The objects found under an identifier, as the view shows them.\<close>

lemma view_bid:
  assumes "addr_laws E" "chain_inv E bal s" "bid_id_ok E i" "kv_get (bids s) (bidKey i) = Some b"
  shows "bd_ID b = i" "bid_id_ok E (bd_ID b)" "vb (view E s) i = Some (bd_State b)"
  using assms own_keys_get [of "\<lambda>b. bidKey (bd_ID b)" "\<lambda>b. bid_id_ok E (bd_ID b)" "bids s" "bidKey i" b]
  by (auto simp: chain_inv_def store_inv_def view_def same_bid)

lemma view_lease:
  assumes "addr_laws E" "chain_inv E bal s" "bid_id_ok E i" "kv_get (leases s) (leaseKey i) = Some l"
  shows "ls_ID l = i" "bid_id_ok E (ls_ID l)" "vl (view E s) i = Some (ls_State l)"
  using assms own_keys_get [of "\<lambda>l. leaseKey (ls_ID l)" "\<lambda>l. bid_id_ok E (ls_ID l)" "leases s" "leaseKey i" l]
  by (auto simp: chain_inv_def store_inv_def view_def same_bid)

lemma view_order:
  assumes "chain_inv E bal s" "kv_get (orders s) (orderKey i) = Some r"
  shows "ord_ID r = i" "order_ok E r" "vo (view E s) i = Some (ord_State r)"
  using assms own_keys_get [of "\<lambda>r. orderKey (ord_ID r)" "order_ok E" "orders s" "orderKey i" r]
  by (auto simp: chain_inv_def store_inv_def view_def)

subsection \<open>The payment hook\<close>

lemma hook_lease_ok:
  assumes "addr_laws E" "LeaseIDFromEscrowAccount E a pid = Some i"
  shows "bid_id_ok E i"
proof -
  from assms(2) obtain d gseq oseq p owner where d: "DeploymentIDFromEscrowAccount E a = Some d"
      and p: "FromBech32 E p = Some owner"
      and i: "i = MakeLeaseID (MakeBidID E (MakeOrderID (MakeGroupID d gseq) oseq) owner)"
    by (auto simp: LeaseIDFromEscrowAccount_def split: option.splits list.splits)
  have "decodable E (AddrString E owner)"
    using assms(1) p by (auto simp: decodable_def addr_laws_def)
  then show ?thesis
    using canonical_decodable [OF hook_deployment_canonical [OF assms(1) d]] i
    by (simp add: bid_id_ok_def id_defs)
qed

lemma close_all_viewed:
  assumes "bank_laws E ModuleName bal" "addr_laws E" "bid_id_ok E i" "st \<noteq> LeaseActive" "bd_State b = BidActive"
  shows "hoare (\<lambda>s. viewed E bal (coherent {}) s \<and> kv_get (bids s) (bidKey i) = Some b \<and>
      kv_get (orders s) (orderKey (BidID_OrderID i)) = Some r \<and> kv_get (leases s) (leaseKey i) = Some l)
    (bind (OnOrderClosed r) (\<lambda>_. bind (OnBidClosed E (app_hooks E n) b) (\<lambda>_. OnLeaseClosed l st)))
    (\<lambda>_. viewed E bal (coherent {})) R"
    (is "hoare ?P _ _ _")
proof -
  have found: "bd_ID b = i" "ls_ID l = i" "ord_ID r = BidID_OrderID i" "order_ok E r"
      "ord_State r = OrderActive" "ls_State l = LeaseActive" "vb (view E s) i = Some BidActive"
      "chain_inv E bal s" "coherent {} (view E s)" if s: "?P s" for s
  proof -
    from s show c: "chain_inv E bal s" "coherent {} (view E s)" by (simp_all add: viewed_def)
    from s have g: "kv_get (bids s) (bidKey i) = Some b" "kv_get (leases s) (leaseKey i) = Some l"
      "kv_get (orders s) (orderKey (BidID_OrderID i)) = Some r" by simp_all
    note v = view_bid [OF assms(2) c(1) assms(3) g(1)] view_lease [OF assms(2) c(1) assms(3) g(2)] view_order [OF c(1) g(3)]
    from v(3) assms(5) show b: "vb (view E s) i = Some BidActive" by simp
    have "vl (view E s) i = Some LeaseActive" "vo (view E s) (BidID_OrderID i) = Some OrderActive"
      using c(2) b by (simp_all add: coherent_def)
    with v show "bd_ID b = i" "ls_ID l = i" "ord_ID r = BidID_OrderID i" "order_ok E r"
      "ord_State r = OrderActive" "ls_State l = LeaseActive" by simp_all
  qed
  show ?thesis
  proof (rule hoare_fact [where F = "\<exists>s. ?P s"], blast)
    assume "\<exists>s. ?P s"
    then obtain s0 where s0: "?P s0" by blast
    note F = found(1-6) [OF s0]
    have "hoare (viewed E bal (\<lambda>v. coherent {} (v\<lparr>vo := (vo v)(BidID_OrderID i \<mapsto> OrderClosed),
        vb := (vb v)(i \<mapsto> BidClosed), vl := (vl v)(i \<mapsto> st)\<rparr>)))
      (bind (OnOrderClosed r) (\<lambda>_. bind (OnBidClosed E (app_hooks E n) b) (\<lambda>_. OnLeaseClosed l st)))
      (\<lambda>_. viewed E bal (coherent {})) R"
      by (rule hoare_pre, rule hoare_bind [OF viewed_OnOrderClosed hoare_bind [OF viewed_OnBidClosed viewed_OnLeaseClosed]])
        (simp_all add: F assms)
    then show ?thesis
    proof (rule hoare_pre)
      fix s assume s: "?P s"
      show "viewed E bal (\<lambda>v. coherent {} (v\<lparr>vo := (vo v)(BidID_OrderID i \<mapsto> OrderClosed),
          vb := (vb v)(i \<mapsto> BidClosed), vl := (vl v)(i \<mapsto> st)\<rparr>)) s"
        using coherent_close_all [OF found(9) [OF s] found(7) [OF s] assms(4)] found(8) [OF s] by (simp add: viewed_def)
    qed
  qed
qed

lemma payment_hook_coherent:
  assumes "bank_laws E ModuleName bal" "addr_laws E"
  shows "hoare (viewed E bal (coherent {})) (OnEscrowPaymentClosed E (app_hooks E n) p)
    (\<lambda>_. viewed E bal (coherent {})) R"
proof (cases "LeaseIDFromEscrowAccount E (pay_AccountID p) (pay_PaymentID p)")
  case None
  then show ?thesis by (simp add: OnEscrowPaymentClosed_def hoare_def ret_def)
next
  case (Some i)
  note ok = hook_lease_ok [OF assms(2) Some]
  show ?thesis
    unfolding OnEscrowPaymentClosed_def Some GetBid_def GetOrder_def GetLease_def option.case
    by (intro hoare_bind_gets hoare_case_option hoare_if hoare_pre [OF hoare_ret]
      hoare_pre [OF close_all_viewed [OF assms ok]]) auto
qed


lemma payment_coherent:
  "bank_laws E ModuleName bal \<Longrightarrow> addr_laws E \<Longrightarrow> keeps (viewed E bal (coherent {})) (OnEscrowPaymentClosed E (app_hooks E n) p)"
  unfolding keeps_def by (rule payment_hook_coherent)

subsection \<open>The loops of \<open>OnGroupClosed\<close>\<close>

text \<open>\<open>closing E oid rem v\<close>: the order \<open>oid\<close> is closed, its bids \<open>rem\<close> are still to be
  visited, and the lease of the order, if active, belongs to one of them.\<close>

definition closing :: "'b env \<Rightarrow> order_id \<Rightarrow> bid list \<Rightarrow> market_view \<Rightarrow> bool" where
  "closing E oid rem v \<longleftrightarrow> coherent {oid} v \<and> vo v oid = Some OrderClosed \<and>
     (\<forall>b\<in>set rem. bid_id_ok E (bd_ID b) \<and> BidID_OrderID (bd_ID b) = oid \<and>
        (vl v (bd_ID b) = Some LeaseActive \<longrightarrow> bd_State b = BidActive)) \<and>
     (\<forall>i. vl v i = Some LeaseActive \<longrightarrow> BidID_OrderID i = oid \<longrightarrow> i \<in> bd_ID ` set rem)"

lemma closing_end: "closing E oid [] v \<Longrightarrow> coherent {} v \<and> vo v oid = Some OrderClosed"
  unfolding closing_def by (auto intro: coherent_done)

text \<open>What closing one bid and its lease does to the view.\<close>

definition bid_closed_view :: "bid \<Rightarrow> market_view \<Rightarrow> market_view" where
  "bid_closed_view b v = (if bd_State b = BidClosed \<or> bd_State b = BidLost then v else v\<lparr>vb := (vb v)(bd_ID b \<mapsto> BidClosed)\<rparr>)"

lemma lease_absent:
  assumes "kv_get (leases s) (leaseKey i) = None" "view E s = bid_closed_view b u"
  shows "vl u i = None"
proof -
  have "vl (view E s) i = None" using assms(1) by (simp add: view_def)
  then show ?thesis unfolding assms(2) by (simp add: bid_closed_view_def split: if_splits)
qed

lemma closing_skip:
  assumes "closing E oid (b # rem) v" "vl v (bd_ID b) = None"
  shows "closing E oid rem (bid_closed_view b v)"
proof -
  have "coherent {oid} (bid_closed_view b v)"
    using assms unfolding closing_def coherent_def bid_closed_view_def by (auto split: if_splits)
  then show ?thesis using assms unfolding closing_def bid_closed_view_def by auto
qed

lemma closing_absent:
  "closing E oid (b # rem) u \<Longrightarrow> view E s = bid_closed_view b u \<Longrightarrow> kv_get (leases s) (leaseKey (bd_ID b)) = None \<Longrightarrow>
   closing E oid rem (bid_closed_view b u)"
  by (blast intro: closing_skip lease_absent)

lemma closing_lease:
  assumes "closing E oid (b # rem) v" "vl v (bd_ID b) = Some st"
  shows "coherent {} ((bid_closed_view b v)\<lparr>vl := (vl v)(bd_ID b \<mapsto> LeaseClosed)\<rparr>)"
    "st \<noteq> LeaseActive \<Longrightarrow> coherent {} (bid_closed_view b v)"
proof -
  have oid: "BidID_OrderID (bd_ID b) = oid" using assms by (simp add: closing_def)
  have only: "i = bd_ID b" if "vl v i \<noteq> None" "BidID_OrderID i = oid" for i
    using assms that oid unfolding closing_def coherent_def by (metis option.distinct(1))
  have act: "\<exists>i. i \<noteq> bd_ID b \<and> vl v i = Some LeaseActive \<and> BidID_OrderID i = r" if "vo v r = Some OrderActive" for r
  proof -
    from assms(1) that obtain i where i: "vl v i = Some LeaseActive" "BidID_OrderID i = r"
      unfolding closing_def coherent_def by blast
    moreover have "i \<noteq> bd_ID b" using i that assms(1) oid by (auto simp: closing_def)
    ultimately show ?thesis by blast
  qed
  show "coherent {} ((bid_closed_view b v)\<lparr>vl := (vl v)(bd_ID b \<mapsto> LeaseClosed)\<rparr>)"
    using assms only oid unfolding closing_def coherent_def bid_closed_view_def
    by (auto split: if_splits) (metis act)+
  show "coherent {} (bid_closed_view b v)" if "st \<noteq> LeaseActive"
  proof (rule coherent_done)
    show "coherent {oid} (bid_closed_view b v)"
      using that assms unfolding closing_def coherent_def bid_closed_view_def by (auto split: if_splits)
    show "BidID_OrderID i \<noteq> oid" if "vl (bid_closed_view b v) i = Some LeaseActive" for i
      using that only [of i] \<open>st \<noteq> LeaseActive\<close> assms(2) by (auto simp: bid_closed_view_def split: if_splits)
  qed
qed


lemma lease_closing:
  assumes "addr_laws E" "bid_id_ok E (bd_ID b)" "BidID_OrderID (bd_ID b) = oid"
  shows "hoare (\<lambda>s. viewed E bal (\<lambda>v. \<exists>u. closing E oid (b # rem) u \<and> v = bid_closed_view b u) s \<and>
      kv_get (leases s) (leaseKey (bd_ID b)) = Some l)
    (OnLeaseClosed l LeaseClosed) (\<lambda>_. viewed E bal (\<lambda>v. coherent {} v \<and> vo v oid = Some OrderClosed)) R"
    (is "hoare ?P _ _ _")
proof (rule hoare_fact [where F = "ls_ID l = bd_ID b"])
  show "ls_ID l = bd_ID b" if "?P s" for s
    using that view_lease(1) [OF assms(1) _ assms(2)] by (auto simp: viewed_def)
  assume l: "ls_ID l = bd_ID b"
  show "hoare ?P (OnLeaseClosed l LeaseClosed) (\<lambda>_. viewed E bal (\<lambda>v. coherent {} v \<and> vo v oid = Some OrderClosed)) R"
  proof (rule hoare_pre [OF viewed_OnLeaseClosed [OF assms(1)]])
    show "bid_id_ok E (ls_ID l)" using l assms(2) by simp
    fix s assume s: "?P s"
    then obtain u where c: "chain_inv E bal s" and u: "closing E oid (b # rem) u" "view E s = bid_closed_view b u"
      by (auto simp: viewed_def)
    have vl: "vl (bid_closed_view b u) = vl u" "vo (bid_closed_view b u) = vo u" by (simp_all add: bid_closed_view_def)
    have st: "vl u (bd_ID b) = Some (ls_State l)"
      using view_lease(3) [OF assms(1) c assms(2)] s u(2) vl by simp
    note close = closing_lease [OF u(1) st] and fin = u(1) [unfolded closing_def]
    show "viewed E bal (\<lambda>v. (\<lambda>v. coherent {} v \<and> vo v oid = Some OrderClosed)
        (if ls_State l = LeaseClosed \<or> ls_State l = LeaseInsufficientFunds then v
         else v\<lparr>vl := (vl v)(ls_ID l \<mapsto> LeaseClosed)\<rparr>)) s"
      using close fin by (auto simp: viewed_def c u(2) l vl)
  qed
qed

text \<open>The bids of an order, as they are read when the loop over them starts.\<close>

lemma order_bids:
  assumes "addr_laws E" "chain_inv E bal s" "decodable E (oid_Owner oid)" "b \<in> set (WithBidsForOrder oid s)"
  shows "bid_id_ok E (bd_ID b)" "BidID_OrderID (bd_ID b) = oid" "vb (view E s) (bd_ID b) = Some (bd_State b)"
proof -
  have own: "own_keys (\<lambda>b. bidKey (bd_ID b)) (\<lambda>b. bid_id_ok E (bd_ID b)) (bids s)"
    using assms(2) by (simp add: chain_inv_def store_inv_def)
  note b = own_keys_iter [OF own assms(4) [unfolded WithBidsForOrder_def]]
  show "bid_id_ok E (bd_ID b)" by (rule b(1))
  then show "vb (view E s) (bd_ID b) = Some (bd_State b)" using b(2) by (simp add: view_def)
  show "BidID_OrderID (bd_ID b) = oid"
    using b bidsForOrderPrefix_prefix [of oid "bd_ID b"] decodable_length [OF assms(1,3)] by (simp add: bid_id_ok_def)
qed

lemma bid_listed:
  assumes "addr_laws E" "chain_inv E bal s" "decodable E (oid_Owner oid)" "vb (view E s) i = Some st" "BidID_OrderID i = oid"
  shows "\<exists>b\<in>set (WithBidsForOrder oid s). bd_ID b = i"
proof -
  from assms(4) obtain b where i: "bid_id_ok E i" and b: "kv_get (bids s) (bidKey i) = Some b"
    by (auto simp: view_def split: if_splits)
  have "prefix (bidsForOrderPrefix oid) (bidKey i)"
    using i assms(5) bidsForOrderPrefix_prefix [of oid i] decodable_length [OF assms(1,3)] by (simp add: bid_id_ok_def)
  moreover have "kv_ok (bids s)" using assms(2) by (rule store_kv_ok)
  ultimately have "b \<in> set (WithBidsForOrder oid s)"
    using b unfolding WithBidsForOrder_def by (auto simp: kv_iter_member)
  then show ?thesis using view_bid(1) [OF assms(1,2) i b] by blast
qed

lemma closing_start:
  assumes "addr_laws E" "chain_inv E bal s" "decodable E (oid_Owner oid)"
    and v: "coherent {oid} (view E s)" "vo (view E s) oid = Some OrderClosed"
  shows "closing E oid (WithBidsForOrder oid s) (view E s)"
proof -
  have both: "vb (view E s) i = Some BidActive \<longleftrightarrow> vl (view E s) i = Some LeaseActive" for i
    using v(1) by (simp add: coherent_def)
  show ?thesis
    unfolding closing_def using v order_bids [OF assms(1-3)] bid_listed [OF assms(1-3)] both
    by (metis (no_types, lifting) image_eqI option.inject)
qed

lemma order_done_view: "order_done i s \<longleftrightarrow> vo (view E s) i = Some OrderClosed"
  by (simp add: order_done_def view_def)

lemma viewed_done_eq:
  "viewed E bal (\<lambda>v. coherent X v \<and> vo v oid = Some OrderClosed) = (\<lambda>s. viewed E bal (coherent X) s \<and> order_done oid s)"
  by (auto simp: fun_eq_iff viewed_def order_done_view [of _ _ E])

lemma closing_weaken:
  "coherent {} v \<Longrightarrow> vo v oid = Some OrderClosed \<Longrightarrow>
   (\<And>b. b \<in> set rem \<Longrightarrow> bid_id_ok E (bd_ID b) \<and> BidID_OrderID (bd_ID b) = oid) \<Longrightarrow> closing E oid rem v"
  unfolding closing_def by (auto intro: coherent_mono) (auto simp: coherent_def)

subsection \<open>Operations that leave the view alone\<close>

lemma same_view:
  "keeps (\<lambda>s. P (view E s)) (emit ev)" "keeps (\<lambda>s. P (view E s)) (setGroup g)" "keeps (\<lambda>s. P (view E s)) (setDeployment d)"
  unfolding emit_def setGroup_def setDeployment_def by (auto intro: keeps_modify)

lemma viewed_deployment_ops:
  "deployment_ok E d \<Longrightarrow> keeps (viewed E bal P) (CloseDeployment d)"
  "group_ok E g \<Longrightarrow> keeps (viewed E bal P) (OnCloseGroup g st)"
  "group_ok E g \<Longrightarrow> keeps (viewed E bal P) (OnPauseGroup g)"
  "group_ok E g \<Longrightarrow> keeps (viewed E bal P) (OnStartGroup g)"
  "deployment_ok E d \<Longrightarrow> keeps (viewed E bal P) (Deployment_Update d)"
  "deployment_ok E d \<Longrightarrow> (\<And>g. g \<in> set gs \<Longrightarrow> group_ok E g) \<Longrightarrow> keeps (viewed E bal P) (Deployment_Create d gs)"
  by (rule viewed_keeps, auto intro!: chain_rules, auto intro!: keeps_rules same_view
    simp: CloseDeployment_def OnCloseGroup_def OnPauseGroup_def OnStartGroup_def Deployment_Update_def
      Deployment_Create_def Let_def)+

subsection \<open>Closing a group\<close>

locale coherent_hooks = escrow_keeper E bal
    "others (\<lambda>s. store_inv E s \<and> (addr_laws E \<longrightarrow> coherent {} (view E s)))" H
  for E :: "'b env" and bal :: "'b \<Rightarrow> string \<Rightarrow> int" and H :: "('b, 'x) mhooks" +
  fixes n :: nat
  assumes app: "H = app_hooks E n"
begin

lemma viewed_escrow:
  assumes "bank_laws E ModuleName bal" "addr_laws E"
  shows "keeps (viewed E bal (coherent {})) (AccountClose E H i)"
    "keeps (viewed E bal (coherent {})) (PaymentClose E H i pid)"
    "keeps (viewed E bal (coherent {})) (PaymentWithdraw E H i pid)"
  unfolding coh_inv_viewed [OF assms(2), symmetric] coh_inv_eq
  using assms(1) by (rule AccountClose_inv PaymentClose_inv PaymentWithdraw_inv)+

text \<open>An order that is done stays done, so the remaining bids find it closed.\<close>

lemma viewed_done:
  assumes "bank_laws E ModuleName bal" "addr_laws E"
  shows "hoare (viewed E bal (\<lambda>v. coherent {} v \<and> vo v oid = Some OrderClosed)) (attempt (PaymentClose E H i pid))
    (\<lambda>_. viewed E bal (\<lambda>v. coherent {} v \<and> vo v oid = Some OrderClosed)) R"
proof -
  have "keeps (viewed E bal (\<lambda>v. coherent {} v \<and> vo v oid = Some OrderClosed)) (PaymentClose E H i pid)"
    unfolding viewed_done_eq by (intro keeps_conj viewed_escrow assms) (simp add: app finished.hooks.escrow_frame)
  then show ?thesis unfolding keeps_def by (rule hoare_attempt [OF hoare_weaken]) simp_all
qed

lemma viewed_group_closed_bid:
  assumes "bank_laws E ModuleName bal" "addr_laws E"
  shows "hoare (viewed E bal (closing E oid (b # rem))) (group_closed_bid E H g b)
    (\<lambda>_. viewed E bal (closing E oid rem)) R"
proof (rule hoare_fact [where F = "\<forall>b\<in>set (b # rem). bid_id_ok E (bd_ID b) \<and> BidID_OrderID (bd_ID b) = oid"])
  show "\<forall>b\<in>set (b # rem). bid_id_ok E (bd_ID b) \<and> BidID_OrderID (bd_ID b) = oid"
    if "viewed E bal (closing E oid (b # rem)) s" for s
    using that by (auto simp: viewed_def closing_def)
next
  assume ok: "\<forall>b\<in>set (b # rem). bid_id_ok E (bd_ID b) \<and> BidID_OrderID (bd_ID b) = oid"
  let ?C = "\<lambda>v. coherent {} v \<and> vo v oid = Some OrderClosed"
  let ?Q = "\<lambda>v. \<exists>u. closing E oid (b # rem) u \<and> v = bid_closed_view b u"
  have "hoare (viewed E bal (closing E oid (b # rem))) (OnBidClosed E H b) (\<lambda>_. viewed E bal ?Q) R"
    unfolding app
      by (rule hoare_pre, rule viewed_OnBidClosed [OF assms], use ok in simp)
      (auto simp: viewed_def bid_closed_view_def)
  moreover have "hoare (viewed E bal ?Q) (bind (GetLease (MakeLeaseID (bd_ID b))) (\<lambda>l. case l of
       None \<Rightarrow> ret ()
     | Some lease \<Rightarrow>
         bind (OnLeaseClosed lease LeaseClosed) (\<lambda>_.
         bind (attempt (PaymentClose E H (EscrowAccountForDeployment (GroupID_DeploymentID g))
           (EscrowPaymentForLease (ls_ID lease)))) (\<lambda>_.
         ret ())))) (\<lambda>_. viewed E bal (closing E oid rem)) R"
    unfolding GetLease_def MakeLeaseID_def
    by (intro hoare_bind_gets hoare_case_option hoare_pre [OF hoare_ret]
        hoare_bind [OF hoare_pre [OF lease_closing [OF assms(2)]] hoare_bind [OF viewed_done [OF assms] hoare_pre [OF hoare_ret]]])
      (use ok in \<open>auto simp: viewed_def intro: closing_absent closing_weaken\<close>)
  ultimately show "hoare (viewed E bal (closing E oid (b # rem))) (group_closed_bid E H g b)
    (\<lambda>_. viewed E bal (closing E oid rem)) R"
    unfolding group_closed_bid_def by (rule hoare_bind)
qed


text \<open>Closing one order of the group: it is closed first, then all its bids.\<close>

lemma viewed_close_order:
  assumes "bank_laws E ModuleName bal" "addr_laws E" "order_ok E r"
  shows "hoare (\<lambda>s. viewed E bal (coherent {}) s \<and> (ord_State r = OrderClosed \<longrightarrow> order_done (ord_ID r) s))
    (bind (OnOrderClosed r) (\<lambda>_. bind (gets (WithBidsForOrder (ord_ID r))) (each (group_closed_bid E H g))))
    (\<lambda>_. viewed E bal (coherent {})) R"
proof (rule hoare_bind)
  show "hoare (\<lambda>s. viewed E bal (coherent {}) s \<and> (ord_State r = OrderClosed \<longrightarrow> order_done (ord_ID r) s))
      (OnOrderClosed r) (\<lambda>_. viewed E bal (\<lambda>v. coherent {ord_ID r} v \<and> vo v (ord_ID r) = Some OrderClosed)) R"
    by (rule hoare_pre [OF viewed_OnOrderClosed [OF assms(2,3)]])
      (auto simp: viewed_def order_done_view [of _ _ E] intro: coherent_mono coherent_close_order)
  have loop: "hoare (viewed E bal (closing E (ord_ID r) bs)) (each (group_closed_bid E H g) bs)
      (\<lambda>_. viewed E bal (coherent {})) R" for bs
    by (rule hoare_weaken [OF hoare_each [where I = "\<lambda>bs. viewed E bal (closing E (ord_ID r) bs)",
        OF viewed_group_closed_bid [OF assms(1,2)]]])
      (auto simp: viewed_def dest: closing_end)
  show "hoare (viewed E bal (\<lambda>v. coherent {ord_ID r} v \<and> vo v (ord_ID r) = Some OrderClosed))
      (bind (gets (WithBidsForOrder (ord_ID r))) (each (group_closed_bid E H g))) (\<lambda>_. viewed E bal (coherent {})) R"
    by (rule hoare_bind_gets, rule hoare_pre [OF loop])
      (use assms in \<open>auto simp: viewed_def order_ok_def intro: closing_start\<close>)
qed


lemma viewed_OnGroupClosed:
  assumes "bank_laws E ModuleName bal" "addr_laws E"
  shows "hoare (viewed E bal (coherent {})) (OnGroupClosed E H g) (\<lambda>_. viewed E bal (coherent {})) R"
proof -
  let ?body = "\<lambda>r. bind (OnOrderClosed r) (\<lambda>_. bind (gets (WithBidsForOrder (ord_ID r))) (each (group_closed_bid E H g)))"
  define I where "I rs s \<longleftrightarrow> viewed E bal (coherent {}) s \<and>
    (\<forall>r\<in>set rs. order_ok E r \<and> (ord_State r = OrderClosed \<longrightarrow> order_done (ord_ID r) s))" for rs and s :: "('b, 'x) mst"
  have kept: "keeps (order_done i) (?body r)" for i r
    unfolding app by (intro keeps_rules finished.closing_ops finished.market_ops finished.app_hooks_outside)
  have step: "hoare (I (r # rs)) (?body r) (\<lambda>_. I rs) R" for r rs
  proof (rule hoare_fact [where F = "order_ok E r \<and> (\<forall>r\<in>set rs. order_ok E r)"])
    assume ok: "order_ok E r \<and> (\<forall>r\<in>set rs. order_ok E r)"
    have "hoare (\<lambda>s. \<forall>r\<in>set rs. ord_State r = OrderClosed \<longrightarrow> order_done (ord_ID r) s) (?body r)
      (\<lambda>_ s. \<forall>r\<in>set rs. ord_State r = OrderClosed \<longrightarrow> order_done (ord_ID r) s) (\<lambda>_. True)"
      by (rule hoareI) (auto intro: keeps_Ok [OF kept])
    from hoare_conj [OF viewed_close_order [OF assms conjunct1 [OF ok], of g R] this]
    show "hoare (I (r # rs)) (?body r) (\<lambda>_. I rs) R"
      by (rule hoare_weaken) (use ok in \<open>auto simp: I_def\<close>)
  qed (auto simp: I_def)
  have "hoare (I rs) (each ?body rs) (\<lambda>_. viewed E bal (coherent {})) R" for rs
    by (rule hoare_weaken [OF hoare_each [where I = I, OF step]]) (auto simp: I_def)
  then show ?thesis
    unfolding OnGroupClosed_def
    by (intro hoare_bind_gets, rule hoare_pre)
      (auto simp: I_def viewed_def chain_inv_def store_inv_def WithOrdersForGroup_def order_done_def dest: own_keys_iter)
qed

lemma OnGroupClosed_coherent:
  "bank_laws E ModuleName bal \<Longrightarrow> addr_laws E \<Longrightarrow> keeps (viewed E bal (coherent {})) (OnGroupClosed E H g)"
  unfolding keeps_def by (rule viewed_OnGroupClosed)

lemma close_groups_coherent:
  assumes "bank_laws E ModuleName bal" "addr_laws E"
  shows "(\<And>g. g \<in> set gs \<Longrightarrow> group_ok E g) \<Longrightarrow> keeps (viewed E bal (coherent {})) (close_groups E H st gs)"
  by (induction gs)
    (auto intro!: keeps_rules viewed_deployment_ops OnGroupClosed_coherent assms)

lemma account_hook_coherent:
  assumes "bank_laws E ModuleName bal" "addr_laws E"
  shows "keeps (viewed E bal (coherent {})) (OnEscrowAccountClosed E H a)"
  unfolding OnEscrowAccountClosed_def GetDeployment_def GetGroups_def
  by (auto intro!: keeps_case_option keeps_bind_gets keeps_if keeps_basic keeps_bind [OF viewed_deployment_ops(1)]
    close_groups_coherent assms simp: viewed_def chain_inv_def store_inv_def dest: own_keys_get own_keys_iter)

end


lemma coh_inv_cases:
  "(addr_laws E \<Longrightarrow> keeps (viewed E bal (coherent {})) m) \<Longrightarrow> keeps (chain_inv E bal) m \<Longrightarrow> keeps (coh_inv E bal) m"
  by (cases "addr_laws E") (simp_all add: coh_inv_viewed coh_inv_weak)

text \<open>The application's hooks keep orders, bids and leases coherent, to any depth.\<close>

lemma app_hooks_coherent: "coherent_hooks E bal (app_hooks E n) n"
proof (induction n)
  case 0
  show ?case by unfold_locales (simp_all add: keeps_basic)
next
  case (Suc n)
  note account = coherent_hooks.account_hook_coherent [OF Suc.IH]
  show ?case
    by unfold_locales (simp_all add: keeps_under coh_inv_eq [symmetric] coh_inv_cases account payment_coherent
      app.account_hook_chain app.payment_hook_chain)
qed

interpretation coh: coherent_hooks E bal "app_hooks E n" n for E bal n
  by (rule app_hooks_coherent)

end
