(* ===== verification/Coherent_Chain.thy ===== *)
theory Coherent_Chain
  imports Coherence
begin

text \<open>
  Every message server keeps orders, bids and leases coherent, so every reachable state is.
  A message that fails is rolled back, so only successful ones matter: the error postcondition of
  the triples is \<open>True\<close>.
\<close>

subsection \<open>Objects read from the stores\<close>

lemma viewedD: "viewed E bal P s \<Longrightarrow> chain_inv E bal s" "viewed E bal P s \<Longrightarrow> P (view E s)"
  by (simp_all add: viewed_def)

abbreviation coh :: "'b env \<Rightarrow> ('b \<Rightarrow> string \<Rightarrow> int) \<Rightarrow> ('b, 'x) mst \<Rightarrow> bool" where
  "coh E bal \<equiv> viewed E bal (coherent {})"

text \<open>\<open>safe I m\<close>: when the action succeeds, it has kept \<open>I\<close>.\<close>

definition safe :: "('s \<Rightarrow> bool) \<Rightarrow> ('a, 's) act \<Rightarrow> bool" where
  "safe I m \<longleftrightarrow> hoare I m (\<lambda>_. I) (\<lambda>_. True)"

lemma safe_keeps: "keeps I m \<Longrightarrow> safe I m"
  unfolding keeps_def safe_def by (erule hoare_weaken) simp_all

lemma safe_bind: "safe I m \<Longrightarrow> (\<And>a. safe I (f a)) \<Longrightarrow> safe I (bind m f)"
  unfolding safe_def by (rule hoare_bind)

lemma safe_bind_gets: "(\<And>s x. I s \<Longrightarrow> g s = x \<Longrightarrow> safe I (f x)) \<Longrightarrow> safe I (bind (gets g) f)"
  by (auto simp: safe_def hoare_def act_defs split: outcome.splits)

lemma safe_steps:
  "(b \<Longrightarrow> safe I (f ())) \<Longrightarrow> safe I (bind (check b e) f)"
  "(\<And>a. x = Some a \<Longrightarrow> safe I (h a)) \<Longrightarrow> safe I (bind (found_or e x) h)"
  "(\<And>a. x = Some a \<Longrightarrow> safe I (h a)) \<Longrightarrow> safe I (bind (or_panic x) h)"
  "(\<And>a. y = Inr a \<Longrightarrow> safe I (k a)) \<Longrightarrow> safe I (bind (or_throw y) k)"
  unfolding safe_def by (rule hoare_steps; simp)+

lemma safe_ret: "safe I (ret a)"
  by (rule safe_keeps [OF keeps_basic(1)])

lemma safe_if: "(b \<Longrightarrow> safe I m) \<Longrightarrow> (\<not> b \<Longrightarrow> safe I n) \<Longrightarrow> safe I (if b then m else n)"
  by simp

lemma safe_each: "(\<And>x. x \<in> set xs \<Longrightarrow> safe I (f x)) \<Longrightarrow> safe I (each f xs)"
  by (induction xs) (auto intro: safe_bind safe_ret)

lemma safe_wrap: "safe I m \<Longrightarrow> safe I (wrap_error e m)"
  by (fastforce simp: wrap_error_def safe_def hoare_def act_defs split: outcome.splits)

lemma safe_Ok: "safe I m \<Longrightarrow> I s \<Longrightarrow> m s = Ok a t \<Longrightarrow> I t"
  unfolding safe_def by (rule hoare_Ok)

lemma hoare_bind_fact:
  "hoare P m (\<lambda>a s. P' s \<and> F a) R \<Longrightarrow> (\<And>a. F a \<Longrightarrow> hoare P' (f a) Q R) \<Longrightarrow> hoare P (bind m f) Q R"
  by (erule hoare_bind) (auto simp: hoare_def)

subsection \<open>Creating orders and bids\<close>

lemma next_oseq_closed: "next_oseq k os = Inr n \<Longrightarrow> r \<in> set os \<Longrightarrow> ord_State r = OrderClosed"
  by (induction os arbitrary: k)
    (auto simp: Order_ValidateInactive_def split: sum.splits order_state.splits)

lemma group_order_listed:
  assumes "addr_laws E" "chain_inv E bal s" "decodable E (gid_Owner g)" "vo (view E s) i = Some st" "OrderID_GroupID i = g"
  shows "\<exists>r\<in>set (WithOrdersForGroup g s). ord_State r = st"
proof -
  from assms(4) obtain r where r: "kv_get (orders s) (orderKey i) = Some r" "ord_State r = st"
    by (auto simp: view_def)
  have "decodable E (oid_Owner i)" using view_order(1,2) [OF assms(2) r(1)] by (simp add: order_ok_def)
  then have "prefix (ordersForGroupPrefix g) (orderKey i)"
    using ordersForGroupPrefix_prefix [of g i] decodable_length [OF assms(1,3)] assms(5) by simp
  then have "r \<in> set (WithOrdersForGroup g s)"
    using r store_kv_ok(1) [OF assms(2)] unfolding WithOrdersForGroup_def by (auto simp: kv_iter_member)
  then show ?thesis using r(2) by blast
qed

lemma coherent_new_order:
  assumes "coherent {} v" "vo v i = None" "\<And>j. OrderID_GroupID j = OrderID_GroupID i \<Longrightarrow> \<not> live (vo v j)"
  shows "coherent {} (v\<lparr>vo := (vo v)(i \<mapsto> OrderOpen)\<rparr>)"
  using assms unfolding coherent_def by (auto split: if_splits)

lemma CreateOrder_coherent:
  assumes "addr_laws E" "decodable E (gid_Owner g)"
  shows "safe (coh E bal) (CreateOrder E g spec)"
proof -
  have new: "coherent {} ((view E s)\<lparr>vo := (vo (view E s))(MakeOrderID g k \<mapsto> OrderOpen)\<rparr>)"
    if s: "coh E bal s" "next_oseq 1 (WithOrdersForGroup g s) = Inr k" "\<not> kv_has (orders s) (orderKey (MakeOrderID g k))" for s k
  proof (rule coherent_new_order)
    note c = viewedD [OF s(1)]
    show "coherent {} (view E s)" by (rule c)
    show "vo (view E s) (MakeOrderID g k) = None" using s(3) by (auto simp: view_def kv_has_def)
    show "\<not> live (vo (view E s) j)" if j: "OrderID_GroupID j = OrderID_GroupID (MakeOrderID g k)" for j
      using group_order_listed [OF assms(1) c(1) assms(2), of j] next_oseq_closed [OF s(2)] j
      by (fastforce simp: live_def)
  qed
  have "order_ok E \<lparr>ord_ID = MakeOrderID g k, ord_State = OrderOpen, ord_Spec = spec, ord_CreatedAt = h\<rparr>" for k h
    using assms(2) by (simp add: order_ok_def id_defs)
  then show ?thesis
    unfolding CreateOrder_def Let_def safe_def
    by (intro hoare_steps hoare_bind [OF hoare_pre [OF viewed_updates(1) [OF assms(1)]] hoare_bind [OF viewed_emit hoare_pre [OF hoare_ret]]])
      (auto simp: viewed_def new)
qed

lemma coherent_new_bid:
  assumes "coherent {} v" "vb v i \<noteq> Some BidActive" "st \<noteq> BidActive"
  shows "coherent {} (v\<lparr>vb := (vb v)(i \<mapsto> st)\<rparr>)"
  using assms unfolding coherent_def by (auto split: if_splits)

lemma AccountCreate_view:
  assumes "bank_laws E ModuleName bal" "account_id_ok E i" "owner \<noteq> ModuleAddress E ModuleName"
    "FromBech32 E (AddrString E owner) = Some owner"
  shows "keeps (viewed E bal P) (AccountCreate E i owner deposit)"
  by (intro viewed_keeps AccountCreate_chain assms outside.escrow_frame(1) [OF idle_outside, OF view_frame])


lemma bid_absent: "\<not> kv_has (bids s) (bidKey i) \<Longrightarrow> vb (view E s) i = None"
  by (auto simp: view_def kv_has_def)

lemma order_owner: "viewed E bal P s \<Longrightarrow> kv_get (orders s) (orderKey i) = Some r \<Longrightarrow> decodable E (oid_Owner i)"
  using view_order(1,2) [OF viewedD(1)] by (fastforce simp: order_ok_def)

lemma CreateBid_coherent:
  assumes "addr_laws E" "decodable E (oid_Owner o')" "FromBech32 E (AddrString E prov) = Some prov"
  shows "hoare (coh E bal) (Keeper_CreateBid E o' prov price)
    (\<lambda>b s. coh E bal s \<and> bd_ID b = MakeBidID E o' prov) (\<lambda>_. True)"
proof -
  have ok: "bid_id_ok E (MakeBidID E o' prov)" using assms(2,3) by (simp add: bid_id_ok_def id_defs decodable_def)
  show ?thesis
    unfolding Keeper_CreateBid_def Let_def
    by (intro hoare_steps hoare_bind [OF hoare_pre [OF viewed_updates(2) [OF assms(1)]] hoare_bind [OF viewed_emit hoare_pre [OF hoare_ret]]])
      (auto simp: viewed_def ok bid_absent intro!: coherent_new_bid)
qed

lemma Msg_CreateBid_coherent:
  assumes "bank_laws E ModuleName bal" "addr_laws E"
    "FromBech32 E (mcb_Provider msg) \<noteq> Some (ModuleAddress E ModuleName)"
  shows "safe (coh E bal) (Msg_CreateBid E msg)"
proof -
  have key: "safe (coh E bal) (bind (Keeper_CreateBid E (mcb_Order msg) prov price) (\<lambda>b.
      AccountCreate E (EscrowAccountForBid (bd_ID b)) prov dep))"
    if p: "FromBech32 E (mcb_Provider msg) = Some prov" and d: "decodable E (oid_Owner (mcb_Order msg))" for prov price dep
    unfolding safe_def
  proof (rule hoare_bind_fact [OF CreateBid_coherent [OF assms(2) d addr_laws_string [OF assms(2) p]]])
    fix b assume "bd_ID b = MakeBidID E (mcb_Order msg) prov"
    then have "keeps (coh E bal) (AccountCreate E (EscrowAccountForBid (bd_ID b)) prov dep)"
      using p d assms(3) addr_laws_string [OF assms(2) p]
      by (intro AccountCreate_view assms(1) account_id_ok_make) (auto simp: bid_id_ok_def id_defs decodable_def)
    then show "hoare (coh E bal) (AccountCreate E (EscrowAccountForBid (bd_ID b)) prov dep) (\<lambda>_. coh E bal) (\<lambda>_. True)"
      unfolding safe_def [symmetric] by (rule safe_keeps)
  qed
  show ?thesis
    unfolding Msg_CreateBid_def Let_def Market_GetParams_def BidCountForOrder_def GetOrder_def Provider_Get_def
      GetProviderAttributes_def
    by (intro safe_bind_gets safe_steps key) (auto dest: order_owner)
qed


subsection \<open>Deployments\<close>

lemma Msg_CreateDeployment_coherent:
  assumes "bank_laws E ModuleName bal" "addr_laws E" "FromBech32 E (did_Owner (mcd_ID msg)) \<noteq> None"
    "FromBech32 E (did_Owner (mcd_ID msg)) \<noteq> Some (ModuleAddress E ModuleName)"
  shows "safe (coh E bal) (Msg_CreateDeployment E msg)"
proof -
  have dec: "decodable E (did_Owner (mcd_ID msg))" using assms(3) by (auto simp: decodable_def)
  note ok = group_ok_make [OF dec]
  show ?thesis
    unfolding Msg_CreateDeployment_def Let_def GetDeployment_def Deployment_GetParams_def AccAddressFromBech32_def
    using assms(3,4) dec ok
    by (intro safe_bind_gets safe_steps safe_bind safe_wrap safe_each safe_keeps [OF keeps_validation]
        safe_keeps [OF viewed_deployment_ops(6)] CreateOrder_coherent safe_ret safe_keeps [OF AccountCreate_view] assms(1,2))
      (auto simp: deployment_ok_def group_ok_def intro: addr_laws_string [OF assms(2)])
qed

lemma Msg_group_coherent:
  assumes "bank_laws E ModuleName bal" "addr_laws E"
  shows "safe (coh E bal) (Msg_CloseGroup E (app_hooks E n) i)" "safe (coh E bal) (Msg_PauseGroup E (app_hooks E n) i)"
    "safe (coh E bal) (Msg_StartGroup E i)"
  unfolding Msg_CloseGroup_def Msg_PauseGroup_def Msg_StartGroup_def GetGroup_def
  by (intro safe_bind_gets safe_steps safe_bind [OF safe_keeps [OF viewed_deployment_ops(2)]]
        safe_bind [OF safe_keeps [OF viewed_deployment_ops(3)]] safe_bind [OF safe_keeps [OF viewed_deployment_ops(4)]]
        safe_keeps [OF coh.OnGroupClosed_coherent [OF assms]] safe_bind [OF CreateOrder_coherent] safe_ret assms,
      auto simp: viewed_def chain_inv_def store_inv_def group_ok_def dest: own_keys_get)+

lemma viewed_deployment: "viewed E bal P s \<Longrightarrow> kv_get (deployments s) k = Some d \<Longrightarrow> deployment_ok E d"
  by (auto simp: viewed_def chain_inv_def store_inv_def dest: own_keys_get)

lemma viewed_group: "viewed E bal P s \<Longrightarrow> kv_get (groups s) k = Some g \<Longrightarrow> decodable E (gid_Owner (grp_ID g))"
  by (auto simp: viewed_def chain_inv_def store_inv_def group_ok_def dest: own_keys_get)

lemma AccountDeposit_view:
  "bank_laws E ModuleName bal \<Longrightarrow> keeps (viewed E bal P) (AccountDeposit E i amount)"
  by (intro viewed_keeps app.escrow_ops(4) outside.escrow_frame(2) [OF idle_outside, OF view_frame])

lemma Msg_deployment_coherent:
  assumes "bank_laws E ModuleName bal" "addr_laws E"
  shows "safe (coh E bal) (Msg_DepositDeployment E dmsg)" "safe (coh E bal) (Msg_UpdateDeployment umsg)"
    "safe (coh E bal) (Msg_CloseDeployment E (app_hooks E n) d)"
  unfolding Msg_DepositDeployment_def Msg_UpdateDeployment_def Msg_CloseDeployment_def GetDeployment_def Let_def
  by (auto intro!: safe_bind_gets safe_steps safe_wrap safe_keeps [OF AccountDeposit_view] safe_keeps [OF viewed_deployment_ops(5)]
      safe_keeps [OF coh.viewed_escrow(1)] assms intro: viewed_deployment)

subsection \<open>Closing a bid or a lease\<close>

text \<open>The bid, its lease and its order, all three active, are closed together.\<close>

definition active_parts :: "'b env \<Rightarrow> bid_id \<Rightarrow> bid \<Rightarrow> order \<Rightarrow> lease \<Rightarrow> bool" where
  "active_parts E i b r l \<longleftrightarrow> bid_id_ok E i \<and> bd_ID b = i \<and> bd_State b = BidActive \<and> ord_ID r = BidID_OrderID i \<and>
     order_ok E r \<and> ls_ID l = i \<and> ls_State l = LeaseActive \<and> ord_State r = OrderActive"

lemma read_active_parts:
  assumes "addr_laws E" "bid_id_ok E i" "coh E bal s" "kv_get (bids s) (bidKey i) = Some b" "bd_State b = BidActive"
    "kv_get (orders s) (orderKey (BidID_OrderID i)) = Some r" "kv_get (leases s) (leaseKey i) = Some l"
  shows "active_parts E i b r l" "vb (view E s) i = Some BidActive"
proof -
  note c = viewedD [OF assms(3)]
  note v = view_bid [OF assms(1) c(1) assms(2,4)] view_lease [OF assms(1) c(1) assms(2,7)] view_order [OF c(1) assms(6)]
  show "vb (view E s) i = Some BidActive" using v(3) assms(5) by simp
  then have "vl (view E s) i = Some LeaseActive" "vo (view E s) (BidID_OrderID i) = Some OrderActive"
    using c(2) by (simp_all add: coherent_def)
  with v assms(2,5) show "active_parts E i b r l" by (simp add: active_parts_def)
qed

lemma parts_read:
  assumes "addr_laws E" "bid_id_ok E i"
    "active_parts E i b r l \<Longrightarrow> hoare (viewed E bal (\<lambda>v. coherent {} v \<and> vb v i = Some BidActive)) m Q R"
    "\<And>s. P s \<Longrightarrow> coh E bal s \<and> kv_get (bids s) (bidKey i) = Some b \<and> kv_get (leases s) (leaseKey i) = Some l \<and>
       kv_get (orders s) (orderKey (BidID_OrderID i)) = Some r"
    "bd_State b = BidActive"
  shows "hoare P m Q R"
proof (rule hoare_fact [where F = "active_parts E i b r l"])
  have read: "active_parts E i b r l" "vb (view E s) i = Some BidActive" "coh E bal s" if "P s" for s
    using read_active_parts [OF assms(1,2) _ _ assms(5)] assms(4) [OF that] by blast+
  then show "active_parts E i b r l" if "P s" for s using that by blast
  assume "active_parts E i b r l"
  from hoare_pre [OF assms(3) [OF this]] show "hoare P m Q R" using read by (simp add: viewed_def)
qed

lemma close_parts:
  assumes "bank_laws E ModuleName bal" "addr_laws E" "active_parts E i b r l"
  shows "hoare (viewed E bal (\<lambda>v. coherent {} v \<and> vb v i = Some BidActive))
    (bind (OnLeaseClosed l LeaseClosed) (\<lambda>_. bind (OnBidClosed E (app_hooks E n) b) (\<lambda>_. OnOrderClosed r)))
    (\<lambda>_. coh E bal) R"
proof -
  have upd: "v\<lparr>vl := f, vb := g, vo := h\<rparr> = v\<lparr>vo := h, vb := g, vl := f\<rparr>" for v :: market_view and f g h by simp
  show ?thesis
    by (rule hoare_pre, rule hoare_bind [OF viewed_OnLeaseClosed hoare_bind [OF viewed_OnBidClosed viewed_OnOrderClosed]])
      (use assms in \<open>simp_all add: active_parts_def viewed_def upd coherent_close_all\<close>)
qed

lemma Deployment_OnBidClosed_view: "keeps (viewed E bal P) (Deployment_OnBidClosed g)"
  unfolding Deployment_OnBidClosed_def GetGroup_def
  by (intro keeps_bind_gets keeps_steps viewed_deployment_ops)
    (auto simp: viewed_def chain_inv_def store_inv_def dest: own_keys_get)

lemma Msg_WithdrawLease_coherent:
  assumes "bank_laws E ModuleName bal" "addr_laws E"
  shows "safe (coh E bal) (Msg_WithdrawLease E (app_hooks E n) i)"
  unfolding Msg_WithdrawLease_def GetLease_def
  by (intro safe_bind_gets safe_steps safe_keeps [OF coh.viewed_escrow(3)] assms)

lemma close_open_bid:
  assumes "bank_laws E ModuleName bal" "addr_laws E" "bid_id_ok E i" "bd_State b = BidOpen"
  shows "hoare (\<lambda>s. coh E bal s \<and> kv_get (bids s) (bidKey i) = Some b) (OnBidClosed E (app_hooks E n) b) (\<lambda>_. coh E bal) R"
    (is "hoare ?P _ _ _")
proof (rule hoare_fact [where F = "bd_ID b = i"])
  show "bd_ID b = i" if "?P s" for s using that view_bid(1) [OF assms(2) viewedD(1) assms(3)] by blast
  assume i: "bd_ID b = i"
  show "hoare ?P (OnBidClosed E (app_hooks E n) b) (\<lambda>_. coh E bal) R"
  proof (rule hoare_pre [OF viewed_OnBidClosed [OF assms(1,2)]])
    fix s assume s: "?P s"
    then have "vb (view E s) i = Some BidOpen"
      using view_bid(3) [OF assms(2) viewedD(1) assms(3)] assms(4) by fastforce
    then show "viewed E bal (\<lambda>v. coherent {} (if bd_State b = BidClosed \<or> bd_State b = BidLost then v
        else v\<lparr>vb := (vb v)(bd_ID b \<mapsto> BidClosed)\<rparr>)) s"
      using s assms(4) i by (simp add: viewed_def coherent_new_bid)
  qed (simp add: i assms(3))
qed

text \<open>The rest of \<^verbatim>\<open>CloseBid\<close> and \<^verbatim>\<open>CloseLease\<close>, once all three have been read.\<close>

lemma after_close:
  assumes "bank_laws E ModuleName bal" "addr_laws E" "active_parts E i b r l" "safe (coh E bal) m"
  shows "hoare (viewed E bal (\<lambda>v. coherent {} v \<and> vb v i = Some BidActive))
    (bind (OnLeaseClosed l LeaseClosed) (\<lambda>_. bind (OnBidClosed E (app_hooks E n) b) (\<lambda>_. bind (OnOrderClosed r) (\<lambda>_. m))))
    (\<lambda>_. coh E bal) (\<lambda>_. True)"
  using hoare_bind [OF close_parts [OF assms(1-3)] assms(4) [unfolded safe_def]] by (simp only: bind_assoc)

lemma Msg_CloseBid_coherent:
  assumes "bank_laws E ModuleName bal" "addr_laws E" "bid_id_ok E i"
  shows "safe (coh E bal) (Msg_CloseBid E (app_hooks E n) i)"
proof -
  let ?rest = "\<lambda>g b r l. bind (Deployment_OnBidClosed g) (\<lambda>_. bind (OnLeaseClosed l LeaseClosed) (\<lambda>_.
     bind (OnBidClosed E (app_hooks E n) b) (\<lambda>_. bind (OnOrderClosed r) (\<lambda>_.
     bind (attempt (PaymentClose E (app_hooks E n) (EscrowAccountForDeployment (BidID_DeploymentID (ls_ID l)))
       (EscrowPaymentForLease (ls_ID l)))) (\<lambda>_. ret ())))))"
  have rest: "hoare (viewed E bal (\<lambda>v. coherent {} v \<and> vb v i = Some BidActive)) (?rest g b r l) (\<lambda>_. coh E bal) (\<lambda>_. True)"
    if "active_parts E i b r l" for g b r l
    by (rule hoare_bind [OF safe_keeps [OF Deployment_OnBidClosed_view, unfolded safe_def] after_close [OF assms(1,2) that]])
      (intro safe_bind safe_ret safe_keeps keeps_attempt coh.viewed_escrow assms)
  show ?thesis
    unfolding Msg_CloseBid_def safe_def GetBid_def GetOrder_def GetLease_def MakeLeaseID_def
    by (intro hoare_steps TrueI parts_read [OF assms(2,3) rest] hoare_pre [OF close_open_bid [OF assms]]) auto
qed

lemma CreateOrder_after_lease:
  assumes "addr_laws E"
  shows "safe (coh E bal) (bind (Deployment_OnLeaseClosed g) (\<lambda>g. if grp_State g \<noteq> GroupOpen then ret () else
     bind (CreateOrder E (grp_ID g) (grp_Spec g)) (\<lambda>_. ret ())))"
  unfolding Deployment_OnLeaseClosed_def GetGroup_def bind_assoc
  by (auto intro!: safe_bind_gets safe_steps safe_if safe_ret safe_bind [OF CreateOrder_coherent [OF assms]]
    intro: viewed_group)

lemma Msg_CloseLease_coherent:
  assumes "bank_laws E ModuleName bal" "addr_laws E" "bid_id_ok E i"
  shows "safe (coh E bal) (Msg_CloseLease E (app_hooks E n) i)"
proof -
  note rest = after_close [OF assms(1,2) _ safe_bind [OF safe_keeps [OF coh.viewed_escrow(2) [OF assms(1,2)]]
    CreateOrder_after_lease [OF assms(2)]]]
  show ?thesis
    unfolding Msg_CloseLease_def safe_def GetBid_def GetOrder_def GetLease_def
    by (intro hoare_steps TrueI parts_read [OF assms(2,3) rest]) auto
qed



subsection \<open>Creating a lease\<close>

lemma coherentI:
  assumes "\<And>j. vl v j \<noteq> None \<Longrightarrow> vo v (BidID_OrderID j) \<noteq> None \<and> vo v (BidID_OrderID j) \<noteq> Some OrderOpen"
    "\<And>j. vl v j = Some LeaseActive \<Longrightarrow> vo v (BidID_OrderID j) = Some OrderActive"
    "\<And>r. vo v r = Some OrderActive \<Longrightarrow> \<exists>j. vl v j = Some LeaseActive \<and> BidID_OrderID j = r"
    "\<And>j k. vl v j \<noteq> None \<Longrightarrow> vl v k \<noteq> None \<Longrightarrow> BidID_OrderID j = BidID_OrderID k \<Longrightarrow> j = k"
    "\<And>j. vb v j = Some BidActive \<longleftrightarrow> vl v j = Some LeaseActive"
    "\<And>r r'. live (vo v r) \<Longrightarrow> live (vo v r') \<Longrightarrow> OrderID_GroupID r = OrderID_GroupID r' \<Longrightarrow> r = r'"
  shows "coherent {} v"
  unfolding coherent_def by (intro conjI allI impI) (use assms in blast)+

lemma coherent_match:
  assumes "coherent {} v" "vo v (BidID_OrderID i) = Some OrderOpen"
  shows "coherent {} (v\<lparr>vl := (vl v)(i \<mapsto> LeaseActive), vo := (vo v)(BidID_OrderID i \<mapsto> OrderActive),
    vb := (vb v)(i \<mapsto> BidActive)\<rparr>)"
proof -
  have new: "vl v j = None" if "BidID_OrderID j = BidID_OrderID i" for j
    using assms that unfolding coherent_def by metis
  have act: "\<exists>j. j \<noteq> i \<and> vl v j = Some LeaseActive \<and> BidID_OrderID j = r" if "vo v r = Some OrderActive" for r
  proof -
    from assms(1) that obtain j where j: "vl v j = Some LeaseActive" "BidID_OrderID j = r" unfolding coherent_def by blast
    then show ?thesis using new [of j] by (intro exI [of _ j]) auto
  qed
  let ?w = "v\<lparr>vl := (vl v)(i \<mapsto> LeaseActive), vo := (vo v)(BidID_OrderID i \<mapsto> OrderActive), vb := (vb v)(i \<mapsto> BidActive)\<rparr>"
  from assms(1) have c: "\<And>j. vl v j \<noteq> None \<Longrightarrow> vo v (BidID_OrderID j) \<noteq> None \<and> vo v (BidID_OrderID j) \<noteq> Some OrderOpen"
    "\<And>j. vl v j = Some LeaseActive \<Longrightarrow> vo v (BidID_OrderID j) = Some OrderActive"
    "\<And>j k. vl v j \<noteq> None \<Longrightarrow> vl v k \<noteq> None \<Longrightarrow> BidID_OrderID j = BidID_OrderID k \<Longrightarrow> j = k"
    "\<And>j. vb v j = Some BidActive \<longleftrightarrow> vl v j = Some LeaseActive"
    "\<And>r r'. live (vo v r) \<Longrightarrow> live (vo v r') \<Longrightarrow> OrderID_GroupID r = OrderID_GroupID r' \<Longrightarrow> r = r'"
    unfolding coherent_def by blast+
  have w1: "vo ?w (BidID_OrderID j) \<noteq> None \<and> vo ?w (BidID_OrderID j) \<noteq> Some OrderOpen" if "vl ?w j \<noteq> None" for j
    using that c(1) [of j] by (cases "j = i") auto
  have w2: "vo ?w (BidID_OrderID j) = Some OrderActive" if "vl ?w j = Some LeaseActive" for j
    using that c(2) [of j] by (cases "j = i") auto
  have w3: "\<exists>j. vl ?w j = Some LeaseActive \<and> BidID_OrderID j = r" if "vo ?w r = Some OrderActive" for r
    using that act [of r] by (cases "r = BidID_OrderID i") auto
  have w4: "j = k" if "vl ?w j \<noteq> None" "vl ?w k \<noteq> None" "BidID_OrderID j = BidID_OrderID k" for j k
    using that c(3) [of j k] new [of j] new [of k] by (cases "j = i"; cases "k = i") auto
  have w5: "vb ?w j = Some BidActive \<longleftrightarrow> vl ?w j = Some LeaseActive" for j using c(4) [of j] by simp
  have "live (vo ?w r) \<longleftrightarrow> live (vo v r)" for r using assms(2) by (simp add: live_def)
  then have w6: "r = r'" if "live (vo ?w r)" "live (vo ?w r')" "OrderID_GroupID r = OrderID_GroupID r'" for r r'
    using that c(5) [of r r'] by simp
  show ?thesis by (rule coherentI) (fact w1 w2 w3 w4 w5 w6)+
qed

definition losing :: "'b env \<Rightarrow> bid list \<Rightarrow> market_view \<Rightarrow> bool" where
  "losing E rem v \<longleftrightarrow> coherent {} v \<and> (\<forall>b\<in>set rem. bid_id_ok E (bd_ID b) \<and> vl v (bd_ID b) \<noteq> Some LeaseActive)"

lemma losing_step:
  "losing E (b # rem) v \<Longrightarrow> losing E rem (v\<lparr>vb := (vb v)(bd_ID b \<mapsto> BidLost)\<rparr>)"
  unfolding losing_def by (auto intro!: coherent_new_bid) (simp add: coherent_def)

lemma lose_bid:
  assumes "bank_laws E ModuleName bal" "addr_laws E"
  shows "hoare (viewed E bal (losing E (b # rem)))
    (bind (OnBidLost b) (\<lambda>_. AccountClose E (app_hooks E n) (EscrowAccountForBid (bd_ID b)))) (\<lambda>_. viewed E bal (losing E rem)) (\<lambda>_. True)"
proof (rule hoare_fact [where F = "bid_id_ok E (bd_ID b)"])
  assume ok: "bid_id_ok E (bd_ID b)"
  show "hoare (viewed E bal (losing E (b # rem)))
    (bind (OnBidLost b) (\<lambda>_. AccountClose E (app_hooks E n) (EscrowAccountForBid (bd_ID b)))) (\<lambda>_. viewed E bal (losing E rem)) (\<lambda>_. True)"
    unfolding OnBidLost_def
    by (rule hoare_bind [OF hoare_pre [OF viewed_updates(2) [OF assms(2)]] safe_keeps [OF viewed_bid_account [OF assms ok], unfolded safe_def]])
      (use ok in \<open>auto simp: viewed_def intro: losing_step\<close>)
qed (auto simp: viewed_def losing_def)

lemma losing_start:
  assumes "addr_laws E" "chain_inv E bal s" "coherent {} (view E s)" "decodable E (bid_Owner i)"
  shows "losing E (lost_bids i s) (view E s)"
proof -
  have dec: "decodable E (oid_Owner (BidID_OrderID i))" using assms(4) by (simp add: id_defs)
  have "bid_id_ok E (bd_ID b) \<and> vl (view E s) (bd_ID b) \<noteq> Some LeaseActive" if b: "b \<in> set (lost_bids i s)" for b
  proof -
    have w: "b \<in> set (WithBidsForOrder (BidID_OrderID i) s)" "bd_State b = BidOpen" using b by (auto simp: lost_bids_def)
    from order_bids [OF assms(1,2) dec w(1)] have "bid_id_ok E (bd_ID b)" "vb (view E s) (bd_ID b) = Some BidOpen" using w(2) by simp_all
    then show ?thesis using assms(3) unfolding coherent_def by (metis bid_state.distinct(9) option.inject)
  qed
  then show ?thesis using assms(3) by (simp add: losing_def)
qed

lemma lose_bids:
  assumes "bank_laws E ModuleName bal" "addr_laws E" "decodable E (bid_Owner i)"
  shows "safe (coh E bal) (bind (gets (lost_bids i)) (each (\<lambda>lb.
       bind (OnBidLost lb) (\<lambda>_. AccountClose E (app_hooks E n) (EscrowAccountForBid (bd_ID lb))))))"
proof -
  have loop: "hoare (viewed E bal (losing E bs)) (each (\<lambda>lb.
       bind (OnBidLost lb) (\<lambda>_. AccountClose E (app_hooks E n) (EscrowAccountForBid (bd_ID lb)))) bs) (\<lambda>_. coh E bal) (\<lambda>_. True)" for bs
    by (rule hoare_weaken [OF hoare_each [where I = "\<lambda>bs. viewed E bal (losing E bs)", OF lose_bid [OF assms(1,2)]]])
      (auto simp: viewed_def losing_def)
  show ?thesis
    unfolding safe_def by (rule hoare_bind_gets, rule hoare_pre [OF loop]) (auto simp: viewed_def intro: losing_start assms)
qed


lemma PaymentCreate_view:
  assumes "bank_laws E ModuleName bal" "decodable E (did_Owner d)"
  shows "safe (viewed E bal P) (PaymentCreate E (app_hooks E n) (EscrowAccountForDeployment d) pid owner rate)"
  using hoare_conj [OF PaymentCreate_chain [OF assms, unfolded keeps_def] PaymentCreate_calm [OF view_frame [of P E]]]
  unfolding safe_def by (rule hoare_weaken) (auto simp: viewed_def)

lemma match_bid:
  assumes "addr_laws E" "bid_id_ok E i" "bd_ID b = i" "ord_ID r = BidID_OrderID i" "order_ok E r"
  shows "hoare (viewed E bal (\<lambda>v. coherent {} v \<and> vo v (BidID_OrderID i) = Some OrderOpen))
    (bind (Keeper_CreateLease E b) (\<lambda>_. bind (OnOrderMatched r) (\<lambda>_. OnBidMatched b))) (\<lambda>_. coh E bal) (\<lambda>_. True)"
  unfolding Keeper_CreateLease_def OnOrderMatched_def OnBidMatched_def Let_def bind_assoc
  by (rule hoare_pre, rule hoare_bind [OF viewed_updates(3) hoare_bind [OF viewed_emit hoare_bind [OF viewed_updates(1) viewed_updates(2)]]])
    (use assms in \<open>simp_all add: MakeLeaseID_def viewed_def fun_upd_def coherent_match [unfolded fun_upd_def]\<close>)

lemma open_read:
  assumes "addr_laws E" "bid_id_ok E i"
    "bd_ID b = i \<Longrightarrow> ord_ID r = BidID_OrderID i \<Longrightarrow> order_ok E r \<Longrightarrow>
       hoare (viewed E bal (\<lambda>v. coherent {} v \<and> vo v (BidID_OrderID i) = Some OrderOpen)) m Q R"
    "\<And>s. P s \<Longrightarrow> coh E bal s \<and> kv_get (bids s) (bidKey i) = Some b \<and> kv_get (orders s) (orderKey (BidID_OrderID i)) = Some r"
    "ord_State r = OrderOpen"
  shows "hoare P m Q R"
proof (rule hoare_fact [where F = "bd_ID b = i \<and> ord_ID r = BidID_OrderID i \<and> order_ok E r"])
  have read: "bd_ID b = i \<and> ord_ID r = BidID_OrderID i \<and> order_ok E r" "vo (view E s) (BidID_OrderID i) = Some OrderOpen" "coh E bal s"
    if "P s" for s
    using view_bid(1) [OF assms(1) viewedD(1) assms(2)] view_order [OF viewedD(1)] assms(4) [OF that] assms(5) by metis+
  then show "bd_ID b = i \<and> ord_ID r = BidID_OrderID i \<and> order_ok E r" if "P s" for s using that by blast
  assume "bd_ID b = i \<and> ord_ID r = BidID_OrderID i \<and> order_ok E r"
  then have "hoare (viewed E bal (\<lambda>v. coherent {} v \<and> vo v (BidID_OrderID i) = Some OrderOpen)) m Q R" by (intro assms(3)) blast+
  from hoare_pre [OF this] show "hoare P m Q R" using read by (simp add: viewed_def)
qed

lemma Msg_CreateLease_coherent:
  assumes "bank_laws E ModuleName bal" "addr_laws E" "bid_id_ok E i"
  shows "safe (coh E bal) (Msg_CreateLease E (app_hooks E n) i)"
proof -
  have dec: "decodable E (bid_Owner i)" "decodable E (did_Owner (BidID_DeploymentID i))"
    using assms(3) by (simp_all add: bid_id_ok_def id_defs)
  note pay = PaymentCreate_view [OF assms(1) dec(2), unfolded safe_def]
  have rest: "hoare (viewed E bal (\<lambda>v. coherent {} v \<and> vo v (BidID_OrderID i) = Some OrderOpen))
      (bind (PaymentCreate E (app_hooks E n) (EscrowAccountForDeployment (BidID_DeploymentID i)) pid owner price) (\<lambda>_.
       bind (Keeper_CreateLease E b) (\<lambda>_. bind (OnOrderMatched r) (\<lambda>_. bind (OnBidMatched b) (\<lambda>_.
       bind (gets (lost_bids i)) (each (\<lambda>lb.
         bind (OnBidLost lb) (\<lambda>_. AccountClose E (app_hooks E n) (EscrowAccountForBid (bd_ID lb)))))))))) (\<lambda>_. coh E bal) (\<lambda>_. True)"
    if "bd_ID b = i" "ord_ID r = BidID_OrderID i" "order_ok E r" for b r pid owner price
    using hoare_bind [OF pay hoare_bind [OF match_bid [OF assms(2,3) that] lose_bids [OF assms(1,2) dec(1), unfolded safe_def]]]
    by (simp only: bind_assoc)
  show ?thesis
    unfolding Msg_CreateLease_def safe_def GetBid_def GetOrder_def GetGroup_def AccAddressFromBech32_def
    by (intro hoare_steps TrueI open_read [OF assms(2,3) rest]) auto
qed

subsection \<open>Providers and audits\<close>

lemma others_same_view:
  "keeps (\<lambda>s. P (view E' s)) (Msg_CreateProvider E parse p)" "keeps (\<lambda>s. P (view E' s)) (Msg_UpdateProvider E parse p)"
  "keeps (\<lambda>s. P (view E' s)) (Msg_DeleteProvider E o')"
  "keeps (\<lambda>s. P (view E' s)) (SignProviderAttributes E smsg)" "keeps (\<lambda>s. P (view E' s)) (DeleteProviderAttributes E dmsg)"
  by (auto intro!: keeps_rules keeps_reads keeps_wrap keeps_compatible same_view keeps_modify
    simp: Msg_CreateProvider_def Msg_UpdateProvider_def Msg_DeleteProvider_def Provider_Create_def Provider_Update_def
      SignProviderAttributes_def DeleteProviderAttributes_def CreateOrUpdateProviderAttributes_def
      Audit_DeleteProviderAttributes_def Let_def)

lemma Msg_others_safe:
  "safe (viewed E bal P) (Msg_CreateProvider E parse p)" "safe (viewed E bal P) (Msg_UpdateProvider E parse p)"
  "safe (viewed E bal P) (Msg_DeleteProvider E o')"
  "safe (viewed E bal P) (SignProviderAttributes E smsg)" "safe (viewed E bal P) (DeleteProviderAttributes E dmsg)"
  by (intro safe_keeps viewed_keeps others_same_view Msg_provider_chain Msg_audit_chain)+

subsection \<open>Transactions\<close>

text \<open>The identifiers a message has been checked for.\<close>

definition ids_ok :: "'b env \<Rightarrow> msg \<Rightarrow> bool" where
  "ids_ok E m = (case m of MsgCloseBid i \<Rightarrow> bid_id_ok E i | MsgCreateLease i \<Rightarrow> bid_id_ok E i
     | MsgCloseLease i \<Rightarrow> bid_id_ok E i | _ \<Rightarrow> True)"

lemma BidID_Validate_ok: "BidID_Validate E i = Inr () \<Longrightarrow> bid_id_ok E i"
  by (auto simp: BidID_Validate_def OrderID_Validate_def GroupID_Validate_def DeploymentID_Validate_def bid_id_ok_def
    decodable_def id_defs split: option.splits if_splits sum.splits)

lemma ValidateBasic_ids: "hoare I (ValidateBasic E parse m) (\<lambda>_ s. I s \<and> ids_ok E m) (\<lambda>_. True)"
proof -
  have "hoare (\<lambda>_. True) (ValidateBasic E parse m) (\<lambda>_ _. ids_ok E m) (\<lambda>_. True)"
    by (cases m) (auto simp: ValidateBasic_def MsgCloseBid_ValidateBasic_def MsgCreateLease_ValidateBasic_def
      MsgCloseLease_ValidateBasic_def LeaseID_Validate_def ids_ok_def hoare_def act_defs BidID_Validate_ok split: sum.splits outcome.splits)
  from hoare_conj [OF keeps_ValidateBasic [unfolded keeps_def] this] show ?thesis by (rule hoare_weaken) auto
qed

lemma validated_ids:
  "hoare I (each (ValidateBasic E parse) msgs) (\<lambda>_ s. I s \<and> (\<forall>m\<in>set msgs. ids_ok E m)) (\<lambda>_. True)"
proof (induction msgs)
  case Nil
  show ?case unfolding each.simps by (rule hoare_pre [OF hoare_ret]) simp
next
  case (Cons m msgs)
  show ?case unfolding each.simps
    by (rule hoare_bind_fact [OF ValidateBasic_ids], rule hoare_weaken [OF Cons.IH]) auto
qed


lemma handle_coherent:
  assumes "bank_laws E ModuleName bal" "addr_laws E" "signed_by_users E [m]" "ids_ok E m"
  shows "safe (coh E bal) (handle E parse (app_hooks E n) m)"
proof (cases m)
  case (MsgCreateDeployment x)
  then show ?thesis using assms
    by (auto simp: handle_def Deployment_NewHandler_def signed_by_users_def GetSigners_def signer_defs
      intro!: Msg_CreateDeployment_coherent split: option.splits)
next
  case (MsgCreateBid x)
  then show ?thesis using assms
    by (auto simp: handle_def Market_NewHandler_def signed_by_users_def GetSigners_def signer_defs
      intro!: Msg_CreateBid_coherent split: option.splits)
qed (use assms(1,2,4) in \<open>simp_all add: handle_def Deployment_NewHandler_def Market_NewHandler_def Provider_NewHandler_def
    Audit_NewHandler_def ids_ok_def Msg_deployment_coherent Msg_group_coherent Msg_CloseBid_coherent
    Msg_WithdrawLease_coherent Msg_CreateLease_coherent Msg_CloseLease_coherent Msg_others_safe\<close>)



lemma runTx_coherent:
  assumes "bank_laws E ModuleName bal" "addr_laws E" "signed_by_users E msgs"
  shows "safe (coh E bal) (runTx E parse msgs)"
  unfolding runTx_def runTx_with_def keeper_hooks_def safe_def
proof (rule hoare_bind [OF validated_ids], rule hoare_fact [where F = "\<forall>m\<in>set msgs. ids_ok E m"], blast)
  assume "\<forall>m\<in>set msgs. ids_ok E m"
  then have "safe (coh E bal) (each (handle E parse (app_hooks E 3)) msgs)"
    by (intro safe_each handle_coherent assms(1,2) signed_member [OF assms(3)]) auto
  then show "hoare (\<lambda>s. coh E bal s \<and> (\<forall>m\<in>set msgs. ids_ok E m)) (each (handle E parse (app_hooks E 3)) msgs)
      (\<lambda>_. coh E bal) (\<lambda>_. True)" unfolding safe_def by (rule hoare_pre) simp
qed

lemma height_view [simp]: "view (E\<lparr>BlockHeight := h\<rparr>) s = view E s"
  by (simp add: view_def cong: if_cong)

lemma empty_coherent: "empty_stores s \<Longrightarrow> coherent {} (view E s)"
  by (auto simp: empty_stores_def view_def coherent_def live_def)

lemma reachable_coherent:
  assumes "reachable E bal parse s" "bank_laws E ModuleName bal" "addr_laws E"
  shows "coherent {} (view E s)"
  using assms
proof (induction rule: reachable.induct)
  case (start s)
  then show ?case by (intro empty_coherent)
next
  case (transaction s msgs h)
  let ?E = "E\<lparr>BlockHeight := h\<rparr>"
  have "coh ?E bal s" using transaction reachable_inv [OF transaction.hyps(1)] by (simp add: viewed_def)
  moreover have "safe (coh ?E bal) (runTx ?E parse msgs)" using transaction by (intro runTx_coherent) simp_all
  ultimately have "coh ?E bal (deliver ?E parse msgs s)"
    by (auto simp: deliver_def dest: safe_Ok split: outcome.splits)
  then show ?case by (simp add: viewed_def)
next
  case (other_modules s b)
  then show ?case by simp
qed

end
