(* ===== verification/Lifecycle.thy ===== *)
theory Lifecycle
  imports Coherent_Chain
begin

text \<open>
  A closed deployment is never active again, an order moves along its life only forwards and a lease
  that is over is never active again, whatever transactions follow.  \<open>lasting\<close> is the contract of a final
  state that transactions keep; the two messages that could break it, updating a deployment and
  creating a lease, are its assumptions, discharged for each of the three.
\<close>

lemma safe_conj: "safe I m \<Longrightarrow> safe J m \<Longrightarrow> safe (\<lambda>s. I s \<and> J s) m"
  unfolding safe_def by (drule (1) hoare_conj) (erule hoare_weaken; simp)

lemma safe_case_option:
  "(x = None \<Longrightarrow> safe I m) \<Longrightarrow> (\<And>a. x = Some a \<Longrightarrow> safe I (f a)) \<Longrightarrow> safe I (case x of None \<Rightarrow> m | Some a \<Rightarrow> f a)"
  by (cases x) simp_all

lemma hoare_read: "(\<And>s x. P s \<Longrightarrow> g s = x \<Longrightarrow> hoare P (f x) Q R) \<Longrightarrow> hoare P (bind (gets g) f) Q R"
  by (auto simp: hoare_def act_defs)

lemma safe_and: "safe I m \<Longrightarrow> hoare (\<lambda>s. I s \<and> J s) m (\<lambda>_. J) (\<lambda>_. True) \<Longrightarrow> safe (\<lambda>s. I s \<and> J s) m"
  unfolding safe_def by (drule (1) hoare_conj) (erule hoare_weaken; simp)

lemma keeps_later: "keeps J m \<Longrightarrow> hoare (\<lambda>s. I s \<and> J s) m (\<lambda>_. J) (\<lambda>_. True)"
  unfolding keeps_def by (erule hoare_weaken) simp_all

text \<open>An object that is written where there was none.\<close>

lemma keeps_fresh:
  assumes "\<And>s. I s \<Longrightarrow> \<not> has s \<Longrightarrow> I (f s)" "keeps I m"
  shows "keeps I (bind (gets has) (\<lambda>h. bind (check (\<not> h) e) (\<lambda>_. bind (modify f) (\<lambda>_. m))))"
  using assms by (auto simp: keeps_def hoare_def act_defs)

locale lasting = final_state I for I :: "('b, 'x) mst \<Rightarrow> bool" +
  fixes bal :: "'b \<Rightarrow> string \<Rightarrow> int"
  assumes create_order: "keeps I (CreateOrder E g spec)"
    and create_deployment: "keeps I (Deployment_Create d gs)"
    and update_deployment: "bank_laws E ModuleName bal \<Longrightarrow> addr_laws E \<Longrightarrow> safe (\<lambda>s. coh E bal s \<and> I s) (Msg_UpdateDeployment um)"
    and create_lease: "bank_laws E ModuleName bal \<Longrightarrow> addr_laws E \<Longrightarrow> bid_id_ok E i \<Longrightarrow>
      safe (\<lambda>s. coh E bal s \<and> I s) (Msg_CreateLease E (app_hooks E n) i)"
begin

lemma I_extra: "I (s\<lparr>events := e\<rparr>) = I s"
  by (rule frame_okD [OF frame])

lemma deployment_msgs:
  "keeps I (Msg_CreateDeployment E cm)" "keeps I (Msg_DepositDeployment E dm)"
  "keeps I (Msg_CloseDeployment E (app_hooks E n) di)" "keeps I (Msg_CloseGroup E (app_hooks E n) gi)"
  "keeps I (Msg_PauseGroup E (app_hooks E n) gi)" "keeps I (Msg_StartGroup E gi)"
  unfolding Msg_CreateDeployment_def Msg_DepositDeployment_def Msg_CloseDeployment_def Msg_CloseGroup_def
    Msg_PauseGroup_def Msg_StartGroup_def Let_def
  by (auto intro!: keeps_rules keeps_reads keeps_wrap keeps_validation create_order create_deployment closing_ops
    market_ops hooks.escrow_frame app_hooks_outside)

lemma market_msgs:
  "keeps I (Msg_CreateBid E bm)" "keeps I (Msg_CloseBid E (app_hooks E n) bi)"
  "keeps I (Msg_WithdrawLease E (app_hooks E n) bi)" "keeps I (Msg_CloseLease E (app_hooks E n) bi)"
  unfolding Msg_CreateBid_def Msg_CloseBid_def Msg_WithdrawLease_def Msg_CloseLease_def Keeper_CreateBid_def
    Deployment_OnBidClosed_def Deployment_OnLeaseClosed_def Let_def
  by (auto intro!: keeps_rules keeps_reads create_order closing_ops writes market_ops hooks.escrow_frame app_hooks_outside)

lemma other_msgs:
  "keeps I (Msg_CreateProvider E parse p)" "keeps I (Msg_UpdateProvider E parse p)" "keeps I (Msg_DeleteProvider E o')"
  "keeps I (SignProviderAttributes E smsg)" "keeps I (DeleteProviderAttributes E dmsg)"
  unfolding Msg_CreateProvider_def Msg_UpdateProvider_def Msg_DeleteProvider_def Provider_Create_def Provider_Update_def
    SignProviderAttributes_def DeleteProviderAttributes_def CreateOrUpdateProviderAttributes_def
    Audit_DeleteProviderAttributes_def Let_def
  by (auto intro!: keeps_rules keeps_reads keeps_wrap keeps_compatible writes keeps_modify
    simp: provider_frame audit_frame)

lemma handle_lasting:
  assumes "bank_laws E ModuleName bal" "addr_laws E" "signed_by_users E [m]" "ids_ok E m"
  shows "safe (\<lambda>s. coh E bal s \<and> I s) (handle E parse (app_hooks E n) m)"
proof (cases "(\<exists>um. m = MsgUpdateDeployment um) \<or> (\<exists>i. m = MsgCreateLease i)")
  case True
  then show ?thesis using assms
    by (auto simp: handle_def Deployment_NewHandler_def Market_NewHandler_def ids_ok_def intro: update_deployment create_lease)
next
  case False
  then have "keeps I (handle E parse (app_hooks E n) m)"
    by (cases m) (simp_all add: handle_def Deployment_NewHandler_def Market_NewHandler_def Provider_NewHandler_def
      Audit_NewHandler_def deployment_msgs market_msgs other_msgs)
  from safe_conj [OF handle_coherent [OF assms] safe_keeps [OF this]] show ?thesis .
qed

lemma runTx_lasting:
  assumes "bank_laws E ModuleName bal" "addr_laws E" "signed_by_users E msgs"
  shows "safe (\<lambda>s. coh E bal s \<and> I s) (runTx E parse msgs)"
  unfolding runTx_def runTx_with_def keeper_hooks_def safe_def
proof (rule hoare_bind [OF validated_ids], rule hoare_fact [where F = "\<forall>m\<in>set msgs. ids_ok E m"], blast)
  assume "\<forall>m\<in>set msgs. ids_ok E m"
  then have "safe (\<lambda>s. coh E bal s \<and> I s) (each (handle E parse (app_hooks E 3)) msgs)"
    by (intro safe_each handle_lasting assms(1,2) signed_member [OF assms(3)]) auto
  then show "hoare (\<lambda>s. (coh E bal s \<and> I s) \<and> (\<forall>m\<in>set msgs. ids_ok E m)) (each (handle E parse (app_hooks E 3)) msgs)
      (\<lambda>_ s. coh E bal s \<and> I s) (\<lambda>_. True)" unfolding safe_def by (rule hoare_pre) simp
qed

lemma deliver_lasting:
  assumes "reachable E bal parse s" "bank_laws E ModuleName bal" "addr_laws E" "signed_by_users E msgs" "I s"
  shows "I (deliver (E\<lparr>BlockHeight := h\<rparr>) parse msgs s)"
proof -
  let ?E = "E\<lparr>BlockHeight := h\<rparr>"
  have "coh ?E bal s" using reachable_inv [OF assms(1-3)] reachable_coherent [OF assms(1-3)] by (simp add: viewed_def)
  moreover have "safe (\<lambda>s. coh ?E bal s \<and> I s) (runTx ?E parse msgs)" using assms by (intro runTx_lasting) simp_all
  ultimately show ?thesis using assms(5) by (auto simp: deliver_def dest: safe_Ok split: outcome.splits)
qed

end


subsection \<open>Deployments\<close>

lemma over_deployment_updates:
  "keeps (deployment_over d) (updateOrder r)" "keeps (deployment_over d) (updateLease l)" "keeps (deployment_over d) (updateBid b)"
  unfolding updateOrder_def updateLease_def updateBid_def by (rule keeps_modify, simp add: deployment_over_iff)+

lemma over_deployment_ops:
  "keeps (deployment_over d) (CreateOrder E g spec)" "keeps (deployment_over d) (Deployment_Create x gs)"
  "keeps (deployment_over d) (Msg_CreateLease E (app_hooks E n) i)"
proof -
  show "keeps (deployment_over d) (CreateOrder E g spec)"
    unfolding CreateOrder_def Let_def by (intro keeps_rules over_deployment_updates ended.writes)
  show "keeps (deployment_over d) (Msg_CreateLease E (app_hooks E n) i)"
    unfolding Msg_CreateLease_def Keeper_CreateLease_def OnOrderMatched_def OnBidMatched_def OnBidLost_def Let_def
    by (intro keeps_rules keeps_reads over_deployment_updates ended.writes ended.hooks.escrow_frame)
  show "keeps (deployment_over d) (Deployment_Create x gs)"
    unfolding Deployment_Create_def setDeployment_def
    by (rule keeps_fresh, fastforce simp: deployment_over_iff kv_has_def, intro keeps_rules ended.writes)
qed

lemma over_deployment_update:
  assumes "bank_laws E ModuleName bal" "addr_laws E"
  shows "safe (\<lambda>s. coh E bal s \<and> deployment_over d s) (Msg_UpdateDeployment um)"
proof (rule safe_and [OF Msg_deployment_coherent(2) [OF assms]])
  have other: "\<not> deployment_over (dep_ID x) s"
    if "coh E bal s" "kv_get (deployments s) (deploymentKey (mud_ID um)) = Some x"
      "dep_State x = DeploymentActive" for s x
    using that by (auto simp: viewed_def chain_inv_def store_inv_def deployment_over_iff dest: own_keys_get)
  have set: "keeps (deployment_over d) (setDeployment x)" if "dep_ID x \<noteq> d" for x
    unfolding setDeployment_def by (rule keeps_modify) (use that in \<open>simp add: deployment_over_iff kv_get_set\<close>)
  have update: "keeps (deployment_over d) (Deployment_Update x)" if "dep_ID x \<noteq> d" for x
    unfolding Deployment_Update_def using that by (intro keeps_rules ended.event_write set)
  show "hoare (\<lambda>s. coh E bal s \<and> deployment_over d s) (Msg_UpdateDeployment um) (\<lambda>_. deployment_over d) (\<lambda>_. True)"
    unfolding Msg_UpdateDeployment_def GetDeployment_def Let_def
    by (intro hoare_read hoare_bind_found_or hoare_bind_check TrueI keeps_later keeps_wrap update) (auto dest: other)
qed

interpretation ended: lasting "deployment_over d" bal for d bal
  by unfold_locales
    (auto intro: over_deployment_ops over_deployment_update safe_conj Msg_CreateLease_coherent safe_keeps)

subsection \<open>Orders\<close>

text \<open>The life of an order, abstractly: it is created open, an open order may become active, and an
  order that is not closed may close.  \<open>order_moves x i\<close>: the order \<open>i\<close> has got where it
  is from the state \<open>x\<close> by such steps.\<close>

inductive order_step :: "order_state option \<Rightarrow> order_state option \<Rightarrow> bool" where
  create: "order_step None (Some OrderOpen)"
| match: "order_step (Some OrderOpen) (Some OrderActive)"
| close: "st \<noteq> OrderClosed \<Longrightarrow> order_step (Some st) (Some OrderClosed)"

code_pred order_step .

definition order_status :: "order_id \<Rightarrow> ('b, 'x) mst \<Rightarrow> order_state option" where
  "order_status i s = map_option ord_State (kv_get (orders s) (orderKey i))"

definition order_moves :: "order_state option \<Rightarrow> order_id \<Rightarrow> ('b, 'x) mst \<Rightarrow> bool" where
  "order_moves x i s \<longleftrightarrow> order_step\<^sup>*\<^sup>* x (order_status i s)"

lemma order_step_closes: "order_step\<^sup>*\<^sup>* x (Some OrderClosed)"
proof -
  have "order_step\<^sup>*\<^sup>* (Some st) (Some OrderClosed)" for st
    by (cases "st = OrderClosed") (auto intro: order_step.close)
  then show ?thesis
    by (cases x) (auto intro: converse_rtranclp_into_rtranclp order_step.create)
qed

lemma order_status_set [simp]:
  "order_status i (s\<lparr>orders := kv_set (orderKey j) r (orders s)\<rparr>) =
     (if i = j then Some (ord_State r) else order_status i s)"
  by (simp add: order_status_def kv_get_set)

interpretation moving: final_state "order_moves x i" for x i
  by unfold_locales
    (auto intro!: keeps_modify simp: frame_ok_def order_moves_def order_step_closes setGroup_def updateOrder_def updateBid_def
      updateLease_def setDeployment_def, simp_all add: order_status_def)

lemma moving_order_ops:
  "keeps (order_moves x i) (CreateOrder E g spec)" "keeps (order_moves x i) (Deployment_Create d gs)"
  "keeps (order_moves x i) (Msg_UpdateDeployment um)"
proof -
  have dep: "keeps (order_moves x i) (setDeployment d)" for d
    unfolding setDeployment_def by (rule keeps_modify) (simp add: order_moves_def order_status_def)
  have fresh: "order_moves x i (s\<lparr>orders := kv_set (orderKey j) r (orders s)\<rparr>)"
    if "order_moves x i s" "\<not> kv_has (orders s) (orderKey j)" "ord_State r = OrderOpen" for s j r
  proof (cases "i = j")
    case True
    then have "order_status i s = None" using that(2) by (auto simp: order_status_def kv_has_def)
    then show ?thesis using that(1,3) True by (auto simp: order_moves_def intro: rtranclp.rtrancl_into_rtrancl order_step.create)
  qed (use that in \<open>simp add: order_moves_def\<close>)
  show "keeps (order_moves x i) (CreateOrder E g spec)"
    unfolding CreateOrder_def Let_def updateOrder_def
    by (intro keeps_bind keeps_basic keeps_fresh) (auto intro!: keeps_rules moving.writes fresh)
  show "keeps (order_moves x i) (Deployment_Create d gs)" "keeps (order_moves x i) (Msg_UpdateDeployment um)"
    unfolding Deployment_Create_def Msg_UpdateDeployment_def Deployment_Update_def Let_def
    by (intro keeps_rules keeps_reads keeps_wrap dep moving.writes)+
qed

lemma moving_order_lease:
  assumes "bank_laws E ModuleName bal" "addr_laws E" "bid_id_ok E i"
  shows "safe (\<lambda>s. coh E bal s \<and> order_moves x j s) (Msg_CreateLease E (app_hooks E n) i)"
proof (rule safe_and [OF Msg_CreateLease_coherent [OF assms]])
  have open_order: "order_step\<^sup>*\<^sup>* x (Some OrderOpen)"
    if "kv_get (orders s) (orderKey (BidID_OrderID i)) = Some r" "ord_State r = OrderOpen" "coh E bal s"
      "order_moves x (ord_ID r) s" for s r
    using that view_order(1) [OF viewedD(1), of E bal "coherent {}" s] by (auto simp: order_moves_def order_status_def)
  have matched: "keeps (order_moves x j) (OnOrderMatched r)" if "ord_ID r = j \<Longrightarrow> order_step\<^sup>*\<^sup>* x (Some OrderOpen)" for r
    unfolding OnOrderMatched_def updateOrder_def
    by (rule keeps_modify) (use that in \<open>auto simp: order_moves_def intro: rtranclp.rtrancl_into_rtrancl order_step.match\<close>)
  have lease: "keeps (order_moves x j) (updateLease l)" for l
    unfolding updateLease_def by (rule keeps_modify) (simp add: order_moves_def order_status_def)
  show "hoare (\<lambda>s. coh E bal s \<and> order_moves x j s) (Msg_CreateLease E (app_hooks E n) i) (\<lambda>_. order_moves x j) (\<lambda>_. True)"
    unfolding Msg_CreateLease_def GetBid_def GetOrder_def
    by (intro hoare_read hoare_bind_found_or hoare_bind_check TrueI keeps_later keeps_rules)
      (auto simp: GetGroup_def AccAddressFromBech32_def Keeper_CreateLease_def OnBidMatched_def OnBidLost_def Let_def
        intro!: keeps_rules matched lease moving.writes moving.hooks.escrow_frame intro: open_order)
qed

interpretation moving: lasting "order_moves x i" bal for x i bal
  by unfold_locales
    (auto intro: moving_order_ops moving_order_lease safe_conj Msg_deployment_coherent safe_keeps)


subsection \<open>Leases\<close>

lemma over_lease_updates:
  "keeps (lease_over j) (updateOrder r)" "keeps (lease_over j) (setDeployment d)"
  unfolding updateOrder_def setDeployment_def by (rule keeps_modify, simp add: lease_over_iff)+

lemma over_lease_ops:
  "keeps (lease_over j) (CreateOrder E g spec)" "keeps (lease_over j) (Deployment_Create x gs)"
  "keeps (lease_over j) (Msg_UpdateDeployment um)"
  unfolding CreateOrder_def Deployment_Create_def Msg_UpdateDeployment_def Deployment_Update_def Let_def
  by (intro keeps_rules keeps_reads keeps_wrap over_lease_updates over.writes)+

lemma over_lease_lease:
  assumes "bank_laws E ModuleName bal" "addr_laws E" "bid_id_ok E i"
  shows "safe (\<lambda>s. coh E bal s \<and> lease_over j s) (Msg_CreateLease E (app_hooks E n) i)"
proof (rule safe_and [OF Msg_CreateLease_coherent [OF assms]])
  have found: "bd_ID b = i" if "coh E bal s" "kv_get (bids s) (bidKey i) = Some b" for s b
    using view_bid(1) [OF assms(2) viewedD(1) [OF that(1)] assms(3) that(2)] .
  have other: "\<not> lease_over i s"
    if "coh E bal s" "kv_get (orders s) (orderKey (BidID_OrderID i)) = Some r" "ord_State r = OrderOpen" for s r
  proof
    assume "lease_over i s"
    then have "vl (view E s) i \<noteq> None" using assms(3) by (auto simp: lease_over_iff view_def)
    moreover have "vo (view E s) (BidID_OrderID i) = Some OrderOpen" using view_order(3) [OF viewedD(1) [OF that(1)] that(2)] that(3) by simp
    ultimately show False using viewedD(2) [OF that(1)] unfolding coherent_def by blast
  qed
  have create: "keeps (lease_over j) (Keeper_CreateLease E b)" if "leaseKey (bd_ID b) \<noteq> leaseKey j" for b
    unfolding Keeper_CreateLease_def Let_def updateLease_def
    by (intro keeps_bind keeps_modify over.writes) (use that in \<open>simp add: lease_over_iff kv_get_set MakeLeaseID_def\<close>)
  have same: "lease_over j s \<Longrightarrow> leaseKey i = leaseKey j \<Longrightarrow> lease_over i s" for s
    by (simp add: lease_over_iff)
  show "hoare (\<lambda>s. coh E bal s \<and> lease_over j s) (Msg_CreateLease E (app_hooks E n) i) (\<lambda>_. lease_over j) (\<lambda>_. True)"
    unfolding Msg_CreateLease_def GetBid_def GetOrder_def
    by (intro hoare_read hoare_bind_found_or hoare_bind_check TrueI keeps_later keeps_rules)
      (auto simp: GetGroup_def AccAddressFromBech32_def OnOrderMatched_def OnBidMatched_def OnBidLost_def found
        intro!: keeps_rules create over.writes over_lease_updates over.hooks.escrow_frame dest: other same)
qed

interpretation over: lasting "lease_over i" bal for i bal
  by unfold_locales
    (auto intro: over_lease_ops over_lease_lease safe_conj Msg_deployment_coherent safe_keeps)

end
