(* ===== verification/Closing.thy ===== *)
theory Closing
  imports Lifecycle
begin

text \<open>
  Closing a deployment's escrow account closes the deployment: whether the last settlement overdraws
  the account or not, the account hook runs on it and finds the deployment, provided the owner is written
  the way addresses are printed; otherwise the hook looks for another deployment and this one stays as it is.
\<close>

text \<open>What the escrow keeper leaves alone until it runs the hooks.\<close>

definition has_deployment :: "'b env \<Rightarrow> deployment_id \<Rightarrow> ('b, 'x) mst \<Rightarrow> bool" where
  "has_deployment E d s \<longleftrightarrow> store_inv E s \<and> kv_get (deployments s) (deploymentKey d) \<noteq> None"

lemma has_deployment_frame: "frame_ok (has_deployment E d)"
  by (simp add: frame_ok_def has_deployment_def store_inv_def)

interpretation before_hooks: outside "idle_hooks i" "has_deployment E d" for i E d
  by (rule idle_outside [OF has_deployment_frame])

lemma CloseDeployment_ends:
  "dep_ID x = d \<Longrightarrow> dep_State x = DeploymentActive \<Longrightarrow> hoare (has_deployment E d) (CloseDeployment x) (\<lambda>_. deployment_over d) (\<lambda>_. True)"
  by (auto simp: hoare_def CloseDeployment_def Let_def emit_def setDeployment_def act_defs has_deployment_def deployment_over_iff
    kv_has_def split: if_splits)

lemma account_hook_closes:
  assumes "addr_laws E" "canonical E (did_Owner d)" "acc_ID a = EscrowAccountForDeployment d"
  shows "hoare (has_deployment E d) (OnEscrowAccountClosed E (app_hooks E n) a) (\<lambda>_. deployment_over d) (\<lambda>_. True)"
proof -
  have groups: "keeps (deployment_over d) (close_groups E (app_hooks E n) st gs)" for st gs
    by (induction gs) (auto intro!: keeps_rules ended.closing_ops ended.market_ops ended.app_hooks_outside)
  have own: "dep_ID x = d" if "has_deployment E d s" "kv_get (deployments s) (deploymentKey d) = Some x" for s x
    using that by (auto simp: has_deployment_def store_inv_def dest: own_keys_get)
  have close: "hoare (\<lambda>s. has_deployment E d s \<and> kv_get (deployments s) (deploymentKey d) = Some x)
      (bind (CloseDeployment x) (\<lambda>_. bind (GetGroups (dep_ID x)) (close_groups E (app_hooks E n) st)))
      (\<lambda>_. deployment_over d) (\<lambda>_. True)" if "dep_State x = DeploymentActive" for x st
  proof (rule hoare_fact [where F = "dep_ID x = d"])
    assume "dep_ID x = d"
    from hoare_bind [OF CloseDeployment_ends [OF this that] safe_keeps [unfolded safe_def], OF keeps_bind [OF keeps_reads(3) groups]]
    show "hoare (\<lambda>s. has_deployment E d s \<and> kv_get (deployments s) (deploymentKey d) = Some x)
      (bind (CloseDeployment x) (\<lambda>_. bind (GetGroups (dep_ID x)) (close_groups E (app_hooks E n) st)))
      (\<lambda>_. deployment_over d) (\<lambda>_. True)" by (rule hoare_pre) (erule conjunct1)
  qed (blast intro: own)
  show ?thesis
    unfolding OnEscrowAccountClosed_def assms(3) DeploymentIDFromEscrowAccount_deployment [OF assms(1,2)] GetDeployment_def option.case
    by (intro hoare_bind_gets hoare_case_option hoare_if hoare_pre [OF hoare_ret] hoare_pre [OF close])
      (auto simp: has_deployment_def deployment_over_iff)
qed

lemma hoare_then_ret:
  "hoare P m (\<lambda>_. Q) R \<Longrightarrow> hoare P (bind m (\<lambda>_. ret x)) (\<lambda>_. Q) R"
  "hoare P m (\<lambda>_. Q) R \<Longrightarrow> hoare P (bind m ret) (\<lambda>_. Q) R"
  by (erule hoare_bind, rule hoare_ret)+

lemma run_account_hooks:
  assumes "addr_laws E" "canonical E (did_Owner d)" "acc_ID a = EscrowAccountForDeployment d"
  shows "hoare (has_deployment E d)
    (bind (each (\<lambda>hook. hook a) (onAccountClosed (app_hooks E (Suc n)))) (\<lambda>_.
     each (\<lambda>hook. each hook ps) (onPaymentClosed (app_hooks E (Suc n))))) (\<lambda>_. deployment_over d) (\<lambda>_. True)"
proof -
  have "keeps (deployment_over d) (each (\<lambda>hook. each hook ps) (onPaymentClosed (app_hooks E (Suc n))))"
    by (intro keeps_each ended.hooks.payment_hook)
  then show ?thesis
    by (intro hoare_bind [OF _ safe_keeps [unfolded safe_def]])
      (auto intro: hoare_then_ret(2) [OF account_hook_closes [OF assms]])
qed

lemma settle_finish_closes:
  assumes "addr_laws E" "canonical E (did_Owner d)" "acc_ID a = EscrowAccountForDeployment d"
  shows "hoare (has_deployment E d) (settle_finish E (app_hooks E (Suc n)) a ps) (\<lambda>_. deployment_over d) (\<lambda>_. True)"
proof -
  have pays: "keeps (has_deployment E d) (each_map (\<lambda>p. let p = p\<lparr>pay_State := PaymentOverdrawn\<rparr> in
      bind (savePayment p) (\<lambda>_. paymentWithdraw E p)) ps)"
    unfolding Let_def by (intro keeps_rules before_hooks.writes before_hooks.withdraws)
  show ?thesis
    unfolding settle_finish_def Let_def
    by (rule hoare_bind [OF safe_keeps [OF before_hooks.writes(2), unfolded safe_def]
        hoare_bind [OF safe_keeps [OF pays, unfolded safe_def Let_def] hoare_then_ret(1) [OF run_account_hooks [OF assms(1,2)], unfolded bind_assoc]]])
      (simp add: assms(3))
qed


lemma inv_has_deployment:
  "chain_inv E bal s \<Longrightarrow> kv_get (deployments s) (deploymentKey d) \<noteq> None \<Longrightarrow> has_deployment E d s"
  by (simp add: has_deployment_def chain_inv_def)

lemma deployment_account:
  assumes "chain_inv E bal s" "kv_get (accounts s) (accountKey (EscrowAccountForDeployment d)) = Some a"
  shows "acc_ID a = EscrowAccountForDeployment d"
proof -
  have inv: "escrow_inv E bal (\<lambda>_. True) s" using assms(1) by (simp add: chain_inv_def)
  then have "account_id_ok E (acc_ID a)" using wf_account(2) [OF _ assms(2)] by (auto simp: escrow_inv_def account_ok_def)
  then have "CHR ''/'' \<notin> set (aid_Scope (acc_ID a))"
    by (auto simp: account_id_ok_def payment_id_ok_def EscrowScope_def bidEscrowScope_def)
  moreover have "CHR ''/'' \<notin> set (aid_Scope (EscrowAccountForDeployment d))" by (simp add: EscrowScope_def)
  ultimately show ?thesis using inv_own_key(1) [OF inv assms(2)] accountKey_eq by metis
qed

text \<open>Settlement either closes the deployment (overdrawn) or hands on the account.\<close>

definition settle_post :: "'b env \<Rightarrow> deployment_id \<Rightarrow> account \<times> payment list \<times> bool \<Rightarrow> ('b, 'x) mst \<Rightarrow> bool" where
  "settle_post E d r s \<longleftrightarrow> (case r of (a, ps, od) \<Rightarrow>
     if od then deployment_over d s else has_deployment E d s \<and> acc_ID a = EscrowAccountForDeployment d)"

lemma settle_stages_ID: "settle_stages E a ps k r = Some (a', ps', od) \<Longrightarrow> sum_rates E \<lparr>Denom = x, Amount = 0\<rparr> ps = Some r \<Longrightarrow> acc_ID a' = acc_ID a"
  using settle_stages_Some(1) [of E a ps k r a' ps' od] sum_rates_Some [of E "\<lparr>Denom = x, Amount = 0\<rparr>" ps r]
  by (auto simp: settled_def)

lemma settle_account:
  assumes "addr_laws E" "canonical E (did_Owner d)" "acc_ID a = EscrowAccountForDeployment d"
  shows "hoare (has_deployment E d)
    (if heightDelta = 0 then ret (a, [], False) else
     let a = a\<lparr>acc_SettledAt := h\<rparr> in
     bind (accountOpenPayments (EscrowAccountForDeployment d)) (\<lambda>ps.
     if ps = [] then bind (saveAccount a) (\<lambda>_. ret (a, [], False)) else
     bind (or_panic (NewCoin E (Denom (acc_Balance a)) 0)) (\<lambda>zero.
     bind (or_panic (sum_rates E zero ps)) (\<lambda>blockRate.
     bind (or_panic (settle_stages E a ps heightDelta blockRate)) (\<lambda>(a, ps, overdrawn).
     if \<not> overdrawn then settle_save a ps else settle_finish E (app_hooks E (Suc n)) a ps)))))
    (settle_post E d) (\<lambda>_. True)"
proof -
  note save = safe_keeps [OF before_hooks.writes(2), unfolded safe_def]
  have saved: "hoare (has_deployment E d) (settle_save b ps) (settle_post E d) (\<lambda>_. True)"
    if "acc_ID b = EscrowAccountForDeployment d" for b ps
    unfolding settle_save_def
    by (rule hoare_bind [OF save hoare_bind [OF safe_keeps [OF keeps_each [OF before_hooks.writes(3)], unfolded safe_def] hoare_pre [OF hoare_ret]]])
      (simp add: settle_post_def that)
  have finished: "hoare (has_deployment E d) (settle_finish E (app_hooks E (Suc n)) b ps) (settle_post E d) (\<lambda>_. True)"
    if "acc_ID b = EscrowAccountForDeployment d" for b ps
  proof -
    have "hoare (\<lambda>_. True) (settle_finish E (app_hooks E (Suc n)) b ps) (\<lambda>(_, _, od) _. od) (\<lambda>_. True)"
      unfolding settle_finish_def Let_def by (auto simp: hoare_def bind_def ret_def split: outcome.splits)
    from hoare_conj [OF settle_finish_closes [OF assms(1,2) that] this] show ?thesis
      by (rule hoare_weaken) (auto simp: settle_post_def)
  qed
  have same: "acc_ID b = EscrowAccountForDeployment d"
    if "settle_stages E (a\<lparr>acc_SettledAt := h\<rparr>) ps k r = Some (b, qs, od)" "sum_rates E z ps = Some r" "NewCoin E x 0 = Some z"
    for b ps k r qs od z x
    using settle_stages_ID [OF that(1)] that(2,3) assms(3) by (auto simp: NewCoin_Some)
  show ?thesis
    unfolding Let_def accountOpenPayments_def accountPayments_def bind_assoc bind_ret
    by (intro hoare_if hoare_pre [OF hoare_ret] hoare_read hoare_bind_or_panic hoare_case_prod hoare_bind [OF save] saved finished)
      (auto simp: settle_post_def assms(3) intro: same)
qed

lemma doAccountSettle_closes:
  assumes "addr_laws E" "canonical E (did_Owner d)"
  shows "hoare (\<lambda>s. chain_inv E bal s \<and> kv_get (deployments s) (deploymentKey d) \<noteq> None)
    (doAccountSettle E (app_hooks E (Suc n)) (EscrowAccountForDeployment d)) (settle_post E d) (\<lambda>_. True)"
  unfolding doAccountSettle_eq GetAccount_def bind_assoc Let_def [of "BlockHeight E - _"]
  by (intro hoare_read hoare_bind_found_or hoare_bind_check TrueI hoare_pre [OF settle_account [OF assms]])
    (auto intro: deployment_account inv_has_deployment)


lemma AccountClose_closes:
  assumes "addr_laws E" "canonical E (did_Owner d)"
  shows "hoare (\<lambda>s. chain_inv E bal s \<and> kv_get (deployments s) (deploymentKey d) \<noteq> None)
    (AccountClose E (app_hooks E (Suc n)) (EscrowAccountForDeployment d)) (\<lambda>_. deployment_over d) (\<lambda>_. True)"
proof -
  have ID: "hoare (has_deployment E d) (accountWithdraw E a) (\<lambda>b s. has_deployment E d s \<and> acc_ID b = acc_ID a) (\<lambda>_. True)" for a
  proof -
    have "hoare (\<lambda>_. True) (accountWithdraw E a) (\<lambda>b _. acc_ID b = acc_ID a) (\<lambda>_. True)"
      unfolding accountWithdraw_def Let_def AccAddressFromBech32_def
      by (auto simp: hoare_def bind_def ret_def saveAccount_def act_defs split: outcome.splits option.splits if_splits)
    from hoare_conj [OF safe_keeps [OF before_hooks.withdraws(1), unfolded safe_def] this] show ?thesis
      by (rule hoare_weaken) simp_all
  qed
  have rest: "hoare (settle_post E d (a, ps, False))
      (bind (accountWithdraw E (a\<lparr>acc_State := AccountClosed\<rparr>)) (\<lambda>account.
       bind (each_map (\<lambda>p. paymentWithdraw E (p\<lparr>pay_State := PaymentClosed\<rparr>)) ps) (\<lambda>ps.
       bind (each (\<lambda>hook. hook account) (onAccountClosed (app_hooks E (Suc n)))) (\<lambda>_.
       each (\<lambda>hook. each hook ps) (onPaymentClosed (app_hooks E (Suc n)))))))
      (\<lambda>_. deployment_over d) (\<lambda>_. True)" for a ps
  proof (rule hoare_fact [where F = "acc_ID a = EscrowAccountForDeployment d"])
    assume a: "acc_ID a = EscrowAccountForDeployment d"
    have pays: "keeps (has_deployment E d) (each_map (\<lambda>p. paymentWithdraw E (p\<lparr>pay_State := PaymentClosed\<rparr>)) ps)"
      by (intro keeps_each_map before_hooks.withdraws)
    have "hoare (has_deployment E d)
      (bind (accountWithdraw E (a\<lparr>acc_State := AccountClosed\<rparr>)) (\<lambda>account.
       bind (each_map (\<lambda>p. paymentWithdraw E (p\<lparr>pay_State := PaymentClosed\<rparr>)) ps) (\<lambda>ps.
       bind (each (\<lambda>hook. hook account) (onAccountClosed (app_hooks E (Suc n)))) (\<lambda>_.
       each (\<lambda>hook. each hook ps) (onPaymentClosed (app_hooks E (Suc n)))))))
      (\<lambda>_. deployment_over d) (\<lambda>_. True)"
      by (rule hoare_bind_fact [OF ID hoare_bind [OF safe_keeps [OF pays, unfolded safe_def] run_account_hooks [OF assms]]])
        (simp add: a)
    then show ?thesis by (rule hoare_pre) (simp add: settle_post_def)
  qed (simp add: settle_post_def)
  show ?thesis
    unfolding AccountClose_def GetAccount_def bind_assoc
    by (intro hoare_read hoare_bind_found_or hoare_bind_check TrueI hoare_bind [OF doAccountSettle_closes [OF assms]] hoare_case_prod hoare_if)
      (auto simp: rest simp del: app_hooks_sets intro: hoare_pre [OF hoare_ret] simp: settle_post_def)
qed

subsection \<open>Owners not written the standard way\<close>

text \<open>The hooks only ever close deployments whose owner is written the standard way.\<close>

definition stays :: "deployment_id \<Rightarrow> deployment \<Rightarrow> ('b, 'x) mst \<Rightarrow> bool" where
  "stays d x s \<longleftrightarrow> (\<forall>k y. kv_get (deployments s) k = Some y \<longrightarrow> k = deploymentKey (dep_ID y)) \<and> kv_get (deployments s) (deploymentKey d) = Some x"

interpretation stays: market_frame "stays d x" for d x
  by unfold_locales
    (auto intro!: keeps_modify simp: frame_ok_def stays_def setGroup_def updateOrder_def updateBid_def updateLease_def)

lemma CloseDeployment_stays: "dep_ID y \<noteq> d \<Longrightarrow> keeps (stays d x) (CloseDeployment y)"
  by (auto simp: keeps_def hoare_def CloseDeployment_def Let_def emit_def setDeployment_def act_defs stays_def kv_has_def kv_get_set split: if_splits)

lemma account_hook_stays:
  assumes "addr_laws E" "\<not> canonical E (did_Owner d)" "outside H (stays d x)"
  shows "keeps (stays d x) (OnEscrowAccountClosed E H a)"
proof -
  have found: "dep_ID y \<noteq> d" if "DeploymentIDFromEscrowAccount E (acc_ID a) = Some i" "stays d x s" "kv_get (deployments s) (deploymentKey i) = Some y" for i y s
  proof -
    have "canonical E (did_Owner i)" using hook_deployment_canonical [OF assms(1) that(1)] .
    moreover have "dep_ID y = i" using that(2,3) unfolding stays_def by (metis deploymentKey_inj)
    ultimately show ?thesis using assms(2) by auto
  qed
  show ?thesis
  proof (cases "DeploymentIDFromEscrowAccount E (acc_ID a)")
    case None
    then show ?thesis by (simp add: OnEscrowAccountClosed_def keeps_rules)
  next
    case (Some i)
    have "keeps (stays d x) (case z of None \<Rightarrow> ret () | Some deployment \<Rightarrow>
        if dep_State deployment \<noteq> DeploymentActive then ret () else
        bind (CloseDeployment deployment) (\<lambda>_. bind (GetGroups (dep_ID deployment)) (\<lambda>gs. close_groups E H st gs)))"
      if z: "stays d x s" "z = kv_get (deployments s) (deploymentKey i)" for s z st
    proof (cases z)
      case (Some y)
      then have "dep_ID y \<noteq> d" using found [OF \<open>DeploymentIDFromEscrowAccount E (acc_ID a) = Some i\<close> z(1)] z(2) by simp
      then show ?thesis using Some
        by (simp add: keeps_rules) (intro impI keeps_rules keeps_reads CloseDeployment_stays stays.closing_groups [OF assms(3)])
    qed (simp add: keeps_rules)
    then show ?thesis unfolding OnEscrowAccountClosed_def GetDeployment_def Some option.case by (rule keeps_bind_gets) auto
  qed
qed

lemma AccountClose_stays:
  assumes "addr_laws E" "\<not> canonical E (did_Owner d)"
  shows "keeps (stays d x) (AccountClose E (app_hooks E n) i)"
  by (intro outside.escrow_frame stays.hooks_outside account_hook_stays [OF assms])

end
