(* ===== verification/Leasing.thy ===== *)
theory Leasing
  imports Closing
begin

text \<open>
  What taking a bid leads to, and what closing a group leads to: the loops over the other bids of the
  order, and over the orders of the group, leave none behind.
\<close>

subsection \<open>Taking a bid\<close>

text \<open>\<open>leased E bal i l rem\<close>: the order, the bid and the lease are active, and of the other bids of
  the order only those in \<open>rem\<close> are open.\<close>

definition leased :: "'b env \<Rightarrow> ('b \<Rightarrow> string \<Rightarrow> int) \<Rightarrow> bid_id \<Rightarrow> lease \<Rightarrow> bid list \<Rightarrow> ('b, 'x) mst \<Rightarrow> bool" where
  "leased E bal i l rem s \<longleftrightarrow> chain_inv E bal s \<and> kv_get (leases s) (leaseKey i) = Some l \<and>
     vo (view E s) (BidID_OrderID i) = Some OrderActive \<and> vb (view E s) i = Some BidActive \<and>
     (\<forall>b\<in>set rem. bid_id_ok E (bd_ID b) \<and> bd_ID b \<noteq> i) \<and>
     (\<forall>j. BidID_OrderID j = BidID_OrderID i \<longrightarrow> j \<noteq> i \<longrightarrow> vb (view E s) j = Some BidOpen \<longrightarrow> j \<in> bd_ID ` set rem)"

lemma leased_frame: "frame_ok (\<lambda>s. kv_get (leases s) (leaseKey i) = Some l \<and> P (view E s))"
  by (simp add: frame_ok_def)

lemma leased_lose:
  assumes "bank_laws E ModuleName bal" "addr_laws E"
  shows "hoare (leased E bal i l (b # rem))
    (bind (OnBidLost b) (\<lambda>_. AccountClose E (app_hooks E n) (EscrowAccountForBid (bd_ID b)))) (\<lambda>_. leased E bal i l rem) (\<lambda>_. True)"
proof (rule hoare_fact [where F = "bid_id_ok E (bd_ID b)"])
  assume ok: "bid_id_ok E (bd_ID b)"
  have lost: "hoare (leased E bal i l (b # rem)) (OnBidLost b) (\<lambda>_. leased E bal i l rem) (\<lambda>_. True)"
  proof (rule hoareI)
    fix s u t assume s: "leased E bal i l (b # rem) s" and t: "OnBidLost b s = Ok u t"
    have c: "chain_inv E bal s" using s by (simp add: leased_def)
    have w: "chain_inv E bal t"
      using keeps_Ok [OF keeps_writes(4) [of E "b\<lparr>bd_State := BidLost\<rparr>" bal] c] t ok by (simp add: OnBidLost_def)
    have "t = s\<lparr>bids := kv_set (bidKey (bd_ID b)) (b\<lparr>bd_State := BidLost\<rparr>) (bids s)\<rparr>"
      using t by (simp add: OnBidLost_def updateBid_def modify_def)
    then have v: "view E t = view E s\<lparr>vb := (vb (view E s))(bd_ID b \<mapsto> BidLost)\<rparr>" "leases t = leases s"
      using view_bids [OF store_kv_ok(2) [OF c] assms(2) ok] by simp_all
    show "leased E bal i l rem t" using s w v by (auto simp: leased_def split: if_splits)
  qed simp
  have keep: "hoare (leased E bal i l rem) (AccountClose E (app_hooks E n) (EscrowAccountForBid (bd_ID b))) (\<lambda>_. leased E bal i l rem) (\<lambda>_. True)"
    using bid_close_frame [OF assms ok leased_frame, of i l "\<lambda>v. vo v (BidID_OrderID i) = Some OrderActive \<and> vb v i = Some BidActive \<and>
     (\<forall>b\<in>set rem. bid_id_ok E (bd_ID b) \<and> bd_ID b \<noteq> i) \<and>
     (\<forall>j. BidID_OrderID j = BidID_OrderID i \<longrightarrow> j \<noteq> i \<longrightarrow> vb v j = Some BidOpen \<longrightarrow> j \<in> bd_ID ` set rem)"]
    unfolding keeps_def by (rule hoare_weaken) (auto simp: leased_def)
  show "hoare (leased E bal i l (b # rem))
    (bind (OnBidLost b) (\<lambda>_. AccountClose E (app_hooks E n) (EscrowAccountForBid (bd_ID b)))) (\<lambda>_. leased E bal i l rem) (\<lambda>_. True)"
    by (rule hoare_bind [OF lost keep])
qed (simp add: leased_def)

lemma leased_start:
  assumes "addr_laws E" "chain_inv E bal s" "bid_id_ok E i" "kv_get (leases s) (leaseKey i) = Some l"
    "vo (view E s) (BidID_OrderID i) = Some OrderActive" "vb (view E s) i = Some BidActive"
  shows "leased E bal i l (lost_bids i s) s"
proof -
  have dec: "decodable E (oid_Owner (BidID_OrderID i))" using assms(3) by (simp add: bid_id_ok_def id_defs)
  have "j \<in> bd_ID ` set (lost_bids i s)"
    if j: "BidID_OrderID j = BidID_OrderID i" "j \<noteq> i" "vb (view E s) j = Some BidOpen" for j
  proof -
    from bid_listed [OF assms(1,2) dec j(3,1)] obtain b where b: "b \<in> set (WithBidsForOrder (BidID_OrderID i) s)" "bd_ID b = j" by blast
    then have "bd_State b = BidOpen" using order_bids(3) [OF assms(1,2) dec b(1)] j(3) by simp
    then show ?thesis using b j(2) by (force simp: lost_bids_def)
  qed
  moreover have "bid_id_ok E (bd_ID b) \<and> bd_ID b \<noteq> i" if "b \<in> set (lost_bids i s)" for b
    using that order_bids(1) [OF assms(1,2) dec] by (auto simp: lost_bids_def)
  ultimately show ?thesis using assms by (simp add: leased_def)
qed

lemma leased_match:
  assumes "addr_laws E" "bid_id_ok E i" "bd_ID b = i" "ord_ID r = BidID_OrderID i" "order_ok E r"
  defines "l \<equiv> \<lparr>ls_ID = i, ls_State = LeaseActive, ls_Price = bd_Price b, ls_CreatedAt = BlockHeight E\<rparr>"
  shows "hoare (chain_inv E bal) (bind (Keeper_CreateLease E b) (\<lambda>_. bind (OnOrderMatched r) (\<lambda>_. OnBidMatched b)))
    (\<lambda>_ s. chain_inv E bal s \<and> kv_get (leases s) (leaseKey i) = Some l \<and>
      vo (view E s) (BidID_OrderID i) = Some OrderActive \<and> vb (view E s) i = Some BidActive) (\<lambda>_. True)"
proof (rule hoareI)
  fix s u t assume s: "chain_inv E bal s"
    and run: "bind (Keeper_CreateLease E b) (\<lambda>_. bind (OnOrderMatched r) (\<lambda>_. OnBidMatched b)) s = Ok u t"
  have "keeps (chain_inv E bal) (bind (Keeper_CreateLease E b) (\<lambda>_. bind (OnOrderMatched r) (\<lambda>_. OnBidMatched b)))"
    unfolding Keeper_CreateLease_def OnOrderMatched_def OnBidMatched_def Let_def
    by (intro keeps_rules chain_rules keeps_emit) (use assms in \<open>simp_all add: MakeLeaseID_def\<close>)
  from keeps_Ok [OF this s run] have "chain_inv E bal t" .
  moreover have "kv_get (leases t) (leaseKey i) = Some l" "kv_get (orders t) (orderKey (BidID_OrderID i)) = Some (r\<lparr>ord_State := OrderActive\<rparr>)"
      "kv_get (bids t) (bidKey i) = Some (b\<lparr>bd_State := BidActive\<rparr>)"
    using run by (auto simp: Keeper_CreateLease_def OnOrderMatched_def OnBidMatched_def updateLease_def updateOrder_def updateBid_def
      emit_def bind_def modify_def Let_def MakeLeaseID_def assms kv_get_set)
  ultimately show "chain_inv E bal t \<and> kv_get (leases t) (leaseKey i) = Some l \<and>
      vo (view E t) (BidID_OrderID i) = Some OrderActive \<and> vb (view E t) i = Some BidActive"
    using assms(2) by (simp add: view_def)
qed simp

lemma Msg_CreateLease_leased:
  assumes "bank_laws E ModuleName bal" "addr_laws E" "bid_id_ok E i" "chain_inv E bal s"
    and run: "Msg_CreateLease E (app_hooks E n) i s = Ok u t"
  obtains b r g where "kv_get (bids s) (bidKey i) = Some b" "bd_State b = BidOpen"
    "kv_get (orders s) (orderKey (BidID_OrderID i)) = Some r" "ord_State r = OrderOpen"
    "kv_get (groups s) (groupKey (BidID_GroupID i)) = Some g" "grp_State g = GroupOpen"
    "leased E bal i \<lparr>ls_ID = i, ls_State = LeaseActive, ls_Price = bd_Price b, ls_CreatedAt = BlockHeight E\<rparr> [] t"
proof -
  from run obtain b r g owner s1 u1 where b: "kv_get (bids s) (bidKey i) = Some b" "bd_State b = BidOpen"
      and r: "kv_get (orders s) (orderKey (BidID_OrderID i)) = Some r" "ord_State r = OrderOpen"
      and g: "kv_get (groups s) (groupKey (OrderID_GroupID (ord_ID r))) = Some g" "grp_State g = GroupOpen"
      and pay: "PaymentCreate E (app_hooks E n) (EscrowAccountForDeployment (BidID_DeploymentID i))
        (EscrowPaymentForLease (MakeLeaseID i)) owner (bd_Price b) s = Ok u1 s1"
      and rest: "bind (Keeper_CreateLease E b) (\<lambda>_. bind (OnOrderMatched r) (\<lambda>_. bind (OnBidMatched b) (\<lambda>_.
        bind (gets (lost_bids i)) (each (\<lambda>lb. bind (OnBidLost lb) (\<lambda>_.
          AccountClose E (app_hooks E n) (EscrowAccountForBid (bd_ID lb)))))))) s1 = Ok u t"
    unfolding Msg_CreateLease_def
    by (auto simp: bind_Ok_iff GetBid_def GetOrder_def GetGroup_def AccAddressFromBech32_def gets_def found_or_def check_def ret_def throw_def
      split: option.splits if_splits)
  have id: "bd_ID b = i" "ord_ID r = BidID_OrderID i" "order_ok E r"
    using view_bid(1) [OF assms(2,4,3) b(1)] view_order(1,2) [OF assms(4) r(1)] by simp_all
  have "decodable E (did_Owner (BidID_DeploymentID i))" using assms(3) by (simp add: bid_id_ok_def id_defs)
  from safe_Ok [OF PaymentCreate_view [OF assms(1) this, of "\<lambda>_. True"] _ pay] have s1: "chain_inv E bal s1"
    using assms(4) by (simp add: viewed_def)
  let ?l = "\<lparr>ls_ID = i, ls_State = LeaseActive, ls_Price = bd_Price b, ls_CreatedAt = BlockHeight E\<rparr>"
  from rest obtain u2 s2 where match: "bind (Keeper_CreateLease E b) (\<lambda>_. bind (OnOrderMatched r) (\<lambda>_. OnBidMatched b)) s1 = Ok u2 s2"
      and lose: "each (\<lambda>lb. bind (OnBidLost lb) (\<lambda>_. AccountClose E (app_hooks E n) (EscrowAccountForBid (bd_ID lb)))) (lost_bids i s2) s2 = Ok u t"
    by (auto simp: bind_Ok_iff gets_def)
  have "leased E bal i ?l (lost_bids i s2) s2"
    using hoare_Ok [OF leased_match [OF assms(2,3) id] s1 match] by (intro leased_start assms(2,3)) simp_all
  from hoare_Ok [OF hoare_each [where I = "leased E bal i ?l", OF leased_lose [OF assms(1,2)]] this lose]
  have "leased E bal i ?l [] t" .
  moreover have "OrderID_GroupID (ord_ID r) = BidID_GroupID i" by (simp add: id BidID_GroupID_def)
  ultimately show ?thesis using that b r g by simp
qed

subsection \<open>Closing a group\<close>

text \<open>\<open>live_within g R\<close>: the orders of the group that are not closed are among \<open>R\<close>.\<close>

definition live_within :: "group_id \<Rightarrow> order_id set \<Rightarrow> ('b, 'x) mst \<Rightarrow> bool" where
  "live_within g R s \<longleftrightarrow> (\<forall>j. OrderID_GroupID j = g \<longrightarrow> live (order_status j s) \<longrightarrow> j \<in> R)"

lemma order_status_frame [simp]:
  "order_status j (s\<lparr>bank := x\<rparr>) = order_status j s" "order_status j (s\<lparr>events := ev\<rparr>) = order_status j s"
  "order_status j (s\<lparr>accounts := a\<rparr>) = order_status j s" "order_status j (s\<lparr>payments := p\<rparr>) = order_status j s"
  "order_status j (s\<lparr>deployments := d\<rparr>) = order_status j s" "order_status j (s\<lparr>groups := gs\<rparr>) = order_status j s"
  "order_status j (s\<lparr>providers := pr\<rparr>) = order_status j s" "order_status j (s\<lparr>audits := au\<rparr>) = order_status j s"
  "order_status j (s\<lparr>bids := bs\<rparr>) = order_status j s" "order_status j (s\<lparr>leases := ls\<rparr>) = order_status j s"
  by (simp_all add: order_status_def)

interpretation shrinking: final_state "live_within g R" for g R
  by unfold_locales
    (auto intro!: keeps_modify simp: frame_ok_def live_within_def live_def setGroup_def updateOrder_def updateBid_def
      updateLease_def setDeployment_def split: if_splits)

lemma order_done_status: "order_done i s \<longleftrightarrow> order_status i s = Some OrderClosed"
  by (simp add: order_done_def order_status_def)

lemma OnGroupClosed_all:
  fixes E :: "'b env"
  shows "hoare (\<lambda>s :: ('b, 'x) mst. live_within g (ord_ID ` set (WithOrdersForGroup g s)) s \<and>
      (\<forall>r\<in>set (WithOrdersForGroup g s). ord_State r = OrderClosed \<longrightarrow> order_done (ord_ID r) s))
    (OnGroupClosed E (app_hooks E n) g) (\<lambda>_. live_within g {}) (\<lambda>_. True)"
proof -
  let ?inner = "\<lambda>r. bind (gets (WithBidsForOrder (ord_ID r))) (each (group_closed_bid E (app_hooks E n) g))"
  let ?body = "\<lambda>r. bind (OnOrderClosed r) (\<lambda>_. ?inner r)"
  define J where "J rs s \<longleftrightarrow> live_within g (ord_ID ` set rs) s \<and> (\<forall>r\<in>set rs. ord_State r = OrderClosed \<longrightarrow> order_done (ord_ID r) s)"
    for rs :: "order list" and s :: "('b, 'x) mst"
  have L: "keeps (live_within g R :: ('b, 'x) mst \<Rightarrow> bool) (?inner r)" and D: "keeps (order_done j :: ('b, 'x) mst \<Rightarrow> bool) (?inner r)" for R j and r :: order
    by (intro keeps_rules shrinking.market_ops shrinking.app_hooks_outside finished.market_ops finished.app_hooks_outside)+
  have inner: "hoare (J rs) (?inner r) (\<lambda>_. J rs) (\<lambda>_. True)" for rs and r :: order
  proof (rule hoareI)
    fix s u t assume s: "J rs s" and t: "?inner r s = Ok u t"
    show "J rs t" using s keeps_Ok [OF L _ t] keeps_Ok [OF D _ t] by (simp add: J_def)
  qed simp
  have close: "hoare (J (r # rs)) (OnOrderClosed r) (\<lambda>_. J rs) (\<lambda>_. True)" for r rs
  proof (rule hoareI)
    fix s u t assume s: "J (r # rs) s" and t: "OnOrderClosed r s = Ok u t"
    have st: "order_status j t = (if j = ord_ID r \<and> ord_State r \<noteq> OrderClosed then Some OrderClosed else order_status j s)" for j
      using t by (auto simp: OnOrderClosed_def updateOrder_def emit_def act_defs Let_def split: if_splits)
    have "order_status (ord_ID r) t = Some OrderClosed" using s st by (auto simp: J_def order_done_status)
    then show "J rs t" using s st by (auto simp: J_def live_within_def live_def order_done_status)
  qed simp
  have "hoare (J (r # rs)) (?body r) (\<lambda>_. J rs) (\<lambda>_. True)" for r rs
    by (rule hoare_bind [OF close inner])
  from hoare_each [where I = J, OF this] have "hoare (J rs) (each ?body rs) (\<lambda>_. J []) (\<lambda>_. True)" for rs .
  then show ?thesis
    unfolding OnGroupClosed_def by (intro hoare_bind_gets, rule hoare_weaken) (auto simp: J_def)
qed

lemma group_orders_read:
  assumes "addr_laws E" "chain_inv E bal s" "decodable E (gid_Owner g)"
  shows "live_within g (ord_ID ` set (WithOrdersForGroup g s)) s \<and>
    (\<forall>r\<in>set (WithOrdersForGroup g s). ord_State r = OrderClosed \<longrightarrow> order_done (ord_ID r) s)"
proof -
  have own: "own_keys (\<lambda>r. orderKey (ord_ID r)) (order_ok E) (orders s)" using assms(2) by (simp add: chain_inv_def store_inv_def)
  have "j \<in> ord_ID ` set (WithOrdersForGroup g s)" if j: "OrderID_GroupID j = g" "live (order_status j s)" for j
  proof -
    from j(2) obtain r where r: "kv_get (orders s) (orderKey j) = Some r" by (auto simp: live_def order_status_def)
    have "ord_ID r = j" "decodable E (oid_Owner j)" using view_order(1,2) [OF assms(2) r] by (auto simp: order_ok_def)
    then have "prefix (ordersForGroupPrefix g) (orderKey j)"
      using ordersForGroupPrefix_prefix [of g j] decodable_length [OF assms(1,3)] j(1) by simp
    then have "r \<in> set (WithOrdersForGroup g s)"
      using r store_kv_ok(1) [OF assms(2)] unfolding WithOrdersForGroup_def by (auto simp: kv_iter_member)
    then show ?thesis using \<open>ord_ID r = j\<close> by blast
  qed
  moreover have "order_done (ord_ID r) s" if "r \<in> set (WithOrdersForGroup g s)" "ord_State r = OrderClosed" for r
    using own_keys_iter(2) [OF own that(1) [unfolded WithOrdersForGroup_def]] that(2) by (simp add: order_done_def)
  ultimately show ?thesis by (simp add: live_within_def)
qed

lemma group_msgs_close:
  assumes "addr_laws E" "chain_inv E bal s"
    and "Msg_CloseGroup E (app_hooks E n) g s = Ok u t \<or> Msg_PauseGroup E (app_hooks E n) g s = Ok u t"
  shows "live_within g {} t"
proof -
  from assms(3) obtain x s1 u1 where x: "kv_get (groups s) (groupKey g) = Some x"
      and w: "OnCloseGroup x GroupClosed s = Ok u1 s1 \<or> OnPauseGroup x s = Ok u1 s1"
      and close: "OnGroupClosed E (app_hooks E n) (grp_ID x) s1 = Ok u t"
    by (auto simp: Msg_CloseGroup_def Msg_PauseGroup_def bind_Ok_iff GetGroup_def gets_def found_or_def ret_def throw_def or_throw_def
      split: option.splits sum.splits)
  have id: "grp_ID x = g" "group_ok E x" using assms(2) x by (auto simp: chain_inv_def store_inv_def dest: own_keys_get)
  have s1: "chain_inv E bal s1"
    using w keeps_Ok [OF viewed_deployment_ops(2) [OF id(2), of bal "\<lambda>_. True"]] keeps_Ok [OF viewed_deployment_ops(3) [OF id(2), of bal "\<lambda>_. True"]]
      assms(2) by (auto simp: viewed_def)
  have "decodable E (gid_Owner g)" using id by (simp add: group_ok_def)
  from hoare_Ok [OF OnGroupClosed_all group_orders_read [OF assms(1) s1 this]] show ?thesis using close id(1) by simp
qed

end
