(* ===== verification/Chain_Example.thy ===== *)
theory Chain_Example
  imports Chain Example
begin

text \<open>
  A concrete chain, in the environment of theory \<open>Example\<close>: an empty genesis state, a transaction
  that creates a deployment with one group, and a short history (\<open>demo_market\<close>) in which a
  provider registers, a tenant creates a deployment, the provider bids and the tenant takes the bid.
\<close>

definition demo_genesis :: "(string \<Rightarrow> int) market_state" where
  "demo_genesis = \<lparr>bank = (\<lambda>d. 0), events = [], accounts = [], payments = [],
     deployments = [], groups = [], deploymentParams = \<lparr>DeploymentMinDeposit = \<lparr>Denom = ''uve'', Amount = 50\<rparr>\<rparr>,
     providers = [], audits = [], orders = [], bids = [], leases = [],
     marketParams = \<lparr>BidMinDeposit = \<lparr>Denom = ''uve'', Amount = 10\<rparr>, OrderMaxBids = 2\<rparr>\<rparr>"

definition demo_units :: resource_units where
  "demo_units = \<lparr>CPU = Some \<lparr>cpu_Units = NewResourceValue 100, cpu_Attributes = []\<rparr>,
     Memory = Some \<lparr>mem_Quantity = NewResourceValue (2 ^ 20), mem_Attributes = []\<rparr>,
     Storage = Some \<lparr>sto_Quantity = NewResourceValue (2 ^ 30), sto_Attributes = []\<rparr>,
     Endpoints = []\<rparr>"

definition demo_spec :: group_spec where
  "demo_spec = \<lparr>gs_Name = ''web'',
     gs_Requirements = \<lparr>SignedBy = \<lparr>AllOf = [], AnyOf = []\<rparr>, req_Attributes = []\<rparr>,
     gs_Resources = [\<lparr>res_Resources = demo_units, res_Count = 1, res_Price = \<lparr>Denom = ''uve'', Amount = 7\<rparr>\<rparr>]\<rparr>"

definition demo_did :: deployment_id where
  "demo_did = \<lparr>did_Owner = ''owner'', did_DSeq = 1\<rparr>"

definition demo_create :: msg where
  "demo_create = MsgCreateDeployment \<lparr>mcd_ID = demo_did, mcd_Groups = [demo_spec],
     mcd_Version = replicate 32 (CHR ''v''), mcd_Deposit = \<lparr>Denom = ''uve'', Amount = 100\<rparr>\<rparr>"

text \<open>A URL parser that refuses everything; no provider takes part.\<close>

definition parse0 :: "string \<Rightarrow> url option" where
  "parse0 s = None"

lemma demo_signed: "signed_by_users demo_env [demo_create]"
  by (simp add: signed_by_users_def GetSigners_def signer_defs demo_create_def demo_did_def demo_env_def ModuleName_def)

lemma demo_genesis_reachable: "reachable demo_env (\<lambda>b. b) parse0 demo_genesis"
  by (rule reachable.start) (simp_all add: empty_stores_def demo_genesis_def)

lemma demo_reachable: "reachable demo_env (\<lambda>b. b) parse0 (deliver demo_env parse0 [demo_create] demo_genesis)"
  using reachable.transaction [OF demo_genesis_reachable demo_signed, of "BlockHeight demo_env"] by simp

text \<open>A history is a list of transactions, each at its height.\<close>

definition history :: "'b env \<Rightarrow> (string \<Rightarrow> url option) \<Rightarrow> (int \<times> msg list) list \<Rightarrow> ('b, 'x) mst \<Rightarrow> ('b, 'x) mst" where
  "history E parse txs s = fold (\<lambda>(h, msgs). deliver (E\<lparr>BlockHeight := h\<rparr>) parse msgs) txs s"

lemma history_reachable:
  "reachable E bal parse s \<Longrightarrow> list_all (\<lambda>(h, msgs). signed_by_users E msgs) txs \<Longrightarrow>
   reachable E bal parse (history E parse txs s)"
  by (induction txs arbitrary: s) (auto simp: history_def intro: reachable.transaction)

text \<open>A URL parser that knows one address.\<close>

definition parse1 :: "string \<Rightarrow> url option" where
  "parse1 s = (if s = ''https://p'' then Some \<lparr>url_IsAbs = True, url_Scheme = ''https'', url_Host = ''p'', url_Path = []\<rparr> else None)"

definition demo_provider :: provider where
  "demo_provider = \<lparr>prov_Owner = ''prova'', prov_HostURI = ''https://p'',
     prov_Attributes = [\<lparr>attr_Key = ''region'', attr_Value = ''eu''\<rparr>], prov_Info = \<lparr>EMail = [], Website = []\<rparr>\<rparr>"

definition demo_bid_id :: bid_id where
  "demo_bid_id = \<lparr>bid_Owner = ''owner'', bid_DSeq = 1, bid_GSeq = 1, bid_OSeq = 1, bid_Provider = ''prova''\<rparr>"

definition demo_bid :: msg_create_bid where
  "demo_bid = \<lparr>mcb_Order = BidID_OrderID demo_bid_id, mcb_Provider = ''prova'',
     mcb_Price = \<lparr>Denom = ''uve'', Amount = 3\<rparr>, mcb_Deposit = \<lparr>Denom = ''uve'', Amount = 10\<rparr>\<rparr>"

definition demo_market :: "(string \<Rightarrow> int) market_state" where
  "demo_market = history demo_env parse1
     [(1, [MsgCreateProvider demo_provider]), (2, [demo_create]), (3, [MsgCreateBid demo_bid]),
      (4, [MsgCreateLease demo_bid_id])] demo_genesis"

lemma demo_market_reachable: "reachable demo_env (\<lambda>b. b) parse1 demo_market"
  unfolding demo_market_def
proof (rule history_reachable)
  show "reachable demo_env (\<lambda>b. b) parse1 demo_genesis"
    by (rule reachable.start) (simp_all add: empty_stores_def demo_genesis_def)
qed (simp add: signed_by_users_def GetSigners_def signer_defs demo_create_def demo_did_def demo_env_def ModuleName_def
  demo_provider_def demo_bid_def demo_bid_id_def)

text \<open>The history leads to an active lease; then the tenant closes the deployment.\<close>

definition demo_over :: "(string \<Rightarrow> int) market_state" where
  "demo_over = deliver (demo_env\<lparr>BlockHeight := 9\<rparr>) parse1 [MsgCloseDeployment demo_did] demo_market"

lemma demo_market_lease:
  "map_option ls_State (kv_get (leases demo_market) (leaseKey demo_bid_id)) = Some LeaseActive \<and>
   map_option ord_State (kv_get (orders demo_market) (orderKey (BidID_OrderID demo_bid_id))) = Some OrderActive"
  by code_simp

lemma demo_close_ok:
  "(case runTx (demo_env\<lparr>BlockHeight := 9\<rparr>) parse1 [MsgCloseDeployment demo_did] demo_market of Ok _ _ \<Rightarrow> True | _ \<Rightarrow> False)"
  by code_simp

lemma demo_close_runs:
  "runTx (demo_env\<lparr>BlockHeight := 9\<rparr>) parse1 [MsgCloseDeployment demo_did] demo_market = Ok () demo_over"
  using demo_close_ok by (simp add: demo_over_def deliver_def split: outcome.splits)

lemma demo_over_states:
  "deployment_over demo_did demo_over \<and> lease_over demo_bid_id demo_over \<and> order_done (BidID_OrderID demo_bid_id) demo_over"
  by code_simp

lemma demo_close_signed: "signed_by_users demo_env [MsgCloseDeployment demo_did]"
  by (simp add: signed_by_users_def GetSigners_def signer_defs demo_did_def demo_env_def ModuleName_def)

lemma demo_start_signed: "signed_by_users demo_env [MsgStartGroup (MakeGroupID demo_did 1)]"
  by (simp add: signed_by_users_def GetSigners_def signer_defs demo_did_def demo_env_def ModuleName_def id_defs)

lemma demo_over_reachable: "reachable demo_env (\<lambda>b. b) parse1 demo_over"
  unfolding demo_over_def by (rule reachable.transaction [OF demo_market_reachable demo_close_signed])

lemma demo_bid_ok: "bid_id_ok demo_env demo_bid_id"
  by (simp add: bid_id_ok_def decodable_def demo_env_def demo_bid_id_def)

end
