(* ===== verification/Market_Properties.thy ===== *)
theory Market_Properties
  imports Leasing Chain_Example
begin

text \<open>
  The market: how orders are numbered, what a bid has to satisfy, what taking a bid and closing a
  group lead to.
\<close>

subsection \<open>Orders\<close>

lemma next_oseq_cases:
  "next_oseq k os = (case find (\<lambda>r. ord_State r \<noteq> OrderClosed) os of
     None \<Rightarrow> Inr (k + of_nat (length os))
   | Some r \<Rightarrow> Inl (Market (if ord_State r = OrderActive then ErrOrderActive else ErrOrderClosed)))"
proof (induction os arbitrary: k)
  case (Cons r os)
  then show ?case
    by (cases "ord_State r") (simp_all add: Order_ValidateInactive_def add.assoc split: option.splits)
qed simp

text \<open>
  Creating an order on every branch.  While an order of the group is not closed there is no other, and
  the answer names the first such order's state; else the new order is stored open under the next number, one more than the
  orders the group has had (modulo \<open>2 ^ 32\<close>); if that number is taken, which needs it to wrap, nothing is written.
\<close>
lemma CreateOrder_cases:
  "CreateOrder E g spec s =
    (let os = WithOrdersForGroup g s; k = 1 + of_nat (length os);
       order = \<lparr>ord_ID = MakeOrderID g k, ord_State = OrderOpen, ord_Spec = spec, ord_CreatedAt = BlockHeight E\<rparr> in
     case find (\<lambda>r. ord_State r \<noteq> OrderClosed) os of
       Some r \<Rightarrow> Err (Market (if ord_State r = OrderActive then ErrOrderActive else ErrOrderClosed)) s
     | None \<Rightarrow> if kv_has (orders s) (orderKey (MakeOrderID g k)) then Err (Market ErrOrderExists) s
         else Ok order (s\<lparr>orders := kv_set (orderKey (MakeOrderID g k)) order (orders s),
           events := events s @ [EventOrderCreated (MakeOrderID g k)]\<rparr>))"
  by (simp add: CreateOrder_def Let_def next_oseq_cases act_defs updateOrder_def emit_def split: option.splits)

subsection \<open>Bids\<close>

text \<open>
  C29. A bid that is accepted satisfies every condition of the market: the order is open; the deposit is in
  the right denomination and at least the minimum; the price is at most the order's; the provider is registered and its
  attributes, as declared and as signed by auditors, match the order; it has not bid on the order before; and the number of bids
  before it was at most the maximum (so that the order may have one bid more than the maximum after it; see below).  The bid is then stored open, with this price.
\<close>
theorem Msg_CreateBid_accepts:
  fixes E :: "'b env" and s t :: "('b, 'x) mst"
  assumes "Msg_CreateBid E msg s = Ok () t"
  shows "\<exists>order limit addr prov.
    kv_get (orders s) (orderKey (mcb_Order msg)) = Some order \<and> ord_State order = OrderOpen \<and>
    Denom (mcb_Deposit msg) = Denom (BidMinDeposit (marketParams s)) \<and>
    Amount (BidMinDeposit (marketParams s)) \<le> Amount (mcb_Deposit msg) \<and>
    Order_Price E order = Some (Some limit) \<and> Denom (mcb_Price msg) = Denom limit \<and> Amount (mcb_Price msg) \<le> Amount limit \<and>
    FromBech32 E (mcb_Provider msg) = Some addr \<and> kv_get (providers s) (providerKey addr) = Some prov \<and>
    Order_MatchRequirements order (\<lparr>ap_Owner = mcb_Provider msg, ap_Auditor = [], ap_Attributes = prov_Attributes prov\<rparr> #
      kv_iter (auditPrefix addr) (audits s)) = Some True \<and>
    kv_get (bids s) (bidKey (MakeBidID E (mcb_Order msg) addr)) = None \<and>
    of_nat (length (WithBidsForOrder (mcb_Order msg) s)) \<le> OrderMaxBids (marketParams s) \<and>
    bids t = kv_set (bidKey (MakeBidID E (mcb_Order msg) addr))
      \<lparr>bd_ID = MakeBidID E (mcb_Order msg) addr, bd_State = BidOpen, bd_Price = mcb_Price msg, bd_CreatedAt = BlockHeight E\<rparr> (bids s)"
proof -
  have kept: "bids t' = bids u" if "AccountCreate E i owner dep u = Ok () t'" for i owner dep and t' u :: "('b, 'x) mst"
  proof -
    have "frame_ok (\<lambda>s :: ('b, 'x) mst. bids s = bids u)" by (simp add: frame_ok_def)
    from keeps_Ok [OF outside.escrow_frame(1) [OF idle_outside [OF this]] _ that] show ?thesis by simp
  qed
  from assms show ?thesis
    unfolding Msg_CreateBid_def Keeper_CreateBid_def
    by (auto simp: Let_def [of "_ :: coin"] Let_def [of "_ :: bid"] bind_Ok_iff Market_GetParams_def BidCountForOrder_def GetOrder_def Provider_Get_def
      GetProviderAttributes_def gets_def check_def ret_def throw_def found_or_def or_panic_def or_throw_def panic_def
      Order_ValidateCanBid_def coin_IsLT_def updateBid_def emit_def modify_def WithBidsForOrder_def kv_has_def
      split: if_splits option.splits sum.splits order_state.splits dest!: kept)
      (simp_all add: Let_def split: if_splits)
qed

text \<open>The chain of the example when the deployment is there and the provider is about to bid.\<close>

definition demo_ready :: "(string \<Rightarrow> int) market_state" where
  "demo_ready = history demo_env parse1 [(1, [MsgCreateProvider demo_provider]), (2, [demo_create])] demo_genesis"

definition demo_bidden :: "(string \<Rightarrow> int) market_state" where
  "demo_bidden = (case Msg_CreateBid demo_env demo_bid demo_ready of Ok _ t \<Rightarrow> t | _ \<Rightarrow> demo_ready)"

theorem Msg_CreateBid_accepts_witness:
  "(\<exists>order. kv_get (orders demo_ready) (orderKey (BidID_OrderID demo_bid_id)) = Some order \<and> ord_State order = OrderOpen) \<and>
   map_option bd_State (kv_get (bids demo_bidden) (bidKey demo_bid_id)) = Some BidOpen"
proof -
  have "(case Msg_CreateBid demo_env demo_bid demo_ready of Ok _ _ \<Rightarrow> True | _ \<Rightarrow> False)" by code_simp
  then have "Msg_CreateBid demo_env demo_bid demo_ready = Ok () demo_bidden"
    by (simp add: demo_bidden_def split: outcome.splits)
  from Msg_CreateBid_accepts [OF this] show ?thesis
    by (auto simp: demo_bid_def demo_bid_id_def demo_env_def id_defs kv_get_set split: if_splits)
qed

text \<open>
  The limit on bids is exceeded by one: with \<^verbatim>\<open>OrderMaxBids\<close> two, three providers' bids on one order
  are accepted and all three are open, and the fourth is refused (the handler compares the count before the new bid with
  \<open>>\<close>).
\<close>
lemma OrderMaxBids_off_by_one:
  "let provs = map (\<lambda>c. demo_provider\<lparr>prov_Owner := ''prov'' @ [c]\<rparr>) ''abcd'';
       state = history demo_env parse1
         ((1, map MsgCreateProvider provs) # (2, [demo_create]) #
          map (\<lambda>p. (3, [MsgCreateBid (demo_bid\<lparr>mcb_Provider := prov_Owner p\<rparr>)])) provs) demo_genesis in
   OrderMaxBids (marketParams state) = 2 \<and>
   map (\<lambda>b. (bid_Provider (bd_ID b), bd_State b)) (WithBidsForOrder (BidID_OrderID demo_bid_id) state) =
     [(''prova'', BidOpen), (''provb'', BidOpen), (''provc'', BidOpen)]"
  by code_simp

subsection \<open>Leases\<close>

text \<open>
  C15. A transaction that takes a bid and succeeds leads to exactly what it promises: bid and order were open
  before and are active after, the lease is stored active with the bid's price and this height, and no other bid on the order is
  open any more.
\<close>
theorem MsgCreateLease_leases:
  assumes "reachable E bal parse s" and "bank_laws E ModuleName bal" and "addr_laws E"
    and "runTx (E\<lparr>BlockHeight := h\<rparr>) parse [MsgCreateLease i] s = Ok u t"
  shows "\<exists>b. kv_get (bids s) (bidKey i) = Some b \<and> bd_State b = BidOpen \<and>
    order_status (BidID_OrderID i) s = Some OrderOpen \<and> order_status (BidID_OrderID i) t = Some OrderActive \<and>
    map_option bd_State (kv_get (bids t) (bidKey i)) = Some BidActive \<and>
    kv_get (leases t) (leaseKey i) = Some \<lparr>ls_ID = i, ls_State = LeaseActive, ls_Price = bd_Price b, ls_CreatedAt = h\<rparr> \<and>
    list_all (\<lambda>c. bd_ID c = i \<or> bd_State c \<noteq> BidOpen) (WithBidsForOrder (BidID_OrderID i) t)"
proof -
  let ?E = "E\<lparr>BlockHeight := h\<rparr>"
  have inv: "chain_inv ?E bal s" using reachable_inv [OF assms(1-3)] by simp
  have laws: "bank_laws ?E ModuleName bal" "addr_laws ?E" using assms(2,3) by simp_all
  from assms(4) obtain s1 where s1: "ValidateBasic ?E parse (MsgCreateLease i) s = Ok () s1"
      and run: "Msg_CreateLease ?E (app_hooks ?E 3) i s1 = Ok () t"
    by (auto simp: runTx_def runTx_with_def keeper_hooks_def bind_Ok_iff ret_def handle_def Market_NewHandler_def)
  have same: "s1 = s" and "BidID_Validate ?E i = Inr ()"
    using s1 by (auto simp: ValidateBasic_def MsgCreateLease_ValidateBasic_def or_throw_def ret_def throw_def split: sum.splits)
  then have ok: "bid_id_ok ?E i" by (intro BidID_Validate_ok)
  from Msg_CreateLease_leased [OF laws ok inv run [unfolded same]] obtain b r
    where b: "kv_get (bids s) (bidKey i) = Some b" "bd_State b = BidOpen"
      and r: "kv_get (orders s) (orderKey (BidID_OrderID i)) = Some r" "ord_State r = OrderOpen"
      and l: "leased ?E bal i \<lparr>ls_ID = i, ls_State = LeaseActive, ls_Price = bd_Price b, ls_CreatedAt = BlockHeight ?E\<rparr> [] t"
    by metis
  have dec: "decodable ?E (oid_Owner (BidID_OrderID i))" using ok by (simp add: bid_id_ok_def id_defs)
  have "bd_ID c = i \<or> bd_State c \<noteq> BidOpen" if "c \<in> set (WithBidsForOrder (BidID_OrderID i) t)" for c
    using order_bids [OF laws(2) _ dec that] l by (auto simp: leased_def)
  then show ?thesis
    using b r l ok by (auto simp: leased_def order_status_def view_def list_all_iff)
qed

theorem MsgCreateLease_leases_witness:
  "map_option ls_Price (kv_get (leases demo_market) (leaseKey demo_bid_id)) = Some \<lparr>Denom = ''uve'', Amount = 3\<rparr> \<and>
   order_status (BidID_OrderID demo_bid_id) demo_market = Some OrderActive"
proof -
  let ?s = "history demo_env parse1 [(1, [MsgCreateProvider demo_provider]), (2, [demo_create]), (3, [MsgCreateBid demo_bid])] demo_genesis"
  let ?E = "demo_env\<lparr>BlockHeight := 4\<rparr>"
  have m: "demo_market = deliver ?E parse1 [MsgCreateLease demo_bid_id] ?s"
    by (simp add: demo_market_def history_def)
  have "(case runTx ?E parse1 [MsgCreateLease demo_bid_id] ?s of Ok _ _ \<Rightarrow> True | _ \<Rightarrow> False)" by code_simp
  then have run: "runTx ?E parse1 [MsgCreateLease demo_bid_id] ?s = Ok () demo_market"
    unfolding m deliver_def by (simp split: outcome.splits)
  have price: "map_option bd_Price (kv_get (bids ?s) (bidKey demo_bid_id)) = Some \<lparr>Denom = ''uve'', Amount = 3\<rparr>" by code_simp
  have "reachable demo_env (\<lambda>b. b) parse1 demo_genesis"
    by (rule reachable.start) (simp_all add: empty_stores_def demo_genesis_def)
  then have "reachable demo_env (\<lambda>b. b) parse1 ?s"
    by (rule history_reachable) (simp add: signed_by_users_def GetSigners_def signer_defs demo_create_def demo_did_def demo_env_def
      ModuleName_def demo_provider_def demo_bid_def demo_bid_id_def)
  from MsgCreateLease_leases [OF this demo_bank_laws demo_addr_laws run] price show ?thesis by auto
qed

subsection \<open>Groups\<close>

text \<open>
  C33. Closing or pausing a group leaves nothing running: after a transaction that succeeds, no order of the
  group is open or active and no lease of it is active.
\<close>
theorem group_messages_stop:
  assumes "reachable E bal parse s" and "bank_laws E ModuleName bal" and "addr_laws E"
    and "signed_by_users E [m]" and "m = MsgCloseGroup g \<or> m = MsgPauseGroup g"
    and "runTx (E\<lparr>BlockHeight := h\<rparr>) parse [m] s = Ok u t"
  shows "(OrderID_GroupID j = g \<longrightarrow> order_status j t = None \<or> order_status j t = Some OrderClosed) \<and>
    (bid_id_ok E i \<and> BidID_GroupID i = g \<longrightarrow> map_option ls_State (kv_get (leases t) (leaseKey i)) \<noteq> Some LeaseActive)"
proof -
  let ?E = "E\<lparr>BlockHeight := h\<rparr>"
  have coh: "coh ?E bal s" using reachable_inv [OF assms(1-3)] reachable_coherent [OF assms(1-3)] by (simp add: viewed_def)
  have laws: "bank_laws ?E ModuleName bal" "addr_laws ?E" "signed_by_users ?E [m]" using assms(2-4) by simp_all
  have coh_t: "coh ?E bal t" by (rule safe_Ok [OF runTx_coherent [OF laws] coh assms(6)])
  from assms(5,6) obtain s1 where s1: "ValidateBasic ?E parse m s = Ok () s1"
      and run: "Msg_CloseGroup ?E (app_hooks ?E 3) g s1 = Ok () t \<or> Msg_PauseGroup ?E (app_hooks ?E 3) g s1 = Ok () t"
    by (auto simp: runTx_def runTx_with_def keeper_hooks_def bind_Ok_iff ret_def handle_def Deployment_NewHandler_def)
  have "s1 = s"
    using s1 assms(5) by (auto simp: ValidateBasic_def or_throw_def ret_def throw_def split: sum.splits)
  then have lw: "live_within g {} t" using group_msgs_close [OF laws(2) viewedD(1) [OF coh]] run by blast
  then have orders: "order_status j t = None \<or> order_status j t = Some OrderClosed" if "OrderID_GroupID j = g" for j
    using that by (auto simp: live_within_def live_def)
  have "vo (view ?E t) j = order_status j t" for j by (simp add: view_def order_status_def)
  then have "vl (view ?E t) i \<noteq> Some LeaseActive" if "BidID_GroupID i = g"
    using viewedD(2) [OF coh_t] orders [of "BidID_OrderID i"] that unfolding coherent_def BidID_GroupID_def by auto
  then show ?thesis using orders by (auto simp: view_def)
qed

theorem group_messages_stop_witness:
  "let t = deliver (demo_env\<lparr>BlockHeight := 9\<rparr>) parse1 [MsgPauseGroup (MakeGroupID demo_did 1)] demo_market in
   (order_status (BidID_OrderID demo_bid_id) t = None \<or> order_status (BidID_OrderID demo_bid_id) t = Some OrderClosed) \<and>
   map_option ls_State (kv_get (leases t) (leaseKey demo_bid_id)) \<noteq> Some LeaseActive"
proof -
  let ?E = "demo_env\<lparr>BlockHeight := 9\<rparr>" and ?m = "MsgPauseGroup (MakeGroupID demo_did 1)"
  let ?t = "deliver ?E parse1 [?m] demo_market"
  have "(case runTx ?E parse1 [?m] demo_market of Ok _ _ \<Rightarrow> True | _ \<Rightarrow> False)" by code_simp
  then have run: "runTx ?E parse1 [?m] demo_market = Ok () ?t" by (simp add: deliver_def split: outcome.splits)
  have "signed_by_users demo_env [?m]"
    by (simp add: signed_by_users_def GetSigners_def signer_defs demo_did_def demo_env_def ModuleName_def id_defs)
  from group_messages_stop [OF demo_market_reachable demo_bank_laws demo_addr_laws this _ run, of "MakeGroupID demo_did 1"
    "BidID_OrderID demo_bid_id" demo_bid_id] demo_bid_ok show ?thesis
    by (simp add: Let_def) (simp add: demo_bid_id_def demo_did_def id_defs)
qed

end
