(* ===== verification/Provider_Properties.thy ===== *)
theory Provider_Properties
  imports Closing Chain_Example
begin

text \<open>
  Providers and the attributes auditors sign for them.
\<close>

subsection \<open>Providers\<close>

lemma compatible_Ok:
  "compatible_with_leases owner attrs ls s = Ok () t \<longleftrightarrow> t = s \<and>
     (\<forall>l\<in>set ls. bid_Provider (ls_ID l) = owner \<and> ls_State l = LeaseActive \<longrightarrow>
       (\<exists>r. kv_get (orders s) (orderKey (BidID_OrderID (ls_ID l))) = Some r \<and> Order_MatchAttributes r attrs))"
proof (induction ls)
  case Nil
  then show ?case by (auto simp: ret_def)
next
  case (Cons l ls)
  then show ?case
    by (auto simp: GetOrder_def bind_Ok_iff gets_def found_or_def check_def ret_def throw_def split: if_splits option.splits)
qed

lemma Provider_Update_Ok:
  "FromBech32 E (prov_Owner p) = Some addr \<Longrightarrow> kv_get (providers s) (providerKey addr) \<noteq> None \<Longrightarrow>
   Provider_Update E p s = Ok () (s\<lparr>providers := kv_set (providerKey addr) p (providers s), events := events s @ [EventProviderUpdated addr]\<rparr>)"
  by (simp add: Provider_Update_def AccAddressFromBech32_def act_defs emit_def kv_has_def)

text \<open>
  C34. An update of a provider succeeds exactly when its message is valid, the provider is registered, and the new attributes contain
  every attribute that the orders of its active leases require; it then changes the provider's record (and the event log) and nothing
  else.  Its leases are those that name it by the very string it is registered under: a provider that registered
  with its address in upper case has none that the check looks at.
\<close>
theorem Msg_UpdateProvider_compatible:
  "Msg_UpdateProvider E parse msg s = Ok () t \<longleftrightarrow> MsgUpdateProvider_ValidateBasic E parse msg = Inr () \<and>
    (\<exists>addr old. FromBech32 E (prov_Owner msg) = Some addr \<and> kv_get (providers s) (providerKey addr) = Some old \<and>
      (\<forall>l\<in>set (WithLeases s). bid_Provider (ls_ID l) = prov_Owner old \<and> ls_State l = LeaseActive \<longrightarrow>
        (\<exists>r. kv_get (orders s) (orderKey (BidID_OrderID (ls_ID l))) = Some r \<and>
          set (req_Attributes (gs_Requirements (ord_Spec r))) \<subseteq> set (prov_Attributes msg))) \<and>
      t = s\<lparr>providers := kv_set (providerKey addr) msg (providers s), events := events s @ [EventProviderUpdated addr]\<rparr>)"
proof -
  have attrs: "Order_MatchAttributes r as \<longleftrightarrow> set (req_Attributes (gs_Requirements (ord_Spec r))) \<subseteq> set as" for r as
    by (simp add: Order_MatchAttributes_def GroupSpec_MatchAttributes_def AttributesSubsetOf_iff)
  show ?thesis
    unfolding Msg_UpdateProvider_def wrap_error_def
    by (cases "MsgUpdateProvider_ValidateBasic E parse msg"; cases "FromBech32 E (prov_Owner msg)")
      (auto simp: bind_Ok_iff Provider_Get_def AccAddressFromBech32_def gets_def found_or_def ret_def throw_def or_throw_def
        attempt_def attrs compatible_Ok Provider_Update_Ok split: option.splits sum.splits outcome.splits)
qed

text \<open>
  Deleting a provider is not possible: the message fails for every address in every state and writes
  nothing.
\<close>
lemma Msg_DeleteProvider_fails: "\<exists>e. Msg_DeleteProvider E a s = Err e s"
  by (cases "FromBech32 E a") (auto simp: Msg_DeleteProvider_def AccAddressFromBech32_def Provider_Get_def act_defs)

subsection \<open>Audited attributes\<close>

lemma kv_has_into: "kv_has (attrs_into as m) k \<longleftrightarrow> kv_has m k \<or> k \<in> attr_Key ` set as"
  unfolding attrs_into_def by (induction as arbitrary: m) (auto simp: kv_has_def)

lemma kv_ok_into: "kv_ok m \<Longrightarrow> kv_ok (attrs_into as m)"
  unfolding attrs_into_def by (induction as arbitrary: m) auto

lemma kv_del_has: "kv_has (kv_del k m) j \<longleftrightarrow> kv_has m j \<and> j \<noteq> k"
  by (simp add: kv_has_def)

lemma delete_keys_all:
  "distinct ks \<Longrightarrow> (\<And>k. kv_has m k \<longleftrightarrow> k \<in> set ks) \<Longrightarrow> \<exists>m'. delete_keys ks m = Inr m' \<and> (\<forall>k. \<not> kv_has m' k)"
proof (induction ks arbitrary: m)
  case (Cons k ks)
  have "kv_has (kv_del k m) j \<longleftrightarrow> j \<in> set ks" for j using Cons.prems by (auto simp: kv_del_has)
  with Cons.IH [of "kv_del k m"] Cons.prems show ?case by simp
qed simp

lemma kv_none: "(\<And>k. \<not> kv_has m k) \<Longrightarrow> m = []"
proof (cases m)
  case (Cons e m')
  assume "\<And>k. \<not> kv_has m k"
  from this [of "fst e"] Cons show ?thesis by (cases e) (simp add: kv_has_def kv_get_def)
qed

lemma kv_del_set: "kv_get m k = None \<Longrightarrow> kv_del k (kv_set k v m) = m"
proof (induction k v m rule: kv_set.induct)
  case (1 k v)
  then show ?case by (simp add: kv_del_def)
next
  case (2 k v k' v' m)
  then have "kv_del k m = m" "k' \<noteq> k" "kv_get m k = None"
    by (auto simp: kv_del_def kv_get_def filter_id_conv split: if_splits) (metis map_of_eq_None_iff image_eqI fst_conv)
  then show ?case using 2 by (auto simp: kv_del_def)
qed

text \<open>
  Deleting what was signed undoes it: when an auditor signs attributes with different keys for a provider
  it has not signed anything for, and then deletes these keys, the audit store is what it was before, and the two events are
  logged.
\<close>
lemma audit_sign_delete:
  assumes "kv_get (audits s) (auditKey i) = None" and "distinct (map attr_Key attrs)"
  shows "\<exists>t. CreateOrUpdateProviderAttributes E i attrs s = Ok () t \<and>
    Audit_DeleteProviderAttributes E i (Some (map attr_Key attrs)) t =
      Ok () (s\<lparr>events := events s @ [EventTrustedAuditorCreated (au_Owner i) (au_Auditor i),
        EventTrustedAuditorDeleted (au_Owner i) (au_Auditor i)]\<rparr>)"
proof -
  let ?p = "\<lparr>ap_Owner = AddrString E (au_Owner i), ap_Auditor = AddrString E (au_Auditor i), ap_Attributes = sort_key attr_Key attrs\<rparr>"
  let ?t = "s\<lparr>audits := kv_set (auditKey i) ?p (audits s), events := events s @ [EventTrustedAuditorCreated (au_Owner i) (au_Auditor i)]\<rparr>"
  have sign: "CreateOrUpdateProviderAttributes E i attrs s = Ok () ?t"
    using assms(1) by (simp add: CreateOrUpdateProviderAttributes_def GetProviderByAuditor_def act_defs emit_def Let_def)
  have "kv_has (attrs_into (sort_key attr_Key attrs) []) k \<longleftrightarrow> k \<in> set (map attr_Key attrs)" for k
    by (simp add: kv_has_into) (simp add: kv_has_def)
  from delete_keys_all [OF assms(2) this] obtain m where
    m: "delete_keys (map attr_Key attrs) (attrs_into (sort_key attr_Key attrs) []) = Inr m" "m = []" using kv_none by blast
  have "Audit_DeleteProviderAttributes E i (Some (map attr_Key attrs)) ?t =
      Ok () (s\<lparr>events := events s @ [EventTrustedAuditorCreated (au_Owner i) (au_Auditor i),
        EventTrustedAuditorDeleted (au_Owner i) (au_Auditor i)]\<rparr>)"
    using m kv_del_set [OF assms(1)]
    by (simp add: Audit_DeleteProviderAttributes_def GetProviderByAuditor_def act_defs emit_def attrs_of_def)
  with sign show ?thesis by blast
qed

text \<open>The chain of the example, with an order that requires the provider's region.\<close>

definition demo_bound :: "(string \<Rightarrow> int) market_state" where
  "demo_bound = history demo_env parse1
     [(1, [MsgCreateProvider demo_provider]),
      (2, [MsgCreateDeployment \<lparr>mcd_ID = demo_did, mcd_Groups = [demo_spec\<lparr>gs_Requirements := \<lparr>SignedBy = \<lparr>AllOf = [], AnyOf = []\<rparr>,
           req_Attributes = [\<lparr>attr_Key = ''region'', attr_Value = ''eu''\<rparr>]\<rparr>\<rparr>],
         mcd_Version = replicate 32 (CHR ''v''), mcd_Deposit = \<lparr>Denom = ''uve'', Amount = 100\<rparr>\<rparr>]),
      (3, [MsgCreateBid demo_bid]), (4, [MsgCreateLease demo_bid_id])] demo_genesis"

theorem Msg_UpdateProvider_compatible_witness:
  "(\<exists>t. Msg_UpdateProvider demo_env parse1 (demo_provider\<lparr>prov_Info := \<lparr>EMail = [], Website = ''https://p''\<rparr>\<rparr>) demo_bound = Ok () t) \<and>
   (\<nexists>t. Msg_UpdateProvider demo_env parse1 (demo_provider\<lparr>prov_Attributes := [\<lparr>attr_Key = ''region'', attr_Value = ''us''\<rparr>]\<rparr>) demo_bound = Ok () t)"
proof -
  have lease: "map (\<lambda>l. (ls_ID l, ls_State l)) (WithLeases demo_bound) = [(demo_bid_id, LeaseActive)]" by code_simp
  have order: "map_option (\<lambda>r. req_Attributes (gs_Requirements (ord_Spec r))) (kv_get (orders demo_bound) (orderKey (BidID_OrderID demo_bid_id))) =
    Some [\<lparr>attr_Key = ''region'', attr_Value = ''eu''\<rparr>]" by code_simp
  have prov: "kv_get (providers demo_bound) ''prova'' = Some demo_provider" by code_simp
  have valid: "MsgUpdateProvider_ValidateBasic demo_env parse1 (demo_provider\<lparr>prov_Info := \<lparr>EMail = [], Website = ''https://p''\<rparr>\<rparr>) = Inr ()" by code_simp
  have lease': "\<exists>l. WithLeases demo_bound = [l] \<and> ls_ID l = demo_bid_id \<and> ls_State l = LeaseActive" using lease by auto
  have addr: "FromBech32 demo_env (prov_Owner demo_provider) = Some ''prova''" "bid_Provider demo_bid_id = prov_Owner demo_provider"
    by (simp_all add: demo_env_def demo_provider_def demo_bid_id_def)
  show ?thesis unfolding Msg_UpdateProvider_compatible
    using lease' order prov valid addr by (auto simp: providerKey_def demo_provider_def)
qed

end
