(* ===== verification/Inventory.thy ===== *)
theory Inventory
  imports Deployment
begin

text \<open>
  The provider's inventory (\<^verbatim>\<open>provider/cluster/inventory.go\<close>, \<^verbatim>\<open>reservation.go\<close> and the
  nodes of \<^verbatim>\<open>client.go\<close>): which of the cluster's capacity is promised to which order.

  The service is one goroutine that takes one request or event at a time; \<open>inventory_step\<close> is what
  it does with one of them, \<open>inventory_enabled\<close> says which of them its \<^verbatim>\<open>select\<close> can take.
  Counts of ports are \<^verbatim>\<open>uint\<close>, 64 bits, and wrap.  A result \<open>None\<close> is a panic.

  \<^verbatim>\<open>ComputeCommittedResources\<close> computes in floating point; it is an argument of
  \<open>committedResources\<close>, one function per kind of unit.  Metrics and logs are left out.
\<close>

subsection \<open>Objects\<close>

record resources =
  rs_Resources :: resource_units
  rs_Count :: "32 word"

text \<open>The interface \<^verbatim>\<open>ResourceGroup\<close>: what its two methods return.\<close>

record resource_group =
  rg_Name :: string
  rg_Resources :: "resources list"

definition GroupSpec_ResourceGroup :: "group_spec \<Rightarrow> resource_group" where
  "GroupSpec_ResourceGroup g = \<lparr>rg_Name = gs_Name g,
     rg_Resources = map (\<lambda>r. \<lparr>rs_Resources = res_Resources r, rs_Count = res_Count r\<rparr>) (gs_Resources g)\<rparr>"

record node =
  node_ID :: string
  node_Allocateable :: resource_units
  node_Available :: resource_units

definition NewNode :: "string \<Rightarrow> resource_units \<Rightarrow> resource_units \<Rightarrow> node" where
  "NewNode i allocateable available = \<lparr>node_ID = i, node_Allocateable = allocateable, node_Available = available\<rparr>"

record reservation =
  rsv_order :: order_id
  rsv_resources :: resource_group
  rsv_allocated :: bool

definition newReservation :: "order_id \<Rightarrow> resource_group \<Rightarrow> reservation" where
  "newReservation order resources = \<lparr>rsv_order = order, rsv_resources = resources, rsv_allocated = False\<rparr>"

record commit_levels =
  commitCPU :: "resource_value \<Rightarrow> resource_value"
  commitMemory :: "resource_value \<Rightarrow> resource_value"
  commitStorage :: "resource_value \<Rightarrow> resource_value"

record inventory_config =
  InventoryResourceDebugFrequency :: "64 word"
  InventoryExternalPortQuantity :: "64 word"
  commitLevels :: commit_levels

subsection \<open>Fitting a reservation into the nodes\<close>

text \<open>The loop that counts a resource down while another instance fits: what is left of the node and
  how many instances are left over.\<close>

fun place_instances :: "'b env \<Rightarrow> resource_units \<Rightarrow> resource_units \<Rightarrow> nat \<Rightarrow> (resource_units \<times> nat) option" where
  "place_instances E available u 0 = Some (available, 0)"
| "place_instances E available u (Suc n) =
     (case ResourceUnits_Sub E available u of
        None \<Rightarrow> None
      | Some (Inl _) \<Rightarrow> Some (available, Suc n)
      | Some (Inr remaining) \<Rightarrow> place_instances E remaining u n)"

primrec place_resources :: "'b env \<Rightarrow> resource_units \<Rightarrow> resources list \<Rightarrow> (resource_units \<times> resources list) option" where
  "place_resources E available [] = Some (available, [])"
| "place_resources E available (r # rs) = do {
     (available, count) \<leftarrow> place_instances E available (rs_Resources r) (unat (rs_Count r));
     (available, cur) \<leftarrow> place_resources E available rs;
     Some (available, if count > 0 then r\<lparr>rs_Count := of_nat count\<rparr> # cur else cur) }"

primrec adjust_nodes :: "'b env \<Rightarrow> node list \<Rightarrow> resources list \<Rightarrow> (node list \<times> resources list) option" where
  "adjust_nodes E [] rs = Some ([], rs)"
| "adjust_nodes E (n # ns) rs = do {
     (available, cur) \<leftarrow> place_resources E (node_Available n) rs;
     (ns', rest) \<leftarrow> adjust_nodes E ns cur;
     Some (NewNode (node_ID n) (node_Allocateable n) available # ns', rest) }"

definition reservationCountEndpoints :: "reservation \<Rightarrow> 64 word" where
  "reservationCountEndpoints r =
     sum_list (map (\<lambda>x. of_nat (length (Endpoints (rs_Resources x)))) (rg_Resources (rsv_resources r)))"

definition reservationAdjustInventory ::
  "'b env \<Rightarrow> node list \<Rightarrow> 64 word \<Rightarrow> reservation \<Rightarrow> (node list \<times> 64 word \<times> bool) option" where
  "reservationAdjustInventory E prevInventory externalPortsAvailable r =
     (let externalPortCount = reservationCountEndpoints r in
      if externalPortsAvailable < externalPortCount then Some ([], 0, False) else do {
        (inventory, rest) \<leftarrow> adjust_nodes E prevInventory (rg_Resources (rsv_resources r));
        Some (inventory, externalPortsAvailable - externalPortCount, rest = []) })"

primrec reservationAllocateable ::
  "'b env \<Rightarrow> node list \<Rightarrow> 64 word \<Rightarrow> reservation list \<Rightarrow> reservation \<Rightarrow> bool option" where
  "reservationAllocateable E inventory ports [] new = do {
     (_, _, ok) \<leftarrow> reservationAdjustInventory E inventory ports new;
     Some ok }"
| "reservationAllocateable E inventory ports (r # rs) new =
     (if rsv_allocated r then reservationAllocateable E inventory ports rs new else do {
        (inventory, ports, ok) \<leftarrow> reservationAdjustInventory E inventory ports r;
        if ok then reservationAllocateable E inventory ports rs new else Some False })"

subsection \<open>The service\<close>

text \<open>A group whose units are not all there does not come from a validated deployment: the code would
  store a value without an integer for the missing unit, on which every later operation panics; the
  model panics at once.\<close>

definition committedResources :: "commit_levels \<Rightarrow> resource_group \<Rightarrow> resource_group option" where
  "committedResources C rgroup =
     (let commit = (\<lambda>r. do {
        c \<leftarrow> CPU (rs_Resources r); m \<leftarrow> Memory (rs_Resources r); s \<leftarrow> Storage (rs_Resources r);
        Some (r\<lparr>rs_Resources := \<lparr>
          CPU = Some \<lparr>cpu_Units = commitCPU C (cpu_Units c), cpu_Attributes = cpu_Attributes c\<rparr>,
          Memory = Some \<lparr>mem_Quantity = commitMemory C (mem_Quantity m), mem_Attributes = mem_Attributes m\<rparr>,
          Storage = Some \<lparr>sto_Quantity = commitStorage C (sto_Quantity s), sto_Attributes = sto_Attributes s\<rparr>,
          Endpoints = Endpoints (rs_Resources r)\<rparr>\<rparr>) })
      in map_option (\<lambda>rs. rgroup\<lparr>rg_Resources := rs\<rparr>) (opt_map commit (rg_Resources rgroup)))"

text \<open>
  \<^verbatim>\<open>getStatus\<close> adds up the units of a reservation with \<^verbatim>\<open>total.Add\<close>.  The first resource's
  units become the total's units by pointer, and later additions change them in place: the reservation
  itself is changed.  \<open>status_total E acc rs\<close> gives the resources as they are afterwards, the total
  as it is afterwards, and the sum or the error; a unit of a resource that the total took over ends as
  the total's.
\<close>

definition taken_over :: "'u option \<Rightarrow> 'u option \<Rightarrow> 'u option \<Rightarrow> 'u option" where
  "taken_over before final own = (case before of Some _ \<Rightarrow> own
     | None \<Rightarrow> (case own of None \<Rightarrow> None | Some u \<Rightarrow> (case final of None \<Rightarrow> Some u | Some v \<Rightarrow> Some v)))"

primrec status_total ::
  "'b env \<Rightarrow> resource_units \<Rightarrow> resources list \<Rightarrow> (resources list \<times> resource_units \<times> (error + resource_units)) option" where
  "status_total E acc [] = Some ([], acc, Inr acc)"
| "status_total E acc (r # rs) = do {
     (acc', res) \<leftarrow> ResourceUnits_Add E acc (rs_Resources r);
     case res of
       Inl e \<Rightarrow> Some (r # rs, acc', Inl e)
     | Inr res_sum \<Rightarrow> do {
         (rs', final, out) \<leftarrow> status_total E res_sum rs;
         let u = rs_Resources r in
         Some (r\<lparr>rs_Resources := u\<lparr>
             CPU := taken_over (CPU acc) (CPU final) (CPU u),
             Memory := taken_over (Memory acc) (Memory final) (Memory u),
             Storage := taken_over (Storage acc) (Storage final) (Storage u)\<rparr>\<rparr> # rs', final, out) } }"

record inventory_status =
  stat_Active :: "resource_units list"
  stat_Pending :: "resource_units list"
  stat_Available :: "resource_units list"
  stat_Error :: "error option"

definition no_units :: resource_units where
  "no_units = \<lparr>CPU = None, Memory = None, Storage = None, Endpoints = []\<rparr>"

text \<open>The loop over the reservations: it stops at the first error.\<close>

primrec status_loop ::
  "'b env \<Rightarrow> reservation list \<Rightarrow> inventory_status \<Rightarrow> (reservation list \<times> inventory_status) option" where
  "status_loop E [] st = Some ([], st)"
| "status_loop E (r # rs) st = do {
     (res, _, out) \<leftarrow> status_total E no_units (rg_Resources (rsv_resources r));
     let r' = r\<lparr>rsv_resources := (rsv_resources r)\<lparr>rg_Resources := res\<rparr>\<rparr> in
     case out of
       Inl e \<Rightarrow> Some (r' # rs, st\<lparr>stat_Error := Some e\<rparr>)
     | Inr acc \<Rightarrow> do {
         (rs', st) \<leftarrow> status_loop E rs
           (if rsv_allocated r then st\<lparr>stat_Active := stat_Active st @ [acc]\<rparr>
            else st\<lparr>stat_Pending := stat_Pending st @ [acc]\<rparr>);
         Some (r' # rs', st) } }"

definition getStatus ::
  "'b env \<Rightarrow> node list \<Rightarrow> reservation list \<Rightarrow> (reservation list \<times> inventory_status) option" where
  "getStatus E inventory rs = do {
     (rs, st) \<leftarrow> status_loop E rs \<lparr>stat_Active = [], stat_Pending = [], stat_Available = [], stat_Error = None\<rparr>;
     Some (rs, if stat_Error st = None then st\<lparr>stat_Available := map node_Available inventory\<rparr> else st) }"

text \<open>\<open>iv_reserving\<close>: \<^verbatim>\<open>reserveChLocal\<close> is set; \<open>iv_checking\<close>: \<^verbatim>\<open>runch\<close> is set, an
  inventory check is under way; \<open>iv_timer\<close>: the timer for the next check is armed.\<close>

record inventory_service =
  iv_inventory :: "node list"
  iv_reservations :: "reservation list"
  iv_ports :: "64 word"
  iv_reserving :: bool
  iv_checking :: bool
  iv_timer :: bool
  iv_ready :: bool
  iv_fetchCount :: "64 word"

datatype cluster_status = ClusterDeploymentPending | ClusterDeploymentDeployed

datatype inventory_input =
    ClusterDeployment lease_id string cluster_status
  | OtherEvent
  | Reserve order_id resource_group
  | Lookup order_id string
  | Unreserve order_id
  | Status
  | TimerFired
  | CheckDone "error + node list"

datatype inventory_output = Reservation reservation | Failed error | StatusIs inventory_status | Silent

definition newInventoryService :: "inventory_config \<Rightarrow> (lease_id \<times> resource_group) list \<Rightarrow> inventory_service" where
  "newInventoryService C ds = \<lparr>iv_inventory = [],
     iv_reservations = map (\<lambda>(l, g). newReservation (BidID_OrderID l) g) ds,
     iv_ports = InventoryExternalPortQuantity C, iv_reserving = False, iv_checking = True, iv_timer = False,
     iv_ready = False, iv_fetchCount = 0\<rparr>"

definition inventory_enabled :: "inventory_input \<Rightarrow> inventory_service \<Rightarrow> bool" where
  "inventory_enabled i s = (case i of
     Reserve _ _ \<Rightarrow> iv_reserving s | TimerFired \<Rightarrow> iv_timer s | CheckDone _ \<Rightarrow> iv_checking s | _ \<Rightarrow> True)"

text \<open>The first reservation of the lease's order and group is marked; the ports follow when the mark
  changes.\<close>

definition stopProcessingReservations :: "inventory_service \<Rightarrow> inventory_service" where
  "stopProcessingReservations s = s\<lparr>iv_reserving := False, iv_checking := True\<rparr>"

primrec mark_allocated ::
  "order_id \<Rightarrow> string \<Rightarrow> cluster_status \<Rightarrow> reservation list \<Rightarrow> 64 word \<Rightarrow> (reservation list \<times> 64 word) option" where
  "mark_allocated oid name status [] ports = None"
| "mark_allocated oid name status (res # rs) ports =
     (if \<not> OrderID_Equals (rsv_order res) oid \<or> rg_Name (rsv_resources res) \<noteq> name
      then map_option (\<lambda>(rs', ports'). (res # rs', ports')) (mark_allocated oid name status rs ports)
      else
        let res' = res\<lparr>rsv_allocated := (status = ClusterDeploymentDeployed)\<rparr> in
        Some (res' # rs,
          if rsv_allocated res' \<noteq> rsv_allocated res then
            (if status = ClusterDeploymentDeployed then ports - reservationCountEndpoints res
             else ports + reservationCountEndpoints res)
          else ports))"

primrec lookup_reservation :: "order_id \<Rightarrow> string \<Rightarrow> reservation list \<Rightarrow> reservation option" where
  "lookup_reservation oid name [] = None"
| "lookup_reservation oid name (res # rs) =
     (if \<not> OrderID_Equals (rsv_order res) oid \<or> rg_Name (rsv_resources res) \<noteq> name
      then lookup_reservation oid name rs else Some res)"

primrec remove_reservation :: "order_id \<Rightarrow> reservation list \<Rightarrow> (reservation \<times> reservation list) option" where
  "remove_reservation oid [] = None"
| "remove_reservation oid (res # rs) =
     (if \<not> OrderID_Equals (rsv_order res) oid
      then map_option (\<lambda>(r, rs'). (r, res # rs')) (remove_reservation oid rs)
      else Some (res, rs))"

definition inventory_step ::
  "'b env \<Rightarrow> inventory_config \<Rightarrow> inventory_input \<Rightarrow> inventory_service \<Rightarrow> (inventory_output \<times> inventory_service) option" where
  "inventory_step E C i s = (case i of
     OtherEvent \<Rightarrow> Some (Silent, s)
   | ClusterDeployment lid name status \<Rightarrow>
       (case mark_allocated (BidID_OrderID lid) name status (iv_reservations s) (iv_ports s) of
          None \<Rightarrow> Some (Silent, s)
        | Some (rs, ports) \<Rightarrow>
            Some (Silent, (stopProcessingReservations s)\<lparr>iv_reservations := rs, iv_ports := ports\<rparr>))
   | Reserve order resources \<Rightarrow> do {
       resourcesToCommit \<leftarrow> committedResources (commitLevels C) resources;
       let new = newReservation order resourcesToCommit in do {
       ok \<leftarrow> reservationAllocateable E (iv_inventory s) (iv_ports s) (iv_reservations s) new;
       Some (if ok then (Reservation new, s\<lparr>iv_reservations := iv_reservations s @ [new]\<rparr>)
             else (Failed (Errorf ''insufficient capacity''), s)) } }
   | Lookup order name \<Rightarrow>
       Some (case lookup_reservation order name (iv_reservations s) of
           Some res \<Rightarrow> Reservation res | None \<Rightarrow> Failed (Errorf ''reservation not found''), s)
   | Unreserve order \<Rightarrow>
       Some (case remove_reservation order (iv_reservations s) of
           None \<Rightarrow> (Failed (Errorf ''reservation not found''), s)
         | Some (res, rs) \<Rightarrow> (Reservation res, s\<lparr>iv_reservations := rs,
             iv_ports := (if rsv_allocated res then iv_ports s + reservationCountEndpoints res else iv_ports s)\<rparr>))
   | Status \<Rightarrow> do {
       (rs, st) \<leftarrow> getStatus E (iv_inventory s) (iv_reservations s);
       Some (StatusIs st, s\<lparr>iv_reservations := rs\<rparr>) }
   | TimerFired \<Rightarrow> Some (Silent, s\<lparr>iv_timer := False, iv_checking := True\<rparr>)
   | CheckDone r \<Rightarrow>
       let s = s\<lparr>iv_checking := False, iv_timer := True\<rparr> in
       (case r of
          Inl _ \<Rightarrow> Some (Silent, s)
        | Inr inventory \<Rightarrow>
            if InventoryResourceDebugFrequency C = 0 then None else
            Some (Silent, s\<lparr>iv_ready := True, iv_inventory := inventory, iv_fetchCount := iv_fetchCount s + 1,
              iv_reserving := True\<rparr>)))"

inductive inventory_reachable :: "'b env \<Rightarrow> inventory_config \<Rightarrow> (lease_id \<times> resource_group) list \<Rightarrow> inventory_service \<Rightarrow> bool"
  for E C ds where
  start: "inventory_reachable E C ds (newInventoryService C ds)"
| step: "inventory_reachable E C ds s \<Longrightarrow> inventory_enabled i s \<Longrightarrow> inventory_step E C i s = Some (out, s') \<Longrightarrow>
    inventory_reachable E C ds s'"

end
