(* ===== verification/Inventory_Properties.thy ===== *)
theory Inventory_Properties
  imports Inventory Chain_Example
begin

text \<open>
  The inventory does not promise more than there is: an accepted reservation fits, with all pending
  ones, into what the nodes have available; and external ports are accounted for exactly.
\<close>

subsection \<open>Amounts\<close>

text \<open>The three amounts of a set of units, and sets of units that have all three.\<close>

definition complete :: "resource_units \<Rightarrow> bool" where
  "complete u \<longleftrightarrow> CPU u \<noteq> None \<and> Memory u \<noteq> None \<and> Storage u \<noteq> None"

definition cpu_amount :: "resource_units \<Rightarrow> int" where
  "cpu_amount u = (case CPU u of None \<Rightarrow> 0 | Some c \<Rightarrow> Val (cpu_Units c))"

definition memory_amount :: "resource_units \<Rightarrow> int" where
  "memory_amount u = (case Memory u of None \<Rightarrow> 0 | Some m \<Rightarrow> Val (mem_Quantity m))"

definition storage_amount :: "resource_units \<Rightarrow> int" where
  "storage_amount u = (case Storage u of None \<Rightarrow> 0 | Some s \<Rightarrow> Val (sto_Quantity s))"

text \<open>What a list of resources, a reservation and the reservations not yet allocated ask for, of one
  amount, and what the nodes have available.\<close>

definition demand :: "(resource_units \<Rightarrow> int) \<Rightarrow> resources list \<Rightarrow> int" where
  "demand am rs = (\<Sum>r\<leftarrow>rs. int (unat (rs_Count r)) * am (rs_Resources r))"

definition group_demand :: "(resource_units \<Rightarrow> int) \<Rightarrow> reservation \<Rightarrow> int" where
  "group_demand am r = demand am (rg_Resources (rsv_resources r))"

definition pending_demand :: "(resource_units \<Rightarrow> int) \<Rightarrow> reservation list \<Rightarrow> int" where
  "pending_demand am rs = (\<Sum>r\<leftarrow>filter (\<lambda>r. \<not> rsv_allocated r) rs. group_demand am r)"

definition available :: "(resource_units \<Rightarrow> int) \<Rightarrow> node list \<Rightarrow> int" where
  "available am ns = (\<Sum>n\<leftarrow>ns. am (node_Available n))"

definition complete_group :: "resource_group \<Rightarrow> bool" where
  "complete_group g \<longleftrightarrow> list_all (\<lambda>r. complete (rs_Resources r)) (rg_Resources g)"

definition sound_node :: "node \<Rightarrow> bool" where
  "sound_node n \<longleftrightarrow> complete (node_Available n) \<and> 0 \<le> cpu_amount (node_Available n) \<and>
     0 \<le> memory_amount (node_Available n) \<and> 0 \<le> storage_amount (node_Available n)"

text \<open>\<open>amount\<close> is the contract the accounting needs of an amount: it is exact under subtraction,
  which leaves nothing negative.\<close>

locale amount =
  fixes E :: "'b env" and am :: "resource_units \<Rightarrow> int"
  assumes sub: "complete a \<Longrightarrow> complete u \<Longrightarrow> ResourceUnits_Sub E a u = Some (Inr r) \<Longrightarrow>
    complete r \<and> am r = am a - am u \<and> 0 \<le> am r"
begin

lemma place_instances:
  "place_instances E a u n = Some (a', k) \<Longrightarrow> complete a \<Longrightarrow> complete u \<Longrightarrow> 0 \<le> am a \<Longrightarrow>
   k \<le> n \<and> complete a' \<and> am a' = am a - int (n - k) * am u \<and> 0 \<le> am a'"
proof (induction n arbitrary: a)
  case (Suc n)
  show ?case
  proof (cases "ResourceUnits_Sub E a u")
    case None
    then show ?thesis using Suc.prems by simp
  next
    case (Some r)
    show ?thesis
    proof (cases r)
      case (Inl e)
      then show ?thesis using Suc.prems Some by auto
    next
      case (Inr rem)
      note rem = sub [OF Suc.prems(2,3) Some [unfolded Inr]]
      from Suc.IH [of rem] Suc.prems Some Inr rem
      have IH: "k \<le> n" "complete a'" "am a' = am rem - int (n - k) * am u" "0 \<le> am a'" by auto
      then have "int (Suc n - k) * am u = am u + int (n - k) * am u" by (simp add: Suc_diff_le algebra_simps)
      with IH rem show ?thesis by simp
    qed
  qed
qed auto

lemma place_resources:
  assumes "list_all (\<lambda>r. complete (rs_Resources r)) rs"
  shows "place_resources E a rs = Some (a', cur) \<Longrightarrow> complete a \<Longrightarrow> 0 \<le> am a \<Longrightarrow>
   complete a' \<and> 0 \<le> am a' \<and> am a' = am a - (demand am rs - demand am cur) \<and> list_all (\<lambda>r. complete (rs_Resources r)) cur"
  using assms
proof (induction rs arbitrary: a a' cur)
  case Nil
  then show ?case by (simp add: demand_def)
next
  case (Cons r rs)
  from Cons.prems(1) obtain b k cur' where b: "place_instances E a (rs_Resources r) (unat (rs_Count r)) = Some (b, k)"
      and cur': "place_resources E b rs = Some (a', cur')"
      and cur: "cur = (if k > 0 then r\<lparr>rs_Count := of_nat k\<rparr> # cur' else cur')"
    by (auto simp: bind_eq_Some_conv split: if_splits)
  note P = place_instances [OF b] and IH = Cons.IH [OF cur']
  have k: "k \<le> unat (rs_Count r)" using P Cons.prems by simp
  then have "uint (of_nat k :: 32 word) = int k"
    using unsigned_less [of "rs_Count r", where ?'a = nat] by (simp add: of_nat_take_bit [symmetric] take_bit_nat_eq_self unsigned_of_nat)
  moreover have "int (unat (rs_Count r) - k) * x = int (unat (rs_Count r)) * x - int k * x" for x
    using k by (simp add: of_nat_diff left_diff_distrib)
  ultimately show ?case
    using P IH Cons.prems cur by (auto simp: demand_def split: if_splits)
qed

lemma adjust_nodes:
  assumes "list_all (\<lambda>n. complete (node_Available n) \<and> 0 \<le> am (node_Available n)) ns"
  shows "adjust_nodes E ns rs = Some (ns', rest) \<Longrightarrow> list_all (\<lambda>r. complete (rs_Resources r)) rs \<Longrightarrow>
    list_all (\<lambda>n. complete (node_Available n) \<and> 0 \<le> am (node_Available n)) ns' \<and>
    available am ns' = available am ns - (demand am rs - demand am rest)"
  using assms
proof (induction ns arbitrary: rs ns' rest)
  case Nil
  then show ?case by simp
next
  case (Cons n ns)
  from Cons.prems(1) obtain a cur ms where a: "place_resources E (node_Available n) rs = Some (a, cur)"
      and ms: "adjust_nodes E ns cur = Some (ms, rest)" and ns': "ns' = NewNode (node_ID n) (node_Allocateable n) a # ms"
    by (auto simp: bind_eq_Some_conv)
  show ?case
    using place_resources [OF Cons.prems(2) a] Cons.IH [OF ms] Cons.prems(3) ns' by (simp add: NewNode_def available_def)
qed

lemma allocateable:
  assumes "list_all (\<lambda>n. complete (node_Available n) \<and> 0 \<le> am (node_Available n)) ns"
    and "list_all (\<lambda>r. complete_group (rsv_resources r)) (new # rs)"
  shows "reservationAllocateable E ns ports rs new = Some True \<Longrightarrow>
    pending_demand am rs + group_demand am new \<le> available am ns"
  using assms
proof (induction rs arbitrary: ns ports)
  case Nil
  then obtain ns' where ns': "adjust_nodes E ns (rg_Resources (rsv_resources new)) = Some (ns', [])"
    by (auto simp: reservationAdjustInventory_def Let_def bind_eq_Some_conv split: if_splits)
  from adjust_nodes [OF Nil.prems(2) ns'] Nil.prems(3)
  have "list_all (\<lambda>n. 0 \<le> am (node_Available n)) ns'"
    "available am ns' = available am ns - group_demand am new"
    by (auto simp: demand_def group_demand_def complete_group_def list_all_iff)
  moreover from this(1) have "0 \<le> available am ns'"
    by (induction ns') (auto simp: available_def)
  ultimately show ?case by (simp add: pending_demand_def)
next
  case (Cons r rs)
  show ?case
  proof (cases "rsv_allocated r")
    case True
    then show ?thesis using Cons by (simp add: pending_demand_def)
  next
    case False
    with Cons.prems(1) obtain ns' ports' where ns': "adjust_nodes E ns (rg_Resources (rsv_resources r)) = Some (ns', [])"
        and rest: "reservationAllocateable E ns' ports' rs new = Some True"
      by (auto simp: reservationAdjustInventory_def Let_def bind_eq_Some_conv split: if_splits)
    from adjust_nodes [OF Cons.prems(2) ns'] Cons.prems(3)
    have "list_all (\<lambda>n. complete (node_Available n) \<and> 0 \<le> am (node_Available n)) ns'"
      "available am ns' = available am ns - group_demand am r"
      by (auto simp: demand_def group_demand_def complete_group_def)
    with Cons.IH [OF rest] Cons.prems(3) False show ?thesis by (simp add: pending_demand_def)
  qed
qed

end

lemma Sub_parts:
  assumes "complete a" "complete u" "ResourceUnits_Sub E a u = Some (Inr r)"
  shows "complete r" "cpu_amount r = cpu_amount a - cpu_amount u" "memory_amount r = memory_amount a - memory_amount u"
    "storage_amount r = storage_amount a - storage_amount u" "0 \<le> cpu_amount r" "0 \<le> memory_amount r" "0 \<le> storage_amount r"
  using assms
  by (auto simp: ResourceUnits_Sub_def complete_def cpu_amount_def memory_amount_def storage_amount_def CPU_sub_def Memory_sub_def
    Storage_sub_def ResourceValue_sub_def int_chk_def bind_eq_Some_conv split: if_splits sum.splits)

interpretation cpus: amount E cpu_amount for E by unfold_locales (auto dest: Sub_parts)
interpretation memories: amount E memory_amount for E by unfold_locales (auto dest: Sub_parts)
interpretation storages: amount E storage_amount for E by unfold_locales (auto dest: Sub_parts)

subsection \<open>Completeness is kept\<close>

definition complete_service :: "inventory_service \<Rightarrow> bool" where
  "complete_service s \<longleftrightarrow> list_all (\<lambda>r. complete_group (rsv_resources r)) (iv_reservations s)"

lemma opt_map_all: "opt_map f xs = Some ys \<Longrightarrow> (\<And>x y. f x = Some y \<Longrightarrow> P y) \<Longrightarrow> list_all P ys"
  by (induction xs arbitrary: ys) (auto simp: bind_eq_Some_conv split: option.splits)

lemma committed_complete: "committedResources C g = Some g' \<Longrightarrow> complete_group g'"
  by (auto simp: committedResources_def complete_group_def complete_def bind_eq_Some_conv elim!: opt_map_all)

text \<open>What \<^verbatim>\<open>getStatus\<close> leaves of a reservation: everything but the values of its units.\<close>

definition shape :: "resources \<Rightarrow> 32 word \<times> endpoint list \<times> bool" where
  "shape r = (rs_Count r, Endpoints (rs_Resources r), complete (rs_Resources r))"

lemma taken_over_None [simp]: "taken_over b f own = None \<longleftrightarrow> own = None"
  by (simp add: taken_over_def split: option.splits)

lemma status_total_shape: "status_total E acc rs = Some (rs', final, out) \<Longrightarrow> map shape rs' = map shape rs"
proof (induction rs arbitrary: acc rs')
  case (Cons r rs)
  then obtain acc' res where A: "ResourceUnits_Add E acc (rs_Resources r) = Some (acc', res)"
    by (auto simp: bind_eq_Some_conv)
  show ?case
  proof (cases res)
    case (Inl e)
    with A Cons.prems show ?thesis by simp
  next
    case (Inr u)
    with A Cons.prems obtain rs1 where "status_total E u rs = Some (rs1, final, out)"
        and "\<exists>c m st. rs' = r\<lparr>rs_Resources := (rs_Resources r)\<lparr>CPU := taken_over (CPU acc) c (CPU (rs_Resources r)),
          Memory := taken_over (Memory acc) m (Memory (rs_Resources r)),
          Storage := taken_over (Storage acc) st (Storage (rs_Resources r))\<rparr>\<rparr> # rs1"
      by (auto simp: bind_eq_Some_conv Let_def)
    with Cons.IH [of u rs1] show ?thesis by (auto simp: shape_def complete_def simp del: not_None_eq)
  qed
qed simp

definition rshape :: "reservation \<Rightarrow> bool \<times> (32 word \<times> endpoint list \<times> bool) list" where
  "rshape r = (rsv_allocated r, map shape (rg_Resources (rsv_resources r)))"

lemma status_loop_shape: "status_loop E rs st = Some (rs', st') \<Longrightarrow> map rshape rs' = map rshape rs"
proof (induction rs arbitrary: st rs')
  case (Cons r rs)
  then obtain res f out where A: "status_total E no_units (rg_Resources (rsv_resources r)) = Some (res, f, out)"
    by (auto simp: bind_eq_Some_conv)
  show ?case
    using Cons.prems A status_total_shape [OF A] Cons.IH
    by (cases out) (auto simp: bind_eq_Some_conv Let_def rshape_def)
qed simp

lemma getStatus_shape: "getStatus E ns rs = Some (rs', st) \<Longrightarrow> map rshape rs' = map rshape rs"
  by (auto simp: getStatus_def bind_eq_Some_conv dest: status_loop_shape)

lemma complete_group_shape: "complete_group (rsv_resources r) \<longleftrightarrow> list_all (\<lambda>(_, _, c). c) (snd (rshape r))"
  by (simp add: complete_group_def rshape_def shape_def list.pred_map comp_def)

lemma endpoints_shape:
  "reservationCountEndpoints r = sum_list (map (\<lambda>(_, es, _). of_nat (length es)) (snd (rshape r)))"
  by (simp add: reservationCountEndpoints_def rshape_def shape_def comp_def)

lemma remove_reservation_append:
  "remove_reservation oid rs = Some (r, rs') \<Longrightarrow> \<exists>xs ys. rs = xs @ r # ys \<and> rs' = xs @ ys"
proof (induction rs arbitrary: rs')
  case (Cons a rs)
  then show ?case
    by (auto split: if_splits) (metis append_Cons append_Nil)+
qed simp

lemma mark_allocated_append:
  "mark_allocated oid name st rs ports = Some (rs', ports') \<Longrightarrow> \<exists>xs r ys. rs = xs @ r # ys \<and>
     rs' = xs @ r\<lparr>rsv_allocated := (st = ClusterDeploymentDeployed)\<rparr> # ys \<and>
     ports' = (if (st = ClusterDeploymentDeployed) \<noteq> rsv_allocated r then
       (if st = ClusterDeploymentDeployed then ports - reservationCountEndpoints r
        else ports + reservationCountEndpoints r) else ports)"
proof (induction rs arbitrary: rs')
  case (Cons a rs)
  show ?case
  proof (cases "\<not> OrderID_Equals (rsv_order a) oid \<or> rg_Name (rsv_resources a) \<noteq> name")
    case True
    with Cons.prems obtain rs'' where "mark_allocated oid name st rs ports = Some (rs'', ports')" "rs' = a # rs''"
      by auto
    with Cons.IH show ?thesis by (metis append_Cons)
  next
    case False
    with Cons.prems show ?thesis by (intro exI [of _ "[]"] exI [of _ a] exI [of _ rs]) (auto simp: Let_def)
  qed
qed simp

lemma complete_map:
  "list_all (\<lambda>r. complete_group (rsv_resources r)) rs \<longleftrightarrow>
   list_all (\<lambda>x. list_all (\<lambda>(_, _, c). c) (snd x)) (map rshape rs)"
  by (simp add: complete_group_shape list.pred_map comp_def)

text \<open>What a step can do to the reservations and the ports.\<close>

lemma inventory_step_cases:
  assumes "inventory_step E C i s = Some (out, s')"
  obtains (same) "map rshape (iv_reservations s') = map rshape (iv_reservations s)" "iv_ports s' = iv_ports s"
  | (mark) xs r ys b where "iv_reservations s = xs @ r # ys" "iv_reservations s' = xs @ r\<lparr>rsv_allocated := b\<rparr> # ys"
      "iv_ports s' = (if b = rsv_allocated r then iv_ports s
         else if b then iv_ports s - reservationCountEndpoints r else iv_ports s + reservationCountEndpoints r)"
  | (add) new where "iv_reservations s' = iv_reservations s @ [new]" "iv_ports s' = iv_ports s" "\<not> rsv_allocated new"
      "complete_group (rsv_resources new)"
      "reservationAllocateable E (iv_inventory s) (iv_ports s) (iv_reservations s) new = Some True"
  | (drop) xs r ys where "iv_reservations s = xs @ r # ys" "iv_reservations s' = xs @ ys"
      "iv_ports s' = (if rsv_allocated r then iv_ports s + reservationCountEndpoints r else iv_ports s)"
proof (cases i)
  case (ClusterDeployment l name st)
  show ?thesis
  proof (cases "mark_allocated (BidID_OrderID l) name st (iv_reservations s) (iv_ports s)")
    case None
    with ClusterDeployment assms show ?thesis by (intro same) (auto simp: inventory_step_def)
  next
    case (Some x)
    then obtain rs ports where x: "x = (rs, ports)" by force
    with mark_allocated_append [of _ _ _ _ _ rs ports] Some obtain xs r ys where
        "iv_reservations s = xs @ r # ys" "rs = xs @ r\<lparr>rsv_allocated := (st = ClusterDeploymentDeployed)\<rparr> # ys"
        "ports = (if (st = ClusterDeploymentDeployed) \<noteq> rsv_allocated r then
          (if st = ClusterDeploymentDeployed then iv_ports s - reservationCountEndpoints r
           else iv_ports s + reservationCountEndpoints r) else iv_ports s)" by blast
    with ClusterDeployment assms Some x show ?thesis
      by (intro mark [of xs r ys "st = ClusterDeploymentDeployed"])
        (auto simp: inventory_step_def stopProcessingReservations_def)
  qed
next
  case (Reserve order g)
  with assms obtain g' ok where "committedResources (commitLevels C) g = Some g'"
      "reservationAllocateable E (iv_inventory s) (iv_ports s) (iv_reservations s) (newReservation order g') = Some ok"
      "s' = (if ok then s\<lparr>iv_reservations := iv_reservations s @ [newReservation order g']\<rparr> else s)"
    by (auto simp: inventory_step_def bind_eq_Some_conv Let_def split: if_splits)
  then show ?thesis
    using same add [of "newReservation order g'"] committed_complete by (cases ok) (auto simp: newReservation_def)
next
  case (Unreserve order)
  with assms show ?thesis
    using same drop by (auto simp: inventory_step_def split: option.splits dest!: remove_reservation_append)
next
  case Status
  with assms show ?thesis
    by (intro same) (auto simp: inventory_step_def bind_eq_Some_conv dest: getStatus_shape)
qed (use assms same in \<open>auto simp: inventory_step_def Let_def split: option.splits sum.splits if_splits\<close>)

lemma complete_step:
  assumes "inventory_step E C i s = Some (out, s')" "complete_service s"
  shows "complete_service s'"
  using assms(1)
proof (cases rule: inventory_step_cases)
  case same
  with assms(2) show ?thesis by (simp add: complete_service_def complete_map)
qed (use assms(2) in \<open>auto simp: complete_service_def\<close>)

lemma complete_reachable:
  assumes "inventory_reachable E C ds s" "list_all (\<lambda>d. complete_group (snd d)) ds"
  shows "complete_service s"
  using assms
proof (induction rule: inventory_reachable.induct)
  case start
  then show ?case
    by (auto simp: complete_service_def newInventoryService_def newReservation_def list_all_iff)
qed (rule complete_step)

subsection \<open>Capacity\<close>

lemma reserved_fits:
  assumes "reservationAllocateable E ns ports rs new = Some True"
    and "list_all sound_node ns" "list_all (\<lambda>r. complete_group (rsv_resources r)) (new # rs)"
    and "am \<in> {cpu_amount, memory_amount, storage_amount}"
  shows "pending_demand am rs + group_demand am new \<le> available am ns"
  using assms(2,4) cpus.allocateable [OF _ assms(3,1)] memories.allocateable [OF _ assms(3,1)]
    storages.allocateable [OF _ assms(3,1)]
  by (auto simp: list_all_iff sound_node_def)

text \<open>
  C16. The provider does not promise capacity it does not have.  When the inventory service, in any state it can
  reach, accepts a reservation, then what this reservation asks for (the committed amounts, times the
  count) and what all reservations not yet allocated ask for is together at most what the nodes of the
  last inventory check have available, in processor units, in memory and in storage.
\<close>
theorem reserve_within_capacity:
  assumes "inventory_reachable E C ds s" and "list_all (\<lambda>d. complete_group (snd d)) ds"
    and "list_all sound_node (iv_inventory s)"
    and "inventory_step E C (Reserve order g) s = Some (Reservation r, s')"
  shows "pending_demand cpu_amount (iv_reservations s') \<le> available cpu_amount (iv_inventory s') \<and>
    pending_demand memory_amount (iv_reservations s') \<le> available memory_amount (iv_inventory s') \<and>
    pending_demand storage_amount (iv_reservations s') \<le> available storage_amount (iv_inventory s')"
proof -
  from assms(4) obtain g' where g': "committedResources (commitLevels C) g = Some g'"
      and ok: "reservationAllocateable E (iv_inventory s) (iv_ports s) (iv_reservations s) (newReservation order g') = Some True"
      and s': "s' = s\<lparr>iv_reservations := iv_reservations s @ [newReservation order g']\<rparr>"
    by (auto simp: inventory_step_def bind_eq_Some_conv Let_def split: if_splits)
  have "list_all (\<lambda>r. complete_group (rsv_resources r)) (newReservation order g' # iv_reservations s)"
    using complete_reachable [OF assms(1,2)] committed_complete [OF g'] by (simp add: complete_service_def newReservation_def)
  note fits = reserved_fits [OF ok assms(3) this]
  show ?thesis
    using fits [of cpu_amount] fits [of memory_amount] fits [of storage_amount]
    by (simp add: s' pending_demand_def newReservation_def)
qed

subsection \<open>External ports\<close>

definition ports_of :: "reservation list \<Rightarrow> nat" where
  "ports_of rs = (\<Sum>r\<leftarrow>rs. unat (reservationCountEndpoints r))"

lemma ports_of_simps [simp]:
  "ports_of [] = 0" "ports_of (r # rs) = unat (reservationCountEndpoints r) + ports_of rs"
  "ports_of (xs @ ys) = ports_of xs + ports_of ys"
  by (simp_all add: ports_of_def)

lemma endpoints_allocated [simp]: "reservationCountEndpoints (r\<lparr>rsv_allocated := b\<rparr>) = reservationCountEndpoints r"
  by (simp add: reservationCountEndpoints_def)

lemma ports_of_split: "ports_of rs = ports_of (filter rsv_allocated rs) + ports_of (filter (\<lambda>r. \<not> rsv_allocated r) rs)"
  by (induction rs) auto

lemma ports_of_shape: "map rshape rs = map rshape rs' \<Longrightarrow>
  ports_of rs = ports_of rs' \<and> ports_of (filter rsv_allocated rs) = ports_of (filter rsv_allocated rs')"
proof (induction rs arbitrary: rs')
  case (Cons r rs)
  then obtain r' rs'' where "rs' = r' # rs''" "rshape r = rshape r'" "map rshape rs = map rshape rs''"
    by (auto simp: Cons_eq_map_conv)
  with Cons.IH [of rs''] show ?case
    by (simp add: endpoints_shape) (simp add: rshape_def)
qed simp

lemma allocateable_ports:
  "reservationAllocateable E ns ports rs new = Some True \<Longrightarrow>
   ports_of (filter (\<lambda>r. \<not> rsv_allocated r) rs) + unat (reservationCountEndpoints new) \<le> unat ports"
proof (induction rs arbitrary: ns ports)
  case Nil
  then show ?case
    by (auto simp: reservationAdjustInventory_def Let_def bind_eq_Some_conv not_less word_le_nat_alt split: if_splits)
next
  case (Cons r rs)
  show ?case
  proof (cases "rsv_allocated r")
    case False
    with Cons.prems obtain ns' where "reservationCountEndpoints r \<le> ports"
        and rest: "reservationAllocateable E ns' (ports - reservationCountEndpoints r) rs new = Some True"
      by (auto simp: reservationAdjustInventory_def Let_def bind_eq_Some_conv not_less split: if_splits)
    with Cons.IH [OF rest] False show ?thesis by (simp add: unat_sub word_le_nat_alt)
  qed (use Cons in simp)
qed

definition ports_inv :: "64 word \<Rightarrow> inventory_service \<Rightarrow> bool" where
  "ports_inv q s \<longleftrightarrow> ports_of (iv_reservations s) \<le> unat q \<and>
     unat (iv_ports s) + ports_of (filter rsv_allocated (iv_reservations s)) = unat q"

lemma unat_add_fits: "unat (a + b) = unat a + unat b" if "unat a + unat b \<le> unat (c :: 64 word)" for a b :: "64 word"
  using that unsigned_less [of c, where ?'a = nat] by (simp add: unat_word_ariths)

lemma ports_step:
  assumes step: "inventory_step E C i s = Some (out, s')" and inv: "ports_inv q s"
  shows "ports_inv q s'"
  using step
proof (cases rule: inventory_step_cases)
  case same
  with inv show ?thesis using ports_of_shape [OF same(1)] by (simp add: ports_inv_def)
next
  case (mark xs r ys b)
  have "b \<Longrightarrow> \<not> rsv_allocated r \<Longrightarrow> reservationCountEndpoints r \<le> iv_ports s"
    using inv mark(1) ports_of_split [of xs] ports_of_split [of ys] by (simp add: ports_inv_def word_le_nat_alt)
  moreover have "\<not> b \<Longrightarrow> rsv_allocated r \<Longrightarrow>
      unat (iv_ports s + reservationCountEndpoints r) = unat (iv_ports s) + unat (reservationCountEndpoints r)"
    using inv mark(1) by (intro unat_add_fits [of _ _ q]) (simp add: ports_inv_def)
  ultimately show ?thesis
    using inv mark by (auto simp: ports_inv_def unat_sub word_le_nat_alt)
next
  case (add new)
  then show ?thesis
    using inv allocateable_ports [OF add(5)] ports_of_split [of "iv_reservations s"] by (simp add: ports_inv_def)
next
  case (drop xs r ys)
  have "rsv_allocated r \<Longrightarrow>
      unat (iv_ports s + reservationCountEndpoints r) = unat (iv_ports s) + unat (reservationCountEndpoints r)"
    using inv drop(1) by (intro unat_add_fits [of _ _ q]) (simp add: ports_inv_def)
  then show ?thesis using inv drop by (auto simp: ports_inv_def)
qed

text \<open>
  C28. External ports are accounted for exactly.  If the deployments found at start fit into the configured
  quantity, then in every state the service reaches the endpoints of all reservations fit, and the
  ports available are the quantity less the endpoints of the allocated reservations: no 64-bit
  operation on them wraps.
\<close>
theorem external_ports_exact:
  assumes "inventory_reachable E C ds s"
    and "ports_of (iv_reservations (newInventoryService C ds)) \<le> unat (InventoryExternalPortQuantity C)"
  shows "ports_of (iv_reservations s) \<le> unat (InventoryExternalPortQuantity C) \<and>
    unat (iv_ports s) + ports_of (filter rsv_allocated (iv_reservations s)) = unat (InventoryExternalPortQuantity C)"
proof -
  have "ports_inv (InventoryExternalPortQuantity C) s"
    using assms
  proof (induction rule: inventory_reachable.induct)
    case start
    have "filter rsv_allocated (iv_reservations (newInventoryService C ds)) = []"
      by (auto simp: newInventoryService_def newReservation_def filter_empty_conv)
    with start show ?case by (simp add: ports_inv_def) (simp add: newInventoryService_def)
  qed (rule ports_step)
  then show ?thesis by (simp add: ports_inv_def)
qed

subsection \<open>The service does not get stuck\<close>

primrec inventory_run ::
  "'b env \<Rightarrow> inventory_config \<Rightarrow> inventory_input list \<Rightarrow> inventory_service \<Rightarrow> inventory_service option" where
  "inventory_run E C [] s = Some s"
| "inventory_run E C (i # is) s = (if \<not> inventory_enabled i s then None
     else case inventory_step E C i s of None \<Rightarrow> None | Some (_, s') \<Rightarrow> inventory_run E C is s')"

lemma inventory_run_reachable:
  "inventory_run E C is s = Some s' \<Longrightarrow> inventory_reachable E C ds s \<Longrightarrow> inventory_reachable E C ds s'"
  by (induction "is" arbitrary: s) (auto split: if_splits option.splits intro: inventory_reachable.step)

text \<open>A check is under way or the timer for the next one is armed.\<close>

lemma check_scheduled:
  assumes "inventory_reachable E C ds s"
  shows "iv_checking s \<or> iv_timer s"
  using assms
proof (induction rule: inventory_reachable.induct)
  case start
  then show ?case by (simp add: newInventoryService_def)
next
  case (step s i out s')
  then show ?case
    by (cases i) (auto simp: inventory_step_def stopProcessingReservations_def Let_def bind_eq_Some_conv
      split: option.splits sum.splits if_splits)
qed

text \<open>
  C39. The inventory service does not stop accepting reservations for good: from every state it can reach, the result of a check, either
  the one under way or the one its armed timer starts, is taken in and brings it to a state that takes reservation
  requests against the nodes just found, provided the configured debug frequency is not zero.  With frequency zero, which nothing
  excludes, the result makes it panic (a division by zero).
\<close>
theorem inventory_recovers:
  assumes "inventory_reachable E C ds s"
  shows "\<exists>js s0. (js = [] \<or> js = [TimerFired]) \<and> inventory_run E C js s = Some s0 \<and> inventory_enabled (CheckDone (Inr ns)) s0 \<and>
    (if InventoryResourceDebugFrequency C = 0 then inventory_step E C (CheckDone (Inr ns)) s0 = None
     else \<exists>out s'. inventory_step E C (CheckDone (Inr ns)) s0 = Some (out, s') \<and> inventory_enabled (Reserve order g) s' \<and> iv_inventory s' = ns)"
proof (cases "iv_checking s")
  case True
  then show ?thesis
    by (intro exI [of _ "[]"] exI [of _ s]) (simp add: inventory_enabled_def inventory_step_def Let_def)
next
  case False
  with check_scheduled [OF assms(1)] have "iv_timer s" by simp
  then show ?thesis
    by (intro exI [of _ "[TimerFired]"] exI [of _ "snd (the (inventory_step E C TimerFired s))"])
      (simp add: inventory_enabled_def inventory_step_def Let_def)
qed

subsection \<open>A status request\<close>

text \<open>
  A status request is not read-only: of a reservation with two resources the units of the first become the sum of both, so
  that the provider from then on counts the second twice.
\<close>
lemma getStatus_adds_up:
  assumes "rg_Resources (rsv_resources r) = [a, b]" and "complete (rs_Resources a)" and "complete (rs_Resources b)"
    and "list_all (\<lambda>am. 0 \<le> am (rs_Resources a) \<and> 0 \<le> am (rs_Resources b) \<and>
      am (rs_Resources a) + am (rs_Resources b) \<le> IntMax E) [cpu_amount, memory_amount, storage_amount]"
  shows "\<exists>a' st. getStatus E ns [r] = Some ([r\<lparr>rsv_resources := (rsv_resources r)\<lparr>rg_Resources := [a', b]\<rparr>\<rparr>], st) \<and>
    rs_Count a' = rs_Count a \<and>
    cpu_amount (rs_Resources a') = cpu_amount (rs_Resources a) + cpu_amount (rs_Resources b) \<and>
    memory_amount (rs_Resources a') = memory_amount (rs_Resources a) + memory_amount (rs_Resources b) \<and>
    storage_amount (rs_Resources a') = storage_amount (rs_Resources a) + storage_amount (rs_Resources b)"
proof -
  obtain c m st c' m' st' where u: "CPU (rs_Resources a) = Some c" "Memory (rs_Resources a) = Some m" "Storage (rs_Resources a) = Some st"
      "CPU (rs_Resources b) = Some c'" "Memory (rs_Resources b) = Some m'" "Storage (rs_Resources b) = Some st'"
    using assms(2,3) by (auto simp: complete_def)
  have "(rs_Resources b)\<lparr>CPU := Some c', Memory := Some m', Storage := Some st'\<rparr> = rs_Resources b"
    using u by (cases "rs_Resources b") simp
  then have b: "b\<lparr>rs_Resources := (rs_Resources b)\<lparr>CPU := Some c', Memory := Some m', Storage := Some st'\<rparr>\<rparr> = b"
    by (cases b) simp
  let ?a = "a\<lparr>rs_Resources := (rs_Resources a)\<lparr>CPU := Some (c\<lparr>cpu_Units := \<lparr>Val = Val (cpu_Units c) + Val (cpu_Units c')\<rparr>\<rparr>),
    Memory := Some (m\<lparr>mem_Quantity := \<lparr>Val = Val (mem_Quantity m) + Val (mem_Quantity m')\<rparr>\<rparr>),
    Storage := Some (st\<lparr>sto_Quantity := \<lparr>Val = Val (sto_Quantity st) + Val (sto_Quantity st')\<rparr>\<rparr>)\<rparr>\<rparr>"
  show ?thesis
    using assms(1,4)
    by (intro exI [of _ ?a]) (simp add: u b getStatus_def no_units_def ResourceUnits_Add_def CPU_add_def Memory_add_def Storage_add_def
      ResourceValue_add_def int_chk_def cpu_amount_def memory_amount_def storage_amount_def taken_over_def Let_def)
qed

subsection \<open>An example\<close>

definition demo_commit :: inventory_config where
  "demo_commit = \<lparr>InventoryResourceDebugFrequency = 10, InventoryExternalPortQuantity = 4,
     commitLevels = \<lparr>commitCPU = (\<lambda>v. v), commitMemory = (\<lambda>v. v), commitStorage = (\<lambda>v. v)\<rparr>\<rparr>"

definition demo_units :: "int \<Rightarrow> resource_units" where
  "demo_units k = \<lparr>CPU = Some \<lparr>cpu_Units = \<lparr>Val = k\<rparr>, cpu_Attributes = []\<rparr>,
     Memory = Some \<lparr>mem_Quantity = \<lparr>Val = k\<rparr>, mem_Attributes = []\<rparr>,
     Storage = Some \<lparr>sto_Quantity = \<lparr>Val = k\<rparr>, sto_Attributes = []\<rparr>,
     Endpoints = [\<lparr>ep_Kind = Endpoint_RANDOM_PORT\<rparr>]\<rparr>"

definition demo_resources :: resource_group where
  "demo_resources = \<lparr>rg_Name = ''web'', rg_Resources =
     [\<lparr>rs_Resources = demo_units 2, rs_Count = 2\<rparr>, \<lparr>rs_Resources = demo_units 1, rs_Count = 1\<rparr>]\<rparr>"

definition demo_nodes :: "node list" where
  "demo_nodes = [NewNode ''a'' (demo_units 9) (demo_units 3), NewNode ''b'' (demo_units 9) (demo_units 8)]"

text \<open>A deployment is found at start; the first check returns two nodes; the deployment is marked; the
  next check returns.\<close>

definition demo_inventory :: inventory_service where
  "demo_inventory = \<lparr>iv_inventory = demo_nodes, iv_reservations =
     [\<lparr>rsv_order = BidID_OrderID demo_bid_id, rsv_resources = demo_resources, rsv_allocated = True\<rparr>],
     iv_ports = 2, iv_reserving = True, iv_checking = False, iv_timer = True, iv_ready = True, iv_fetchCount = 2\<rparr>"

lemma demo_inventory_run:
  "inventory_run demo_env demo_commit [CheckDone (Inr demo_nodes),
     ClusterDeployment demo_bid_id ''web'' ClusterDeploymentDeployed, CheckDone (Inr demo_nodes)]
     (newInventoryService demo_commit [(demo_bid_id, demo_resources)]) = Some demo_inventory"
  by (simp add: inventory_enabled_def inventory_step_def newInventoryService_def newReservation_def demo_commit_def
    OrderID_Equals_def reservationCountEndpoints_def demo_resources_def demo_units_def stopProcessingReservations_def demo_inventory_def)

lemma demo_inventory_reachable:
  "inventory_reachable demo_env demo_commit [(demo_bid_id, demo_resources)] demo_inventory"
  using demo_inventory_run by (rule inventory_run_reachable) (rule inventory_reachable.start)

lemma map_fst_Some: "map_option fst x = Some a \<Longrightarrow> \<exists>b. x = Some (a, b)"
  by (cases x) auto

theorem reserve_within_capacity_witness:
  "\<exists>s'. inventory_step demo_env demo_commit (Reserve (BidID_OrderID demo_bid_id) demo_resources) demo_inventory =
      Some (Reservation (newReservation (BidID_OrderID demo_bid_id) demo_resources), s') \<and>
    pending_demand cpu_amount (iv_reservations s') \<le> available cpu_amount (iv_inventory s') \<and>
    pending_demand memory_amount (iv_reservations s') \<le> available memory_amount (iv_inventory s') \<and>
    pending_demand storage_amount (iv_reservations s') \<le> available storage_amount (iv_inventory s')"
proof -
  have "map_option fst (inventory_step demo_env demo_commit (Reserve (BidID_OrderID demo_bid_id) demo_resources) demo_inventory) =
      Some (Reservation (newReservation (BidID_OrderID demo_bid_id) demo_resources))"
    by code_simp
  then obtain s' where "inventory_step demo_env demo_commit (Reserve (BidID_OrderID demo_bid_id) demo_resources) demo_inventory =
      Some (Reservation (newReservation (BidID_OrderID demo_bid_id) demo_resources), s')"
    by (rule map_fst_Some [THEN exE])
  moreover have "list_all (\<lambda>d. complete_group (snd d)) [(demo_bid_id, demo_resources)]" by code_simp
  moreover have "list_all sound_node (iv_inventory demo_inventory)" by code_simp
  ultimately show ?thesis
    using reserve_within_capacity [OF demo_inventory_reachable] by blast
qed

theorem external_ports_exact_witness:
  "ports_of (iv_reservations demo_inventory) \<le> 4 \<and>
   unat (iv_ports demo_inventory) + ports_of (filter rsv_allocated (iv_reservations demo_inventory)) = 4"
  using external_ports_exact [OF demo_inventory_reachable]
  by (simp add: newInventoryService_def newReservation_def demo_commit_def demo_resources_def demo_units_def reservationCountEndpoints_def)

theorem inventory_recovers_witness:
  "\<exists>js s0 out s'. (js = [] \<or> js = [TimerFired]) \<and> inventory_run demo_env demo_commit js demo_inventory = Some s0 \<and>
    inventory_step demo_env demo_commit (CheckDone (Inr [])) s0 = Some (out, s') \<and>
    inventory_enabled (Reserve (BidID_OrderID demo_bid_id) demo_resources) s' \<and> iv_inventory s' = []"
proof -
  have "InventoryResourceDebugFrequency demo_commit \<noteq> 0" by (simp add: demo_commit_def)
  then show ?thesis
    using inventory_recovers [OF demo_inventory_reachable, of "[]" "BidID_OrderID demo_bid_id" demo_resources] by (simp only: if_False) blast
qed

end
