(* ===== verification/Hostnames.thy ===== *)
theory Hostnames
  imports Ids
begin

text \<open>
  Host names on a provider (\<^verbatim>\<open>provider/cluster/hostname.go\<close>): the service that reserves names
  for deployments, and the simple table that stands in for it in tests.  Both implement the interface
  \<^verbatim>\<open>HostnameServiceClient\<close>, the locale \<open>hostname_client\<close> below.

  The service's goroutine takes one request at a time, so a request is a function of its state.  The
  channel a request answers on holds one error or nil: \<open>error option\<close>.  Once the service
  shuts down requests are no longer taken and the caller gets \<^verbatim>\<open>ErrNotRunning\<close>.
\<close>

subsection \<open>Lower case\<close>

text \<open>\<^verbatim>\<open>strings.ToLower\<close>: in a string of ASCII bytes the capital letters are replaced; any other
  string goes through the Unicode tables, the argument \<open>U\<close>.\<close>

definition in_range :: "char \<Rightarrow> char \<Rightarrow> char \<Rightarrow> bool" where
  "in_range lo hi c \<longleftrightarrow> lo \<le> c \<and> c \<le> hi"

definition lower_char :: "char \<Rightarrow> char" where
  "lower_char c = (if in_range (CHR ''A'') (CHR ''Z'') c then char_of (of_char c + 32 :: nat) else c)"

definition ToLower :: "(string \<Rightarrow> string) \<Rightarrow> string \<Rightarrow> string" where
  "ToLower U s = (if list_all (\<lambda>c. (of_char c :: nat) < 128) s then map lower_char s else U s)"

subsection \<open>The simple table\<close>

type_synonym simple_hostnames = "string \<Rightarrow> deployment_id option"

text \<open>The names before the first one in use stay reserved when the reservation fails.\<close>

primrec Simple_ReserveHostnames ::
  "string list \<Rightarrow> deployment_id \<Rightarrow> simple_hostnames \<Rightarrow> error option \<times> simple_hostnames" where
  "Simple_ReserveHostnames [] did sh = (None, sh)"
| "Simple_ReserveHostnames (h # hs) did sh =
     (if sh h \<noteq> None then (Some (Errorf ''hostname not allowed: host in use''), sh)
      else Simple_ReserveHostnames hs did (sh(h \<mapsto> did)))"

primrec Simple_CanReserveHostnames ::
  "string list \<Rightarrow> deployment_id \<Rightarrow> simple_hostnames \<Rightarrow> error option" where
  "Simple_CanReserveHostnames [] did sh = None"
| "Simple_CanReserveHostnames (h # hs) did sh =
     (if (case sh h of None \<Rightarrow> False | Some usedByDid \<Rightarrow> \<not> DeploymentID_Equals usedByDid did)
      then Some (Errorf ''hostname not allowed: host in use'')
      else Simple_CanReserveHostnames hs did sh)"

primrec Simple_ReleaseHostnames :: "string list \<Rightarrow> simple_hostnames \<Rightarrow> simple_hostnames" where
  "Simple_ReleaseHostnames [] sh = sh"
| "Simple_ReleaseHostnames (h # hs) sh = Simple_ReleaseHostnames hs (sh(h := None))"

subsection \<open>The service\<close>

record hostname_service =
  inUse :: "string \<Rightarrow> deployment_id option"
  blockedHostnames :: "string list"
  blockedDomains :: "string list"
  hs_running :: bool

record reserve_request =
  rr_hostnames :: "string list"
  rr_doReserve :: bool
  rr_dID :: deployment_id

text \<open>An entry of the configuration that starts with a dot blocks the domain and everything below it.\<close>

definition split_blocked :: "string \<Rightarrow> string list \<times> string list \<Rightarrow> string list \<times> string list" where
  "split_blocked name acc = (case name of
     c # rest \<Rightarrow> if c = CHR ''.'' then (fst acc @ [rest], snd acc @ [name]) else (fst acc @ [name], snd acc)
   | [] \<Rightarrow> (fst acc @ [name], snd acc))"

definition newHostnameService :: "string list \<Rightarrow> hostname_service" where
  "newHostnameService BlockedHostnames =
     (let (hosts, domains) = fold split_blocked BlockedHostnames ([], []) in
      \<lparr>inUse = (\<lambda>_. None), blockedHostnames = hosts, blockedDomains = domains, hs_running = True\<rparr>)"

definition isHostnameBlocked :: "string \<Rightarrow> hostname_service \<Rightarrow> error option" where
  "isHostnameBlocked hostname hs =
     (if list_ex (\<lambda>b. b = hostname) (blockedHostnames hs)
      then Some (Errorf ''hostname not allowed: name is blocked by this provider'')
      else if list_ex (\<lambda>b. suffix b hostname) (blockedDomains hs)
      then Some (Errorf ''hostname not allowed: domain is blocked by this provider'')
      else None)"

primrec check_hostnames :: "string list \<Rightarrow> deployment_id \<Rightarrow> hostname_service \<Rightarrow> error option" where
  "check_hostnames [] did hs = None"
| "check_hostnames (h # rest) did hs = (case isHostnameBlocked h hs of
     Some e \<Rightarrow> Some e
   | None \<Rightarrow>
       if (case inUse hs h of None \<Rightarrow> False | Some takenBy \<Rightarrow> \<not> DeploymentID_Equals takenBy did)
       then Some (Errorf ''hostname not allowed: already in use'')
       else check_hostnames rest did hs)"

definition doRequest :: "reserve_request \<Rightarrow> hostname_service \<Rightarrow> error option \<times> hostname_service" where
  "doRequest rr hs = (case check_hostnames (rr_hostnames rr) (rr_dID rr) hs of
     Some e \<Rightarrow> (Some e, hs)
   | None \<Rightarrow> (None, if rr_doReserve rr
       then hs\<lparr>inUse := fold (\<lambda>h m. m(h \<mapsto> rr_dID rr)) (rr_hostnames rr) (inUse hs)\<rparr> else hs))"

definition doRelease :: "string list \<Rightarrow> hostname_service \<Rightarrow> hostname_service" where
  "doRelease hostnames hs = hs\<lparr>inUse := fold (\<lambda>h m. m(h := None)) hostnames (inUse hs)\<rparr>"

definition hostname_request ::
  "(string \<Rightarrow> string) \<Rightarrow> bool \<Rightarrow> string list \<Rightarrow> deployment_id \<Rightarrow> hostname_service \<Rightarrow> error option \<times> hostname_service" where
  "hostname_request U doReserve hostnames did hs =
     (if hs_running hs then doRequest \<lparr>rr_hostnames = map (ToLower U) hostnames, rr_doReserve = doReserve, rr_dID = did\<rparr> hs
      else (Some (Errorf ''not running''), hs))"

definition ReserveHostnames where
  "ReserveHostnames U = hostname_request U True"

definition CanReserveHostnames where
  "CanReserveHostnames U = hostname_request U False"

definition ReleaseHostnames :: "(string \<Rightarrow> string) \<Rightarrow> string list \<Rightarrow> hostname_service \<Rightarrow> hostname_service" where
  "ReleaseHostnames U hostnames hs =
     (if hs_running hs then doRelease (map (ToLower U) hostnames) hs else hs)"

definition hostname_shutdown :: "hostname_service \<Rightarrow> hostname_service" where
  "hostname_shutdown hs = hs\<lparr>hs_running := False\<rparr>"

subsection \<open>The interface\<close>

text \<open>
  \<open>hostname_client\<close> is what a client of \<^verbatim>\<open>HostnameServiceClient\<close> relies on, with the
  name a deployment's claim to a host is filed under (\<open>norm\<close>) and who holds it (\<open>holder\<close>):
  a successful reservation gives the names to the deployment, no reservation takes a name away
  or succeeds on one that another deployment holds, asking changes nothing, and releasing
  touches only the names released.
\<close>

datatype hostname_op = OpReserve "string list" deployment_id | OpCanReserve "string list" deployment_id | OpRelease "string list"

definition hostname_do ::
  "(string list \<Rightarrow> deployment_id \<Rightarrow> 's \<Rightarrow> error option \<times> 's) \<Rightarrow> (string list \<Rightarrow> deployment_id \<Rightarrow> 's \<Rightarrow> error option \<times> 's) \<Rightarrow>
   (string list \<Rightarrow> 's \<Rightarrow> 's) \<Rightarrow> hostname_op \<Rightarrow> 's \<Rightarrow> 's" where
  "hostname_do reserve can_reserve release x s = (case x of
     OpReserve hs d \<Rightarrow> snd (reserve hs d s) | OpCanReserve hs d \<Rightarrow> snd (can_reserve hs d s) | OpRelease hs \<Rightarrow> release hs s)"

locale hostname_client =
  fixes reserve :: "string list \<Rightarrow> deployment_id \<Rightarrow> 's \<Rightarrow> error option \<times> 's"
    and can_reserve :: "string list \<Rightarrow> deployment_id \<Rightarrow> 's \<Rightarrow> error option \<times> 's"
    and release :: "string list \<Rightarrow> 's \<Rightarrow> 's"
    and norm :: "string \<Rightarrow> string"
    and holder :: "'s \<Rightarrow> string \<Rightarrow> deployment_id option"
  assumes reserve_gives: "reserve hs d s = (None, t) \<Longrightarrow> h \<in> set hs \<Longrightarrow> holder t (norm h) = Some d"
    and reserve_keeps: "holder s n = Some d \<Longrightarrow> holder (snd (reserve hs d' s)) n = Some d"
    and refuses: "h \<in> set hs \<Longrightarrow> holder s (norm h) = Some d \<Longrightarrow> d \<noteq> d' \<Longrightarrow>
      fst (reserve hs d' s) \<noteq> None \<and> fst (can_reserve hs d' s) \<noteq> None"
    and asking: "snd (can_reserve hs d s) = s"
    and release_only: "n \<notin> norm ` set hs \<Longrightarrow> holder (release hs s) n = holder s n"
begin

lemma held_until_released:
  assumes "holder s n = Some d" "list_all (\<lambda>x. case x of OpRelease hs \<Rightarrow> n \<notin> norm ` set hs | _ \<Rightarrow> True) ops"
  shows "holder (fold (hostname_do reserve can_reserve release) ops s) n = Some d"
  using assms
proof (induction ops arbitrary: s)
  case (Cons x ops)
  have "holder (hostname_do reserve can_reserve release x s) n = Some d"
    using Cons.prems by (cases x) (auto simp: hostname_do_def reserve_keeps asking release_only)
  with Cons show ?case by simp
qed simp

lemma exclusive:
  assumes "reserve hs d s = (None, t)" "h \<in> set hs"
    and "list_all (\<lambda>x. case x of OpRelease hs \<Rightarrow> norm h \<notin> norm ` set hs | _ \<Rightarrow> True) ops"
    and "h' \<in> set hs'" "norm h' = norm h" "d' \<noteq> d"
  shows "fst (reserve hs' d' (fold (hostname_do reserve can_reserve release) ops t)) \<noteq> None \<and> fst (can_reserve hs' d' (fold (hostname_do reserve can_reserve release) ops t)) \<noteq> None"
proof -
  have "holder (fold (hostname_do reserve can_reserve release) ops t) (norm h') = Some d"
    using held_until_released [OF reserve_gives [OF assms(1,2)] assms(3)] assms(5) by simp
  then show ?thesis by (rule refuses [OF assms(4)]) (use assms(6) in simp)
qed

end

subsection \<open>Both implementations keep the contract\<close>

lemma simple_keeps: "sh n = Some d \<Longrightarrow> snd (Simple_ReserveHostnames hs d' sh) n = Some d"
proof (induction hs arbitrary: sh)
  case (Cons a hs)
  then have "sh a = None \<Longrightarrow> (sh(a \<mapsto> d')) n = Some d" by auto
  with Cons show ?case by (simp del: fun_upd_apply)
qed simp

lemma simple_gives:
  "fst (Simple_ReserveHostnames hs d sh) = None \<Longrightarrow> h \<in> set hs \<Longrightarrow> sh h = None \<and> snd (Simple_ReserveHostnames hs d sh) h = Some d"
proof (induction hs arbitrary: sh)
  case (Cons a hs)
  let ?sh = "sh(a \<mapsto> d)"
  have a: "snd (Simple_ReserveHostnames hs d ?sh) a = Some d" by (rule simple_keeps) simp
  from Cons.prems have sh: "sh a = None" "fst (Simple_ReserveHostnames hs d ?sh) = None" by (auto split: if_splits)
  show ?case
  proof (cases "h = a")
    case True
    with a sh show ?thesis by simp
  next
    case False
    with Cons.IH [OF sh(2)] Cons.prems(2) sh(1) show ?thesis by (simp del: fun_upd_apply add: fun_upd_other)
  qed
qed simp

lemma simple_can: "Simple_CanReserveHostnames hs d sh = None \<longleftrightarrow> (\<forall>h\<in>set hs. \<forall>d'. sh h = Some d' \<longrightarrow> d' = d)"
  by (induction hs) (auto simp: DeploymentID_Equals_def split: option.splits)

lemma simple_release: "Simple_ReleaseHostnames hs sh n = (if n \<in> set hs then None else sh n)"
  by (induction hs arbitrary: sh) auto

interpretation simple: hostname_client Simple_ReserveHostnames "\<lambda>hs d sh. (Simple_CanReserveHostnames hs d sh, sh)"
  Simple_ReleaseHostnames "\<lambda>h. h" "\<lambda>sh. sh"
proof (unfold_locales, goal_cases)
  case (1 hs d s t h)
  then show ?case using simple_gives [of hs d s h] by simp
next
  case (3 h hs s d d')
  then show ?case using simple_gives [of hs d' s h] by (auto simp: simple_can)
qed (auto simp: simple_release simple_keeps)

lemma fold_claim: "fold (\<lambda>h m. m(h \<mapsto> d)) hs m n = (if n \<in> set hs then Some d else m n)"
  by (induction hs arbitrary: m) auto

lemma fold_drop: "fold (\<lambda>h m. m(h := None)) hs m n = (if n \<in> set hs then None else m n)"
  by (induction hs arbitrary: m) auto

lemma check_hostnames_None:
  "check_hostnames hs d s = None \<longleftrightarrow>
   (\<forall>h\<in>set hs. isHostnameBlocked h s = None \<and> (inUse s h = None \<or> inUse s h = Some d))"
  by (induction hs) (auto simp: DeploymentID_Equals_def split: option.splits)

lemma hostname_request_cases:
  "hostname_request U b hs d s = (if \<not> hs_running s then (Some (Errorf ''not running''), s)
     else case check_hostnames (map (ToLower U) hs) d s of Some e \<Rightarrow> (Some e, s)
     | None \<Rightarrow> (None, if b then s\<lparr>inUse := \<lambda>n. if n \<in> ToLower U ` set hs then Some d else inUse s n\<rparr> else s))"
  by (auto simp: hostname_request_def doRequest_def fold_claim fun_eq_iff split: option.splits intro: arg_cong [where f = "\<lambda>m. s\<lparr>inUse := m\<rparr>"])

lemmas hostname_ops = ReserveHostnames_def CanReserveHostnames_def ReleaseHostnames_def doRelease_def hostname_request_cases fold_drop

interpretation service: hostname_client "ReserveHostnames U" "CanReserveHostnames U" "ReleaseHostnames U" "ToLower U" inUse for U
  by unfold_locales (auto simp: hostname_ops check_hostnames_None split: if_splits option.splits)

subsection \<open>Reserving\<close>

text \<open>The names a configuration blocks: a name itself, and for an entry that starts with a dot the domain and all names below it.\<close>

definition blocked_by :: "string list \<Rightarrow> string \<Rightarrow> bool" where
  "blocked_by cfg h \<longleftrightarrow> list_ex (\<lambda>b. if b \<noteq> [] \<and> hd b = CHR ''.'' then h = tl b \<or> suffix b h else h = b) cfg"

lemma newHostnameService_lists:
  "fold split_blocked cfg (hosts, domains) =
   (hosts @ map (\<lambda>b. if b \<noteq> [] \<and> hd b = CHR ''.'' then tl b else b) cfg,
    domains @ filter (\<lambda>b. b \<noteq> [] \<and> hd b = CHR ''.'') cfg)"
  by (induction cfg arbitrary: hosts domains) (auto simp: split_blocked_def split: list.splits)

lemma isHostnameBlocked_new: "isHostnameBlocked h (newHostnameService cfg) = None \<longleftrightarrow> \<not> blocked_by cfg h"
  by (auto simp: newHostnameService_def newHostnameService_lists isHostnameBlocked_def blocked_by_def list_ex_iff)

lemma blocked_same: "blockedHostnames s = blockedHostnames t \<Longrightarrow> blockedDomains s = blockedDomains t \<Longrightarrow>
  isHostnameBlocked h s = isHostnameBlocked h t"
  by (simp add: isHostnameBlocked_def)

definition service_run :: "(string \<Rightarrow> string) \<Rightarrow> hostname_op list \<Rightarrow> hostname_service \<Rightarrow> hostname_service" where
  "service_run U = fold (hostname_do (ReserveHostnames U) (CanReserveHostnames U) (ReleaseHostnames U))"

lemma service_run_config:
  "blockedHostnames (service_run U ops s) = blockedHostnames s \<and> blockedDomains (service_run U ops s) = blockedDomains s \<and>
   hs_running (service_run U ops s) = hs_running s"
proof (induction ops arbitrary: s)
  case (Cons x ops)
  have "service_run U (x # ops) s = service_run U ops
    (hostname_do (ReserveHostnames U) (CanReserveHostnames U) (ReleaseHostnames U) x s)" by (simp add: service_run_def)
  then show ?case
    by (cases x) (simp_all add: Cons.IH, auto simp: hostname_do_def hostname_ops split: option.splits)
qed (simp add: service_run_def)

text \<open>
  What a reservation does: after any sequence of requests to a new service, reserving host names for a
  deployment succeeds exactly when none of them, in lower case, is blocked by the configuration or held by another deployment;
  then the deployment holds them all and no other name changes hands, and if it fails nothing is reserved.  Asking whether
  names can be reserved gives the same answer and changes nothing.
\<close>
lemma ReserveHostnames_spec:
  "let s = service_run U ops (newHostnameService cfg) in
    (fst (ReserveHostnames U hs d s) = None \<longleftrightarrow>
      list_all (\<lambda>h. \<not> blocked_by cfg (ToLower U h) \<and> inUse s (ToLower U h) \<in> {None, Some d}) hs) \<and>
    snd (ReserveHostnames U hs d s) = (if fst (ReserveHostnames U hs d s) = None
      then s\<lparr>inUse := \<lambda>n. if n \<in> ToLower U ` set hs then Some d else inUse s n\<rparr> else s) \<and>
    CanReserveHostnames U hs d s = (fst (ReserveHostnames U hs d s), s)"
proof -
  let ?s = "service_run U ops (newHostnameService cfg)"
  have "isHostnameBlocked h ?s = None \<longleftrightarrow> \<not> blocked_by cfg h" for h
    using blocked_same [of ?s "newHostnameService cfg"] service_run_config [of U ops] by (simp add: isHostnameBlocked_new)
  then have "check_hostnames (map (ToLower U) hs) d ?s = None \<longleftrightarrow>
      list_all (\<lambda>h. \<not> blocked_by cfg (ToLower U h) \<and> inUse ?s (ToLower U h) \<in> {None, Some d}) hs"
    by (simp add: check_hostnames_None list_all_iff)
  moreover have "hs_running ?s" by (simp add: service_run_config) (simp add: newHostnameService_def split: prod.splits)
  ultimately show ?thesis
    by (cases "check_hostnames (map (ToLower U) hs) d ?s") (simp_all add: hostname_ops Let_def)
qed

text \<open>
  C32. A host name belongs to one deployment at a time: from a successful reservation on, through any sequence of
  requests that does not release the name (in whatever case it is written), reserving it for another deployment fails, and so
  does asking for it.
\<close>
theorem hostname_exclusive:
  assumes "ReserveHostnames U hs d s = (None, t)" and "h \<in> set hs"
    and "list_all (\<lambda>x. case x of OpRelease hs \<Rightarrow> ToLower U h \<notin> ToLower U ` set hs | _ \<Rightarrow> True) ops"
    and "h' \<in> set hs'" and "ToLower U h' = ToLower U h" and "d' \<noteq> d"
  shows "fst (ReserveHostnames U hs' d' (service_run U ops t)) \<noteq> None \<and>
    fst (CanReserveHostnames U hs' d' (service_run U ops t)) \<noteq> None"
  using service.exclusive [OF assms] by (simp add: service_run_def)

theorem hostname_exclusive_witness:
  "let d = \<lparr>did_Owner = ''owner'', did_DSeq = 1\<rparr>; d' = \<lparr>did_Owner = ''other'', did_DSeq = 7\<rparr>;
       t = snd (ReserveHostnames id [''Shop.example.com''] d (newHostnameService [''.virtengine.com'']));
       s = service_run id [OpRelease [''b.example.com''], OpReserve [''b.example.com''] d'] t in
   fst (ReserveHostnames id [''b.example.com'', ''shop.Example.com''] d' s) \<noteq> None \<and>
   fst (CanReserveHostnames id [''b.example.com'', ''shop.Example.com''] d' s) \<noteq> None"
proof -
  let ?d = "\<lparr>did_Owner = ''owner'', did_DSeq = 1\<rparr>" and ?s = "newHostnameService [''.virtengine.com'']"
  let ?t = "snd (ReserveHostnames id [''Shop.example.com''] ?d ?s)"
  have "fst (ReserveHostnames id [''Shop.example.com''] ?d ?s) = None" by code_simp
  then have t: "ReserveHostnames id [''Shop.example.com''] ?d ?s = (None, ?t)" by (metis prod.collapse)
  have case_insensitive: "ToLower id ''shop.Example.com'' = ToLower id ''Shop.example.com''" by code_simp
  show ?thesis
    unfolding Let_def by (rule hostname_exclusive [OF t _ _ _ case_insensitive]) code_simp+
qed

end
