(* ===== verification/Manifest.thy ===== *)
theory Manifest
  imports Hostnames Inventory
begin

text \<open>
  Manifests (\<^verbatim>\<open>manifest/types.go\<close>, \<^verbatim>\<open>manifest/parse.go\<close>), the helpers of
  \<^verbatim>\<open>provider/cluster/util/util.go\<close>, the validation of a manifest on its own and against a deployment
  (\<^verbatim>\<open>validation/manifest.go\<close>) and the domain-name check of \<^verbatim>\<open>util/validation/hostname.go\<close>.

  The checks \<^verbatim>\<open>IsEnvVarName\<close> and \<^verbatim>\<open>IsDNS1123Subdomain\<close> of Kubernetes are arguments (true: no
  complaint).
\<close>

subsection \<open>Manifests\<close>

record service_expose =
  se_Port :: "16 word"
  se_ExternalPort :: "16 word"
  se_Proto :: string
  se_Service :: string
  se_Global :: bool
  se_Hosts :: "string list"

record service =
  svc_Name :: string
  svc_Image :: string
  svc_Command :: "string list"
  svc_Args :: "string list"
  svc_Env :: "string list"
  svc_Resources :: resource_units
  svc_Count :: "32 word"
  svc_Expose :: "service_expose list"

record manifest_group =
  mg_Name :: string
  mg_Services :: "service list"

type_synonym manifest = "manifest_group list"

definition TCP :: string where "TCP = ''TCP''"

definition UDP :: string where "UDP = ''UDP''"

definition mg_GetResources :: "manifest_group \<Rightarrow> resources list" where
  "mg_GetResources g = map (\<lambda>s. \<lparr>rs_Resources = svc_Resources s, rs_Count = svc_Count s\<rparr>) (mg_Services g)"

definition Group_ResourceGroup :: "manifest_group \<Rightarrow> resource_group" where
  "Group_ResourceGroup g = \<lparr>rg_Name = mg_Name g, rg_Resources = mg_GetResources g\<rparr>"

definition upper_char :: "char \<Rightarrow> char" where
  "upper_char c = (if in_range (CHR ''a'') (CHR ''z'') c then char_of (of_char c - 32 :: nat) else c)"

definition ToUpper :: "(string \<Rightarrow> string) \<Rightarrow> string \<Rightarrow> string" where
  "ToUpper U s = (if list_all (\<lambda>c. (of_char c :: nat) < 128) s then map upper_char s else U s)"

definition ParseServiceProtocol :: "(string \<Rightarrow> string) \<Rightarrow> string \<Rightarrow> error + string" where
  "ParseServiceProtocol U inp = (let inp = ToUpper U inp in
     if inp = ''TCP'' \<or> inp = '''' then Inr TCP else if inp = ''UDP'' then Inr UDP
     else Inl (Errorf ''Unsuported service protocol''))"

subsection \<open>Helpers\<close>

definition ExposeExternalPort :: "service_expose \<Rightarrow> 32 word" where
  "ExposeExternalPort e = (if se_ExternalPort e = 0 then ucast (se_Port e) else ucast (se_ExternalPort e))"

definition ShouldBeIngress :: "service_expose \<Rightarrow> bool" where
  "ShouldBeIngress e \<longleftrightarrow> se_Proto e = TCP \<and> se_Global e \<and> 80 = ExposeExternalPort e"

definition AllHostnamesOfManifestGroup :: "manifest_group \<Rightarrow> string list" where
  "AllHostnamesOfManifestGroup g = concat (map (\<lambda>s. concat (map se_Hosts (svc_Expose s))) (mg_Services g))"

subsection \<open>Validation\<close>

record k8s_checks =
  IsEnvVarName :: "string \<Rightarrow> bool"
  IsDNS1123Subdomain :: "string \<Rightarrow> bool"

record manifest_helper =
  mh_hostnames :: "string list"
  mh_globalServiceCount :: "64 word"

abbreviation (input) ErrInvalidManifest :: error where
  "ErrInvalidManifest \<equiv> Errorf ''invalid manifest''"

abbreviation (input) ErrManifestCrossValidation :: error where
  "ErrManifestCrossValidation \<equiv> Errorf ''manifest cross validation error''"

text \<open>\<^verbatim>\<open>^[a-z0-9]([-a-z0-9]*[a-z0-9])?$\<close>\<close>

definition name_char :: "char \<Rightarrow> bool" where
  "name_char c \<longleftrightarrow> in_range (CHR ''a'') (CHR ''z'') c \<or> in_range (CHR ''0'') (CHR ''9'') c"

definition serviceNameValidationRegex :: "string \<Rightarrow> bool" where
  "serviceNameValidationRegex s \<longleftrightarrow> s \<noteq> [] \<and> name_char (hd s) \<and> name_char (last s) \<and>
     list_all (\<lambda>c. name_char c \<or> c = CHR ''-'') s"

definition isValidHostname :: "k8s_checks \<Rightarrow> string \<Rightarrow> bool" where
  "isValidHostname K hostname \<longleftrightarrow> length hostname \<le> 255 \<and> IsDNS1123Subdomain K hostname"

definition validateEnvVar :: "k8s_checks \<Rightarrow> string \<Rightarrow> error option" where
  "validateEnvVar K envVar =
     (if envVar \<noteq> [] \<and> hd envVar = CHR ''='' then Some ErrInvalidManifest
      else if \<not> IsEnvVarName K (takeWhile (\<lambda>c. c \<noteq> CHR ''='') envVar) then Some ErrInvalidManifest else None)"

primrec validate_hosts :: "k8s_checks \<Rightarrow> string list \<Rightarrow> (unit, manifest_helper) act" where
  "validate_hosts K [] = ret ()"
| "validate_hosts K (host # hosts) =
     bind (check (isValidHostname K host) ErrInvalidManifest) (\<lambda>_.
     bind (gets mh_hostnames) (\<lambda>seen.
     bind (check (host \<notin> set seen) (Errorf ''hostname is duplicated, this is not allowed'')) (\<lambda>_.
     bind (modify (\<lambda>h. h\<lparr>mh_hostnames := host # mh_hostnames h\<rparr>)) (\<lambda>_.
     validate_hosts K hosts))))"

definition validateServiceExpose :: "k8s_checks \<Rightarrow> service_expose \<Rightarrow> (unit, manifest_helper) act" where
  "validateServiceExpose K e =
     bind (check (se_Port e \<noteq> 0) ErrInvalidManifest) (\<lambda>_.
     bind (check (se_Proto e = TCP \<or> se_Proto e = UDP) ErrInvalidManifest) (\<lambda>_.
     bind (modify (\<lambda>h. if se_Global e then h\<lparr>mh_globalServiceCount := mh_globalServiceCount h + 1\<rparr> else h)) (\<lambda>_.
     validate_hosts K (se_Hosts e))))"

primrec each :: "('a \<Rightarrow> (unit, 's) act) \<Rightarrow> 'a list \<Rightarrow> (unit, 's) act" where
  "each f [] = ret ()"
| "each f (x # xs) = bind (f x) (\<lambda>_. each f xs)"

definition validateManifestService :: "k8s_checks \<Rightarrow> service \<Rightarrow> (unit, manifest_helper) act" where
  "validateManifestService K s =
     bind (check (svc_Name s \<noteq> []) ErrInvalidManifest) (\<lambda>_.
     bind (check (serviceNameValidationRegex (svc_Name s)) ErrInvalidManifest) (\<lambda>_.
     bind (check (svc_Image s \<noteq> []) ErrInvalidManifest) (\<lambda>_.
     bind (each (\<lambda>v. case validateEnvVar K v of None \<Rightarrow> ret () | Some e \<Rightarrow> throw e) (svc_Env s)) (\<lambda>_.
     each (validateServiceExpose K) (svc_Expose s)))))"

text \<open>\<^verbatim>\<open>ValidateResourceList\<close> takes any resource group; it reads names, units and counts, so the
  group is handed over as a group specification without requirements and prices.\<close>

definition as_group_spec :: "resource_group \<Rightarrow> group_spec" where
  "as_group_spec g = \<lparr>gs_Name = rg_Name g, gs_Requirements = \<lparr>SignedBy = \<lparr>AllOf = [], AnyOf = []\<rparr>, req_Attributes = []\<rparr>,
     gs_Resources = map (\<lambda>r. \<lparr>res_Resources = rs_Resources r, res_Count = rs_Count r,
       res_Price = \<lparr>Denom = [], Amount = 0\<rparr>\<rparr>) (rg_Resources g)\<rparr>"

definition validateManifestGroup :: "'b env \<Rightarrow> k8s_checks \<Rightarrow> manifest_group \<Rightarrow> (unit, manifest_helper) act" where
  "validateManifestGroup E K g =
     bind (check (mg_Services g \<noteq> []) ErrInvalidManifest) (\<lambda>_.
     bind (ValidateResourceList E (as_group_spec (Group_ResourceGroup g))) (\<lambda>_.
     each (validateManifestService K) (mg_Services g)))"

primrec validate_groups :: "'b env \<Rightarrow> k8s_checks \<Rightarrow> string list \<Rightarrow> manifest_group list \<Rightarrow> (unit, manifest_helper) act" where
  "validate_groups E K names [] = ret ()"
| "validate_groups E K names (g # gs) =
     bind (validateManifestGroup E K g) (\<lambda>_.
     bind (check (mg_Name g \<notin> set names) ErrInvalidManifest) (\<lambda>_.
     validate_groups E K (mg_Name g # names) gs))"

definition validateManifestGroups :: "'b env \<Rightarrow> k8s_checks \<Rightarrow> manifest_group list \<Rightarrow> (unit, manifest_helper) outcome" where
  "validateManifestGroups E K gs =
     bind (validate_groups E K [] gs) (\<lambda>_.
     bind (gets mh_globalServiceCount) (\<lambda>n.
     check (n \<noteq> 0) ErrInvalidManifest)) \<lparr>mh_hostnames = [], mh_globalServiceCount = 0\<rparr>"

definition ValidateManifest :: "'b env \<Rightarrow> k8s_checks \<Rightarrow> manifest \<Rightarrow> (unit, manifest_helper) outcome" where
  "ValidateManifest E K m =
     (if m = [] then Err ErrInvalidManifest \<lparr>mh_hostnames = [], mh_globalServiceCount = 0\<rparr>
      else validateManifestGroups E K m)"

subsection \<open>A manifest against a deployment\<close>

definition same_units :: "resource_units \<Rightarrow> resource_units \<Rightarrow> bool" where
  "same_units u v \<longleftrightarrow> CPU u = CPU v \<and> Memory u = Memory v \<and> Storage u = Storage v"

text \<open>The inner loop: the deployment's record \<open>drec\<close> is served from the records of the manifest
  in order; \<open>None\<close>: some of it is left over.\<close>

primrec match_record :: "resources \<Rightarrow> resources list \<Rightarrow> resources list option" where
  "match_record drec [] = None"
| "match_record drec (mrec # mlist) =
     (if rs_Count mrec = 0 \<or> \<not> same_units (rs_Resources drec) (rs_Resources mrec)
      then map_option ((#) mrec) (match_record drec mlist)
      else if rs_Count mrec \<ge> rs_Count drec
      then Some (mrec\<lparr>rs_Count := rs_Count mrec - rs_Count drec\<rparr> # mlist)
      else map_option ((#) (mrec\<lparr>rs_Count := 0\<rparr>))
        (match_record (drec\<lparr>rs_Count := rs_Count drec - rs_Count mrec\<rparr>) mlist))"

primrec match_records :: "resources list \<Rightarrow> resources list \<Rightarrow> resources list option" where
  "match_records [] mlist = Some mlist"
| "match_records (drec # drecs) mlist = do { mlist \<leftarrow> match_record drec mlist; match_records drecs mlist }"

definition count_endpoints :: "endpoint_kind \<Rightarrow> resources list \<Rightarrow> nat" where
  "count_endpoints k rs = length (filter (\<lambda>e. ep_Kind e = k) (concat (map (\<lambda>r. Endpoints (rs_Resources r)) rs)))"

definition count_exposes :: "bool \<Rightarrow> manifest_group \<Rightarrow> nat" where
  "count_exposes http g = length (filter (\<lambda>e. se_Global e \<and> ShouldBeIngress e = http) (concat (map svc_Expose (mg_Services g))))"

definition validateManifestDeploymentGroup :: "manifest_group \<Rightarrow> resource_group \<Rightarrow> error option" where
  "validateManifestDeploymentGroup mgroup dgroup =
     (case match_records (rg_Resources dgroup) (mg_GetResources mgroup) of
        None \<Rightarrow> Some ErrManifestCrossValidation
      | Some mlist \<Rightarrow>
          if list_ex (\<lambda>mrec. rs_Count mrec > 0) mlist then Some ErrManifestCrossValidation
          else if count_exposes False mgroup \<noteq> count_endpoints Endpoint_RANDOM_PORT (rg_Resources dgroup)
          then Some (Errorf ''invalid manifest: mismatch on number of endpoints'')
          else if count_exposes True mgroup \<noteq> count_endpoints Endpoint_SHARED_HTTP (rg_Resources dgroup)
          then Some (Errorf ''invalid manifest: mismatch on number of HTTP only endpoints'')
          else None)"

text \<open>In the code's map by name a later group replaces an earlier one of the same name.\<close>

definition dgroupByName :: "resource_group list \<Rightarrow> string \<Rightarrow> resource_group option" where
  "dgroupByName dgroups = map_of (rev (map (\<lambda>d. (rg_Name d, d)) dgroups))"

primrec match_groups :: "(string \<Rightarrow> resource_group option) \<Rightarrow> manifest_group list \<Rightarrow> error option" where
  "match_groups byName [] = None"
| "match_groups byName (g # gs) = (case byName (mg_Name g) of
     None \<Rightarrow> Some (Errorf ''invalid manifest: unknown deployment group'')
   | Some d \<Rightarrow> (case validateManifestDeploymentGroup g d of
       Some e \<Rightarrow> Some e | None \<Rightarrow> match_groups byName gs))"

definition validateManifestDeploymentGroups :: "manifest_group list \<Rightarrow> resource_group list \<Rightarrow> error option" where
  "validateManifestDeploymentGroups mgroups dgroups =
     (if length mgroups \<noteq> length dgroups then Some (Errorf ''invalid manifest: group count mismatch'')
      else match_groups (dgroupByName dgroups) mgroups)"

definition ValidateManifestWithGroupSpecs :: "manifest \<Rightarrow> group_spec list \<Rightarrow> error option" where
  "ValidateManifestWithGroupSpecs m gspecs = validateManifestDeploymentGroups m (map GroupSpec_ResourceGroup gspecs)"

definition ValidateManifestWithDeployment :: "manifest \<Rightarrow> group list \<Rightarrow> error option" where
  "ValidateManifestWithDeployment m dgroups =
     validateManifestDeploymentGroups m (map (\<lambda>g. GroupSpec_ResourceGroup (grp_Spec g)) dgroups)"

subsection \<open>Domain names\<close>

text \<open>The loop over the bytes: the byte before, whether a letter, hyphen or underscore was seen, and the length
  of the current label.\<close>

fun domain_loop :: "char \<Rightarrow> bool \<Rightarrow> nat \<Rightarrow> string \<Rightarrow> bool" where
  "domain_loop prev nonNumeric partlen [] \<longleftrightarrow> \<not> (prev = CHR ''-'' \<or> partlen > 63) \<and> nonNumeric"
| "domain_loop prev nonNumeric partlen (c # s) \<longleftrightarrow>
     (if in_range (CHR ''a'') (CHR ''z'') c \<or> in_range (CHR ''A'') (CHR ''Z'') c \<or> c = CHR ''_''
      then domain_loop c True (partlen + 1) s
      else if in_range (CHR ''0'') (CHR ''9'') c then domain_loop c nonNumeric (partlen + 1) s
      else if c = CHR ''-'' then prev \<noteq> CHR ''.'' \<and> domain_loop c True (partlen + 1) s
      else if c = CHR ''.'' then prev \<noteq> CHR ''.'' \<and> prev \<noteq> CHR ''-'' \<and> \<not> (partlen > 63 \<or> partlen = 0) \<and>
        domain_loop c nonNumeric 0 s
      else False)"

definition IsDomainName :: "string \<Rightarrow> bool" where
  "IsDomainName s \<longleftrightarrow> \<not> (s = [] \<or> length s > 254 \<or> length s = 254 \<and> last s \<noteq> CHR ''.'') \<and>
     domain_loop (CHR ''.'') False 0 s"

end
