(* ===== verification/Sdl.thy ===== *)
theory Sdl
  imports Manifest Store
begin

text \<open>
  The deployment description a tenant writes (\<^verbatim>\<open>sdl/v2.go\<close>, \<^verbatim>\<open>sdl/resources.go\<close>,
  \<^verbatim>\<open>sdl/sdl.go\<close>): from one description come both the groups that go on the chain and the manifest that goes
  to the provider.

  The model starts from the decoded YAML.  A Go map is a \<open>kv\<close>: the code reads its maps by key
  or walks their sorted keys, and \<open>kv\<close> is sorted by key.  \<^verbatim>\<open>sort.Slice\<close> returns its elements
  in an order that agrees with the comparison and is otherwise unspecified; it is an argument, one
  instance per element type.
\<close>

subsection \<open>Descriptions\<close>

record v2_expose_to =
  to_Service :: string
  to_Global :: bool

record v2_expose =
  x_Port :: "16 word"
  x_As :: "16 word"
  x_Proto :: string
  x_To :: "v2_expose_to list"
  x_Accept :: "string list"

record v2_service =
  v2_Image :: string
  v2_Command :: "string list"
  v2_Args :: "string list"
  v2_Env :: "string list"
  v2_Expose :: "v2_expose list"
  v2_Dependencies :: "string list"

record v2_service_deployment =
  sd_Profile :: string
  sd_Count :: "32 word"

record v2_cpu =
  v2c_Units :: "32 word"
  v2c_Attributes :: "attribute list"

record v2_quantity =
  v2q_Quantity :: "64 word"
  v2q_Attributes :: "attribute list"

record v2_compute_resources =
  vr_CPU :: "v2_cpu option"
  vr_Memory :: "v2_quantity option"
  vr_Storage :: "v2_quantity option"

record v2_profile_placement =
  vp_Attributes :: "attribute list"
  vp_SignedBy :: signed_by
  vp_Pricing :: "coin kv"

record v2 =
  v2_Services :: "v2_service kv"
  v2_Compute :: "v2_compute_resources option kv"
  v2_Placement :: "v2_profile_placement kv"
  v2_Deployments :: "v2_service_deployment kv kv"

record sdl_lib =
  unicode_upper :: "string \<Rightarrow> string"
  sort_attributes :: "(attribute \<Rightarrow> attribute \<Rightarrow> bool) \<Rightarrow> attribute list \<Rightarrow> attribute list"
  sort_exposes :: "(service_expose \<Rightarrow> service_expose \<Rightarrow> bool) \<Rightarrow> service_expose list \<Rightarrow> service_expose list"

definition toResourceUnits :: "v2_compute_resources option \<Rightarrow> resource_units" where
  "toResourceUnits sdl = (case sdl of None \<Rightarrow> no_units | Some r \<Rightarrow> \<lparr>
     CPU = map_option (\<lambda>c. \<lparr>cpu_Units = NewResourceValue (ucast (v2c_Units c)), cpu_Attributes = v2c_Attributes c\<rparr>) (vr_CPU r),
     Memory = map_option (\<lambda>q. \<lparr>mem_Quantity = NewResourceValue (v2q_Quantity q), mem_Attributes = v2q_Attributes q\<rparr>) (vr_Memory r),
     Storage = map_option (\<lambda>q. \<lparr>sto_Quantity = NewResourceValue (v2q_Quantity q), sto_Attributes = v2q_Attributes q\<rparr>) (vr_Storage r),
     Endpoints = []\<rparr>)"

subsection \<open>Loops\<close>

text \<open>A loop over the entries of a map or list that leaves the function at the first error.\<close>

primrec loop :: "('a \<Rightarrow> 's \<Rightarrow> error + 's) \<Rightarrow> 'a list \<Rightarrow> 's \<Rightarrow> error + 's" where
  "loop f [] s = Inr s"
| "loop f (x # xs) s = (case f x s of Inl e \<Rightarrow> Inl e | Inr s' \<Rightarrow> loop f xs s')"

subsection \<open>Groups for the chain\<close>

text \<open>The endpoints of a service: one for every global target of its exposes.\<close>

definition service_expose_of :: "v2_expose \<Rightarrow> string \<Rightarrow> v2_expose_to \<Rightarrow> service_expose" where
  "service_expose_of x proto to = \<lparr>se_Port = x_Port x, se_ExternalPort = x_As x, se_Proto = proto, se_Service = to_Service to,
     se_Global = to_Global to, se_Hosts = x_Accept x\<rparr>"

definition expose_endpoints :: "sdl_lib \<Rightarrow> v2_expose \<Rightarrow> endpoint list \<Rightarrow> error + endpoint list" where
  "expose_endpoints L x = loop (\<lambda>to endpoints.
     if \<not> to_Global to then Inr endpoints
     else case ParseServiceProtocol (unicode_upper L) (x_Proto x) of
         Inl e \<Rightarrow> Inl e
       | Inr proto \<Rightarrow>
           Inr (endpoints @ [\<lparr>ep_Kind = if ShouldBeIngress (service_expose_of x proto to) then Endpoint_SHARED_HTTP else Endpoint_RANDOM_PORT\<rparr>])) (x_To x)"

definition service_exposes :: "v2 \<Rightarrow> string \<Rightarrow> v2_expose list" where
  "service_exposes sdl svcName = (case kv_get (v2_Services sdl) svcName of None \<Rightarrow> [] | Some s \<Rightarrow> v2_Expose s)"

definition new_group_spec :: "sdl_lib \<Rightarrow> string \<Rightarrow> v2_profile_placement \<Rightarrow> group_spec" where
  "new_group_spec L placementName infra = \<lparr>gs_Name = placementName,
     gs_Requirements = \<lparr>SignedBy = vp_SignedBy infra,
       req_Attributes = sort_attributes L (\<lambda>a b. attr_Key a < attr_Key b) (vp_Attributes infra)\<rparr>,
     gs_Resources = []\<rparr>"

definition deployment_group ::
  "sdl_lib \<Rightarrow> v2 \<Rightarrow> string \<Rightarrow> string \<times> v2_service_deployment \<Rightarrow> group_spec kv \<Rightarrow> error + group_spec kv" where
  "deployment_group L sdl svcName entry gs = (case entry of (placementName, svcdepl) \<Rightarrow>
     (case kv_get (v2_Compute sdl) (sd_Profile svcdepl) of
        None \<Rightarrow> Inl (Errorf ''no compute profile named'')
      | Some compute \<Rightarrow>
     (case kv_get (v2_Placement sdl) placementName of
        None \<Rightarrow> Inl (Errorf ''no placement profile named'')
      | Some infra \<Rightarrow>
     (case kv_get (vp_Pricing infra) (sd_Profile svcdepl) of
        None \<Rightarrow> Inl (Errorf ''no pricing for profile'')
      | Some price \<Rightarrow>
     let group = (case kv_get gs placementName of None \<Rightarrow> new_group_spec L placementName infra | Some g \<Rightarrow> g) in
     (case loop (expose_endpoints L) (service_exposes sdl svcName) [] of
        Inl e \<Rightarrow> Inl e
      | Inr endpoints \<Rightarrow>
          let resources = \<lparr>res_Resources = (toResourceUnits compute)\<lparr>Endpoints := endpoints\<rparr>,
                res_Count = sd_Count svcdepl, res_Price = price\<rparr> in
          Inr (kv_set placementName (group\<lparr>gs_Resources := gs_Resources group @ [resources]\<rparr>) gs))))))"

definition v2_DeploymentGroups :: "sdl_lib \<Rightarrow> v2 \<Rightarrow> error + group_spec list" where
  "v2_DeploymentGroups L sdl =
     map_sum id (map snd) (loop (\<lambda>(svcName, depl). loop (deployment_group L sdl svcName) depl) (v2_Deployments sdl) [])"

subsection \<open>The manifest for the provider\<close>

definition expose_less :: "service_expose \<Rightarrow> service_expose \<Rightarrow> bool" where
  "expose_less a b \<longleftrightarrow>
     (if se_Service a \<noteq> se_Service b then se_Service a < se_Service b
      else if se_Port a \<noteq> se_Port b then se_Port a < se_Port b
      else if se_Proto a \<noteq> se_Proto b then se_Proto a < se_Proto b
      else if se_Global a \<noteq> se_Global b then se_Global a else False)"

definition manifest_exposes :: "sdl_lib \<Rightarrow> v2_expose \<Rightarrow> service_expose list \<Rightarrow> error + service_expose list" where
  "manifest_exposes L x es = (case ParseServiceProtocol (unicode_upper L) (x_Proto x) of
     Inl e \<Rightarrow> Inl e
   | Inr proto \<Rightarrow> Inr (es @
       (if x_To x \<noteq> []
        then map (service_expose_of x proto) (x_To x)
        else [\<lparr>se_Port = x_Port x, se_ExternalPort = x_As x, se_Proto = proto, se_Service = [],
               se_Global = False, se_Hosts = x_Accept x\<rparr>])))"

definition manifest_service ::
  "sdl_lib \<Rightarrow> v2 \<Rightarrow> string \<Rightarrow> string \<times> v2_service_deployment \<Rightarrow> manifest_group kv \<Rightarrow> error + manifest_group kv" where
  "manifest_service L sdl svcName entry gs = (case entry of (placementName, svcdepl) \<Rightarrow>
     let group = (case kv_get gs placementName of None \<Rightarrow> \<lparr>mg_Name = placementName, mg_Services = []\<rparr> | Some g \<Rightarrow> g) in
     (case kv_get (v2_Compute sdl) (sd_Profile svcdepl) of
        None \<Rightarrow> Inl (Errorf ''no compute profile named'')
      | Some compute \<Rightarrow>
     (case kv_get (v2_Services sdl) svcName of
        None \<Rightarrow> Inl (Errorf ''no service profile named'')
      | Some svc \<Rightarrow>
     (case loop (manifest_exposes L) (v2_Expose svc) [] of
        Inl e \<Rightarrow> Inl e
      | Inr exposes \<Rightarrow>
          let msvc = \<lparr>svc_Name = svcName, svc_Image = v2_Image svc, svc_Command = [], svc_Args = v2_Args svc,
                svc_Env = v2_Env svc, svc_Resources = toResourceUnits compute, svc_Count = sd_Count svcdepl,
                svc_Expose = sort_exposes L expose_less exposes\<rparr> in
          Inr (kv_set placementName (group\<lparr>mg_Services := mg_Services group @ [msvc]\<rparr>) gs)))))"

definition v2_Manifest :: "sdl_lib \<Rightarrow> v2 \<Rightarrow> error + manifest" where
  "v2_Manifest L sdl =
     map_sum id (map snd) (loop (\<lambda>(svcName, depl). loop (manifest_service L sdl svcName) depl) (v2_Deployments sdl) [])"

subsection \<open>Reading\<close>

text \<open>\<^verbatim>\<open>sdl\<close> wraps the version that was decoded, if any.\<close>

definition sdl_DeploymentGroups :: "sdl_lib \<Rightarrow> v2 option \<Rightarrow> error + group_spec list" where
  "sdl_DeploymentGroups L data = (case data of None \<Rightarrow> Inl (Errorf ''uninitialized config'') | Some d \<Rightarrow> v2_DeploymentGroups L d)"

definition sdl_Manifest :: "sdl_lib \<Rightarrow> v2 option \<Rightarrow> error + manifest" where
  "sdl_Manifest L data = (case data of None \<Rightarrow> Inl (Errorf ''uninitialized config'') | Some d \<Rightarrow> v2_Manifest L d)"

text \<open>\<^verbatim>\<open>Read\<close> after \<^verbatim>\<open>yaml.Unmarshal\<close>: the outcome of the decoding is its argument.  \<open>None\<close> is a
  panic in one of the validations.\<close>

definition Read :: "'b env \<Rightarrow> k8s_checks \<Rightarrow> sdl_lib \<Rightarrow> error + v2 option \<Rightarrow> (error + v2 option) option" where
  "Read E K L decoded = (case decoded of Inl e \<Rightarrow> Some (Inl e) | Inr obj \<Rightarrow>
     (case sdl_DeploymentGroups L obj of Inl e \<Rightarrow> Some (Inl e) | Inr dgroups \<Rightarrow>
     (case ValidateDeploymentGroups E dgroups () of
        Ok _ _ \<Rightarrow>
          (case sdl_Manifest L obj of Inl e \<Rightarrow> Some (Inl e) | Inr m \<Rightarrow>
          (case ValidateManifest E K m of Ok _ _ \<Rightarrow> Some (Inr obj) | Err e _ \<Rightarrow> Some (Inl e) | _ \<Rightarrow> None))
      | Err e _ \<Rightarrow> Some (Inl e)
      | _ \<Rightarrow> None)))"

end
