(* ===== verification/Manifest_Properties.thy ===== *)
theory Manifest_Properties
  imports Manifest Deployment_Properties Chain_Example
begin

text \<open>
  What the two validations of a manifest accept, as specifications without loops and counters.
\<close>

subsection \<open>A manifest against a deployment\<close>

text \<open>How many instances with the same units a list of records asks for.\<close>

definition units_count :: "resource_units \<Rightarrow> resources list \<Rightarrow> nat" where
  "units_count u rs = (\<Sum>r\<leftarrow>rs. if same_units u (rs_Resources r) then unat (rs_Count r) else 0)"

lemma units_count_simps [simp]:
  "units_count u [] = 0"
  "units_count u (r # rs) = (if same_units u (rs_Resources r) then unat (rs_Count r) else 0) + units_count u rs"
  by (simp_all add: units_count_def)

lemma same_units_equiv: "same_units u u" "same_units u v \<Longrightarrow> same_units v u" "same_units u v \<Longrightarrow> same_units v w \<Longrightarrow> same_units u w"
  by (auto simp: same_units_def)

lemma match_record_spec:
  assumes "rs_Count d \<noteq> 0"
  shows "case match_record d ms of
     None \<Rightarrow> units_count (rs_Resources d) ms < unat (rs_Count d)
   | Some ms' \<Rightarrow> units_count u ms' + units_count u [d] = units_count u ms"
  using assms
proof (induction ms arbitrary: d)
  case Nil
  then show ?case by (simp add: unat_gt_0)
next
  case (Cons m ms)
  show ?case
  proof (cases "rs_Count m = 0 \<or> \<not> same_units (rs_Resources d) (rs_Resources m)")
    case True
    then show ?thesis using Cons.IH [OF Cons.prems] by (auto split: option.splits)
  next
    case False
    then have same: "same_units u (rs_Resources m) \<longleftrightarrow> same_units u (rs_Resources d)" for u
      using same_units_equiv by blast
    show ?thesis
    proof (cases "rs_Count m \<ge> rs_Count d")
      case True
      then show ?thesis using False same by (auto simp: unat_sub word_le_nat_alt)
    next
      case less: False
      let ?d = "d\<lparr>rs_Count := rs_Count d - rs_Count m\<rparr>"
      have n: "unat (rs_Count d - rs_Count m) = unat (rs_Count d) - unat (rs_Count m)" "unat (rs_Count m) < unat (rs_Count d)"
        using less by (auto simp: unat_sub word_le_nat_alt)
      have "rs_Count ?d \<noteq> 0" using less by auto
      note IH = Cons.IH [OF this]
      show ?thesis
      proof (cases "match_record ?d ms")
        case None
        with IH n same_units_equiv(1) have "units_count (rs_Resources d) (m # ms) < unat (rs_Count d)" by (simp add: same)
        with None False less show ?thesis by simp
      next
        case (Some ms')
        with IH have "units_count u ms' + units_count u [?d] = units_count u ms" by simp
        with n same [of u] have "units_count u (m\<lparr>rs_Count := 0\<rparr> # ms') + units_count u [d] = units_count u (m # ms)"
          by (cases "same_units u (rs_Resources d)") simp_all
        with Some False less show ?thesis by (simp del: units_count_simps)
      qed
    qed
  qed
qed

lemma match_records_spec:
  assumes "list_all (\<lambda>d. rs_Count d \<noteq> 0) ds"
  shows "case match_records ds ms of
     None \<Rightarrow> \<exists>u. units_count u ms < units_count u ds
   | Some ms' \<Rightarrow> \<forall>u. units_count u ms' + units_count u ds = units_count u ms"
  using assms
proof (induction ds arbitrary: ms)
  case (Cons d ds)
  then have d: "rs_Count d \<noteq> 0" and ds: "list_all (\<lambda>d. rs_Count d \<noteq> 0) ds" by simp_all
  note one = match_record_spec [OF d, of ms]
  show ?case
  proof (cases "match_record d ms")
    case None
    with one have "units_count (rs_Resources d) ms < units_count (rs_Resources d) (d # ds)" by (simp add: same_units_equiv(1))
    with None show ?thesis by (auto simp del: units_count_simps)
  next
    case (Some ms1)
    with one have ms1: "units_count u ms1 + units_count u [d] = units_count u ms" for u by simp
    show ?thesis
    proof (cases "match_records ds ms1")
      case None
      with Cons.IH [OF ds, of ms1] obtain u where "units_count u ms1 < units_count u ds" by auto
      with ms1 [of u] have "units_count u ms < units_count u (d # ds)" by simp
      with None Some show ?thesis by (auto simp del: units_count_simps)
    next
      case (Some ms2)
      with Cons.IH [OF ds, of ms1] have "units_count u ms2 + units_count u ds = units_count u ms1" for u by simp
      then have "units_count u ms2 + units_count u (d # ds) = units_count u ms" for u
        using ms1 [of u] by (metis add.assoc add.commute units_count_simps add_0_right)
      with Some \<open>match_record d ms = Some ms1\<close> show ?thesis by (simp del: units_count_simps)
    qed
  qed
qed simp

lemma exhausted: "\<not> list_ex (\<lambda>m. rs_Count m > 0) ms \<longleftrightarrow> (\<forall>u. units_count u ms = 0)"
proof (induction ms)
  case (Cons m ms)
  have "rs_Count m > 0 \<longleftrightarrow> unat (rs_Count m) \<noteq> 0" by (simp add: word_neq_0_conv [symmetric] unat_eq_zero)
  moreover have "(\<forall>u. units_count u (m # ms) = 0) \<longleftrightarrow> unat (rs_Count m) = 0 \<and> (\<forall>u. units_count u ms = 0)"
  proof (intro iffI conjI allI)
    assume "\<forall>u. units_count u (m # ms) = 0"
    then show "unat (rs_Count m) = 0" "\<And>u. units_count u ms = 0"
      using same_units_equiv(1) [of "rs_Resources m"] by (auto dest: spec [of _ "rs_Resources m"])
  qed auto
  ultimately show ?case using Cons by simp
qed simp

text \<open>The specification of a match of two groups.\<close>

definition group_fits :: "manifest_group \<Rightarrow> resource_group \<Rightarrow> bool" where
  "group_fits g d \<longleftrightarrow> (\<forall>u. units_count u (mg_GetResources g) = units_count u (rg_Resources d)) \<and>
     count_exposes False g = count_endpoints Endpoint_RANDOM_PORT (rg_Resources d) \<and>
     count_exposes True g = count_endpoints Endpoint_SHARED_HTTP (rg_Resources d)"

lemma validateManifestDeploymentGroup_iff:
  assumes "list_all (\<lambda>r. rs_Count r \<noteq> 0) (rg_Resources d)"
  shows "validateManifestDeploymentGroup g d = None \<longleftrightarrow> group_fits g d"
proof (cases "match_records (rg_Resources d) (mg_GetResources g)")
  case None
  with match_records_spec [OF assms, of "mg_GetResources g"]
  have "\<exists>u. units_count u (mg_GetResources g) < units_count u (rg_Resources d)" by simp
  then have "\<not> group_fits g d" unfolding group_fits_def by (metis less_irrefl)
  with None show ?thesis by (simp add: validateManifestDeploymentGroup_def)
next
  case (Some ms)
  with match_records_spec [OF assms, of "mg_GetResources g"]
  have ms: "units_count u ms + units_count u (rg_Resources d) = units_count u (mg_GetResources g)" for u by simp
  have "\<not> list_ex (\<lambda>m. rs_Count m > 0) ms \<longleftrightarrow> (\<forall>u. units_count u (mg_GetResources g) = units_count u (rg_Resources d))"
    unfolding exhausted using ms by (metis add_cancel_left_left)
  with Some show ?thesis by (auto simp: validateManifestDeploymentGroup_def group_fits_def)
qed

lemma dgroupByName_Some:
  assumes "distinct (map rg_Name ds)"
  shows "dgroupByName ds n = Some d \<longleftrightarrow> d \<in> set ds \<and> rg_Name d = n"
proof -
  have "distinct (map fst (rev (map (\<lambda>d. (rg_Name d, d)) ds)))"
    using assms by (simp add: comp_def flip: rev_map)
  from map_of_eq_Some_iff [OF this, of n d] show ?thesis by (auto simp: dgroupByName_def)
qed

lemma match_groups_None:
  "match_groups byName gs = None \<longleftrightarrow>
   (\<forall>g\<in>set gs. \<exists>d. byName (mg_Name g) = Some d \<and> validateManifestDeploymentGroup g d = None)"
  by (induction gs) (auto split: option.splits)

lemma validateManifestDeploymentGroups_iff:
  assumes "distinct (map rg_Name ds)" "list_all (\<lambda>d. list_all (\<lambda>r. rs_Count r \<noteq> 0) (rg_Resources d)) ds"
  shows "validateManifestDeploymentGroups m ds = None \<longleftrightarrow> length m = length ds \<and>
    list_all (\<lambda>g. list_ex (\<lambda>d. mg_Name g = rg_Name d \<and> group_fits g d) ds) m"
proof -
  have "(\<exists>d. dgroupByName ds (mg_Name g) = Some d \<and> validateManifestDeploymentGroup g d = None) \<longleftrightarrow>
      (\<exists>d\<in>set ds. mg_Name g = rg_Name d \<and> group_fits g d)" for g
    using assms validateManifestDeploymentGroup_iff by (auto simp: dgroupByName_Some list_all_iff) metis+
  then show ?thesis by (simp add: validateManifestDeploymentGroups_def match_groups_None list_all_iff list_ex_iff)
qed

text \<open>
  C31. A provider accepts a manifest for a deployment exactly when they agree: there are as many groups on both
  sides, every group of the manifest has a deployment group of its name, and in each such pair every combination of processor,
  memory and storage (attributes included) is asked for the same number of times on both sides, with as many endpoints of each
  kind in the deployment as there are global exposes that are (HTTP ingress) or are not.  The greedy matching of the code, record by record
  with partial fills, decides this for every deployment with different group names and no empty record, as
  the chain accepts them.
\<close>
theorem ValidateManifestWithDeployment_iff:
  assumes "distinct (map (\<lambda>d. gs_Name (grp_Spec d)) ds)"
    and "list_all (\<lambda>d. list_all (\<lambda>r. res_Count r \<noteq> 0) (gs_Resources (grp_Spec d))) ds"
  shows "ValidateManifestWithDeployment m ds = None \<longleftrightarrow> length m = length ds \<and>
    list_all (\<lambda>g. list_ex (\<lambda>d. mg_Name g = gs_Name (grp_Spec d) \<and> group_fits g (GroupSpec_ResourceGroup (grp_Spec d))) ds) m"
  unfolding ValidateManifestWithDeployment_def
  by (subst validateManifestDeploymentGroups_iff)
    (use assms in \<open>simp_all add: list.pred_map list_ex_iff list_all_iff GroupSpec_ResourceGroup_def comp_def\<close>)

subsection \<open>A manifest on its own\<close>

definition expose_ok :: "k8s_checks \<Rightarrow> service_expose \<Rightarrow> bool" where
  "expose_ok K e \<longleftrightarrow> se_Port e \<noteq> 0 \<and> se_Proto e \<in> {TCP, UDP} \<and> list_all (isValidHostname K) (se_Hosts e)"

definition service_ok :: "k8s_checks \<Rightarrow> service \<Rightarrow> bool" where
  "service_ok K s \<longleftrightarrow> serviceNameValidationRegex (svc_Name s) \<and> svc_Image s \<noteq> [] \<and>
     list_all (\<lambda>v. validateEnvVar K v = None) (svc_Env s) \<and> list_all (expose_ok K) (svc_Expose s)"

definition hosts_of :: "manifest_group list \<Rightarrow> string list" where
  "hosts_of gs = concat (map AllHostnamesOfManifestGroup gs)"

definition globals_of :: "manifest_group list \<Rightarrow> nat" where
  "globals_of gs = length (filter se_Global (concat (map svc_Expose (concat (map mg_Services gs)))))"

text \<open>\<open>accumulates f P hosts n\<close>: the action \<open>f\<close> succeeds exactly if \<open>P\<close> and none of its hosts was
  seen, and then adds its hosts and its number of global services.\<close>

definition accumulates :: "(unit, manifest_helper) act \<Rightarrow> bool \<Rightarrow> string list \<Rightarrow> nat \<Rightarrow> bool" where
  "accumulates f P hosts n \<longleftrightarrow> (\<forall>h h'. f h = Ok () h' \<longleftrightarrow> P \<and> distinct hosts \<and> set hosts \<inter> set (mh_hostnames h) = {} \<and>
     h' = h\<lparr>mh_hostnames := rev hosts @ mh_hostnames h, mh_globalServiceCount := mh_globalServiceCount h + of_nat n\<rparr>)"

lemma accumulates_check: "accumulates (check b e) b [] 0"
  by (auto simp: accumulates_def act_Ok)

lemma accumulates_bind:
  assumes "accumulates f P hs m" "accumulates g Q js n"
  shows "accumulates (bind f (\<lambda>_. g)) (P \<and> Q) (hs @ js) (m + n)"
  unfolding accumulates_def
proof (intro allI)
  fix h h' :: manifest_helper
  let ?h = "h\<lparr>mh_hostnames := rev hs @ mh_hostnames h, mh_globalServiceCount := mh_globalServiceCount h + of_nat m\<rparr>"
  have "bind f (\<lambda>_. g) h = Ok () h' \<longleftrightarrow> P \<and> distinct hs \<and> set hs \<inter> set (mh_hostnames h) = {} \<and> g ?h = Ok () h'"
    using assms(1) by (auto simp: accumulates_def bind_Ok_iff)
  then show "bind f (\<lambda>_. g) h = Ok () h' \<longleftrightarrow> (P \<and> Q) \<and> distinct (hs @ js) \<and> set (hs @ js) \<inter> set (mh_hostnames h) = {} \<and>
      h' = h\<lparr>mh_hostnames := rev (hs @ js) @ mh_hostnames h, mh_globalServiceCount := mh_globalServiceCount h + of_nat (m + n)\<rparr>"
    using assms(2) unfolding accumulates_def by (auto simp: add.assoc)
qed

lemma accumulates_eq: "accumulates f P hs m \<Longrightarrow> P = Q \<Longrightarrow> hs = js \<Longrightarrow> m = n \<Longrightarrow> accumulates f Q js n"
  by simp

lemma accumulates_each:
  assumes "\<And>x. accumulates (f x) (P x) (hs x) (m x)"
  shows "accumulates (each f xs) (list_all P xs) (concat (map hs xs)) (sum_list (map m xs))"
proof (induction xs)
  case Nil
  then show ?case by (auto simp: accumulates_def act_Ok)
next
  case (Cons x xs)
  then show ?case using accumulates_bind [OF assms [of x] Cons] by simp
qed

lemma accumulates_hosts: "accumulates (validate_hosts K hs) (list_all (isValidHostname K) hs) hs 0"
proof (induction hs)
  case Nil
  then show ?case by (auto simp: accumulates_def act_Ok)
next
  case (Cons x hs)
  have "accumulates (bind (check (isValidHostname K x) (Errorf ''invalid manifest'')) (\<lambda>_. bind (gets mh_hostnames) (\<lambda>seen.
      bind (check (x \<notin> set seen) (Errorf ''hostname is duplicated, this is not allowed'')) (\<lambda>_.
      modify (\<lambda>h. h\<lparr>mh_hostnames := x # mh_hostnames h\<rparr>))))) (isValidHostname K x) [x] 0"
    by (auto simp: accumulates_def bind_Ok_iff act_Ok gets_def modify_def)
  from accumulates_bind [OF this Cons] show ?case by (simp add: bind_assoc)
qed

lemma accumulates_expose:
  "accumulates (validateServiceExpose K e) (expose_ok K e) (se_Hosts e) (if se_Global e then 1 else 0)"
proof -
  have count: "accumulates (modify (\<lambda>h. if se_Global e then h\<lparr>mh_globalServiceCount := mh_globalServiceCount h + 1\<rparr> else h)) True []
      (if se_Global e then 1 else 0)"
    by (auto simp: accumulates_def modify_def)
  show ?thesis
    unfolding validateServiceExpose_def
    by (rule accumulates_eq, (rule accumulates_bind accumulates_check accumulates_hosts count)+) (auto simp: expose_ok_def)
qed

lemma accumulates_env:
  "accumulates (each (\<lambda>v. case validateEnvVar K v of None \<Rightarrow> ret () | Some e \<Rightarrow> throw e) vs)
     (list_all (\<lambda>v. validateEnvVar K v = None) vs) [] 0"
proof -
  have "accumulates (case validateEnvVar K v of None \<Rightarrow> ret () | Some e \<Rightarrow> throw e) (validateEnvVar K v = None) [] 0" for v
    by (auto simp: accumulates_def act_Ok split: option.splits)
  then show ?thesis
    by - (rule accumulates_eq, rule accumulates_each, assumption, simp_all add: map_replicate_const sum_list_replicate)
qed

lemma globals_count: "(\<Sum>e\<leftarrow>es. if P e then 1 else 0) = length (filter P es)"
  by (induction es) auto

lemma accumulates_service:
  "accumulates (validateManifestService K s) (service_ok K s) (concat (map se_Hosts (svc_Expose s)))
     (length (filter se_Global (svc_Expose s)))"
  unfolding validateManifestService_def
  by (rule accumulates_eq, (rule accumulates_bind accumulates_check accumulates_env accumulates_each accumulates_expose)+)
    (auto simp: service_ok_def serviceNameValidationRegex_def globals_count)

definition mgroup_ok :: "k8s_checks \<Rightarrow> manifest_group \<Rightarrow> bool" where
  "mgroup_ok K g \<longleftrightarrow> list_within (as_group_spec (Group_ResourceGroup g)) \<and> list_all (service_ok K) (mg_Services g)"

lemma accumulates_group:
  assumes "2 ^ 64 \<le> IntMax E"
  shows "accumulates (validateManifestGroup E K g) (mgroup_ok K g) (AllHostnamesOfManifestGroup g) (globals_of [g])"
proof -
  have list: "accumulates (ValidateResourceList E r) (list_within r) [] 0" for r
    by (auto simp: accumulates_def ValidateResourceList_Ok [OF assms])
  have "sum_list (map (\<lambda>s. length (filter P (svc_Expose s))) ss) = length (filter P (concat (map svc_Expose ss)))" for P ss
    by (induction ss) auto
  then show ?thesis
    unfolding validateManifestGroup_def
    by - (rule accumulates_eq, (rule accumulates_bind accumulates_check list accumulates_each accumulates_service)+,
      auto simp: mgroup_ok_def AllHostnamesOfManifestGroup_def globals_of_def list_within_def as_group_spec_def
        Group_ResourceGroup_def mg_GetResources_def)
qed

lemma accumulates_groups:
  assumes "2 ^ 64 \<le> IntMax E"
  shows "accumulates (validate_groups E K names gs)
    (list_all (mgroup_ok K) gs \<and> distinct (map mg_Name gs) \<and> set names \<inter> mg_Name ` set gs = {}) (hosts_of gs) (globals_of gs)"
proof (induction gs arbitrary: names)
  case Nil
  then show ?case by (auto simp: accumulates_def act_Ok hosts_of_def globals_of_def)
next
  case (Cons g gs)
  show ?case
    unfolding validate_groups.simps
    by (rule accumulates_eq, (rule accumulates_bind accumulates_check accumulates_group [OF assms] Cons)+)
      (auto simp: hosts_of_def globals_of_def)
qed

text \<open>
  A manifest is accepted exactly when it has at least one group, group names and, across the whole manifest,
  host names are all different, every group's resources are within the limits the chain checks, every service has a valid
  name, an image, valid environment variables, and every expose a port, a known protocol and valid host names, and at least one
  expose is global (counted, as in the code, in 64 bits).
\<close>
lemma ValidateManifest_iff:
  assumes "2 ^ 64 \<le> IntMax E"
  shows "(\<exists>h. ValidateManifest E K m = Ok () h) \<longleftrightarrow> m \<noteq> [] \<and> distinct (map mg_Name m) \<and> distinct (hosts_of m) \<and>
    list_all (mgroup_ok K) m \<and> (of_nat (globals_of m) :: 64 word) \<noteq> 0"
  using accumulates_groups [OF assms, of K "[]" m]
  by (auto simp: ValidateManifest_def validateManifestGroups_def bind_Ok_iff gets_def act_Ok accumulates_def)

subsection \<open>An example\<close>

definition demo_mgroup :: manifest_group where
  "demo_mgroup = \<lparr>mg_Name = ''web'', mg_Services = [\<lparr>svc_Name = ''front'', svc_Image = ''nginx'', svc_Command = [], svc_Args = [],
     svc_Env = [''A=1''], svc_Resources = res_Resources demo_resource, svc_Count = 4,
     svc_Expose = [\<lparr>se_Port = 80, se_ExternalPort = 0, se_Proto = ''TCP'', se_Service = [], se_Global = True, se_Hosts = [''a.example'']\<rparr>]\<rparr>]\<rparr>"

definition demo_dgroup :: group where
  "demo_dgroup = \<lparr>grp_ID = \<lparr>gid_Owner = ''owner'', gid_DSeq = 1, gid_GSeq = 1\<rparr>, grp_State = GroupOpen,
     grp_Spec = (demo_group [] [])\<lparr>gs_Resources := [demo_resource, demo_resource\<lparr>res_Resources :=
       (res_Resources demo_resource)\<lparr>Endpoints := [\<lparr>ep_Kind = Endpoint_SHARED_HTTP\<rparr>]\<rparr>\<rparr>]\<rparr>, grp_CreatedAt = 1\<rparr>"

text \<open>Two records of two instances on the deployment's side are served by one of four.\<close>

theorem ValidateManifestWithDeployment_iff_witness:
  "ValidateManifestWithDeployment [demo_mgroup] [demo_dgroup] = None \<and>
   group_fits demo_mgroup (GroupSpec_ResourceGroup (grp_Spec demo_dgroup))"
proof -
  have none: "ValidateManifestWithDeployment [demo_mgroup] [demo_dgroup] = None" by code_simp
  have "list_all (\<lambda>d. list_all (\<lambda>r. res_Count r \<noteq> 0) (gs_Resources (grp_Spec d))) [demo_dgroup]" by code_simp
  with ValidateManifestWithDeployment_iff [of "[demo_dgroup]" "[demo_mgroup]"] none show ?thesis by simp
qed

end
