(* ===== verification/Sdl_Properties.thy ===== *)
theory Sdl_Properties
  imports Sdl Manifest_Properties "HOL-Library.Multiset"
begin

text \<open>
  The two halves of a description agree: the manifest made from it passes the provider's check
  against the groups made from it.
\<close>

subsection \<open>Loops in step\<close>

lemma loop_related:
  assumes "\<And>x s t s' t'. R s t \<Longrightarrow> f x s = Inr s' \<Longrightarrow> g x t = Inr t' \<Longrightarrow> R s' t'"
  shows "R s t \<Longrightarrow> loop f xs s = Inr s' \<Longrightarrow> loop g xs t = Inr t' \<Longrightarrow> R s' t'"
proof (induction xs arbitrary: s t)
  case (Cons x xs)
  then show ?case using assms [of s t x] by (fastforce split: sum.splits)
qed simp

subsection \<open>Endpoints and exposes\<close>

definition kinds :: "endpoint_kind \<Rightarrow> endpoint list \<Rightarrow> nat" where
  "kinds k es = length (filter (\<lambda>e. ep_Kind e = k) es)"

definition ingress :: "bool \<Rightarrow> service_expose list \<Rightarrow> nat" where
  "ingress http es = length (filter (\<lambda>e. se_Global e \<and> ShouldBeIngress e = http) es)"

text \<open>As many endpoints of each kind as there are global exposes that become one.\<close>

definition counted :: "endpoint list \<Rightarrow> service_expose list \<Rightarrow> bool" where
  "counted eps es \<longleftrightarrow> kinds Endpoint_RANDOM_PORT eps = ingress False es \<and> kinds Endpoint_SHARED_HTTP eps = ingress True es"

lemma counted_append: "counted as bs \<Longrightarrow> counted cs ds \<Longrightarrow> counted (as @ cs) (bs @ ds)"
  by (simp add: counted_def kinds_def ingress_def)

lemma expose_endpoints_counted:
  assumes "expose_endpoints L x eps = Inr eps'" and "ParseServiceProtocol (unicode_upper L) (x_Proto x) = Inr proto"
  shows "\<exists>new. eps' = eps @ new \<and> counted new (map (service_expose_of x proto) (x_To x))"
proof -
  define step where "step to eps = (if \<not> to_Global to then Inr eps :: error + _
     else Inr (eps @ [\<lparr>ep_Kind = if ShouldBeIngress (service_expose_of x proto to) then Endpoint_SHARED_HTTP
       else Endpoint_RANDOM_PORT\<rparr>]))" for to :: v2_expose_to and eps :: "endpoint list"
  have "loop step ts eps = Inr eps' \<Longrightarrow> \<exists>new. eps' = eps @ new \<and> counted new (map (service_expose_of x proto) ts)" for ts
  proof (induction ts arbitrary: eps)
    case Nil
    then show ?case by (simp add: counted_def kinds_def ingress_def)
  next
    case (Cons t ts)
    from Cons.prems obtain eps1 where "step t eps = Inr eps1" "loop step ts eps1 = Inr eps'" by (auto split: sum.splits)
    moreover from this(1) obtain n where "eps1 = eps @ n" "counted n [service_expose_of x proto t]"
      by (auto simp: step_def counted_def kinds_def ingress_def service_expose_of_def split: if_splits)
    ultimately obtain m where "eps' = eps @ n @ m" "counted m (map (service_expose_of x proto) ts)" using Cons.IH by fastforce
    with counted_append [OF \<open>counted n _\<close> this(2)] show ?case by auto
  qed
  moreover have "expose_endpoints L x eps = loop step (x_To x) eps"
    unfolding expose_endpoints_def step_def [abs_def] using assms(2) by (simp cong: if_cong)
  ultimately show ?thesis using assms(1) by simp
qed

lemma manifest_exposes_counted:
  assumes "expose_endpoints L x eps = Inr eps'" "manifest_exposes L x es = Inr es'" "counted eps es"
  shows "counted eps' es'"
proof -
  from assms(2) obtain proto where proto: "ParseServiceProtocol (unicode_upper L) (x_Proto x) = Inr proto"
    by (auto simp: manifest_exposes_def split: sum.splits)
  from expose_endpoints_counted [OF assms(1) this] assms(2,3) proto show ?thesis
    by (cases "x_To x") (auto simp: manifest_exposes_def counted_def kinds_def ingress_def)
qed

lemma loops_counted:
  assumes "loop (expose_endpoints L) xs [] = Inr eps" "loop (manifest_exposes L) xs [] = Inr es"
  shows "counted eps es"
  by (rule loop_related [where R = counted, OF _ _ assms])
    (auto intro: manifest_exposes_counted, simp add: counted_def kinds_def ingress_def)

subsection \<open>Groups in step\<close>

text \<open>A group and its manifest after the same steps: the same units and counts, record by record, and the same endpoints.\<close>

definition in_step :: "group_spec \<Rightarrow> manifest_group \<Rightarrow> bool" where
  "in_step g mg \<longleftrightarrow> gs_Name g = mg_Name mg \<and>
     list_all2 (\<lambda>r s. same_units (res_Resources r) (svc_Resources s) \<and> res_Count r = svc_Count s \<and>
       counted (Endpoints (res_Resources r)) (svc_Expose s)) (gs_Resources g) (mg_Services mg)"

lemma in_step_fits: "in_step g mg \<Longrightarrow> group_fits mg (GroupSpec_ResourceGroup g)"
proof -
  have "list_all2 (\<lambda>r s. same_units (res_Resources r) (svc_Resources s) \<and> res_Count r = svc_Count s \<and>
       counted (Endpoints (res_Resources r)) (svc_Expose s)) rs ss \<Longrightarrow>
     units_count u (map (\<lambda>r. \<lparr>rs_Resources = res_Resources r, rs_Count = res_Count r\<rparr>) rs) =
     units_count u (map (\<lambda>s. \<lparr>rs_Resources = svc_Resources s, rs_Count = svc_Count s\<rparr>) ss) \<and>
     counted (concat (map (\<lambda>r. Endpoints (res_Resources r)) rs)) (concat (map svc_Expose ss))" for rs ss u
  proof (induction rs ss rule: list_all2_induct)
    case Nil
    then show ?case by (simp add: counted_def kinds_def ingress_def)
  next
    case (Cons r rs s ss)
    have "same_units u (res_Resources r) \<longleftrightarrow> same_units u (svc_Resources s)"
      using Cons same_units_equiv by blast
    with Cons counted_append show ?case by auto
  qed
  note all = this
  assume g: "in_step g mg"
  have "units_count u (mg_GetResources mg) = units_count u (rg_Resources (GroupSpec_ResourceGroup g))" for u
    using all [of "gs_Resources g" "mg_Services mg" u] g by (simp add: in_step_def GroupSpec_ResourceGroup_def mg_GetResources_def)
  moreover have "counted (concat (map (\<lambda>r. Endpoints (res_Resources r)) (gs_Resources g))) (concat (map svc_Expose (mg_Services mg)))"
    using all [of "gs_Resources g" "mg_Services mg"] g by (simp add: in_step_def)
  ultimately show ?thesis
    by (simp add: group_fits_def counted_def kinds_def ingress_def count_exposes_def count_endpoints_def GroupSpec_ResourceGroup_def
      comp_def)
qed

definition all_in_step :: "group_spec kv \<Rightarrow> manifest_group kv \<Rightarrow> bool" where
  "all_in_step gs ms \<longleftrightarrow> kv_ok gs \<and> kv_ok ms \<and>
     (\<forall>n. rel_option (\<lambda>g mg. gs_Name g = n \<and> in_step g mg) (kv_get gs n) (kv_get ms n))"

lemma steps_related:
  assumes "all_in_step gs ms" and "deployment_group L sdl svc entry gs = Inr gs'" and "manifest_service L sdl svc entry ms = Inr ms'"
    and sorts: "\<And>less es. mset (sort_exposes L less es) = mset es"
  shows "all_in_step gs' ms'"
proof -
  obtain n d where e: "entry = (n, d)" by force
  from assms(2) e obtain c infra price eps where c: "kv_get (v2_Compute sdl) (sd_Profile d) = Some c"
      and infra: "kv_get (v2_Placement sdl) n = Some infra"
      and eps: "loop (expose_endpoints L) (service_exposes sdl svc) [] = Inr eps"
      and gs': "gs' = kv_set n (let g = (case kv_get gs n of None \<Rightarrow> new_group_spec L n infra | Some g \<Rightarrow> g) in
        g\<lparr>gs_Resources := gs_Resources g @ [\<lparr>res_Resources = (toResourceUnits c)\<lparr>Endpoints := eps\<rparr>, res_Count = sd_Count d,
          res_Price = price\<rparr>]\<rparr>) gs"
    by (auto simp: deployment_group_def Let_def split: option.splits sum.splits)
  from assms(3) e c obtain s es where s: "kv_get (v2_Services sdl) svc = Some s"
      and es: "loop (manifest_exposes L) (v2_Expose s) [] = Inr es"
      and ms': "ms' = kv_set n (let g = (case kv_get ms n of None \<Rightarrow> \<lparr>mg_Name = n, mg_Services = []\<rparr> | Some g \<Rightarrow> g) in
        g\<lparr>mg_Services := mg_Services g @ [\<lparr>svc_Name = svc, svc_Image = v2_Image s, svc_Command = [], svc_Args = v2_Args s,
          svc_Env = v2_Env s, svc_Resources = toResourceUnits c, svc_Count = sd_Count d,
          svc_Expose = sort_exposes L expose_less es\<rparr>]\<rparr>) ms"
    by (auto simp: manifest_service_def Let_def split: option.splits sum.splits)
  have "counted eps es" using eps es s by (intro loops_counted [of L "v2_Expose s"]) (simp_all add: service_exposes_def)
  moreover have "length (filter P (sort_exposes L less es)) = length (filter P es)" for P less
    using sorts [of less es] by (metis mset_filter size_mset)
  ultimately have counted: "counted eps (sort_exposes L expose_less es)" by (simp add: counted_def ingress_def)
  have "rel_option (\<lambda>g mg. gs_Name g = n \<and> in_step g mg) (kv_get gs n) (kv_get ms n)"
    using assms(1) by (simp add: all_in_step_def)
  then have "\<exists>g mg. kv_get gs' n = Some g \<and> kv_get ms' n = Some mg \<and> gs_Name g = n \<and> in_step g mg"
    using counted unfolding gs' ms' Let_def
    by (cases "kv_get gs n"; cases "kv_get ms n")
      (auto simp: in_step_def new_group_spec_def same_units_def intro!: list_all2_appendI)
  then show ?thesis
    using assms(1) unfolding all_in_step_def by (auto simp: gs' ms')
qed

lemma kv_fst_set: "fst ` set m = {n. kv_get m n \<noteq> None}"
  by (simp add: kv_get_def map_of_eq_None_iff)

lemma kv_keys:
  assumes "kv_ok gs" "kv_ok ms" "\<And>n. kv_get gs n = None \<longleftrightarrow> kv_get ms n = None"
  shows "map fst gs = map fst ms"
  using assms by (intro sorted_distinct_set_unique) (auto simp: kv_ok_def strict_sorted_iff kv_fst_set)

lemma kv_get_nth: "kv_ok m \<Longrightarrow> i < length m \<Longrightarrow> kv_get m (fst (m ! i)) = Some (snd (m ! i))"
  by (simp add: kv_get_def kv_ok_distinct)

lemma rel_option_None: "rel_option R x y \<Longrightarrow> x = None \<longleftrightarrow> y = None"
  by (cases x; cases y) auto

lemma all_in_step_lists:
  assumes "all_in_step gs ms"
  shows "list_all2 in_step (map snd gs) (map snd ms)" "distinct (map (gs_Name \<circ> snd) gs)"
proof -
  have keys: "map fst gs = map fst ms"
    by (rule kv_keys) (use assms in \<open>auto simp: all_in_step_def dest: rel_option_None\<close>)
  have at: "in_step (snd (gs ! i)) (snd (ms ! i)) \<and> gs_Name (snd (gs ! i)) = fst (gs ! i)" if "i < length gs" for i
  proof -
    have "i < length ms" "fst (gs ! i) = fst (ms ! i)" using that keys by (metis length_map, metis length_map nth_map)
    then have "kv_get gs (fst (gs ! i)) = Some (snd (gs ! i))" "kv_get ms (fst (gs ! i)) = Some (snd (ms ! i))"
      using that assms kv_get_nth [of gs i] kv_get_nth [of ms i] by (simp_all add: all_in_step_def)
    moreover have "rel_option (\<lambda>g mg. gs_Name g = fst (gs ! i) \<and> in_step g mg) (kv_get gs (fst (gs ! i))) (kv_get ms (fst (gs ! i)))"
      using assms by (simp add: all_in_step_def)
    ultimately show ?thesis by simp
  qed
  then show "list_all2 in_step (map snd gs) (map snd ms)"
    using keys by (auto simp: list_all2_conv_all_nth dest: map_eq_imp_length_eq)
  have "map (gs_Name \<circ> snd) gs = map fst gs" using at by (intro nth_equalityI) simp_all
  moreover have "distinct (map fst gs)" using assms by (simp add: all_in_step_def kv_ok_distinct)
  ultimately show "distinct (map (gs_Name \<circ> snd) gs)" by (simp only:)
qed

subsection \<open>The two halves agree\<close>

lemma halves_in_step:
  assumes "v2_DeploymentGroups L sdl = Inr gs" "v2_Manifest L sdl = Inr m" "\<And>less es. mset (sort_exposes L less es) = mset es"
  shows "list_all2 in_step gs m" "distinct (map gs_Name gs)"
proof -
  from assms(1,2) obtain kg km where kg: "loop (\<lambda>(svcName, depl). loop (deployment_group L sdl svcName) depl) (v2_Deployments sdl) [] = Inr kg"
      "gs = map snd kg"
    and km: "loop (\<lambda>(svcName, depl). loop (manifest_service L sdl svcName) depl) (v2_Deployments sdl) [] = Inr km" "m = map snd km"
    by (auto simp: v2_DeploymentGroups_def v2_Manifest_def map_sum_def split: sum.splits)
  have "all_in_step kg km"
  proof (rule loop_related [OF _ _ kg(1) km(1)])
    fix x s t s' t'
    assume "all_in_step s t" "(case x of (svc, depl) \<Rightarrow> loop (deployment_group L sdl svc) depl) s = Inr s'"
      "(case x of (svc, depl) \<Rightarrow> loop (manifest_service L sdl svc) depl) t = Inr t'"
    then show "all_in_step s' t'"
      by (cases x) (auto intro: loop_related [where R = all_in_step] steps_related assms(3))
  qed (simp add: all_in_step_def)
  from all_in_step_lists [OF this] show "list_all2 in_step gs m" "distinct (map gs_Name gs)" by (simp_all add: kg km)
qed

text \<open>
  C30. What one description says to the chain and to the provider agrees.  If a description is accepted when it is
  read, then its groups pass the chain's validation, its manifest passes the provider's, and the provider's comparison of the manifest
  with the groups finds nothing to object to, in whatever order \<^verbatim>\<open>sort.Slice\<close> puts equal exposes.
\<close>
theorem Read_halves_agree:
  assumes "Read E K L decoded = Some (Inr obj)" and "2 ^ 64 \<le> IntMax E" and "\<And>less es. mset (sort_exposes L less es) = mset es"
  shows "\<exists>gs m h. sdl_DeploymentGroups L obj = Inr gs \<and> sdl_Manifest L obj = Inr m \<and> ValidateDeploymentGroups E gs () = Ok () () \<and>
    ValidateManifest E K m = Ok () h \<and> ValidateManifestWithGroupSpecs m gs = None"
proof -
  from assms(1) obtain gs m h where gs: "sdl_DeploymentGroups L obj = Inr gs" "ValidateDeploymentGroups E gs () = Ok () ()"
      and m: "sdl_Manifest L obj = Inr m" "ValidateManifest E K m = Ok () h"
    by (auto simp: Read_def split: sum.splits outcome.splits)
  from gs(1) m(1) obtain sdl where "v2_DeploymentGroups L sdl = Inr gs" "v2_Manifest L sdl = Inr m"
    by (auto simp: sdl_DeploymentGroups_def sdl_Manifest_def split: option.splits)
  note halves = halves_in_step [OF this assms(3)]
  have counts: "list_all (\<lambda>g. list_all (\<lambda>r. res_Count r \<noteq> 0) (gs_Resources g)) gs"
  proof -
    have "list_all (group_within E) gs"
      using gs(2) by (auto simp: ValidateDeploymentGroups_def validate_groups_loop_Ok [OF assms(2)] act_Ok split: if_splits)
    moreover have "resource_within r \<Longrightarrow> res_Count r \<noteq> 0" for r by (auto simp: resource_within_def)
    ultimately show ?thesis by (auto simp: list_all_iff group_within_def list_within_def)
  qed
  have "ValidateManifestWithGroupSpecs m gs = None"
    unfolding ValidateManifestWithGroupSpecs_def
  proof (subst validateManifestDeploymentGroups_iff)
    have "\<exists>g\<in>set gs. mg_Name mg = gs_Name g \<and> group_fits mg (GroupSpec_ResourceGroup g)" if "mg \<in> set m" for mg
      using halves(1) that in_step_fits
      by (metis (no_types, lifting) in_set_conv_nth in_step_def list_all2_conv_all_nth)
    then show "length m = length (map GroupSpec_ResourceGroup gs) \<and>
        list_all (\<lambda>g. list_ex (\<lambda>d. mg_Name g = rg_Name d \<and> group_fits g d) (map GroupSpec_ResourceGroup gs)) m"
      using halves(1) by (auto simp: list_all2_lengthD list_all_iff list_ex_iff GroupSpec_ResourceGroup_def)
  qed (use halves(2) counts in \<open>simp_all add: GroupSpec_ResourceGroup_def comp_def list.pred_map\<close>)
  with gs m show ?thesis by blast
qed

subsection \<open>An example\<close>

text \<open>Insertion sort is one of the orders \<^verbatim>\<open>sort.Slice\<close> may give.\<close>

fun insert_by :: "('a \<Rightarrow> 'a \<Rightarrow> bool) \<Rightarrow> 'a \<Rightarrow> 'a list \<Rightarrow> 'a list" where
  "insert_by lt x [] = [x]"
| "insert_by lt x (y # ys) = (if lt y x then y # insert_by lt x ys else x # y # ys)"

definition sort_by :: "('a \<Rightarrow> 'a \<Rightarrow> bool) \<Rightarrow> 'a list \<Rightarrow> 'a list" where
  "sort_by lt xs = foldr (insert_by lt) xs []"

lemma mset_insert_by: "mset (insert_by lt x ys) = add_mset x (mset ys)"
  by (induction ys) auto

lemma mset_sort_by: "mset (sort_by lt xs) = mset xs"
  unfolding sort_by_def by (induction xs) (auto simp: mset_insert_by)

definition demo_lib :: sdl_lib where
  "demo_lib = \<lparr>unicode_upper = id, sort_attributes = sort_by, sort_exposes = sort_by\<rparr>"

definition demo_checks :: k8s_checks where
  "demo_checks = \<lparr>IsEnvVarName = (\<lambda>s. s \<noteq> []), IsDNS1123Subdomain = list_all (\<lambda>c. name_char c \<or> c \<in> {CHR ''-'', CHR ''.''})\<rparr>"

text \<open>A web service with a database, placed in one data centre.\<close>

definition demo_sdl :: v2 where
  "demo_sdl = \<lparr>
     v2_Services = [(''db'', \<lparr>v2_Image = ''postgres'', v2_Command = [], v2_Args = [], v2_Env = [''PGDATA=/data''],
         v2_Expose = [\<lparr>x_Port = 5432, x_As = 0, x_Proto = ''tcp'', x_To = [\<lparr>to_Service = ''web'', to_Global = False\<rparr>], x_Accept = []\<rparr>],
         v2_Dependencies = []\<rparr>),
       (''web'', \<lparr>v2_Image = ''nginx'', v2_Command = [], v2_Args = [], v2_Env = [],
         v2_Expose = [\<lparr>x_Port = 8080, x_As = 80, x_Proto = [], x_To = [\<lparr>to_Service = [], to_Global = True\<rparr>],
             x_Accept = [''shop.example.com'']\<rparr>,
           \<lparr>x_Port = 53, x_As = 53, x_Proto = ''udp'', x_To = [\<lparr>to_Service = [], to_Global = True\<rparr>], x_Accept = []\<rparr>],
         v2_Dependencies = [''db'']\<rparr>)],
     v2_Compute = [(''small'', Some \<lparr>vr_CPU = Some \<lparr>v2c_Units = 100, v2c_Attributes = []\<rparr>,
       vr_Memory = Some \<lparr>v2q_Quantity = 2 ^ 20, v2q_Attributes = []\<rparr>, vr_Storage = Some \<lparr>v2q_Quantity = 2 ^ 30, v2q_Attributes = []\<rparr>\<rparr>)],
     v2_Placement = [(''east'', \<lparr>vp_Attributes = [\<lparr>attr_Key = ''region'', attr_Value = ''us-east''\<rparr>],
       vp_SignedBy = \<lparr>AllOf = [], AnyOf = []\<rparr>, vp_Pricing = [(''small'', \<lparr>Denom = ''uve'', Amount = 5\<rparr>)]\<rparr>)],
     v2_Deployments = [(''db'', [(''east'', \<lparr>sd_Profile = ''small'', sd_Count = 1\<rparr>)]),
       (''web'', [(''east'', \<lparr>sd_Profile = ''small'', sd_Count = 2\<rparr>)])]\<rparr>"

theorem Read_halves_agree_witness:
  "\<exists>gs m h. sdl_DeploymentGroups demo_lib (Some demo_sdl) = Inr gs \<and> sdl_Manifest demo_lib (Some demo_sdl) = Inr m \<and>
    ValidateDeploymentGroups demo_env gs () = Ok () () \<and> ValidateManifest demo_env demo_checks m = Ok () h \<and>
    ValidateManifestWithGroupSpecs m gs = None"
proof (rule Read_halves_agree)
  have "(case Read demo_env demo_checks demo_lib (Inr (Some demo_sdl)) of Some (Inr _) \<Rightarrow> True | _ \<Rightarrow> False)" by code_simp
  then show "Read demo_env demo_checks demo_lib (Inr (Some demo_sdl)) = Some (Inr (Some demo_sdl))"
    by (auto simp: Read_def split: option.splits sum.splits outcome.splits)
qed (simp_all add: demo_env_def demo_lib_def mset_sort_by)

end
