(* ===== verification/Crd.thy ===== *)
theory Crd
  imports Manifest_Properties
begin

text \<open>
  How a provider saves a lease and its manifest in the cluster and reads them back after a restart
  (\<^verbatim>\<open>pkg/apis/virtengine.network/v1/types.go\<close>): the custom resource and the conversions in both
  directions.  Numbers that may exceed what the API server keeps exactly are strings.

  Kubernetes metadata other than the name is left out.  Where the code reads a quantity that is no
  \<^verbatim>\<open>uint64\<close> it panics: \<open>None\<close>.
\<close>

subsection \<open>The resource\<close>

record crd_lease_id =
  cl_Owner :: string
  cl_DSeq :: string
  cl_GSeq :: "32 word"
  cl_OSeq :: "32 word"
  cl_Provider :: string

record crd_units =
  cu_CPU :: "32 word"
  cu_Memory :: string
  cu_Storage :: string

record crd_expose =
  ce_Port :: "16 word"
  ce_ExternalPort :: "16 word"
  ce_Proto :: string
  ce_Service :: string
  ce_Global :: bool
  ce_Hosts :: "string list"

record crd_service =
  cs_Name :: string
  cs_Image :: string
  cs_Args :: "string list"
  cs_Env :: "string list"
  cs_Resources :: crd_units
  cs_Count :: "32 word"
  cs_Expose :: "crd_expose list"

record crd_group =
  cg_Name :: string
  cg_Services :: "crd_service list"

record crd_manifest =
  cm_Name :: string
  cm_LeaseID :: crd_lease_id
  cm_Group :: crd_group

text \<open>The loops of this file append the converted elements and leave at the first error.\<close>

primrec sum_map :: "('a \<Rightarrow> error + 'c) \<Rightarrow> 'a list \<Rightarrow> error + 'c list" where
  "sum_map f [] = Inr []"
| "sum_map f (x # xs) = (case f x of Inl e \<Rightarrow> Inl e | Inr y \<Rightarrow>
     (case sum_map f xs of Inl e \<Rightarrow> Inl e | Inr ys \<Rightarrow> Inr (y # ys)))"

subsection \<open>Saving\<close>

definition leaseIDFromVirtEngine :: "lease_id \<Rightarrow> crd_lease_id" where
  "leaseIDFromVirtEngine i = \<lparr>cl_Owner = bid_Owner i, cl_DSeq = FormatWord (bid_DSeq i), cl_GSeq = bid_GSeq i,
     cl_OSeq = bid_OSeq i, cl_Provider = bid_Provider i\<rparr>"

definition resourceUnitsFromVirtEngine :: "resource_units \<Rightarrow> (error + crd_units) option" where
  "resourceUnitsFromVirtEngine u = do {
     c \<leftarrow> (case CPU u of None \<Rightarrow> Some (Inr 0) | Some c \<Rightarrow>
       map_option (\<lambda>v. if v > 4294967295 then Inl (Errorf ''k8s api: cpu units value overflows uint32'') else Inr (ucast v))
         (ResourceValue_Value (cpu_Units c)));
     case c of Inl e \<Rightarrow> Some (Inl e) | Inr c \<Rightarrow> do {
     m \<leftarrow> (case Memory u of None \<Rightarrow> Some [] | Some m \<Rightarrow> map_option FormatWord (ResourceValue_Value (mem_Quantity m)));
     s \<leftarrow> (case Storage u of None \<Rightarrow> Some [] | Some s \<Rightarrow> map_option FormatWord (ResourceValue_Value (sto_Quantity s)));
     Some (Inr \<lparr>cu_CPU = c, cu_Memory = m, cu_Storage = s\<rparr>) } }"

definition manifestServiceExposeFromVirtEngine :: "service_expose \<Rightarrow> crd_expose" where
  "manifestServiceExposeFromVirtEngine e = \<lparr>ce_Port = se_Port e, ce_ExternalPort = se_ExternalPort e, ce_Proto = se_Proto e,
     ce_Service = se_Service e, ce_Global = se_Global e, ce_Hosts = se_Hosts e\<rparr>"

definition manifestServiceFromVirtEngine :: "service \<Rightarrow> (error + crd_service) option" where
  "manifestServiceFromVirtEngine s = map_option (map_sum id (\<lambda>u. \<lparr>cs_Name = svc_Name s, cs_Image = svc_Image s,
     cs_Args = svc_Args s, cs_Env = svc_Env s, cs_Resources = u, cs_Count = svc_Count s,
     cs_Expose = map manifestServiceExposeFromVirtEngine (svc_Expose s)\<rparr>)) (resourceUnitsFromVirtEngine (svc_Resources s))"

primrec services_from :: "service list \<Rightarrow> (error + crd_service list) option" where
  "services_from [] = Some (Inr [])"
| "services_from (s # ss) = do {
     r \<leftarrow> manifestServiceFromVirtEngine s;
     case r of Inl e \<Rightarrow> Some (Inl e) | Inr c \<Rightarrow> map_option (map_sum id ((#) c)) (services_from ss) }"

definition manifestGroupFromVirtEngine :: "manifest_group \<Rightarrow> (error + crd_group) option" where
  "manifestGroupFromVirtEngine g =
     map_option (map_sum id (\<lambda>ss. \<lparr>cg_Name = mg_Name g, cg_Services = ss\<rparr>)) (services_from (mg_Services g))"

definition NewManifest :: "string \<Rightarrow> lease_id \<Rightarrow> manifest_group \<Rightarrow> (error + crd_manifest) option" where
  "NewManifest name lid mgroup = map_option (map_sum id (\<lambda>g.
     \<lparr>cm_Name = name, cm_LeaseID = leaseIDFromVirtEngine lid, cm_Group = g\<rparr>)) (manifestGroupFromVirtEngine mgroup)"

subsection \<open>Reading back\<close>

definition LeaseID_toVirtEngine :: "'b env \<Rightarrow> crd_lease_id \<Rightarrow> error + lease_id" where
  "LeaseID_toVirtEngine E i = (case FromBech32 E (cl_Owner i) of None \<Rightarrow> Inl Bech32Error | Some owner \<Rightarrow>
     (case FromBech32 E (cl_Provider i) of None \<Rightarrow> Inl Bech32Error | Some provider \<Rightarrow>
     (case ParseUint 64 (cl_DSeq i) of None \<Rightarrow> Inl ParseError | Some dseq \<Rightarrow>
       Inr \<lparr>bid_Owner = AddrString E owner, bid_DSeq = of_nat dseq, bid_GSeq = cl_GSeq i, bid_OSeq = cl_OSeq i,
         bid_Provider = AddrString E provider\<rparr>)))"

definition ResourceUnits_toVirtEngine :: "crd_units \<Rightarrow> error + resource_units" where
  "ResourceUnits_toVirtEngine u = (case ParseUint 64 (cu_Memory u) of None \<Rightarrow> Inl ParseError | Some memory \<Rightarrow>
     (case ParseUint 64 (cu_Storage u) of None \<Rightarrow> Inl ParseError | Some storage \<Rightarrow>
       Inr \<lparr>CPU = Some \<lparr>cpu_Units = NewResourceValue (ucast (cu_CPU u)), cpu_Attributes = []\<rparr>,
         Memory = Some \<lparr>mem_Quantity = NewResourceValue (of_nat memory), mem_Attributes = []\<rparr>,
         Storage = Some \<lparr>sto_Quantity = NewResourceValue (of_nat storage), sto_Attributes = []\<rparr>, Endpoints = []\<rparr>))"

definition ManifestServiceExpose_toVirtEngine :: "(string \<Rightarrow> string) \<Rightarrow> crd_expose \<Rightarrow> error + service_expose" where
  "ManifestServiceExpose_toVirtEngine U e = map_sum id (\<lambda>proto. \<lparr>se_Port = ce_Port e, se_ExternalPort = ce_ExternalPort e,
     se_Proto = proto, se_Service = ce_Service e, se_Global = ce_Global e, se_Hosts = ce_Hosts e\<rparr>)
     (ParseServiceProtocol U (ce_Proto e))"

definition ManifestService_toVirtEngine :: "(string \<Rightarrow> string) \<Rightarrow> crd_service \<Rightarrow> error + service" where
  "ManifestService_toVirtEngine U s = (case ResourceUnits_toVirtEngine (cs_Resources s) of Inl e \<Rightarrow> Inl e | Inr res \<Rightarrow>
     map_sum id (\<lambda>es. \<lparr>svc_Name = cs_Name s, svc_Image = cs_Image s, svc_Command = [], svc_Args = cs_Args s, svc_Env = cs_Env s,
       svc_Resources = res, svc_Count = cs_Count s, svc_Expose = es\<rparr>)
       (sum_map (ManifestServiceExpose_toVirtEngine U) (cs_Expose s)))"

definition ManifestGroup_toVirtEngine :: "(string \<Rightarrow> string) \<Rightarrow> crd_group \<Rightarrow> error + manifest_group" where
  "ManifestGroup_toVirtEngine U g =
     map_sum id (\<lambda>ss. \<lparr>mg_Name = cg_Name g, mg_Services = ss\<rparr>) (sum_map (ManifestService_toVirtEngine U) (cg_Services g))"

definition Manifest_Deployment :: "'b env \<Rightarrow> (string \<Rightarrow> string) \<Rightarrow> crd_manifest \<Rightarrow> error + lease_id \<times> manifest_group" where
  "Manifest_Deployment E U m = (case LeaseID_toVirtEngine E (cm_LeaseID m) of Inl e \<Rightarrow> Inl e | Inr lid \<Rightarrow>
     map_sum id (\<lambda>g. (lid, g)) (ManifestGroup_toVirtEngine U (cm_Group m)))"

subsection \<open>What survives\<close>

text \<open>What the resource has no place for: commands, and of the units the attributes and endpoints.\<close>

definition kept_units :: "resource_units \<Rightarrow> resource_units" where
  "kept_units u = u\<lparr>CPU := map_option (\<lambda>c. c\<lparr>cpu_Attributes := []\<rparr>) (CPU u),
     Memory := map_option (\<lambda>m. m\<lparr>mem_Attributes := []\<rparr>) (Memory u),
     Storage := map_option (\<lambda>s. s\<lparr>sto_Attributes := []\<rparr>) (Storage u), Endpoints := []\<rparr>"

definition kept_service :: "service \<Rightarrow> service" where
  "kept_service s = s\<lparr>svc_Command := [], svc_Resources := kept_units (svc_Resources s)\<rparr>"

definition kept_group :: "manifest_group \<Rightarrow> manifest_group" where
  "kept_group g = g\<lparr>mg_Services := map kept_service (mg_Services g)\<rparr>"

lemma units_roundtrip:
  assumes "units_within u"
  shows "\<exists>c. resourceUnitsFromVirtEngine u = Some (Inr c) \<and> ResourceUnits_toVirtEngine c = Inr (kept_units u)"
proof -
  obtain c m s where u: "u = \<lparr>CPU = Some c, Memory = Some m, Storage = Some s, Endpoints = Endpoints u\<rparr>"
      and b: "10 \<le> Val (cpu_Units c)" "Val (cpu_Units c) \<le> 10000" "0 \<le> Val (mem_Quantity m)" "Val (mem_Quantity m) \<le> 2 ^ 40"
        "0 \<le> Val (sto_Quantity s)" "Val (sto_Quantity s) \<le> 2 ^ 40"
    using assms by (cases u) (auto simp: units_within_def split: option.splits)
  have cpu: "(word_of_int (Val (cpu_Units c)) :: 64 word) \<le> 4294967295"
    using b by (simp add: word_le_def uint_word_of_int)
  then have "resourceUnitsFromVirtEngine u = Some (Inr \<lparr>cu_CPU = ucast (word_of_int (Val (cpu_Units c)) :: 64 word),
      cu_Memory = FormatWord (word_of_int (Val (mem_Quantity m)) :: 64 word),
      cu_Storage = FormatWord (word_of_int (Val (sto_Quantity s)) :: 64 word)\<rparr>)"
    using b by (subst u) (simp add: resourceUnitsFromVirtEngine_def ResourceValue_Value_def not_less)
  moreover have "uint (ucast (ucast (word_of_int (Val (cpu_Units c)) :: 64 word) :: 32 word) :: 64 word) = Val (cpu_Units c)"
    using b by (simp add: uint_word_of_int unsigned_ucast_eq unsigned_take_bit_eq take_bit_int_eq_self)
  ultimately show ?thesis
    using b by (subst u) (simp add: ResourceUnits_toVirtEngine_def NewResourceValue_def kept_units_def uint_word_of_int)
qed

lemma expose_roundtrip:
  assumes "se_Proto e \<in> {TCP, UDP}"
  shows "ManifestServiceExpose_toVirtEngine U (manifestServiceExposeFromVirtEngine e) = Inr e"
proof -
  have "ParseServiceProtocol U TCP = Inr TCP" "ParseServiceProtocol U UDP = Inr UDP" by code_simp+
  then show ?thesis
    using assms by (auto simp: ManifestServiceExpose_toVirtEngine_def manifestServiceExposeFromVirtEngine_def)
qed

lemma sum_map_inverse: "(\<And>x. x \<in> set xs \<Longrightarrow> f (g x) = Inr (h x)) \<Longrightarrow> sum_map f (map g xs) = Inr (map h xs)"
  by (induction xs) auto

lemma service_roundtrip:
  assumes "units_within (svc_Resources s)" and "list_all (\<lambda>e. se_Proto e \<in> {TCP, UDP}) (svc_Expose s)"
  shows "\<exists>c. manifestServiceFromVirtEngine s = Some (Inr c) \<and> ManifestService_toVirtEngine U c = Inr (kept_service s)"
proof -
  from units_roundtrip [OF assms(1)] obtain c where c: "resourceUnitsFromVirtEngine (svc_Resources s) = Some (Inr c)"
      "ResourceUnits_toVirtEngine c = Inr (kept_units (svc_Resources s))" by blast
  have "sum_map (ManifestServiceExpose_toVirtEngine U) (map manifestServiceExposeFromVirtEngine (svc_Expose s)) = Inr (svc_Expose s)"
    using sum_map_inverse [of "svc_Expose s" "ManifestServiceExpose_toVirtEngine U" manifestServiceExposeFromVirtEngine "\<lambda>e. e"]
      expose_roundtrip assms(2) by (simp add: list_all_iff)
  with c show ?thesis
    by (simp add: manifestServiceFromVirtEngine_def ManifestService_toVirtEngine_def kept_service_def)
qed

lemma services_roundtrip:
  assumes "list_all (\<lambda>s. units_within (svc_Resources s) \<and> list_all (\<lambda>e. se_Proto e \<in> {TCP, UDP}) (svc_Expose s)) ss"
  shows "\<exists>cs. services_from ss = Some (Inr cs) \<and> sum_map (ManifestService_toVirtEngine U) cs = Inr (map kept_service ss)"
  using assms
proof (induction ss)
  case (Cons s ss)
  then obtain c cs where "manifestServiceFromVirtEngine s = Some (Inr c)" "ManifestService_toVirtEngine U c = Inr (kept_service s)"
      "services_from ss = Some (Inr cs)" "sum_map (ManifestService_toVirtEngine U) cs = Inr (map kept_service ss)"
    using service_roundtrip [of s U] by auto
  then show ?case by auto
qed simp

text \<open>
  C36. A lease survives the provider's restart: saving the manifest of a lease whose group passed validation succeeds, and reading the
  saved resource back gives the same group, except for what the resource has no place for (commands, and the attributes and endpoints of
  the units), and the lease's id with its addresses in the spelling the chain prints; an id that is already written so comes back as it is.
\<close>
theorem NewManifest_roundtrip:
  assumes "mgroup_ok K g" and "decodable E (bid_Owner i)" and "decodable E (bid_Provider i)"
  shows "\<exists>c. NewManifest name i g = Some (Inr c) \<and>
    Manifest_Deployment E U c = Inr (i\<lparr>bid_Owner := std_address E (bid_Owner i), bid_Provider := std_address E (bid_Provider i)\<rparr>, kept_group g) \<and>
    (canonical E (bid_Owner i) \<and> canonical E (bid_Provider i) \<longrightarrow> Manifest_Deployment E U c = Inr (i, kept_group g))"
proof -
  have "list_all (\<lambda>s. units_within (svc_Resources s) \<and> list_all (\<lambda>e. se_Proto e \<in> {TCP, UDP}) (svc_Expose s)) (mg_Services g)"
    using assms(1) by (auto simp: mgroup_ok_def list_within_def as_group_spec_def Group_ResourceGroup_def mg_GetResources_def
      list_all_iff resource_within_def service_ok_def expose_ok_def)
  from services_roundtrip [OF this] obtain cs where cs: "services_from (mg_Services g) = Some (Inr cs)"
      "sum_map (ManifestService_toVirtEngine U) cs = Inr (map kept_service (mg_Services g))" by blast
  have "LeaseID_toVirtEngine E (leaseIDFromVirtEngine i) = Inr (i\<lparr>bid_Owner := std_address E (bid_Owner i), bid_Provider := std_address E (bid_Provider i)\<rparr>)"
    using assms(2,3) by (auto simp: decodable_def std_address_def LeaseID_toVirtEngine_def leaseIDFromVirtEngine_def)
  with cs show ?thesis
    by (simp add: std_address_canonical NewManifest_def manifestGroupFromVirtEngine_def Manifest_Deployment_def ManifestGroup_toVirtEngine_def kept_group_def)
qed

theorem NewManifest_roundtrip_witness:
  "\<exists>c. NewManifest ''lease'' demo_bid_id demo_mgroup = Some (Inr c) \<and>
     Manifest_Deployment demo_env id c = Inr (demo_bid_id, kept_group demo_mgroup)"
proof -
  have "mgroup_ok \<lparr>IsEnvVarName = (\<lambda>_. True), IsDNS1123Subdomain = (\<lambda>_. True)\<rparr> demo_mgroup" by code_simp
  moreover have can: "canonical demo_env (bid_Owner demo_bid_id) \<and> canonical demo_env (bid_Provider demo_bid_id)" by code_simp
  then have "decodable demo_env (bid_Owner demo_bid_id)" "decodable demo_env (bid_Provider demo_bid_id)"
    by (auto simp: canonical_iff decodable_def)
  ultimately show ?thesis using NewManifest_roundtrip can by blast
qed

text \<open>A reservation restored from a saved manifest claims no external port, whatever endpoints the order had.\<close>

lemma restored_no_ports: "reservationCountEndpoints (newReservation oid (Group_ResourceGroup (kept_group g))) = 0"
proof -
  have "list_all (\<lambda>x. Endpoints (rs_Resources x) = []) (mg_GetResources (kept_group g))"
    by (simp add: mg_GetResources_def kept_group_def kept_service_def kept_units_def list_all_iff)
  then show ?thesis
    unfolding reservationCountEndpoints_def newReservation_def Group_ResourceGroup_def
    by (simp add: list_all_iff cong: map_cong)
qed

end
