(* ===== verification/Event_Codec.thy ===== *)
theory Event_Codec
  imports Example Events
begin

text \<open>
  Events on the wire and back (\<^verbatim>\<open>sdkutil/event.go\<close>, \<^verbatim>\<open>types/event.go\<close> of the deployment,
  market, provider and audit modules, \<^verbatim>\<open>events/publish.go\<close>): every module event has a list of string
  attributes, and clients parse these back into module events.

  \<^verbatim>\<open>sdk.Int\<close>'s printing and parsing are fields of \<open>int_codec\<close>.  \<^verbatim>\<open>sdk.NewCoin\<close> panics on an invalid
  coin: the parsers return \<open>None\<close> then.  The \<^verbatim>\<open>Context\<close> of an event struct, module and action, is its
  constructor.
\<close>

subsection \<open>Attributes\<close>

record event_attr =
  ea_Key :: string
  ea_Value :: string

record string_event =
  sev_Type :: string
  sev_Attributes :: "event_attr list"

record sdk_event =
  ev_Type :: string
  ev_Module :: string
  ev_Action :: string
  ev_Attributes :: "event_attr list"

record int_codec =
  IntString :: "int \<Rightarrow> string"
  NewIntFromString :: "string \<Rightarrow> int option"

definition EventTypeMessage :: string where
  "EventTypeMessage = ''virtengine.v1''"

abbreviation NewAttribute :: "string \<Rightarrow> string \<Rightarrow> event_attr" where
  "NewAttribute k v \<equiv> \<lparr>ea_Key = k, ea_Value = v\<rparr>"

primrec GetString :: "event_attr list \<Rightarrow> string \<Rightarrow> error + string" where
  "GetString [] key = Inl (Errorf ''Not found'')"
| "GetString (a # as) key = (if ea_Key a = key then Inr (ea_Value a) else GetString as key)"

definition GetUint64 :: "event_attr list \<Rightarrow> string \<Rightarrow> error + 64 word" where
  "GetUint64 attrs key = (case GetString attrs key of Inl e \<Rightarrow> Inl e | Inr sval \<Rightarrow>
     (case ParseUint 64 sval of None \<Rightarrow> Inl ParseError | Some n \<Rightarrow> Inr (of_nat n)))"

definition GetAccAddress :: "'b env \<Rightarrow> event_attr list \<Rightarrow> string \<Rightarrow> error + string" where
  "GetAccAddress E attrs key = (case GetString attrs key of Inl e \<Rightarrow> Inl e | Inr sval \<Rightarrow>
     (case FromBech32 E sval of None \<Rightarrow> Inl Bech32Error | Some a \<Rightarrow> Inr a))"

definition sdkutil_ParseEvent :: "string_event \<Rightarrow> error + sdk_event" where
  "sdkutil_ParseEvent sev = (case GetString (sev_Attributes sev) ''module'' of Inl e \<Rightarrow> Inl e | Inr m \<Rightarrow>
     (case GetString (sev_Attributes sev) ''action'' of Inl e \<Rightarrow> Inl e | Inr a \<Rightarrow>
       Inr \<lparr>ev_Type = sev_Type sev, ev_Module = m, ev_Action = a, ev_Attributes = sev_Attributes sev\<rparr>))"

definition module_event :: "string \<Rightarrow> string \<Rightarrow> event_attr list \<Rightarrow> string_event" where
  "module_event m action attrs = \<lparr>sev_Type = EventTypeMessage,
     sev_Attributes = [NewAttribute ''module'' m, NewAttribute ''action'' action] @ attrs\<rparr>"

subsection \<open>Hexadecimal\<close>

text \<open>\<^verbatim>\<open>encoding/hex\<close>: two lower-case digits per byte; decoding takes both cases and rejects other
  bytes and odd lengths.\<close>

definition hex_digit :: "nat \<Rightarrow> char" where
  "hex_digit n = (if n < 10 then char_of (48 + n) else char_of (87 + n))"

definition encodeHex :: "string \<Rightarrow> string" where
  "encodeHex src = concat (map (\<lambda>b. [hex_digit (of_char b div 16), hex_digit (of_char b mod 16)]) src)"

definition fromHexChar :: "char \<Rightarrow> nat option" where
  "fromHexChar c = (let n = of_char c in
     if 48 \<le> n \<and> n \<le> 57 then Some (n - 48) else if 97 \<le> n \<and> n \<le> 102 then Some (n - 87)
     else if 65 \<le> n \<and> n \<le> 70 then Some (n - 55) else None)"

fun decodeHex :: "string \<Rightarrow> error + string" where
  "decodeHex [] = Inr []"
| "decodeHex [c] = Inl ParseError"
| "decodeHex (a # b # s) = (case (fromHexChar a, fromHexChar b) of
     (Some x, Some y) \<Rightarrow> map_sum id ((#) (char_of (16 * x + y))) (decodeHex s)
   | _ \<Rightarrow> Inl ParseError)"

subsection \<open>Deployment events\<close>

definition DeploymentIDEVAttributes :: "deployment_id \<Rightarrow> event_attr list" where
  "DeploymentIDEVAttributes i = [NewAttribute ''owner'' (did_Owner i), NewAttribute ''dseq'' (FormatWord (did_DSeq i))]"

definition GroupIDEVAttributes :: "group_id \<Rightarrow> event_attr list" where
  "GroupIDEVAttributes i = DeploymentIDEVAttributes (GroupID_DeploymentID i) @ [NewAttribute ''gseq'' (FormatWord (gid_GSeq i))]"

definition EventDeploymentCreated_ToSDKEvent :: "deployment_id \<Rightarrow> string \<Rightarrow> string_event" where
  "EventDeploymentCreated_ToSDKEvent i version = module_event ''deployment'' ''deployment-created''
     (NewAttribute ''version'' (encodeHex version) # DeploymentIDEVAttributes i)"

definition EventDeploymentUpdated_ToSDKEvent :: "deployment_id \<Rightarrow> string \<Rightarrow> string_event" where
  "EventDeploymentUpdated_ToSDKEvent i version = module_event ''deployment'' ''deployment-updated''
     (NewAttribute ''version'' (encodeHex version) # DeploymentIDEVAttributes i)"

definition EventDeploymentClosed_ToSDKEvent :: "deployment_id \<Rightarrow> string_event" where
  "EventDeploymentClosed_ToSDKEvent i = module_event ''deployment'' ''deployment-closed'' (DeploymentIDEVAttributes i)"

definition EventGroupClosed_ToSDKEvent :: "group_id \<Rightarrow> string_event" where
  "EventGroupClosed_ToSDKEvent i = module_event ''deployment'' ''group-closed'' (GroupIDEVAttributes i)"

definition EventGroupPaused_ToSDKEvent :: "group_id \<Rightarrow> string_event" where
  "EventGroupPaused_ToSDKEvent i = module_event ''deployment'' ''group-paused'' (GroupIDEVAttributes i)"

definition EventGroupStarted_ToSDKEvent :: "group_id \<Rightarrow> string_event" where
  "EventGroupStarted_ToSDKEvent i = module_event ''deployment'' ''group-started'' (GroupIDEVAttributes i)"

definition ParseEVDeploymentID :: "'b env \<Rightarrow> event_attr list \<Rightarrow> error + deployment_id" where
  "ParseEVDeploymentID E attrs = (case GetAccAddress E attrs ''owner'' of Inl e \<Rightarrow> Inl e | Inr owner \<Rightarrow>
     (case GetUint64 attrs ''dseq'' of Inl e \<Rightarrow> Inl e | Inr dseq \<Rightarrow>
       Inr \<lparr>did_Owner = AddrString E owner, did_DSeq = dseq\<rparr>))"

definition ParseEVDeploymentVersion :: "event_attr list \<Rightarrow> error + string" where
  "ParseEVDeploymentVersion attrs = (case GetString attrs ''version'' of Inl e \<Rightarrow> Inl e | Inr v \<Rightarrow> decodeHex v)"

definition ParseEVGroupID :: "'b env \<Rightarrow> event_attr list \<Rightarrow> error + group_id" where
  "ParseEVGroupID E attrs = (case ParseEVDeploymentID E attrs of Inl e \<Rightarrow> Inl e | Inr did \<Rightarrow>
     (case GetUint64 attrs ''gseq'' of Inl e \<Rightarrow> Inl e | Inr gseq \<Rightarrow>
       Inr \<lparr>gid_Owner = did_Owner did, gid_DSeq = did_DSeq did, gid_GSeq = ucast gseq\<rparr>))"

text \<open>What the parsers of all modules check first.\<close>

definition parse_for :: "string \<Rightarrow> sdk_event \<Rightarrow> (error + event) option \<Rightarrow> (error + event) option" where
  "parse_for m ev p =
     (if ev_Type ev \<noteq> EventTypeMessage then Some (Inl (Errorf ''Unknown type''))
      else if ev_Module ev \<noteq> m then Some (Inl (Errorf ''Unknown module'')) else p)"

definition Deployment_ParseEvent :: "'b env \<Rightarrow> sdk_event \<Rightarrow> (error + event) option" where
  "Deployment_ParseEvent E ev = parse_for ''deployment'' ev (Some (let as = ev_Attributes ev in
     if ev_Action ev = ''deployment-created'' then
       (case ParseEVDeploymentID E as of Inl e \<Rightarrow> Inl e | Inr did \<Rightarrow>
       (case ParseEVDeploymentVersion as of Inl e \<Rightarrow> Inl e | Inr ver \<Rightarrow> Inr (EventDeploymentCreated did ver)))
     else if ev_Action ev = ''deployment-updated'' then
       (case ParseEVDeploymentID E as of Inl e \<Rightarrow> Inl e | Inr did \<Rightarrow>
       (case ParseEVDeploymentVersion as of Inl e \<Rightarrow> Inl e | Inr ver \<Rightarrow> Inr (EventDeploymentUpdated did ver)))
     else if ev_Action ev = ''deployment-closed'' then
       (case ParseEVDeploymentID E as of Inl e \<Rightarrow> Inl e | Inr did \<Rightarrow> Inr (EventDeploymentClosed did))
     else if ev_Action ev = ''group-closed'' then
       (case ParseEVGroupID E as of Inl e \<Rightarrow> Inl e | Inr gid \<Rightarrow> Inr (EventGroupClosed gid))
     else Inl (Errorf ''Unknown action'')))"

subsection \<open>Market events\<close>

definition orderIDEVAttributes :: "order_id \<Rightarrow> event_attr list" where
  "orderIDEVAttributes i = GroupIDEVAttributes (OrderID_GroupID i) @ [NewAttribute ''oseq'' (FormatWord (oid_OSeq i))]"

definition bidIDEVAttributes :: "bid_id \<Rightarrow> event_attr list" where
  "bidIDEVAttributes i = orderIDEVAttributes (BidID_OrderID i) @ [NewAttribute ''provider'' (bid_Provider i)]"

definition leaseIDEVAttributes :: "lease_id \<Rightarrow> event_attr list" where
  "leaseIDEVAttributes i = orderIDEVAttributes (BidID_OrderID i) @ [NewAttribute ''provider'' (bid_Provider i)]"

definition priceEVAttributes :: "int_codec \<Rightarrow> coin \<Rightarrow> event_attr list" where
  "priceEVAttributes I price = [NewAttribute ''price-denom'' (Denom price), NewAttribute ''price-amount'' (IntString I (Amount price))]"

definition EventOrderCreated_ToSDKEvent :: "order_id \<Rightarrow> string_event" where
  "EventOrderCreated_ToSDKEvent i = module_event ''market'' ''order-created'' (orderIDEVAttributes i)"

definition EventOrderClosed_ToSDKEvent :: "order_id \<Rightarrow> string_event" where
  "EventOrderClosed_ToSDKEvent i = module_event ''market'' ''order-closed'' (orderIDEVAttributes i)"

definition EventBidCreated_ToSDKEvent :: "int_codec \<Rightarrow> bid_id \<Rightarrow> coin \<Rightarrow> string_event" where
  "EventBidCreated_ToSDKEvent I i p = module_event ''market'' ''bid-created'' (bidIDEVAttributes i @ priceEVAttributes I p)"

definition EventBidClosed_ToSDKEvent :: "int_codec \<Rightarrow> bid_id \<Rightarrow> coin \<Rightarrow> string_event" where
  "EventBidClosed_ToSDKEvent I i p = module_event ''market'' ''bid-closed'' (bidIDEVAttributes i @ priceEVAttributes I p)"

definition EventLeaseCreated_ToSDKEvent :: "int_codec \<Rightarrow> lease_id \<Rightarrow> coin \<Rightarrow> string_event" where
  "EventLeaseCreated_ToSDKEvent I i p = module_event ''market'' ''lease-created'' (leaseIDEVAttributes i @ priceEVAttributes I p)"

definition EventLeaseClosed_ToSDKEvent :: "int_codec \<Rightarrow> lease_id \<Rightarrow> coin \<Rightarrow> string_event" where
  "EventLeaseClosed_ToSDKEvent I i p = module_event ''market'' ''lease-closed'' (leaseIDEVAttributes i @ priceEVAttributes I p)"

definition parseEVOrderID :: "'b env \<Rightarrow> event_attr list \<Rightarrow> error + order_id" where
  "parseEVOrderID E attrs = (case ParseEVGroupID E attrs of Inl e \<Rightarrow> Inl e | Inr gid \<Rightarrow>
     (case GetUint64 attrs ''oseq'' of Inl e \<Rightarrow> Inl e | Inr oseq \<Rightarrow>
       Inr \<lparr>oid_Owner = gid_Owner gid, oid_DSeq = gid_DSeq gid, oid_GSeq = gid_GSeq gid, oid_OSeq = ucast oseq\<rparr>))"

definition parseEVBidID :: "'b env \<Rightarrow> event_attr list \<Rightarrow> error + bid_id" where
  "parseEVBidID E attrs = (case parseEVOrderID E attrs of Inl e \<Rightarrow> Inl e | Inr oid \<Rightarrow>
     (case GetAccAddress E attrs ''provider'' of Inl e \<Rightarrow> Inl e | Inr provider \<Rightarrow>
       Inr \<lparr>bid_Owner = oid_Owner oid, bid_DSeq = oid_DSeq oid, bid_GSeq = oid_GSeq oid, bid_OSeq = oid_OSeq oid,
         bid_Provider = AddrString E provider\<rparr>))"

definition parseEVLeaseID :: "'b env \<Rightarrow> event_attr list \<Rightarrow> error + lease_id" where
  "parseEVLeaseID E attrs = parseEVBidID E attrs"

definition parseEVPriceAttributes :: "'b env \<Rightarrow> int_codec \<Rightarrow> event_attr list \<Rightarrow> (error + coin) option" where
  "parseEVPriceAttributes E I attrs = (case GetString attrs ''price-denom'' of Inl e \<Rightarrow> Some (Inl e) | Inr denom \<Rightarrow>
     (case GetString attrs ''price-amount'' of Inl e \<Rightarrow> Some (Inl e) | Inr amounts \<Rightarrow>
     (case NewIntFromString I amounts of None \<Rightarrow> Some (Inl (Errorf ''error parsing price''))
      | Some amount \<Rightarrow> map_option Inr (NewCoin E denom amount))))"

text \<open>An optional price that is missing is the empty coin.\<close>

definition with_price :: "(error + coin) option \<Rightarrow> (coin \<Rightarrow> event) \<Rightarrow> (error + event) option" where
  "with_price p f = map_option (map_sum id f) p"

definition with_optional_price :: "(error + coin) option \<Rightarrow> (coin \<Rightarrow> event) \<Rightarrow> (error + event) option" where
  "with_optional_price p f = map_option (\<lambda>r. Inr (f (case r of Inl _ \<Rightarrow> \<lparr>Denom = [], Amount = 0\<rparr> | Inr c \<Rightarrow> c))) p"

definition Market_ParseEvent :: "'b env \<Rightarrow> int_codec \<Rightarrow> sdk_event \<Rightarrow> (error + event) option" where
  "Market_ParseEvent E I ev = parse_for ''market'' ev (let as = ev_Attributes ev in
     if ev_Action ev = ''order-created'' then Some (map_sum id EventOrderCreated (parseEVOrderID E as))
     else if ev_Action ev = ''order-closed'' then Some (map_sum id EventOrderClosed (parseEVOrderID E as))
     else if ev_Action ev = ''bid-created'' then
       (case parseEVBidID E as of Inl e \<Rightarrow> Some (Inl e) | Inr i \<Rightarrow> with_price (parseEVPriceAttributes E I as) (EventBidCreated i))
     else if ev_Action ev = ''bid-closed'' then
       (case parseEVBidID E as of Inl e \<Rightarrow> Some (Inl e) | Inr i \<Rightarrow> with_optional_price (parseEVPriceAttributes E I as) (EventBidClosed i))
     else if ev_Action ev = ''lease-created'' then
       (case parseEVLeaseID E as of Inl e \<Rightarrow> Some (Inl e) | Inr i \<Rightarrow> with_price (parseEVPriceAttributes E I as) (EventLeaseCreated i))
     else if ev_Action ev = ''lease-closed'' then
       (case parseEVLeaseID E as of Inl e \<Rightarrow> Some (Inl e) | Inr i \<Rightarrow> with_optional_price (parseEVPriceAttributes E I as) (EventLeaseClosed i))
     else Some (Inl (Errorf ''Unknown action'')))"

subsection \<open>Provider and audit events\<close>

definition ProviderEVAttributes :: "'b env \<Rightarrow> string \<Rightarrow> event_attr list" where
  "ProviderEVAttributes E owner = [NewAttribute ''owner'' (AddrString E owner)]"

definition EventProviderCreated_ToSDKEvent :: "'b env \<Rightarrow> string \<Rightarrow> string_event" where
  "EventProviderCreated_ToSDKEvent E owner = module_event ''provider'' ''provider-created'' (ProviderEVAttributes E owner)"

definition EventProviderUpdated_ToSDKEvent :: "'b env \<Rightarrow> string \<Rightarrow> string_event" where
  "EventProviderUpdated_ToSDKEvent E owner = module_event ''provider'' ''provider-updated'' (ProviderEVAttributes E owner)"

definition EventProviderDeleted_ToSDKEvent :: "'b env \<Rightarrow> string \<Rightarrow> string_event" where
  "EventProviderDeleted_ToSDKEvent E owner = module_event ''provider'' ''provider-deleted'' (ProviderEVAttributes E owner)"

definition ParseEVProvider :: "'b env \<Rightarrow> event_attr list \<Rightarrow> error + string" where
  "ParseEVProvider E attrs = GetAccAddress E attrs ''owner''"

definition Provider_ParseEvent :: "'b env \<Rightarrow> sdk_event \<Rightarrow> (error + event) option" where
  "Provider_ParseEvent E ev = parse_for ''provider'' ev (Some (let as = ev_Attributes ev in
     if ev_Action ev = ''provider-created'' then map_sum id EventProviderCreated (ParseEVProvider E as)
     else if ev_Action ev = ''provider-updated'' then map_sum id EventProviderUpdated (ParseEVProvider E as)
     else if ev_Action ev = ''provider-deleted'' then map_sum id EventProviderDeleted (ParseEVProvider E as)
     else Inl (Errorf ''Unknown action'')))"

definition TrustedAuditorEVAttributes :: "'b env \<Rightarrow> string \<Rightarrow> string \<Rightarrow> event_attr list" where
  "TrustedAuditorEVAttributes E owner auditor =
     [NewAttribute ''owner'' (AddrString E owner), NewAttribute ''auditor'' (AddrString E auditor)]"

definition EventTrustedAuditorCreated_ToSDKEvent :: "'b env \<Rightarrow> string \<Rightarrow> string \<Rightarrow> string_event" where
  "EventTrustedAuditorCreated_ToSDKEvent E owner auditor =
     module_event ''audit'' ''audit-trusted-auditor-created'' (TrustedAuditorEVAttributes E owner auditor)"

definition EventTrustedAuditorDeleted_ToSDKEvent :: "'b env \<Rightarrow> string \<Rightarrow> string \<Rightarrow> string_event" where
  "EventTrustedAuditorDeleted_ToSDKEvent E owner auditor =
     module_event ''audit'' ''audit-trusted-auditor-deleted'' (TrustedAuditorEVAttributes E owner auditor)"

definition ParseEVTTrustedAuditor :: "'b env \<Rightarrow> event_attr list \<Rightarrow> error + string \<times> string" where
  "ParseEVTTrustedAuditor E attrs = (case GetAccAddress E attrs ''owner'' of Inl e \<Rightarrow> Inl e | Inr owner \<Rightarrow>
     (case GetAccAddress E attrs ''auditor'' of Inl e \<Rightarrow> Inl e | Inr auditor \<Rightarrow> Inr (owner, auditor)))"

definition Audit_ParseEvent :: "'b env \<Rightarrow> sdk_event \<Rightarrow> (error + event) option" where
  "Audit_ParseEvent E ev = parse_for ''audit'' ev (Some (let as = ev_Attributes ev in
     if ev_Action ev = ''audit-trusted-auditor-created'' then
       map_sum id (\<lambda>(owner, auditor). EventTrustedAuditorCreated owner auditor) (ParseEVTTrustedAuditor E as)
     else if ev_Action ev = ''audit-trusted-auditor-deleted'' then
       map_sum id (\<lambda>(owner, auditor). EventTrustedAuditorDeleted owner auditor) (ParseEVTTrustedAuditor E as)
     else Inl (Errorf ''Unknown action'')))"

subsection \<open>From the chain to subscribers\<close>

text \<open>The method \<^verbatim>\<open>ToSDKEvent\<close> of the interface \<^verbatim>\<open>ModuleEvent\<close>.\<close>

definition ToSDKEvent :: "'b env \<Rightarrow> int_codec \<Rightarrow> event \<Rightarrow> string_event" where
  "ToSDKEvent E I ev = (case ev of
     EventDeploymentCreated i v \<Rightarrow> EventDeploymentCreated_ToSDKEvent i v
   | EventDeploymentUpdated i v \<Rightarrow> EventDeploymentUpdated_ToSDKEvent i v
   | EventDeploymentClosed i \<Rightarrow> EventDeploymentClosed_ToSDKEvent i
   | EventGroupClosed i \<Rightarrow> EventGroupClosed_ToSDKEvent i
   | EventGroupPaused i \<Rightarrow> EventGroupPaused_ToSDKEvent i
   | EventGroupStarted i \<Rightarrow> EventGroupStarted_ToSDKEvent i
   | EventOrderCreated i \<Rightarrow> EventOrderCreated_ToSDKEvent i
   | EventOrderClosed i \<Rightarrow> EventOrderClosed_ToSDKEvent i
   | EventBidCreated i p \<Rightarrow> EventBidCreated_ToSDKEvent I i p
   | EventBidClosed i p \<Rightarrow> EventBidClosed_ToSDKEvent I i p
   | EventLeaseCreated i p \<Rightarrow> EventLeaseCreated_ToSDKEvent I i p
   | EventLeaseClosed i p \<Rightarrow> EventLeaseClosed_ToSDKEvent I i p
   | EventProviderCreated a \<Rightarrow> EventProviderCreated_ToSDKEvent E a
   | EventProviderUpdated a \<Rightarrow> EventProviderUpdated_ToSDKEvent E a
   | EventProviderDeleted a \<Rightarrow> EventProviderDeleted_ToSDKEvent E a
   | EventTrustedAuditorCreated a b \<Rightarrow> EventTrustedAuditorCreated_ToSDKEvent E a b
   | EventTrustedAuditorDeleted a b \<Rightarrow> EventTrustedAuditorDeleted_ToSDKEvent E a b)"

text \<open>\<open>or_else p q\<close>: the next parser is tried when this one reports an error.\<close>

definition or_else :: "(error + event) option \<Rightarrow> event option option \<Rightarrow> event option option" where
  "or_else p q = (case p of None \<Rightarrow> None | Some (Inr ev) \<Rightarrow> Some (Some ev) | Some (Inl _) \<Rightarrow> q)"

definition processEvent :: "'b env \<Rightarrow> int_codec \<Rightarrow> string_event \<Rightarrow> event option option" where
  "processEvent E I bev = (case sdkutil_ParseEvent bev of Inl _ \<Rightarrow> Some None | Inr ev \<Rightarrow>
     or_else (Deployment_ParseEvent E ev) (or_else (Market_ParseEvent E I ev) (or_else (Provider_ParseEvent E ev)
       (or_else (Audit_ParseEvent E ev) (Some None)))))"

end
