(* ===== verification/Event_Properties.thy ===== *)
theory Event_Properties
  imports Event_Codec
begin

text \<open>
  What the chain emits is what subscribers get: parsing the attributes of an event gives the event back.
\<close>

lemma fromHexChar_digit: "n < 16 \<Longrightarrow> fromHexChar (hex_digit n) = Some n"
  by (simp add: fromHexChar_def hex_digit_def Let_def)

lemma hex_roundtrip: "decodeHex (encodeHex s) = Inr s"
proof (induction s)
  case (Cons b s)
  have "(of_char b :: nat) < 256" by simp
  then have "(of_char b :: nat) div 16 < 16" by (intro less_mult_imp_div_less) simp
  with Cons show ?case by (simp add: encodeHex_def fromHexChar_digit)
qed (simp add: encodeHex_def)

lemma ParseUint_widened: "ParseUint 64 (FormatWord (w :: 32 word)) = Some (unat w)"
proof -
  have "unat w < 2 ^ 32" using unsigned_less [of w, where ?'a = nat] by simp
  then show ?thesis unfolding FormatWord_def by (intro ParseUint_FormatUint) simp
qed

lemma narrowed: "ucast (ucast w :: 64 word) = (w :: 32 word)"
  by (rule bit_word_eqI) (simp add: bit_simps)

subsection \<open>Attributes of ids and prices\<close>

text \<open>What an event must carry to be parsed: addresses that decode, valid prices.\<close>

definition address_ok :: "'b env \<Rightarrow> string \<Rightarrow> bool" where
  "address_ok E a \<longleftrightarrow> FromBech32 E (AddrString E a) = Some a"

definition price_ok :: "'b env \<Rightarrow> coin \<Rightarrow> bool" where
  "price_ok E c \<longleftrightarrow> ValidDenom E (Denom c) \<and> 0 \<le> Amount c \<and> Amount c \<le> IntMax E"

definition event_ok :: "'b env \<Rightarrow> event \<Rightarrow> bool" where
  "event_ok E ev \<longleftrightarrow> (case ev of
     EventDeploymentCreated i _ \<Rightarrow> decodable E (did_Owner i)
   | EventDeploymentUpdated i _ \<Rightarrow> decodable E (did_Owner i)
   | EventDeploymentClosed i \<Rightarrow> decodable E (did_Owner i)
   | EventGroupClosed i \<Rightarrow> decodable E (gid_Owner i)
   | EventGroupPaused i \<Rightarrow> decodable E (gid_Owner i)
   | EventGroupStarted i \<Rightarrow> decodable E (gid_Owner i)
   | EventOrderCreated i \<Rightarrow> decodable E (oid_Owner i)
   | EventOrderClosed i \<Rightarrow> decodable E (oid_Owner i)
   | EventBidCreated i p \<Rightarrow> decodable E (bid_Owner i) \<and> decodable E (bid_Provider i) \<and> price_ok E p
   | EventBidClosed i p \<Rightarrow> decodable E (bid_Owner i) \<and> decodable E (bid_Provider i) \<and> price_ok E p
   | EventLeaseCreated i p \<Rightarrow> decodable E (bid_Owner i) \<and> decodable E (bid_Provider i) \<and> price_ok E p
   | EventLeaseClosed i p \<Rightarrow> decodable E (bid_Owner i) \<and> decodable E (bid_Provider i) \<and> price_ok E p
   | EventProviderCreated a \<Rightarrow> address_ok E a
   | EventProviderUpdated a \<Rightarrow> address_ok E a
   | EventProviderDeleted a \<Rightarrow> address_ok E a
   | EventTrustedAuditorCreated a b \<Rightarrow> address_ok E a \<and> address_ok E b
   | EventTrustedAuditorDeleted a b \<Rightarrow> address_ok E a \<and> address_ok E b)"

text \<open>The event with its addresses in the spelling the chain prints.\<close>

definition std_event :: "'b env \<Rightarrow> event \<Rightarrow> event" where
  "std_event E ev = (let did = (\<lambda>i. i\<lparr>did_Owner := std_address E (did_Owner i)\<rparr>); gid = (\<lambda>i. i\<lparr>gid_Owner := std_address E (gid_Owner i)\<rparr>);
     oid = (\<lambda>i. i\<lparr>oid_Owner := std_address E (oid_Owner i)\<rparr>);
     bid = (\<lambda>i. i\<lparr>bid_Owner := std_address E (bid_Owner i), bid_Provider := std_address E (bid_Provider i)\<rparr>) in case ev of
     EventDeploymentCreated i v \<Rightarrow> EventDeploymentCreated (did i) v
   | EventDeploymentUpdated i v \<Rightarrow> EventDeploymentUpdated (did i) v
   | EventDeploymentClosed i \<Rightarrow> EventDeploymentClosed (did i)
   | EventGroupClosed i \<Rightarrow> EventGroupClosed (gid i)
   | EventGroupPaused i \<Rightarrow> EventGroupPaused (gid i)
   | EventGroupStarted i \<Rightarrow> EventGroupStarted (gid i)
   | EventOrderCreated i \<Rightarrow> EventOrderCreated (oid i)
   | EventOrderClosed i \<Rightarrow> EventOrderClosed (oid i)
   | EventBidCreated i p \<Rightarrow> EventBidCreated (bid i) p
   | EventBidClosed i p \<Rightarrow> EventBidClosed (bid i) p
   | EventLeaseCreated i p \<Rightarrow> EventLeaseCreated (bid i) p
   | EventLeaseClosed i p \<Rightarrow> EventLeaseClosed (bid i) p
   | _ \<Rightarrow> ev)"

lemmas attribute_defs = DeploymentIDEVAttributes_def GroupIDEVAttributes_def orderIDEVAttributes_def bidIDEVAttributes_def
  leaseIDEVAttributes_def priceEVAttributes_def ProviderEVAttributes_def TrustedAuditorEVAttributes_def

lemmas id_parts = GroupID_DeploymentID_def OrderID_GroupID_def BidID_OrderID_def

lemmas parser_defs = GetUint64_def GetAccAddress_def ParseEVDeploymentID_def ParseEVGroupID_def parseEVOrderID_def parseEVBidID_def
  parseEVLeaseID_def ParseEVDeploymentVersion_def ParseEVProvider_def ParseEVTTrustedAuditor_def

lemmas event_defs = EventDeploymentCreated_ToSDKEvent_def EventDeploymentUpdated_ToSDKEvent_def EventDeploymentClosed_ToSDKEvent_def
  EventGroupClosed_ToSDKEvent_def EventGroupPaused_ToSDKEvent_def EventGroupStarted_ToSDKEvent_def EventOrderCreated_ToSDKEvent_def
  EventOrderClosed_ToSDKEvent_def EventBidCreated_ToSDKEvent_def EventBidClosed_ToSDKEvent_def EventLeaseCreated_ToSDKEvent_def
  EventLeaseClosed_ToSDKEvent_def EventProviderCreated_ToSDKEvent_def EventProviderUpdated_ToSDKEvent_def
  EventProviderDeleted_ToSDKEvent_def EventTrustedAuditorCreated_ToSDKEvent_def EventTrustedAuditorDeleted_ToSDKEvent_def

lemma sdkutil_module_event:
  "sdkutil_ParseEvent (module_event m a as) = Inr \<lparr>ev_Type = EventTypeMessage, ev_Module = m, ev_Action = a,
     ev_Attributes = [NewAttribute ''module'' m, NewAttribute ''action'' a] @ as\<rparr>"
  by (simp add: sdkutil_ParseEvent_def module_event_def)

lemma processEvent_module:
  "processEvent E I (module_event m a as) = (let ev = \<lparr>ev_Type = EventTypeMessage, ev_Module = m, ev_Action = a,
     ev_Attributes = [NewAttribute ''module'' m, NewAttribute ''action'' a] @ as\<rparr> in
     or_else (Deployment_ParseEvent E ev) (or_else (Market_ParseEvent E I ev) (or_else (Provider_ParseEvent E ev)
       (or_else (Audit_ParseEvent E ev) (Some None)))))"
  by (simp add: processEvent_def sdkutil_module_event Let_def)

text \<open>
  C37. Subscribers get what the chain emits: for every event whose addresses decode and whose price is valid, parsing its attributes gives
  the same event, with its addresses in the spelling the chain prints (an owner logged in upper case, as the message had it, arrives
  in lower case); events whose addresses are in that spelling arrive unchanged.  The parser does not know paused and started groups, whose
  events are dropped.
\<close>
theorem processEvent_delivers:
  assumes "event_ok E ev" and "\<And>n. 0 \<le> n \<Longrightarrow> n \<le> IntMax E \<Longrightarrow> NewIntFromString I (IntString I n) = Some n"
  shows "processEvent E I (ToSDKEvent E I ev) =
    Some (case ev of EventGroupPaused _ \<Rightarrow> None | EventGroupStarted _ \<Rightarrow> None | _ \<Rightarrow> Some (std_event E ev))"
proof -
  note simps = ToSDKEvent_def event_defs processEvent_module attribute_defs id_parts parser_defs Let_def or_else_def parse_for_def
    Deployment_ParseEvent_def Market_ParseEvent_def Provider_ParseEvent_def Audit_ParseEvent_def event_ok_def decodable_def std_event_def std_address_def address_ok_def
    hex_roundtrip ParseUint_widened narrowed parseEVPriceAttributes_def price_ok_def NewCoin_def assms(2) with_price_def
    with_optional_price_def
  show ?thesis
  proof (cases ev)
    case (EventDeploymentCreated i v)
    then show ?thesis using assms(1) by (cases i) (auto simp: simps)
  next
    case (EventDeploymentUpdated i v)
    then show ?thesis using assms(1) by (cases i) (auto simp: simps)
  next
    case (EventDeploymentClosed i)
    then show ?thesis using assms(1) by (cases i) (auto simp: simps)
  next
    case (EventGroupClosed i)
    then show ?thesis using assms(1) by (cases i) (auto simp: simps)
  next
    case (EventOrderCreated i)
    then show ?thesis using assms(1) by (cases i) (auto simp: simps)
  next
    case (EventOrderClosed i)
    then show ?thesis using assms(1) by (cases i) (auto simp: simps)
  next
    case (EventBidCreated i p)
    then show ?thesis using assms(1) by (cases i; cases p) (auto simp: simps)
  next
    case (EventBidClosed i p)
    then show ?thesis using assms(1) by (cases i; cases p) (auto simp: simps)
  next
    case (EventLeaseCreated i p)
    then show ?thesis using assms(1) by (cases i; cases p) (auto simp: simps)
  next
    case (EventLeaseClosed i p)
    then show ?thesis using assms(1) by (cases i; cases p) (auto simp: simps)
  qed (use assms(1) in \<open>auto simp: simps\<close>)
qed

definition demo_ints :: int_codec where
  "demo_ints = \<lparr>IntString = (\<lambda>n. FormatUint (nat n)), NewIntFromString = (\<lambda>s. map_option int (ParseUint 255 s))\<rparr>"

lemma demo_ints_laws: "0 \<le> n \<Longrightarrow> n \<le> IntMax demo_env \<Longrightarrow> NewIntFromString demo_ints (IntString demo_ints n) = Some n"
  by (simp add: demo_ints_def demo_env_def ParseUint_FormatUint nat_less_iff)

theorem processEvent_delivers_witness:
  "let E = demo_env\<lparr>FromBech32 := (\<lambda>s. map_option (\<lambda>a. if a = ''OWNER'' then ''owner'' else a) (FromBech32 demo_env s))\<rparr>;
       ev = (\<lambda>owner. EventLeaseCreated \<lparr>bid_Owner = owner, bid_DSeq = 7, bid_GSeq = 2, bid_OSeq = 30, bid_Provider = ''prova''\<rparr>
         \<lparr>Denom = ''uve'', Amount = 12\<rparr>) in
   processEvent E demo_ints (ToSDKEvent E demo_ints (ev ''owner'')) = Some (Some (ev ''owner'')) \<and>
   processEvent E demo_ints (ToSDKEvent E demo_ints (ev ''OWNER'')) = Some (Some (ev ''owner''))"
proof -
  have ints: "0 \<le> n \<Longrightarrow> n \<le> IntMax (demo_env\<lparr>FromBech32 := f\<rparr>) \<Longrightarrow> NewIntFromString demo_ints (IntString demo_ints n) = Some n" for n f
    using demo_ints_laws by simp
  show ?thesis unfolding Let_def
    by (subst (1 2) processEvent_delivers [OF _ ints])
      (simp_all add: event_ok_def decodable_def price_ok_def demo_env_def std_event_def std_address_def)
qed

end
