(* ===== verification/Certificates.thy ===== *)
theory Certificates
  imports Example
begin

text \<open>
  The certificate module (\<^verbatim>\<open>x/cert\<close>): tenants and providers register the certificates they authenticate
  with, and revoke them.  The module's store is its own; no other module reads it on the chain.

  PEM and X.509 decoding are fields of \<open>x509\<close>: a PEM block gives its type, its bytes and whether
  anything follows it; a certificate gives its serial number and the common name of its subject.
\<close>

subsection \<open>Objects\<close>

text \<open>The enumeration is open: a decoded message may carry a number that has no name.\<close>

datatype certificate_state = CertificateStateInvalid | CertificateValid | CertificateRevoked | CertificateStateOther int

record certificate =
  crt_State :: certificate_state
  crt_Cert :: string
  crt_Pubkey :: string

record cert_id =
  cid_Owner :: string
  cid_Serial :: int

record certificate_id =
  certid_Owner :: string
  certid_Serial :: string

record certificate_response =
  rsp_Certificate :: certificate
  rsp_Serial :: int

record x509_cert =
  SerialNumber :: int
  CommonName :: string

record x509 =
  PemDecode :: "string \<Rightarrow> (string \<times> string \<times> string) option"
  ParseCertificate :: "string \<Rightarrow> x509_cert option"

record cert_state =
  certificates :: "certificate kv"

record msg_create_certificate =
  mcc_Owner :: string
  mcc_Cert :: string
  mcc_Pubkey :: string

subsection \<open>Big integers\<close>

text \<open>\<^verbatim>\<open>big.Int\<close>: \<^verbatim>\<open>Bytes\<close> is the absolute value, big endian and without leading zeros (nothing for
  zero); \<^verbatim>\<open>SetBytes\<close> reads it; \<^verbatim>\<open>SetString(s, 10)\<close> takes a sign and decimal digits.\<close>

fun nat_bytes :: "nat \<Rightarrow> string" where
  "nat_bytes n = (if n = 0 then [] else nat_bytes (n div 256) @ [char_of (n mod 256)])"

declare nat_bytes.simps [simp del]

definition Int_Bytes :: "int \<Rightarrow> string" where
  "Int_Bytes n = nat_bytes (nat \<bar>n\<bar>)"

definition SetBytes :: "string \<Rightarrow> nat" where
  "SetBytes s = foldl (\<lambda>n c. 256 * n + of_char c) 0 s"

definition digits :: "string \<Rightarrow> int option" where
  "digits s = (if s = [] \<or> \<not> list_all is_digit s then None else Some (int (digits_value s)))"

definition SetString10 :: "string \<Rightarrow> int option" where
  "SetString10 s = (case s of
     c # r \<Rightarrow> if c = CHR ''-'' then map_option uminus (digits r) else if c = CHR ''+'' then digits r else digits s
   | [] \<Rightarrow> None)"

subsection \<open>Validation\<close>

definition ParseAndValidateCertificate :: "'b env \<Rightarrow> x509 \<Rightarrow> string \<Rightarrow> string \<Rightarrow> string \<Rightarrow> error + x509_cert" where
  "ParseAndValidateCertificate E X owner crt pub =
     (case PemDecode X pub of None \<Rightarrow> Inl (Cert ErrInvalidPubkeyValue) | Some (ty, bs, rest) \<Rightarrow>
      if rest \<noteq> [] then Inl (Cert ErrInvalidPubkeyValue)
      else if ty \<noteq> ''EC PUBLIC KEY'' then Inl (Cert ErrInvalidPubkeyValue)
      else (case PemDecode X crt of None \<Rightarrow> Inl (Cert ErrInvalidCertificateValue) | Some (ty, bs, rest) \<Rightarrow>
        if rest \<noteq> [] then Inl (Cert ErrInvalidCertificateValue)
        else if ty \<noteq> ''CERTIFICATE'' then Inl (Cert ErrInvalidCertificateValue)
        else (case ParseCertificate X bs of None \<Rightarrow> Inl ParseError | Some cert \<Rightarrow>
          (case FromBech32 E (CommonName cert) of None \<Rightarrow> Inl (Cert ErrInvalidCertificateValue) | Some cowner \<Rightarrow>
            if owner \<noteq> cowner then Inl (Cert ErrInvalidCertificateValue) else Inr cert))))"

definition Certificate_Validate :: "'b env \<Rightarrow> x509 \<Rightarrow> string \<Rightarrow> certificate \<Rightarrow> error + unit" where
  "Certificate_Validate E X owner c =
     (if crt_State c \<notin> {CertificateValid, CertificateRevoked} then Inl (Cert ErrInvalidState)
      else map_sum id (\<lambda>_. ()) (ParseAndValidateCertificate E X owner (crt_Cert c) (crt_Pubkey c)))"

definition Certificate_IsState :: "certificate_state \<Rightarrow> certificate \<Rightarrow> bool" where
  "Certificate_IsState st c \<longleftrightarrow> crt_State c = st"

definition CertificateID_Equals :: "certificate_id \<Rightarrow> certificate_id \<Rightarrow> bool" where
  "CertificateID_Equals i j \<longleftrightarrow> certid_Owner i = certid_Owner j \<and> certid_Serial i = certid_Serial j"

definition ToCertID :: "'b env \<Rightarrow> certificate_id \<Rightarrow> error + cert_id" where
  "ToCertID E i = (case FromBech32 E (certid_Owner i) of None \<Rightarrow> Inl Bech32Error | Some addr \<Rightarrow>
     (case SetString10 (certid_Serial i) of None \<Rightarrow> Inl (Cert ErrInvalidSerialNumber)
      | Some serial \<Rightarrow> Inr \<lparr>cid_Owner = addr, cid_Serial = serial\<rparr>))"

definition MsgCreateCertificate_ValidateBasic :: "'b env \<Rightarrow> x509 \<Rightarrow> msg_create_certificate \<Rightarrow> error + unit" where
  "MsgCreateCertificate_ValidateBasic E X m = (case FromBech32 E (mcc_Owner m) of
     None \<Rightarrow> Inl (Sdk sdk_error.ErrInvalidAddress)
   | Some owner \<Rightarrow> map_sum id (\<lambda>_. ()) (ParseAndValidateCertificate E X owner (mcc_Cert m) (mcc_Pubkey m)))"

definition MsgRevokeCertificate_ValidateBasic :: "'b env \<Rightarrow> certificate_id \<Rightarrow> error + unit" where
  "MsgRevokeCertificate_ValidateBasic E i =
     (if FromBech32 E (certid_Owner i) = None then Inl (Sdk sdk_error.ErrInvalidAddress)
      else if SetString10 (certid_Serial i) = None then Inl (Cert ErrInvalidSerialNumber) else Inr ())"

text \<open>\<open>None\<close>: the panic of an address that does not parse.\<close>

definition MsgCreateCertificate_GetSigners :: "'b env \<Rightarrow> msg_create_certificate \<Rightarrow> string list option" where
  "MsgCreateCertificate_GetSigners E m = map_option (\<lambda>a. [a]) (FromBech32 E (mcc_Owner m))"

definition MsgRevokeCertificate_GetSigners :: "'b env \<Rightarrow> certificate_id \<Rightarrow> string list option" where
  "MsgRevokeCertificate_GetSigners E i = map_option (\<lambda>a. [a]) (FromBech32 E (certid_Owner i))"

subsection \<open>Keys\<close>

definition certificateKey :: "cert_id \<Rightarrow> string" where
  "certificateKey i = CHR 0x01 # cid_Owner i @ Int_Bytes (cid_Serial i)"

definition certificatePrefix :: "string \<Rightarrow> string" where
  "certificatePrefix owner = CHR 0x01 # owner"

definition certificateSerialFromKey :: "string \<Rightarrow> nat option" where
  "certificateSerialFromKey key = (if length key < 22 then None else Some (SetBytes (drop 21 key)))"

subsection \<open>Keeper\<close>

definition CreateCertificate :: "'b env \<Rightarrow> x509 \<Rightarrow> string \<Rightarrow> string \<Rightarrow> string \<Rightarrow> (unit, cert_state) act" where
  "CreateCertificate E X owner crt pubkey =
     bind (or_throw (ParseAndValidateCertificate E X owner crt pubkey)) (\<lambda>cert.
     let key = certificateKey \<lparr>cid_Owner = owner, cid_Serial = SerialNumber cert\<rparr> in
     bind (gets (\<lambda>s. kv_has (certificates s) key)) (\<lambda>has.
     bind (check (\<not> has) (Cert ErrCertificateExists)) (\<lambda>_.
     modify (\<lambda>s. s\<lparr>certificates := kv_set key \<lparr>crt_State = CertificateValid, crt_Cert = crt, crt_Pubkey = pubkey\<rparr> (certificates s)\<rparr>))))"

definition RevokeCertificate :: "cert_id \<Rightarrow> (unit, cert_state) act" where
  "RevokeCertificate i =
     bind (gets (\<lambda>s. kv_get (certificates s) (certificateKey i))) (\<lambda>buf.
     bind (found_or (Cert ErrCertificateNotFound) buf) (\<lambda>cert.
     bind (check (crt_State cert \<noteq> CertificateRevoked) (Cert ErrCertificateAlreadyRevoked)) (\<lambda>_.
     modify (\<lambda>s. s\<lparr>certificates := kv_set (certificateKey i) (cert\<lparr>crt_State := CertificateRevoked\<rparr>) (certificates s)\<rparr>))))"

definition GetCertificateByID :: "cert_id \<Rightarrow> cert_state \<Rightarrow> certificate_response option" where
  "GetCertificateByID i s = map_option (\<lambda>c. \<lparr>rsp_Certificate = c, rsp_Serial = cid_Serial i\<rparr>)
     (kv_get (certificates s) (certificateKey i))"

definition mustUnmarshal :: "string \<times> certificate \<Rightarrow> certificate_response option" where
  "mustUnmarshal e = map_option (\<lambda>n. \<lparr>rsp_Certificate = snd e, rsp_Serial = int n\<rparr>) (certificateSerialFromKey (fst e))"

text \<open>The four iterators, with a callback that never stops; \<open>None\<close> is a panic on the way.\<close>

definition WithCertificates :: "cert_state \<Rightarrow> certificate_response list option" where
  "WithCertificates s = opt_map mustUnmarshal (certificates s)"

definition WithCertificatesState :: "certificate_state \<Rightarrow> cert_state \<Rightarrow> certificate_response list option" where
  "WithCertificatesState st s = map_option (filter (\<lambda>r. crt_State (rsp_Certificate r) = st)) (opt_map mustUnmarshal (certificates s))"

definition WithOwner :: "string \<Rightarrow> cert_state \<Rightarrow> certificate_response list option" where
  "WithOwner owner s = opt_map mustUnmarshal (filter (\<lambda>e. prefix (certificatePrefix owner) (fst e)) (certificates s))"

definition WithOwnerState :: "string \<Rightarrow> certificate_state \<Rightarrow> cert_state \<Rightarrow> certificate_response list option" where
  "WithOwnerState owner st s = map_option (filter (\<lambda>r. crt_State (rsp_Certificate r) = st)) (WithOwner owner s)"

subsection \<open>Messages and genesis\<close>

definition Msg_CreateCertificate :: "'b env \<Rightarrow> x509 \<Rightarrow> msg_create_certificate \<Rightarrow> (unit, cert_state) act" where
  "Msg_CreateCertificate E X req =
     bind (AccAddressFromBech32 E (mcc_Owner req)) (\<lambda>owner.
     CreateCertificate E X owner (mcc_Cert req) (mcc_Pubkey req))"

definition Msg_RevokeCertificate :: "'b env \<Rightarrow> certificate_id \<Rightarrow> (unit, cert_state) act" where
  "Msg_RevokeCertificate E i = bind (or_throw (ToCertID E i)) RevokeCertificate"

datatype cert_msg = MsgCreateCertificate msg_create_certificate | MsgRevokeCertificate certificate_id

text \<open>Lists of certificates are searched by content.\<close>

definition Certificates_Contains :: "certificate list \<Rightarrow> certificate \<Rightarrow> bool" where
  "Certificates_Contains obj cert \<longleftrightarrow> list_ex (\<lambda>c. crt_Cert c = crt_Cert cert) obj"

definition Cert_NewHandler :: "'b env \<Rightarrow> x509 \<Rightarrow> cert_msg \<Rightarrow> (unit, cert_state) act" where
  "Cert_NewHandler E X m = (case m of MsgCreateCertificate m \<Rightarrow> Msg_CreateCertificate E X m
     | MsgRevokeCertificate i \<Rightarrow> Msg_RevokeCertificate E i)"

record genesis_certificate =
  gc_Owner :: string
  gc_Certificate :: certificate

definition GenesisCertificates_Contains :: "genesis_certificate list \<Rightarrow> genesis_certificate \<Rightarrow> bool" where
  "GenesisCertificates_Contains obj cert \<longleftrightarrow> list_ex (\<lambda>c. gc_Owner c = gc_Owner cert \<or>
     crt_Cert (gc_Certificate c) = crt_Cert (gc_Certificate cert)) obj"

definition GenesisCertificate_Validate :: "'b env \<Rightarrow> x509 \<Rightarrow> genesis_certificate \<Rightarrow> error + unit" where
  "GenesisCertificate_Validate E X g = (case FromBech32 E (gc_Owner g) of None \<Rightarrow> Inl Bech32Error
     | Some owner \<Rightarrow> Certificate_Validate E X owner (gc_Certificate g))"

primrec Cert_ValidateGenesis :: "'b env \<Rightarrow> x509 \<Rightarrow> genesis_certificate list \<Rightarrow> error + unit" where
  "Cert_ValidateGenesis E X [] = Inr ()"
| "Cert_ValidateGenesis E X (g # gs) = (case GenesisCertificate_Validate E X g of Inl e \<Rightarrow> Inl e | Inr _ \<Rightarrow> Cert_ValidateGenesis E X gs)"

primrec Cert_InitGenesis :: "'b env \<Rightarrow> x509 \<Rightarrow> genesis_certificate list \<Rightarrow> (unit, cert_state) act" where
  "Cert_InitGenesis E X [] = ret ()"
| "Cert_InitGenesis E X (g # gs) =
     bind (or_panic (FromBech32 E (gc_Owner g))) (\<lambda>owner.
     bind (attempt (CreateCertificate E X owner (crt_Cert (gc_Certificate g)) (crt_Pubkey (gc_Certificate g)))) (\<lambda>r.
     case r of Inl _ \<Rightarrow> panic | Inr _ \<Rightarrow> Cert_InitGenesis E X gs))"

definition Cert_ExportGenesis :: "cert_state \<Rightarrow> genesis_certificate list" where
  "Cert_ExportGenesis s = []"

text \<open>A transaction whose handler fails or panics leaves no trace.\<close>

definition cert_deliver :: "'b env \<Rightarrow> x509 \<Rightarrow> cert_msg \<Rightarrow> cert_state \<Rightarrow> cert_state" where
  "cert_deliver E X m s = (case Cert_NewHandler E X m s of Ok _ t \<Rightarrow> t | _ \<Rightarrow> s)"

end
