(* ===== verification/Certificate_Properties.thy ===== *)
theory Certificate_Properties
  imports Certificates
begin

text \<open>
  What the certificate store guarantees: a certificate is stored under its own owner and serial number, never
  changes, and once revoked stays revoked; and the iterator over an owner's certificates finds exactly these, unless
  one has serial number zero, which no iterator can read.
\<close>

subsection \<open>Serial numbers as bytes\<close>

lemma nat_bytes_value: "foldl (\<lambda>n c. 256 * n + of_char c) 0 (nat_bytes n) = n"
proof (induction n rule: nat_bytes.induct)
  case (1 n)
  show ?case
  proof (cases "n = 0")
    case False
    then show ?thesis using 1 by (subst nat_bytes.simps) simp
  qed (simp add: nat_bytes.simps)
qed

lemma SetBytes_Int_Bytes: "SetBytes (Int_Bytes n) = nat \<bar>n\<bar>"
  by (simp add: SetBytes_def Int_Bytes_def nat_bytes_value)

lemma Int_Bytes_empty: "Int_Bytes n = [] \<longleftrightarrow> n = 0"
  unfolding Int_Bytes_def by (subst nat_bytes.simps) simp

lemma Int_Bytes_eq: "Int_Bytes m = Int_Bytes n \<longleftrightarrow> \<bar>m\<bar> = \<bar>n\<bar>"
  by (metis Int_Bytes_def SetBytes_Int_Bytes abs_ge_zero eq_nat_nat_iff)

lemma certificateKey_sign: "certificateKey \<lparr>cid_Owner = a, cid_Serial = - n\<rparr> = certificateKey \<lparr>cid_Owner = a, cid_Serial = n\<rparr>"
  by (simp add: certificateKey_def Int_Bytes_def)

lemma certificateKey_abs: "certificateKey \<lparr>cid_Owner = a, cid_Serial = \<bar>n\<bar>\<rparr> = certificateKey \<lparr>cid_Owner = a, cid_Serial = n\<rparr>"
  by (simp add: certificateKey_def Int_Bytes_def)

lemma certificateKey_eq:
  "length (cid_Owner i) = length (cid_Owner j) \<Longrightarrow>
   certificateKey i = certificateKey j \<longleftrightarrow> cid_Owner i = cid_Owner j \<and> \<bar>cid_Serial i\<bar> = \<bar>cid_Serial j\<bar>"
  by (auto simp: certificateKey_def Int_Bytes_eq)

lemma certificateSerialFromKey_key:
  "length a = 20 \<Longrightarrow> certificateSerialFromKey (certificateKey \<lparr>cid_Owner = a, cid_Serial = n\<rparr>) =
     (if n = 0 then None else Some (nat \<bar>n\<bar>))"
  using SetBytes_Int_Bytes [of n] Int_Bytes_empty [of n]
  by (auto simp: certificateSerialFromKey_def certificateKey_def not_less)

lemma certificatePrefix_key:
  "length a = length b \<Longrightarrow> prefix (certificatePrefix a) (certificateKey \<lparr>cid_Owner = b, cid_Serial = n\<rparr>) \<longleftrightarrow> a = b"
  by (auto simp: certificatePrefix_def certificateKey_def prefix_def)

subsection \<open>One transaction\<close>

lemma AccAddressFromBech32_Ok: "AccAddressFromBech32 E str s = Ok a t \<longleftrightarrow> FromBech32 E str = Some a \<and> t = s"
  by (cases "FromBech32 E str") (auto simp: AccAddressFromBech32_def act_defs)

lemma or_throw_Ok: "or_throw x s = Ok a t \<longleftrightarrow> x = Inr a \<and> t = s"
  by (cases x) (auto simp: act_defs)

lemma CreateCertificate_Ok:
  "CreateCertificate E X owner crt pub s = Ok r t \<longleftrightarrow> (\<exists>cert. ParseAndValidateCertificate E X owner crt pub = Inr cert \<and>
     \<not> kv_has (certificates s) (certificateKey \<lparr>cid_Owner = owner, cid_Serial = SerialNumber cert\<rparr>) \<and>
     t = s\<lparr>certificates := kv_set (certificateKey \<lparr>cid_Owner = owner, cid_Serial = SerialNumber cert\<rparr>)
       \<lparr>crt_State = CertificateValid, crt_Cert = crt, crt_Pubkey = pub\<rparr> (certificates s)\<rparr>)"
  by (cases "ParseAndValidateCertificate E X owner crt pub") (auto simp: CreateCertificate_def act_defs Let_def)

lemma RevokeCertificate_Ok:
  "RevokeCertificate i s = Ok r t \<longleftrightarrow> (\<exists>c. kv_get (certificates s) (certificateKey i) = Some c \<and>
     crt_State c \<noteq> CertificateRevoked \<and>
     t = s\<lparr>certificates := kv_set (certificateKey i) (c\<lparr>crt_State := CertificateRevoked\<rparr>) (certificates s)\<rparr>)"
  by (cases "kv_get (certificates s) (certificateKey i)") (auto simp: RevokeCertificate_def act_defs)

text \<open>The two successful transactions, as a case rule.\<close>

lemma cert_deliver_cases:
  obtains (same) "cert_deliver E X m s = s"
  | (created) owner crt pub cert where "ParseAndValidateCertificate E X owner crt pub = Inr cert"
      "kv_get (certificates s) (certificateKey \<lparr>cid_Owner = owner, cid_Serial = SerialNumber cert\<rparr>) = None"
      "cert_deliver E X m s = s\<lparr>certificates := kv_set (certificateKey \<lparr>cid_Owner = owner, cid_Serial = SerialNumber cert\<rparr>)
         \<lparr>crt_State = CertificateValid, crt_Cert = crt, crt_Pubkey = pub\<rparr> (certificates s)\<rparr>"
  | (revoked) i c where "kv_get (certificates s) (certificateKey i) = Some c"
      "cert_deliver E X m s = s\<lparr>certificates := kv_set (certificateKey i) (c\<lparr>crt_State := CertificateRevoked\<rparr>) (certificates s)\<rparr>"
proof (cases "Cert_NewHandler E X m s")
  case (Ok r t)
  then have final: "cert_deliver E X m s = t" by (simp add: cert_deliver_def)
  show ?thesis
  proof (cases m)
    case (MsgCreateCertificate req)
    then show ?thesis using Ok created [unfolded final]
      by (auto simp: Cert_NewHandler_def Msg_CreateCertificate_def bind_Ok_iff AccAddressFromBech32_Ok CreateCertificate_Ok kv_has_def)
  next
    case (MsgRevokeCertificate i)
    then show ?thesis using Ok revoked [unfolded final]
      by (auto simp: Cert_NewHandler_def Msg_RevokeCertificate_def or_throw_Ok bind_Ok_iff RevokeCertificate_Ok)
  qed
qed (auto intro: same simp: cert_deliver_def)

subsection \<open>Reachable stores\<close>

inductive cert_reachable :: "'b env \<Rightarrow> x509 \<Rightarrow> cert_state \<Rightarrow> bool" for E X where
  genesis: "Cert_InitGenesis E X gs \<lparr>certificates = []\<rparr> = Ok () s \<Longrightarrow> cert_reachable E X s"
| deliver: "cert_reachable E X s \<Longrightarrow> cert_reachable E X (cert_deliver E X m s)"

definition genuine :: "'b env \<Rightarrow> x509 \<Rightarrow> string \<Rightarrow> certificate \<Rightarrow> bool" where
  "genuine E X k c \<longleftrightarrow> crt_State c \<in> {CertificateValid, CertificateRevoked} \<and>
     (\<exists>owner cert. ParseAndValidateCertificate E X owner (crt_Cert c) (crt_Pubkey c) = Inr cert \<and>
        k = certificateKey \<lparr>cid_Owner = owner, cid_Serial = SerialNumber cert\<rparr>)"

definition cert_inv :: "'b env \<Rightarrow> x509 \<Rightarrow> cert_state \<Rightarrow> bool" where
  "cert_inv E X s \<longleftrightarrow> kv_ok (certificates s) \<and> (\<forall>k c. kv_get (certificates s) k = Some c \<longrightarrow> genuine E X k c)"

lemma cert_inv_created:
  "cert_inv E X s \<Longrightarrow> ParseAndValidateCertificate E X owner crt pub = Inr cert \<Longrightarrow>
   cert_inv E X (s\<lparr>certificates := kv_set (certificateKey \<lparr>cid_Owner = owner, cid_Serial = SerialNumber cert\<rparr>)
     \<lparr>crt_State = CertificateValid, crt_Cert = crt, crt_Pubkey = pub\<rparr> (certificates s)\<rparr>)"
  by (auto simp: cert_inv_def genuine_def)

lemma cert_inv_genesis: "cert_inv E X s \<Longrightarrow> Cert_InitGenesis E X gs s = Ok r t \<Longrightarrow> cert_inv E X t"
proof (induction gs arbitrary: s)
  case (Cons g gs)
  then obtain owner u where "CreateCertificate E X owner (crt_Cert (gc_Certificate g)) (crt_Pubkey (gc_Certificate g)) s = Ok () u"
      and u: "Cert_InitGenesis E X gs u = Ok r t"
    by (auto simp: act_defs split: option.splits outcome.splits sum.splits)
  then have "cert_inv E X u" using cert_inv_created Cons.prems(1) by (auto simp: CreateCertificate_Ok)
  then show ?case using u Cons.IH by blast
qed (simp add: ret_def)

lemma cert_inv_deliver: assumes "cert_inv E X s" shows "cert_inv E X (cert_deliver E X m s)"
proof (cases rule: cert_deliver_cases [of E X m s])
  case same
  then show ?thesis using assms by simp
next
  case created
  then show ?thesis using assms cert_inv_created by metis
next
  case (revoked i c)
  have "genuine E X (certificateKey i) (c\<lparr>crt_State := CertificateRevoked\<rparr>)"
    using assms revoked(1) by (auto simp: cert_inv_def genuine_def)
  then show ?thesis using assms revoked by (simp add: cert_inv_def)
qed

lemma cert_reachable_inv: "cert_reachable E X s \<Longrightarrow> cert_inv E X s"
  by (induction rule: cert_reachable.induct) (auto intro: cert_inv_deliver elim!: cert_inv_genesis [rotated] simp: cert_inv_def [of E X "\<lparr>certificates = []\<rparr>"])

lemma genuine_owner: "ParseAndValidateCertificate E X owner crt pub = Inr cert \<Longrightarrow> \<exists>str. FromBech32 E str = Some owner"
  by (auto simp: ParseAndValidateCertificate_def split: option.splits if_splits prod.splits)

subsection \<open>The life of a certificate\<close>

lemma cert_deliver_keeps:
  assumes "kv_get (certificates s) k = Some c"
  shows "\<exists>c'. kv_get (certificates (cert_deliver E X m s)) k = Some c' \<and> crt_Cert c' = crt_Cert c \<and>
    crt_Pubkey c' = crt_Pubkey c \<and> crt_State c' \<in> {crt_State c, CertificateRevoked}"
  by (cases rule: cert_deliver_cases [of E X m s]) (use assms in auto)

text \<open>An example: an owner registers a certificate with serial number 5.\<close>

definition demo_owner :: string where
  "demo_owner = ''01234567890123456789''"

definition demo_env20 :: "(string \<Rightarrow> int) env" where
  "demo_env20 = demo_env\<lparr>FromBech32 := \<lambda>str. if length str = 20 then Some str else None\<rparr>"

definition demo_x509 :: x509 where
  "demo_x509 = \<lparr>PemDecode = (\<lambda>str. if str = ''pub'' then Some (''EC PUBLIC KEY'', str, []) else Some (''CERTIFICATE'', str, [])),
     ParseCertificate = (\<lambda>bs. Some \<lparr>SerialNumber = 5, CommonName = demo_owner\<rparr>)\<rparr>"

definition demo_create :: cert_msg where
  "demo_create = MsgCreateCertificate \<lparr>mcc_Owner = demo_owner, mcc_Cert = ''crt'', mcc_Pubkey = ''pub''\<rparr>"

definition demo_key :: cert_id where
  "demo_key = \<lparr>cid_Owner = demo_owner, cid_Serial = 5\<rparr>"

definition demo_cert :: certificate where
  "demo_cert = \<lparr>crt_State = CertificateValid, crt_Cert = ''crt'', crt_Pubkey = ''pub''\<rparr>"

definition demo_certs :: cert_state where
  "demo_certs = cert_deliver demo_env20 demo_x509 demo_create \<lparr>certificates = []\<rparr>"

lemma demo_certs_eval: "certificates demo_certs = [(certificateKey demo_key, demo_cert)]"
  by (simp add: demo_certs_def cert_deliver_def demo_create_def Cert_NewHandler_def Msg_CreateCertificate_def CreateCertificate_def
      ParseAndValidateCertificate_def AccAddressFromBech32_def demo_env20_def demo_x509_def demo_owner_def demo_key_def demo_cert_def
      act_defs Let_def kv_has_def)

lemma demo_certs_reachable: "cert_reachable demo_env20 demo_x509 demo_certs"
  unfolding demo_certs_def by (rule cert_reachable.deliver, rule cert_reachable.genesis [where gs = "[]"]) (simp add: ret_def)

text \<open>
  C38. No sequence of transactions removes a certificate or alters its contents, and its state changes only from what
  it was to revoked: in particular a revoked certificate can never be made valid again, nor be registered anew.
\<close>

theorem cert_lifecycle:
  assumes "kv_get (certificates s) (certificateKey i) = Some c"
  shows "\<exists>c'. kv_get (certificates (foldl (\<lambda>s m. cert_deliver E X m s) s ms)) (certificateKey i) = Some c' \<and>
    crt_Cert c' = crt_Cert c \<and> crt_Pubkey c' = crt_Pubkey c \<and> crt_State c' \<in> {crt_State c, CertificateRevoked}"
  using assms
proof (induction ms arbitrary: s c)
  case (Cons m ms)
  obtain d where d: "kv_get (certificates (cert_deliver E X m s)) (certificateKey i) = Some d" "crt_Cert d = crt_Cert c"
      "crt_Pubkey d = crt_Pubkey c" "crt_State d \<in> {crt_State c, CertificateRevoked}"
    using cert_deliver_keeps [OF Cons.prems] by blast
  then show ?case using Cons.IH [OF d(1)] by auto
qed simp

theorem cert_lifecycle_witness:
  "\<exists>c'. kv_get (certificates (foldl (\<lambda>s m. cert_deliver demo_env20 demo_x509 m s) demo_certs
      [MsgRevokeCertificate \<lparr>certid_Owner = demo_owner, certid_Serial = ''5''\<rparr>, demo_create])) (certificateKey demo_key) = Some c' \<and>
    crt_Cert c' = ''crt'' \<and> crt_Pubkey c' = ''pub'' \<and> crt_State c' \<in> {CertificateValid, CertificateRevoked}"
  using cert_lifecycle [of demo_certs demo_key demo_cert demo_env20 demo_x509
      "[MsgRevokeCertificate \<lparr>certid_Owner = demo_owner, certid_Serial = ''5''\<rparr>, demo_create]"]
  by (simp add: demo_certs_eval kv_get_def demo_cert_def del: foldl_Cons)

subsection \<open>Listing an owner's certificates\<close>

definition owner_entries :: "string \<Rightarrow> cert_state \<Rightarrow> (string \<times> certificate) list" where
  "owner_entries a s = filter (\<lambda>e. prefix (certificatePrefix a) (fst e)) (certificates s)"

definition addresses_20 :: "'b env \<Rightarrow> bool" where
  "addresses_20 E \<longleftrightarrow> (\<forall>str a. FromBech32 E str = Some a \<longrightarrow> length a = 20)"

lemma owner_entry:
  assumes "cert_inv E X s" "addresses_20 E" "length a = 20"
  shows "e \<in> set (owner_entries a s) \<longleftrightarrow> (\<exists>n. 0 \<le> n \<and> fst e = certificateKey \<lparr>cid_Owner = a, cid_Serial = n\<rparr> \<and>
    kv_get (certificates s) (fst e) = Some (snd e))"
proof
  assume e: "e \<in> set (owner_entries a s)"
  then have get: "kv_get (certificates s) (fst e) = Some (snd e)" and pre: "prefix (certificatePrefix a) (fst e)"
    using assms(1) kv.entries_get [of "certificates s" "fst e" "snd e"] by (auto simp: owner_entries_def cert_inv_def kv_entries_def)
  then obtain b cert where "ParseAndValidateCertificate E X b (crt_Cert (snd e)) (crt_Pubkey (snd e)) = Inr cert"
      and k: "fst e = certificateKey \<lparr>cid_Owner = b, cid_Serial = SerialNumber cert\<rparr>"
    using assms(1) by (fastforce simp: cert_inv_def genuine_def)
  then have "length b = 20" using assms(2) by (auto dest!: genuine_owner simp: addresses_20_def)
  then have "fst e = certificateKey \<lparr>cid_Owner = a, cid_Serial = \<bar>SerialNumber cert\<bar>\<rparr>"
    using pre k assms(3) by (simp add: certificatePrefix_key certificateKey_abs)
  then show "\<exists>n. 0 \<le> n \<and> fst e = certificateKey \<lparr>cid_Owner = a, cid_Serial = n\<rparr> \<and> kv_get (certificates s) (fst e) = Some (snd e)"
    using get abs_ge_zero by blast
next
  assume "\<exists>n. 0 \<le> n \<and> fst e = certificateKey \<lparr>cid_Owner = a, cid_Serial = n\<rparr> \<and> kv_get (certificates s) (fst e) = Some (snd e)"
  then show "e \<in> set (owner_entries a s)"
    using assms(1) kv.entries_get [of "certificates s" "fst e" "snd e"]
    by (auto simp: owner_entries_def cert_inv_def kv_entries_def certificatePrefix_key)
qed

lemma mustUnmarshal_key:
  "length a = 20 \<Longrightarrow> 0 \<le> n \<Longrightarrow> fst e = certificateKey \<lparr>cid_Owner = a, cid_Serial = n\<rparr> \<Longrightarrow>
   mustUnmarshal e = (if n = 0 then None else Some \<lparr>rsp_Certificate = snd e, rsp_Serial = n\<rparr>)"
  by (simp add: mustUnmarshal_def certificateSerialFromKey_key)

lemma opt_map_None: "opt_map f xs = None \<longleftrightarrow> (\<exists>x\<in>set xs. f x = None)"
  by (induction xs) (auto split: bind_splits)

lemma opt_map_set: "opt_map f xs = Some ys \<Longrightarrow> y \<in> set ys \<longleftrightarrow> (\<exists>x\<in>set xs. f x = Some y)"
  by (induction xs arbitrary: ys) (auto split: bind_splits)

lemma WithOwner_None:
  assumes "cert_inv E X s" "addresses_20 E" "length a = 20"
  shows "WithOwner a s = None \<longleftrightarrow> kv_has (certificates s) (certificateKey \<lparr>cid_Owner = a, cid_Serial = 0\<rparr>)"
proof -
  note entry = owner_entry [OF assms]
  have "WithOwner a s = None \<longleftrightarrow> (\<exists>e\<in>set (owner_entries a s). mustUnmarshal e = None)"
    by (simp add: WithOwner_def owner_entries_def opt_map_None)
  also have "\<dots> \<longleftrightarrow> (\<exists>e. fst e = certificateKey \<lparr>cid_Owner = a, cid_Serial = 0\<rparr> \<and> kv_get (certificates s) (fst e) = Some (snd e))"
    using entry mustUnmarshal_key [OF assms(3)] by (metis option.distinct(1) order_refl)
  finally show ?thesis by (force simp: kv_has_def)
qed

lemma WithOwner_member:
  assumes "cert_inv E X s" "addresses_20 E" "length a = 20" "WithOwner a s = Some rs"
  shows "r \<in> set rs \<longleftrightarrow> 0 < rsp_Serial r \<and> GetCertificateByID \<lparr>cid_Owner = a, cid_Serial = rsp_Serial r\<rparr> s = Some r"
proof -
  note entry = owner_entry [OF assms(1-3)]
  have "r \<in> set rs \<longleftrightarrow> (\<exists>e\<in>set (owner_entries a s). mustUnmarshal e = Some r)"
    using assms(4) by (simp add: WithOwner_def owner_entries_def opt_map_set)
  also have "\<dots> \<longleftrightarrow> (\<exists>e n. 0 < n \<and> fst e = certificateKey \<lparr>cid_Owner = a, cid_Serial = n\<rparr> \<and>
      kv_get (certificates s) (fst e) = Some (snd e) \<and> r = \<lparr>rsp_Certificate = snd e, rsp_Serial = n\<rparr>)"
    using entry mustUnmarshal_key [OF assms(3)] by (smt (verit) option.inject option.distinct(1))
  finally show ?thesis by (force simp: GetCertificateByID_def)
qed

text \<open>
  In every reachable certificate store the iterator over an owner's certificates visits exactly the
  certificates that a lookup under this owner finds, each with its own serial number; or it panics, exactly when the
  owner has registered a certificate with serial number zero.
\<close>

lemma WithOwner_exact:
  assumes "cert_reachable E X s" "addresses_20 E" "FromBech32 E str = Some a"
  shows "case WithOwner a s of
      None \<Rightarrow> kv_has (certificates s) (certificateKey \<lparr>cid_Owner = a, cid_Serial = 0\<rparr>)
    | Some rs \<Rightarrow> \<not> kv_has (certificates s) (certificateKey \<lparr>cid_Owner = a, cid_Serial = 0\<rparr>) \<and>
        (\<forall>r. r \<in> set rs \<longleftrightarrow> 0 < rsp_Serial r \<and> GetCertificateByID \<lparr>cid_Owner = a, cid_Serial = rsp_Serial r\<rparr> s = Some r)"
proof -
  have a: "length a = 20" using assms(2,3) by (simp add: addresses_20_def)
  note inv = cert_reachable_inv [OF assms(1)]
  show ?thesis
    using WithOwner_None [OF inv assms(2) a] WithOwner_member [OF inv assms(2) a] by (auto split: option.split)
qed

subsection \<open>Shortcomings\<close>

text \<open>A revocation drops the sign of the number it is given.\<close>

lemma RevokeCertificate_sign:
  "RevokeCertificate \<lparr>cid_Owner = a, cid_Serial = - n\<rparr> s = RevokeCertificate \<lparr>cid_Owner = a, cid_Serial = n\<rparr> s"
  by (simp add: RevokeCertificate_def certificateKey_sign)

text \<open>One certificate with serial number zero makes every iteration over the whole store panic.\<close>

lemma WithCertificates_zero:
  assumes "kv_get (certificates s) (certificateKey \<lparr>cid_Owner = a, cid_Serial = 0\<rparr>) = Some c" "length a = 20"
  shows "WithCertificates s = None"
  using assms map_of_SomeD [of "certificates s"]
  by (force simp: WithCertificates_def opt_map_None kv_get_def mustUnmarshal_def certificateSerialFromKey_key)

text \<open>Importing a genesis makes revoked certificates valid again.\<close>

lemma InitGenesis_revives:
  assumes "FromBech32 E (gc_Owner g) = Some a"
    and "ParseAndValidateCertificate E X a (crt_Cert (gc_Certificate g)) (crt_Pubkey (gc_Certificate g)) = Inr cert"
  shows "\<exists>s. Cert_InitGenesis E X [g] \<lparr>certificates = []\<rparr> = Ok () s \<and>
    kv_get (certificates s) (certificateKey \<lparr>cid_Owner = a, cid_Serial = SerialNumber cert\<rparr>) =
      Some ((gc_Certificate g)\<lparr>crt_State := CertificateValid\<rparr>)"
  using assms by (cases "gc_Certificate g") (simp add: CreateCertificate_def act_defs Let_def kv_has_def kv_get_def)

end
