(* ===== verification/Pricing.thy ===== *)
theory Pricing
  imports Complex_Main Deployment
begin

text \<open>
  How a provider prices a group it bids on (\<^verbatim>\<open>provider/bidengine/pricing.go\<close>): by scaled quantities, at random within
  a range that depends on the memory, or by a script.  Decimals are exact rationals, except that their division
  rounds: \<open>DecDiv\<close> is a parameter, and \<open>dec_laws\<close> is its documented precision.  A result of \<open>None\<close> is a panic,
  which here stops the provider, since prices are computed in goroutines of their own.
\<close>

record scale_pricing =
  cpuScale :: rat
  memoryScale :: rat
  storageScale :: rat
  endpointScale :: rat

definition denom :: string where
  "denom = ''uve''"

definition unit_Mi :: int where
  "unit_Mi = 1024 * 1024"

definition unit_Gi :: int where
  "unit_Gi = unit_Mi * 1024"

definition MaxInt64 :: int where
  "MaxInt64 = 2 ^ 63 - 1"

definition errAllScalesZero :: error where
  "errAllScalesZero = Errorf ''At least one bid price must be a non-zero number''"

definition ErrBidQuantityInvalid :: error where
  "ErrBidQuantityInvalid = Errorf ''A bid quantity is invalid''"

definition ErrBidZero :: error where
  "ErrBidZero = Errorf ''A bid of zero was produced''"

definition MakeScalePricing :: "rat \<Rightarrow> rat \<Rightarrow> rat \<Rightarrow> rat \<Rightarrow> error + scale_pricing" where
  "MakeScalePricing c m st e = (if c = 0 \<and> m = 0 \<and> st = 0 \<and> e = 0 then Inl errAllScalesZero
     else Inr \<lparr>cpuScale = c, memoryScale = m, storageScale = st, endpointScale = e\<rparr>)"

text \<open>\<^verbatim>\<open>big.Rat\<close> keeps numerator and denominator in lowest terms with a positive denominator.\<close>

definition ceilBigRatToBigInt :: "rat \<Rightarrow> int" where
  "ceilBigRatToBigInt v = (case quotient_of v of (numerator, denominator) \<Rightarrow>
     let result = numerator div denominator in if denominator \<noteq> 1 then result + 1 else result)"

subsection \<open>Scaled quantities\<close>

text \<open>The loop's running totals of processor, memory, storage and endpoints; a missing unit is dereferenced.\<close>

fun add_quantities :: "resource list \<Rightarrow> rat \<times> rat \<times> rat \<times> rat \<Rightarrow> (rat \<times> rat \<times> rat \<times> rat) option" where
  "add_quantities [] t = Some t"
| "add_quantities (r # rs) (c, m, st, e) = (case (CPU (res_Resources r), Memory (res_Resources r), Storage (res_Resources r)) of
     (Some cpu, Some mem, Some sto) \<Rightarrow>
       let groupCount = of_int (uint (res_Count r)) in
       add_quantities rs (c + of_int (Val (cpu_Units cpu)) * groupCount, m + of_int (Val (mem_Quantity mem)) * groupCount,
         st + of_int (Val (sto_Quantity sto)) * groupCount, e + of_nat (length (Endpoints (res_Resources r))))
   | _ \<Rightarrow> None)"

definition out_of_range :: "rat \<Rightarrow> bool" where
  "out_of_range q \<longleftrightarrow> q < 0 \<or> \<not> q \<le> of_int MaxInt64"

definition Scale_CalculatePrice :: "'b env \<Rightarrow> (rat \<Rightarrow> rat \<Rightarrow> rat) \<Rightarrow> scale_pricing \<Rightarrow> group_spec \<Rightarrow> (error + coin) option" where
  "Scale_CalculatePrice E DecDiv fp gspec =
     Option.bind (add_quantities (gs_Resources gspec) (0, 0, 0, 0)) (\<lambda>(c, m, st, e).
     let cpuTotal = c * cpuScale fp;
         memoryTotal = DecDiv m (of_int unit_Mi) * memoryScale fp;
         storageTotal = DecDiv st (of_int unit_Mi) * storageScale fp;
         endpointTotal = e * endpointScale fp in
     if out_of_range cpuTotal \<or> out_of_range memoryTotal \<or> out_of_range storageTotal \<or> out_of_range endpointTotal
     then Some (Inl ErrBidQuantityInvalid)
     else let totalCost = \<lceil>cpuTotal + memoryTotal + storageTotal + endpointTotal\<rceil> in
       if out_of_range (of_int totalCost) then Some (Inl ErrBidQuantityInvalid)
       else if totalCost = 0 then Some (Inl ErrBidZero)
       else map_option Inr (NewCoin E denom totalCost))"

subsection \<open>Random prices\<close>

primrec total_memory :: "'b env \<Rightarrow> resource list \<Rightarrow> int \<Rightarrow> int option" where
  "total_memory E [] mem = Some mem"
| "total_memory E (r # rs) mem = do {
     m \<leftarrow> Memory (res_Resources r);
     v \<leftarrow> ResourceValue_Value (mem_Quantity m);
     p \<leftarrow> int_chk E (uint v * uint (res_Count r));
     mem \<leftarrow> int_chk E (mem + p);
     total_memory E rs mem }"

definition calculatePriceRange :: "'b env \<Rightarrow> group_spec \<Rightarrow> (coin \<times> coin) option" where
  "calculatePriceRange E gspec = do {
     mem \<leftarrow> total_memory E (gs_Resources gspec) 0;
     price \<leftarrow> GroupSpec_Price E gspec;
     lo \<leftarrow> int_chk E (mem * 50);
     cmin \<leftarrow> int_quo lo unit_Gi;
     hi \<leftarrow> int_chk E (mem * 1048576);
     cmax \<leftarrow> int_quo hi unit_Gi;
     rmax \<leftarrow> price;
     let cmax = (if cmax > Amount rmax then Amount rmax else cmax);
         cmin = (if cmin = 0 then 1 else cmin);
         cmax = (if cmax = 0 then 1 else cmax) in do {
     a \<leftarrow> NewCoin E (Denom rmax) cmin;
     b \<leftarrow> NewCoin E (Denom rmax) cmax;
     Some (a, b) } }"

text \<open>\<open>rand n\<close> is \<^verbatim>\<open>rand.Int(rand.Reader, n)\<close> for positive \<open>n\<close>, \<open>None\<close> when the reader fails; it panics otherwise.\<close>

definition Random_CalculatePrice :: "'b env \<Rightarrow> (int \<Rightarrow> int option) \<Rightarrow> group_spec \<Rightarrow> (error + coin) option" where
  "Random_CalculatePrice E rand gspec =
     Option.bind (calculatePriceRange E gspec) (\<lambda>(min, max).
     if Denom min \<noteq> Denom max then None
     else if Amount min = Amount max then Some (Inr max)
     else Option.bind (int_chk E (Amount max - Amount min)) (\<lambda>delta.
       if delta \<le> 0 then None
       else (case rand delta of None \<Rightarrow> Some (Inl (Errorf ''rand''))
         | Some val \<Rightarrow> Option.bind (int_chk E val) (\<lambda>v. Option.bind (int_chk E (Amount min + v)) (\<lambda>n.
             map_option Inr (NewCoin E (Denom min) n))))))"

subsection \<open>Prices by a script\<close>

record shell_script_pricing =
  ssp_path :: string
  ssp_processLimit :: "64 word"
  ssp_runtimeLimit :: int

definition MakeShellScriptPricing :: "string \<Rightarrow> 64 word \<Rightarrow> int \<Rightarrow> error + shell_script_pricing" where
  "MakeShellScriptPricing path processLimit runtimeLimit =
     (if path = [] then Inl (Errorf ''script path cannot be the empty string'')
      else if processLimit = 0 then Inl (Errorf ''process limit must be greater than zero'')
      else if runtimeLimit = 0 then Inl (Errorf ''process runtime limit must be greater than zero'')
      else Inr \<lparr>ssp_path = path, ssp_processLimit = processLimit, ssp_runtimeLimit = runtimeLimit\<rparr>)"

record script_element =
  se_Memory :: "64 word"
  se_CPU :: "64 word"
  se_Storage :: "64 word"
  se_Count :: "32 word"
  se_EndpointQuantity :: nat

primrec dataForScript :: "resource list \<Rightarrow> script_element list option" where
  "dataForScript [] = Some []"
| "dataForScript (r # rs) = do {
     cpu \<leftarrow> CPU (res_Resources r);
     c \<leftarrow> ResourceValue_Value (cpu_Units cpu);
     mem \<leftarrow> Memory (res_Resources r);
     m \<leftarrow> ResourceValue_Value (mem_Quantity mem);
     sto \<leftarrow> Storage (res_Resources r);
     st \<leftarrow> ResourceValue_Value (sto_Quantity sto);
     es \<leftarrow> dataForScript rs;
     Some (\<lparr>se_Memory = m, se_CPU = c, se_Storage = st, se_Count = res_Count r,
       se_EndpointQuantity = length (Endpoints (res_Resources r))\<rparr> # es) }"

text \<open>\<open>script path owner elements\<close> is what comes of the process: an error of its running or of decoding its output, or
  the number it printed, \<open>None\<close> when that is no \<^verbatim>\<open>int64\<close>.\<close>

definition Script_CalculatePrice ::
  "'b env \<Rightarrow> (string \<Rightarrow> string \<Rightarrow> script_element list \<Rightarrow> error + int option) \<Rightarrow> shell_script_pricing \<Rightarrow> string \<Rightarrow> group_spec \<Rightarrow>
     (error + coin) option" where
  "Script_CalculatePrice E script ssp owner gspec =
     Option.bind (dataForScript (gs_Resources gspec)) (\<lambda>es.
     case script (ssp_path ssp) owner es of
       Inl e \<Rightarrow> Some (Inl e)
     | Inr None \<Rightarrow> Some (Inl ErrBidQuantityInvalid)
     | Inr (Some price) \<Rightarrow> if price = 0 then Some (Inl ErrBidZero)
         else if price < 0 then Some (Inl ErrBidQuantityInvalid) else map_option Inr (NewCoin E denom price))"

end
