(* ===== verification/Bid_Order.thy ===== *)
theory Bid_Order
  imports Pricing Chain
begin

text \<open>
  How the bid engine follows one order (\<^verbatim>\<open>provider/bidengine/order.go\<close>): it fetches the order's group, decides whether
  to bid, reserves capacity, computes a price, submits a bid, and waits for the lease; in the end it gives back what it
  no longer needs.  The goroutine's \<^verbatim>\<open>select\<close> is a step function: an input is what one of its channels delivers, an
  input is ready when that channel is not nil and has not delivered yet, and a step gives the new local variables and the
  calls made.  Everything asynchronous (queries, the inventory, pricing, broadcasting) is a call whose result is an input
  that may come at any later time, or never.
\<close>

subsection \<open>Whether to bid\<close>

record order_config =
  oc_orderID :: order_id
  oc_provider :: provider
  oc_address :: string
  oc_Deposit :: coin
  oc_BidTimeout :: int
  oc_Attributes :: "attribute list"

text \<open>\<open>gather\<close> asks for each auditor's signatures once, in order; \<open>pass\<close> is \<^verbatim>\<open>GetAuditorAttributeSignatures\<close>.\<close>

primrec gather :: "(string \<Rightarrow> error + audit_provider list) \<Rightarrow> string list \<Rightarrow> string set \<Rightarrow> audit_provider list \<Rightarrow> error + audit_provider list" where
  "gather pass [] gotten provAttr = Inr provAttr"
| "gather pass (auditor # auditors) gotten provAttr =
     (if auditor \<in> gotten then gather pass auditors gotten provAttr
      else (case pass auditor of Inl e \<Rightarrow> Inl e
        | Inr result \<Rightarrow> gather pass auditors (insert auditor gotten) (provAttr @ result)))"

text \<open>\<open>None\<close> is a panic, of the requirements check or of the group's validation.\<close>

definition shouldBid ::
  "'b env \<Rightarrow> order_config \<Rightarrow> (string \<Rightarrow> error + audit_provider list) \<Rightarrow> group \<Rightarrow> (error + bool) option" where
  "shouldBid E C pass g =
     (let spec = grp_Spec g; req = gs_Requirements spec; own = prov_Attributes (oc_provider C);
        valid = (case validateDeploymentGroup E spec () of Ok _ _ \<Rightarrow> Some (Inr True) | Err _ _ \<Rightarrow> Some (Inr False) | _ \<Rightarrow> None) in
      if \<not> GroupSpec_MatchAttributes spec own then Some (Inr False)
      else if \<not> AttributesSubsetOf (oc_Attributes C) (req_Attributes req) then Some (Inr False)
      else if AllOf (SignedBy req) \<noteq> [] \<or> AnyOf (SignedBy req) \<noteq> [] then
        (case gather pass (AllOf (SignedBy req) @ AnyOf (SignedBy req)) {}
            [\<lparr>ap_Owner = prov_Owner (oc_provider C), ap_Auditor = [], ap_Attributes = own\<rparr>] of
           Inl e \<Rightarrow> Some (Inl e)
         | Inr provAttr \<Rightarrow> (case GroupSpec_MatchRequirements spec provAttr of
             None \<Rightarrow> None | Some False \<Rightarrow> Some (Inr False) | Some True \<Rightarrow> valid))
      else valid)"

subsection \<open>The goroutine\<close>

text \<open>The loop; then, when the order was not won, waiting for a reservation under way; then waiting for the
  remaining results, which are dropped.\<close>

datatype phase = Looping | Cancelling | Draining

record order_run =
  or_phase :: phase
  bidPlaced :: bool
  queryBidCh :: bool
  groupch :: bool
  storedGroupCh :: bool
  shouldBidCh :: bool
  clusterch :: bool
  pricech :: bool
  bidch :: bool
  bidTimeout :: bool
  or_group :: "group option"
  or_reservation :: "order_id option"
  won :: bool

datatype order_input =
    ShutdownRequest
  | QueryBid "string option"
  | BusEvent event
  | GroupFetched "error + group"
  | ShouldBid "error + bool"
  | Reserved "error + order_id"
  | Priced "error + coin"
  | BidSent "error + unit"
  | TimedOut

datatype order_call =
    CallGroup group_id
  | CallBid bid_id
  | CallShouldBid group
  | CallReserve order_id group
  | CallCalculatePrice string group_spec
  | CallBroadcast msg
  | CallPublishLeaseWon lease_id "group option" coin
  | CallUnreserve order_id

definition newOrder :: "'b env \<Rightarrow> order_config \<Rightarrow> bool \<Rightarrow> order_run \<times> order_call list" where
  "newOrder E C checkForExistingBid =
     (\<lparr>or_phase = Looping, bidPlaced = False, queryBidCh = checkForExistingBid, groupch = \<not> checkForExistingBid,
       storedGroupCh = checkForExistingBid, shouldBidCh = False, clusterch = False, pricech = False, bidch = False,
       bidTimeout = False, or_group = None, or_reservation = None, won = False\<rparr>,
      CallGroup (OrderID_GroupID (oc_orderID C)) #
      (if checkForExistingBid then [CallBid (MakeBidID E (oc_orderID C) (oc_address C))] else []))"

text \<open>The regular expression \<^verbatim>\<open>^.+bid not found.+$\<close>: the phrase with something on both sides, in one line.\<close>

definition matchBidNotFound :: "string \<Rightarrow> bool" where
  "matchBidNotFound s \<longleftrightarrow> CHR 0x0A \<notin> set s \<and> sublist ''bid not found'' (butlast (tl s))"

definition order_ready :: "order_input \<Rightarrow> order_run \<Rightarrow> bool" where
  "order_ready i s = (case or_phase s of
     Looping \<Rightarrow> (case i of ShutdownRequest \<Rightarrow> True | BusEvent _ \<Rightarrow> True | QueryBid _ \<Rightarrow> queryBidCh s | GroupFetched _ \<Rightarrow> groupch s
       | ShouldBid _ \<Rightarrow> shouldBidCh s | Reserved _ \<Rightarrow> clusterch s | Priced _ \<Rightarrow> pricech s | BidSent _ \<Rightarrow> bidch s | TimedOut \<Rightarrow> bidTimeout s)
   | Cancelling \<Rightarrow> (case i of Reserved _ \<Rightarrow> clusterch s | _ \<Rightarrow> False)
   | Draining \<Rightarrow> (case i of GroupFetched _ \<Rightarrow> groupch s | Reserved _ \<Rightarrow> clusterch s | Priced _ \<Rightarrow> pricech s
       | BidSent _ \<Rightarrow> bidch s | _ \<Rightarrow> False))"

text \<open>After the loop: release the reservation and close the bid, unless the order was won.\<close>

definition release :: "'b env \<Rightarrow> order_config \<Rightarrow> order_run \<Rightarrow> order_run \<times> order_call list" where
  "release E C s = (s\<lparr>or_phase := Draining\<rparr>,
     (case or_reservation s of None \<Rightarrow> [] | Some oid \<Rightarrow> [CallUnreserve oid]) @
     (if bidPlaced s then [CallBroadcast (MsgCloseBid (MakeBidID E (oc_orderID C) (oc_address C)))] else []))"

definition break_loop :: "'b env \<Rightarrow> order_config \<Rightarrow> order_run \<Rightarrow> order_run \<times> order_call list" where
  "break_loop E C s = (if won s then (s\<lparr>or_phase := Draining\<rparr>, [])
     else if clusterch s then (s\<lparr>or_phase := Cancelling\<rparr>, []) else release E C s)"

definition on_event :: "'b env \<Rightarrow> order_config \<Rightarrow> event \<Rightarrow> order_run \<Rightarrow> order_run \<times> order_call list" where
  "on_event E C ev s = (case ev of
     EventLeaseCreated lid price \<Rightarrow>
       if \<not> GroupID_Equals (OrderID_GroupID (oc_orderID C)) (BidID_GroupID lid) then (s, [])
       else if bid_Provider lid \<noteq> AddrString E (oc_address C) then break_loop E C s
       else (let (s, calls) = break_loop E C (s\<lparr>won := True\<rparr>) in (s, CallPublishLeaseWon lid (or_group s) price # calls))
   | EventOrderClosed oid \<Rightarrow> if \<not> OrderID_Equals oid (oc_orderID C) then (s, []) else break_loop E C s
   | _ \<Rightarrow> (s, []))"

text \<open>The loop's remaining cases.  A group is there when its decision or price comes; \<open>None\<close> is a panic, when the group's
  price cannot be computed or is not in the currency of the bid.\<close>

definition on_price :: "'b env \<Rightarrow> order_config \<Rightarrow> coin \<Rightarrow> order_run \<Rightarrow> (order_run \<times> order_call list) option" where
  "on_price E C price s = do {
     g \<leftarrow> or_group s;
     maxPrice \<leftarrow> GroupSpec_Price E (grp_Spec g);
     maxPrice \<leftarrow> maxPrice;
     lt \<leftarrow> coin_IsLT maxPrice price;
     Some (if lt then break_loop E C s
       else (s\<lparr>bidch := True\<rparr>, [CallBroadcast (MsgCreateBid \<lparr>mcb_Order = oc_orderID C,
         mcb_Provider = AddrString E (oc_address C), mcb_Price = price, mcb_Deposit = oc_Deposit C\<rparr>)])) }"

definition order_loop_step :: "'b env \<Rightarrow> order_config \<Rightarrow> order_input \<Rightarrow> order_run \<Rightarrow> (order_run \<times> order_call list) option" where
  "order_loop_step E C i s = (case i of
     ShutdownRequest \<Rightarrow> Some (break_loop E C s)
   | QueryBid err \<Rightarrow> let s = s\<lparr>queryBidCh := False\<rparr> in
       (case err of
          None \<Rightarrow> Some (s\<lparr>bidPlaced := True, groupch := storedGroupCh s, storedGroupCh := False\<rparr>, [])
        | Some e \<Rightarrow> if matchBidNotFound e then Some (s\<lparr>groupch := storedGroupCh s, storedGroupCh := False\<rparr>, [])
            else Some (break_loop E C s))
   | BusEvent ev \<Rightarrow> Some (on_event E C ev s)
   | GroupFetched r \<Rightarrow> let s = s\<lparr>groupch := False\<rparr> in
       (case r of Inl _ \<Rightarrow> Some (break_loop E C s)
        | Inr g \<Rightarrow> Some (s\<lparr>or_group := Some g, shouldBidCh := True\<rparr>, [CallShouldBid g]))
   | ShouldBid r \<Rightarrow> let s = s\<lparr>shouldBidCh := False\<rparr> in
       (case r of Inl _ \<Rightarrow> Some (break_loop E C s)
        | Inr False \<Rightarrow> Some (break_loop E C s)
        | Inr True \<Rightarrow> map_option (\<lambda>g. (s\<lparr>clusterch := True\<rparr>, [CallReserve (oc_orderID C) g])) (or_group s))
   | Reserved r \<Rightarrow> let s = s\<lparr>clusterch := False\<rparr> in
       (case r of Inl _ \<Rightarrow> Some (break_loop E C s)
        | Inr oid \<Rightarrow> let s = s\<lparr>or_reservation := Some oid\<rparr> in
            if bidPlaced s then Some (s, [])
            else map_option (\<lambda>g. (s\<lparr>pricech := True\<rparr>, [CallCalculatePrice (gid_Owner (grp_ID g)) (grp_Spec g)])) (or_group s))
   | Priced r \<Rightarrow> let s = s\<lparr>pricech := False\<rparr> in
       (case r of Inl _ \<Rightarrow> Some (break_loop E C s) | Inr price \<Rightarrow> on_price E C price s)
   | BidSent r \<Rightarrow> let s = s\<lparr>bidch := False\<rparr> in
       (case r of Inl _ \<Rightarrow> Some (break_loop E C s)
        | Inr _ \<Rightarrow> Some (s\<lparr>bidPlaced := True, bidTimeout := bidTimeout s \<or> 0 < oc_BidTimeout C\<rparr>, []))
   | TimedOut \<Rightarrow> Some (break_loop E C (s\<lparr>bidTimeout := False\<rparr>)))"

definition order_run_step :: "'b env \<Rightarrow> order_config \<Rightarrow> order_input \<Rightarrow> order_run \<Rightarrow> (order_run \<times> order_call list) option" where
  "order_run_step E C i s = (case or_phase s of
     Looping \<Rightarrow> order_loop_step E C i s
   | Cancelling \<Rightarrow> (case i of
       Reserved (Inr oid) \<Rightarrow> Some (release E C (s\<lparr>clusterch := False, or_reservation := Some oid\<rparr>))
     | _ \<Rightarrow> Some (release E C (s\<lparr>clusterch := False\<rparr>)))
   | Draining \<Rightarrow> Some (case i of GroupFetched _ \<Rightarrow> s\<lparr>groupch := False\<rparr> | Reserved _ \<Rightarrow> s\<lparr>clusterch := False\<rparr>
       | Priced _ \<Rightarrow> s\<lparr>pricech := False\<rparr> | BidSent _ \<Rightarrow> s\<lparr>bidch := False\<rparr> | _ \<Rightarrow> s, []))"

text \<open>An execution: the inputs so far, the calls made so far, and the goroutine's variables.\<close>

inductive order_exec :: "'b env \<Rightarrow> order_config \<Rightarrow> bool \<Rightarrow> order_input list \<Rightarrow> order_call list \<Rightarrow> order_run \<Rightarrow> bool"
  for E C existing where
  start: "newOrder E C existing = (s, calls) \<Longrightarrow> order_exec E C existing [] calls s"
| step: "order_exec E C existing is calls s \<Longrightarrow> order_ready i s \<Longrightarrow> order_run_step E C i s = Some (s', new) \<Longrightarrow>
    order_exec E C existing (is @ [i]) (calls @ new) s'"

end
