(* ===== verification/Bid_Order_Properties.thy ===== *)
theory Bid_Order_Properties
  imports Bid_Order Deployment_Properties
begin

text \<open>
  What the bid engine guarantees about one order, over all executions: it bids at most once, only on
  capacity it holds and never above the order's limit; and when it is done with an order it did not win, it has given
  back exactly what it reserved and closed the bid it knows of.
\<close>

subsection \<open>What an execution has seen and done\<close>

definition reserved :: "order_input list \<Rightarrow> order_id list" where
  "reserved is = [oid. Reserved (Inr oid) \<leftarrow> is]"

definition unreserved :: "order_call list \<Rightarrow> order_id list" where
  "unreserved calls = [oid. CallUnreserve oid \<leftarrow> calls]"

definition bids_made :: "order_call list \<Rightarrow> msg_create_bid list" where
  "bids_made calls = [m. CallBroadcast (MsgCreateBid m) \<leftarrow> calls]"

definition bids_closed :: "order_call list \<Rightarrow> bid_id list" where
  "bids_closed calls = [i. CallBroadcast (MsgCloseBid i) \<leftarrow> calls]"

definition leases_won :: "order_call list \<Rightarrow> lease_id list" where
  "leases_won calls = [i. CallPublishLeaseWon i _ _ \<leftarrow> calls]"

lemmas history_defs = reserved_def unreserved_def bids_made_def bids_closed_def leases_won_def

lemma history_append [simp]:
  "reserved (is @ js) = reserved is @ reserved js" "unreserved (cs @ ds) = unreserved cs @ unreserved ds"
  "bids_made (cs @ ds) = bids_made cs @ bids_made ds" "bids_closed (cs @ ds) = bids_closed cs @ bids_closed ds"
  "leases_won (cs @ ds) = leases_won cs @ leases_won ds"
  by (simp_all add: history_defs)

lemma history_Nil [simp]:
  "reserved [] = []" "unreserved [] = []" "bids_made [] = []" "bids_closed [] = []" "leases_won [] = []"
  by (simp_all add: history_defs)

lemma calls_one [simp]:
  "unreserved [CallShouldBid g] = []" "unreserved [CallReserve oid g] = []" "unreserved [CallCalculatePrice w sp] = []" "unreserved [CallPublishLeaseWon l go c] = []" "unreserved [CallUnreserve oid] = [oid]" "unreserved [CallBroadcast (MsgCreateBid m)] = []" "unreserved [CallBroadcast (MsgCloseBid b)] = []"
  "bids_made [CallShouldBid g] = []" "bids_made [CallReserve oid g] = []" "bids_made [CallCalculatePrice w sp] = []" "bids_made [CallPublishLeaseWon l go c] = []" "bids_made [CallUnreserve oid] = []" "bids_made [CallBroadcast (MsgCreateBid m)] = [m]" "bids_made [CallBroadcast (MsgCloseBid b)] = []"
  "bids_closed [CallShouldBid g] = []" "bids_closed [CallReserve oid g] = []" "bids_closed [CallCalculatePrice w sp] = []" "bids_closed [CallPublishLeaseWon l go c] = []" "bids_closed [CallUnreserve oid] = []" "bids_closed [CallBroadcast (MsgCreateBid m)] = []" "bids_closed [CallBroadcast (MsgCloseBid b)] = [b]"
  "leases_won [CallShouldBid g] = []" "leases_won [CallReserve oid g] = []" "leases_won [CallCalculatePrice w sp] = []" "leases_won [CallPublishLeaseWon l go c] = [l]" "leases_won [CallUnreserve oid] = []" "leases_won [CallBroadcast (MsgCreateBid m)] = []" "leases_won [CallBroadcast (MsgCloseBid b)] = []"
  by (simp_all add: history_defs)

lemma reserved_one [simp]: "reserved [Reserved (Inr oid)] = [oid]" "reserved [Reserved (Inl e)] = []" "reserved [BusEvent ev] = []"
    "reserved [QueryBid q] = []" "reserved [GroupFetched g] = []" "reserved [ShouldBid b] = []" "reserved [Priced p] = []" "reserved [BidSent r] = []"
  by (simp_all add: reserved_def)

subsection \<open>One step, by cases\<close>

text \<open>Reading a result empties its channel.\<close>

definition take_input :: "order_input \<Rightarrow> order_run \<Rightarrow> order_run" where
  "take_input i s = (case i of QueryBid _ \<Rightarrow> s\<lparr>queryBidCh := False\<rparr> | GroupFetched _ \<Rightarrow> s\<lparr>groupch := False\<rparr>
     | ShouldBid _ \<Rightarrow> s\<lparr>shouldBidCh := False\<rparr> | Reserved _ \<Rightarrow> s\<lparr>clusterch := False\<rparr> | Priced _ \<Rightarrow> s\<lparr>pricech := False\<rparr>
     | BidSent _ \<Rightarrow> s\<lparr>bidch := False\<rparr> | TimedOut \<Rightarrow> s\<lparr>bidTimeout := False\<rparr> | _ \<Rightarrow> s)"

lemma on_event_cases:
  assumes "on_event E C ev s = (s', new)"
  shows "(s' = s \<and> new = []) \<or> break_loop E C s = (s', new) \<or>
    (\<exists>lid price. s' = s\<lparr>won := True, or_phase := Draining\<rparr> \<and> new = [CallPublishLeaseWon lid (or_group s) price])"
proof -
  have win: "break_loop E C (s\<lparr>won := True\<rparr>) = (s\<lparr>won := True, or_phase := Draining\<rparr>, [])" by (simp add: break_loop_def)
  show ?thesis using assms by (cases ev) (auto simp: on_event_def win split: if_splits)
qed

lemma order_run_step_cases:
  assumes "order_ready i s" "order_run_step E C i s = Some (s', new)"
  obtains (quit) "or_phase s = Looping" "i \<noteq> QueryBid None" "reserved [i] = []" "break_loop E C (take_input i s) = (s', new)"
  | (won) ev lid price where "or_phase s = Looping" "i = BusEvent ev" "s' = s\<lparr>won := True, or_phase := Draining\<rparr>"
      "new = [CallPublishLeaseWon lid (or_group s) price]"
  | (other) ev where "or_phase s = Looping" "i = BusEvent ev" "s' = s" "new = []"
  | (found) "or_phase s = Looping" "i = QueryBid None" "queryBidCh s"
      "s' = s\<lparr>queryBidCh := False, bidPlaced := True, groupch := storedGroupCh s, storedGroupCh := False\<rparr>" "new = []"
  | (absent) e where "or_phase s = Looping" "i = QueryBid (Some e)" "queryBidCh s"
      "s' = s\<lparr>queryBidCh := False, groupch := storedGroupCh s, storedGroupCh := False\<rparr>" "new = []"
  | (fetched) g where "or_phase s = Looping" "i = GroupFetched (Inr g)" "groupch s"
      "s' = s\<lparr>groupch := False, or_group := Some g, shouldBidCh := True\<rparr>" "new = [CallShouldBid g]"
  | (reserve) g where "or_phase s = Looping" "i = ShouldBid (Inr True)" "shouldBidCh s" "or_group s = Some g"
      "s' = s\<lparr>shouldBidCh := False, clusterch := True\<rparr>" "new = [CallReserve (oc_orderID C) g]"
  | (placed) oid where "or_phase s = Looping" "i = Reserved (Inr oid)" "clusterch s" "bidPlaced s"
      "s' = s\<lparr>clusterch := False, or_reservation := Some oid\<rparr>" "new = []"
  | (price) oid g where "or_phase s = Looping" "i = Reserved (Inr oid)" "clusterch s" "\<not> bidPlaced s" "or_group s = Some g"
      "s' = s\<lparr>clusterch := False, or_reservation := Some oid, pricech := True\<rparr>"
      "new = [CallCalculatePrice (gid_Owner (grp_ID g)) (grp_Spec g)]"
  | (bid) p g lim where "or_phase s = Looping" "i = Priced (Inr p)" "pricech s" "or_group s = Some g"
      "GroupSpec_Price E (grp_Spec g) = Some (Some lim)" "coin_IsLT lim p = Some False"
      "s' = s\<lparr>pricech := False, bidch := True\<rparr>" "new = [CallBroadcast (MsgCreateBid \<lparr>mcb_Order = oc_orderID C,
         mcb_Provider = AddrString E (oc_address C), mcb_Price = p, mcb_Deposit = oc_Deposit C\<rparr>)]"
  | (sent) "or_phase s = Looping" "i = BidSent (Inr ())" "bidch s"
      "s' = s\<lparr>bidch := False, bidPlaced := True, bidTimeout := bidTimeout s \<or> 0 < oc_BidTimeout C\<rparr>" "new = []"
  | (cancelled) oid where "or_phase s = Cancelling" "clusterch s" "i = Reserved (Inr oid)"
      "release E C (s\<lparr>clusterch := False, or_reservation := Some oid\<rparr>) = (s', new)"
  | (failed) e where "or_phase s = Cancelling" "clusterch s" "i = Reserved (Inl e)" "release E C (s\<lparr>clusterch := False\<rparr>) = (s', new)"
  | (drained) "or_phase s = Draining" "s' = take_input i s" "new = []" "i \<noteq> QueryBid None" "reserved [i] \<noteq> [] \<longrightarrow> clusterch s"
proof (cases "or_phase s")
  case Looping
  note step = assms [unfolded order_ready_def order_run_step_def order_loop_step_def Looping phase.case]
  show ?thesis
  proof (cases i)
    case ShutdownRequest
    then show ?thesis using step quit Looping by (simp add: take_input_def reserved_def)
  next
    case (QueryBid err)
    then show ?thesis using step quit found absent Looping
      by (cases err) (auto simp: take_input_def reserved_def Let_def split: if_splits)
  next
    case (BusEvent ev)
    then have "on_event E C ev s = (s', new)" using step by simp
    then show ?thesis
      using on_event_cases [of E C ev s s' new] quit won [of ev] other [of ev] Looping BusEvent
      by (auto simp: take_input_def reserved_def)
  next
    case (GroupFetched r)
    then show ?thesis using step quit fetched Looping by (cases r) (auto simp: take_input_def reserved_def)
  next
    case (ShouldBid r)
    then show ?thesis using step quit reserve Looping
      by (cases r) (auto simp: take_input_def reserved_def Let_def split: bool.splits)
  next
    case (Reserved r)
    then show ?thesis using step quit placed price Looping
      by (cases r) (auto simp: take_input_def reserved_def Let_def split: if_splits)
  next
    case (Priced r)
    then show ?thesis using step quit bid Looping
      by (cases r) (auto simp: take_input_def reserved_def on_price_def bind_eq_Some_conv Let_def split: if_splits)
  next
    case (BidSent r)
    then show ?thesis using step quit sent Looping by (cases r) (auto simp: take_input_def reserved_def)
  next
    case TimedOut
    then show ?thesis using step quit Looping by (simp add: take_input_def reserved_def)
  qed
next
  case Cancelling
  then show ?thesis using assms cancelled failed by (auto simp: order_ready_def order_run_step_def split: order_input.splits sum.splits)
next
  case Draining
  then show ?thesis using assms drained
    by (auto simp: order_ready_def order_run_step_def take_input_def reserved_def split: order_input.splits sum.splits)
qed

subsection \<open>The pipeline\<close>

text \<open>At most one of the steps towards a bid is under way, and none once a bid was made.\<close>

definition ahead :: "order_run \<Rightarrow> nat" where
  "ahead s = of_bool (groupch s) + of_bool (storedGroupCh s) + of_bool (shouldBidCh s) + of_bool (clusterch s)"

definition pipeline :: "order_input list \<Rightarrow> order_call list \<Rightarrow> order_run \<Rightarrow> bool" where
  "pipeline is calls s \<longleftrightarrow> ahead s + of_bool (pricech s) + length (bids_made calls) \<le> 1 \<and>
     ahead s + length (reserved is) \<le> 1 \<and> (queryBidCh s \<longrightarrow> storedGroupCh s) \<and> (QueryBid None \<in> set is \<longrightarrow> bidPlaced s) \<and>
     (pricech s \<or> bids_made calls \<noteq> [] \<longrightarrow> reserved is \<noteq> [] \<and> QueryBid None \<notin> set is)"

lemma pipeline_start: "newOrder E C existing = (s, calls) \<Longrightarrow> pipeline [] calls s"
  by (auto simp: newOrder_def pipeline_def ahead_def history_defs)

lemma no_bids_in_release: "release E C s = (s', new) \<Longrightarrow> bids_made new = [] \<and> s' = s\<lparr>or_phase := Draining\<rparr>"
  by (auto simp: release_def history_defs split: option.splits if_splits)

lemma no_bids_in_break: "break_loop E C s = (s', new) \<Longrightarrow> bids_made new = [] \<and> (\<exists>ph. s' = s\<lparr>or_phase := ph\<rparr>)"
  using no_bids_in_release [of E C s s' new] by (auto simp: break_loop_def split: if_splits)

lemma pipeline_phase: "pipeline is calls (s\<lparr>or_phase := ph\<rparr>) = pipeline is calls s"
  by (simp add: pipeline_def ahead_def)

lemma pipeline_take: "pipeline is calls s \<Longrightarrow> i \<noteq> QueryBid None \<Longrightarrow> reserved [i] = [] \<Longrightarrow> pipeline (is @ [i]) calls (take_input i s)"
  by (cases i) (auto simp: pipeline_def ahead_def take_input_def)

lemma pipeline_step:
  assumes "pipeline is calls s" "order_ready i s" "order_run_step E C i s = Some (s', new)"
  shows "pipeline (is @ [i]) (calls @ new) s'"
  using assms(2,3)
proof (cases rule: order_run_step_cases)
  case quit
  then obtain ph where "s' = (take_input i s)\<lparr>or_phase := ph\<rparr>" "bids_made new = []" using no_bids_in_break by blast
  then show ?thesis using pipeline_take [OF assms(1) quit(2,3)] by (simp add: pipeline_phase) (simp add: pipeline_def)
next
  case drained
  show ?thesis
  proof (cases "reserved [i] = []")
    case True
    then show ?thesis using drained pipeline_take [OF assms(1)] by (simp add: pipeline_def)
  next
    case False
    then obtain oid where "i = Reserved (Inr oid)" by (cases i) (auto simp: reserved_def split: sum.splits)
    then show ?thesis using drained assms(1) by (auto simp: pipeline_def ahead_def take_input_def)
  qed
next
  case (cancelled oid)
  then show ?thesis using assms(1) no_bids_in_release [OF cancelled(4)] by (auto simp: pipeline_def ahead_def)
next
  case (failed e)
  then show ?thesis using assms(1) no_bids_in_release [OF failed(4)] by (auto simp: pipeline_def ahead_def)
qed (use assms(1) in \<open>auto simp: pipeline_def ahead_def\<close>)

lemma exec_pipeline: "order_exec E C existing is calls s \<Longrightarrow> pipeline is calls s"
  by (induction rule: order_exec.induct) (auto intro: pipeline_start pipeline_step)

subsection \<open>What is held\<close>

text \<open>What was reserved is held until the goroutine is done; then, unless the order was won, it has been given back.\<close>

definition settled_up :: "'b env \<Rightarrow> order_config \<Rightarrow> order_input list \<Rightarrow> order_call list \<Rightarrow> order_run \<Rightarrow> bool" where
  "settled_up E C is calls s \<longleftrightarrow> (if won s
     then or_phase s = Draining \<and> unreserved calls = [] \<and> bids_closed calls = [] \<and> length (leases_won calls) = 1
     else reserved is = (case or_reservation s of None \<Rightarrow> [] | Some oid \<Rightarrow> [oid]) \<and> leases_won calls = [] \<and>
       (if or_phase s = Draining then \<not> clusterch s \<and> unreserved calls = reserved is \<and>
          bids_closed calls = (if bidPlaced s then [MakeBidID E (oc_orderID C) (oc_address C)] else [])
        else unreserved calls = [] \<and> bids_closed calls = []))"

lemma settled_start: "newOrder E C existing = (s, calls) \<Longrightarrow> settled_up E C [] calls s"
  by (auto simp: newOrder_def settled_up_def history_defs)

lemma take_input_sel [simp]:
  "or_phase (take_input i s) = or_phase s" "won (take_input i s) = won s" "or_reservation (take_input i s) = or_reservation s"
  "bidPlaced (take_input i s) = bidPlaced s" "or_group (take_input i s) = or_group s"
  by (simp_all add: take_input_def split: order_input.splits)

lemma settled_release:
  assumes "settled_up E C is calls s" "or_phase s \<noteq> Draining" "\<not> clusterch s" "\<not> won s" "release E C s = (s', new)"
  shows "settled_up E C is (calls @ new) s'"
  using assms by (auto simp: settled_up_def release_def history_defs split: option.splits if_splits)

lemma settled_break:
  assumes "settled_up E C is calls s" "or_phase s = Looping" "break_loop E C s = (s', new)"
  shows "settled_up E C is (calls @ new) s'"
  using assms settled_release [OF assms(1), of s' new] by (auto simp: break_loop_def settled_up_def split: if_splits)

lemma settled_step:
  assumes "pipeline is calls s" "settled_up E C is calls s" "order_ready i s" "order_run_step E C i s = Some (s', new)"
  shows "settled_up E C (is @ [i]) (calls @ new) s'"
  using assms(3,4)
proof (cases rule: order_run_step_cases)
  case quit
  then have "settled_up E C (is @ [i]) calls (take_input i s)" using assms(2) by (auto simp: settled_up_def split: if_splits)
  then show ?thesis by (rule settled_break) (use quit in simp_all)
next
  case (cancelled oid)
  then have "reserved is = []" "\<not> won s" using assms(1,2) by (auto simp: pipeline_def ahead_def settled_up_def split: if_splits)
  then have "settled_up E C (is @ [i]) calls (s\<lparr>clusterch := False, or_reservation := Some oid\<rparr>)"
    using assms(2) cancelled by (auto simp: settled_up_def split: if_splits)
  then show ?thesis by (rule settled_release) (use cancelled \<open>\<not> won s\<close> in simp_all)
next
  case (failed e)
  then have "\<not> won s" using assms(2) by (auto simp: settled_up_def split: if_splits)
  have "settled_up E C (is @ [i]) calls (s\<lparr>clusterch := False\<rparr>)"
    using assms(2) failed by (auto simp: settled_up_def split: if_splits)
  then show ?thesis by (rule settled_release) (use failed \<open>\<not> won s\<close> in simp_all)
next
  case drained
  then show ?thesis using assms(2)
    by (auto simp: settled_up_def take_input_def split: if_splits order_input.splits)
next
  case (won ev lid price)
  then show ?thesis using assms(2) by (auto simp: settled_up_def split: if_splits)
next
  case (placed oid)
  then show ?thesis using assms(1,2) by (auto simp: settled_up_def pipeline_def ahead_def split: if_splits)
next
  case (price oid g)
  then show ?thesis using assms(1,2) by (auto simp: settled_up_def pipeline_def ahead_def split: if_splits)
qed (use assms(2) in \<open>auto simp: settled_up_def split: if_splits\<close>)

lemma exec_settled: "order_exec E C existing is calls s \<Longrightarrow> settled_up E C is calls s"
  by (induction rule: order_exec.induct) (auto intro: settled_start settled_step exec_pipeline)

text \<open>
  C17. When the bid engine has finished with an order it has, unless it won the lease, released exactly the
  reservation it obtained, also one that was only granted after it had decided to stop, and closed the bid it knows to
  be placed; if it won, it has published the win once, and keeps reservation and bid.  In no case is anything reserved twice.
\<close>
theorem bid_order_releases:
  assumes "order_exec E C existing is calls s" and "or_phase s = Draining"
  shows "if won s then unreserved calls = [] \<and> bids_closed calls = [] \<and> length (leases_won calls) = 1
    else unreserved calls = reserved is \<and> length (reserved is) \<le> 1 \<and> leases_won calls = [] \<and>
      bids_closed calls = (if bidPlaced s then [MakeBidID E (oc_orderID C) (oc_address C)] else [])"
  using exec_settled [OF assms(1)] assms(2) by (auto simp: settled_up_def split: option.splits if_splits)

subsection \<open>What is bid\<close>

definition justified :: "'b env \<Rightarrow> order_config \<Rightarrow> order_input list \<Rightarrow> msg_create_bid \<Rightarrow> bool" where
  "justified E C is m \<longleftrightarrow> mcb_Order m = oc_orderID C \<and> mcb_Provider m = AddrString E (oc_address C) \<and> mcb_Deposit m = oc_Deposit C \<and>
     (\<exists>g lim. GroupFetched (Inr g) \<in> set is \<and> GroupSpec_Price E (grp_Spec g) = Some (Some lim) \<and>
        Denom (mcb_Price m) = Denom lim \<and> Amount (mcb_Price m) \<le> Amount lim)"

definition sources :: "'b env \<Rightarrow> order_config \<Rightarrow> order_input list \<Rightarrow> order_call list \<Rightarrow> order_run \<Rightarrow> bool" where
  "sources E C is calls s \<longleftrightarrow> (\<forall>g. or_group s = Some g \<longrightarrow> GroupFetched (Inr g) \<in> set is) \<and>
     (clusterch s \<or> reserved is \<noteq> [] \<longrightarrow> ShouldBid (Inr True) \<in> set is) \<and> (\<forall>m\<in>set (bids_made calls). justified E C is m)"

lemma justified_mono: "justified E C is m \<Longrightarrow> justified E C (is @ js) m"
  by (auto simp: justified_def)

lemma take_input_clusterch: "clusterch (take_input i s) \<Longrightarrow> clusterch s"
  by (simp add: take_input_def split: order_input.splits)

lemma sources_step:
  assumes "sources E C is calls s" "order_ready i s" "order_run_step E C i s = Some (s', new)"
  shows "sources E C (is @ [i]) (calls @ new) s'"
  using assms(2,3)
proof (cases rule: order_run_step_cases)
  case quit
  then obtain ph where "s' = (take_input i s)\<lparr>or_phase := ph\<rparr>" "bids_made new = []" using no_bids_in_break by blast
  then show ?thesis using assms(1) quit by (auto simp: sources_def intro: justified_mono dest!: take_input_clusterch)
next
  case (bid p g lim)
  have "justified E C (is @ [i]) \<lparr>mcb_Order = oc_orderID C, mcb_Provider = AddrString E (oc_address C), mcb_Price = p, mcb_Deposit = oc_Deposit C\<rparr>"
    using bid assms(1) by (auto simp: justified_def sources_def coin_IsLT_def split: if_splits)
  then show ?thesis using bid assms(1) by (auto simp: sources_def intro: justified_mono)
next
  case drained
  then show ?thesis using assms(1) by (auto simp: sources_def intro: justified_mono dest!: take_input_clusterch)
next
  case (cancelled oid)
  then show ?thesis using assms(1) no_bids_in_release [OF cancelled(4)] by (auto simp: sources_def intro: justified_mono)
next
  case (failed e)
  then show ?thesis using assms(1) no_bids_in_release [OF failed(4)] by (auto simp: sources_def intro: justified_mono)
qed (use assms(1) in \<open>auto simp: sources_def intro: justified_mono\<close>)

lemma sources_start: "newOrder E C existing = (s, calls) \<Longrightarrow> sources E C [] calls s"
  by (auto simp: newOrder_def sources_def history_defs)

lemma exec_sources: "order_exec E C existing is calls s \<Longrightarrow> sources E C is calls s"
  by (induction rule: order_exec.induct) (auto intro: sources_start sources_step)

text \<open>
  C18. On one order the bid engine bids at most once, for the order itself, in its own name, with the
  configured deposit and at a price not above the order's limit; and only when no earlier bid was found, the decision was to bid and capacity has been
  reserved.
\<close>
theorem bid_order_one_bid:
  assumes "order_exec E C existing is calls s" and "bids_made calls = m # ms"
  shows "ms = [] \<and> justified E C is m \<and> length (reserved is) = 1 \<and> ShouldBid (Inr True) \<in> set is \<and> QueryBid None \<notin> set is"
  using exec_pipeline [OF assms(1)] exec_sources [OF assms(1)] assms(2)
  by (cases "reserved is") (auto simp: pipeline_def sources_def)

subsection \<open>The decision and the chain\<close>

lemma gather_Inr:
  "gather pass auditors gotten acc = Inr ps \<Longrightarrow>
   \<exists>new. ps = acc @ new \<and> (\<forall>p\<in>set new. \<exists>a\<in>set auditors. \<exists>r. pass a = Inr r \<and> p \<in> set r)"
proof (induction auditors arbitrary: gotten acc)
  case (Cons a auditors)
  show ?case
  proof (cases "a \<in> gotten")
    case True
    then show ?thesis using Cons by fastforce
  next
    case False
    then obtain r where r: "pass a = Inr r" "gather pass auditors (insert a gotten) (acc @ r) = Inr ps"
      using Cons.prems by (auto split: sum.splits)
    then obtain new where "ps = (acc @ r) @ new" "\<forall>p\<in>set new. \<exists>a\<in>set auditors. \<exists>r. pass a = Inr r \<and> p \<in> set r"
      using Cons.IH by blast
    then show ?thesis using r by (intro exI [of _ "r @ new"]) auto
  qed
qed simp

lemma signed_match_by:
  "signed_match g ps v \<Longrightarrow> \<exists>p\<in>set ps. ap_Auditor p = v \<and> set (req_Attributes (gs_Requirements g)) \<subseteq> set (ap_Attributes p)"
  by (auto simp: signed_match_def existing_requirements_def AttributesSubsetOf_iff dest!: map_of_SomeD split: option.splits)

text \<open>
  C19. The bid engine does not bid in vain: when the signatures it was given are among those the chain has for
  the provider (one entry per auditor) and it decides to bid, then the group is valid and the provider meets its
  requirements by the check that the chain makes when the bid arrives.
\<close>
theorem shouldBid_sound:
  assumes "distinct (map ap_Auditor audited)"
    and "\<And>a r. pass a = Inr r \<Longrightarrow> set r \<subseteq> set audited"
    and "ap_Attributes own = prov_Attributes (oc_provider C)"
    and "shouldBid E C pass g = Some (Inr True)"
  shows "GroupSpec_MatchRequirements (grp_Spec g) (own # audited) = Some True \<and> validateDeploymentGroup E (grp_Spec g) () = Ok () ()"
proof -
  define spec where "spec = grp_Spec g"
  define sb where "sb = SignedBy (gs_Requirements spec)"
  have valid: "validateDeploymentGroup E spec () = Ok () ()" and att: "AttributesSubsetOf (req_Attributes (gs_Requirements spec)) (ap_Attributes own)"
    using assms(3,4) unfolding spec_def
    by (auto simp: shouldBid_def GroupSpec_MatchAttributes_def Let_def split: if_splits outcome.splits sum.splits option.splits bool.splits)
  show ?thesis
  proof (cases "AllOf sb = [] \<and> AnyOf sb = []")
    case True
    then show ?thesis using valid att unfolding spec_def sb_def by (simp add: GroupSpec_MatchRequirements_def Let_def)
  next
    case False
    define mine where "mine = \<lparr>ap_Owner = prov_Owner (oc_provider C), ap_Auditor = [], ap_Attributes = prov_Attributes (oc_provider C)\<rparr>"
    obtain ps where ps: "gather pass (AllOf sb @ AnyOf sb) {} [mine] = Inr ps"
        and match: "GroupSpec_MatchRequirements spec ps = Some True"
      using False assms(4) unfolding spec_def sb_def mine_def
      by (auto simp: shouldBid_def Let_def split: if_splits sum.splits option.splits bool.splits)
    then obtain new where new: "ps = mine # new" "set new \<subseteq> set audited" using gather_Inr [OF ps] assms(2) by fastforce
    have better: "signed_match spec audited v" if "signed_match spec new v" for v
      using signed_match_by [OF that] signed_match_iff [OF assms(1)] new(2) by blast
    have "new \<noteq> []" using match False new(1) by (auto simp: GroupSpec_MatchRequirements_def sb_def Let_def)
    then have "audited \<noteq> []" using new(2) by auto
    then have "GroupSpec_MatchRequirements spec (own # audited) = Some True"
      using match False new(1) better
      by (auto simp: GroupSpec_MatchRequirements_def sb_def Let_def list_ex_iff Suc_le_eq split: if_splits)
    then show ?thesis using valid by (simp add: spec_def)
  qed
qed

subsection \<open>Examples and shortcomings\<close>

primrec play :: "'b env \<Rightarrow> order_config \<Rightarrow> order_input list \<Rightarrow> order_call list \<times> order_run \<Rightarrow> (order_call list \<times> order_run) option" where
  "play E C [] cs = Some cs"
| "play E C (i # is) cs = (if order_ready i (snd cs) then
     (case order_run_step E C i (snd cs) of None \<Rightarrow> None | Some (s, new) \<Rightarrow> play E C is (fst cs @ new, s)) else None)"

definition execute :: "'b env \<Rightarrow> order_config \<Rightarrow> bool \<Rightarrow> order_input list \<Rightarrow> (order_call list \<times> order_run) option" where
  "execute E C existing is = (case newOrder E C existing of (s, calls) \<Rightarrow> play E C is (calls, s))"

lemma play_exec:
  "order_exec E C existing is calls s \<Longrightarrow> play E C js (calls, s) = Some (calls', s') \<Longrightarrow> order_exec E C existing (is @ js) calls' s'"
proof (induction js arbitrary: "is" calls s)
  case (Cons i js)
  then obtain t new where "order_ready i s" "order_run_step E C i s = Some (t, new)" "play E C js (calls @ new, t) = Some (calls', s')"
    by (auto split: if_splits option.splits)
  then show ?case using Cons.IH [OF order_exec.step [OF Cons.prems(1)]] by simp
qed simp

lemma execute_exec: "execute E C existing is = Some (calls, s) \<Longrightarrow> order_exec E C existing is calls s"
  by (auto simp: execute_def split: prod.splits dest!: play_exec [OF order_exec.start])

definition demo_order_id :: order_id where
  "demo_order_id = \<lparr>oid_Owner = ''owner'', oid_DSeq = 1, oid_GSeq = 1, oid_OSeq = 1\<rparr>"

definition demo_bidder :: order_config where
  "demo_bidder = \<lparr>oc_orderID = demo_order_id, oc_provider = \<lparr>prov_Owner = ''prova'', prov_HostURI = ''https://p'',
     prov_Attributes = [\<lparr>attr_Key = ''region'', attr_Value = ''eu''\<rparr>], prov_Info = \<lparr>EMail = [], Website = []\<rparr>\<rparr>,
     oc_address = ''prova'', oc_Deposit = \<lparr>Denom = ''uve'', Amount = 5\<rparr>, oc_BidTimeout = 60, oc_Attributes = []\<rparr>"

definition demo_chain_group :: group where
  "demo_chain_group = \<lparr>grp_ID = OrderID_GroupID demo_order_id, grp_State = GroupOpen, grp_Spec = demo_group [''audi1''] [], grp_CreatedAt = 1\<rparr>"

definition demo_inputs :: "order_input list" where
  "demo_inputs = [GroupFetched (Inr demo_chain_group), ShouldBid (Inr True), Reserved (Inr demo_order_id),
     Priced (Inr \<lparr>Denom = ''uve'', Amount = 20\<rparr>)]"

definition demo_end :: "order_input list \<Rightarrow> order_call list \<times> order_run" where
  "demo_end is = the (execute demo_env demo_bidder False is)"

lemma demo_end_exec:
  assumes "execute demo_env demo_bidder False is \<noteq> None"
  shows "order_exec demo_env demo_bidder False is (fst (demo_end is)) (snd (demo_end is))"
  using assms by (intro execute_exec) (auto simp: demo_end_def)

theorem bid_order_releases_witness:
  "unreserved (fst (demo_end (demo_inputs @ [BidSent (Inr ()), TimedOut]))) = [demo_order_id] \<and>
   bids_closed (fst (demo_end (demo_inputs @ [BidSent (Inr ()), TimedOut]))) = [MakeBidID demo_env demo_order_id ''prova'']"
proof -
  let ?e = "demo_end (demo_inputs @ [BidSent (Inr ()), TimedOut])"
  have s: "or_phase (snd ?e) = Draining" "\<not> won (snd ?e)" "bidPlaced (snd ?e)" by code_simp+
  have "execute demo_env demo_bidder False (demo_inputs @ [BidSent (Inr ()), TimedOut]) \<noteq> None" by code_simp
  from bid_order_releases [OF demo_end_exec [OF this] s(1)] show ?thesis
    using s by (simp add: demo_inputs_def demo_bidder_def reserved_def)
qed

theorem bid_order_one_bid_witness:
  "\<exists>m. bids_made (fst (demo_end demo_inputs)) = [m] \<and> justified demo_env demo_bidder demo_inputs m \<and> Amount (mcb_Price m) = 20"
proof -
  let ?m = "\<lparr>mcb_Order = demo_order_id, mcb_Provider = ''prova'', mcb_Price = \<lparr>Denom = ''uve'', Amount = 20\<rparr>,
    mcb_Deposit = \<lparr>Denom = ''uve'', Amount = 5\<rparr>\<rparr>"
  have m: "bids_made (fst (demo_end demo_inputs)) = [?m]" by code_simp
  have "execute demo_env demo_bidder False demo_inputs \<noteq> None" by code_simp
  from bid_order_one_bid [OF demo_end_exec [OF this] m] show ?thesis using m by auto
qed

theorem shouldBid_sound_witness:
  "GroupSpec_MatchRequirements (grp_Spec demo_chain_group)
     [\<lparr>ap_Owner = ''prova'', ap_Auditor = [], ap_Attributes = [\<lparr>attr_Key = ''region'', attr_Value = ''eu''\<rparr>]\<rparr>,
      \<lparr>ap_Owner = ''prova'', ap_Auditor = ''audi1'', ap_Attributes = [\<lparr>attr_Key = ''region'', attr_Value = ''eu''\<rparr>]\<rparr>] = Some True \<and>
   validateDeploymentGroup demo_env (grp_Spec demo_chain_group) () = Ok () ()"
proof (rule shouldBid_sound [where C = demo_bidder and pass = "\<lambda>a. Inr (if a = ''audi1'' then
    [\<lparr>ap_Owner = ''prova'', ap_Auditor = ''audi1'', ap_Attributes = [\<lparr>attr_Key = ''region'', attr_Value = ''eu''\<rparr>]\<rparr>] else [])"])
  show "shouldBid demo_env demo_bidder (\<lambda>a. Inr (if a = ''audi1'' then
      [\<lparr>ap_Owner = ''prova'', ap_Auditor = ''audi1'', ap_Attributes = [\<lparr>attr_Key = ''region'', attr_Value = ''eu''\<rparr>]\<rparr>] else [])) demo_chain_group =
    Some (Inr True)" by code_simp
qed (auto simp: demo_bidder_def split: if_splits)

text \<open>A bid whose broadcast succeeds only after the engine has stopped is never closed.\<close>

lemma late_bid_left_open:
  "let is = demo_inputs @ [ShutdownRequest, BidSent (Inr ())]; (calls, s) = demo_end is in
   order_exec demo_env demo_bidder False is calls s \<and> length (bids_made calls) = 1 \<and> bids_closed calls = [] \<and> \<not> bidch s"
proof -
  have "execute demo_env demo_bidder False (demo_inputs @ [ShutdownRequest, BidSent (Inr ())]) \<noteq> None" by code_simp
  moreover have "length (bids_made (fst (demo_end (demo_inputs @ [ShutdownRequest, BidSent (Inr ())])))) = 1 \<and>
      bids_closed (fst (demo_end (demo_inputs @ [ShutdownRequest, BidSent (Inr ())]))) = [] \<and>
      \<not> bidch (snd (demo_end (demo_inputs @ [ShutdownRequest, BidSent (Inr ())])))" by code_simp
  ultimately show ?thesis using demo_end_exec by (simp add: Let_def split: prod.split) (metis fst_conv snd_conv)
qed

text \<open>A lease won before the group was fetched is published without its group.\<close>

lemma won_without_group:
  assumes "newOrder E C existing = (s, calls)" "GroupID_Equals (OrderID_GroupID (oc_orderID C)) (BidID_GroupID lid)"
    "bid_Provider lid = AddrString E (oc_address C)"
  shows "\<exists>s'. order_run_step E C (BusEvent (EventLeaseCreated lid price)) s = Some (s', [CallPublishLeaseWon lid None price])"
  using assms by (auto simp: newOrder_def order_run_step_def order_loop_step_def on_event_def break_loop_def)

end
