(* ===== verification/Query_Paths.thy ===== *)
theory Query_Paths
  imports Ids Example
begin

text \<open>
  The paths under which clients name objects (\<^verbatim>\<open>x/market/query/path.go\<close>, \<^verbatim>\<open>x/deployment/query/path.go\<close>); the
  provider's daemon also uses them as keys of its tables.  A parser gets the parts after the leading word.
\<close>

definition deploymentParts :: "deployment_id \<Rightarrow> string" where
  "deploymentParts i = did_Owner i @ ''/'' @ FormatWord (did_DSeq i)"

definition DeploymentPath :: "deployment_id \<Rightarrow> string" where
  "DeploymentPath i = ''deployment/'' @ deploymentParts i"

definition getGroupPath :: "group_id \<Rightarrow> string" where
  "getGroupPath i = ''group/'' @ gid_Owner i @ ''/'' @ FormatWord (gid_DSeq i) @ ''/'' @ FormatWord (gid_GSeq i)"

definition orderParts :: "order_id \<Rightarrow> string" where
  "orderParts i = oid_Owner i @ ''/'' @ FormatWord (oid_DSeq i) @ ''/'' @ FormatWord (oid_GSeq i) @ ''/'' @ FormatWord (oid_OSeq i)"

definition OrderPath :: "order_id \<Rightarrow> string" where
  "OrderPath i = ''order/'' @ orderParts i"

definition getBidPath :: "bid_id \<Rightarrow> string" where
  "getBidPath i = ''bid/'' @ orderParts (BidID_OrderID i) @ ''/'' @ bid_Provider i"

definition LeasePath :: "lease_id \<Rightarrow> string" where
  "LeasePath i = ''lease/'' @ orderParts (BidID_OrderID i) @ ''/'' @ bid_Provider i"

definition ErrInvalidPath :: error where
  "ErrInvalidPath = Errorf ''query: invalid path''"

definition ParseGroupPath :: "'b env \<Rightarrow> string list \<Rightarrow> error + group_id" where
  "ParseGroupPath E parts = (if length parts < 3 then Inl ErrInvalidPath else
     (case ParseDeploymentPath E (take 2 parts) of Inl e \<Rightarrow> Inl e | Inr did \<Rightarrow>
       (case ParseUint 32 (parts ! 2) of None \<Rightarrow> Inl ParseError | Some gseq \<Rightarrow> Inr (MakeGroupID did (of_nat gseq)))))"

definition parseOrderPath :: "'b env \<Rightarrow> string list \<Rightarrow> error + order_id" where
  "parseOrderPath E parts = (if length parts < 4 then Inl ErrInvalidPath else
     (case ParseGroupPath E (take 3 parts) of Inl e \<Rightarrow> Inl e | Inr gid \<Rightarrow>
       (case ParseUint 32 (parts ! 3) of None \<Rightarrow> Inl ParseError | Some oseq \<Rightarrow> Inr (MakeOrderID gid (of_nat oseq)))))"

definition parseBidPath :: "'b env \<Rightarrow> string list \<Rightarrow> error + bid_id" where
  "parseBidPath E parts = (if length parts < 5 then Inl ErrInvalidPath else
     (case parseOrderPath E (take 4 parts) of Inl e \<Rightarrow> Inl e | Inr oid \<Rightarrow>
       (case FromBech32 E (parts ! 4) of None \<Rightarrow> Inl Bech32Error | Some provider \<Rightarrow> Inr (MakeBidID E oid provider))))"

definition ParseLeasePath :: "'b env \<Rightarrow> string list \<Rightarrow> error + lease_id" where
  "ParseLeasePath E parts = map_sum id MakeLeaseID (parseBidPath E parts)"

lemma parseOrderPath_parts:
  assumes "addr_laws E" "canonical E (oid_Owner i)"
  shows "parseOrderPath E [oid_Owner i, FormatWord (oid_DSeq i), FormatWord (oid_GSeq i), FormatWord (oid_OSeq i)] = Inr i"
proof -
  obtain a where "FromBech32 E (oid_Owner i) = Some a" "AddrString E a = oid_Owner i" using assms(2) by (auto simp: canonical_iff)
  then show ?thesis
    by (simp add: parseOrderPath_def ParseGroupPath_def ParseDeploymentPath_def MakeGroupID_def MakeOrderID_def)
qed

lemma split_orderParts:
  "CHR ''/'' \<notin> set (oid_Owner i) \<Longrightarrow>
   split_slash (orderParts i) = [oid_Owner i, FormatWord (oid_DSeq i), FormatWord (oid_GSeq i), FormatWord (oid_OSeq i)]"
  "CHR ''/'' \<notin> set (oid_Owner i) \<Longrightarrow> split_slash (orderParts i @ ''/'' @ t) =
     [oid_Owner i, FormatWord (oid_DSeq i), FormatWord (oid_GSeq i), FormatWord (oid_OSeq i)] @ split_slash t"
  by (simp_all add: orderParts_def split_simps)

lemma split_word: "split_slash (''order/'' @ t) = ''order'' # split_slash t" "split_slash (''bid/'' @ t) = ''bid'' # split_slash t"
    "split_slash (''lease/'' @ t) = ''lease'' # split_slash t"
  using split_slash_append [of "''order''" t] split_slash_append [of "''bid''" t] split_slash_append [of "''lease''" t] by simp_all

text \<open>What follows the last slash is determined.\<close>

lemma last_slash_inj:
  assumes "x @ CHR ''/'' # v = y @ CHR ''/'' # w" "CHR ''/'' \<notin> set v" "CHR ''/'' \<notin> set w"
  shows "x = y \<and> v = w"
proof -
  have *: "takeWhile (\<lambda>c. c \<noteq> CHR ''/'') (rev (x @ CHR ''/'' # v)) = rev v" if "CHR ''/'' \<notin> set v" for x v :: string
    using that by (auto simp: takeWhile_append)
  have "rev v = rev w" using * [OF assms(2), of x] * [OF assms(3), of y] assms(1) by metis
  then show ?thesis using assms(1) by simp
qed

lemma OrderPath_inj:
  assumes "CHR ''/'' \<notin> set (oid_Owner i)" "CHR ''/'' \<notin> set (oid_Owner j)"
  shows "OrderPath i = OrderPath j \<longleftrightarrow> i = j"
proof
  assume "OrderPath i = OrderPath j"
  then have "split_slash (orderParts i) = split_slash (orderParts j)" by (simp add: OrderPath_def)
  then show "i = j" using assms by (cases i; cases j) (simp add: split_orderParts)
qed simp

lemma LeasePath_inj:
  assumes "CHR ''/'' \<notin> set (bid_Provider i)" "CHR ''/'' \<notin> set (bid_Provider j)" "LeasePath i = LeasePath j"
  shows "i = j"
proof -
  let ?a = "\<lambda>i. bid_Owner i" and ?b = "\<lambda>i. FormatWord (bid_DSeq i)" and ?c = "\<lambda>i. FormatWord (bid_GSeq i)" and ?d = "\<lambda>i. FormatWord (bid_OSeq i)"
  have "((?a i @ CHR ''/'' # ?b i) @ CHR ''/'' # ?c i) @ CHR ''/'' # ?d i = ((?a j @ CHR ''/'' # ?b j) @ CHR ''/'' # ?c j) @ CHR ''/'' # ?d j \<and>
      bid_Provider i = bid_Provider j"
    by (rule last_slash_inj) (use assms in \<open>simp_all add: LeasePath_def orderParts_def BidID_OrderID_def\<close>)
  moreover from this have "(?a i @ CHR ''/'' # ?b i) @ CHR ''/'' # ?c i = (?a j @ CHR ''/'' # ?b j) @ CHR ''/'' # ?c j \<and> ?d i = ?d j"
    by (intro last_slash_inj) simp_all
  moreover from this have "?a i @ CHR ''/'' # ?b i = ?a j @ CHR ''/'' # ?b j \<and> ?c i = ?c j" by (intro last_slash_inj) simp_all
  moreover from this have "?a i = ?a j \<and> ?b i = ?b j" by (intro last_slash_inj) simp_all
  ultimately show ?thesis by simp
qed

text \<open>
  What a path names is what was asked for: the path of an order, bid or lease whose addresses are
  as the chain prints them splits and parses back to its identifier.
\<close>
lemma path_roundtrip:
  assumes "addr_laws E" and "canonical E (bid_Owner i)" and "canonical E (bid_Provider i)"
  shows "parseOrderPath E (tl (split_slash (OrderPath (BidID_OrderID i)))) = Inr (BidID_OrderID i) \<and>
    parseBidPath E (tl (split_slash (getBidPath i))) = Inr i \<and> ParseLeasePath E (tl (split_slash (LeasePath i))) = Inr (MakeLeaseID i)"
proof -
  let ?o = "BidID_OrderID i"
  have owner: "oid_Owner ?o = bid_Owner i" by (simp add: BidID_OrderID_def)
  note slash = canonical_no_slash [OF assms(1,2)] canonical_no_slash [OF assms(1,3)]
  note parts = parseOrderPath_parts [OF assms(1), of ?o, unfolded owner, OF assms(2)]
  obtain a where a: "FromBech32 E (bid_Provider i) = Some a" "AddrString E a = bid_Provider i"
    using assms(3) by (auto simp: canonical_iff)
  have bid: "parseBidPath E [bid_Owner i, FormatWord (oid_DSeq ?o), FormatWord (oid_GSeq ?o), FormatWord (oid_OSeq ?o), bid_Provider i] = Inr i"
    using parts a by (simp add: parseBidPath_def) (simp add: MakeBidID_def BidID_OrderID_def)
  have "tl (split_slash (OrderPath ?o)) = [bid_Owner i, FormatWord (oid_DSeq ?o), FormatWord (oid_GSeq ?o), FormatWord (oid_OSeq ?o)]"
    unfolding OrderPath_def split_word using slash by (simp add: split_orderParts owner)
  moreover have "tl (split_slash (getBidPath i)) = [bid_Owner i, FormatWord (oid_DSeq ?o), FormatWord (oid_GSeq ?o), FormatWord (oid_OSeq ?o), bid_Provider i]"
      "tl (split_slash (LeasePath i)) = [bid_Owner i, FormatWord (oid_DSeq ?o), FormatWord (oid_GSeq ?o), FormatWord (oid_OSeq ?o), bid_Provider i]"
    unfolding getBidPath_def LeasePath_def split_word using slash split_orderParts(2) [of ?o] by (simp_all add: owner split_slash_no_slash)
  ultimately show ?thesis using parts bid by (simp add: ParseLeasePath_def)
qed

end
