(* ===== verification/Bid_Service.thy ===== *)
theory Bid_Service
  imports Query_Paths Market
begin

text \<open>
  The bid engine around its orders: the cache of auditors' signatures (\<^verbatim>\<open>provider/bidengine/provider_attributes.go\<close>) and
  the table of orders being followed (\<^verbatim>\<open>service.go\<close>).  Both are goroutines, modelled as step functions on what their
  \<^verbatim>\<open>select\<close> receives; times are read where the code reads the clock, and are inputs.
\<close>

subsection \<open>Auditors' signatures\<close>

record attr_entry =
  ae_providerAttr :: "audit_provider list"
  ae_at :: int

text \<open>A request is named by a number; it stands for the pair of channels on which the caller waits.\<close>

record attr_request =
  rq_auditor :: string
  rq_no :: nat

record attr_service =
  as_providerAddr :: string
  as_data :: "attr_entry kv"
  as_inProgress :: "string set"
  as_pending :: "attr_request list kv"
  as_ttl :: int
  as_fetching :: "string list"
  as_stopping :: bool

datatype attr_input =
    AttrEvent event
  | AttrRequest attr_request int
  | AttrFetched string "string + audit_provider list" int
  | AttrShutdown

type_synonym attr_reply = "attr_request \<times> (error + audit_provider list)"

definition newProviderAttrSignatureService :: "string \<Rightarrow> int \<Rightarrow> attr_service" where
  "newProviderAttrSignatureService addr ttl = \<lparr>as_providerAddr = addr, as_data = [], as_inProgress = {}, as_pending = [],
     as_ttl = ttl, as_fetching = [], as_stopping = False\<rparr>"

definition purgeAuditor :: "string \<Rightarrow> attr_service \<Rightarrow> attr_service" where
  "purgeAuditor auditor s = s\<lparr>as_data := kv_del auditor (as_data s)\<rparr>"

definition handleEvent :: "'b env \<Rightarrow> event \<Rightarrow> attr_service \<Rightarrow> attr_service" where
  "handleEvent E ev s = (case ev of
     EventTrustedAuditorCreated owner auditor \<Rightarrow> if AddrString E owner = as_providerAddr s then purgeAuditor (AddrString E auditor) s else s
   | EventTrustedAuditorDeleted owner auditor \<Rightarrow> if AddrString E owner = as_providerAddr s then purgeAuditor (AddrString E auditor) s else s
   | _ \<Rightarrow> s)"

definition pending_for :: "attr_service \<Rightarrow> string \<Rightarrow> attr_request list" where
  "pending_for s auditor = (case kv_get (as_pending s) auditor of None \<Rightarrow> [] | Some rs \<Rightarrow> rs)"

definition failAllPending :: "string \<Rightarrow> error \<Rightarrow> attr_service \<Rightarrow> attr_service \<times> attr_reply list" where
  "failAllPending auditor e s = (s\<lparr>as_pending := kv_del auditor (as_pending s)\<rparr>, map (\<lambda>r. (r, Inl e)) (pending_for s auditor))"

definition providerAttrSize :: "audit_provider list \<Rightarrow> nat" where
  "providerAttrSize entries = (\<Sum>x\<leftarrow>entries. length (ap_Attributes x))"

definition maxEntries :: nat where
  "maxEntries = 50000"

text \<open>The entries met until the size reaches the target, in the order the map happens to be iterated in.\<close>

fun prune_keys :: "nat \<Rightarrow> nat \<Rightarrow> (string \<times> attr_entry) list \<Rightarrow> string list" where
  "prune_keys target n [] = []"
| "prune_keys target n ((auditor, entry) # es) =
     (let n = n + providerAttrSize (ae_providerAttr entry) in
      auditor # (if target \<le> n then [] else prune_keys target n es))"

definition trimCache :: "(attr_entry kv \<Rightarrow> (string \<times> attr_entry) list) \<Rightarrow> int \<Rightarrow> attr_service \<Rightarrow> attr_service" where
  "trimCache order now s =
     (let expired = (\<lambda>e. now - ae_at (snd e) > as_ttl s);
        size = (\<Sum>e\<leftarrow>filter (\<lambda>e. \<not> expired e) (as_data s). providerAttrSize (ae_providerAttr (snd e)));
        s = s\<lparr>as_data := filter (\<lambda>e. \<not> expired e) (as_data s)\<rparr> in
      if \<not> size > maxEntries then s
      else s\<lparr>as_data := fold kv_del (prune_keys (maxEntries div 2) 0 (order (as_data s))) (as_data s)\<rparr>)"

definition completeAllPending ::
  "(attr_entry kv \<Rightarrow> (string \<times> attr_entry) list) \<Rightarrow> int \<Rightarrow> string \<Rightarrow> audit_provider list \<Rightarrow> attr_service \<Rightarrow> attr_service \<times> attr_reply list" where
  "completeAllPending order now auditor result s =
     (trimCache order now (s\<lparr>as_pending := kv_del auditor (as_pending s),
        as_data := kv_set auditor \<lparr>ae_providerAttr = result, ae_at = now\<rparr> (as_data s)\<rparr>),
      map (\<lambda>r. (r, Inr result)) (pending_for s auditor))"

definition maybeStart :: "string \<Rightarrow> attr_service \<Rightarrow> attr_service" where
  "maybeStart auditor s = (if pending_for s auditor = [] then s else if auditor \<in> as_inProgress s then s
     else s\<lparr>as_fetching := as_fetching s @ [auditor]\<rparr>)"

text \<open>The regular expression \<^verbatim>\<open>^.*invalid provider: address not found.*$\<close>; such an error means no data.\<close>

definition invalidProviderPattern :: "string \<Rightarrow> bool" where
  "invalidProviderPattern s \<longleftrightarrow> CHR 0x0A \<notin> set s \<and> sublist ''invalid provider: address not found'' s"

definition fetch :: "string + audit_provider list \<Rightarrow> error + audit_provider list" where
  "fetch r = (case r of Inl e \<Rightarrow> if invalidProviderPattern e then Inr [] else Inl (Errorf e) | Inr value \<Rightarrow> Inr value)"

definition addRequest :: "int \<Rightarrow> attr_request \<Rightarrow> attr_service \<Rightarrow> bool \<times> attr_service \<times> attr_reply list" where
  "addRequest now request s =
     (let wait = (True, s\<lparr>as_pending := kv_set (rq_auditor request) (pending_for s (rq_auditor request) @ [request]) (as_pending s)\<rparr>, []) in
      case kv_get (as_data s) (rq_auditor request) of
        None \<Rightarrow> wait
      | Some entry \<Rightarrow> if now - ae_at entry < as_ttl s then (False, s, [(request, Inr (ae_providerAttr entry))]) else wait)"

definition attr_step ::
  "'b env \<Rightarrow> (attr_entry kv \<Rightarrow> (string \<times> attr_entry) list) \<Rightarrow> attr_input \<Rightarrow> attr_service \<Rightarrow> attr_service \<times> attr_reply list" where
  "attr_step E order i s = (case i of
     AttrEvent ev \<Rightarrow> (handleEvent E ev s, [])
   | AttrRequest request now \<Rightarrow> (case addRequest now request s of (start, s, replies) \<Rightarrow>
       (if start then maybeStart (rq_auditor request) s else s, replies))
   | AttrFetched auditor r now \<Rightarrow>
       let s = s\<lparr>as_fetching := remove1 auditor (as_fetching s)\<rparr>;
         (s, replies) = (case fetch r of Inl e \<Rightarrow> failAllPending auditor e s
           | Inr result \<Rightarrow> completeAllPending order now auditor result s) in
       (s\<lparr>as_pending := kv_del auditor (as_pending s)\<rparr>, replies)
   | AttrShutdown \<Rightarrow> (s\<lparr>as_stopping := True\<rparr>, []))"

text \<open>A fetch ends only once it has begun.  After a shutdown request the loop is left and nothing is received any more; the goroutine
  waits for the fetches (\<^verbatim>\<open>wg.Wait\<close>), each of which ends only when its result is received.\<close>

definition attr_ready :: "attr_input \<Rightarrow> attr_service \<Rightarrow> bool" where
  "attr_ready i s \<longleftrightarrow> \<not> as_stopping s \<and> (case i of AttrFetched auditor _ _ \<Rightarrow> auditor \<in> set (as_fetching s) | _ \<Rightarrow> True)"

definition attr_completed :: "attr_service \<Rightarrow> bool" where
  "attr_completed s \<longleftrightarrow> as_stopping s \<and> as_fetching s = []"

inductive attr_exec ::
  "'b env \<Rightarrow> (attr_entry kv \<Rightarrow> (string \<times> attr_entry) list) \<Rightarrow> string \<Rightarrow> int \<Rightarrow> attr_input list \<Rightarrow> attr_reply list \<Rightarrow> attr_service \<Rightarrow> bool"
  for E order addr ttl where
  start: "attr_exec E order addr ttl [] [] (newProviderAttrSignatureService addr ttl)"
| step: "attr_exec E order addr ttl is replies s \<Longrightarrow> attr_ready i s \<Longrightarrow> attr_step E order i s = (s', new) \<Longrightarrow>
    attr_exec E order addr ttl (is @ [i]) (replies @ new) s'"

subsection \<open>The orders being followed\<close>

record bid_service =
  bs_orders :: "order_id kv"
  bs_running :: "order_id list"
  bs_stopping :: bool

datatype bid_input = OrderCreated order_id bool | OtherBidEvent | BidStatus | OrderDrained order_id | BidShutdown

datatype bid_output = OrderStarted order_id bool | OrdersAre "32 word"

text \<open>A new order may fail to subscribe; the flag says whether it does not.\<close>

definition start_order :: "order_id \<Rightarrow> bool \<Rightarrow> bool \<Rightarrow> bid_service \<Rightarrow> bid_service \<times> bid_output list" where
  "start_order oid checkForExistingBid ok s = (if ok then
     (s\<lparr>bs_orders := kv_set (OrderPath oid) oid (bs_orders s), bs_running := bs_running s @ [oid]\<rparr>, [OrderStarted oid checkForExistingBid])
     else (s, []))"

primrec catch_up :: "(order_id \<times> bool) list \<Rightarrow> bid_service \<Rightarrow> bid_service \<times> bid_output list" where
  "catch_up [] s = (s, [])"
| "catch_up (x # xs) s = (let (s, a) = start_order (fst x) True (snd x) s; (s, b) = catch_up xs s in (s, a @ b))"

definition queryExistingOrders :: "order list \<Rightarrow> order_id list" where
  "queryExistingOrders rs = map ord_ID (filter (\<lambda>r. ord_State r = OrderOpen) rs)"

definition bid_step :: "bid_input \<Rightarrow> bid_service \<Rightarrow> bid_service \<times> bid_output list" where
  "bid_step i s = (case i of
     OrderCreated oid ok \<Rightarrow> if bs_stopping s then (s, []) else
       if kv_has (bs_orders s) (OrderPath oid) then (s, []) else start_order oid False ok s
   | OtherBidEvent \<Rightarrow> (s, [])
   | BidStatus \<Rightarrow> if bs_stopping s then (s, []) else (s, [OrdersAre (of_nat (length (bs_orders s)))])
   | OrderDrained oid \<Rightarrow> (s\<lparr>bs_orders := kv_del (OrderPath oid) (bs_orders s), bs_running := remove1 oid (bs_running s)\<rparr>, [])
   | BidShutdown \<Rightarrow> (s\<lparr>bs_stopping := True\<rparr>, []))"

definition bid_ready :: "bid_input \<Rightarrow> bid_service \<Rightarrow> bool" where
  "bid_ready i s = (case i of OrderDrained oid \<Rightarrow> oid \<in> set (bs_running s) | _ \<Rightarrow> True)"

inductive bid_exec :: "(order_id \<times> bool) list \<Rightarrow> bid_service \<Rightarrow> bool" for existing where
  start: "bid_exec existing (fst (catch_up existing \<lparr>bs_orders = [], bs_running = [], bs_stopping = False\<rparr>))"
| step: "bid_exec existing s \<Longrightarrow> bid_ready i s \<Longrightarrow> bid_exec existing (fst (bid_step i s))"

end
