(* ===== verification/Bid_Service_Properties.thy ===== *)
theory Bid_Service_Properties
  imports Bid_Service "HOL-Library.Multiset"
begin

text \<open>
  Every request for signatures is answered exactly once, with what a query returned, and while it waits a query is
  under way; an order is followed by one goroutine at a time.
\<close>

subsection \<open>Requests and answers\<close>

definition requests :: "attr_input list \<Rightarrow> attr_request list" where
  "requests is = [r. AttrRequest r _ \<leftarrow> is]"

definition waiting :: "attr_service \<Rightarrow> attr_request list" where
  "waiting s = concat (map snd (as_pending s))"

lemma requests_append [simp]: "requests (is @ js) = requests is @ requests js"
  by (simp add: requests_def)

lemma requests_one [simp]:
  "requests [AttrRequest r now] = [r]" "requests [AttrEvent ev] = []" "requests [AttrFetched a v now] = []" "requests [AttrShutdown] = []" "requests [] = []"
  by (simp_all add: requests_def)

lemma kv_absent: "k \<notin> fst ` set m \<Longrightarrow> kv_del k m = m" "k \<notin> fst ` set m \<Longrightarrow> kv_get m k = None"
proof -
  show "kv_del k m = m" if "k \<notin> fst ` set m" unfolding kv_del_def using that by (intro filter_True) (metis imageI)
qed (simp add: kv_get_def map_of_eq_None_iff)

lemma mset_kv_del:
  "distinct (map fst m) \<Longrightarrow> mset (concat (map snd m)) =
     mset (concat (map snd (kv_del k m))) + mset (case kv_get m k of None \<Rightarrow> [] | Some v \<Rightarrow> v)"
proof (induction m)
  case (Cons e m)
  have parts: "kv_del k (e # m) = (if fst e = k then kv_del k m else e # kv_del k m)"
      "kv_get (e # m) k = (if fst e = k then Some (snd e) else kv_get m k)"
    by (cases e, simp add: kv_del_def kv_get_def)+
  show ?case using Cons kv_absent [of "fst e" m] by (auto simp: parts ac_simps)
qed (simp add: kv_del_def kv_get_def)

lemma mset_kv_set:
  "kv_ok m \<Longrightarrow> mset (concat (map snd (kv_set k v m))) + mset (case kv_get m k of None \<Rightarrow> [] | Some u \<Rightarrow> u) = mset v + mset (concat (map snd m))"
proof (induction k v m rule: kv_set.induct)
  case (2 k v k' v' m)
  have k: "kv_get m k = None" if "k < k'" using that "2.prems"
    by (force simp: kv_ok_def kv_get_def map_of_eq_None_iff)
  have "kv_ok m" using "2.prems" by (simp add: kv_ok_def)
  then show ?case using "2.IH" k by (auto simp: kv_get_def)
qed (simp add: kv_get_def)

text \<open>The invariant: requests made are those answered and those waiting; a waiting one has a query under way.\<close>

definition attr_inv :: "attr_input list \<Rightarrow> attr_reply list \<Rightarrow> attr_service \<Rightarrow> bool" where
  "attr_inv is replies s \<longleftrightarrow> kv_ok (as_pending s) \<and> as_inProgress s = {} \<and>
     mset (map fst replies) + mset (waiting s) = mset (requests is) \<and>
     (\<forall>a. pending_for s a \<noteq> [] \<longrightarrow> a \<in> set (as_fetching s))"

lemma handleEvent_sel [simp]:
  "as_pending (handleEvent E ev s) = as_pending s" "as_inProgress (handleEvent E ev s) = as_inProgress s"
  "as_fetching (handleEvent E ev s) = as_fetching s"
  by (simp_all add: handleEvent_def purgeAuditor_def split: event.splits)

lemma trimCache_sel [simp]:
  "as_pending (trimCache order now s) = as_pending s" "as_inProgress (trimCache order now s) = as_inProgress s"
  "as_fetching (trimCache order now s) = as_fetching s"
  by (simp_all add: trimCache_def Let_def)

text \<open>What the end of a query does to requests and answers.\<close>

lemma fetched_step:
  assumes "attr_step E order (AttrFetched a r now) s = (s', new)" "kv_ok (as_pending s)"
  shows "as_pending s' = kv_del a (as_pending s)" "as_inProgress s' = as_inProgress s" "as_fetching s' = remove1 a (as_fetching s)"
    "map fst new = pending_for s a" "(\<forall>rep\<in>set new. snd rep = fetch r)"
proof -
  have del: "kv_del a (kv_del a m) = kv_del a m" for m :: "attr_request list kv" by (simp add: kv_del_def)
  show "as_pending s' = kv_del a (as_pending s)" "as_inProgress s' = as_inProgress s" "as_fetching s' = remove1 a (as_fetching s)"
      "map fst new = pending_for s a" "\<forall>rep\<in>set new. snd rep = fetch r"
    using assms(1)
    by (auto simp: attr_step_def failAllPending_def completeAllPending_def pending_for_def Let_def del comp_def split: sum.splits)
qed

lemma request_step:
  assumes "attr_step E order (AttrRequest r now) s = (s', new)" "as_inProgress s = {}"
  obtains (cached) entry where "kv_get (as_data s) (rq_auditor r) = Some entry" "now - ae_at entry < as_ttl s" "s' = s"
      "new = [(r, Inr (ae_providerAttr entry))]"
  | (queued) "new = []" "as_pending s' = kv_set (rq_auditor r) (pending_for s (rq_auditor r) @ [r]) (as_pending s)"
      "as_fetching s' = as_fetching s @ [rq_auditor r]" "as_inProgress s' = {}" "as_data s' = as_data s"
  using assms
  by (auto simp: attr_step_def addRequest_def maybeStart_def pending_for_def Let_def split: option.splits if_splits)

lemma pending_for_simps [simp]:
  "pending_for (s\<lparr>as_pending := kv_del a m\<rparr>) b = (if b = a then [] else pending_for (s\<lparr>as_pending := m\<rparr>) b)"
  "pending_for (s\<lparr>as_pending := kv_set a v m\<rparr>) b = (if b = a then v else pending_for (s\<lparr>as_pending := m\<rparr>) b)"
  by (simp_all add: pending_for_def)

lemma pending_for_cong: "as_pending s = m \<Longrightarrow> pending_for s = pending_for (t\<lparr>as_pending := m\<rparr>)"
  by (simp add: pending_for_def fun_eq_iff)

lemma attr_inv_step:
  assumes "attr_inv is replies s" "attr_ready i s" "attr_step E order i s = (s', new)"
  shows "attr_inv (is @ [i]) (replies @ new) s'"
proof (cases i)
  case (AttrEvent ev)
  then show ?thesis using assms by (auto simp: attr_step_def attr_inv_def waiting_def pending_for_def)
next
  case (AttrRequest r now)
  have inv: "kv_ok (as_pending s)" "as_inProgress s = {}" "mset (map fst replies) + mset (waiting s) = mset (requests is)"
      "\<And>a. pending_for s a \<noteq> [] \<Longrightarrow> a \<in> set (as_fetching s)"
    using assms(1) by (auto simp: attr_inv_def)
  show ?thesis using assms(3) [unfolded AttrRequest] inv(2)
  proof (cases rule: request_step)
    case (cached entry)
    then show ?thesis using assms(1) AttrRequest by (auto simp: attr_inv_def)
  next
    case queued
    have "mset (waiting s') = mset (waiting s) + {#r#}"
      using mset_kv_set [OF inv(1), of "rq_auditor r" "pending_for s (rq_auditor r) @ [r]"]
      by (simp add: waiting_def queued(2) pending_for_def split: option.splits)
    moreover have "pending_for s' a \<noteq> [] \<Longrightarrow> a \<in> set (as_fetching s')" for a
      using inv(4) [of a] queued by (auto simp: pending_for_cong [OF queued(2), of s] split: if_splits)
    ultimately show ?thesis using queued inv AttrRequest by (simp add: attr_inv_def flip: inv(3))
  qed
next
  case (AttrFetched a r now)
  have inv: "kv_ok (as_pending s)" "as_inProgress s = {}" "mset (map fst replies) + mset (waiting s) = mset (requests is)"
      "\<And>a. pending_for s a \<noteq> [] \<Longrightarrow> a \<in> set (as_fetching s)"
    using assms(1) by (auto simp: attr_inv_def)
  note step = fetched_step [OF assms(3) [unfolded AttrFetched] inv(1)]
  have "mset (waiting s) = mset (waiting s') + mset (map fst new)"
    using mset_kv_del [OF kv_ok_distinct [OF inv(1)], of a] by (simp add: waiting_def step(1,4) pending_for_def)
  moreover have "b \<in> set (as_fetching s')" if "pending_for s' b \<noteq> []" for b
    using that inv(4) [of b] step(3) by (auto simp: pending_for_cong [OF step(1), of s] split: if_splits)
  ultimately show ?thesis using inv step(1-3) AttrFetched by (auto simp: attr_inv_def ac_simps inv(3) [symmetric])
next
  case AttrShutdown
  then show ?thesis using assms by (auto simp: attr_step_def attr_inv_def waiting_def pending_for_def)
qed

lemma attr_exec_inv: "attr_exec E order addr ttl is replies s \<Longrightarrow> attr_inv is replies s"
proof (induction rule: attr_exec.induct)
  case start
  show ?case by (simp add: attr_inv_def newProviderAttrSignatureService_def waiting_def pending_for_def)
qed (rule attr_inv_step)

subsection \<open>Where answers come from\<close>

definition fetched :: "attr_input list \<Rightarrow> string \<Rightarrow> (error + audit_provider list) set" where
  "fetched is a = {fetch r | r now. AttrFetched a r now \<in> set is}"

definition genuine_answers :: "attr_input list \<Rightarrow> attr_reply list \<Rightarrow> attr_service \<Rightarrow> bool" where
  "genuine_answers is replies s \<longleftrightarrow> (\<forall>(r, v)\<in>set replies. v \<in> fetched is (rq_auditor r)) \<and>
     (\<forall>(a, rs)\<in>set (as_pending s). \<forall>r\<in>set rs. rq_auditor r = a) \<and>
     (\<forall>(a, e)\<in>set (as_data s). Inr (ae_providerAttr e) \<in> fetched is a)"

lemma fetched_mono: "v \<in> fetched is a \<Longrightarrow> v \<in> fetched (is @ js) a"
  by (auto simp: fetched_def)

lemma kv_set_subset: "set (kv_set k v m) \<subseteq> insert (k, v) (set m)"
  by (induction k v m rule: kv_set.induct) auto

lemma kv_del_subset: "set (kv_del k m) \<subseteq> set m" "set (fold kv_del ks m) \<subseteq> set m"
proof -
  show del: "set (kv_del k m) \<subseteq> set m" for k and m :: "'v kv" by (auto simp: kv_del_def)
  show "set (fold kv_del ks m) \<subseteq> set m"
    by (induction ks arbitrary: m) (use del in \<open>fastforce+\<close>)
qed

lemma trimCache_data: "set (as_data (trimCache order now s)) \<subseteq> set (as_data s)"
  using kv_del_subset(2) [of _ "filter p (as_data s)" for p] by (auto simp: trimCache_def Let_def dest!: subsetD)

lemma handleEvent_data: "set (as_data (handleEvent E ev s)) \<subseteq> set (as_data s)"
  by (auto simp: handleEvent_def purgeAuditor_def kv_del_def split: event.splits if_splits)

lemma fetched_data:
  assumes "attr_step E order (AttrFetched a r now) s = (s', new)" "(b, e) \<in> set (as_data s')"
  shows "(b, e) \<in> set (as_data s) \<or> b = a \<and> Inr (ae_providerAttr e) = fetch r"
proof (cases "fetch r")
  case (Inl x)
  then show ?thesis using assms by (auto simp: attr_step_def failAllPending_def Let_def)
next
  case (Inr x)
  then have "(b, e) \<in> set (kv_set a \<lparr>ae_providerAttr = x, ae_at = now\<rparr> (as_data s))"
    using assms trimCache_data by (fastforce simp: attr_step_def completeAllPending_def Let_def)
  then show ?thesis using kv_set_subset Inr by fastforce
qed

lemma genuineI:
  assumes "\<And>r v. (r, v) \<in> set replies \<Longrightarrow> v \<in> fetched is (rq_auditor r)"
    and "\<And>a rs r. (a, rs) \<in> set (as_pending s) \<Longrightarrow> r \<in> set rs \<Longrightarrow> rq_auditor r = a"
    and "\<And>a e. (a, e) \<in> set (as_data s) \<Longrightarrow> Inr (ae_providerAttr e) \<in> fetched is a"
  shows "genuine_answers is replies s"
  using assms by (auto simp: genuine_answers_def)

lemma genuineD:
  assumes "genuine_answers is replies s"
  shows "(r, v) \<in> set replies \<Longrightarrow> v \<in> fetched (is @ js) (rq_auditor r)"
    and "(a, rs) \<in> set (as_pending s) \<Longrightarrow> q \<in> set rs \<Longrightarrow> rq_auditor q = a"
    and "(a, e) \<in> set (as_data s) \<Longrightarrow> Inr (ae_providerAttr e) \<in> fetched (is @ js) a"
  using assms by (auto simp: genuine_answers_def intro: fetched_mono)

lemma pending_for_auditor: "genuine_answers is replies s \<Longrightarrow> q \<in> set (pending_for s a) \<Longrightarrow> rq_auditor q = a"
  by (cases "map_of (as_pending s) a") (auto simp: pending_for_def kv_get_def dest!: map_of_SomeD dest: genuineD(2))

lemma genuine_step:
  assumes "attr_inv is replies s" "genuine_answers is replies s" "attr_step E order i s = (s', new)"
  shows "genuine_answers (is @ [i]) (replies @ new) s'"
proof (cases i)
  case (AttrEvent ev)
  then have s': "s' = handleEvent E ev s" "new = []" using assms(3) by (auto simp: attr_step_def)
  show ?thesis
    by (rule genuineI) (use genuineD [OF assms(2)] handleEvent_data [of E ev s] in \<open>auto simp: s'\<close>)
next
  case (AttrRequest r now)
  have prog: "as_inProgress s = {}" using assms(1) by (simp add: attr_inv_def)
  show ?thesis using assms(3) [unfolded AttrRequest] prog
  proof (cases rule: request_step)
    case (cached entry)
    then have "(rq_auditor r, entry) \<in> set (as_data s)" by (simp add: kv_get_def map_of_SomeD)
    then show ?thesis by (intro genuineI) (use genuineD [OF assms(2)] cached in auto)
  next
    case queued
    have "rq_auditor q = a" if "(a, rs) \<in> set (as_pending s')" "q \<in> set rs" for a rs q
    proof -
      have "(a, rs) = (rq_auditor r, pending_for s (rq_auditor r) @ [r]) \<or> (a, rs) \<in> set (as_pending s)"
        using that(1) kv_set_subset [of "rq_auditor r" "pending_for s (rq_auditor r) @ [r]" "as_pending s"] unfolding queued(2) by auto
      then show ?thesis
      proof
        assume "(a, rs) = (rq_auditor r, pending_for s (rq_auditor r) @ [r])"
        then show ?thesis using that(2) pending_for_auditor [OF assms(2)] by auto
      next
        assume "(a, rs) \<in> set (as_pending s)"
        then show ?thesis using that(2) by (rule genuineD(2) [OF assms(2)])
      qed
    qed
    then show ?thesis by (rule genuineI [rotated 1]) (use genuineD(1,3) [OF assms(2)] in \<open>auto simp: queued\<close>)
  qed
next
  case (AttrFetched a r now)
  have ok: "kv_ok (as_pending s)" using assms(1) by (simp add: attr_inv_def)
  note step = fetched_step [OF assms(3) [unfolded AttrFetched] ok] and data = fetched_data [OF assms(3) [unfolded AttrFetched]]
  have got: "fetch r \<in> fetched (is @ [i]) a" using AttrFetched by (auto simp: fetched_def)
  have new: "v \<in> fetched (is @ [i]) (rq_auditor q)" if "(q, v) \<in> set new" for q v
  proof -
    have "q \<in> set (pending_for s a)" using that by (metis fst_conv image_eqI list.set_map step(4))
    then show ?thesis using pending_for_auditor [OF assms(2)] step(5) that got by fastforce
  qed
  have "Inr (ae_providerAttr e) \<in> fetched (is @ [i]) b" if "(b, e) \<in> set (as_data s')" for b e
    using data [OF that] genuineD(3) [OF assms(2)] got by auto
  then show ?thesis
    by (rule genuineI [rotated 2]) (use new genuineD(1,2) [OF assms(2)] in \<open>auto simp: step(1) kv_del_def\<close>)
next
  case AttrShutdown
  then show ?thesis by (intro genuineI) (use assms(3) genuineD [OF assms(2)] in \<open>auto simp: attr_step_def\<close>)
qed

lemma attr_exec_genuine: "attr_exec E order addr ttl is replies s \<Longrightarrow> genuine_answers is replies s"
proof (induction rule: attr_exec.induct)
  case start
  show ?case by (simp add: genuine_answers_def newProviderAttrSignatureService_def)
qed (auto intro: genuine_step attr_exec_inv)

text \<open>
  C20. Until the service is asked to shut down, no request for an auditor's signatures is lost, answered twice or answered wrongly.  At
  every moment the requests the service took are exactly those answered and those waiting; every answer is what some query for
  this auditor returned; and while a request waits, a query for its auditor is under way, whose result can be taken and answers it.
  After a shutdown request nothing is taken any more: what still waits is not answered by the service (its caller
  gives up by itself).
\<close>
theorem attr_requests_answered:
  assumes "attr_exec E order addr ttl is replies s"
  shows "mset (requests is) = mset (map fst replies) + mset (waiting s) \<and>
    list_all (\<lambda>(r, v). v \<in> fetched is (rq_auditor r)) replies \<and>
    (\<forall>a r now. pending_for s a \<noteq> [] \<and> \<not> as_stopping s \<longrightarrow> attr_ready (AttrFetched a r now) s \<and>
       map fst (snd (attr_step E order (AttrFetched a r now) s)) = pending_for s a) \<and>
    (as_stopping s \<longrightarrow> (\<forall>i. \<not> attr_ready i s))"
proof -
  note inv = attr_exec_inv [OF assms] and gen = attr_exec_genuine [OF assms]
  have "kv_ok (as_pending s)" using inv by (simp add: attr_inv_def)
  then have "map fst (snd (attr_step E order (AttrFetched a r now) s)) = pending_for s a" for a r now
    using fetched_step(4) by (metis prod.collapse)
  then show ?thesis using inv gen by (auto simp: attr_inv_def attr_ready_def genuine_answers_def list_all_iff)
qed

text \<open>A query that is under way when shutdown is requested keeps the service from ever completing it: the service waits for the query's
  goroutine, and this one for the service to take its result.\<close>

lemma shutdown_hangs:
  assumes "as_fetching s \<noteq> []" "attr_step E order AttrShutdown s = (s', new)"
  shows "\<not> attr_completed s' \<and> (\<forall>i. \<not> attr_ready i s')"
  using assms by (auto simp: attr_step_def attr_completed_def attr_ready_def)

text \<open>The table of queries under way is never written, so each waiting request starts a query of its own.\<close>

lemma queries_repeated:
  assumes "attr_exec E order addr ttl is replies s" "kv_get (as_data s) (rq_auditor r) = None"
  shows "as_fetching (fst (attr_step E order (AttrRequest r now) s)) = as_fetching s @ [rq_auditor r]"
proof -
  have "as_inProgress s = {}" using attr_exec_inv [OF assms(1)] by (simp add: attr_inv_def)
  then show ?thesis using assms(2) by (simp add: attr_step_def addRequest_def maybeStart_def pending_for_def Let_def)
qed

primrec attr_play :: "'b env \<Rightarrow> (attr_entry kv \<Rightarrow> (string \<times> attr_entry) list) \<Rightarrow> attr_input list \<Rightarrow> attr_reply list \<times> attr_service \<Rightarrow>
    (attr_reply list \<times> attr_service) option" where
  "attr_play E order [] rs = Some rs"
| "attr_play E order (i # is) rs = (if attr_ready i (snd rs) then
     (case attr_step E order i (snd rs) of (s, new) \<Rightarrow> attr_play E order is (fst rs @ new, s)) else None)"

lemma attr_play_exec:
  "attr_exec E order addr ttl is replies s \<Longrightarrow> attr_play E order js (replies, s) = Some (replies', s') \<Longrightarrow>
   attr_exec E order addr ttl (is @ js) replies' s'"
proof (induction js arbitrary: "is" replies s)
  case (Cons i js)
  then obtain t new where "attr_ready i s" "attr_step E order i s = (t, new)" "attr_play E order js (replies @ new, t) = Some (replies', s')"
    by (auto split: if_splits prod.splits)
  then show ?case using Cons.IH [OF attr_exec.step [OF Cons.prems(1)]] by simp
qed simp

definition demo_requests :: "attr_request list" where
  "demo_requests = [\<lparr>rq_auditor = ''audi1'', rq_no = 1\<rparr>, \<lparr>rq_auditor = ''audi1'', rq_no = 2\<rparr>, \<lparr>rq_auditor = ''audi1'', rq_no = 3\<rparr>]"

text \<open>A change of signatures while they are being fetched goes unnoticed: the earlier signatures are kept and given out after it.\<close>

definition demo_history :: "attr_input list" where
  "demo_history = [AttrRequest (demo_requests ! 0) 0, AttrEvent (EventTrustedAuditorDeleted ''prova'' ''audi1''),
     AttrFetched ''audi1'' (Inr [\<lparr>ap_Owner = ''prova'', ap_Auditor = ''audi1'', ap_Attributes = []\<rparr>]) 1,
     AttrRequest (demo_requests ! 1) 2]"

definition demo_answered :: "attr_reply list \<times> attr_service" where
  "demo_answered = the (attr_play demo_env (\<lambda>m. m) demo_history ([], newProviderAttrSignatureService ''prova'' 64800))"

lemma demo_answered_exec: "attr_exec demo_env (\<lambda>m. m) ''prova'' 64800 demo_history (fst demo_answered) (snd demo_answered)"
proof -
  have "attr_play demo_env (\<lambda>m. m) demo_history ([], newProviderAttrSignatureService ''prova'' 64800) \<noteq> None" by code_simp
  then show ?thesis
    using attr_play_exec [OF attr_exec.start, of demo_env "\<lambda>m. m" demo_history "''prova''" 64800] by (auto simp: demo_answered_def)
qed

lemma stale_answer: "map snd (fst demo_answered) = replicate 2 (Inr [\<lparr>ap_Owner = ''prova'', ap_Auditor = ''audi1'', ap_Attributes = []\<rparr>])"
  by code_simp

theorem attr_requests_answered_witness:
  "mset (requests demo_history) = mset (map fst (fst demo_answered)) + mset (waiting (snd demo_answered)) \<and>
   list_all (\<lambda>(r, v). v \<in> fetched demo_history (rq_auditor r)) (fst demo_answered) \<and> fst demo_answered \<noteq> []"
proof -
  have "fst demo_answered \<noteq> []" by code_simp
  with attr_requests_answered [OF demo_answered_exec] show ?thesis by blast
qed

subsection \<open>One goroutine per order\<close>

definition bid_inv :: "bid_service \<Rightarrow> bool" where
  "bid_inv s \<longleftrightarrow> kv_ok (bs_orders s) \<and> distinct (map OrderPath (bs_running s)) \<and>
     fst ` set (bs_orders s) = OrderPath ` set (bs_running s)"

lemma keys_kv_del: "fst ` set (kv_del k m) = fst ` set m - {k}"
  by (force simp: kv_del_def)

lemma bid_inv_start_order:
  "bid_inv s \<Longrightarrow> OrderPath oid \<notin> fst ` set (bs_orders s) \<Longrightarrow> bid_inv (fst (start_order oid b ok s))"
  by (auto simp: bid_inv_def start_order_def fst_set_kv_set)

lemma start_order_keys: "fst ` set (bs_orders (fst (start_order oid b ok s))) \<subseteq> insert (OrderPath oid) (fst ` set (bs_orders s))"
  by (auto simp: start_order_def fst_set_kv_set)

lemma bid_inv_catch_up:
  assumes "bid_inv s" "distinct (map (OrderPath \<circ> fst) xs)" "\<forall>x\<in>set xs. OrderPath (fst x) \<notin> fst ` set (bs_orders s)"
  shows "bid_inv (fst (catch_up xs s))"
  using assms
proof (induction xs arbitrary: s)
  case (Cons x xs)
  let ?t = "fst (start_order (fst x) True (snd x) s)"
  have "bid_inv ?t" using Cons.prems by (auto intro: bid_inv_start_order)
  moreover have "\<forall>y\<in>set xs. OrderPath (fst y) \<notin> fst ` set (bs_orders ?t)"
  proof
    fix y assume "y \<in> set xs"
    then have "OrderPath (fst y) \<notin> insert (OrderPath (fst x)) (fst ` set (bs_orders s))"
      using Cons.prems(2,3) by (simp add: image_iff) metis
    then show "OrderPath (fst y) \<notin> fst ` set (bs_orders ?t)" using start_order_keys [of "fst x" True "snd x" s] by blast
  qed
  ultimately have "bid_inv (fst (catch_up xs ?t))" using Cons.IH Cons.prems(2) by simp
  then show ?case by (auto simp: Let_def split: prod.split)
qed simp

lemma bid_inv_step: "bid_inv s \<Longrightarrow> bid_ready i s \<Longrightarrow> bid_inv (fst (bid_step i s))"
proof (cases i)
  case (OrderCreated oid ok)
  assume "bid_inv s"
  then show ?thesis using OrderCreated bid_inv_start_order [of s oid False ok]
    by (auto simp: bid_step_def kv_has_def kv_get_def map_of_eq_None_iff)
next
  case (OrderDrained oid)
  assume inv: "bid_inv s" and "bid_ready i s"
  then have run: "oid \<in> set (bs_running s)" "distinct (bs_running s)" "inj_on OrderPath (set (bs_running s))"
    using OrderDrained by (auto simp: bid_ready_def bid_inv_def distinct_map)
  have "fst ` set (kv_del (OrderPath oid) (bs_orders s)) = OrderPath ` set (bs_running s) - {OrderPath oid}"
    using inv by (simp add: keys_kv_del bid_inv_def)
  also have "\<dots> = OrderPath ` set (remove1 oid (bs_running s))"
    using run by (auto simp: inj_on_def)
  finally show ?thesis using inv run(2,3) OrderDrained
    by (auto simp: bid_step_def bid_inv_def distinct_map intro: inj_on_subset)
qed (auto simp: bid_step_def bid_inv_def)

lemma one_goroutine_per_order:
  assumes "bid_exec existing s" "distinct (map (OrderPath \<circ> fst) existing)"
  shows "distinct (map OrderPath (bs_running s)) \<and> fst ` set (bs_orders s) = OrderPath ` set (bs_running s)"
proof -
  have "bid_inv s" using assms(1)
  proof (induction rule: bid_exec.induct)
    case start
    show ?case by (rule bid_inv_catch_up) (use assms(2) in \<open>auto simp: bid_inv_def\<close>)
  qed (rule bid_inv_step)
  then show ?thesis by (simp add: bid_inv_def)
qed

end
