(* ===== verification/Pricing_Properties.thy ===== *)
theory Pricing_Properties
  imports Pricing Deployment_Properties
begin

text \<open>
  A scaled price is the exact cost rounded up, within the precision of decimal division; a random price lies in its range
  and under the order's limit, but the range may be empty, and then the provider panics.
\<close>

subsection \<open>Scaled quantities\<close>

definition complete_resource :: "resource \<Rightarrow> bool" where
  "complete_resource r \<longleftrightarrow> CPU (res_Resources r) \<noteq> None \<and> Memory (res_Resources r) \<noteq> None \<and> Storage (res_Resources r) \<noteq> None"

definition cpu_quantity :: "resource \<Rightarrow> int" where
  "cpu_quantity r = Val (cpu_Units (the (CPU (res_Resources r)))) * uint (res_Count r)"

definition memory_quantity :: "resource \<Rightarrow> int" where
  "memory_quantity r = Val (mem_Quantity (the (Memory (res_Resources r)))) * uint (res_Count r)"

definition storage_quantity :: "resource \<Rightarrow> int" where
  "storage_quantity r = Val (sto_Quantity (the (Storage (res_Resources r)))) * uint (res_Count r)"

definition endpoint_quantity :: "resource \<Rightarrow> int" where
  "endpoint_quantity r = int (length (Endpoints (res_Resources r)))"

definition quantity :: "(resource \<Rightarrow> int) \<Rightarrow> group_spec \<Rightarrow> rat" where
  "quantity f g = of_int (\<Sum>r\<leftarrow>gs_Resources g. f r)"

text \<open>What a group costs: quantities times scales, memory and storage by the mebibyte.\<close>

definition exact_cost :: "scale_pricing \<Rightarrow> group_spec \<Rightarrow> rat" where
  "exact_cost fp g = quantity cpu_quantity g * cpuScale fp + quantity memory_quantity g / of_int unit_Mi * memoryScale fp +
     quantity storage_quantity g / of_int unit_Mi * storageScale fp + quantity endpoint_quantity g * endpointScale fp"

definition dec_laws :: "(rat \<Rightarrow> rat \<Rightarrow> rat) \<Rightarrow> bool" where
  "dec_laws DecDiv \<longleftrightarrow> (\<forall>a b. b \<noteq> 0 \<longrightarrow> \<bar>DecDiv a b - a / b\<bar> \<le> 1 / 10 ^ 16)"

lemma add_quantities_sum:
  "add_quantities rs (c, m, st, e) = (if list_all complete_resource rs then
     Some (c + of_int (\<Sum>r\<leftarrow>rs. cpu_quantity r), m + of_int (\<Sum>r\<leftarrow>rs. memory_quantity r),
       st + of_int (\<Sum>r\<leftarrow>rs. storage_quantity r), e + of_int (\<Sum>r\<leftarrow>rs. endpoint_quantity r)) else None)"
  by (induction rs arbitrary: c m st e)
    (auto simp: complete_resource_def cpu_quantity_def memory_quantity_def storage_quantity_def endpoint_quantity_def
      Let_def add.assoc split: option.splits)

lemma ceiling_near:
  fixes x y :: rat
  assumes "\<bar>x - y\<bar> \<le> d"
  shows "y - d \<le> of_int \<lceil>x\<rceil>" and "of_int \<lceil>x\<rceil> < y + d + 1"
  using assms ceiling_correct [of x] by linarith+

lemma scaled_near:
  fixes a b s d :: rat
  assumes "\<bar>a - b\<bar> \<le> d"
  shows "\<bar>a * s - b * s\<bar> \<le> d * \<bar>s\<bar>"
  using mult_right_mono [OF assms abs_ge_zero [of s]] by (simp add: abs_mult flip: left_diff_distrib)

lemma sums_near:
  fixes a b c d e f x y :: rat
  assumes "\<bar>a - b\<bar> \<le> x" "\<bar>c - d\<bar> \<le> y"
  shows "\<bar>(e + a + c + f) - (e + b + d + f)\<bar> \<le> x + y"
  using assms by linarith

text \<open>
  C27. A scaled price is right whatever the order.  When the scaled pricing gives a price, it is a
  positive amount of the chain's token that fits an \<^verbatim>\<open>int64\<close>, and it is the exact cost of all resources rounded
  up, to the precision of decimal division: no crafted order gets a lower price by overflow or rounding.
\<close>
theorem Scale_price_exact:
  assumes "dec_laws DecDiv" and "Scale_CalculatePrice E DecDiv fp g = Some (Inr p)"
  defines "\<epsilon> \<equiv> (\<bar>memoryScale fp\<bar> + \<bar>storageScale fp\<bar>) / 10 ^ 16"
  shows "Denom p = ''uve'' \<and> 0 < Amount p \<and> Amount p \<le> MaxInt64 \<and>
    exact_cost fp g - \<epsilon> \<le> of_int (Amount p) \<and> of_int (Amount p) < exact_cost fp g + \<epsilon> + 1"
proof -
  define memory where "memory = DecDiv (quantity memory_quantity g) (of_int unit_Mi) * memoryScale fp"
  define storage where "storage = DecDiv (quantity storage_quantity g) (of_int unit_Mi) * storageScale fp"
  define cost where "cost = quantity cpu_quantity g * cpuScale fp + memory + storage + quantity endpoint_quantity g * endpointScale fp"
  have p: "Denom p = ''uve''" "Amount p = \<lceil>cost\<rceil>" "0 \<le> Amount p" "Amount p \<noteq> 0" "Amount p \<le> MaxInt64"
    using assms(2) unfolding cost_def memory_def storage_def
    by (auto simp: Scale_CalculatePrice_def add_quantities_sum quantity_def Let_def out_of_range_def NewCoin_Some denom_def
        simp del: zero_le_ceiling split: if_splits)
  have near: "\<bar>DecDiv a (of_int unit_Mi) * s - a / of_int unit_Mi * s\<bar> \<le> 1 / 10 ^ 16 * \<bar>s\<bar>" for a s
    using assms(1) by (intro scaled_near) (simp add: dec_laws_def unit_Mi_def)
  have "\<bar>cost - exact_cost fp g\<bar> \<le> \<epsilon>"
    using sums_near [OF near near] unfolding cost_def exact_cost_def memory_def storage_def \<epsilon>_def
    by (simp add: add_divide_distrib)
  then show ?thesis using p ceiling_near [of cost] by (simp add: order_le_less)
qed

definition demo_scales :: scale_pricing where
  "demo_scales = \<lparr>cpuScale = 3, memoryScale = 1/2, storageScale = 0, endpointScale = 0\<rparr>"

theorem Scale_price_exact_witness:
  "Scale_CalculatePrice demo_env (/) demo_scales (demo_group [] []) = Some (Inr \<lparr>Denom = ''uve'', Amount = 1202\<rparr>) \<and>
   exact_cost demo_scales (demo_group [] []) - 1 / 2 / 10 ^ 16 \<le> 1202 \<and> 1202 < exact_cost demo_scales (demo_group [] []) + 1 / 2 / 10 ^ 16 + 1"
proof -
  have "Scale_CalculatePrice demo_env (/) demo_scales (demo_group [] []) = Some (Inr \<lparr>Denom = ''uve'', Amount = 1202\<rparr>)" by code_simp
  moreover have "dec_laws (/)" by (simp add: dec_laws_def)
  ultimately show ?thesis using Scale_price_exact [of "(/)" demo_env demo_scales "demo_group [] []"] by (simp add: demo_scales_def)
qed

subsection \<open>Random prices\<close>

lemma calculatePriceRange_Some:
  assumes "calculatePriceRange E g = Some (lo, hi)" "GroupSpec_Price E g = Some (Some rmax)" "1 \<le> IntMax E"
  obtains cmin cmax where "ValidDenom E (Denom rmax)" "0 \<le> cmin" "cmin \<le> IntMax E" "0 \<le> cmax" "cmax \<le> IntMax E"
    "cmax \<le> max 1 (Amount rmax)" "lo = \<lparr>Denom = Denom rmax, Amount = cmin\<rparr>" "hi = \<lparr>Denom = Denom rmax, Amount = cmax\<rparr>"
proof -
  have quo: "q \<le> IntMax E" if "int_chk E n = Some m" "int_quo m unit_Gi = Some q" for n m q
  proof -
    have "q = sgn m * (\<bar>m\<bar> div unit_Gi)" using that(2) by (simp add: int_quo_def unit_Gi_def unit_Mi_def split: if_splits)
    moreover have "0 \<le> \<bar>m\<bar> div unit_Gi" "\<bar>m\<bar> div unit_Gi \<le> \<bar>m\<bar>"
      by (simp_all add: unit_Gi_def unit_Mi_def)
    moreover have "\<bar>m\<bar> \<le> IntMax E" using that(1) by (simp add: int_chk_Some)
    ultimately show ?thesis using assms(3) by (auto simp: sgn_if)
  qed
  obtain mem l c h d where c: "int_chk E (mem * 50) = Some l" "int_quo l unit_Gi = Some c"
      "int_chk E (mem * 1048576) = Some h" "int_quo h unit_Gi = Some d"
      and coins: "NewCoin E (Denom rmax) (if c = 0 then 1 else c) = Some lo"
        "NewCoin E (Denom rmax) (let d = (if d > Amount rmax then Amount rmax else d) in if d = 0 then 1 else d) = Some hi"
    using assms(1,2) by (auto simp: calculatePriceRange_def bind_eq_Some_conv Let_def)
  show thesis
    using quo [OF c(1,2)] quo [OF c(3,4)] coins assms(3) by (intro that) (auto simp: NewCoin_Some Let_def split: if_splits)
qed

definition rand_laws :: "(int \<Rightarrow> int option) \<Rightarrow> bool" where
  "rand_laws rand \<longleftrightarrow> (\<forall>n v. 0 < n \<longrightarrow> rand n = Some v \<longrightarrow> 0 \<le> v \<and> v < n)"

text \<open>
  A random price lies within the range computed from the memory and never above the order's limit
  (or one token, when the limit is less).  When the range is empty, because even the lowest price for that much memory
  exceeds the limit, the computation panics.
\<close>
lemma Random_price_range:
  assumes "rand_laws rand" and "1 \<le> IntMax E" and "GroupSpec_Price E g = Some (Some rmax)"
    and "calculatePriceRange E g = Some (lo, hi)"
  shows "case Random_CalculatePrice E rand g of
      None \<Rightarrow> Amount hi < Amount lo
    | Some (Inl e) \<Rightarrow> rand (Amount hi - Amount lo) = None
    | Some (Inr p) \<Rightarrow> Denom p = Denom rmax \<and> Amount lo \<le> Amount p \<and> Amount p \<le> Amount hi \<and> Amount hi \<le> max 1 (Amount rmax)"
proof -
  obtain cmin cmax where bounds: "ValidDenom E (Denom rmax)" "0 \<le> cmin" "cmin \<le> IntMax E" "0 \<le> cmax" "cmax \<le> IntMax E"
      "cmax \<le> max 1 (Amount rmax)" "lo = \<lparr>Denom = Denom rmax, Amount = cmin\<rparr>" "hi = \<lparr>Denom = Denom rmax, Amount = cmax\<rparr>"
    by (rule calculatePriceRange_Some [OF assms(4,3,2)])
  consider "Amount hi < Amount lo" | "Amount lo = Amount hi" | "Amount lo < Amount hi" by linarith
  then show ?thesis
  proof cases
    case 3
    have "0 \<le> v \<and> v < Amount hi - Amount lo" if "rand (Amount hi - Amount lo) = Some v" for v
      using assms(1) [unfolded rand_laws_def, rule_format, of "Amount hi - Amount lo" v] 3 that by simp
    then show ?thesis using 3 bounds
      by (cases "rand (Amount hi - Amount lo)") (auto simp: Random_CalculatePrice_def assms(4) int_chk_def NewCoin_def)
  qed (use bounds in \<open>auto simp: Random_CalculatePrice_def assms(4) int_chk_def\<close>)
qed

text \<open>A group of 16 gibibytes of memory for at most one token passes validation, and its random price panics.\<close>

definition greedy_group :: group_spec where
  "greedy_group = \<lparr>gs_Name = ''big'', gs_Requirements = \<lparr>SignedBy = \<lparr>AllOf = [], AnyOf = []\<rparr>, req_Attributes = []\<rparr>,
     gs_Resources = [\<lparr>res_Resources = \<lparr>CPU = Some \<lparr>cpu_Units = \<lparr>Val = 100\<rparr>, cpu_Attributes = []\<rparr>,
         Memory = Some \<lparr>mem_Quantity = \<lparr>Val = 2 ^ 34\<rparr>, mem_Attributes = []\<rparr>,
         Storage = Some \<lparr>sto_Quantity = \<lparr>Val = 2 ^ 30\<rparr>, sto_Attributes = []\<rparr>, Endpoints = []\<rparr>,
       res_Count = 1, res_Price = \<lparr>Denom = ''uve'', Amount = 1\<rparr>\<rparr>]\<rparr>"

lemma greedy_within: "group_within demo_env greedy_group"
  by code_simp

lemma greedy_range:
  "calculatePriceRange demo_env greedy_group = Some (\<lparr>Denom = ''uve'', Amount = 800\<rparr>, \<lparr>Denom = ''uve'', Amount = 1\<rparr>)"
  by code_simp

lemma greedy_panics:
  "group_within demo_env greedy_group \<and> Random_CalculatePrice demo_env rand greedy_group = None"
  using greedy_range greedy_within by (simp add: Random_CalculatePrice_def int_chk_def)

end
