(* ===== verification/Manifest_Manager.thy ===== *)
theory Manifest_Manager
  imports Manifest Query_Paths Chain
begin

text \<open>
  How a provider pairs leases with the manifests tenants send (\<^verbatim>\<open>provider/manifest\<close>).  One manager per deployment waits
  for leases, manifests, version changes and the deployment's data from the chain, checks manifests and publishes them
  for the leases; the service keeps the managers, and a watchdog closes a bid when no manifest comes in time.  The
  goroutines are step functions on what their \<^verbatim>\<open>select\<close> receives.  \<open>None\<close>: the goroutine goes no further, by a panic
  or a receive that never comes.

  \<open>V\<close> is \<^verbatim>\<open>sdl.ManifestVersion\<close> (a hash of the sorted JSON); \<open>can\<close> is what the host-name service answers at that
  moment, or that the manager is stopping.
\<close>

subsection \<open>Manager\<close>

record lease_won =
  lw_LeaseID :: lease_id
  lw_Group :: "group option"
  lw_Price :: coin

record deployment_data =
  dd_Deployment :: deployment
  dd_Groups :: "group list"

text \<open>A request is named by a number, which stands for the channel its answer goes to.\<close>

record manifest_request =
  mr_Manifest :: manifest
  mr_no :: nat

record manager =
  mm_daddr :: deployment_id
  mm_data :: "deployment_data option"
  mm_requests :: "manifest_request list"
  mm_pending :: "nat list"
  mm_leases :: "lease_won list"
  mm_manifests :: "manifest list"
  mm_versions :: "string list"
  mm_stoptimer :: bool
  mm_fetching :: bool
  mm_running :: bool

datatype manager_input =
    MgrShutdown
  | MgrStopTimer
  | MgrLease lease_won
  | MgrRemoveLease lease_id
  | MgrManifest manifest_request
  | MgrUpdate string
  | MgrData "error + deployment_data"

datatype manager_output =
    Answer nat "error option"
  | PublishManifest lease_id "group option" manifest deployment_data
  | FetchDeployment deployment_id

definition ErrManifestVersion :: error where
  "ErrManifestVersion = Errorf ''manifest version validation failed''"

definition ErrNoLeaseForDeployment :: error where
  "ErrNoLeaseForDeployment = Errorf ''no lease for deployment''"

definition ErrNotRunning :: error where
  "ErrNotRunning = Errorf ''not running''"

definition errManifestRejected :: error where
  "errManifestRejected = Errorf ''manifest rejected''"

definition newManager :: "deployment_id \<Rightarrow> manager" where
  "newManager daddr = \<lparr>mm_daddr = daddr, mm_data = None, mm_requests = [], mm_pending = [], mm_leases = [], mm_manifests = [],
     mm_versions = [], mm_stoptimer = False, mm_fetching = False, mm_running = True\<rparr>"

text \<open>The host names of the groups that have a lease; each global HTTP port needs one when so configured.\<close>

primrec collect_hostnames :: "bool \<Rightarrow> (manifest_group \<times> string) list \<Rightarrow> string list \<Rightarrow> error + string list" where
  "collect_hostnames require [] hosts = Inr hosts"
| "collect_hostnames require (p # ps) hosts = (case p of (g, name) \<Rightarrow>
     if name \<noteq> mg_Name g then collect_hostnames require ps hosts
     else if require \<and> list_ex (\<lambda>s. list_ex (\<lambda>e. ShouldBeIngress e \<and> se_Hosts e = []) (svc_Expose s)) (mg_Services g)
     then Inl errManifestRejected
     else collect_hostnames require ps (hosts @ AllHostnamesOfManifestGroup g))"

definition checkHostnamesForManifest ::
  "bool \<Rightarrow> (string list \<Rightarrow> deployment_id \<Rightarrow> error option) \<Rightarrow> manifest \<Rightarrow> string list \<Rightarrow> deployment_id \<Rightarrow> error option" where
  "checkHostnamesForManifest require can m names did =
     (case collect_hostnames require [(g, name). g \<leftarrow> m, name \<leftarrow> names] [] of Inl e \<Rightarrow> Some e | Inr hosts \<Rightarrow> can hosts did)"

definition versionExpected :: "deployment_data \<Rightarrow> manager \<Rightarrow> string" where
  "versionExpected d s = (if mm_versions s \<noteq> [] then last (mm_versions s) else dep_Version (dd_Deployment d))"

definition validateRequest ::
  "'b env \<Rightarrow> k8s_checks \<Rightarrow> (manifest \<Rightarrow> error + string) \<Rightarrow> bool \<Rightarrow> (string list \<Rightarrow> deployment_id \<Rightarrow> error option) \<Rightarrow>
     deployment_data \<Rightarrow> manager \<Rightarrow> manifest_request \<Rightarrow> error option option" where
  "validateRequest E K V require can d s req = (let m = mr_Manifest req in
     case V m of Inl e \<Rightarrow> Some (Some e)
     | Inr version \<Rightarrow>
         if version \<noteq> versionExpected d s then Some (Some ErrManifestVersion)
         else (case ValidateManifest E K m of
             Err e _ \<Rightarrow> Some (Some e) | Panic \<Rightarrow> None | OutOfFuel \<Rightarrow> None
           | Ok _ _ \<Rightarrow> (case ValidateManifestWithDeployment m (dd_Groups d) of
               Some e \<Rightarrow> Some (Some e)
             | None \<Rightarrow> map_option (\<lambda>names. checkHostnamesForManifest require can m names (dep_ID (dd_Deployment d)))
                 (opt_map (\<lambda>l. map_option (\<lambda>g. gs_Name (grp_Spec g)) (lw_Group l)) (mm_leases s)))))"

text \<open>The loop over the requests: the refusals, and the requests accepted.\<close>

primrec validate_loop ::
  "(manifest_request \<Rightarrow> error option option) \<Rightarrow> manifest_request list \<Rightarrow> (manager_output list \<times> manifest_request list) option" where
  "validate_loop f [] = Some ([], [])"
| "validate_loop f (req # reqs) = do {
     v \<leftarrow> f req;
     (outs, acc) \<leftarrow> validate_loop f reqs;
     Some (case v of Some e \<Rightarrow> (Answer (mr_no req) (Some e) # outs, acc) | None \<Rightarrow> (outs, req # acc)) }"

definition validateRequests ::
  "'b env \<Rightarrow> k8s_checks \<Rightarrow> (manifest \<Rightarrow> error + string) \<Rightarrow> bool \<Rightarrow> (string list \<Rightarrow> deployment_id \<Rightarrow> error option) \<Rightarrow>
     manager \<Rightarrow> (manager \<times> manager_output list) option" where
  "validateRequests E K V require can s = (case mm_data s of None \<Rightarrow> Some (s, []) | Some d \<Rightarrow>
     if mm_requests s = [] then Some (s, []) else
     map_option (\<lambda>(outs, acc). (s\<lparr>mm_requests := [], mm_pending := mm_pending s @ map mr_no acc,
         mm_manifests := mm_manifests s @ (case acc of [] \<Rightarrow> [] | r # _ \<Rightarrow> [mr_Manifest r])\<rparr>, outs))
       (validate_loop (validateRequest E K V require can d s) (mm_requests s)))"

definition fillAllRequests :: "error \<Rightarrow> manager \<Rightarrow> manager \<times> manager_output list" where
  "fillAllRequests response s = (s\<lparr>mm_pending := [], mm_requests := []\<rparr>,
     map (\<lambda>n. Answer n (Some response)) (mm_pending s @ map mr_no (mm_requests s)))"

definition emitReceivedEvents :: "manager \<Rightarrow> manager \<times> manager_output list" where
  "emitReceivedEvents s =
     (if mm_leases s = [] then fillAllRequests ErrNoLeaseForDeployment s
      else (case mm_data s of None \<Rightarrow> (s, []) | Some d \<Rightarrow>
        if mm_manifests s = [] then (s, [])
        else (s\<lparr>mm_pending := []\<rparr>,
          map (\<lambda>l. PublishManifest (lw_LeaseID l) (lw_Group l) (last (mm_manifests s)) d) (mm_leases s) @
          map (\<lambda>n. Answer n None) (mm_pending s))))"

text \<open>Stopping a timer that has not fired and then waiting for it blocks for ever.\<close>

definition maybeScheduleStop :: "manager \<Rightarrow> manager option" where
  "maybeScheduleStop s = (if mm_leases s \<noteq> [] \<or> mm_manifests s \<noteq> [] then (if mm_stoptimer s then None else Some s)
     else Some (s\<lparr>mm_stoptimer := mm_stoptimer s\<rparr>))"

definition maybeFetchData :: "manager \<Rightarrow> manager \<times> manager_output list" where
  "maybeFetchData s = (if mm_data s = None \<and> \<not> mm_fetching s then (s\<lparr>mm_fetching := True\<rparr>, [FetchDeployment (mm_daddr s)]) else (s, []))"

text \<open>
  Removing a lease shifts the slice in place while the loop runs over its old length: \<open>arr\<close> is the backing array, \<open>n\<close>
  the current length.  Cutting beyond it panics.
\<close>

function remove_lease_loop :: "lease_id \<Rightarrow> nat \<Rightarrow> lease_won list \<Rightarrow> nat \<Rightarrow> lease_won list option" where
  "remove_lease_loop lid idx arr n =
     (if idx \<ge> length arr then Some (take n arr)
      else if lw_LeaseID (arr ! idx) = lid then
        (if idx + 1 > n then None
         else remove_lease_loop lid (idx + 1) (take idx arr @ drop (idx + 1) (take n arr) @ drop (n - 1) arr) (n - 1))
      else remove_lease_loop lid (idx + 1) arr n)"
  by auto
termination by (relation "measure (\<lambda>(lid, idx, arr, n). length arr - idx)") auto

declare remove_lease_loop.simps [simp del]

definition removeLease :: "lease_id \<Rightarrow> manager \<Rightarrow> manager option" where
  "removeLease lid s = map_option (\<lambda>ls. s\<lparr>mm_leases := ls\<rparr>) (remove_lease_loop lid 0 (mm_leases s) (length (mm_leases s)))"

definition set_version :: "string \<Rightarrow> deployment_data \<Rightarrow> deployment_data" where
  "set_version v d = d\<lparr>dd_Deployment := (dd_Deployment d)\<lparr>dep_Version := v\<rparr>\<rparr>"

definition manager_ready :: "manager_input \<Rightarrow> manager \<Rightarrow> bool" where
  "manager_ready i s = (case i of MgrStopTimer \<Rightarrow> mm_running s \<and> mm_stoptimer s | MgrData _ \<Rightarrow> mm_running s \<and> mm_fetching s
     | MgrManifest _ \<Rightarrow> True | _ \<Rightarrow> mm_running s)"

definition manager_step ::
  "'b env \<Rightarrow> k8s_checks \<Rightarrow> (manifest \<Rightarrow> error + string) \<Rightarrow> bool \<Rightarrow> (string list \<Rightarrow> deployment_id \<Rightarrow> error option) \<Rightarrow>
     manager_input \<Rightarrow> manager \<Rightarrow> (manager \<times> manager_output list) option" where
  "manager_step E K V require can i s = (case i of
     MgrShutdown \<Rightarrow> (case fillAllRequests ErrNotRunning s of (s, outs) \<Rightarrow> Some (s\<lparr>mm_running := False\<rparr>, outs))
   | MgrStopTimer \<Rightarrow> (case fillAllRequests ErrNotRunning s of (s, outs) \<Rightarrow> Some (s\<lparr>mm_running := False\<rparr>, outs))
   | MgrLease ev \<Rightarrow> do {
       let (s, outs) = emitReceivedEvents (s\<lparr>mm_leases := mm_leases s @ [ev]\<rparr>);
       s \<leftarrow> maybeScheduleStop s;
       let (s, outs') = maybeFetchData s;
       Some (s, outs @ outs') }
   | MgrRemoveLease lid \<Rightarrow> do { s \<leftarrow> removeLease lid s; s \<leftarrow> maybeScheduleStop s; Some (s, []) }
   | MgrManifest req \<Rightarrow> if \<not> mm_running s then Some (s, [Answer (mr_no req) (Some ErrNotRunning)]) else do {
       (s, outs) \<leftarrow> validateRequests E K V require can (s\<lparr>mm_requests := mm_requests s @ [req]\<rparr>);
       let (s, outs') = emitReceivedEvents s;
       s \<leftarrow> maybeScheduleStop s;
       let (s, outs'') = maybeFetchData s;
       Some (s, outs @ outs' @ outs'') }
   | MgrUpdate version \<Rightarrow> Some (s\<lparr>mm_versions := mm_versions s @ [version], mm_data := map_option (set_version version) (mm_data s)\<rparr>, [])
   | MgrData r \<Rightarrow> let s = s\<lparr>mm_fetching := False\<rparr> in
       (case r of Inl e \<Rightarrow> Some (fillAllRequests e s)
        | Inr d \<Rightarrow> do {
            (s, outs) \<leftarrow> validateRequests E K V require can (s\<lparr>mm_data := Some d\<rparr>);
            let (s, outs') = emitReceivedEvents s;
            s \<leftarrow> maybeScheduleStop s;
            Some (s, outs @ outs') }))"

inductive manager_exec ::
  "'b env \<Rightarrow> k8s_checks \<Rightarrow> (manifest \<Rightarrow> error + string) \<Rightarrow> bool \<Rightarrow> deployment_id \<Rightarrow> manager_input list \<Rightarrow> manager_output list \<Rightarrow> manager \<Rightarrow> bool"
  for E K V require did where
  start: "manager_exec E K V require did [] [] (newManager did)"
| step: "manager_exec E K V require did is outs s \<Longrightarrow> manager_ready i s \<Longrightarrow> manager_step E K V require can i s = Some (s', new) \<Longrightarrow>
    manager_exec E K V require did (is @ [i]) (outs @ new) s'"

end
