(* ===== verification/Manifest_Service.thy ===== *)
theory Manifest_Service
  imports Manifest_Manager
begin

text \<open>
  The service around the managers (\<^verbatim>\<open>provider/manifest/service.go\<close>, \<^verbatim>\<open>watchdog.go\<close>).  It keeps a manager per deployment, under
  the deployment's path, and per deployment a watchdog that closes the bid of a lease when no manifest arrives in time.
  Managers and watchdogs run beside the service: their own moves are inputs too, in any order their readiness allows.
  \<open>None\<close>: a goroutine panics, which ends the daemon.
\<close>

record watchdog =
  wd_leaseID :: lease_id
  wd_stopped :: bool
  wd_done :: bool

record manifest_service_state =
  ms_managers :: "manager kv"
  ms_stops :: "string set"
  ms_watchdogs :: "deployment_id \<rightharpoonup> watchdog"
  ms_running :: bool

datatype service_input =
    LeaseWonEvent lease_won
  | ChainEvent event
  | IsActive deployment_id
  | Submit deployment_id manifest_request
  | StatusRequest
  | ServiceShutdown
  | ManagerInput string manager_input
  | ManagerDone string
  | WatchdogStops deployment_id
  | WatchdogFires deployment_id
  | WatchdogDone deployment_id

datatype service_output =
    ManagerOutput deployment_id manager_output
  | SubmitRefused nat error
  | Active bool
  | ServiceStatus "32 word"
  | BroadcastCloseBid bid_id

text \<open>What the service is set up with: the check of host names, the manifest's version, and its configuration.\<close>

record service_config =
  sc_checks :: k8s_checks
  sc_version :: "manifest \<Rightarrow> error + string"
  HTTPServicesRequireAtLeastOneHost :: bool
  ManifestTimeout :: int
  sc_Provider :: string

definition newWatchdog :: "lease_id \<Rightarrow> watchdog" where
  "newWatchdog lid = \<lparr>wd_leaseID = lid, wd_stopped = False, wd_done = False\<rparr>"

definition watchdog_stop :: "watchdog \<Rightarrow> watchdog" where
  "watchdog_stop w = w\<lparr>wd_stopped := True\<rparr>"

definition watchdog_close :: "'b env \<Rightarrow> service_config \<Rightarrow> watchdog \<Rightarrow> bid_id" where
  "watchdog_close E c w = MakeBidID E (BidID_OrderID (wd_leaseID w)) (sc_Provider c)"

definition maybeRemoveWatchdog :: "deployment_id \<Rightarrow> manifest_service_state \<Rightarrow> manifest_service_state" where
  "maybeRemoveWatchdog did s = s\<lparr>ms_watchdogs := (case ms_watchdogs s did of None \<Rightarrow> ms_watchdogs s
     | Some w \<Rightarrow> (ms_watchdogs s)(did \<mapsto> watchdog_stop w))\<rparr>"

definition ensureManager :: "deployment_id \<Rightarrow> manifest_service_state \<Rightarrow> manifest_service_state" where
  "ensureManager did s = (case kv_get (ms_managers s) (DeploymentPath did) of
     None \<Rightarrow> s\<lparr>ms_managers := kv_set (DeploymentPath did) (newManager did) (ms_managers s)\<rparr> | Some _ \<Rightarrow> s)"

text \<open>Handing something to a manager: it takes it at once, or, when it is shutting down, the offer is dropped.\<close>

definition to_manager ::
  "'b env \<Rightarrow> service_config \<Rightarrow> (string list \<Rightarrow> deployment_id \<Rightarrow> error option) \<Rightarrow> string \<Rightarrow> manager_input \<Rightarrow> manifest_service_state \<Rightarrow>
     (manifest_service_state \<times> service_output list) option" where
  "to_manager E c can key i s = (case kv_get (ms_managers s) key of
     None \<Rightarrow> Some (s, [])
   | Some m \<Rightarrow> if \<not> manager_ready i m then Some (s, []) else
       map_option (\<lambda>(m', outs). (s\<lparr>ms_managers := kv_set key m' (ms_managers s)\<rparr>, map (ManagerOutput (mm_daddr m)) outs))
         (manager_step E (sc_checks c) (sc_version c) (HTTPServicesRequireAtLeastOneHost c) can i m))"

definition handleLease ::
  "'b env \<Rightarrow> service_config \<Rightarrow> (string list \<Rightarrow> deployment_id \<Rightarrow> error option) \<Rightarrow> lease_won \<Rightarrow> bool \<Rightarrow> manifest_service_state \<Rightarrow>
     (manifest_service_state \<times> service_output list) option" where
  "handleLease E c can ev isNew s =
     (let did = BidID_DeploymentID (lw_LeaseID ev);
        s = (if isNew \<and> ManifestTimeout c > 0 \<and> ms_watchdogs s did = None
             then s\<lparr>ms_watchdogs := (ms_watchdogs s)(did \<mapsto> newWatchdog (lw_LeaseID ev))\<rparr> else s) in
      to_manager E c can (DeploymentPath did) (MgrLease ev) (ensureManager did s))"

primrec managePreExistingLease ::
  "'b env \<Rightarrow> service_config \<Rightarrow> (string list \<Rightarrow> deployment_id \<Rightarrow> error option) \<Rightarrow> lease_won list \<Rightarrow> manifest_service_state \<Rightarrow>
     (manifest_service_state \<times> service_output list) option" where
  "managePreExistingLease E c can [] s = Some (s, [])"
| "managePreExistingLease E c can (ev # evs) s = do {
     (s, a) \<leftarrow> handleLease E c can ev False s;
     (s, b) \<leftarrow> managePreExistingLease E c can evs s;
     Some (s, a @ b) }"

text \<open>The leases a provider already has, with the groups the chain returns; a lease whose group cannot be fetched is skipped.\<close>

definition fetchExistingLeases :: "error + lease list \<Rightarrow> (group_id \<Rightarrow> error + group) \<Rightarrow> error + lease_won list" where
  "fetchExistingLeases found query = map_sum id (\<lambda>ls. concat (map (\<lambda>l. case query (BidID_GroupID (ls_ID l)) of
     Inl _ \<Rightarrow> [] | Inr g \<Rightarrow> [\<lparr>lw_LeaseID = ls_ID l, lw_Group = Some g, lw_Price = ls_Price l\<rparr>]) ls)) found"

definition service_start ::
  "'b env \<Rightarrow> service_config \<Rightarrow> (string list \<Rightarrow> deployment_id \<Rightarrow> error option) \<Rightarrow> lease_won list \<Rightarrow> (manifest_service_state \<times> service_output list) option" where
  "service_start E c can evs = managePreExistingLease E c can evs
     \<lparr>ms_managers = [], ms_stops = {}, ms_watchdogs = Map.empty, ms_running = True\<rparr>"

definition NewService ::
  "'b env \<Rightarrow> service_config \<Rightarrow> (string list \<Rightarrow> deployment_id \<Rightarrow> error option) \<Rightarrow> error + lease list \<Rightarrow> (group_id \<Rightarrow> error + group) \<Rightarrow>
     error + (manifest_service_state \<times> service_output list) option" where
  "NewService E c can found query = map_sum id (service_start E c can) (fetchExistingLeases found query)"

definition handle_chain_event ::
  "'b env \<Rightarrow> service_config \<Rightarrow> (string list \<Rightarrow> deployment_id \<Rightarrow> error option) \<Rightarrow> event \<Rightarrow> manifest_service_state \<Rightarrow>
     (manifest_service_state \<times> service_output list) option" where
  "handle_chain_event E c can ev s = (case ev of
     EventDeploymentUpdated did version \<Rightarrow> to_manager E c can (DeploymentPath did) (MgrUpdate version) s
   | EventDeploymentClosed did \<Rightarrow>
       if kv_has (ms_managers s) (DeploymentPath did) then Some (s\<lparr>ms_stops := insert (DeploymentPath did) (ms_stops s)\<rparr>, []) else Some (s, [])
   | EventLeaseClosed lid _ \<Rightarrow> if bid_Provider lid \<noteq> AddrString E (sc_Provider c) then Some (s, [])
       else to_manager E c can (DeploymentPath (BidID_DeploymentID lid)) (MgrRemoveLease lid) s
   | _ \<Rightarrow> Some (s, []))"

text \<open>
  When the service is asked to stop it only waits for its managers and then for its watchdogs, which all stop with it.  A watchdog
  that has been told to stop may still fire, when its time is up before it looks.
\<close>

definition service_ready :: "service_input \<Rightarrow> manifest_service_state \<Rightarrow> bool" where
  "service_ready i s = (case i of
     Submit _ _ \<Rightarrow> True
   | ManagerInput key j \<Rightarrow> (case kv_get (ms_managers s) key of None \<Rightarrow> False | Some m \<Rightarrow> manager_ready j m \<and>
       (case j of MgrShutdown \<Rightarrow> key \<in> ms_stops s \<or> \<not> ms_running s | MgrStopTimer \<Rightarrow> True | MgrData _ \<Rightarrow> True | _ \<Rightarrow> False))
   | ManagerDone key \<Rightarrow> (case kv_get (ms_managers s) key of None \<Rightarrow> False | Some m \<Rightarrow> \<not> mm_running m)
   | WatchdogStops did \<Rightarrow> (case ms_watchdogs s did of None \<Rightarrow> False | Some w \<Rightarrow> \<not> wd_done w \<and> (wd_stopped w \<or> \<not> ms_running s))
   | WatchdogFires did \<Rightarrow> (case ms_watchdogs s did of None \<Rightarrow> False | Some w \<Rightarrow> \<not> wd_done w)
   | WatchdogDone did \<Rightarrow> (case ms_watchdogs s did of None \<Rightarrow> False | Some w \<Rightarrow> wd_done w \<and> (ms_running s \<or> ms_managers s = []))
   | _ \<Rightarrow> ms_running s)"

definition end_watchdog :: "deployment_id \<Rightarrow> manifest_service_state \<Rightarrow> manifest_service_state" where
  "end_watchdog did s = s\<lparr>ms_watchdogs := (ms_watchdogs s)(did := map_option (wd_done_update (\<lambda>_. True)) (ms_watchdogs s did))\<rparr>"

definition service_step ::
  "'b env \<Rightarrow> service_config \<Rightarrow> (string list \<Rightarrow> deployment_id \<Rightarrow> error option) \<Rightarrow> service_input \<Rightarrow> manifest_service_state \<Rightarrow>
     (manifest_service_state \<times> service_output list) option" where
  "service_step E c can i s = (case i of
     LeaseWonEvent ev \<Rightarrow> handleLease E c can ev True s
   | ChainEvent ev \<Rightarrow> handle_chain_event E c can ev s
   | IsActive did \<Rightarrow> Some (s, [Active (kv_has (ms_managers s) (DeploymentPath did))])
   | Submit did req \<Rightarrow> if \<not> ms_running s then Some (s, [SubmitRefused (mr_no req) ErrNotRunning])
       else to_manager E c can (DeploymentPath did) (MgrManifest req) (ensureManager did (maybeRemoveWatchdog did s))
   | StatusRequest \<Rightarrow> Some (s, [ServiceStatus (of_nat (length (ms_managers s)))])
   | ServiceShutdown \<Rightarrow> Some (s\<lparr>ms_running := False\<rparr>, [])
   | ManagerInput key j \<Rightarrow> to_manager E c can key j s
   | ManagerDone key \<Rightarrow> (case kv_get (ms_managers s) key of None \<Rightarrow> Some (s, []) | Some m \<Rightarrow>
       let s = s\<lparr>ms_managers := kv_del (DeploymentPath (mm_daddr m)) (ms_managers s), ms_stops := ms_stops s - {key}\<rparr> in
       Some (if ms_running s then maybeRemoveWatchdog (mm_daddr m) s else s, []))
   | WatchdogStops did \<Rightarrow> Some (end_watchdog did s, [])
   | WatchdogFires did \<Rightarrow> (case ms_watchdogs s did of None \<Rightarrow> Some (s, [])
       | Some w \<Rightarrow> Some (end_watchdog did s, [BroadcastCloseBid (watchdog_close E c w)]))
   | WatchdogDone did \<Rightarrow> Some (s\<lparr>ms_watchdogs := (ms_watchdogs s)(did := None)\<rparr>, []))"

inductive service_exec ::
  "'b env \<Rightarrow> service_config \<Rightarrow> lease_won list \<Rightarrow> service_input list \<Rightarrow> service_output list \<Rightarrow> manifest_service_state \<Rightarrow> bool"
  for E c evs where
  start: "service_start E c can evs = Some (s, outs) \<Longrightarrow> service_exec E c evs [] outs s"
| step: "service_exec E c evs is outs s \<Longrightarrow> service_ready i s \<Longrightarrow> service_step E c can i s = Some (s', new) \<Longrightarrow>
    service_exec E c evs (is @ [i]) (outs @ new) s'"

end
