(* ===== verification/Manifest_Manager_Properties.thy ===== *)
theory Manifest_Manager_Properties
  imports Manifest_Manager Manifest_Properties "HOL-Library.Multiset"
begin

text \<open>
  What the manager of a deployment's manifests guarantees: it publishes only manifests that were sent, that have
  an announced version and that pass both validations, for leases it was told of; and it answers every request exactly once.
\<close>

subsection \<open>Removing a lease\<close>

lemma remove_lease_absent:
  "lid \<notin> lw_LeaseID ` set (drop idx arr) \<Longrightarrow> remove_lease_loop lid idx arr n = Some (take n arr)"
proof (induction "length arr - idx" arbitrary: idx)
  case 0
  then show ?case by (subst remove_lease_loop.simps) simp
next
  case (Suc k)
  then have "drop idx arr = arr ! idx # drop (Suc idx) arr" by (simp add: Cons_nth_drop_Suc)
  then show ?case using Suc by (subst remove_lease_loop.simps) auto
qed

lemma distinct_around:
  assumes "distinct (map f xs)" "idx < length xs" "f (xs ! idx) = y"
  shows "y \<notin> f ` set (take idx xs)" "y \<notin> f ` set (drop (Suc idx) xs)"
proof -
  have "xs = take idx xs @ xs ! idx # drop (Suc idx) xs" using assms(2) by (rule id_take_nth_drop)
  then have "distinct (map f (take idx xs @ xs ! idx # drop (Suc idx) xs))" using assms(1) by metis
  then show "y \<notin> f ` set (take idx xs)" "y \<notin> f ` set (drop (Suc idx) xs)" using assms(3) by auto
qed

lemma remove_lease_found:
  "distinct (map lw_LeaseID arr) \<Longrightarrow> idx < length arr \<Longrightarrow> lw_LeaseID (arr ! idx) = lid \<Longrightarrow>
   remove_lease_loop lid idx arr (length arr) = Some (take idx arr @ drop (Suc idx) arr)"
proof -
  assume dist: "distinct (map lw_LeaseID arr)" and idx: "idx < length arr" and lid: "lw_LeaseID (arr ! idx) = lid"
  let ?brr = "take idx arr @ drop (Suc idx) arr @ drop (length arr - 1) arr"
  note rest = distinct_around(2) [OF dist idx lid]
  have "lid \<notin> lw_LeaseID ` set (drop (Suc idx) ?brr)"
  proof (cases "Suc idx = length arr")
    case True
    then show ?thesis by simp
  next
    case False
    then have "set (drop (length arr - 1) arr) \<subseteq> set (drop (Suc idx) arr)" using idx by (intro set_drop_subset_set_drop) simp
    moreover have "set (drop (Suc idx) ?brr) \<subseteq> set (drop (Suc idx) arr @ drop (length arr - 1) arr)"
      using idx set_drop_subset [of 1 "drop (Suc idx) arr @ drop (length arr - 1) arr"] by simp
    ultimately show ?thesis using rest by auto
  qed
  from remove_lease_absent [OF this, of "length arr - 1"] show ?thesis
    using idx lid by (subst remove_lease_loop.simps) simp
qed

text \<open>When no lease is listed twice, exactly the named one goes; a lease listed twice makes the loop panic.\<close>

lemma remove_lease_filter:
  assumes "distinct (map lw_LeaseID ls)"
  shows "remove_lease_loop lid 0 ls (length ls) = Some (filter (\<lambda>l. lw_LeaseID l \<noteq> lid) ls)"
proof -
  have skip: "remove_lease_loop lid 0 ls n = remove_lease_loop lid idx ls n"
    if "idx \<le> length ls" "\<forall>j<idx. lw_LeaseID (ls ! j) \<noteq> lid" for idx n
    using that
  proof (induction idx)
    case (Suc idx)
    then have "remove_lease_loop lid 0 ls n = remove_lease_loop lid idx ls n" by simp
    also have "\<dots> = remove_lease_loop lid (Suc idx) ls n" using Suc.prems by (subst remove_lease_loop.simps) simp
    finally show ?case .
  qed simp
  show ?thesis
  proof (cases "lid \<in> lw_LeaseID ` set ls")
    case False
    then show ?thesis using remove_lease_absent [of lid 0 ls] by (auto simp: filter_id_conv intro!: filter_True [symmetric])
  next
    case True
    then obtain idx where idx: "idx < length ls" "lw_LeaseID (ls ! idx) = lid" by (auto simp: in_set_conv_nth)
    have uniq: "lw_LeaseID (ls ! j) \<noteq> lid" if "j \<noteq> idx" "j < length ls" for j
      using assms idx that by (metis distinct_conv_nth length_map nth_map)
    have ls: "ls = take idx ls @ ls ! idx # drop (Suc idx) ls" using idx(1) by (rule id_take_nth_drop)
    have "filter (\<lambda>l. lw_LeaseID l \<noteq> lid) ls = take idx ls @ drop (Suc idx) ls"
    proof -
      have "filter (\<lambda>l. lw_LeaseID l \<noteq> lid) (take idx ls) = take idx ls"
        using distinct_around(1) [OF assms idx] by (intro filter_True) (metis imageI)
      moreover have "filter (\<lambda>l. lw_LeaseID l \<noteq> lid) (drop (Suc idx) ls) = drop (Suc idx) ls"
        using distinct_around(2) [OF assms idx] by (intro filter_True) (metis imageI)
      ultimately show ?thesis by (subst ls) (simp add: idx(2))
    qed
    then show ?thesis using skip [of idx "length ls"] idx uniq remove_lease_found [OF assms idx] by simp
  qed
qed

lemma remove_twice_listed: "remove_lease_loop (lw_LeaseID l) 0 [l, l] 2 = None"
  by (simp add: remove_lease_loop.simps)

subsection \<open>Answers\<close>

definition submitted :: "manager_input list \<Rightarrow> nat list" where
  "submitted is = [mr_no r. MgrManifest r \<leftarrow> is]"

definition answered :: "manager_output list \<Rightarrow> nat list" where
  "answered outs = [n. Answer n _ \<leftarrow> outs]"

lemma submitted_simps [simp]: "submitted (is @ js) = submitted is @ submitted js" "submitted [] = []"
    "submitted [MgrManifest r] = [mr_no r]" "submitted [MgrShutdown] = []" "submitted [MgrStopTimer] = []" "submitted [MgrLease l] = []"
    "submitted [MgrRemoveLease i] = []" "submitted [MgrUpdate v] = []" "submitted [MgrData d] = []"
  by (simp_all add: submitted_def)

lemma answered_simps [simp]: "answered (xs @ ys) = answered xs @ answered ys" "answered [] = []"
    "answered (Answer n e # xs) = n # answered xs" "answered (PublishManifest lid g m d # xs) = answered xs"
    "answered (FetchDeployment did # xs) = answered xs"
    "answered (map (\<lambda>n. Answer n e) ns) = ns" "answered (map (\<lambda>r. Answer (mr_no r) e) rs) = map mr_no rs" "answered (map (\<lambda>l. PublishManifest (f l) (g' l) m d) ls) = []"
  by (simp_all add: answered_def comp_def)

text \<open>The requests a manager still owes an answer.\<close>

definition owing :: "manager \<Rightarrow> nat list" where
  "owing s = mm_pending s @ map mr_no (mm_requests s)"

lemma validate_loop_answers:
  "validate_loop f reqs = Some (outs, acc) \<Longrightarrow> mset (map mr_no reqs) = mset (answered outs) + mset (map mr_no acc)"
  by (induction reqs arbitrary: outs acc) (auto simp: bind_eq_Some_conv split: option.splits)

lemma validateRequests_owing:
  assumes "validateRequests E K V require can s = Some (s', outs)"
  shows "mset (owing s) = mset (answered outs) + mset (owing s')" "mm_leases s' = mm_leases s" "mm_data s' = mm_data s"
    "mm_running s' = mm_running s" "mm_stoptimer s' = mm_stoptimer s" "mm_fetching s' = mm_fetching s" "mm_versions s' = mm_versions s"
    "mm_data s = None \<or> mm_requests s' = []"
  using assms validate_loop_answers
  by (fastforce simp: validateRequests_def owing_def split: option.splits if_splits)+

lemma fillAllRequests_owing:
  assumes "fillAllRequests e s = (s', outs)"
  shows "mset (owing s) = mset (answered outs)" "owing s' = []" "mm_pending s' = []" "mm_requests s' = []"
    "s' = s\<lparr>mm_pending := [], mm_requests := []\<rparr>"
  using assms by (auto simp: fillAllRequests_def owing_def comp_def)

lemma emitReceivedEvents_owing:
  assumes "emitReceivedEvents s = (s', outs)"
  shows "mset (owing s) = mset (answered outs) + mset (owing s')" "mm_leases s' = mm_leases s" "mm_data s' = mm_data s"
    "mm_running s' = mm_running s" "mm_stoptimer s' = mm_stoptimer s" "mm_fetching s' = mm_fetching s" "mm_manifests s' = mm_manifests s"
    "mm_versions s' = mm_versions s" "mm_pending s' = [] \<or> mm_data s = None \<or> mm_manifests s = []"
    "mm_requests s = [] \<Longrightarrow> mm_requests s' = []"
  using assms fillAllRequests_owing [of ErrNoLeaseForDeployment s s' outs]
  by (auto simp: emitReceivedEvents_def owing_def split: option.splits if_splits)

lemma maybe_steps:
  "maybeScheduleStop s = Some s' \<Longrightarrow> s' = s"
  "maybeFetchData s = (s', outs) \<Longrightarrow> answered outs = [] \<and> owing s' = owing s \<and> s' = s\<lparr>mm_fetching := mm_fetching s'\<rparr>"
  by (auto simp: maybeScheduleStop_def maybeFetchData_def owing_def split: if_splits)

lemma owing_updates [simp]: "owing (s\<lparr>mm_leases := ls\<rparr>) = owing s" "owing (s\<lparr>mm_fetching := b\<rparr>) = owing s" "owing (s\<lparr>mm_data := d\<rparr>) = owing s"
    "owing (s\<lparr>mm_running := b\<rparr>) = owing s" "owing (s\<lparr>mm_versions := v\<rparr>) = owing s"
  by (simp_all add: owing_def)

lemma removeLease_owing: "removeLease lid s = Some s' \<Longrightarrow> \<exists>ls. s' = s\<lparr>mm_leases := ls\<rparr>"
  by (auto simp: removeLease_def)

lemma manager_step_cases:
  assumes "manager_step E K V require can i s = Some (s', outs)"
  obtains (stop) t where "i = MgrShutdown \<or> i = MgrStopTimer" "fillAllRequests ErrNotRunning s = (t, outs)" "s' = t\<lparr>mm_running := False\<rparr>"
  | (lease) ev t o1 o2 where "i = MgrLease ev" "emitReceivedEvents (s\<lparr>mm_leases := mm_leases s @ [ev]\<rparr>) = (t, o1)"
      "maybeFetchData t = (s', o2)" "outs = o1 @ o2"
  | (remove) lid where "i = MgrRemoveLease lid" "removeLease lid s = Some s'" "outs = []"
  | (refused) req where "i = MgrManifest req" "\<not> mm_running s" "s' = s" "outs = [Answer (mr_no req) (Some ErrNotRunning)]"
  | (request) req t u o1 o2 o3 where "i = MgrManifest req" "mm_running s"
      "validateRequests E K V require can (s\<lparr>mm_requests := mm_requests s @ [req]\<rparr>) = Some (t, o1)"
      "emitReceivedEvents t = (u, o2)" "maybeFetchData u = (s', o3)" "outs = o1 @ o2 @ o3"
  | (update) version where "i = MgrUpdate version" "outs = []"
      "s' = s\<lparr>mm_versions := mm_versions s @ [version], mm_data := map_option (set_version version) (mm_data s)\<rparr>"
  | (failed) e where "i = MgrData (Inl e)" "fillAllRequests e (s\<lparr>mm_fetching := False\<rparr>) = (s', outs)"
  | (data) d t o1 o2 where "i = MgrData (Inr d)" "validateRequests E K V require can (s\<lparr>mm_fetching := False, mm_data := Some d\<rparr>) = Some (t, o1)"
      "emitReceivedEvents t = (s', o2)" "outs = o1 @ o2"
proof (cases i)
  case (MgrLease ev)
  obtain t o1 where t: "emitReceivedEvents (s\<lparr>mm_leases := mm_leases s @ [ev]\<rparr>) = (t, o1)" by fastforce
  obtain u o2 where u: "maybeFetchData t = (u, o2)" by fastforce
  show ?thesis using assms t u lease MgrLease by (auto simp: manager_step_def bind_eq_Some_conv dest!: maybe_steps(1))
next
  case (MgrRemoveLease lid)
  then show ?thesis using assms remove by (auto simp: manager_step_def bind_eq_Some_conv dest!: maybe_steps(1))
next
  case (MgrManifest req)
  show ?thesis
  proof (cases "mm_running s")
    case True
    obtain t o1 where t: "validateRequests E K V require can (s\<lparr>mm_requests := mm_requests s @ [req]\<rparr>) = Some (t, o1)"
      using assms MgrManifest True by (auto simp: manager_step_def bind_eq_Some_conv)
    obtain u o2 where u: "emitReceivedEvents t = (u, o2)" by fastforce
    obtain v o3 where v: "maybeFetchData u = (v, o3)" by fastforce
    show ?thesis using assms t u v request MgrManifest True by (auto simp: manager_step_def bind_eq_Some_conv dest!: maybe_steps(1))
  next
    case False
    then have "s' = s" "outs = [Answer (mr_no req) (Some ErrNotRunning)]" using assms MgrManifest by (simp_all add: manager_step_def)
    with MgrManifest False show ?thesis by (rule refused)
  qed
next
  case (MgrData r)
  show ?thesis
  proof (cases r)
    case (Inr d)
    obtain t o1 where t: "validateRequests E K V require can (s\<lparr>mm_fetching := False, mm_data := Some d\<rparr>) = Some (t, o1)"
      using assms MgrData Inr by (auto simp: manager_step_def bind_eq_Some_conv Let_def)
    obtain u o2 where u: "emitReceivedEvents t = (u, o2)" by fastforce
    show ?thesis using assms t u data MgrData Inr by (auto simp: manager_step_def bind_eq_Some_conv Let_def dest!: maybe_steps(1))
  next
    case (Inl e)
    then show ?thesis using assms failed [of e] MgrData by (simp add: manager_step_def Let_def)
  qed
next
  case (MgrUpdate version)
  then show ?thesis using assms update [of version] by (simp add: manager_step_def)
next
  case MgrShutdown
  then show ?thesis using assms stop by (simp add: manager_step_def split: prod.splits)
next
  case MgrStopTimer
  then show ?thesis using assms stop by (simp add: manager_step_def split: prod.splits)
qed

lemma manager_step_answers:
  assumes "manager_step E K V require can i s = Some (s', outs)"
  shows "mset (owing s) + mset (submitted [i]) = mset (answered outs) + mset (owing s')"
  using assms
proof (cases rule: manager_step_cases)
  case (stop t)
  then show ?thesis using fillAllRequests_owing [OF stop(2)] by auto
next
  case (lease ev t o1 o2)
  then show ?thesis using emitReceivedEvents_owing(1) [OF lease(2)] maybe_steps(2) [OF lease(3)] by simp
next
  case (remove lid)
  then show ?thesis using removeLease_owing by fastforce
next
  case (request req t u o1 o2 o3)
  have "mset (owing (s\<lparr>mm_requests := mm_requests s @ [req]\<rparr>)) = mset (owing s) + {#mr_no req#}" by (simp add: owing_def)
  then show ?thesis
    using request validateRequests_owing(1) [OF request(3)] emitReceivedEvents_owing(1) [OF request(4)] maybe_steps(2) [OF request(5)]
    by (simp add: ac_simps)
next
  case (failed e)
  then show ?thesis using fillAllRequests_owing [OF failed(2)] by simp
next
  case (data d t o1 o2)
  then show ?thesis using validateRequests_owing(1) [OF data(2)] emitReceivedEvents_owing(1) [OF data(3)] by simp
qed (auto simp: owing_def)


text \<open>
  Between two steps nothing is pending, a stopped manager has no request left, and a request is left only while the
  deployment's data are being fetched.
\<close>

definition manager_inv :: "manager \<Rightarrow> bool" where
  "manager_inv s = (mm_pending s = [] \<and> \<not> mm_stoptimer s \<and> (mm_requests s \<noteq> [] \<longrightarrow> mm_running s \<and> mm_fetching s) \<and>
     (mm_fetching s \<longrightarrow> mm_data s = None))"

lemma validateRequests_cases:
  assumes "validateRequests E K V require can s = Some (s', outs)"
  obtains (idle) "s' = s" "outs = []"
  | (loop) d acc where "mm_data s = Some d" "validate_loop (validateRequest E K V require can d s) (mm_requests s) = Some (outs, acc)"
      "s' = s\<lparr>mm_requests := [], mm_pending := mm_pending s @ map mr_no acc,
         mm_manifests := mm_manifests s @ (case acc of [] \<Rightarrow> [] | r # _ \<Rightarrow> [mr_Manifest r])\<rparr>"
proof (cases "mm_data s = None \<or> mm_requests s = []")
  case True
  then show ?thesis using assms idle by (auto simp: validateRequests_def split: option.splits)
next
  case False
  then obtain d where d: "mm_data s = Some d" by auto
  with False assms obtain acc where "validate_loop (validateRequest E K V require can d s) (mm_requests s) = Some (outs, acc)"
      "s' = s\<lparr>mm_requests := [], mm_pending := mm_pending s @ map mr_no acc,
         mm_manifests := mm_manifests s @ (case acc of [] \<Rightarrow> [] | r # _ \<Rightarrow> [mr_Manifest r])\<rparr>"
    by (auto simp: validateRequests_def)
  with d show ?thesis by (rule loop)
qed

lemma validateRequests_manifests:
  assumes "validateRequests E K V require can s = Some (s', outs)"
  shows "mm_pending s' = mm_pending s \<or> mm_data s' \<noteq> None \<and> mm_manifests s' \<noteq> []"
  using assms
proof (cases rule: validateRequests_cases)
  case (loop d acc)
  then show ?thesis by (cases acc) simp_all
qed simp

lemma maybeFetchData_fetching:
  assumes "maybeFetchData s = (s', outs)"
  shows "mm_data s' = mm_data s" "mm_data s = None \<Longrightarrow> mm_fetching s'" "mm_data s \<noteq> None \<Longrightarrow> s' = s" "mm_running s' = mm_running s"
    "mm_stoptimer s' = mm_stoptimer s" "mm_requests s' = mm_requests s" "mm_pending s' = mm_pending s" "mm_leases s' = mm_leases s"
    "mm_manifests s' = mm_manifests s" "mm_versions s' = mm_versions s"
  using assms by (auto simp: maybeFetchData_def split: if_splits)

lemma emitReceivedEvents_pending:
  assumes "emitReceivedEvents s = (s', outs)" "mm_pending s = [] \<or> mm_data s \<noteq> None \<and> mm_manifests s \<noteq> []"
  shows "mm_pending s' = []" "mm_requests s' = mm_requests s \<or> mm_requests s' = []"
  using assms by (auto simp: emitReceivedEvents_def fillAllRequests_def split: if_splits option.splits)

lemma manager_step_inv:
  assumes step: "manager_step E K V require can i s = Some (s', outs)" and ready: "manager_ready i s" and inv: "manager_inv s"
  shows "manager_inv s'"
  using step
proof (cases rule: manager_step_cases)
  case (stop t)
  then show ?thesis using fillAllRequests_owing [OF stop(2)] inv by (auto simp: manager_inv_def)
next
  case (lease ev t o1 o2)
  have "mm_pending t = []" "mm_requests t = mm_requests s \<or> mm_requests t = []"
    using emitReceivedEvents_pending [OF lease(2)] inv by (auto simp: manager_inv_def)
  then show ?thesis using emitReceivedEvents_owing [OF lease(2)] maybeFetchData_fetching [OF lease(3)] inv ready lease(1)
    by (cases "mm_data s") (auto simp: manager_inv_def manager_ready_def)
next
  case (remove lid)
  then show ?thesis using removeLease_owing inv by (fastforce simp: manager_inv_def)
next
  case (request req t u o1 o2 o3)
  note v = validateRequests_owing [OF request(3)] validateRequests_manifests [OF request(3)]
  have "mm_pending u = []" "mm_requests u = mm_requests t \<or> mm_requests u = []"
    using emitReceivedEvents_pending [OF request(4)] v inv by (auto simp: manager_inv_def)
  then show ?thesis using v emitReceivedEvents_owing [OF request(4)] maybeFetchData_fetching [OF request(5)] inv request(2)
    by (cases "mm_data s") (auto simp: manager_inv_def)
next
  case (failed e)
  then show ?thesis using fillAllRequests_owing [OF failed(2)] inv by (auto simp: manager_inv_def)
next
  case (data d t o1 o2)
  note v = validateRequests_owing [OF data(2)] validateRequests_manifests [OF data(2)]
  have "mm_pending s' = []" "mm_requests s' = mm_requests t \<or> mm_requests s' = []"
    using emitReceivedEvents_pending [OF data(3)] v inv by (auto simp: manager_inv_def)
  then show ?thesis using v emitReceivedEvents_owing [OF data(3)] inv by (auto simp: manager_inv_def)
qed (use inv in \<open>auto simp: manager_inv_def\<close>)


lemma manager_exec_inv: "manager_exec E K V require did is outs s \<Longrightarrow> manager_inv s"
proof (induction rule: manager_exec.induct)
  case start
  then show ?case by (simp add: manager_inv_def newManager_def)
next
  case (step ins outs s i can s' new)
  then show ?case by (blast intro: manager_step_inv)
qed

lemma manager_exec_balance: "manager_exec E K V require did is outs s \<Longrightarrow> mset (submitted is) = mset (answered outs) + mset (owing s)"
proof (induction rule: manager_exec.induct)
  case start
  then show ?case by (simp add: newManager_def owing_def)
next
  case (step ins outs s i can s' new)
  then show ?case using manager_step_answers [OF step.hyps(3)] by (simp add: ac_simps)
qed

lemma manager_data_answers_all:
  assumes "manager_exec E K V require did is outs s" "manager_ready (MgrData r) s" "manager_step E K V require can (MgrData r) s = Some (s', new)"
  shows "owing s' = []"
  using assms(3)
proof (cases rule: manager_step_cases)
  case (failed e)
  then show ?thesis using fillAllRequests_owing by simp
next
  case (data d t o1 o2)
  have "manager_inv s'" using manager_step_inv [OF assms(3,2) manager_exec_inv [OF assms(1)]] .
  moreover have "mm_requests s' = []"
    using validateRequests_owing(8) [OF data(2)] emitReceivedEvents_owing(10) [OF data(3)] by simp
  ultimately show ?thesis by (simp add: manager_inv_def owing_def)
qed simp_all

text \<open>A step with the fetched data goes through unless a lease came without its group or the validation panics.\<close>

definition validates :: "'b env \<Rightarrow> k8s_checks \<Rightarrow> manifest \<Rightarrow> bool" where
  "validates E K m = (case ValidateManifest E K m of Ok _ _ \<Rightarrow> True | Err _ _ \<Rightarrow> True | _ \<Rightarrow> False)"

lemma opt_map_not_None: "(\<And>x. x \<in> set xs \<Longrightarrow> f x \<noteq> None) \<Longrightarrow> opt_map f xs \<noteq> None"
  by (induction xs) (auto simp: bind_eq_Some_conv)

lemma validateRequest_total:
  assumes "\<forall>l\<in>set (mm_leases s). lw_Group l \<noteq> None" "validates E K (mr_Manifest req)"
  shows "validateRequest E K V require can d s req \<noteq> None"
proof -
  have "opt_map (\<lambda>l. map_option (\<lambda>g. gs_Name (grp_Spec g)) (lw_Group l)) (mm_leases s) \<noteq> None"
    using assms(1) by (intro opt_map_not_None) simp
  then show ?thesis using assms(2)
    by (simp add: validateRequest_def validates_def Let_def split: sum.splits outcome.splits option.splits)
qed

lemma validate_loop_total: "(\<And>r. r \<in> set reqs \<Longrightarrow> f r \<noteq> None) \<Longrightarrow> validate_loop f reqs \<noteq> None"
proof (induction reqs)
  case (Cons req reqs)
  then have "f req \<noteq> None" "validate_loop f reqs \<noteq> None" by simp_all
  then show ?case by auto
qed simp

lemma validateRequests_total:
  assumes "\<forall>l\<in>set (mm_leases s). lw_Group l \<noteq> None" "\<forall>r\<in>set (mm_requests s). validates E K (mr_Manifest r)"
  shows "\<exists>t outs. validateRequests E K V require can s = Some (t, outs)"
proof (cases "mm_data s")
  case (Some d)
  have "validate_loop (validateRequest E K V require can d s) (mm_requests s) \<noteq> None"
    using assms by (intro validate_loop_total validateRequest_total) blast+
  then show ?thesis using Some by (auto simp: validateRequests_def)
qed (simp add: validateRequests_def)

lemma maybeScheduleStop_goes_on: "\<not> mm_stoptimer s \<Longrightarrow> maybeScheduleStop s = Some s"
  by (cases s) (simp add: maybeScheduleStop_def)

lemma manager_data_returns:
  assumes "manager_inv s" "\<forall>l\<in>set (mm_leases s). lw_Group l \<noteq> None" "\<forall>r\<in>set (mm_requests s). validates E K (mr_Manifest r)"
  shows "\<exists>s' new. manager_step E K V require can (MgrData r) s = Some (s', new)"
proof (cases r)
  case (Inr d)
  obtain t o1 where t: "validateRequests E K V require can (s\<lparr>mm_fetching := False, mm_data := Some d\<rparr>) = Some (t, o1)"
    using validateRequests_total [of "s\<lparr>mm_fetching := False, mm_data := Some d\<rparr>" E K V require can] assms(2,3) by auto
  obtain u o2 where u: "emitReceivedEvents t = (u, o2)" by fastforce
  have "maybeScheduleStop u = Some u"
    using emitReceivedEvents_owing(5) [OF u] validateRequests_owing(5) [OF t] assms(1)
    by (intro maybeScheduleStop_goes_on) (simp add: manager_inv_def)
  then show ?thesis using t u Inr by (simp add: manager_step_def)
qed (simp add: manager_step_def)

text \<open>C26. Each manifest sent to a manager is answered exactly once: what was sent is what was answered and what is still
  owed.  An answer is owed only while the manager runs and fetches the deployment's data; when the data or an error come, every
  answer owed is given, unless a lease came without its group or the validation of a manifest panics.\<close>

theorem manager_answers:
  assumes "manager_exec E K V require did is outs s"
  shows "mset (submitted is) = mset (answered outs) + mset (owing s) \<and>
    (owing s \<noteq> [] \<longrightarrow> mm_running s \<and> mm_fetching s \<and>
      ((\<forall>l\<in>set (mm_leases s). lw_Group l \<noteq> None) \<and> (\<forall>r\<in>set (mm_requests s). validates E K (mr_Manifest r)) \<longrightarrow>
       (\<forall>can r. \<exists>s' new. manager_step E K V require can (MgrData r) s = Some (s', new) \<and> owing s' = [])))"
proof (intro conjI impI allI)
  show "mset (submitted is) = mset (answered outs) + mset (owing s)" using assms by (rule manager_exec_balance)
  note inv = manager_exec_inv [OF assms]
  assume owed: "owing s \<noteq> []"
  with inv show running: "mm_running s" and fetching: "mm_fetching s" by (auto simp: manager_inv_def owing_def)
  fix can r
  assume ok: "(\<forall>l\<in>set (mm_leases s). lw_Group l \<noteq> None) \<and> (\<forall>r\<in>set (mm_requests s). validates E K (mr_Manifest r))"
  have "manager_ready (MgrData r) s" using running fetching by (simp add: manager_ready_def)
  with manager_data_returns [OF inv] ok manager_data_answers_all [OF assms]
  show "\<exists>s' new. manager_step E K V require can (MgrData r) s = Some (s', new) \<and> owing s' = []" by meson
qed

subsection \<open>What is published\<close>

text \<open>The versions the chain announced: by the deployment as it was fetched, and by its updates.\<close>

definition announced :: "manager_input list \<Rightarrow> string list" where
  "announced is = concat (map (\<lambda>i. case i of MgrUpdate v \<Rightarrow> [v] | MgrData (Inr d) \<Rightarrow> [dep_Version (dd_Deployment d)] | _ \<Rightarrow> []) is)"

text \<open>A manifest \<open>m\<close> as the history allows it for the groups \<open>gs\<close>.\<close>

definition accepted :: "'b env \<Rightarrow> k8s_checks \<Rightarrow> (manifest \<Rightarrow> error + string) \<Rightarrow> manager_input list \<Rightarrow> group list \<Rightarrow> manifest \<Rightarrow> bool" where
  "accepted E K V is gs m \<longleftrightarrow> m \<in> {mr_Manifest r |r. MgrManifest r \<in> set is} \<and> (\<exists>v\<in>set (announced is). V m = Inr v) \<and>
     (\<exists>h. ValidateManifest E K m = Ok () h) \<and> ValidateManifestWithDeployment m gs = None"

lemma accepted_mono: "accepted E K V is gs m \<Longrightarrow> set is \<subseteq> set js \<Longrightarrow> accepted E K V js gs m"
  by (fastforce simp: accepted_def announced_def)

lemma remove_lease_subset: "remove_lease_loop lid idx arr n = Some ls \<Longrightarrow> set ls \<subseteq> set arr"
proof (induction lid idx arr n arbitrary: ls rule: remove_lease_loop.induct)
  case (1 lid idx arr n)
  let ?brr = "take idx arr @ drop (idx + 1) (take n arr) @ drop (n - 1) arr"
  have brr: "set ?brr \<subseteq> set arr" by (auto dest: in_set_takeD in_set_dropD)
  consider "idx \<ge> length arr" | "idx < length arr" "lw_LeaseID (arr ! idx) = lid" | "idx < length arr" "lw_LeaseID (arr ! idx) \<noteq> lid"
    by linarith
  then show ?case
  proof cases
    case 1
    then have "ls = take n arr" using "1.prems" by (simp add: remove_lease_loop.simps [of lid idx])
    then show ?thesis by (simp add: set_take_subset)
  next
    case 2
    then have "\<not> n < idx + 1" "remove_lease_loop lid (idx + 1) ?brr (n - 1) = Some ls"
      using "1.prems" by (simp_all add: remove_lease_loop.simps [of lid idx] split: if_splits)
    then show ?thesis using "1.IH"(1) [of ls] 2 brr by auto
  next
    case 3
    then have "remove_lease_loop lid (idx + 1) arr n = Some ls" using "1.prems" by (simp add: remove_lease_loop.simps [of lid idx])
    then show ?thesis using "1.IH"(2) [of ls] 3 by simp
  qed
qed

lemma removeLease_leases: "removeLease lid s = Some s' \<Longrightarrow> set (mm_leases s') \<subseteq> set (mm_leases s)"
  by (auto simp: removeLease_def dest: remove_lease_subset [THEN subsetD])

lemma validateRequest_accepts:
  assumes "validateRequest E K V require can d s req = Some None"
  shows "V (mr_Manifest req) = Inr (versionExpected d s)" "\<exists>h. ValidateManifest E K (mr_Manifest req) = Ok () h"
    "ValidateManifestWithDeployment (mr_Manifest req) (dd_Groups d) = None"
  using assms by (auto simp: validateRequest_def Let_def split: sum.splits outcome.splits option.splits if_splits)

lemma validate_loop_accepted:
  "validate_loop f reqs = Some (outs, acc) \<Longrightarrow> r \<in> set acc \<Longrightarrow> r \<in> set reqs \<and> f r = Some None"
  by (induction reqs arbitrary: outs acc) (auto simp: bind_eq_Some_conv split: option.splits)


definition publish_inv :: "'b env \<Rightarrow> k8s_checks \<Rightarrow> (manifest \<Rightarrow> error + string) \<Rightarrow> manager_input list \<Rightarrow> manager \<Rightarrow> bool" where
  "publish_inv E K V is s \<longleftrightarrow> MgrLease ` set (mm_leases s) \<subseteq> set is \<and> MgrManifest ` set (mm_requests s) \<subseteq> set is \<and>
     set (mm_versions s) \<subseteq> set (announced is) \<and>
     (\<forall>d. mm_data s = Some d \<longrightarrow> dep_Version (dd_Deployment d) \<in> set (announced is) \<and> (\<exists>d0. MgrData (Inr d0) \<in> set is \<and> dd_Groups d0 = dd_Groups d)) \<and>
     (\<forall>m\<in>set (mm_manifests s). \<exists>d. mm_data s = Some d \<and> accepted E K V is (dd_Groups d) m)"

definition published_ok :: "'b env \<Rightarrow> k8s_checks \<Rightarrow> (manifest \<Rightarrow> error + string) \<Rightarrow> manager_input list \<Rightarrow> manager_output \<Rightarrow> bool" where
  "published_ok E K V is out = (case out of PublishManifest lid g m d \<Rightarrow>
     (\<exists>l. MgrLease l \<in> set is \<and> lw_LeaseID l = lid \<and> lw_Group l = g) \<and>
     (\<exists>d0. MgrData (Inr d0) \<in> set is \<and> dd_Groups d0 = dd_Groups d) \<and> accepted E K V is (dd_Groups d) m | _ \<Rightarrow> True)"

lemma announced_append: "set (announced (is @ js)) = set (announced is) \<union> set (announced js)"
  by (simp add: announced_def)

lemma accepted_append: "accepted E K V is gs m \<Longrightarrow> accepted E K V (is @ js) gs m"
  by (erule accepted_mono) simp

lemma publish_inv_mono: "publish_inv E K V is s \<Longrightarrow> publish_inv E K V (is @ js) s"
  unfolding publish_inv_def announced_append set_append by (blast intro: accepted_append)

lemma published_ok_mono: "published_ok E K V is out \<Longrightarrow> published_ok E K V (is @ js) out"
  by (cases out) (auto simp: published_ok_def intro: accepted_append)

lemma versionExpected_announced:
  assumes "publish_inv E K V is s" "mm_data s = Some d"
  shows "versionExpected d s \<in> set (announced is)"
  using assms last_in_set [of "mm_versions s"] by (auto simp: publish_inv_def versionExpected_def)

lemma validate_loop_outs: "validate_loop f reqs = Some (outs, acc) \<Longrightarrow> out \<in> set outs \<Longrightarrow> \<exists>n e. out = Answer n e"
  by (induction reqs arbitrary: outs acc) (auto simp: bind_eq_Some_conv split: option.splits)

lemma validateRequests_published:
  assumes "validateRequests E K V require can s = Some (s', outs)" "publish_inv E K V is s"
  shows "publish_inv E K V is s' \<and> (\<forall>out\<in>set outs. published_ok E K V is out)"
  using assms(1)
proof (cases rule: validateRequests_cases)
  case idle
  then show ?thesis using assms(2) by simp
next
  case (loop d acc)
  have "accepted E K V is (dd_Groups d) (mr_Manifest r)" if "r \<in> set acc" for r
  proof -
    have r: "r \<in> set (mm_requests s)" "validateRequest E K V require can d s r = Some None"
      using validate_loop_accepted [OF loop(2) that] by simp_all
    have "MgrManifest r \<in> set is" using r(1) assms(2) by (auto simp: publish_inv_def)
    then show ?thesis
      using validateRequest_accepts [OF r(2)] versionExpected_announced [OF assms(2) loop(1)] by (auto simp: accepted_def)
  qed
  then have "publish_inv E K V is s'" using assms(2) loop(1) unfolding loop(3) publish_inv_def by (auto split: list.splits)
  moreover have "\<forall>out\<in>set outs. published_ok E K V is out" using validate_loop_outs [OF loop(2)] by (fastforce simp: published_ok_def)
  ultimately show ?thesis by blast
qed

lemma fillAllRequests_published:
  assumes "fillAllRequests e s = (s', outs)" "publish_inv E K V is s"
  shows "publish_inv E K V is s' \<and> (\<forall>out\<in>set outs. published_ok E K V is out)"
  using assms by (auto simp: fillAllRequests_def publish_inv_def published_ok_def)

lemma emitReceivedEvents_published:
  assumes "emitReceivedEvents s = (s', outs)" "publish_inv E K V is s"
  shows "publish_inv E K V is s' \<and> (\<forall>out\<in>set outs. published_ok E K V is out)"
proof (cases "mm_leases s = [] \<or> mm_data s = None \<or> mm_manifests s = []")
  case True
  then have "fillAllRequests ErrNoLeaseForDeployment s = (s', outs) \<or> s' = s \<and> outs = []"
    using assms(1) by (simp add: emitReceivedEvents_def split: if_splits option.splits)
  then show ?thesis using fillAllRequests_published assms(2) by fastforce
next
  case False
  then obtain d where d: "mm_data s = Some d" by auto
  let ?pub = "\<lambda>l. PublishManifest (lw_LeaseID l) (lw_Group l) (last (mm_manifests s)) d"
  have s': "s' = s\<lparr>mm_pending := []\<rparr>" and outs: "outs = map ?pub (mm_leases s) @ map (\<lambda>n. Answer n None) (mm_pending s)"
    using assms(1) False d by (simp_all add: emitReceivedEvents_def)
  have "accepted E K V is (dd_Groups d) (last (mm_manifests s))"
    using assms(2) last_in_set [of "mm_manifests s"] False d by (auto simp: publish_inv_def)
  then have "published_ok E K V is (?pub l)" if "l \<in> set (mm_leases s)" for l
    using assms(2) d that unfolding publish_inv_def published_ok_def manager_output.case by blast
  moreover have "published_ok E K V is (Answer n None)" for n by (simp add: published_ok_def)
  moreover have "publish_inv E K V is s'" using assms(2) s' by (simp add: publish_inv_def)
  ultimately show ?thesis using outs by auto
qed

lemma maybeFetchData_published:
  assumes "maybeFetchData s = (s', outs)" "publish_inv E K V is s"
  shows "publish_inv E K V is s' \<and> (\<forall>out\<in>set outs. published_ok E K V is out)"
  using assms by (auto simp: maybeFetchData_def publish_inv_def published_ok_def split: if_splits)

lemma manager_step_published:
  assumes step: "manager_step E K V require can i s = Some (s', outs)" and ready: "manager_ready i s" and inv: "manager_inv s"
    and pub: "publish_inv E K V is s"
  shows "publish_inv E K V (is @ [i]) s' \<and> (\<forall>out\<in>set outs. published_ok E K V (is @ [i]) out)"
proof -
  note pub' = publish_inv_mono [OF pub, of "[i]"]
  from step show ?thesis
  proof (cases rule: manager_step_cases)
    case (stop t)
    then show ?thesis using fillAllRequests_published [OF stop(2) pub'] by (simp add: publish_inv_def)
  next
    case (lease ev t o1 o2)
    have "publish_inv E K V (is @ [i]) (s\<lparr>mm_leases := mm_leases s @ [ev]\<rparr>)" using pub' lease(1) by (simp add: publish_inv_def)
    then show ?thesis using emitReceivedEvents_published [OF lease(2)] maybeFetchData_published [OF lease(3)] lease(4) by fastforce
  next
    case (remove lid)
    obtain ls where "s' = s\<lparr>mm_leases := ls\<rparr>" using removeLease_owing [OF remove(2)] by blast
    then show ?thesis using removeLease_leases [OF remove(2)] pub' remove(3) by (auto simp: publish_inv_def)
  next
    case (refused req)
    then show ?thesis using pub' by (simp add: published_ok_def)
  next
    case (request req t u o1 o2 o3)
    have "publish_inv E K V (is @ [i]) (s\<lparr>mm_requests := mm_requests s @ [req]\<rparr>)" using pub' request(1) by (simp add: publish_inv_def)
    then show ?thesis
      using validateRequests_published [OF request(3)] emitReceivedEvents_published [OF request(4)] maybeFetchData_published [OF request(5)] request(6)
      by fastforce
  next
    case (update version)
    have "version \<in> set (announced (is @ [i]))" using update(1) by (simp add: announced_def)
    then show ?thesis using pub' update(2,3) by (auto simp: publish_inv_def set_version_def)
  next
    case (failed e)
    have "publish_inv E K V (is @ [i]) (s\<lparr>mm_fetching := False\<rparr>)" using pub' by (simp add: publish_inv_def)
    then show ?thesis by (rule fillAllRequests_published [OF failed(2)])
  next
    case (data d t o1 o2)
    have "mm_data s = None" using inv ready data(1) by (simp add: manager_inv_def manager_ready_def)
    then have "mm_manifests s = []" using pub by (cases "mm_manifests s") (auto simp: publish_inv_def)
    then have "publish_inv E K V (is @ [i]) (s\<lparr>mm_fetching := False, mm_data := Some d\<rparr>)"
      using pub' data(1) by (auto simp: publish_inv_def announced_def)
    then show ?thesis using validateRequests_published [OF data(2)] emitReceivedEvents_published [OF data(3)] data(4) by fastforce
  qed
qed

lemma manager_exec_published:
  "manager_exec E K V require did is outs s \<Longrightarrow> publish_inv E K V is s \<and> (\<forall>out\<in>set outs. published_ok E K V is out)"
proof (induction rule: manager_exec.induct)
  case start
  then show ?case by (simp add: publish_inv_def newManager_def)
next
  case (step ins outs s i can s' new)
  then show ?case
    using manager_step_published [OF step.hyps(3,2) manager_exec_inv [OF step.hyps(1)]] published_ok_mono by (metis UnE set_append)
qed


subsection \<open>Examples\<close>

fun manager_run ::
  "'b env \<Rightarrow> k8s_checks \<Rightarrow> (manifest \<Rightarrow> error + string) \<Rightarrow> bool \<Rightarrow> (string list \<Rightarrow> deployment_id \<Rightarrow> error option) \<Rightarrow>
     manager_input list \<Rightarrow> manager \<Rightarrow> (manager \<times> manager_output list) option" where
  "manager_run E K V require can [] s = Some (s, [])"
| "manager_run E K V require can (i # is) s = (if \<not> manager_ready i s then None else do {
     (s, a) \<leftarrow> manager_step E K V require can i s; (s, b) \<leftarrow> manager_run E K V require can is s; Some (s, a @ b) })"

lemma manager_run_exec:
  "manager_exec E K V require did ins outs s \<Longrightarrow> manager_run E K V require can is s = Some (s', new) \<Longrightarrow>
   manager_exec E K V require did (ins @ is) (outs @ new) s'"
proof (induction "is" arbitrary: ins outs s new)
  case (Cons i js)
  then obtain t a b where t: "manager_ready i s" "manager_step E K V require can i s = Some (t, a)"
      "manager_run E K V require can js t = Some (s', b)" "new = a @ b"
    by (auto simp: bind_eq_Some_conv split: if_splits)
  then show ?case using Cons.IH [OF manager_exec.step [OF Cons.prems(1) t(1,2)] t(3)] by simp
qed simp

definition demo_k8s :: k8s_checks where
  "demo_k8s = \<lparr>IsEnvVarName = (\<lambda>_. True), IsDNS1123Subdomain = (\<lambda>_. True)\<rparr>"

definition demo_lease :: "group option \<Rightarrow> lease_won" where
  "demo_lease g = \<lparr>lw_LeaseID = \<lparr>bid_Owner = ''owner'', bid_DSeq = 1, bid_GSeq = 1, bid_OSeq = 1, bid_Provider = ''prova''\<rparr>,
     lw_Group = g, lw_Price = \<lparr>Denom = ''uve'', Amount = 10\<rparr>\<rparr>"

definition demo_waiting :: "group option \<Rightarrow> (manager \<times> manager_output list) option" where
  "demo_waiting g = manager_run demo_env demo_k8s (\<lambda>_. Inr ''v1'') True (\<lambda>_ _. None)
     [MgrLease (demo_lease g), MgrManifest \<lparr>mr_Manifest = [demo_mgroup], mr_no = 7\<rparr>] (newManager \<lparr>did_Owner = ''owner'', did_DSeq = 1\<rparr>)"

lemma demo_waiting_state:
  "demo_waiting g = Some (\<lparr>mm_daddr = \<lparr>did_Owner = ''owner'', did_DSeq = 1\<rparr>, mm_data = None, mm_requests = [\<lparr>mr_Manifest = [demo_mgroup], mr_no = 7\<rparr>],
     mm_pending = [], mm_leases = [demo_lease g], mm_manifests = [], mm_versions = [], mm_stoptimer = False, mm_fetching = True, mm_running = True\<rparr>,
     [FetchDeployment \<lparr>did_Owner = ''owner'', did_DSeq = 1\<rparr>])"
  by (simp add: demo_waiting_def manager_ready_def manager_step_def newManager_def emitReceivedEvents_def maybeScheduleStop_def
    maybeFetchData_def validateRequests_def)

theorem manager_answers_witness:
  "\<forall>r. \<exists>s' new. manager_step demo_env demo_k8s (\<lambda>_. Inr ''v1'') True (\<lambda>_ _. None) (MgrData r)
     (fst (the (demo_waiting (Some demo_dgroup)))) = Some (s', new) \<and> owing s' = []"
proof -
  let ?s = "fst (the (demo_waiting (Some demo_dgroup)))"
  have "manager_run demo_env demo_k8s (\<lambda>_. Inr ''v1'') True (\<lambda>_ _. None)
      [MgrLease (demo_lease (Some demo_dgroup)), MgrManifest \<lparr>mr_Manifest = [demo_mgroup], mr_no = 7\<rparr>] (newManager \<lparr>did_Owner = ''owner'', did_DSeq = 1\<rparr>) =
      Some (?s, [FetchDeployment \<lparr>did_Owner = ''owner'', did_DSeq = 1\<rparr>])"
    unfolding demo_waiting_def [symmetric] by (simp add: demo_waiting_state)
  note answers = manager_answers [OF manager_run_exec [OF manager_exec.start this]]
  have "owing ?s \<noteq> []" "\<forall>l\<in>set (mm_leases ?s). lw_Group l \<noteq> None" by (simp_all add: demo_waiting_state owing_def demo_lease_def)
  moreover have "\<forall>r\<in>set (mm_requests ?s). validates demo_env demo_k8s (mr_Manifest r)"
  proof -
    have "validates demo_env demo_k8s [demo_mgroup]" by code_simp
    then show ?thesis by (simp add: demo_waiting_state)
  qed
  ultimately show ?thesis using answers by blast
qed

text \<open>A lease that came without its group makes the manager panic on the first manifest it validates.\<close>

lemma lease_without_group:
  "manager_step demo_env demo_k8s (\<lambda>_. Inr ''v1'') True (\<lambda>_ _. None)
     (MgrData (Inr \<lparr>dd_Deployment = \<lparr>dep_ID = \<lparr>did_Owner = ''owner'', did_DSeq = 1\<rparr>, dep_State = DeploymentActive, dep_Version = ''v1'', dep_CreatedAt = 1\<rparr>,
       dd_Groups = [demo_dgroup]\<rparr>)) (fst (the (demo_waiting None))) = None"
  by code_simp

end
