(* ===== verification/Manifest_Service_Properties.thy ===== *)
theory Manifest_Service_Properties
  imports Manifest_Service Manifest_Manager_Properties
begin

text \<open>
  What the managers together with the service guarantee: each manager only sees what concerns its deployment, so a manifest
  is published for a lease only if it was sent for that lease's deployment; a watchdog closes only bids of leases that were won.
\<close>

subsection \<open>Managers are keyed by their deployment\<close>

lemma DeploymentPath_inj: "DeploymentPath i = DeploymentPath j \<longleftrightarrow> i = j"
proof
  assume "DeploymentPath i = DeploymentPath j"
  then have "did_Owner i @ CHR ''/'' # FormatWord (did_DSeq i) = did_Owner j @ CHR ''/'' # FormatWord (did_DSeq j)"
    by (simp add: DeploymentPath_def deploymentParts_def)
  then have "did_Owner i = did_Owner j \<and> FormatWord (did_DSeq i) = FormatWord (did_DSeq j)" by (rule last_slash_inj) simp_all
  then show "i = j" by simp
qed simp

lemma part_daddr:
  "validateRequests E K V require can s = Some (s', outs) \<Longrightarrow> mm_daddr s' = mm_daddr s"
  "fillAllRequests e s = (s', outs) \<Longrightarrow> mm_daddr s' = mm_daddr s"
  "emitReceivedEvents s = (s', outs) \<Longrightarrow> mm_daddr s' = mm_daddr s"
  "maybeFetchData s = (s', outs) \<Longrightarrow> mm_daddr s' = mm_daddr s"
  "removeLease lid s = Some s' \<Longrightarrow> mm_daddr s' = mm_daddr s"
  by (auto simp: fillAllRequests_def emitReceivedEvents_def maybeFetchData_def removeLease_def
    elim: validateRequests_cases split: if_splits option.splits)

lemma manager_step_daddr: "manager_step E K V require can i s = Some (s', outs) \<Longrightarrow> mm_daddr s' = mm_daddr s"
  by (erule manager_step_cases) (auto dest!: part_daddr)

lemma manager_exec_daddr: "manager_exec E K V require did is outs s \<Longrightarrow> mm_daddr s = did"
proof (induction rule: manager_exec.induct)
  case start
  then show ?case by (simp add: newManager_def)
next
  case (step ins outs s i can s' new)
  then show ?case using manager_step_daddr by metis
qed

subsection \<open>What reaches a manager\<close>

definition routed :: "lease_won list \<Rightarrow> service_input list \<Rightarrow> deployment_id \<Rightarrow> manager_input \<Rightarrow> bool" where
  "routed evs ins did i = (case i of
     MgrLease l \<Rightarrow> BidID_DeploymentID (lw_LeaseID l) = did \<and> (l \<in> set evs \<or> LeaseWonEvent l \<in> set ins)
   | MgrManifest r \<Rightarrow> Submit did r \<in> set ins
   | MgrUpdate v \<Rightarrow> ChainEvent (EventDeploymentUpdated did v) \<in> set ins
   | MgrData d \<Rightarrow> ManagerInput (DeploymentPath did) (MgrData d) \<in> set ins
   | _ \<Rightarrow> True)"

lemma routed_mono: "routed evs ins did i \<Longrightarrow> routed evs (ins @ js) did i"
  by (auto simp: routed_def split: manager_input.splits)

definition manager_history :: "'b env \<Rightarrow> service_config \<Rightarrow> lease_won list \<Rightarrow> service_input list \<Rightarrow> deployment_id \<Rightarrow> manager_input list \<Rightarrow> manager_output list \<Rightarrow> manager \<Rightarrow> bool" where
  "manager_history E c evs ins did is outs m \<longleftrightarrow>
     manager_exec E (sc_checks c) (sc_version c) (HTTPServicesRequireAtLeastOneHost c) did is outs m \<and> list_all (routed evs ins did) is"

definition managed :: "'b env \<Rightarrow> service_config \<Rightarrow> lease_won list \<Rightarrow> service_input list \<Rightarrow> manifest_service_state \<Rightarrow> bool" where
  "managed E c evs ins s \<longleftrightarrow> (\<forall>k m. kv_get (ms_managers s) k = Some m \<longrightarrow>
     k = DeploymentPath (mm_daddr m) \<and> (\<exists>is outs. manager_history E c evs ins (mm_daddr m) is outs m))"

text \<open>An output of a manager is accounted for by a history of that manager.\<close>

definition traced :: "'b env \<Rightarrow> service_config \<Rightarrow> lease_won list \<Rightarrow> service_input list \<Rightarrow> service_output \<Rightarrow> bool" where
  "traced E c evs ins out = (case out of ManagerOutput did o' \<Rightarrow> (\<exists>is outs m. manager_history E c evs ins did is outs m \<and> o' \<in> set outs) | _ \<Rightarrow> True)"

lemma manager_history_mono: "manager_history E c evs ins did is outs m \<Longrightarrow> manager_history E c evs (ins @ js) did is outs m"
  by (auto simp: manager_history_def list_all_iff intro: routed_mono)

lemma managed_mono: "managed E c evs ins s \<Longrightarrow> managed E c evs (ins @ js) s"
  unfolding managed_def by (meson manager_history_mono)

lemma traced_mono: "traced E c evs ins out \<Longrightarrow> traced E c evs (ins @ js) out"
  unfolding traced_def by (cases out) (auto intro: manager_history_mono)

lemma managed_cong: "ms_managers s' = ms_managers s \<Longrightarrow> managed E c evs ins s' = managed E c evs ins s"
  by (simp add: managed_def)

lemma ensureManager_managed:
  assumes "managed E c evs ins s"
  shows "managed E c evs ins (ensureManager did s)"
proof -
  have "manager_history E c evs ins did [] [] (newManager did)" by (simp add: manager_history_def manager_exec.start)
  moreover have "mm_daddr (newManager did) = did" by (simp add: newManager_def)
  ultimately show ?thesis using assms by (force simp: managed_def ensureManager_def split: option.splits)
qed

lemma to_manager_managed:
  assumes "to_manager E c can key i s = Some (s', new)" "managed E c evs ins s"
    "\<And>m. kv_get (ms_managers s) key = Some m \<Longrightarrow> routed evs ins (mm_daddr m) i"
  shows "managed E c evs ins s' \<and> list_all (traced E c evs ins) new"
proof (cases "\<exists>m. kv_get (ms_managers s) key = Some m \<and> manager_ready i m")
  case False
  then have "s' = s" "new = []" using assms(1) by (auto simp: to_manager_def split: option.splits if_splits)
  then show ?thesis using assms(2) by simp
next
  case True
  then obtain m where m: "kv_get (ms_managers s) key = Some m" "manager_ready i m" by blast
  then obtain m' outs' where step: "manager_step E (sc_checks c) (sc_version c) (HTTPServicesRequireAtLeastOneHost c) can i m = Some (m', outs')"
    and s': "s' = s\<lparr>ms_managers := kv_set key m' (ms_managers s)\<rparr>" and new: "new = map (ManagerOutput (mm_daddr m)) outs'"
    using assms(1) by (auto simp: to_manager_def)
  obtain "is" outs where h: "manager_history E c evs ins (mm_daddr m) is outs m" and key: "key = DeploymentPath (mm_daddr m)"
    using assms(2) m(1) unfolding managed_def by blast
  have "manager_exec E (sc_checks c) (sc_version c) (HTTPServicesRequireAtLeastOneHost c) (mm_daddr m) (is @ [i]) (outs @ outs') m'"
    using h m(2) step unfolding manager_history_def by (blast intro: manager_exec.step)
  moreover from this have "mm_daddr m' = mm_daddr m" by (rule manager_exec_daddr)
  ultimately have h': "manager_history E c evs ins (mm_daddr m') (is @ [i]) (outs @ outs') m'" "mm_daddr m' = mm_daddr m"
    using h assms(3) [OF m(1)] by (simp_all add: manager_history_def)
  have "managed E c evs ins s'" using assms(2) h' key unfolding managed_def s' by auto
  moreover have "list_all (traced E c evs ins) new"
    using h' unfolding new list_all_iff traced_def by fastforce
  ultimately show ?thesis by blast
qed


lemma handleLease_managed:
  assumes "handleLease E c can ev isNew s = Some (s', new)" "managed E c evs ins s" "ev \<in> set evs \<or> LeaseWonEvent ev \<in> set ins"
  shows "managed E c evs ins s' \<and> list_all (traced E c evs ins) new"
proof -
  let ?did = "BidID_DeploymentID (lw_LeaseID ev)"
  define t where "t = (if isNew \<and> ManifestTimeout c > 0 \<and> ms_watchdogs s ?did = None
    then s\<lparr>ms_watchdogs := (ms_watchdogs s)(?did \<mapsto> newWatchdog (lw_LeaseID ev))\<rparr> else s)"
  then have t: "ms_managers t = ms_managers s" and step: "to_manager E c can (DeploymentPath ?did) (MgrLease ev) (ensureManager ?did t) = Some (s', new)"
    using assms(1) by (simp_all add: handleLease_def Let_def)
  have managed: "managed E c evs ins (ensureManager ?did t)"
    using ensureManager_managed managed_cong [OF t] assms(2) by blast
  moreover have "mm_daddr m = ?did" if "kv_get (ms_managers (ensureManager ?did t)) (DeploymentPath ?did) = Some m" for m
    using managed that unfolding managed_def by (metis DeploymentPath_inj)
  ultimately show ?thesis using assms(3) by (intro to_manager_managed [OF step]) (auto simp: routed_def)
qed

lemma start_managed:
  assumes "managePreExistingLease E c can es s = Some (s', outs)" "managed E c evs ins s" "set es \<subseteq> set evs"
  shows "managed E c evs ins s' \<and> list_all (traced E c evs ins) outs"
  using assms
proof (induction es arbitrary: s outs)
  case (Cons ev es)
  then obtain t a b where t: "handleLease E c can ev False s = Some (t, a)" "managePreExistingLease E c can es t = Some (s', b)" "outs = a @ b"
    by (auto simp: bind_eq_Some_conv)
  then show ?case using handleLease_managed [OF t(1) Cons.prems(2)] Cons.IH [OF t(2)] Cons.prems(3) by simp
qed simp

lemma chain_event_managed:
  assumes "handle_chain_event E c can ev s = Some (s', new)" "managed E c evs ins s" "ChainEvent ev \<in> set ins"
  shows "managed E c evs ins s' \<and> list_all (traced E c evs ins) new"
proof -
  have own: "mm_daddr m = did" if "kv_get (ms_managers s) (DeploymentPath did) = Some m" for did m
    using assms(2) that unfolding managed_def by (metis DeploymentPath_inj)
  consider (update) did v where "ev = EventDeploymentUpdated did v" | (lease) lid p where "ev = EventLeaseClosed lid p" "bid_Provider lid = AddrString E (sc_Provider c)"
    | (other) "ms_managers s' = ms_managers s" "new = []"
    using assms(1) by (cases ev) (auto simp: handle_chain_event_def split: if_splits)
  then show ?thesis
  proof cases
    case (update did v)
    then have "to_manager E c can (DeploymentPath did) (MgrUpdate v) s = Some (s', new)" using assms(1) by (simp add: handle_chain_event_def)
    then show ?thesis by (rule to_manager_managed [OF _ assms(2)]) (use own update assms(3) in \<open>auto simp: routed_def\<close>)
  next
    case (lease lid p)
    then have "to_manager E c can (DeploymentPath (BidID_DeploymentID lid)) (MgrRemoveLease lid) s = Some (s', new)"
      using assms(1) by (simp add: handle_chain_event_def)
    then show ?thesis by (rule to_manager_managed [OF _ assms(2)]) (simp add: routed_def)
  next
    case other
    then show ?thesis using managed_cong [OF other(1), of E c evs ins] assms(2) by simp
  qed
qed

lemma service_step_managed:
  assumes step: "service_step E c can i s = Some (s', new)" and ready: "service_ready i s" and inv: "managed E c evs ins s"
  shows "managed E c evs (ins @ [i]) s' \<and> list_all (traced E c evs (ins @ [i])) new"
proof -
  note inv' = managed_mono [OF inv, of "[i]"]
  have same: ?thesis if "ms_managers s' = ms_managers s" "list_all (traced E c evs (ins @ [i])) new"
    using that managed_cong inv' by blast
  show ?thesis
  proof (cases i)
    case (LeaseWonEvent ev)
    then show ?thesis using step by (intro handleLease_managed [OF _ inv']) (auto simp: service_step_def)
  next
    case (ChainEvent ev)
    then show ?thesis using step by (intro chain_event_managed [OF _ inv']) (auto simp: service_step_def)
  next
    case (Submit did req)
    show ?thesis
    proof (cases "ms_running s")
      case True
      let ?t = "ensureManager did (maybeRemoveWatchdog did s)"
      have t: "to_manager E c can (DeploymentPath did) (MgrManifest req) ?t = Some (s', new)" using step Submit True by (simp add: service_step_def)
      have managed: "managed E c evs (ins @ [i]) ?t"
        using inv' managed_cong [of "maybeRemoveWatchdog did s" s] ensureManager_managed by (metis (no_types) maybeRemoveWatchdog_def
          manifest_service_state.select_convs(1) manifest_service_state.surjective manifest_service_state.update_convs(3))
      have "mm_daddr m = did" if "kv_get (ms_managers ?t) (DeploymentPath did) = Some m" for m
        using managed that unfolding managed_def by (metis DeploymentPath_inj)
      then show ?thesis using Submit by (intro to_manager_managed [OF t managed]) (auto simp: routed_def)
    qed (use step Submit same in \<open>auto simp: service_step_def traced_def\<close>)
  next
    case (ManagerInput key j)
    then have t: "to_manager E c can key j s = Some (s', new)" using step by (simp add: service_step_def)
    have "routed evs (ins @ [i]) (mm_daddr m) j" if "kv_get (ms_managers s) key = Some m" for m
      using inv that ready ManagerInput unfolding managed_def by (auto simp: routed_def service_ready_def split: manager_input.splits)
    then show ?thesis by (rule to_manager_managed [OF t inv'])
  next
    case (ManagerDone key)
    then have "kv_get (ms_managers s') k = Some m \<Longrightarrow> kv_get (ms_managers s) k = Some m" for k m
      using step by (auto simp: service_step_def Let_def maybeRemoveWatchdog_def split: option.splits if_splits)
    moreover have "new = []" using step ManagerDone by (auto simp: service_step_def Let_def split: option.splits)
    ultimately show ?thesis using inv' unfolding managed_def by fastforce
  qed (use step same in \<open>auto simp: service_step_def traced_def end_watchdog_def split: option.splits\<close>)
qed

lemma service_exec_managed:
  "service_exec E c evs ins outs s \<Longrightarrow> managed E c evs ins s \<and> list_all (traced E c evs ins) outs"
proof (induction rule: service_exec.induct)
  case (start can s outs)
  then show ?case unfolding service_start_def by (rule start_managed) (simp_all add: managed_def)
next
  case (step ins outs s i can s' new)
  then show ?case using service_step_managed [OF step.hyps(3,2)] traced_mono [of E c evs ins _ "[i]"] by (auto simp: list_all_iff)
qed


subsection \<open>What is published\<close>

lemma announced_cases:
  assumes "v \<in> set (announced is)"
  shows "MgrUpdate v \<in> set is \<or> (\<exists>d0. MgrData (Inr d0) \<in> set is \<and> dep_Version (dd_Deployment d0) = v)"
proof -
  from assms obtain i where i: "i \<in> set is" "v \<in> set (case i of MgrUpdate v \<Rightarrow> [v] | MgrData (Inr d) \<Rightarrow> [dep_Version (dd_Deployment d)] | _ \<Rightarrow> [])"
    unfolding announced_def by (auto simp only: set_concat set_map)
  show ?thesis
  proof (cases i)
    case (MgrData r)
    then show ?thesis using i by (cases r) auto
  qed (use i in auto)
qed

text \<open>
  C21. The provider runs for a lease only what the owner of its deployment sent for it: a manifest is published for a lease
  only if the lease was won or found at the start, the manifest was submitted for the lease's own deployment, its version
  is one the chain gave for that deployment, and it passes the validation alone and against the deployment's groups as fetched.
\<close>
theorem service_publishes:
  assumes "service_exec E c evs ins outs s" and "ManagerOutput did (PublishManifest lid g m d) \<in> set outs"
  shows "BidID_DeploymentID lid = did \<and>
    (\<exists>l. (l \<in> set evs \<or> LeaseWonEvent l \<in> set ins) \<and> lw_LeaseID l = lid \<and> lw_Group l = g) \<and>
    (\<exists>r. Submit did r \<in> set ins \<and> mr_Manifest r = m) \<and>
    (\<exists>d0. ManagerInput (DeploymentPath did) (MgrData (Inr d0)) \<in> set ins \<and> dd_Groups d0 = dd_Groups d) \<and>
    (\<exists>v. sc_version c m = Inr v \<and> (ChainEvent (EventDeploymentUpdated did v) \<in> set ins \<or>
      (\<exists>d0. ManagerInput (DeploymentPath did) (MgrData (Inr d0)) \<in> set ins \<and> dep_Version (dd_Deployment d0) = v))) \<and>
    (\<exists>h. ValidateManifest E (sc_checks c) m = Ok () h) \<and> ValidateManifestWithDeployment m (dd_Groups d) = None"
proof -
  have "traced E c evs ins (ManagerOutput did (PublishManifest lid g m d))"
    using service_exec_managed [OF assms(1)] assms(2) by (auto simp: list_all_iff)
  then obtain "is" outs' m' where h: "manager_history E c evs ins did is outs' m'" and out: "PublishManifest lid g m d \<in> set outs'"
    by (auto simp: traced_def)
  then have ok: "published_ok E (sc_checks c) (sc_version c) is (PublishManifest lid g m d)"
    using manager_exec_published unfolding manager_history_def by blast
  have lease: "BidID_DeploymentID (lw_LeaseID l) = did \<and> (l \<in> set evs \<or> LeaseWonEvent l \<in> set ins)" if "MgrLease l \<in> set is" for l
    using that h by (auto simp: manager_history_def list_all_iff routed_def)
  have data: "ManagerInput (DeploymentPath did) (MgrData d0) \<in> set ins" if "MgrData d0 \<in> set is" for d0
    using that h by (auto simp: manager_history_def list_all_iff routed_def)
  have update: "ChainEvent (EventDeploymentUpdated did v) \<in> set ins" if "MgrUpdate v \<in> set is" for v
    using that h by (auto simp: manager_history_def list_all_iff routed_def)
  have request: "Submit did r \<in> set ins" if "MgrManifest r \<in> set is" for r
    using that h by (auto simp: manager_history_def list_all_iff routed_def)
  from ok obtain l d0 where l: "MgrLease l \<in> set is" "lw_LeaseID l = lid" "lw_Group l = g"
      and d0: "MgrData (Inr d0) \<in> set is" "dd_Groups d0 = dd_Groups d"
      and acc: "accepted E (sc_checks c) (sc_version c) is (dd_Groups d) m"
    unfolding published_ok_def manager_output.case by blast
  from acc obtain r v where r: "MgrManifest r \<in> set is" "mr_Manifest r = m" and v: "v \<in> set (announced is)" "sc_version c m = Inr v"
      and valid: "\<exists>h. ValidateManifest E (sc_checks c) m = Ok () h" "ValidateManifestWithDeployment m (dd_Groups d) = None"
    unfolding accepted_def by blast
  show ?thesis
  proof (intro conjI)
    show "BidID_DeploymentID lid = did" using lease [OF l(1)] l(2) by simp
    show "\<exists>l. (l \<in> set evs \<or> LeaseWonEvent l \<in> set ins) \<and> lw_LeaseID l = lid \<and> lw_Group l = g" using lease [OF l(1)] l(2,3) by blast
    show "\<exists>r. Submit did r \<in> set ins \<and> mr_Manifest r = m" using request [OF r(1)] r(2) by blast
    show "\<exists>d0. ManagerInput (DeploymentPath did) (MgrData (Inr d0)) \<in> set ins \<and> dd_Groups d0 = dd_Groups d" using data [OF d0(1)] d0(2) by blast
    show "\<exists>v. sc_version c m = Inr v \<and> (ChainEvent (EventDeploymentUpdated did v) \<in> set ins \<or>
        (\<exists>d0. ManagerInput (DeploymentPath did) (MgrData (Inr d0)) \<in> set ins \<and> dep_Version (dd_Deployment d0) = v))"
      using announced_cases [OF v(1)] v(2) update data by blast
  qed (rule valid)+
qed

subsection \<open>Watchdogs\<close>

definition watched :: "service_config \<Rightarrow> service_input list \<Rightarrow> manifest_service_state \<Rightarrow> bool" where
  "watched c ins s \<longleftrightarrow> (\<forall>did w. ms_watchdogs s did = Some w \<longrightarrow> 0 < ManifestTimeout c \<and> (\<exists>l. LeaseWonEvent l \<in> set ins \<and> wd_leaseID w = lw_LeaseID l))"

lemma watched_same: "ms_watchdogs s' = ms_watchdogs s \<Longrightarrow> watched c ins s \<Longrightarrow> watched c (ins @ js) s'"
  by (fastforce simp: watched_def)

lemma to_manager_watchdogs: "to_manager E c can key i s = Some (s', new) \<Longrightarrow> ms_watchdogs s' = ms_watchdogs s \<and> BroadcastCloseBid b \<notin> set new"
  by (auto simp: to_manager_def split: option.splits if_splits)

lemma ensureManager_watchdogs [simp]: "ms_watchdogs (ensureManager did s) = ms_watchdogs s"
  by (simp add: ensureManager_def split: option.splits)

lemma stop_watched: "watched c ins s \<Longrightarrow> watched c ins (maybeRemoveWatchdog did s)" "watched c ins s \<Longrightarrow> watched c ins (end_watchdog did s)"
  by (auto simp: watched_def maybeRemoveWatchdog_def watchdog_stop_def end_watchdog_def split: option.splits)

lemma handleLease_watched:
  assumes "handleLease E c can ev isNew s = Some (s', new)" "watched c ins s" "isNew \<longrightarrow> LeaseWonEvent ev \<in> set ins"
  shows "watched c ins s' \<and> BroadcastCloseBid b \<notin> set new"
  using assms to_manager_watchdogs [of E c can "DeploymentPath (BidID_DeploymentID (lw_LeaseID ev))" "MgrLease ev" _ s' new b]
  by (auto simp: handleLease_def Let_def watched_def newWatchdog_def split: if_splits)

lemma handleLease_old_watchdogs:
  "handleLease E c can ev False s = Some (s', new) \<Longrightarrow> ms_watchdogs s' = ms_watchdogs s \<and> BroadcastCloseBid b \<notin> set new"
  by (auto simp: handleLease_def Let_def dest: to_manager_watchdogs)

lemma start_watchdogs:
  "managePreExistingLease E c can evs s = Some (s', outs) \<Longrightarrow> ms_watchdogs s' = ms_watchdogs s \<and> BroadcastCloseBid b \<notin> set outs"
  by (induction evs arbitrary: s outs) (auto simp: bind_eq_Some_conv dest!: handleLease_old_watchdogs [where b = b])

lemma chain_event_watchdogs:
  "handle_chain_event E c can ev s = Some (s', new) \<Longrightarrow> ms_watchdogs s' = ms_watchdogs s \<and> BroadcastCloseBid b \<notin> set new"
  by (auto simp: handle_chain_event_def dest: to_manager_watchdogs split: event.splits if_splits)


lemma service_step_watched:
  assumes step: "service_step E c can i s = Some (s', new)" and inv: "watched c ins s"
  shows "watched c (ins @ [i]) s' \<and> (\<forall>b. BroadcastCloseBid b \<in> set new \<longrightarrow>
    0 < ManifestTimeout c \<and> (\<exists>l. LeaseWonEvent l \<in> set ins \<and> b = MakeBidID E (BidID_OrderID (lw_LeaseID l)) (sc_Provider c)))"
proof -
  have inv': "watched c (ins @ [i]) s" using watched_same [OF refl inv] .
  have same: ?thesis if "ms_watchdogs s' = ms_watchdogs s" "\<And>b. BroadcastCloseBid b \<notin> set new"
    using that watched_same [OF _ inv] by blast
  show ?thesis
  proof (cases i)
    case (LeaseWonEvent ev)
    then show ?thesis using step handleLease_watched [OF _ inv', of E can ev True s' new] by (simp add: service_step_def)
  next
    case (ChainEvent ev)
    then show ?thesis using step chain_event_watchdogs [of E c can ev s s' new] by (intro same) (simp_all add: service_step_def)
  next
    case (Submit did req)
    show ?thesis
    proof (cases "ms_running s")
      case True
      then have t: "to_manager E c can (DeploymentPath did) (MgrManifest req) (ensureManager did (maybeRemoveWatchdog did s)) = Some (s', new)"
        using step Submit by (simp add: service_step_def)
      have "watched c (ins @ [i]) (maybeRemoveWatchdog did s)" by (rule stop_watched(1) [OF inv'])
      then show ?thesis using to_manager_watchdogs [OF t] by (simp add: watched_def)
    qed (use step Submit same in \<open>auto simp: service_step_def\<close>)
  next
    case (ManagerInput key j)
    then show ?thesis using step to_manager_watchdogs [of E c can key j s s' new] by (intro same) (simp_all add: service_step_def)
  next
    case (ManagerDone key)
    have "watched c (ins @ [i]) (s\<lparr>ms_managers := ms, ms_stops := ks\<rparr>)" for ms ks using inv' by (simp add: watched_def)
    then show ?thesis using step ManagerDone inv' by (auto simp: service_step_def Let_def intro!: stop_watched split: option.splits)
  next
    case (WatchdogFires did)
    show ?thesis
    proof (cases "ms_watchdogs s did")
      case None
      then show ?thesis using step WatchdogFires inv' by (simp add: service_step_def)
    next
      case (Some w)
      then have "s' = end_watchdog did s" "new = [BroadcastCloseBid (watchdog_close E c w)]"
        using step WatchdogFires by (simp_all add: service_step_def)
      moreover from Some inv obtain l where "0 < ManifestTimeout c" "LeaseWonEvent l \<in> set ins" "wd_leaseID w = lw_LeaseID l"
        unfolding watched_def by blast
      ultimately show ?thesis using stop_watched(2) [OF inv'] by (auto simp: watchdog_close_def)
    qed
  next
    case (WatchdogStops did)
    then show ?thesis using step stop_watched(2) [OF inv'] by (auto simp: service_step_def)
  next
    case (WatchdogDone did)
    then show ?thesis using step inv' by (auto simp: service_step_def watched_def split: if_splits)
  qed (use step same in \<open>auto simp: service_step_def\<close>)
qed

lemma service_exec_watched:
  "service_exec E c evs ins outs s \<Longrightarrow> watched c ins s \<and> (\<forall>b. BroadcastCloseBid b \<in> set outs \<longrightarrow>
    0 < ManifestTimeout c \<and> (\<exists>l. LeaseWonEvent l \<in> set ins \<and> b = MakeBidID E (BidID_OrderID (lw_LeaseID l)) (sc_Provider c)))"
proof (induction rule: service_exec.induct)
  case (start can s outs)
  then show ?case unfolding service_start_def by (auto simp: watched_def dest: start_watchdogs)
next
  case (step ins outs s i can s' new)
  then show ?case using service_step_watched [OF step.hyps(3), of ins] by fastforce
qed

text \<open>A watchdog closes only the provider's bids of leases that were won while the service ran.\<close>

lemma watchdog_closes_own_bids:
  assumes "service_exec E c evs ins outs s" "BroadcastCloseBid b \<in> set outs"
  obtains l where "LeaseWonEvent l \<in> set ins" "b = MakeBidID E (BidID_OrderID (lw_LeaseID l)) (sc_Provider c)"
  using service_exec_watched [OF assms(1)] assms(2) by blast

subsection \<open>Examples\<close>

fun manifest_service_run ::
  "'b env \<Rightarrow> service_config \<Rightarrow> (string list \<Rightarrow> deployment_id \<Rightarrow> error option) \<Rightarrow> service_input list \<Rightarrow> manifest_service_state \<Rightarrow>
     (manifest_service_state \<times> service_output list) option" where
  "manifest_service_run E c can [] s = Some (s, [])"
| "manifest_service_run E c can (i # is) s = (if \<not> service_ready i s then None else do {
     (s, a) \<leftarrow> service_step E c can i s; (s, b) \<leftarrow> manifest_service_run E c can is s; Some (s, a @ b) })"

lemma manifest_service_run_exec:
  "service_exec E c evs ins outs s \<Longrightarrow> manifest_service_run E c can is s = Some (s', new) \<Longrightarrow> service_exec E c evs (ins @ is) (outs @ new) s'"
proof (induction "is" arbitrary: ins outs s new)
  case (Cons i js)
  then obtain t a b where t: "service_ready i s" "service_step E c can i s = Some (t, a)" "manifest_service_run E c can js t = Some (s', b)" "new = a @ b"
    by (auto simp: bind_eq_Some_conv split: if_splits)
  then show ?case using Cons.IH [OF service_exec.step [OF Cons.prems(1) t(1,2)] t(3)] by simp
qed simp

definition demo_service :: service_config where
  "demo_service = \<lparr>sc_checks = \<lparr>IsEnvVarName = (\<lambda>_. True), IsDNS1123Subdomain = (\<lambda>_. True)\<rparr>, sc_version = (\<lambda>m. Inr (if m = [demo_mgroup] then ''v1'' else ''v0'')),
     HTTPServicesRequireAtLeastOneHost = True, ManifestTimeout = 300, sc_Provider = ''prova''\<rparr>"

definition demo_deployment_id :: deployment_id where
  "demo_deployment_id = \<lparr>did_Owner = ''owner'', did_DSeq = 1\<rparr>"

definition demo_win :: "32 word \<Rightarrow> lease_won" where
  "demo_win n = \<lparr>lw_LeaseID = \<lparr>bid_Owner = ''owner'', bid_DSeq = 1, bid_GSeq = 1, bid_OSeq = n, bid_Provider = AddrString demo_env ''prova''\<rparr>,
     lw_Group = Some demo_dgroup, lw_Price = \<lparr>Denom = ''uve'', Amount = 10\<rparr>\<rparr>"

definition demo_data :: deployment_data where
  "demo_data = \<lparr>dd_Deployment = \<lparr>dep_ID = demo_deployment_id, dep_State = DeploymentActive, dep_Version = ''v1'', dep_CreatedAt = 1\<rparr>, dd_Groups = [demo_dgroup]\<rparr>"

text \<open>A lease is won, its manifest is sent and the watchdog ends; then the deployment's data arrive.\<close>

definition demo_service_inputs :: "service_input list" where
  "demo_service_inputs = [LeaseWonEvent (demo_win 1), Submit demo_deployment_id \<lparr>mr_Manifest = [demo_mgroup], mr_no = 7\<rparr>, WatchdogStops demo_deployment_id,
     WatchdogDone demo_deployment_id, ManagerInput (DeploymentPath demo_deployment_id) (MgrData (Inr demo_data))]"

definition demo_outputs :: "service_input list \<Rightarrow> service_output list option" where
  "demo_outputs is = map_option snd (Option.bind (service_start demo_env demo_service (\<lambda>_ _. None) [])
     (\<lambda>(s, _). manifest_service_run demo_env demo_service (\<lambda>_ _. None) is s))"

lemma demo_exec:
  assumes "demo_outputs is = Some outs"
  shows "\<exists>s. service_exec demo_env demo_service [] is outs s"
proof -
  obtain s s' where s: "service_start demo_env demo_service (\<lambda>_ _. None) [] = Some (s, [])"
      "manifest_service_run demo_env demo_service (\<lambda>_ _. None) is s = Some (s', outs)"
    using assms by (auto simp: demo_outputs_def service_start_def bind_eq_Some_conv)
  show ?thesis using manifest_service_run_exec [OF service_exec.start [OF s(1)] s(2)] by auto
qed

lemma demo_outputs_published:
  "demo_outputs demo_service_inputs = Some [ManagerOutput demo_deployment_id (FetchDeployment demo_deployment_id),
     ManagerOutput demo_deployment_id (PublishManifest (lw_LeaseID (demo_win 1)) (Some demo_dgroup) [demo_mgroup] demo_data), ManagerOutput demo_deployment_id (Answer 7 None)]"
  by code_simp


theorem service_publishes_witness:
  "\<exists>h. ValidateManifest demo_env (sc_checks demo_service) [demo_mgroup] = Ok () h"
proof -
  obtain s where "service_exec demo_env demo_service [] demo_service_inputs (the (demo_outputs demo_service_inputs)) s"
    using demo_exec demo_outputs_published by fastforce
  note published = service_publishes [OF this, of demo_deployment_id "lw_LeaseID (demo_win 1)" "Some demo_dgroup" "[demo_mgroup]" demo_data]
  show ?thesis using published by (simp add: demo_outputs_published)
qed

text \<open>
  The watchdog of a second lease: a comment says a watchdog is made only while no manifest has been received, but the code does not
  ask.  The manifest is published for the second lease too, and unless it is sent once more the lease's bid is closed.
\<close>

lemma second_lease_closed:
  "Option.bind (demo_outputs (demo_service_inputs @ [LeaseWonEvent (demo_win 2), WatchdogFires demo_deployment_id])) (\<lambda>outs. Some (drop 3 outs)) =
     Some [ManagerOutput demo_deployment_id (PublishManifest (lw_LeaseID (demo_win 1)) (Some demo_dgroup) [demo_mgroup] demo_data),
       ManagerOutput demo_deployment_id (PublishManifest (lw_LeaseID (demo_win 2)) (Some demo_dgroup) [demo_mgroup] demo_data),
       BroadcastCloseBid (lw_LeaseID (demo_win 2))]"
  by code_simp

text \<open>
  A manifest that is answered with \<^verbatim>\<open>no lease for deployment\<close> is kept: here the only lease was closed before the manifest is sent,
  and the manifest is published for the next lease although its sender was told it was refused.
\<close>

lemma refused_then_published:
  "demo_outputs [LeaseWonEvent (demo_win 1), ManagerInput (DeploymentPath demo_deployment_id) (MgrData (Inr demo_data)),
     ChainEvent (EventLeaseClosed (lw_LeaseID (demo_win 1)) \<lparr>Denom = ''uve'', Amount = 10\<rparr>),
     Submit demo_deployment_id \<lparr>mr_Manifest = [demo_mgroup], mr_no = 7\<rparr>, LeaseWonEvent (demo_win 2)] =
   Some [ManagerOutput demo_deployment_id (FetchDeployment demo_deployment_id), ManagerOutput demo_deployment_id (Answer 7 (Some ErrNoLeaseForDeployment)),
     ManagerOutput demo_deployment_id (PublishManifest (lw_LeaseID (demo_win 2)) (Some demo_dgroup) [demo_mgroup] demo_data)]"
  by code_simp

text \<open>The timer that is to stop a manager without leases never starts: it is started only when there already is one.\<close>

lemma linger_timer_never_runs:
  assumes "service_exec E c evs ins outs s" "kv_get (ms_managers s) key = Some m"
  shows "\<not> mm_stoptimer m"
proof -
  obtain "is" outs' where "manager_history E c evs ins (mm_daddr m) is outs' m"
    using service_exec_managed [OF assms(1)] assms(2) unfolding managed_def by blast
  then have "manager_inv m" unfolding manager_history_def by (blast dest: manager_exec_inv)
  then show ?thesis by (simp add: manager_inv_def)
qed

end
