(* ===== verification/Cluster_Manager.thy ===== *)
theory Cluster_Manager
  imports Manifest Query_Paths Chain
begin

text \<open>
  What a provider does in its cluster for one lease (\<^verbatim>\<open>provider/cluster/manager.go\<close>, \<^verbatim>\<open>monitor.go\<close>,
  \<^verbatim>\<open>lease_withdraw.go\<close>): the manager reserves the host names, deploys, updates and tears down; a monitor checks that what
  was deployed runs and gives the lease up when it does not; a withdrawal goroutine collects the lease's earnings when told to.
  Each is a step function on what its \<^verbatim>\<open>select\<close> receives; \<open>None\<close> is a panic.  When the manager leaves its loop, the withdrawals it has
  started shut down by themselves: waiting for them is not a step of the manager here.
\<close>

subsection \<open>Deployment manager\<close>

datatype dm_phase = dsDeployActive | dsDeployPending | dsDeployComplete | dsTeardownActive | dsTeardownPending | dsTeardownComplete

datatype dm_job = DoDeploy | DoTeardown

text \<open>
  \<open>dm_jobs\<close> are the goroutines under way on the cluster, with whether they have called it; \<open>dm_runch\<close> says whether \<^verbatim>\<open>runch\<close> is
  set, and then it is the channel of the last one.  \<open>dm_reserving\<close>: the host-name service has not answered yet; \<open>dm_holds\<close>: it has
  granted the names, and their release is deferred.
\<close>

record dmanager =
  dm_state :: dm_phase
  dm_lease :: lease_id
  dm_mgroup :: manifest_group
  dm_hostnames :: "string list"
  dm_reserving :: bool
  dm_holds :: bool
  dm_jobs :: "(dm_job \<times> bool) list"
  dm_runch :: bool
  dm_monitor :: bool
  dm_running :: bool
  dm_done :: bool

datatype dm_input =
    DmReserved "error option"
  | DmShutdown
  | DmUpdate manifest_group
  | DmResult "error option"
  | DmTeardown
  | DmJobCalls nat
  | DmExit

datatype dm_output =
    AskHostnames "string list" deployment_id
  | DropHostnames "string list"
  | CallDeploy lease_id manifest_group
  | CallTeardown lease_id
  | StartMonitor manifest_group
  | StopMonitor
  | StartWithdrawal

definition newDeploymentManager :: "lease_id \<Rightarrow> manifest_group \<Rightarrow> dmanager \<times> dm_output list" where
  "newDeploymentManager lease mgroup = (let names = AllHostnamesOfManifestGroup mgroup in
     (\<lparr>dm_state = dsDeployActive, dm_lease = lease, dm_mgroup = mgroup, dm_hostnames = names, dm_reserving = True,
       dm_holds = False, dm_jobs = [], dm_runch = False, dm_monitor = False, dm_running = True, dm_done = False\<rparr>,
      [AskHostnames names (BidID_DeploymentID lease)]))"

definition stopMonitor :: "dmanager \<Rightarrow> dm_output list" where
  "stopMonitor s = (if dm_monitor s then [StopMonitor] else [])"

definition start_job :: "dm_job \<Rightarrow> dmanager \<Rightarrow> dmanager" where
  "start_job j s = s\<lparr>dm_jobs := dm_jobs s @ [(j, False)], dm_runch := True\<rparr>"

definition startDeploy :: "dmanager \<Rightarrow> dmanager \<times> dm_output list" where
  "startDeploy s = (start_job DoDeploy (s\<lparr>dm_state := dsDeployActive\<rparr>), stopMonitor s)"

definition startTeardown :: "dmanager \<Rightarrow> dmanager \<times> dm_output list" where
  "startTeardown s = (start_job DoTeardown (s\<lparr>dm_state := dsTeardownActive\<rparr>), stopMonitor s)"

definition startMonitor :: "dmanager \<Rightarrow> dmanager \<times> dm_output list" where
  "startMonitor s = (s\<lparr>dm_monitor := True\<rparr>, [StartMonitor (dm_mgroup s)])"

text \<open>Leaving the loop; host names are released, if they were granted, when the function returns, after a job still under way.\<close>

definition leave :: "dmanager \<Rightarrow> dmanager" where
  "leave s = s\<lparr>dm_running := False\<rparr>"

definition on_update :: "manifest_group \<Rightarrow> dmanager \<Rightarrow> dmanager \<times> dm_output list" where
  "on_update mgroup s = (let s = s\<lparr>dm_mgroup := mgroup\<rparr> in case dm_state s of
     dsDeployActive \<Rightarrow> (s\<lparr>dm_state := dsDeployPending\<rparr>, [])
   | dsDeployPending \<Rightarrow> (s, [])
   | dsDeployComplete \<Rightarrow> startDeploy s
   | _ \<Rightarrow> (s, []))"

definition on_result :: "error option \<Rightarrow> dmanager \<Rightarrow> (dmanager \<times> dm_output list) option" where
  "on_result result s = (case dm_state s of
     dsDeployActive \<Rightarrow> Some (if result \<noteq> None then (leave s, []) else
       let (s, outs) = startMonitor (s\<lparr>dm_state := dsDeployComplete\<rparr>) in (s, outs @ [StartWithdrawal]))
   | dsDeployPending \<Rightarrow> Some (if result \<noteq> None then (leave s, []) else startDeploy s)
   | dsDeployComplete \<Rightarrow> None
   | dsTeardownActive \<Rightarrow> Some (leave (s\<lparr>dm_state := dsTeardownComplete\<rparr>), [])
   | dsTeardownPending \<Rightarrow> Some (startTeardown s)
   | dsTeardownComplete \<Rightarrow> None)"

definition on_teardown :: "dmanager \<Rightarrow> dmanager \<times> dm_output list" where
  "on_teardown s = (case dm_state s of
     dsDeployActive \<Rightarrow> (s\<lparr>dm_state := dsTeardownPending\<rparr>, stopMonitor s)
   | dsDeployPending \<Rightarrow> (s\<lparr>dm_state := dsTeardownPending\<rparr>, stopMonitor s)
   | dsDeployComplete \<Rightarrow> (case startTeardown s of (s', outs) \<Rightarrow> (s', stopMonitor s @ outs))
   | _ \<Rightarrow> (s, stopMonitor s))"

text \<open>A job reads the manifest group when it calls the cluster.\<close>

definition job_call :: "dmanager \<Rightarrow> dm_job \<Rightarrow> dm_output" where
  "job_call s j = (case j of DoDeploy \<Rightarrow> CallDeploy (dm_lease s) (dm_mgroup s) | DoTeardown \<Rightarrow> CallTeardown (dm_lease s))"

text \<open>A deployment is tried once, a teardown again and again while it fails; a result comes after a call.\<close>

definition dm_ready :: "dm_input \<Rightarrow> dmanager \<Rightarrow> bool" where
  "dm_ready i s = (case i of
     DmReserved _ \<Rightarrow> dm_running s \<and> dm_reserving s
   | DmResult _ \<Rightarrow> dm_runch s \<and> dm_jobs s \<noteq> [] \<and> snd (last (dm_jobs s))
   | DmJobCalls n \<Rightarrow> n < length (dm_jobs s) \<and> (fst (dm_jobs s ! n) = DoDeploy \<longrightarrow> \<not> snd (dm_jobs s ! n))
   | DmExit \<Rightarrow> \<not> dm_running s \<and> \<not> dm_runch s \<and> \<not> dm_done s
   | _ \<Rightarrow> dm_running s)"

definition dm_step :: "dm_input \<Rightarrow> dmanager \<Rightarrow> (dmanager \<times> dm_output list) option" where
  "dm_step i s = (case i of
     DmReserved err \<Rightarrow> (let s = s\<lparr>dm_reserving := False\<rparr> in
       Some (if err \<noteq> None then (leave s, []) else startDeploy (s\<lparr>dm_holds := True\<rparr>)))
   | DmShutdown \<Rightarrow> Some (leave s, [])
   | DmUpdate mgroup \<Rightarrow> Some (on_update mgroup s)
   | DmResult result \<Rightarrow> (let s = s\<lparr>dm_runch := False, dm_jobs := butlast (dm_jobs s)\<rparr> in
       if dm_running s then on_result result s else Some (s, []))
   | DmTeardown \<Rightarrow> Some (on_teardown s)
   | DmJobCalls n \<Rightarrow> Some (s\<lparr>dm_jobs := (dm_jobs s)[n := (fst (dm_jobs s ! n), True)]\<rparr>, [job_call s (fst (dm_jobs s ! n))])
   | DmExit \<Rightarrow> Some (s\<lparr>dm_done := True\<rparr>, if dm_holds s then [DropHostnames (dm_hostnames s)] else []))"

inductive dm_exec :: "lease_id \<Rightarrow> manifest_group \<Rightarrow> dm_input list \<Rightarrow> dm_output list \<Rightarrow> dmanager \<Rightarrow> bool"
  for lease g where
  start: "newDeploymentManager lease g = (s, outs) \<Longrightarrow> dm_exec lease g [] outs s"
| step: "dm_exec lease g is outs s \<Longrightarrow> dm_ready i s \<Longrightarrow> dm_step i s = Some (s', new) \<Longrightarrow> dm_exec lease g (is @ [i]) (outs @ new) s'"

subsection \<open>Monitor\<close>

record monitor =
  mo_lease :: lease_id
  mo_mgroup :: manifest_group
  mo_attempts :: int
  mo_tickch :: bool
  mo_runch :: bool
  mo_closech :: bool
  mo_running :: bool

type_synonym lease_status = "string \<rightharpoonup> 32 word"

datatype monitor_input = MoShutdown | MoTick | MoChecked "error + lease_status" | MoClosed

datatype monitor_output = PublishDeployed lease_id manifest_group | PublishPending lease_id manifest_group | MonitorCloseBid bid_id

definition monitorMaxRetries :: int where
  "monitorMaxRetries = 40"

definition newDeploymentMonitor :: "lease_id \<Rightarrow> manifest_group \<Rightarrow> monitor" where
  "newDeploymentMonitor lease g = \<lparr>mo_lease = lease, mo_mgroup = g, mo_attempts = 0, mo_tickch = True, mo_runch = False,
     mo_closech = False, mo_running = True\<rparr>"

text \<open>A service is bad if it has no status or fewer replicas than asked for, as unsigned numbers.\<close>

definition bad_service :: "lease_status \<Rightarrow> service \<Rightarrow> bool" where
  "bad_service status spec = (case status (svc_Name spec) of None \<Rightarrow> True | Some available \<Rightarrow> available < svc_Count spec)"

definition doCheck :: "manifest_group \<Rightarrow> error + lease_status \<Rightarrow> bool \<times> error option" where
  "doCheck g r = (case r of Inl e \<Rightarrow> (False, Some e) | Inr status \<Rightarrow> (length (filter (bad_service status) (mg_Services g)) = 0, None))"

definition monitor_ready :: "monitor_input \<Rightarrow> monitor \<Rightarrow> bool" where
  "monitor_ready i s = (case i of MoShutdown \<Rightarrow> mo_running s | MoTick \<Rightarrow> mo_running s \<and> mo_tickch s
     | MoChecked _ \<Rightarrow> mo_runch s | MoClosed \<Rightarrow> mo_closech s)"

definition monitor_step :: "monitor_input \<Rightarrow> monitor \<Rightarrow> monitor \<times> monitor_output list" where
  "monitor_step i s = (case i of
     MoShutdown \<Rightarrow> (s\<lparr>mo_running := False\<rparr>, [])
   | MoTick \<Rightarrow> (s\<lparr>mo_tickch := False, mo_attempts := mo_attempts s + 1, mo_runch := True\<rparr>, [])
   | MoChecked r \<Rightarrow> (let s = s\<lparr>mo_runch := False\<rparr> in
       if \<not> mo_running s then (s, [])
       else if fst (doCheck (mo_mgroup s) r) then (s\<lparr>mo_attempts := 0, mo_tickch := True\<rparr>, [PublishDeployed (mo_lease s) (mo_mgroup s)])
       else if mo_attempts s \<le> monitorMaxRetries then (s\<lparr>mo_tickch := True\<rparr>, [PublishPending (mo_lease s) (mo_mgroup s)])
       else (s\<lparr>mo_closech := True\<rparr>, [PublishPending (mo_lease s) (mo_mgroup s), MonitorCloseBid (mo_lease s)]))
   | MoClosed \<Rightarrow> (s\<lparr>mo_closech := False\<rparr>, []))"

inductive monitor_exec :: "lease_id \<Rightarrow> manifest_group \<Rightarrow> monitor_input list \<Rightarrow> monitor_output list \<Rightarrow> monitor \<Rightarrow> bool"
  for lease g where
  start: "monitor_exec lease g [] [] (newDeploymentMonitor lease g)"
| step: "monitor_exec lease g is outs s \<Longrightarrow> monitor_ready i s \<Longrightarrow> monitor_step i s = (s', new) \<Longrightarrow>
    monitor_exec lease g (is @ [i]) (outs @ new) s'"

subsection \<open>Withdrawal\<close>

record withdrawal =
  dw_lease :: lease_id
  dw_result :: bool
  dw_running :: bool

datatype withdrawal_input = DwShutdown | DwEvent bool | DwResult

definition newDeploymentWithdrawal :: "lease_id \<Rightarrow> withdrawal" where
  "newDeploymentWithdrawal lease = \<lparr>dw_lease = lease, dw_result = False, dw_running = True\<rparr>"

text \<open>The flag of an event says whether it is \<^verbatim>\<open>LeaseWithdrawNow\<close>; the output is the lease of a \<^verbatim>\<open>MsgWithdrawLease\<close>.\<close>

definition withdrawal_step :: "withdrawal_input \<Rightarrow> withdrawal \<Rightarrow> withdrawal \<times> lease_id list" where
  "withdrawal_step i s = (case i of
     DwShutdown \<Rightarrow> (s\<lparr>dw_running := False\<rparr>, [])
   | DwEvent now \<Rightarrow> if now \<and> dw_running s then (s\<lparr>dw_result := True\<rparr>, [dw_lease s]) else (s, [])
   | DwResult \<Rightarrow> (s\<lparr>dw_result := False\<rparr>, []))"

end
