(* ===== verification/Cluster_Service.thy ===== *)
theory Cluster_Service
  imports Cluster_Manager
begin

text \<open>
  The service that runs leases in the cluster (\<^verbatim>\<open>provider/cluster/service.go\<close>): a deployment manager per lease, under the
  lease's path, made when a manifest is received for it, updated by later ones, told to tear down when the lease is closed.  The managers'
  own moves are inputs too.  Whether the inventory knows the order when it is asked is part of the input.  \<open>None\<close> is a panic.
  At the start, of several saved deployments with one lease the last one's manager is kept under the lease's path; the goroutines of the
  others would go on unseen.
\<close>

record cluster_service =
  cs_managers :: "dmanager kv"
  cs_running :: bool

datatype cluster_input =
    ManifestReceived lease_id manifest "group option" bool
  | LeaseEvent event
  | ClusterStatus
  | ClusterShutdown
  | ManagerMove string dm_input
  | ManagerEnded string

datatype cluster_output =
    ManagerDoes lease_id dm_output
  | UnreserveOrder order_id
  | LeasesAre "32 word"

text \<open>The manifest's group with the name of the lease's group; both the search and the log line on failure read that group.\<close>

definition ManifestGroup :: "manifest \<Rightarrow> group option \<Rightarrow> manifest_group option option" where
  "ManifestGroup m g = map_option (\<lambda>g. List.find (\<lambda>mgroup. mg_Name mgroup = gs_Name (grp_Spec g)) m) g"

definition add_manager :: "lease_id \<Rightarrow> manifest_group \<Rightarrow> cluster_service \<Rightarrow> cluster_service \<times> cluster_output list" where
  "add_manager lease mgroup s = (let (m, outs) = newDeploymentManager lease mgroup in
     (s\<lparr>cs_managers := kv_set (LeasePath lease) m (cs_managers s)\<rparr>, map (ManagerDoes lease) outs))"

text \<open>A manager that is shutting down does not take what it is handed.\<close>

definition to_dm :: "string \<Rightarrow> dm_input \<Rightarrow> dmanager \<Rightarrow> cluster_service \<Rightarrow> (cluster_service \<times> cluster_output list) option" where
  "to_dm key i m s = (if \<not> dm_ready i m then Some (s, []) else
     map_option (\<lambda>(m', outs). (s\<lparr>cs_managers := kv_set key m' (cs_managers s)\<rparr>, map (ManagerDoes (dm_lease m)) outs)) (dm_step i m))"

definition on_manifest :: "lease_id \<Rightarrow> manifest \<Rightarrow> group option \<Rightarrow> bool \<Rightarrow> cluster_service \<Rightarrow> (cluster_service \<times> cluster_output list) option" where
  "on_manifest lease m g found s = (case ManifestGroup m g of
     None \<Rightarrow> None
   | Some None \<Rightarrow> Some (s, [])
   | Some (Some mgroup) \<Rightarrow> if \<not> found then Some (s, []) else
       (case kv_get (cs_managers s) (LeasePath lease) of
          Some dm \<Rightarrow> to_dm (LeasePath lease) (DmUpdate mgroup) dm s
        | None \<Rightarrow> Some (add_manager lease mgroup s)))"

definition teardownLease :: "string \<Rightarrow> lease_id \<Rightarrow> cluster_service \<Rightarrow> (cluster_service \<times> cluster_output list) option" where
  "teardownLease owner lid s = (case kv_get (cs_managers s) (LeasePath lid) of
     Some dm \<Rightarrow> to_dm (LeasePath lid) DmTeardown dm s
   | None \<Rightarrow> Some (s, if bid_Provider lid = owner then [UnreserveOrder (BidID_OrderID lid)] else []))"

text \<open>At the start: the deployments found in the cluster whose lease is active.\<close>

definition findDeployments :: "error + (lease_id \<times> manifest_group) list \<Rightarrow> error + lease list \<Rightarrow> error + (lease_id \<times> manifest_group) list" where
  "findDeployments found active = (case found of Inl e \<Rightarrow> Inl e | Inr ds \<Rightarrow> (case active of Inl e \<Rightarrow> Inl e
     | Inr ls \<Rightarrow> Inr (filter (\<lambda>d. LeasePath (fst d) \<in> set (map (\<lambda>l. LeasePath (ls_ID l)) ls)) ds)))"

primrec adopt :: "(lease_id \<times> manifest_group) list \<Rightarrow> cluster_service \<Rightarrow> cluster_service \<times> cluster_output list" where
  "adopt [] s = (s, [])"
| "adopt (d # ds) s = (let (s, a) = add_manager (fst d) (snd d) s; (s, b) = adopt ds s in (s, a @ b))"

definition cluster_start :: "(lease_id \<times> manifest_group) list \<Rightarrow> cluster_service \<times> cluster_output list" where
  "cluster_start ds = adopt ds \<lparr>cs_managers = [], cs_running = True\<rparr>"

definition cluster_ready :: "cluster_input \<Rightarrow> cluster_service \<Rightarrow> bool" where
  "cluster_ready i s = (case i of
     ManagerMove key j \<Rightarrow> (case kv_get (cs_managers s) key of None \<Rightarrow> False | Some m \<Rightarrow> dm_ready j m \<and>
       (case j of DmUpdate _ \<Rightarrow> False | DmTeardown \<Rightarrow> False | DmShutdown \<Rightarrow> \<not> cs_running s | _ \<Rightarrow> True))
   | ManagerEnded key \<Rightarrow> (case kv_get (cs_managers s) key of None \<Rightarrow> False | Some m \<Rightarrow> dm_done m)
   | _ \<Rightarrow> cs_running s)"

text \<open>When the service stops it only takes one message from each manager that is left.\<close>

definition cluster_step :: "string \<Rightarrow> cluster_input \<Rightarrow> cluster_service \<Rightarrow> (cluster_service \<times> cluster_output list) option" where
  "cluster_step owner i s = (case i of
     ManifestReceived lease m g found \<Rightarrow> on_manifest lease m g found s
   | LeaseEvent ev \<Rightarrow> (case ev of EventLeaseClosed lid _ \<Rightarrow> teardownLease owner lid s | _ \<Rightarrow> Some (s, []))
   | ClusterStatus \<Rightarrow> Some (s, [LeasesAre (of_nat (length (cs_managers s)))])
   | ClusterShutdown \<Rightarrow> Some (s\<lparr>cs_running := False\<rparr>, [])
   | ManagerMove key j \<Rightarrow> (case kv_get (cs_managers s) key of None \<Rightarrow> Some (s, []) | Some m \<Rightarrow> to_dm key j m s)
   | ManagerEnded key \<Rightarrow> (case kv_get (cs_managers s) key of None \<Rightarrow> Some (s, []) | Some m \<Rightarrow>
       Some (s\<lparr>cs_managers := kv_del (LeasePath (dm_lease m)) (cs_managers s)\<rparr>,
         if cs_running s then [UnreserveOrder (BidID_OrderID (dm_lease m))] else [])))"

inductive cluster_exec :: "string \<Rightarrow> (lease_id \<times> manifest_group) list \<Rightarrow> cluster_input list \<Rightarrow> cluster_output list \<Rightarrow> cluster_service \<Rightarrow> bool"
  for owner ds where
  start: "cluster_start ds = (s, outs) \<Longrightarrow> cluster_exec owner ds [] outs s"
| step: "cluster_exec owner ds is outs s \<Longrightarrow> cluster_ready i s \<Longrightarrow> cluster_step owner i s = Some (s', new) \<Longrightarrow>
    cluster_exec owner ds (is @ [i]) (outs @ new) s'"

end
