(* ===== verification/Cluster_Manager_Properties.thy ===== *)
theory Cluster_Manager_Properties
  imports Cluster_Manager Manifest_Properties
begin

text \<open>
  What the goroutines of one lease guarantee: at most one job at a time works on the cluster; a deployment is complete only when
  the cluster was last given the newest manifest group; a teardown asked for once host names are granted is carried out; the lease is given
  up after exactly forty-one failed checks in a row.
\<close>

subsection \<open>One job at a time, the newest group\<close>

definition cluster_calls :: "dm_output list \<Rightarrow> dm_output list" where
  "cluster_calls outs = filter (\<lambda>x. case x of CallDeploy _ _ \<Rightarrow> True | CallTeardown _ \<Rightarrow> True | _ \<Rightarrow> False) outs"

definition last_call :: "dm_output list \<Rightarrow> dm_output option" where
  "last_call outs = (if cluster_calls outs = [] then None else Some (last (cluster_calls outs)))"

lemma last_call_append: "last_call (outs @ new) = (if cluster_calls new = [] then last_call outs else last_call new)"
  by (simp add: last_call_def cluster_calls_def)

lemma cluster_calls_simps [simp]: "cluster_calls [] = []" "cluster_calls (stopMonitor s) = []"
    "cluster_calls (x # xs) = (case x of CallDeploy _ _ \<Rightarrow> [x] | CallTeardown _ \<Rightarrow> [x] | _ \<Rightarrow> []) @ cluster_calls xs"
    "cluster_calls (xs @ ys) = cluster_calls xs @ cluster_calls ys"
  by (auto simp: cluster_calls_def stopMonitor_def split: dm_output.splits)

text \<open>Which job may be under way in which state.\<close>

definition job_of :: "dm_phase \<Rightarrow> dm_job option" where
  "job_of st = (case st of dsDeployActive \<Rightarrow> Some DoDeploy | dsDeployPending \<Rightarrow> Some DoDeploy | dsTeardownPending \<Rightarrow> Some DoDeploy
     | dsTeardownActive \<Rightarrow> Some DoTeardown | _ \<Rightarrow> None)"

definition dm_inv :: "dm_output list \<Rightarrow> dmanager \<Rightarrow> bool" where
  "dm_inv outs s \<longleftrightarrow> (dm_runch s \<longleftrightarrow> dm_jobs s \<noteq> []) \<and> length (dm_jobs s) \<le> 1 \<and>
     (dm_reserving s \<longrightarrow> dm_jobs s = [] \<and> dm_state s \<in> {dsDeployActive, dsDeployPending, dsTeardownPending} \<and> \<not> dm_holds s) \<and>
     (dm_running s \<and> \<not> dm_reserving s \<longrightarrow> map fst (dm_jobs s) = (case job_of (dm_state s) of None \<Rightarrow> [] | Some j \<Rightarrow> [j]) \<and>
        dm_state s \<noteq> dsTeardownComplete \<and> dm_holds s) \<and>
     (dm_running s \<and> (dm_state s = dsDeployActive \<and> dm_jobs s = [(DoDeploy, True)] \<or> dm_state s = dsDeployComplete) \<longrightarrow>
        last_call outs = Some (CallDeploy (dm_lease s) (dm_mgroup s))) \<and>
     (dm_done s \<longrightarrow> \<not> dm_running s)"

lemma short_list: "length xs \<le> 1 \<Longrightarrow> xs = [] \<or> (\<exists>x. xs = [x])"
  by (cases xs) auto

lemmas dm_defs = dm_step_def dm_ready_def on_update_def on_result_def on_teardown_def startDeploy_def startTeardown_def start_job_def
  startMonitor_def leave_def job_call_def Let_def

lemma dm_step_inv:
  assumes "dm_inv outs s" "dm_ready i s"
  shows "\<exists>s' new. dm_step i s = Some (s', new) \<and> dm_inv (outs @ new) s' \<and> dm_lease s' = dm_lease s"
proof -
  have jobs: "dm_jobs s = [] \<or> (\<exists>x. dm_jobs s = [x])" using assms(1) short_list unfolding dm_inv_def by blast
  note inv = assms(1) [unfolded dm_inv_def]
  show ?thesis
  proof (cases i)
    case (DmReserved err)
    then show ?thesis using inv assms(2) by (cases err) (auto simp: dm_defs dm_inv_def last_call_append job_of_def)
  next
    case DmShutdown
    then show ?thesis using inv assms(2) by (auto simp: dm_defs dm_inv_def last_call_append job_of_def)
  next
    case (DmUpdate g)
    then show ?thesis using inv assms(2) jobs by (cases "dm_state s") (auto simp: dm_defs dm_inv_def last_call_append job_of_def)
  next
    case (DmResult r)
    then show ?thesis using inv assms(2) jobs
      by (cases "dm_state s"; cases "dm_running s"; cases r) (auto simp: dm_defs dm_inv_def last_call_append job_of_def)
  next
    case DmTeardown
    then show ?thesis using inv assms(2) jobs by (cases "dm_state s") (auto simp: dm_defs dm_inv_def last_call_append job_of_def)
  next
    case (DmJobCalls n)
    then show ?thesis using inv assms(2) jobs
      by (cases "dm_state s"; cases "dm_running s") (auto simp: dm_defs dm_inv_def last_call_append last_call_def job_of_def split: dm_job.splits)
  next
    case DmExit
    then show ?thesis using inv assms(2) jobs by (auto simp: dm_defs dm_inv_def last_call_append job_of_def)
  qed
qed

lemma dm_exec_inv: "dm_exec lease g is outs s \<Longrightarrow> dm_inv outs s \<and> dm_lease s = lease"
proof (induction rule: dm_exec.induct)
  case (start s outs)
  then show ?case by (auto simp: newDeploymentManager_def Let_def dm_inv_def)
next
  case (step ins outs s i s' new)
  then show ?case using dm_step_inv [of outs s i] by auto
qed


text \<open>The group the manager was last given.\<close>

definition newest_group :: "manifest_group \<Rightarrow> dm_input list \<Rightarrow> manifest_group" where
  "newest_group g is = last (g # [h. DmUpdate h \<leftarrow> is])"

lemma newest_group_append: "newest_group g (is @ [i]) = (case i of DmUpdate h \<Rightarrow> h | _ \<Rightarrow> newest_group g is)"
  by (cases i) (simp_all add: newest_group_def)

lemma dm_step_mgroup:
  "dm_step i s = Some (s', new) \<Longrightarrow> dm_mgroup s' = (case i of DmUpdate h \<Rightarrow> h | _ \<Rightarrow> dm_mgroup s) \<and> dm_hostnames s' = dm_hostnames s"
  by (cases i; cases "dm_state s") (auto simp: dm_defs split: if_splits)

lemma dm_exec_mgroup:
  "dm_exec lease g is outs s \<Longrightarrow> dm_mgroup s = newest_group g is \<and> dm_hostnames s = AllHostnamesOfManifestGroup g"
proof (induction rule: dm_exec.induct)
  case (start s outs)
  then show ?case by (auto simp: newDeploymentManager_def Let_def newest_group_def)
next
  case (step ins outs s i s' new)
  then show ?case using dm_step_mgroup [of i s s' new] by (simp add: newest_group_append split: dm_input.splits)
qed

text \<open>
  C23. What runs in the cluster for a lease is its newest manifest group: never do two jobs work on the lease's
  deployment at once, and when the manager takes the deployment to be complete, the last thing the cluster was told is to deploy
  the group last given; no message brings the manager into a state it panics in.
\<close>
theorem deploys_newest:
  assumes "dm_exec lease g is outs s"
  shows "length (dm_jobs s) \<le> 1 \<and>
    (dm_running s \<and> dm_state s = dsDeployComplete \<longrightarrow> last_call outs = Some (CallDeploy lease (newest_group g is))) \<and>
    (\<forall>i. dm_ready i s \<longrightarrow> dm_step i s \<noteq> None)"
proof -
  have inv: "dm_inv outs s" and lease: "dm_lease s = lease" using dm_exec_inv [OF assms] by simp_all
  have "dm_step i s \<noteq> None" if "dm_ready i s" for i using dm_step_inv [OF inv that] by auto
  then show ?thesis using inv lease dm_exec_mgroup [OF assms] by (auto simp: dm_inv_def)
qed

subsection \<open>Teardown\<close>

fun dm_run :: "dm_input list \<Rightarrow> dmanager \<Rightarrow> (dmanager \<times> dm_output list) option" where
  "dm_run [] s = Some (s, [])"
| "dm_run (i # is) s = (if \<not> dm_ready i s then None else do {
     (s, a) \<leftarrow> dm_step i s; (s, b) \<leftarrow> dm_run is s; Some (s, a @ b) })"

lemma dm_run_exec:
  "dm_exec lease g ins outs s \<Longrightarrow> dm_run is s = Some (s', new) \<Longrightarrow> dm_exec lease g (ins @ is) (outs @ new) s'"
proof (induction "is" arbitrary: ins outs s new)
  case (Cons i js)
  then obtain t a b where t: "dm_ready i s" "dm_step i s = Some (t, a)" "dm_run js t = Some (s', b)" "new = a @ b"
    by (auto simp: bind_eq_Some_conv split: if_splits)
  then show ?case using Cons.IH [OF dm_exec.step [OF Cons.prems(1) t(1,2)] t(3)] by simp
qed simp

text \<open>
  C24. A lease that is closed is torn down: from every state in which the manager runs and has its host names,
  after a request to tear down, the jobs' own moves, whatever their results, lead to the end of the manager, with the
  cluster told to tear the lease down and the host names released.  (A request that comes while the host names are still being
  reserved is lost; see \<open>early_teardown_lost\<close> below.)
\<close>
theorem teardown_completes:
  assumes "dm_exec lease g is outs s" and "dm_running s" and "\<not> dm_reserving s"
  shows "\<exists>js s' new. set js \<subseteq> {DmJobCalls 0, DmResult r1, DmResult r2, DmExit} \<and> dm_run (DmTeardown # js) s = Some (s', new) \<and>
    dm_done s' \<and> CallTeardown lease \<in> set new \<and> DropHostnames (AllHostnamesOfManifestGroup g) \<in> set new"
proof -
  have inv: "dm_inv outs s" and lease: "dm_lease s = lease" using dm_exec_inv [OF assms(1)] by simp_all
  have names: "dm_hostnames s = AllHostnamesOfManifestGroup g" using dm_exec_mgroup [OF assms(1)] by simp
  have holds: "dm_holds s" "dm_state s \<noteq> dsTeardownComplete" "\<not> dm_done s" "dm_runch s = (dm_jobs s \<noteq> [])"
    and jobs: "map fst (dm_jobs s) = (case job_of (dm_state s) of None \<Rightarrow> [] | Some j \<Rightarrow> [j])"
    using inv assms(2,3) by (auto simp: dm_inv_def)
  let ?tail = "[DmJobCalls 0, DmResult r2, DmExit]"
  show ?thesis
  proof (cases "job_of (dm_state s)")
    case None
    then have "dm_state s = dsDeployComplete" "dm_jobs s = []" using holds(2) jobs by (auto simp: job_of_def split: dm_phase.splits)
    then show ?thesis using holds lease names assms(2) by (intro exI [of _ ?tail]) (simp add: dm_defs)
  next
    case (Some j)
    then obtain b where b: "dm_jobs s = [(j, b)]" using jobs by (cases "dm_jobs s") auto
    let ?js = "(if j = DoDeploy then (if b then [] else [DmJobCalls 0]) @ [DmResult r1] else []) @ ?tail"
    show ?thesis
      using b Some holds lease names assms(2) by (intro exI [of _ ?js]) (cases "dm_state s"; cases b; simp add: dm_defs job_of_def)
  qed
qed


subsection \<open>Giving a lease up\<close>

definition check_results :: "manifest_group \<Rightarrow> monitor_input list \<Rightarrow> bool list" where
  "check_results g is = [fst (doCheck g r). MoChecked r \<leftarrow> is]"

text \<open>The failed checks since the last good one.\<close>

definition failures :: "manifest_group \<Rightarrow> monitor_input list \<Rightarrow> nat" where
  "failures g is = length (takeWhile Not (rev (check_results g is)))"

definition closes :: "monitor_output list \<Rightarrow> bid_id list" where
  "closes outs = [b. MonitorCloseBid b \<leftarrow> outs]"

lemma failures_append: "failures g (is @ [i]) = (case i of MoChecked r \<Rightarrow> if fst (doCheck g r) then 0 else failures g is + 1 | _ \<Rightarrow> failures g is)"
  by (cases i) (simp_all add: failures_def check_results_def)

lemma closes_simps [simp]: "closes (xs @ ys) = closes xs @ closes ys" "closes [] = []" "closes (MonitorCloseBid b # xs) = b # closes xs"
    "closes (PublishPending l g # xs) = closes xs" "closes (PublishDeployed l g # xs) = closes xs"
  by (simp_all add: closes_def)

definition monitor_inv :: "lease_id \<Rightarrow> manifest_group \<Rightarrow> monitor_input list \<Rightarrow> monitor_output list \<Rightarrow> monitor \<Rightarrow> bool" where
  "monitor_inv lease g is outs s \<longleftrightarrow> mo_lease s = lease \<and> mo_mgroup s = g \<and> (mo_running s \<longrightarrow>
     mo_attempts s = int (failures g is) + (if mo_runch s then 1 else 0) \<and> (mo_tickch s \<longrightarrow> \<not> mo_runch s) \<and>
     (mo_tickch s \<or> mo_runch s \<longrightarrow> failures g is \<le> 40 \<and> closes outs = []) ) \<and> closes outs \<in> {[], [lease]}"

lemma monitor_exec_inv: "monitor_exec lease g is outs s \<Longrightarrow> monitor_inv lease g is outs s"
proof (induction rule: monitor_exec.induct)
  case start
  then show ?case by (simp add: monitor_inv_def newDeploymentMonitor_def failures_def check_results_def)
next
  case (step ins outs s i s' new)
  then show ?case
    by (cases i) (auto simp: monitor_inv_def monitor_step_def monitor_ready_def failures_append monitorMaxRetries_def Let_def split: if_splits)
qed

text \<open>
  C25. A provider gives a lease up exactly when its forty-first check in a row fails: the monitor then asks to
  close the lease's bid, and it does so at most once.
\<close>
theorem monitor_gives_up:
  assumes "monitor_exec lease g is outs s" and "monitor_ready (MoChecked r) s" and "mo_running s"
  shows "(closes (snd (monitor_step (MoChecked r) s)) = (if failures g (is @ [MoChecked r]) = 41 then [lease] else [])) \<and> length (closes outs) \<le> 1"
  using monitor_exec_inv [OF assms(1)] assms(2,3)
  by (auto simp: monitor_inv_def monitor_step_def monitor_ready_def failures_append monitorMaxRetries_def Let_def)

subsection \<open>Examples\<close>

definition demo_cluster_lease :: lease_id where
  "demo_cluster_lease = \<lparr>bid_Owner = ''owner'', bid_DSeq = 1, bid_GSeq = 1, bid_OSeq = 1, bid_Provider = ''prova''\<rparr>"

definition demo_dm :: "dm_input list \<Rightarrow> (dmanager \<times> dm_output list) option" where
  "demo_dm is = dm_run is (fst (newDeploymentManager demo_cluster_lease demo_mgroup))"

lemma demo_dm_exec:
  "demo_dm is = Some (s, new) \<Longrightarrow>
   dm_exec demo_cluster_lease demo_mgroup is ([AskHostnames [''a.example''] (BidID_DeploymentID demo_cluster_lease)] @ new) s"
  unfolding demo_dm_def using dm_run_exec [OF dm_exec.start [OF prod.collapse [symmetric]]]
  by (fastforce simp: newDeploymentManager_def Let_def demo_mgroup_def AllHostnamesOfManifestGroup_def)

definition demo_group2 :: manifest_group where
  "demo_group2 = demo_mgroup\<lparr>mg_Name := ''web2''\<rparr>"

text \<open>The group is updated while the first one is being deployed; both are deployed, one after the other.\<close>

theorem deploys_newest_witness:
  "\<exists>s outs. demo_dm [DmReserved None, DmJobCalls 0, DmUpdate demo_group2, DmResult None, DmJobCalls 0, DmResult None] = Some (s, outs) \<and>
     last_call outs = Some (CallDeploy demo_cluster_lease demo_group2)"
proof -
  let ?is = "[DmReserved None, DmJobCalls 0, DmUpdate demo_group2, DmResult None, DmJobCalls 0, DmResult None]"
  obtain s outs where run: "demo_dm ?is = Some (s, outs)" and s: "dm_running s" "dm_state s = dsDeployComplete"
    by (simp add: demo_dm_def newDeploymentManager_def dm_defs)
  from deploys_newest [OF demo_dm_exec [OF run]] s
  have "last_call ([AskHostnames [''a.example''] (BidID_DeploymentID demo_cluster_lease)] @ outs) = Some (CallDeploy demo_cluster_lease demo_group2)"
    by (simp add: newest_group_def)
  then show ?thesis using run by (auto simp: last_call_def)
qed

theorem teardown_completes_witness:
  "\<exists>s outs js s' new. demo_dm [DmReserved None, DmJobCalls 0] = Some (s, outs) \<and> dm_run (DmTeardown # js) s = Some (s', new) \<and>
     CallTeardown demo_cluster_lease \<in> set new"
proof -
  obtain s outs where run: "demo_dm [DmReserved None, DmJobCalls 0] = Some (s, outs)" and s: "dm_running s" "\<not> dm_reserving s"
    by (simp add: demo_dm_def newDeploymentManager_def dm_defs)
  from teardown_completes [OF demo_dm_exec [OF run] s] run show ?thesis by metis
qed

fun monitor_run :: "monitor_input list \<Rightarrow> monitor \<Rightarrow> (monitor \<times> monitor_output list) option" where
  "monitor_run [] s = Some (s, [])"
| "monitor_run (i # is) s = (if \<not> monitor_ready i s then None else
     let (s, a) = monitor_step i s in map_option (\<lambda>(s, b). (s, a @ b)) (monitor_run is s))"

lemma monitor_run_exec:
  "monitor_exec lease g ins outs s \<Longrightarrow> monitor_run is s = Some (s', new) \<Longrightarrow> monitor_exec lease g (ins @ is) (outs @ new) s'"
proof (induction "is" arbitrary: ins outs s new)
  case (Cons i js)
  obtain t a where t: "monitor_step i s = (t, a)" by fastforce
  with Cons.prems obtain b where b: "monitor_ready i s" "monitor_run js t = Some (s', b)" "new = a @ b" by (auto split: if_splits)
  then show ?case using Cons.IH [OF monitor_exec.step [OF Cons.prems(1) b(1) t] b(2)] by simp
qed simp

definition demo_checking :: "monitor_input list" where
  "demo_checking = concat (replicate 40 [MoTick, MoChecked (Inr Map.empty)]) @ [MoTick]"

theorem monitor_gives_up_witness:
  "\<exists>s outs. monitor_exec demo_cluster_lease demo_mgroup demo_checking outs s \<and>
     closes (snd (monitor_step (MoChecked (Inr Map.empty)) s)) = [demo_cluster_lease]"
proof -
  have "case monitor_run demo_checking (newDeploymentMonitor demo_cluster_lease demo_mgroup) of None \<Rightarrow> False
      | Some (s, _) \<Rightarrow> monitor_ready (MoChecked (Inr Map.empty)) s \<and> mo_running s" by code_simp
  then obtain s outs where run: "monitor_run demo_checking (newDeploymentMonitor demo_cluster_lease demo_mgroup) = Some (s, outs)"
    and ready: "monitor_ready (MoChecked (Inr Map.empty)) s" "mo_running s"
    by (auto split: option.splits)
  have exec: "monitor_exec demo_cluster_lease demo_mgroup demo_checking outs s" using monitor_run_exec [OF monitor_exec.start run] by simp
  moreover have "failures demo_mgroup (demo_checking @ [MoChecked (Inr Map.empty)]) = 41" by code_simp
  ultimately show ?thesis using monitor_gives_up [OF exec ready] by auto
qed

text \<open>A lease closed while its host names are still being reserved is deployed all the same, and stays.\<close>

lemma early_teardown_lost:
  "map_option (\<lambda>(s, outs). (dm_state s, dm_running s, cluster_calls outs)) (demo_dm [DmTeardown, DmReserved None, DmJobCalls 0, DmResult None]) =
     Some (dsDeployComplete, True, [CallDeploy demo_cluster_lease demo_mgroup])"
  by code_simp

text \<open>Each update that is deployed starts another withdrawal; none of the earlier ones is stopped.\<close>

lemma withdrawals_pile_up:
  "map_option (\<lambda>(s, outs). length (filter (\<lambda>x. x = StartWithdrawal) outs))
     (demo_dm [DmReserved None, DmJobCalls 0, DmResult None, DmUpdate demo_group2, DmJobCalls 0, DmResult None]) = Some 2"
  by code_simp

text \<open>Host names are reserved for the first group only.\<close>

lemma hostnames_of_first_group:
  assumes "dm_exec lease g is outs s"
  shows "filter (\<lambda>x. case x of AskHostnames _ _ \<Rightarrow> True | _ \<Rightarrow> False) outs = [AskHostnames (AllHostnamesOfManifestGroup g) (BidID_DeploymentID lease)]"
  using assms
proof (induction rule: dm_exec.induct)
  case (start s outs)
  then show ?case by (auto simp: newDeploymentManager_def Let_def)
next
  case (step ins outs s i s' new)
  then have "filter (\<lambda>x. case x of AskHostnames _ _ \<Rightarrow> True | _ \<Rightarrow> False) new = []"
    by (cases i; cases "dm_state s") (auto simp: dm_defs stopMonitor_def split: if_splits dm_job.splits)
  then show ?case using step.IH by simp
qed

end
