(* ===== verification/Cluster_Service_Properties.thy ===== *)
theory Cluster_Service_Properties
  imports Cluster_Service Cluster_Manager_Properties
begin

text \<open>
  What is deployed for a lease was received for that lease: the runs of the service are traced back to runs of its managers.
\<close>

lemma newest_group_cases: "newest_group g is = g \<or> DmUpdate (newest_group g is) \<in> set is"
proof -
  have "newest_group g is \<in> set (g # [h. DmUpdate h \<leftarrow> is])" unfolding newest_group_def by (rule last_in_set) simp
  then show ?thesis by auto
qed

lemma dm_exec_calls:
  "dm_exec lease g is outs s \<Longrightarrow> CallDeploy l h \<in> set outs \<Longrightarrow> l = lease \<and> (h = g \<or> DmUpdate h \<in> set is)"
proof (induction rule: dm_exec.induct)
  case (start s outs)
  then show ?case by (auto simp: newDeploymentManager_def Let_def)
next
  case (step ins outs s i s' new)
  show ?case
  proof (cases "CallDeploy l h \<in> set outs")
    case True
    then show ?thesis using step.IH by auto
  next
    case False
    then have "CallDeploy l h \<in> set new" using step.prems by simp
    then have "l = dm_lease s \<and> h = dm_mgroup s"
      using step.hyps(3) by (cases i; cases "dm_state s") (auto simp: dm_defs stopMonitor_def split: if_splits dm_job.splits)
    then show ?thesis using dm_exec_inv [OF step.hyps(1)] dm_exec_mgroup [OF step.hyps(1)] newest_group_cases [of g ins] by auto
  qed
qed

text \<open>The groups that reached the service for a lease: from the cluster at the start, or in a manifest the inventory knew the order of.\<close>

definition received :: "(lease_id \<times> manifest_group) list \<Rightarrow> cluster_input list \<Rightarrow> lease_id \<Rightarrow> manifest_group \<Rightarrow> bool" where
  "received ds ins lease h \<longleftrightarrow> (lease, h) \<in> set ds \<or>
     (\<exists>m grp. ManifestReceived lease m (Some grp) True \<in> set ins \<and> h \<in> set m \<and> mg_Name h = gs_Name (grp_Spec grp))"

definition slash_free :: "(lease_id \<times> manifest_group) list \<Rightarrow> cluster_input list \<Rightarrow> bool" where
  "slash_free ds ins \<longleftrightarrow> (\<forall>d\<in>set ds. CHR ''/'' \<notin> set (bid_Provider (fst d))) \<and>
     (\<forall>lease m g f. ManifestReceived lease m g f \<in> set ins \<longrightarrow> CHR ''/'' \<notin> set (bid_Provider lease))"

definition dm_history :: "(lease_id \<times> manifest_group) list \<Rightarrow> cluster_input list \<Rightarrow> lease_id \<Rightarrow> dm_output list \<Rightarrow> dmanager \<Rightarrow> bool" where
  "dm_history ds ins lease outs s \<longleftrightarrow> (\<exists>g is. dm_exec lease g is outs s \<and> received ds ins lease g \<and> (\<forall>h. DmUpdate h \<in> set is \<longrightarrow> received ds ins lease h)) \<and>
     CHR ''/'' \<notin> set (bid_Provider lease)"

definition cluster_leased :: "(lease_id \<times> manifest_group) list \<Rightarrow> cluster_input list \<Rightarrow> cluster_service \<Rightarrow> bool" where
  "cluster_leased ds ins s \<longleftrightarrow> (\<forall>k m. kv_get (cs_managers s) k = Some m \<longrightarrow> k = LeasePath (dm_lease m) \<and> (\<exists>outs. dm_history ds ins (dm_lease m) outs m))"

definition recorded :: "(lease_id \<times> manifest_group) list \<Rightarrow> cluster_input list \<Rightarrow> cluster_output \<Rightarrow> bool" where
  "recorded ds ins out = (case out of ManagerDoes lease x \<Rightarrow> (\<exists>outs m. dm_history ds ins lease outs m \<and> x \<in> set outs) | _ \<Rightarrow> True)"

lemma received_mono: "received ds ins lease h \<Longrightarrow> received ds (ins @ js) lease h"
  by (auto simp: received_def)

lemma dm_history_mono: "dm_history ds ins lease outs m \<Longrightarrow> dm_history ds (ins @ js) lease outs m"
  unfolding dm_history_def by (blast intro: received_mono)

lemma cluster_leased_mono: "cluster_leased ds ins s \<Longrightarrow> cluster_leased ds (ins @ js) s"
  unfolding cluster_leased_def by (meson dm_history_mono)

lemma recorded_mono: "recorded ds ins out \<Longrightarrow> recorded ds (ins @ js) out"
  unfolding recorded_def by (cases out) (auto intro: dm_history_mono)

lemma ManifestGroup_Some: "ManifestGroup m g = Some (Some h) \<Longrightarrow> \<exists>grp. g = Some grp \<and> h \<in> set m \<and> mg_Name h = gs_Name (grp_Spec grp)"
  by (auto simp: ManifestGroup_def find_Some_iff)

lemma to_dm_leased:
  assumes "to_dm key i m s = Some (s', new)" "cluster_leased ds ins s" "kv_get (cs_managers s) key = Some m"
    "\<And>h. i = DmUpdate h \<Longrightarrow> received ds ins (dm_lease m) h"
  shows "cluster_leased ds ins s' \<and> list_all (recorded ds ins) new"
proof (cases "dm_ready i m")
  case False
  then show ?thesis using assms by (simp add: to_dm_def)
next
  case True
  then obtain m' outs' where step: "dm_step i m = Some (m', outs')"
    and s': "s' = s\<lparr>cs_managers := kv_set key m' (cs_managers s)\<rparr>" and new: "new = map (ManagerDoes (dm_lease m)) outs'"
    using assms(1) by (auto simp: to_dm_def)
  obtain outs where h: "dm_history ds ins (dm_lease m) outs m" and key: "key = LeasePath (dm_lease m)"
    using assms(2,3) unfolding cluster_leased_def by blast
  then obtain g "is" where g: "dm_exec (dm_lease m) g is outs m" "received ds ins (dm_lease m) g" "\<forall>h. DmUpdate h \<in> set is \<longrightarrow> received ds ins (dm_lease m) h"
    unfolding dm_history_def by blast
  have exec: "dm_exec (dm_lease m) g (is @ [i]) (outs @ outs') m'" using g(1) True step by (rule dm_exec.step)
  then have lease: "dm_lease m' = dm_lease m" using dm_exec_inv by blast
  have "received ds ins (dm_lease m) h" if "DmUpdate h \<in> set (is @ [i])" for h using that g(3) assms(4) by auto
  then have h': "dm_history ds ins (dm_lease m) (outs @ outs') m'" using exec g(2) h unfolding dm_history_def by blast
  have "cluster_leased ds ins s'" using assms(2) h' key lease unfolding cluster_leased_def s' by auto
  moreover have "list_all (recorded ds ins) new" using h' unfolding new list_all_iff recorded_def by fastforce
  ultimately show ?thesis by blast
qed

lemma add_manager_leased:
  assumes "add_manager lease g s = (s', new)" "cluster_leased ds ins s" "received ds ins lease g" "CHR ''/'' \<notin> set (bid_Provider lease)"
  shows "cluster_leased ds ins s' \<and> list_all (recorded ds ins) new"
proof -
  obtain m outs where m: "newDeploymentManager lease g = (m, outs)" by fastforce
  then have "dm_exec lease g [] outs m" by (rule dm_exec.start)
  then have h: "dm_history ds ins lease outs m" and lease: "dm_lease m = lease"
    using assms(3,4) dm_exec_inv by (fastforce simp: dm_history_def)+
  have s': "s' = s\<lparr>cs_managers := kv_set (LeasePath lease) m (cs_managers s)\<rparr>" "new = map (ManagerDoes lease) outs"
    using assms(1) m by (simp_all add: add_manager_def)
  have "cluster_leased ds ins s'" using assms(2) h lease unfolding cluster_leased_def s' by auto
  moreover have "list_all (recorded ds ins) new" using h unfolding s' list_all_iff recorded_def by fastforce
  ultimately show ?thesis by blast
qed

lemma adopt_leased:
  "adopt es s = (s', outs) \<Longrightarrow> cluster_leased ds ins s \<Longrightarrow> set es \<subseteq> set ds \<Longrightarrow> slash_free ds ins \<Longrightarrow> cluster_leased ds ins s' \<and> list_all (recorded ds ins) outs"
proof (induction es arbitrary: s outs)
  case (Cons d es)
  obtain t a where t: "add_manager (fst d) (snd d) s = (t, a)" by fastforce
  obtain b where b: "adopt es t = (s', b)" "outs = a @ b" using Cons.prems(1) t by (auto split: prod.splits)
  have "cluster_leased ds ins t \<and> list_all (recorded ds ins) a"
    by (rule add_manager_leased [OF t Cons.prems(2)]) (use Cons.prems in \<open>auto simp: received_def slash_free_def\<close>)
  then show ?case using Cons.IH [OF b(1)] Cons.prems b(2) by simp
qed simp

lemma cluster_step_leased:
  assumes step: "cluster_step owner i s = Some (s', new)" and ready: "cluster_ready i s" and inv: "cluster_leased ds ins s" and free: "slash_free ds (ins @ [i])"
  shows "cluster_leased ds (ins @ [i]) s' \<and> list_all (recorded ds (ins @ [i])) new"
proof -
  note inv' = cluster_leased_mono [OF inv, of "[i]"]
  show ?thesis
  proof (cases i)
    case (ManifestReceived lease m g found)
    have on: "on_manifest lease m g found s = Some (s', new)" using step ManifestReceived by (simp add: cluster_step_def)
    show ?thesis
    proof (cases "\<exists>h. ManifestGroup m g = Some (Some h) \<and> found")
      case False
      then have "s' = s \<and> new = []" using on by (auto simp: on_manifest_def split: option.splits)
      then show ?thesis using inv' by simp
    next
      case True
      then obtain h where h: "ManifestGroup m g = Some (Some h)" "found" by blast
      from ManifestGroup_Some [OF h(1)] obtain grp where "g = Some grp" "h \<in> set m" "mg_Name h = gs_Name (grp_Spec grp)" by blast
      moreover have "ManifestReceived lease m g True \<in> set (ins @ [i])" using ManifestReceived h(2) by simp
      ultimately have rec: "received ds (ins @ [i]) lease h" unfolding received_def by blast
      have lease: "CHR ''/'' \<notin> set (bid_Provider lease)" using free ManifestReceived by (auto simp: slash_free_def)
      show ?thesis
      proof (cases "kv_get (cs_managers s) (LeasePath lease)")
        case None
        then have "add_manager lease h s = (s', new)" using on h by (simp add: on_manifest_def)
        then show ?thesis using inv' rec lease by (rule add_manager_leased)
      next
        case (Some dm)
        have "dm_lease dm = lease" using inv Some lease LeasePath_inj unfolding cluster_leased_def dm_history_def by metis
        moreover have "to_dm (LeasePath lease) (DmUpdate h) dm s = Some (s', new)" using on h Some by (simp add: on_manifest_def)
        ultimately show ?thesis using inv' Some rec by (intro to_dm_leased) auto
      qed
    qed
  next
    case (LeaseEvent ev)
    show ?thesis
    proof (cases "\<exists>lid p dm. ev = EventLeaseClosed lid p \<and> kv_get (cs_managers s) (LeasePath lid) = Some dm")
      case True
      then obtain lid dm where dm: "kv_get (cs_managers s) (LeasePath lid) = Some dm" "to_dm (LeasePath lid) DmTeardown dm s = Some (s', new)"
        using step LeaseEvent by (auto simp: cluster_step_def teardownLease_def)
      show ?thesis by (rule to_dm_leased [OF dm(2) inv' dm(1)]) simp
    next
      case False
      then have "s' = s \<and> list_all (recorded ds (ins @ [i])) new" using step LeaseEvent
        by (auto simp: cluster_step_def teardownLease_def recorded_def split: event.splits option.splits)
      then show ?thesis using inv' by simp
    qed
  next
    case (ManagerMove key j)
    then obtain m where "kv_get (cs_managers s) key = Some m" "to_dm key j m s = Some (s', new)" "\<And>h. j \<noteq> DmUpdate h"
      using step ready by (auto simp: cluster_step_def cluster_ready_def split: option.splits dm_input.splits)
    then show ?thesis using inv' by (intro to_dm_leased) auto
  next
    case (ManagerEnded key)
    then have "kv_get (cs_managers s') k = Some m \<Longrightarrow> kv_get (cs_managers s) k = Some m" for k m
      using step by (auto simp: cluster_step_def split: option.splits if_splits)
    moreover have "list_all (recorded ds (ins @ [i])) new"
      using step ManagerEnded by (auto simp: cluster_step_def recorded_def split: option.splits if_splits)
    ultimately show ?thesis using inv' unfolding cluster_leased_def by fastforce
  qed (use step inv' in \<open>auto simp: cluster_step_def cluster_leased_def recorded_def\<close>)
qed

lemma slash_free_append: "slash_free ds (is @ js) \<Longrightarrow> slash_free ds is"
  by (fastforce simp: slash_free_def)

lemma cluster_exec_leased:
  "cluster_exec owner ds ins outs s \<Longrightarrow> slash_free ds ins \<Longrightarrow> cluster_leased ds ins s \<and> list_all (recorded ds ins) outs"
proof (induction rule: cluster_exec.induct)
  case (start s outs)
  then show ?case unfolding cluster_start_def by (intro adopt_leased) (auto simp: cluster_leased_def)
next
  case (step ins outs s i s' new)
  then have "cluster_leased ds ins s \<and> list_all (recorded ds ins) outs" using slash_free_append by blast
  then show ?case using cluster_step_leased [OF step.hyps(3,2) _ step.prems] recorded_mono [of ds ins _ "[i]"] by (auto simp: list_all_iff)
qed

text \<open>
  C22. The provider deploys for a lease only a manifest group it received for that very lease: in the cluster when it started, or in a
  manifest published for the lease whose group of the same name it is and for whose order it holds a reservation.
\<close>
theorem cluster_deploys_received:
  assumes "cluster_exec owner ds ins outs s" and "slash_free ds ins" and "ManagerDoes lease (CallDeploy l h) \<in> set outs"
  shows "l = lease \<and> ((lease, h) \<in> set ds \<or>
    (\<exists>m grp. ManifestReceived lease m (Some grp) True \<in> set ins \<and> h \<in> set m \<and> mg_Name h = gs_Name (grp_Spec grp)))"
proof -
  have "recorded ds ins (ManagerDoes lease (CallDeploy l h))" using cluster_exec_leased [OF assms(1,2)] assms(3) by (auto simp: list_all_iff)
  then obtain outs' m where "dm_history ds ins lease outs' m" "CallDeploy l h \<in> set outs'" by (auto simp: recorded_def)
  then obtain g "is" where g: "dm_exec lease g is outs' m" "received ds ins lease g" "\<forall>h. DmUpdate h \<in> set is \<longrightarrow> received ds ins lease h" "CallDeploy l h \<in> set outs'"
    unfolding dm_history_def by blast
  from dm_exec_calls [OF g(1,4)] have "l = lease" "received ds ins lease h" using g(2,3) by auto
  then show ?thesis by (simp add: received_def)
qed


subsection \<open>An example\<close>

fun cluster_run :: "string \<Rightarrow> cluster_input list \<Rightarrow> cluster_service \<Rightarrow> (cluster_service \<times> cluster_output list) option" where
  "cluster_run owner [] s = Some (s, [])"
| "cluster_run owner (i # is) s = (if \<not> cluster_ready i s then None else do {
     (s, a) \<leftarrow> cluster_step owner i s; (s, b) \<leftarrow> cluster_run owner is s; Some (s, a @ b) })"

lemma cluster_run_exec:
  "cluster_exec owner ds ins outs s \<Longrightarrow> cluster_run owner is s = Some (s', new) \<Longrightarrow> cluster_exec owner ds (ins @ is) (outs @ new) s'"
proof (induction "is" arbitrary: ins outs s new)
  case (Cons i js)
  then obtain t a b where t: "cluster_ready i s" "cluster_step owner i s = Some (t, a)" "cluster_run owner js t = Some (s', b)" "new = a @ b"
    by (auto simp: bind_eq_Some_conv split: if_splits)
  then show ?case using Cons.IH [OF cluster_exec.step [OF Cons.prems(1) t(1,2)] t(3)] by simp
qed simp

definition demo_dgroup_web :: group where
  "demo_dgroup_web = demo_dgroup\<lparr>grp_Spec := (grp_Spec demo_dgroup)\<lparr>gs_Name := ''web''\<rparr>\<rparr>"

definition demo_cluster_inputs :: "cluster_input list" where
  "demo_cluster_inputs = [ManifestReceived demo_cluster_lease [demo_mgroup] (Some demo_dgroup_web) True,
     ManagerMove (LeasePath demo_cluster_lease) (DmReserved None), ManagerMove (LeasePath demo_cluster_lease) (DmJobCalls 0)]"

theorem cluster_deploys_received_witness:
  "\<exists>outs s. cluster_exec ''prova'' [] demo_cluster_inputs outs s \<and> ManagerDoes demo_cluster_lease (CallDeploy demo_cluster_lease demo_mgroup) \<in> set outs \<and>
     (\<exists>m grp. ManifestReceived demo_cluster_lease m (Some grp) True \<in> set demo_cluster_inputs \<and> demo_mgroup \<in> set m)"
proof -
  have "case cluster_run ''prova'' demo_cluster_inputs (fst (cluster_start [])) of None \<Rightarrow> False
      | Some (_, outs) \<Rightarrow> ManagerDoes demo_cluster_lease (CallDeploy demo_cluster_lease demo_mgroup) \<in> set outs" by code_simp
  then obtain s outs where run: "cluster_run ''prova'' demo_cluster_inputs (fst (cluster_start [])) = Some (s, outs)"
    and out: "ManagerDoes demo_cluster_lease (CallDeploy demo_cluster_lease demo_mgroup) \<in> set outs" by (auto split: option.splits)
  have "cluster_exec ''prova'' [] [] [] (fst (cluster_start []))" by (rule cluster_exec.start) (simp add: cluster_start_def)
  from cluster_run_exec [OF this run] have exec: "cluster_exec ''prova'' [] demo_cluster_inputs outs s" by simp
  moreover have "slash_free [] demo_cluster_inputs" by (auto simp: slash_free_def demo_cluster_inputs_def demo_cluster_lease_def)
  ultimately show ?thesis using cluster_deploys_received [OF exec _ out] out by auto
qed

end
