(* ===== verification/Kube_Builder.thy ===== *)
theory Kube_Builder
  imports Crd Query_Paths Inventory Hostnames
begin

text \<open>
  The Kubernetes objects a provider makes of a lease and its manifest group (\<^verbatim>\<open>provider/cluster/kube/builder.go\<close>):
  namespace, network policies, deployments, services, ingresses and the saved manifest.  Each builder has a \<^verbatim>\<open>create\<close> and an
  \<^verbatim>\<open>update\<close>, which overwrites what depends on the group and keeps the rest of the object it is given.

  SHA-224 and the name-based UUID are arguments, as is the commitment of resources, which computes in floating point.  A quantity that
  is no \<^verbatim>\<open>uint64\<close> panics: \<open>None\<close>.
\<close>

subsection \<open>Settings and names\<close>

record kube_settings =
  DeploymentIngressStaticHosts :: bool
  DeploymentIngressDomain :: string
  DeploymentIngressExposeLBHosts :: bool
  ClusterPublicHostname :: string
  NetworkPoliciesEnabled :: bool
  commitSettings :: commit_levels
  DeploymentRuntimeClass :: string
  Sum224 :: "string \<Rightarrow> string"
  NewV5 :: "string \<Rightarrow> string"

definition byte_bits :: "char \<Rightarrow> bool list" where
  "byte_bits c = (case c of Char b0 b1 b2 b3 b4 b5 b6 b7 \<Rightarrow> [b7, b6, b5, b4, b3, b2, b1, b0])"

fun quintets :: "bool list \<Rightarrow> bool list list" where
  "quintets [] = []"
| "quintets (b # bs) = take 5 (b # bs @ replicate 4 False) # quintets (drop 4 bs)"

definition base32_digit :: "bool list \<Rightarrow> char" where
  "base32_digit bs = (let n = fold (\<lambda>b n. 2 * n + (if b then 1 else 0)) bs (0 :: nat) in
     if n < 10 then char_of (48 + n) else char_of (55 + n))"

text \<open>\<^verbatim>\<open>base32.HexEncoding\<close> without padding, then \<^verbatim>\<open>strings.ToLower\<close>.\<close>

definition EncodeToString :: "string \<Rightarrow> string" where
  "EncodeToString s = map base32_digit (quintets (concat (map byte_bits s)))"

definition lidNS :: "kube_settings \<Rightarrow> lease_id \<Rightarrow> string" where
  "lidNS S lid = map lower_char (EncodeToString (Sum224 S (BidID_String lid)))"

definition ingressHost :: "kube_settings \<Rightarrow> lease_id \<Rightarrow> service \<Rightarrow> string" where
  "ingressHost S lid svc = map lower_char (EncodeToString (NewV5 S (BidID_String lid @ svc_Name svc)))"

definition virtengineManagedLabelName :: string where "virtengineManagedLabelName = ''virtengine.network''"
definition virtengineNetworkNamespace :: string where "virtengineNetworkNamespace = ''virtengine.network/namespace''"
definition virtengineManifestServiceLabelName :: string where "virtengineManifestServiceLabelName = ''virtengine.network/manifest-service''"

type_synonym klabels = "string kv"

definition builder_labels :: "kube_settings \<Rightarrow> lease_id \<Rightarrow> klabels" where
  "builder_labels S lid = kv_set virtengineNetworkNamespace (lidNS S lid) (kv_set virtengineManagedLabelName ''true'' [])"

definition appendLeaseLabels :: "lease_id \<Rightarrow> klabels \<Rightarrow> klabels" where
  "appendLeaseLabels lid labels =
     kv_set ''virtengine.network/lease.id.provider'' (bid_Provider lid)
     (kv_set ''virtengine.network/lease.id.oseq'' (FormatWord (bid_OSeq lid))
     (kv_set ''virtengine.network/lease.id.gseq'' (FormatWord (bid_GSeq lid))
     (kv_set ''virtengine.network/lease.id.dseq'' (FormatWord (bid_DSeq lid))
     (kv_set ''virtengine.network/lease.id.owner'' (bid_Owner lid) labels))))"

subsection \<open>Namespace\<close>

record knamespace =
  kn_Name :: string
  kn_Labels :: klabels

definition nsBuilder_create :: "kube_settings \<Rightarrow> lease_id \<Rightarrow> knamespace" where
  "nsBuilder_create S lid = \<lparr>kn_Name = lidNS S lid, kn_Labels = appendLeaseLabels lid (builder_labels S lid)\<rparr>"

definition nsBuilder_update :: "kube_settings \<Rightarrow> lease_id \<Rightarrow> knamespace \<Rightarrow> knamespace" where
  "nsBuilder_update S lid obj = obj\<lparr>kn_Name := lidNS S lid, kn_Labels := appendLeaseLabels lid (builder_labels S lid)\<rparr>"

subsection \<open>Deployment\<close>

datatype kquantity = MilliQuantity "64 word" | PlainQuantity "64 word"

record kresources =
  kr_CPU :: "kquantity option"
  kr_Memory :: "kquantity option"
  kr_EphemeralStorage :: "kquantity option"

record kcontainer =
  kc_Name :: string
  kc_Image :: string
  kc_Command :: "string list"
  kc_Args :: "string list"
  kc_Requests :: kresources
  kc_Limits :: kresources
  kc_ImagePullPolicy :: string
  kc_RunAsNonRoot :: bool
  kc_Privileged :: bool
  kc_AllowPrivilegeEscalation :: bool
  kc_Env :: "(string \<times> string) list"
  kc_Ports :: "32 word list"

record kdeployment =
  kd_Name :: string
  kd_Labels :: klabels
  kd_MatchLabels :: klabels
  kd_Replicas :: "32 word"
  kd_TemplateLabels :: klabels
  kd_RuntimeClassName :: "string option"
  kd_RunAsNonRoot :: bool
  kd_AutomountServiceAccountToken :: bool
  kd_Containers :: "kcontainer list"

definition deployment_labels :: "kube_settings \<Rightarrow> lease_id \<Rightarrow> service \<Rightarrow> klabels" where
  "deployment_labels S lid svc = kv_set virtengineManifestServiceLabelName (svc_Name svc) (builder_labels S lid)"

text \<open>\<^verbatim>\<open>strings.SplitN(env, "=", 2)\<close>: name and value, no value without the sign.\<close>

definition env_var :: "string \<Rightarrow> string \<times> string" where
  "env_var env = (takeWhile (\<lambda>c. c \<noteq> CHR ''='') env, tl (dropWhile (\<lambda>c. c \<noteq> CHR ''='') env))"

definition addIfNotPresent :: "string set \<Rightarrow> (string \<times> string) list \<Rightarrow> string \<Rightarrow> string \<Rightarrow> (string \<times> string) list" where
  "addIfNotPresent added env key v = (if key \<in> added then env else env @ [(key, v)])"

definition deployment_vars :: "kube_settings \<Rightarrow> lease_id \<Rightarrow> (string \<times> string) list" where
  "deployment_vars S lid = [(''VIRTENGINE_GROUP_SEQUENCE'', FormatWord (bid_GSeq lid)), (''VIRTENGINE_DEPLOYMENT_SEQUENCE'', FormatWord (bid_DSeq lid)),
     (''VIRTENGINE_ORDER_SEQUENCE'', FormatWord (bid_OSeq lid)), (''VIRTENGINE_OWNER'', bid_Owner lid), (''VIRTENGINE_PROVIDER'', bid_Provider lid),
     (''VIRTENGINE_CLUSTER_PUBLIC_HOSTNAME'', ClusterPublicHostname S)]"

definition addEnvVarsForDeployment :: "kube_settings \<Rightarrow> lease_id \<Rightarrow> string set \<Rightarrow> (string \<times> string) list \<Rightarrow> (string \<times> string) list" where
  "addEnvVarsForDeployment S lid added env = foldl (\<lambda>env (k, v). addIfNotPresent added env k v) env (deployment_vars S lid)"

definition container_env :: "kube_settings \<Rightarrow> lease_id \<Rightarrow> service \<Rightarrow> (string \<times> string) list" where
  "container_env S lid svc = (let env = map env_var (svc_Env svc) in addEnvVarsForDeployment S lid (fst ` set env) env)"

text \<open>Requests (committed) and limits of one resource; conversions to \<^verbatim>\<open>int64\<close> keep the bits.\<close>

definition requirement ::
  "(64 word \<Rightarrow> kquantity) \<Rightarrow> (resource_value \<Rightarrow> resource_value) \<Rightarrow> resource_value option \<Rightarrow> (kquantity option \<times> kquantity option) option" where
  "requirement q commit v = (case v of None \<Rightarrow> Some (None, None) | Some v \<Rightarrow> do {
     r \<leftarrow> ResourceValue_Value (commit v);
     l \<leftarrow> ResourceValue_Value v;
     Some (Some (q r), Some (q l)) })"

definition build_container :: "kube_settings \<Rightarrow> lease_id \<Rightarrow> service \<Rightarrow> kcontainer option" where
  "build_container S lid svc = (let u = svc_Resources svc; C = commitSettings S in do {
     (rc, lc) \<leftarrow> requirement MilliQuantity (commitCPU C) (map_option cpu_Units (CPU u));
     (rm, lm) \<leftarrow> requirement PlainQuantity (commitMemory C) (map_option mem_Quantity (Memory u));
     (rs, ls) \<leftarrow> requirement PlainQuantity (commitStorage C) (map_option sto_Quantity (Storage u));
     Some \<lparr>kc_Name = svc_Name svc, kc_Image = svc_Image svc, kc_Command = svc_Command svc, kc_Args = svc_Args svc,
       kc_Requests = \<lparr>kr_CPU = rc, kr_Memory = rm, kr_EphemeralStorage = rs\<rparr>, kc_Limits = \<lparr>kr_CPU = lc, kr_Memory = lm, kr_EphemeralStorage = ls\<rparr>,
       kc_ImagePullPolicy = ''IfNotPresent'', kc_RunAsNonRoot = False, kc_Privileged = False, kc_AllowPrivilegeEscalation = False,
       kc_Env = container_env S lid svc, kc_Ports = map (\<lambda>e. ucast (se_Port e)) (svc_Expose svc)\<rparr> })"

definition deploymentBuilder_create :: "kube_settings \<Rightarrow> lease_id \<Rightarrow> service \<Rightarrow> kdeployment option" where
  "deploymentBuilder_create S lid svc = map_option (\<lambda>c. let labels = deployment_labels S lid svc in
     \<lparr>kd_Name = svc_Name svc, kd_Labels = labels, kd_MatchLabels = labels, kd_Replicas = svc_Count svc, kd_TemplateLabels = labels,
      kd_RuntimeClassName = (if DeploymentRuntimeClass S \<noteq> [] \<and> DeploymentRuntimeClass S \<noteq> ''none'' then Some (DeploymentRuntimeClass S) else None),
      kd_RunAsNonRoot = False, kd_AutomountServiceAccountToken = False, kd_Containers = [c]\<rparr>) (build_container S lid svc)"

definition deploymentBuilder_update :: "kube_settings \<Rightarrow> lease_id \<Rightarrow> service \<Rightarrow> kdeployment \<Rightarrow> kdeployment option" where
  "deploymentBuilder_update S lid svc obj = map_option (\<lambda>c. let labels = deployment_labels S lid svc in
     obj\<lparr>kd_Labels := labels, kd_MatchLabels := labels, kd_Replicas := svc_Count svc, kd_TemplateLabels := labels, kd_Containers := [c]\<rparr>)
     (build_container S lid svc)"

subsection \<open>Service\<close>

datatype kservice_type = ServiceTypeNodePort | ServiceTypeClusterIP

record kservice_port =
  sp_Name :: string
  sp_Port :: "32 word"
  sp_TargetPort :: "32 word"
  sp_Protocol :: string
  sp_NodePort :: "32 word"

record kservice =
  ks_Name :: string
  ks_Labels :: klabels
  ks_Type :: kservice_type
  ks_Selector :: klabels
  ks_Ports :: "kservice_port list"

definition errUnsupportedProtocol :: error where
  "errUnsupportedProtocol = Errorf ''Unsupported protocol for service''"

definition errInvalidServiceBuilder :: error where
  "errInvalidServiceBuilder = Errorf ''service builder invalid''"

definition serviceBuilder_name :: "bool \<Rightarrow> service \<Rightarrow> string" where
  "serviceBuilder_name requireNodePort svc = (if requireNodePort then svc_Name svc @ ''-np'' else svc_Name svc)"

definition deploymentServiceType :: "bool \<Rightarrow> kservice_type" where
  "deploymentServiceType requireNodePort = (if requireNodePort then ServiceTypeNodePort else ServiceTypeClusterIP)"

definition serviceBuilder_any :: "bool \<Rightarrow> service \<Rightarrow> bool" where
  "serviceBuilder_any requireNodePort svc = list_ex (\<lambda>e. \<not> (requireNodePort \<and> ShouldBeIngress e) \<and>
     ((\<not> requireNodePort \<and> ShouldBeIngress e) \<or> se_Global e = requireNodePort)) (svc_Expose svc)"

fun ports_loop :: "bool \<Rightarrow> nat \<Rightarrow> service_expose list \<Rightarrow> error + kservice_port list" where
  "ports_loop requireNodePort i [] = Inr []"
| "ports_loop requireNodePort i (e # es) =
     (if (se_Global e = requireNodePort \<or> (\<not> requireNodePort \<and> ShouldBeIngress e)) \<and> \<not> (requireNodePort \<and> ShouldBeIngress e) then
        (if se_Proto e \<noteq> TCP \<and> se_Proto e \<noteq> UDP then Inl errUnsupportedProtocol
         else map_sum id ((#) \<lparr>sp_Name = FormatUint i @ ''-'' @ FormatWord (ExposeExternalPort e), sp_Port = ExposeExternalPort e,
           sp_TargetPort = ucast (se_Port e), sp_Protocol = se_Proto e, sp_NodePort = 0\<rparr>) (ports_loop requireNodePort (Suc i) es))
      else ports_loop requireNodePort (Suc i) es)"

definition serviceBuilder_ports :: "bool \<Rightarrow> service \<Rightarrow> error + kservice_port list" where
  "serviceBuilder_ports requireNodePort svc = (case ports_loop requireNodePort 0 (svc_Expose svc) of Inl e \<Rightarrow> Inl e
     | Inr [] \<Rightarrow> Inl errInvalidServiceBuilder | Inr ports \<Rightarrow> Inr ports)"

definition serviceBuilder_create :: "kube_settings \<Rightarrow> bool \<Rightarrow> lease_id \<Rightarrow> service \<Rightarrow> error + kservice" where
  "serviceBuilder_create S requireNodePort lid svc = map_sum id (\<lambda>ports. let labels = deployment_labels S lid svc in
     \<lparr>ks_Name = serviceBuilder_name requireNodePort svc, ks_Labels = labels, ks_Type = deploymentServiceType requireNodePort,
      ks_Selector = labels, ks_Ports = ports\<rparr>) (serviceBuilder_ports requireNodePort svc)"

definition same_port :: "kservice_port \<Rightarrow> kservice_port \<Rightarrow> bool" where
  "same_port cur p \<longleftrightarrow> sp_Name cur = sp_Name p \<and> sp_Port cur = sp_Port p \<and> sp_TargetPort cur = sp_TargetPort p \<and> sp_Protocol cur = sp_Protocol p"

text \<open>The current port with the same values, the last one if there are several, or else the new one.\<close>

definition retain_port :: "kservice_port list \<Rightarrow> kservice_port \<Rightarrow> kservice_port" where
  "retain_port curports p = foldl (\<lambda>q cur. if same_port cur p then cur else q) p curports"

definition serviceBuilder_update :: "kube_settings \<Rightarrow> bool \<Rightarrow> lease_id \<Rightarrow> service \<Rightarrow> kservice \<Rightarrow> error + kservice" where
  "serviceBuilder_update S requireNodePort lid svc obj = map_sum id (\<lambda>ports. let labels = deployment_labels S lid svc in
     obj\<lparr>ks_Labels := labels, ks_Selector := labels, ks_Ports := (if requireNodePort then map (retain_port (ks_Ports obj)) ports else ports)\<rparr>)
     (serviceBuilder_ports requireNodePort svc)"


subsection \<open>Network policies\<close>

datatype kpeer =
    NamespacePeer klabels
  | PodPeer klabels klabels
  | IPBlockPeer string "string list"

record kpolicy_rule =
  pr_Ports :: "(string \<times> 32 word) list"
  pr_Peers :: "kpeer list"

record knetwork_policy =
  np_Name :: string
  np_Labels :: klabels
  np_Namespace :: string
  np_PodSelector :: klabels
  np_Types :: "string list"
  np_Ingress :: "kpolicy_rule list"
  np_Egress :: "kpolicy_rule list"

definition virtengineDeploymentPolicyName :: string where
  "virtengineDeploymentPolicyName = ''virtengine-deployment-restrictions''"

text \<open>The policy of every lease's namespace: in from the namespace and the ingress controller, out to the namespace,
  to the name service and to public addresses.\<close>

definition lease_policy :: "kube_settings \<Rightarrow> lease_id \<Rightarrow> knetwork_policy" where
  "lease_policy S lid = (let own = NamespacePeer [(virtengineNetworkNamespace, lidNS S lid)]; nginx = [(''app.kubernetes.io/name'', ''ingress-nginx'')] in
     \<lparr>np_Name = virtengineDeploymentPolicyName, np_Labels = builder_labels S lid, np_Namespace = lidNS S lid, np_PodSelector = [],
      np_Types = [''Ingress'', ''Egress''],
      np_Ingress = [\<lparr>pr_Ports = [], pr_Peers = [own]\<rparr>, \<lparr>pr_Ports = [], pr_Peers = [PodPeer nginx nginx]\<rparr>],
      np_Egress = [\<lparr>pr_Ports = [], pr_Peers = [own]\<rparr>, \<lparr>pr_Ports = [(''UDP'', 53)], pr_Peers = [IPBlockPeer ''169.254.0.0/16'' []]\<rparr>,
        \<lparr>pr_Ports = [], pr_Peers = [IPBlockPeer ''0.0.0.0/0'' [''10.0.0.0/8'', ''192.168.0.0/16'', ''172.16.0.0/12'']]\<rparr>]\<rparr>)"

text \<open>The ports of a service that are exposed directly; a protocol that is neither keeps the empty string.\<close>

definition opened_ports :: "service \<Rightarrow> (string \<times> 32 word) list" where
  "opened_ports svc = map (\<lambda>e. (if se_Proto e = TCP \<or> se_Proto e = UDP then se_Proto e else [], ExposeExternalPort e))
     (filter (\<lambda>e. se_Global e \<and> \<not> ShouldBeIngress e) (svc_Expose svc))"

definition service_policy :: "kube_settings \<Rightarrow> lease_id \<Rightarrow> service \<Rightarrow> knetwork_policy" where
  "service_policy S lid svc = \<lparr>np_Name = ''virtengine-'' @ svc_Name svc @ ''-np'', np_Labels = builder_labels S lid, np_Namespace = lidNS S lid,
     np_PodSelector = [(virtengineManifestServiceLabelName, svc_Name svc)], np_Types = [''Ingress''],
     np_Ingress = [\<lparr>pr_Ports = opened_ports svc, pr_Peers = []\<rparr>], np_Egress = []\<rparr>"

definition netPolBuilder_create :: "kube_settings \<Rightarrow> lease_id \<Rightarrow> manifest_group \<Rightarrow> knetwork_policy list" where
  "netPolBuilder_create S lid g = (if \<not> NetworkPoliciesEnabled S then [] else
     lease_policy S lid # map (service_policy S lid) (filter (\<lambda>svc. opened_ports svc \<noteq> []) (mg_Services g)))"

definition netPolBuilder_update :: "kube_settings \<Rightarrow> lease_id \<Rightarrow> knetwork_policy \<Rightarrow> knetwork_policy" where
  "netPolBuilder_update S lid obj = obj\<lparr>np_Labels := builder_labels S lid\<rparr>"

subsection \<open>Ingress\<close>

record kingress_rule =
  ir_Host :: string
  ir_Path :: string
  ir_ServiceName :: string
  ir_Port :: "32 word"

record kingress =
  ki_Name :: string
  ki_Labels :: klabels
  ki_Rules :: "kingress_rule list"

definition ingress_hosts :: "kube_settings \<Rightarrow> lease_id \<Rightarrow> service \<Rightarrow> service_expose \<Rightarrow> string list" where
  "ingress_hosts S lid svc e = se_Hosts e @
     (if DeploymentIngressStaticHosts S then [ingressHost S lid svc @ ''.'' @ DeploymentIngressDomain S] else [])"

definition ingressBuilder_rules :: "kube_settings \<Rightarrow> lease_id \<Rightarrow> service \<Rightarrow> service_expose \<Rightarrow> kingress_rule list" where
  "ingressBuilder_rules S lid svc e = map (\<lambda>host. \<lparr>ir_Host = host, ir_Path = ''/'', ir_ServiceName = svc_Name svc, ir_Port = ExposeExternalPort e\<rparr>)
     (ingress_hosts S lid svc e)"

definition ingressBuilder_create :: "kube_settings \<Rightarrow> lease_id \<Rightarrow> service \<Rightarrow> service_expose \<Rightarrow> kingress" where
  "ingressBuilder_create S lid svc e = \<lparr>ki_Name = svc_Name svc, ki_Labels = deployment_labels S lid svc, ki_Rules = ingressBuilder_rules S lid svc e\<rparr>"

definition ingressBuilder_update :: "kube_settings \<Rightarrow> lease_id \<Rightarrow> service \<Rightarrow> service_expose \<Rightarrow> kingress \<Rightarrow> kingress" where
  "ingressBuilder_update S lid svc e obj = obj\<lparr>ki_Labels := deployment_labels S lid svc, ki_Rules := ingressBuilder_rules S lid svc e\<rparr>"

subsection \<open>Saved manifest\<close>

record kmanifest =
  km_Labels :: klabels
  km_Object :: crd_manifest

definition manifest_labels :: "kube_settings \<Rightarrow> lease_id \<Rightarrow> klabels" where
  "manifest_labels S lid = appendLeaseLabels lid (builder_labels S lid)"

definition manifestBuilder_create :: "kube_settings \<Rightarrow> lease_id \<Rightarrow> manifest_group \<Rightarrow> (error + kmanifest) option" where
  "manifestBuilder_create S lid g = map_option (map_sum id (\<lambda>m. \<lparr>km_Labels = manifest_labels S lid, km_Object = m\<rparr>)) (NewManifest (lidNS S lid) lid g)"

definition manifestBuilder_update :: "kube_settings \<Rightarrow> lease_id \<Rightarrow> manifest_group \<Rightarrow> kmanifest \<Rightarrow> (error + kmanifest) option" where
  "manifestBuilder_update S lid g obj = map_option (map_sum id (\<lambda>m. \<lparr>km_Labels = manifest_labels S lid,
     km_Object = m\<lparr>cm_Name := cm_Name (km_Object obj)\<rparr>\<rparr>)) (NewManifest (lidNS S lid) lid g)"

end
