(* ===== verification/Kube_Client.thy ===== *)
theory Kube_Client
  imports Kube_Builder
begin

text \<open>
  How a lease's objects get into the cluster and out of it (\<^verbatim>\<open>provider/cluster/kube/apply.go\<close>, \<^verbatim>\<open>cleanup.go\<close> and
  \<^verbatim>\<open>Deploy\<close>, \<^verbatim>\<open>TeardownLease\<close>, \<^verbatim>\<open>Deployments\<close> of \<^verbatim>\<open>client.go\<close>).  The calls of the Kubernetes API are arguments, one record per
  kind of object; a call that fails may or may not have had an effect.  A selector is the set of labels it matches.
\<close>

subsection \<open>The API\<close>

datatype api_error = ApiNotFound | ApiError error

record ('c, 'a) kind_api =
  api_get :: "string \<Rightarrow> string \<Rightarrow> 'c \<Rightarrow> api_error + 'a"
  api_create :: "string \<Rightarrow> 'a \<Rightarrow> 'c \<Rightarrow> error option \<times> 'c"
  api_update :: "string \<Rightarrow> 'a \<Rightarrow> 'c \<Rightarrow> error option \<times> 'c"
  api_list :: "string \<Rightarrow> (klabels \<Rightarrow> bool) \<Rightarrow> 'c \<Rightarrow> error + 'a list"
  api_delete :: "string \<Rightarrow> string \<Rightarrow> 'c \<Rightarrow> error option \<times> 'c"
  api_deleteCollection :: "string \<Rightarrow> (klabels \<Rightarrow> bool) \<Rightarrow> 'c \<Rightarrow> error option \<times> 'c"

record 'c kube_api =
  Namespaces :: "('c, knamespace) kind_api"
  NetworkPolicies :: "('c, knetwork_policy) kind_api"
  Manifests :: "('c, kmanifest) kind_api"
  Deployments :: "('c, kdeployment) kind_api"
  Services :: "('c, kservice) kind_api"
  Ingresses :: "('c, kingress) kind_api"
  NewRequirement :: "string \<Rightarrow> string list \<Rightarrow> error option"

definition api_call :: "('c \<Rightarrow> error option \<times> 'c) \<Rightarrow> (unit, 'c) act" where
  "api_call f c = (case f c of (None, c') \<Rightarrow> Ok () c' | (Some e, c') \<Rightarrow> Err e c')"

subsection \<open>Create or update\<close>

text \<open>The shape all \<^verbatim>\<open>apply\<close> functions share; building an object may fail or panic.\<close>

definition apply_object ::
  "('c, 'a) kind_api \<Rightarrow> string \<Rightarrow> string \<Rightarrow> (error + 'a) option \<Rightarrow> ('a \<Rightarrow> (error + 'a) option) \<Rightarrow> (unit, 'c) act" where
  "apply_object api ns name create update = bind (gets (api_get api ns name)) (\<lambda>r. case r of
     Inr obj \<Rightarrow> bind (or_panic (update obj)) (\<lambda>x. bind (or_throw x) (\<lambda>obj. api_call (api_update api ns obj)))
   | Inl ApiNotFound \<Rightarrow> bind (or_panic create) (\<lambda>x. bind (or_throw x) (\<lambda>obj. api_call (api_create api ns obj)))
   | Inl (ApiError e) \<Rightarrow> throw e)"

definition built :: "'a \<Rightarrow> (error + 'a) option" where
  "built x = Some (Inr x)"

definition applyNS :: "'c kube_api \<Rightarrow> kube_settings \<Rightarrow> lease_id \<Rightarrow> (unit, 'c) act" where
  "applyNS A S lid = apply_object (Namespaces A) [] (lidNS S lid) (built (nsBuilder_create S lid)) (\<lambda>obj. built (nsBuilder_update S lid obj))"

text \<open>One policy: what is sent is always the new policy, also when there was one.\<close>

definition apply_policy :: "'c kube_api \<Rightarrow> kube_settings \<Rightarrow> lease_id \<Rightarrow> knetwork_policy \<Rightarrow> (unit, 'c) act" where
  "apply_policy A S lid pol = bind (gets (api_get (NetworkPolicies A) (lidNS S lid) (np_Name pol))) (\<lambda>r. case r of
     Inr obj \<Rightarrow> api_call (api_update (NetworkPolicies A) (lidNS S lid) pol)
   | Inl ApiNotFound \<Rightarrow> api_call (api_create (NetworkPolicies A) (lidNS S lid) pol)
   | Inl (ApiError e) \<Rightarrow> throw e)"

text \<open>The loop stops at an error, but the error is a variable of the loop's body and is not returned.\<close>

definition applyNetPolicies :: "'c kube_api \<Rightarrow> kube_settings \<Rightarrow> lease_id \<Rightarrow> manifest_group \<Rightarrow> (unit, 'c) act" where
  "applyNetPolicies A S lid g = bind (attempt (Prelude.each (apply_policy A S lid) (netPolBuilder_create S lid g))) (\<lambda>_. ret ())"

definition applyDeployment :: "'c kube_api \<Rightarrow> kube_settings \<Rightarrow> lease_id \<Rightarrow> service \<Rightarrow> (unit, 'c) act" where
  "applyDeployment A S lid svc = apply_object (Deployments A) (lidNS S lid) (svc_Name svc)
     (map_option Inr (deploymentBuilder_create S lid svc)) (\<lambda>obj. map_option Inr (deploymentBuilder_update S lid svc obj))"

definition applyService :: "'c kube_api \<Rightarrow> kube_settings \<Rightarrow> bool \<Rightarrow> lease_id \<Rightarrow> service \<Rightarrow> (unit, 'c) act" where
  "applyService A S requireNodePort lid svc = apply_object (Services A) (lidNS S lid) (serviceBuilder_name requireNodePort svc)
     (Some (serviceBuilder_create S requireNodePort lid svc)) (\<lambda>obj. Some (serviceBuilder_update S requireNodePort lid svc obj))"

definition applyIngress :: "'c kube_api \<Rightarrow> kube_settings \<Rightarrow> lease_id \<Rightarrow> service \<Rightarrow> service_expose \<Rightarrow> (unit, 'c) act" where
  "applyIngress A S lid svc e = apply_object (Ingresses A) (lidNS S lid) (svc_Name svc)
     (built (ingressBuilder_create S lid svc e)) (\<lambda>obj. built (ingressBuilder_update S lid svc e obj))"

definition applyManifest :: "'c kube_api \<Rightarrow> kube_settings \<Rightarrow> string \<Rightarrow> lease_id \<Rightarrow> manifest_group \<Rightarrow> (unit, 'c) act" where
  "applyManifest A S ns lid g = apply_object (Manifests A) ns (lidNS S lid) (manifestBuilder_create S lid g) (manifestBuilder_update S lid g)"

definition prepareEnvironment :: "'c kube_api \<Rightarrow> string \<Rightarrow> (unit, 'c) act" where
  "prepareEnvironment A ns = bind (gets (api_get (Namespaces A) [] ns)) (\<lambda>r. case r of
     Inr _ \<Rightarrow> ret ()
   | Inl ApiNotFound \<Rightarrow> api_call (api_create (Namespaces A) [] \<lparr>kn_Name = ns, kn_Labels = [(virtengineManagedLabelName, ''true'')]\<rparr>)
   | Inl (ApiError e) \<Rightarrow> throw e)"

subsection \<open>Cleaning up\<close>

text \<open>Objects of the provider that belong to no service of the group; without the label an object belongs to none.\<close>

definition stale :: "manifest_group \<Rightarrow> klabels \<Rightarrow> bool" where
  "stale g labels \<longleftrightarrow> (case kv_get labels virtengineManifestServiceLabelName of None \<Rightarrow> True | Some name \<Rightarrow> name \<notin> set (map svc_Name (mg_Services g))) \<and>
     kv_get labels virtengineManagedLabelName = Some ''true''"

definition cleanupStaleResources :: "'c kube_api \<Rightarrow> kube_settings \<Rightarrow> lease_id \<Rightarrow> manifest_group \<Rightarrow> (unit, 'c) act" where
  "cleanupStaleResources A S lid g = (let ns = lidNS S lid in
     bind (case NewRequirement A virtengineManifestServiceLabelName (map svc_Name (mg_Services g)) of Some e \<Rightarrow> throw e | None \<Rightarrow> ret ()) (\<lambda>_.
     bind (case NewRequirement A virtengineManagedLabelName [''true''] of Some e \<Rightarrow> throw e | None \<Rightarrow> ret ()) (\<lambda>_.
     bind (api_call (api_deleteCollection (Deployments A) ns (stale g))) (\<lambda>_.
     bind (api_call (api_deleteCollection (Ingresses A) ns (stale g))) (\<lambda>_.
     bind (gets (api_list (Services A) ns (stale g))) (\<lambda>r.
     bind (or_throw r) (\<lambda>services.
     Prelude.each (\<lambda>svc. api_call (api_delete (Services A) ns (ks_Name svc))) services)))))))"

subsection \<open>Deploying\<close>

definition deploy_service :: "'c kube_api \<Rightarrow> kube_settings \<Rightarrow> lease_id \<Rightarrow> service \<Rightarrow> (unit, 'c) act" where
  "deploy_service A S lid svc =
     bind (applyDeployment A S lid svc) (\<lambda>_.
     if svc_Expose svc = [] then ret () else
     bind (if serviceBuilder_any False svc then applyService A S False lid svc else ret ()) (\<lambda>_.
     bind (if serviceBuilder_any True svc then applyService A S True lid svc else ret ()) (\<lambda>_.
     Prelude.each (applyIngress A S lid svc) (filter ShouldBeIngress (svc_Expose svc)))))"

definition Deploy :: "'c kube_api \<Rightarrow> kube_settings \<Rightarrow> string \<Rightarrow> lease_id \<Rightarrow> manifest_group \<Rightarrow> (unit, 'c) act" where
  "Deploy A S ns lid g =
     bind (applyNS A S lid) (\<lambda>_.
     bind (applyNetPolicies A S lid g) (\<lambda>_.
     bind (applyManifest A S ns lid g) (\<lambda>_.
     bind (cleanupStaleResources A S lid g) (\<lambda>_.
     Prelude.each (deploy_service A S lid) (mg_Services g)))))"

definition TeardownLease :: "'c kube_api \<Rightarrow> kube_settings \<Rightarrow> lease_id \<Rightarrow> (unit, 'c) act" where
  "TeardownLease A S lid = api_call (api_delete (Namespaces A) [] (lidNS S lid))"

text \<open>The leases saved in the cluster; reading stops at the first that cannot be read back, and the error is returned with those before it.\<close>

definition client_Deployments ::
  "'c kube_api \<Rightarrow> 'b env \<Rightarrow> (string \<Rightarrow> string) \<Rightarrow> string \<Rightarrow> 'c \<Rightarrow> error + (lease_id \<times> manifest_group) list" where
  "client_Deployments A E U ns c = (case api_list (Manifests A) ns (\<lambda>_. True) c of Inl e \<Rightarrow> Inl e
     | Inr ms \<Rightarrow> sum_map (\<lambda>m. Manifest_Deployment E U (km_Object m)) ms)"


subsection \<open>Status\<close>

text \<open>What the status calls read of deployments and ingresses beyond what the builders set.\<close>

record kdeployment_status =
  ds_Name :: string
  ds_AvailableReplicas :: "32 word"
  ds_Replicas :: "32 word"
  ds_ObservedGeneration :: "64 word"
  ds_UpdatedReplicas :: "32 word"
  ds_ReadyReplicas :: "32 word"

record kingress_status =
  is_Ingress :: kingress
  is_LoadBalancer :: "(string \<times> string) list"

record service_status =
  ss_Name :: string
  ss_Available :: "32 word"
  ss_Total :: "32 word"
  ss_URIs :: "string list"
  ss_ObservedGeneration :: "64 word"
  ss_Replicas :: "32 word"
  ss_UpdatedReplicas :: "32 word"
  ss_ReadyReplicas :: "32 word"
  ss_AvailableReplicas :: "32 word"

record forwarded_port_status =
  fp_Host :: string
  fp_Port :: "16 word"
  fp_ExternalPort :: "16 word"
  fp_Proto :: string
  fp_Available :: "32 word"
  fp_Name :: string

record kube_lease_status =
  klst_Services :: "service_status kv"
  klst_ForwardedPorts :: "forwarded_port_status list kv"

definition Kube_ErrLeaseNotFound :: error where "Kube_ErrLeaseNotFound = Errorf ''kube: lease not found''"
definition ErrNoDeploymentForLease :: error where "ErrNoDeploymentForLease = Errorf ''kube: no deployments for lease''"
definition ErrNoGlobalServicesForLease :: error where "ErrNoGlobalServicesForLease = Errorf ''kube: no global services for lease''"

definition leaseExists :: "'c kube_api \<Rightarrow> kube_settings \<Rightarrow> lease_id \<Rightarrow> 'c \<Rightarrow> error option" where
  "leaseExists A S lid c = (case api_get (Namespaces A) [] (lidNS S lid) c of Inr _ \<Rightarrow> None
     | Inl ApiNotFound \<Rightarrow> Some Kube_ErrLeaseNotFound | Inl (ApiError e) \<Rightarrow> Some e)"

definition deploymentsForLease :: "error option \<Rightarrow> error + kdeployment_status list \<Rightarrow> error + kdeployment_status list" where
  "deploymentsForLease exists listed = (case exists of Some e \<Rightarrow> Inl e | None \<Rightarrow> (case listed of Inl e \<Rightarrow> Inl e
     | Inr [] \<Rightarrow> Inl ErrNoDeploymentForLease | Inr ds \<Rightarrow> Inr ds))"

definition deployment_status :: "kdeployment_status \<Rightarrow> service_status" where
  "deployment_status d = \<lparr>ss_Name = ds_Name d, ss_Available = ds_AvailableReplicas d, ss_Total = ds_Replicas d, ss_URIs = [],
     ss_ObservedGeneration = ds_ObservedGeneration d, ss_Replicas = ds_Replicas d, ss_UpdatedReplicas = ds_UpdatedReplicas d,
     ss_ReadyReplicas = ds_ReadyReplicas d, ss_AvailableReplicas = ds_AvailableReplicas d\<rparr>"

definition status_hosts :: "kube_settings \<Rightarrow> kingress_status \<Rightarrow> string list" where
  "status_hosts S i = map ir_Host (ki_Rules (is_Ingress i)) @
     (if DeploymentIngressExposeLBHosts S then concat (map (\<lambda>(ip, host). filter (\<lambda>x. x \<noteq> []) [ip, host]) (is_LoadBalancer i)) else [])"

text \<open>The loop over the ingresses, counting those that belong to a deployment.\<close>

primrec ingress_loop :: "kube_settings \<Rightarrow> kingress_status list \<Rightarrow> service_status kv \<Rightarrow> nat \<Rightarrow> service_status kv \<times> nat" where
  "ingress_loop S [] st n = (st, n)"
| "ingress_loop S (i # is) st n = (case kv_get st (ki_Name (is_Ingress i)) of None \<Rightarrow> ingress_loop S is st n
     | Some s \<Rightarrow> ingress_loop S is (kv_set (ki_Name (is_Ingress i)) (s\<lparr>ss_URIs := status_hosts S i\<rparr>) st) (Suc n))"

text \<open>A node port the cluster has given, with a protocol the provider knows.\<close>

definition forwarded_ports :: "kube_settings \<Rightarrow> string \<Rightarrow> service_status \<Rightarrow> kservice_port list \<Rightarrow> forwarded_port_status list" where
  "forwarded_ports S name st ports = map (\<lambda>p. \<lparr>fp_Host = ClusterPublicHostname S, fp_Port = ucast (sp_TargetPort p), fp_ExternalPort = ucast (sp_NodePort p),
     fp_Proto = sp_Protocol p, fp_Available = ss_Available st, fp_Name = name\<rparr>)
     (filter (\<lambda>p. 0 <s sp_NodePort p \<and> (sp_Protocol p = TCP \<or> sp_Protocol p = UDP)) ports)"

text \<open>Cutting the suffix off a name that is shorter than it panics.\<close>

primrec node_port_loop :: "kube_settings \<Rightarrow> service_status kv \<Rightarrow> kservice list \<Rightarrow> forwarded_port_status list kv \<Rightarrow> nat \<Rightarrow>
    (forwarded_port_status list kv \<times> nat) option" where
  "node_port_loop S st [] fw n = Some (fw, n)"
| "node_port_loop S st (svc # svcs) fw n = (if ks_Type svc \<noteq> ServiceTypeNodePort then node_port_loop S st svcs fw n
     else if length (ks_Name svc) < length ''-np'' then None
     else (let name = take (length (ks_Name svc) - length ''-np'') (ks_Name svc) in
       case kv_get st name of None \<Rightarrow> node_port_loop S st svcs fw n
       | Some d \<Rightarrow> if ks_Ports svc = [] then node_port_loop S st svcs fw n
           else (let ports = forwarded_ports S name d (ks_Ports svc) in node_port_loop S st svcs (kv_set name ports fw) (n + length ports))))"

definition LeaseStatus ::
  "kube_settings \<Rightarrow> error + kdeployment_status list \<Rightarrow> error + kingress_status list \<Rightarrow> error + kservice list \<Rightarrow> (error + kube_lease_status) option" where
  "LeaseStatus S deps ings svcs = (case deps of Inl e \<Rightarrow> Some (Inl e) | Inr deps \<Rightarrow> (case ings of Inl e \<Rightarrow> Some (Inl e) | Inr ings \<Rightarrow>
     (case svcs of Inl e \<Rightarrow> Some (Inl e) | Inr svcs \<Rightarrow>
       let st = foldl (\<lambda>st d. kv_set (ds_Name d) (deployment_status d) st) [] deps;
         (st, n) = ingress_loop S ings st 0 in
       map_option (\<lambda>(fw, n). if n = 0 then Inl ErrNoGlobalServicesForLease else Inr \<lparr>klst_Services = st, klst_ForwardedPorts = fw\<rparr>)
         (node_port_loop S st svcs [] n))))"

text \<open>The status of one service.  Whether it has an ingress is read off the saved manifest.\<close>

definition ErrNoServiceForLease :: error where "ErrNoServiceForLease = Errorf ''no service for that lease''"

primrec expose_check :: "(string \<Rightarrow> string) \<Rightarrow> crd_expose list \<Rightarrow> error + bool" where
  "expose_check U [] = Inr False"
| "expose_check U (x # xs) = (case ParseServiceProtocol U (ce_Proto x) of Inl e \<Rightarrow> Inl e
     | Inr proto \<Rightarrow> if ShouldBeIngress \<lparr>se_Port = ce_Port x, se_ExternalPort = ce_ExternalPort x, se_Proto = proto, se_Service = ce_Service x,
           se_Global = ce_Global x, se_Hosts = ce_Hosts x\<rparr> then Inr True
         else expose_check U xs)"

text \<open>Found, and with an ingress; the loop ends at the first ingress.\<close>

primrec exposeCheckLoop :: "(string \<Rightarrow> string) \<Rightarrow> string \<Rightarrow> crd_service list \<Rightarrow> bool \<Rightarrow> error + bool \<times> bool" where
  "exposeCheckLoop U name [] found = Inr (found, False)"
| "exposeCheckLoop U name (s # ss) found = (if cs_Name s = name then
     (case expose_check U (cs_Expose s) of Inl e \<Rightarrow> Inl e | Inr True \<Rightarrow> Inr (True, True) | Inr False \<Rightarrow> exposeCheckLoop U name ss True)
     else exposeCheckLoop U name ss found)"

definition client_ServiceStatus ::
  "kube_settings \<Rightarrow> (string \<Rightarrow> string) \<Rightarrow> string \<Rightarrow> error option \<Rightarrow> error + kdeployment_status option \<Rightarrow> error + crd_manifest \<Rightarrow>
     error + kingress_status \<Rightarrow> error + service_status" where
  "client_ServiceStatus S U name exists dep obj ing = (case exists of Some e \<Rightarrow> Inl e | None \<Rightarrow> (case dep of Inl e \<Rightarrow> Inl e | Inr None \<Rightarrow> Inl ErrNoDeploymentForLease
     | Inr (Some d) \<Rightarrow> (case obj of Inl e \<Rightarrow> Inl e | Inr m \<Rightarrow> (case exposeCheckLoop U name (cg_Services (cm_Group m)) False of Inl e \<Rightarrow> Inl e
     | Inr (found, hasIngress) \<Rightarrow> if \<not> found then Inl ErrNoServiceForLease
         else if hasIngress then map_sum id (\<lambda>i. deployment_status d\<lparr>ss_URIs := status_hosts S i\<rparr>) ing
         else Inr (deployment_status d)))))"

end
