(* ===== verification/Kube_Builder_Properties.thy ===== *)
theory Kube_Builder_Properties
  imports Kube_Builder
begin

text \<open>
  What the objects made of a lease have: names of their own, all environment variables, every exposed port in exactly one
  service, and node ports that survive updates.
\<close>

subsection \<open>Namespaces\<close>

lemma quintets_length: "length (quintets bs) = (length bs + 4) div 5"
proof (induction bs rule: quintets.induct)
  case (2 b bs)
  then show ?case by (cases "length bs < 4") simp_all
qed simp

lemma quintets_five: "list_all (\<lambda>q. length q = 5) (quintets bs)"
  by (induction bs rule: quintets.induct) simp_all

lemma take_padded_inj:
  assumes "take n (xs @ replicate n z) = take n (ys @ replicate n z)" "length xs = length ys"
  shows "take n xs = take n ys"
  using assms by (simp add: append_eq_append_conv)

lemma quintets_inj: "quintets xs = quintets ys \<Longrightarrow> length xs = length ys \<Longrightarrow> xs = ys"
proof (induction xs arbitrary: ys rule: quintets.induct)
  case (2 x xs)
  from "2.prems" obtain y ys' where ys: "ys = y # ys'" "length xs = length ys'" by (cases ys) auto
  with "2.prems" have "x = y" "take 4 (xs @ replicate 4 False) = take 4 (ys' @ replicate 4 False)" "quintets (drop 4 xs) = quintets (drop 4 ys')"
    by (simp_all add: eval_nat_numeral)
  then have "take 4 xs = take 4 ys'" "drop 4 xs = drop 4 ys'" using ys take_padded_inj [of 4 xs False ys'] "2.IH" by simp_all
  then have "xs = ys'" using append_take_drop_id [of 4 xs] append_take_drop_id [of 4 ys'] by metis
  then show ?case using \<open>x = y\<close> ys(1) by simp
qed simp

definition dns_digit :: "bool list \<Rightarrow> char" where
  "dns_digit q = lower_char (base32_digit q)"

lemma quintet_cases: "length q = 5 \<Longrightarrow> q \<in> set (List.n_lists 5 [False, True])"
  by (auto simp: set_n_lists)

lemma dns_digits: "inj_on dns_digit {q. length q = 5}" "length q = 5 \<Longrightarrow> name_char (dns_digit q)"
proof -
  have "distinct (map dns_digit (List.n_lists 5 [False, True]))" by code_simp
  then have "inj_on dns_digit (set (List.n_lists 5 [False, True]))" by (simp add: distinct_map)
  then show "inj_on dns_digit {q. length q = 5}" by (rule inj_on_subset) (use quintet_cases in blast)
  have "list_all (\<lambda>q. name_char (dns_digit q)) (List.n_lists 5 [False, True])" by code_simp
  then show "length q = 5 \<Longrightarrow> name_char (dns_digit q)" using quintet_cases by (auto simp: list_all_iff)
qed


lemma lidNS_digits: "lidNS S lid = map dns_digit (quintets (concat (map byte_bits (Sum224 S (BidID_String lid)))))"
  by (simp add: lidNS_def EncodeToString_def dns_digit_def comp_def)

lemma byte_bits_inj: "byte_bits c = byte_bits d \<longleftrightarrow> c = d" "length (byte_bits c) = 8"
  by (cases c; cases d; auto simp: byte_bits_def)+

lemma concat_bytes: "length (concat (map byte_bits s)) = 8 * length s"
  by (induction s) (simp_all add: byte_bits_inj)

lemma concat_bytes_inj: "concat (map byte_bits s) = concat (map byte_bits t) \<Longrightarrow> length s = length t \<Longrightarrow> s = t"
proof (induction s arbitrary: t)
  case (Cons c s)
  then obtain d u where "t = d # u" by (cases t) auto
  with Cons show ?case using append_eq_append_conv [of "byte_bits c" "byte_bits d"] by (simp add: byte_bits_inj)
qed simp

lemma EncodeToString_lower_inj:
  assumes "map dns_digit (quintets (concat (map byte_bits s))) = map dns_digit (quintets (concat (map byte_bits t)))" "length s = length t"
  shows "s = t"
proof -
  have "inj_on dns_digit (set (quintets (concat (map byte_bits s))) \<union> set (quintets (concat (map byte_bits t))))"
    by (rule inj_on_subset [OF dns_digits(1)]) (use quintets_five in \<open>auto simp: list_all_iff\<close>)
  then have "quintets (concat (map byte_bits s)) = quintets (concat (map byte_bits t))" using assms(1) by (simp add: inj_on_map_eq_map)
  then show ?thesis using quintets_inj concat_bytes_inj assms(2) concat_bytes by metis
qed

lemma lease_string_inj:
  assumes "CHR ''/'' \<notin> set (bid_Provider i)" "CHR ''/'' \<notin> set (bid_Provider j)" "BidID_String i = BidID_String j"
  shows "i = j"
proof (rule LeasePath_inj [OF assms(1,2)])
  have "LeasePath k = ''lease/'' @ BidID_String k" for k
    by (simp add: LeasePath_def orderParts_def BidID_String_def OrderID_String_def GroupID_String_def DeploymentID_String_def
      OrderID_GroupID_def GroupID_DeploymentID_def)
  then show "LeasePath i = LeasePath j" using assms(3) by simp
qed

text \<open>
  Leases do not share a namespace, and a namespace's name is one Kubernetes accepts: if the hash has 28 bytes and does not
  collide on the two leases, the names are equal only for the same lease, and a name is 45 characters, lower-case letters
  and digits.
\<close>
lemma lidNS_separates:
  assumes "\<And>x. length (Sum224 S x) = 28" and "inj_on (Sum224 S) {BidID_String i, BidID_String j}"
    and "CHR ''/'' \<notin> set (bid_Provider i)" and "CHR ''/'' \<notin> set (bid_Provider j)"
  shows "(lidNS S i = lidNS S j \<longleftrightarrow> i = j) \<and> length (lidNS S i) = 45 \<and> list_all name_char (lidNS S i)"
proof (intro conjI)
  have "Sum224 S (BidID_String i) = Sum224 S (BidID_String j)" if "lidNS S i = lidNS S j"
    by (rule EncodeToString_lower_inj [OF that [unfolded lidNS_digits]]) (simp add: assms(1))
  then show "lidNS S i = lidNS S j \<longleftrightarrow> i = j" using assms(2) lease_string_inj [OF assms(3,4)] by (auto simp: inj_on_def)
  show "length (lidNS S i) = 45" by (simp add: lidNS_digits quintets_length concat_bytes assms(1))
  have "name_char (dns_digit q)" if "q \<in> set (quintets bs)" for q bs using that quintets_five [of bs] dns_digits(2) by (simp add: list_all_iff)
  then show "list_all name_char (lidNS S i)" by (simp add: lidNS_digits list_all_iff)
qed

subsection \<open>Environment\<close>

lemma add_vars:
  "foldl (\<lambda>env (k, v). addIfNotPresent added env k v) env vars = env @ filter (\<lambda>(k, v). k \<notin> added) vars"
  by (induction vars arbitrary: env) (auto simp: addIfNotPresent_def)

text \<open>The tenant's variables come first and win; each of the provider's six is there, and none twice.\<close>

lemma container_env_spec:
  "container_env S lid svc = map env_var (svc_Env svc) @ filter (\<lambda>(k, v). k \<notin> fst ` set (map env_var (svc_Env svc))) (deployment_vars S lid)"
  by (simp add: container_env_def addEnvVarsForDeployment_def add_vars Let_def)

lemma container_env_complete:
  assumes "distinct (map (fst \<circ> env_var) (svc_Env svc))"
  shows "distinct (map fst (container_env S lid svc)) \<and> fst ` set (deployment_vars S lid) \<subseteq> fst ` set (container_env S lid svc)"
proof -
  have "distinct (map fst (deployment_vars S lid))" by (simp add: deployment_vars_def)
  then have "distinct (map fst (filter P (deployment_vars S lid)))" for P by (rule distinct_map_filter)
  moreover have "k \<in> fst ` set (map env_var (svc_Env svc)) \<or> (k, v) \<in> set (filter (\<lambda>(k, v). k \<notin> fst ` set (map env_var (svc_Env svc))) (deployment_vars S lid))"
    if "(k, v) \<in> set (deployment_vars S lid)" for k v using that by simp
  then have "fst ` set (deployment_vars S lid) \<subseteq> fst ` set (container_env S lid svc)" unfolding container_env_spec set_append image_Un by force
  ultimately show ?thesis using assms by (auto simp: container_env_spec comp_def)
qed

subsection \<open>Ports\<close>

definition by_node_port :: "service_expose \<Rightarrow> bool" where
  "by_node_port e \<longleftrightarrow> se_Global e \<and> \<not> ShouldBeIngress e"

definition service_port :: "nat \<times> service_expose \<Rightarrow> kservice_port" where
  "service_port ie = (case ie of (i, e) \<Rightarrow> \<lparr>sp_Name = FormatUint i @ ''-'' @ FormatWord (ExposeExternalPort e), sp_Port = ExposeExternalPort e,
     sp_TargetPort = ucast (se_Port e), sp_Protocol = se_Proto e, sp_NodePort = 0\<rparr>)"

lemma chosen_port: "((se_Global e = b \<or> (\<not> b \<and> ShouldBeIngress e)) \<and> \<not> (b \<and> ShouldBeIngress e)) \<longleftrightarrow> by_node_port e = b"
  by (auto simp: by_node_port_def ShouldBeIngress_def)

lemma ports_loop_spec:
  assumes "list_all (\<lambda>e. se_Proto e = TCP \<or> se_Proto e = UDP) es"
  shows "ports_loop b i es = Inr (map service_port (filter (\<lambda>(_, e). by_node_port e = b) (enumerate i es)))"
  using assms
proof (induction es arbitrary: i)
  case (Cons e es)
  then show ?case unfolding ports_loop.simps chosen_port by (auto simp: service_port_def)
qed simp

lemma filter_enumerate_empty: "filter (\<lambda>(_, e). P e) (enumerate n es) = [] \<longleftrightarrow> \<not> list_ex P es"
  by (induction es arbitrary: n) simp_all

lemma any_spec: "serviceBuilder_any b svc \<longleftrightarrow> list_ex (\<lambda>e. by_node_port e = b) (svc_Expose svc)"
  by (auto simp: serviceBuilder_any_def by_node_port_def ShouldBeIngress_def list_ex_iff)


lemma dash_not_digit: "\<not> is_digit (CHR ''-'')"
  by code_simp

lemma port_name_index: "sp_Name (service_port (i, e)) = sp_Name (service_port (j, f)) \<Longrightarrow> i = j"
proof -
  have digits: "CHR ''-'' \<notin> set (FormatUint i)" for i using FormatUint_digits [of i] dash_not_digit by (auto simp: list_all_iff)
  assume "sp_Name (service_port (i, e)) = sp_Name (service_port (j, f))"
  then have "takeWhile (\<lambda>c. c \<noteq> CHR ''-'') (FormatUint i @ CHR ''-'' # FormatWord (ExposeExternalPort e)) =
      takeWhile (\<lambda>c. c \<noteq> CHR ''-'') (FormatUint j @ CHR ''-'' # FormatWord (ExposeExternalPort f))" by (simp add: service_port_def)
  then have "FormatUint i = FormatUint j" using digits [of i] digits [of j] by (simp add: takeWhile_append split: if_splits)
  then show "i = j" by (simp add: FormatUint_inj)
qed

lemma port_names_distinct: "distinct (map sp_Name (map service_port (filter P (enumerate n es))))"
proof -
  have index: "x = y" if "x \<in> set (enumerate n es)" "y \<in> set (enumerate n es)" "fst x = fst y" for x y
    using that by (auto simp: in_set_enumerate_eq prod_eq_iff)
  then have "inj_on (sp_Name \<circ> service_port) (set (filter P (enumerate n es)))"
    using port_name_index by (intro inj_onI) (metis (no_types) comp_apply filter_is_subset prod.collapse subsetD)
  then show ?thesis by (simp add: distinct_map comp_def)
qed

text \<open>The exposed ports of one kind, each with its place in the manifest.\<close>

definition exposed_ports :: "bool \<Rightarrow> service \<Rightarrow> kservice_port list" where
  "exposed_ports b svc = map service_port (filter (\<lambda>(_, e). by_node_port e = b) (enumerate 0 (svc_Expose svc)))"

lemma serviceBuilder_ports_spec:
  assumes "list_all (\<lambda>e. se_Proto e = TCP \<or> se_Proto e = UDP) (svc_Expose svc)"
  shows "serviceBuilder_ports b svc = (if exposed_ports b svc = [] then Inl errInvalidServiceBuilder else Inr (exposed_ports b svc))"
    "serviceBuilder_any b svc \<longleftrightarrow> exposed_ports b svc \<noteq> []"
proof -
  show "serviceBuilder_ports b svc = (if exposed_ports b svc = [] then Inl errInvalidServiceBuilder else Inr (exposed_ports b svc))"
    by (auto simp: serviceBuilder_ports_def ports_loop_spec [OF assms(1)] exposed_ports_def split: list.splits)
  show "serviceBuilder_any b svc \<longleftrightarrow> exposed_ports b svc \<noteq> []" by (simp add: any_spec filter_enumerate_empty exposed_ports_def)
qed

text \<open>
  Every port a service exposes is reachable through exactly one Kubernetes service: for known protocols the
  node-port service has, in order, the global ports that do not go through the ingress, and the cluster service all others; port names are
  all different; and a service is made exactly when it has a port.
\<close>
lemma service_ports_exact:
  assumes "list_all (\<lambda>e. se_Proto e = TCP \<or> se_Proto e = UDP) (svc_Expose svc)"
  shows "serviceBuilder_ports b svc = (if exposed_ports b svc = [] then Inl errInvalidServiceBuilder else Inr (exposed_ports b svc)) \<and>
    (serviceBuilder_any b svc \<longleftrightarrow> (\<exists>ports. serviceBuilder_ports b svc = Inr ports)) \<and>
    (\<forall>ports. serviceBuilder_ports b svc = Inr ports \<longrightarrow> distinct (map sp_Name ports))"
  using serviceBuilder_ports_spec [OF assms, of b] port_names_distinct by (auto simp: exposed_ports_def)

subsection \<open>Updates keep node ports\<close>

lemma retain_port_cases:
  "retain_port cur p = p \<and> \<not> list_ex (\<lambda>q. same_port q p) cur \<or> retain_port cur p \<in> set cur \<and> same_port (retain_port cur p) p"
proof (induction cur rule: rev_induct)
  case (snoc x xs)
  then show ?case by (auto simp: retain_port_def)
qed (simp add: retain_port_def)

lemma retain_port_spec:
  "if list_ex (\<lambda>q. same_port q p) cur then retain_port cur p \<in> set cur \<and> same_port (retain_port cur p) p else retain_port cur p = p"
  using retain_port_cases [of cur p] by (auto simp: list_ex_iff)

text \<open>
  After an update a node-port service has the ports of the new group in order; one that was there before, unchanged, keeps the number
  the cluster gave it.
\<close>

lemma serviceBuilder_update_ports:
  assumes "serviceBuilder_update S True lid svc obj = Inr obj'" "serviceBuilder_ports True svc = Inr ports"
  shows "list_all2 (\<lambda>p' p. if list_ex (\<lambda>q. same_port q p) (ks_Ports obj) then p' \<in> set (ks_Ports obj) \<and> same_port p' p else p' = p) (ks_Ports obj') ports"
proof -
  have "ks_Ports obj' = map (retain_port (ks_Ports obj)) ports" using assms by (auto simp: serviceBuilder_update_def Let_def)
  then show ?thesis by (simp add: list_all2_conv_all_nth retain_port_spec [simplified])
qed


subsection \<open>Examples\<close>

definition demo_kube :: kube_settings where
  "demo_kube = \<lparr>DeploymentIngressStaticHosts = False, DeploymentIngressDomain = [], DeploymentIngressExposeLBHosts = False,
     ClusterPublicHostname = ''cluster.example'', NetworkPoliciesEnabled = True,
     commitSettings = \<lparr>commitCPU = id, commitMemory = id, commitStorage = id\<rparr>, DeploymentRuntimeClass = [],
     Sum224 = (\<lambda>x. take 28 (x @ replicate 28 (CHR ''0''))), NewV5 = (\<lambda>x. take 16 (x @ replicate 16 (CHR ''0'')))\<rparr>"

definition demo_kube_lease :: "32 word \<Rightarrow> lease_id" where
  "demo_kube_lease n = \<lparr>bid_Owner = ''owner'', bid_DSeq = 1, bid_GSeq = 1, bid_OSeq = n, bid_Provider = ''prova''\<rparr>"

definition demo_web :: service where
  "demo_web = hd (mg_Services demo_mgroup)"

definition demo_web_expose :: "16 word \<Rightarrow> 16 word \<Rightarrow> bool \<Rightarrow> string \<Rightarrow> service_expose" where
  "demo_web_expose p q glob h = \<lparr>se_Port = p, se_ExternalPort = q, se_Proto = TCP, se_Service = [], se_Global = glob, se_Hosts = [h]\<rparr>"

end
