(* ===== verification/Kube_Client_Properties.thy ===== *)
theory Kube_Client_Properties
  imports Kube_Client Kube_Builder_Properties
begin

text \<open>
  What a successful deployment leaves in the cluster.  Of the API it is assumed what Kubernetes documents: a successful call has its
  effect on the named objects, and calls on one kind of object do not touch another.
\<close>

subsection \<open>What is assumed of the API\<close>

definition kind_laws :: "('c, 'a) kind_api \<Rightarrow> ('c \<Rightarrow> string \<Rightarrow> string \<Rightarrow> 'a option) \<Rightarrow> ('a \<Rightarrow> string) \<Rightarrow> ('a \<Rightarrow> klabels) \<Rightarrow> bool" where
  "kind_laws api look nm lab \<longleftrightarrow>
     (\<forall>ns n c x. api_get api ns n c = Inr x \<longrightarrow> look c ns n = Some x \<and> nm x = n) \<and>
     (\<forall>ns x c c'. api_create api ns x c = (None, c') \<longrightarrow> look c' = (look c)(ns := (look c ns)(nm x \<mapsto> x))) \<and>
     (\<forall>ns x c c'. api_update api ns x c = (None, c') \<longrightarrow> look c' = (look c)(ns := (look c ns)(nm x \<mapsto> x))) \<and>
     (\<forall>ns sel c c'. api_deleteCollection api ns sel c = (None, c') \<longrightarrow>
        look c' = (look c)(ns := (\<lambda>n. case look c ns n of None \<Rightarrow> None | Some x \<Rightarrow> if sel (lab x) then None else Some x)))"

definition untouched :: "('c, 'a) kind_api \<Rightarrow> ('c \<Rightarrow> 'd) \<Rightarrow> bool" where
  "untouched api look \<longleftrightarrow> (\<forall>ns x c. look (snd (api_create api ns x c)) = look c) \<and> (\<forall>ns x c. look (snd (api_update api ns x c)) = look c)"

definition untouched_by_delete :: "('c, 'a) kind_api \<Rightarrow> ('c \<Rightarrow> 'd) \<Rightarrow> bool" where
  "untouched_by_delete api look \<longleftrightarrow> (\<forall>ns x c. look (snd (api_delete api ns x c)) = look c) \<and>
     (\<forall>ns x c. look (snd (api_deleteCollection api ns x c)) = look c)"

definition kube_laws :: "'c kube_api \<Rightarrow> ('c \<Rightarrow> string \<Rightarrow> string \<Rightarrow> kdeployment option) \<Rightarrow> bool" where
  "kube_laws A look \<longleftrightarrow> kind_laws (Deployments A) look kd_Name kd_Labels \<and> untouched (Namespaces A) look \<and> untouched (NetworkPolicies A) look \<and>
     untouched (Manifests A) look \<and> untouched (Services A) look \<and> untouched_by_delete (Services A) look \<and>
     untouched (Ingresses A) look \<and> untouched_by_delete (Ingresses A) look"

subsection \<open>Calls that leave deployments alone\<close>

lemma api_call_keeps: "(\<And>c. look (snd (f c)) = look c) \<Longrightarrow> keeps (\<lambda>c. look c = L) (api_call f)"
  by (auto simp: keeps_def hoare_def api_call_def split: prod.splits option.splits) (metis snd_conv)+

lemma keeps_case_api_error:
  "keeps I m \<Longrightarrow> (\<And>e. keeps I (f e)) \<Longrightarrow> keeps I (case x of ApiNotFound \<Rightarrow> m | ApiError e \<Rightarrow> f e)"
  by (cases x) simp_all

lemmas api_rules = keeps_rules keeps_case_api_error

lemma untouched_calls:
  assumes "untouched api look"
  shows "keeps (\<lambda>c. look c = L) (api_call (api_create api ns x))" "keeps (\<lambda>c. look c = L) (api_call (api_update api ns x))"
  using assms by (auto intro!: api_call_keeps simp: untouched_def)

lemma untouched_deletes:
  assumes "untouched_by_delete api look"
  shows "keeps (\<lambda>c. look c = L) (api_call (api_delete api ns n))" "keeps (\<lambda>c. look c = L) (api_call (api_deleteCollection api ns sel))"
  using assms by (auto intro!: api_call_keeps simp: untouched_by_delete_def)

lemma apply_object_keeps: "untouched api look \<Longrightarrow> keeps (\<lambda>c. look c = L) (apply_object api ns n cr up)"
  unfolding apply_object_def by (intro api_rules untouched_calls)

lemma kube_laws_parts:
  assumes "kube_laws A look"
  shows "keeps (\<lambda>c. look c = L) (applyNS A S lid)" "keeps (\<lambda>c. look c = L) (applyNetPolicies A S lid g)"
    "keeps (\<lambda>c. look c = L) (applyManifest A S ns lid g)" "keeps (\<lambda>c. look c = L) (applyService A S b lid svc)"
    "keeps (\<lambda>c. look c = L) (applyIngress A S lid svc e)"
  using assms
  by (auto simp: kube_laws_def applyNS_def applyManifest_def applyService_def applyIngress_def applyNetPolicies_def apply_policy_def
    intro!: apply_object_keeps api_rules untouched_calls)

text \<open>Network policies that cannot be applied are not reported: the call never fails.\<close>

lemma applyNetPolicies_never_fails: "applyNetPolicies A S lid g c \<noteq> Err e c'"
  by (auto simp: applyNetPolicies_def bind_def attempt_def ret_def split: outcome.splits)

subsection \<open>What is deployed\<close>

definition runs_service :: "kube_settings \<Rightarrow> lease_id \<Rightarrow> service \<Rightarrow> kdeployment \<Rightarrow> bool" where
  "runs_service S lid svc d \<longleftrightarrow> (\<exists>k. build_container S lid svc = Some k \<and> kd_Containers d = [k]) \<and> kd_Name d = svc_Name svc \<and>
     kd_Replicas d = svc_Count svc \<and> kd_Labels d = deployment_labels S lid svc"

lemma api_call_Ok: "api_call f c = Ok () c' \<longleftrightarrow> f c = (None, c')"
  by (auto simp: api_call_def split: prod.splits option.splits)

lemma applyDeployment_effect:
  assumes "kube_laws A look" "applyDeployment A S lid svc c = Ok () c'"
  shows "\<exists>d. look c' = (look c)(lidNS S lid := (look c (lidNS S lid))(svc_Name svc \<mapsto> d)) \<and> runs_service S lid svc d"
proof -
  have laws: "kind_laws (Deployments A) look kd_Name kd_Labels" using assms(1) by (simp add: kube_laws_def)
  show ?thesis
  proof (cases "api_get (Deployments A) (lidNS S lid) (svc_Name svc) c")
    case (Inr obj)
    then obtain d where d: "deploymentBuilder_update S lid svc obj = Some d" "api_update (Deployments A) (lidNS S lid) d c = (None, c')"
      using assms(2) by (auto simp: applyDeployment_def apply_object_def bind_Ok_iff gets_def or_panic_def or_throw_def ret_def panic_def api_call_Ok split: option.splits)
    have "kd_Name obj = svc_Name svc" using laws Inr by (auto simp: kind_laws_def)
    then have runs: "runs_service S lid svc d" "kd_Name d = svc_Name svc" using d(1) by (auto simp: deploymentBuilder_update_def runs_service_def Let_def)
    then show ?thesis using laws d(2) unfolding kind_laws_def by metis
  next
    case (Inl e)
    then obtain d where d: "deploymentBuilder_create S lid svc = Some d" "api_create (Deployments A) (lidNS S lid) d c = (None, c')"
      using assms(2) by (auto simp: applyDeployment_def apply_object_def bind_Ok_iff gets_def or_panic_def or_throw_def ret_def panic_def throw_def
        api_call_Ok split: option.splits api_error.splits)
    have runs: "runs_service S lid svc d" "kd_Name d = svc_Name svc" using d(1) by (auto simp: deploymentBuilder_create_def runs_service_def Let_def)
    then show ?thesis using laws d(2) unfolding kind_laws_def by metis
  qed
qed

lemma deploy_service_effect:
  assumes "kube_laws A look" "deploy_service A S lid svc c = Ok () c'"
  shows "\<exists>d. look c' = (look c)(lidNS S lid := (look c (lidNS S lid))(svc_Name svc \<mapsto> d)) \<and> runs_service S lid svc d"
proof -
  let ?m = "if svc_Expose svc = [] then ret () else
     bind (if serviceBuilder_any False svc then applyService A S False lid svc else ret ()) (\<lambda>_.
     bind (if serviceBuilder_any True svc then applyService A S True lid svc else ret ()) (\<lambda>_.
     Prelude.each (applyIngress A S lid svc) (filter ShouldBeIngress (svc_Expose svc))))"
  obtain a t where t: "applyDeployment A S lid svc c = Ok a t" and rest: "?m t = Ok () c'"
    using assms(2) unfolding deploy_service_def bind_Ok_iff [of "applyDeployment A S lid svc"] by blast
  have "keeps (\<lambda>c. look c = look t) ?m" by (intro api_rules kube_laws_parts [OF assms(1)])
  then have "look c' = look t" using refl rest by (rule keeps_Ok)
  then show ?thesis using applyDeployment_effect [OF assms(1), of S lid svc c t] t by simp
qed

lemma deploy_services_effect:
  assumes "kube_laws A look" "Prelude.each (deploy_service A S lid) svcs c = Ok () c'" "distinct (map svc_Name svcs)"
  shows "(\<forall>svc\<in>set svcs. \<exists>d. look c' (lidNS S lid) (svc_Name svc) = Some d \<and> runs_service S lid svc d) \<and>
    (\<forall>n. n \<notin> svc_Name ` set svcs \<longrightarrow> look c' (lidNS S lid) n = look c (lidNS S lid) n) \<and> (\<forall>ns. ns \<noteq> lidNS S lid \<longrightarrow> look c' ns = look c ns)"
  using assms(2,3)
proof (induction svcs arbitrary: c)
  case (Cons svc svcs)
  then obtain t where t: "deploy_service A S lid svc c = Ok () t" "Prelude.each (deploy_service A S lid) svcs t = Ok () c'"
    by (auto simp: bind_Ok_iff)
  obtain d where d: "look t = (look c)(lidNS S lid := (look c (lidNS S lid))(svc_Name svc \<mapsto> d))" "runs_service S lid svc d"
    using deploy_service_effect [OF assms(1) t(1)] by blast
  then show ?case using Cons.IH [OF t(2)] Cons.prems(2) by auto
qed (simp add: ret_def)


lemma cleanup_effect:
  assumes "kube_laws A look" "cleanupStaleResources A S lid g c = Ok () c'"
  shows "look c' = (look c)(lidNS S lid := (\<lambda>n. case look c (lidNS S lid) n of None \<Rightarrow> None | Some d \<Rightarrow> if stale g (kd_Labels d) then None else Some d))"
proof -
  let ?ns = "lidNS S lid"
  let ?rest = "bind (api_call (api_deleteCollection (Ingresses A) ?ns (stale g))) (\<lambda>_. bind (gets (api_list (Services A) ?ns (stale g))) (\<lambda>r.
     bind (or_throw r) (\<lambda>services. Prelude.each (\<lambda>svc. api_call (api_delete (Services A) ?ns (ks_Name svc))) services)))"
  have "bind (api_call (api_deleteCollection (Deployments A) ?ns (stale g))) (\<lambda>_. ?rest) c = Ok () c'"
    using assms(2) unfolding cleanupStaleResources_def Let_def by (simp add: throw_def split: option.splits)
  then obtain a t where a: "api_call (api_deleteCollection (Deployments A) ?ns (stale g)) c = Ok a t" and rest: "?rest t = Ok () c'"
    unfolding bind_Ok_iff [of "api_call (api_deleteCollection (Deployments A) ?ns (stale g))"] by blast
  from a have t: "api_deleteCollection (Deployments A) ?ns (stale g) c = (None, t)" by (simp add: api_call_Ok)
  have "keeps (\<lambda>c. look c = look t) ?rest"
    by (intro api_rules untouched_deletes) (use assms(1) in \<open>auto simp: kube_laws_def\<close>)
  then have "look c' = look t" using refl rest by (rule keeps_Ok)
  then show ?thesis using t assms(1) by (auto simp: kube_laws_def kind_laws_def)
qed

text \<open>
  C11. What runs is what was sent: when deploying a group whose services have different names succeeds, the lease's namespace has for each
  of its services a deployment with the service's container, replicas and labels; no deployment of the provider is left there that
  belongs to another service; and the deployments of other namespaces are as they were.  The Kubernetes API is assumed to keep
  \<open>kube_laws\<close>: a call that succeeds has its documented effect on the deployments, and calls about other kinds of objects have none.
\<close>
theorem Deploy_runs_group:
  assumes "kube_laws A look" and "Deploy A S ns lid g c = Ok () c'" and "distinct (map svc_Name (mg_Services g))"
  shows "(\<forall>svc\<in>set (mg_Services g). \<exists>d. look c' (lidNS S lid) (svc_Name svc) = Some d \<and> runs_service S lid svc d) \<and>
    (\<forall>n d. look c' (lidNS S lid) n = Some d \<longrightarrow> \<not> stale g (kd_Labels d)) \<and>
    (\<forall>ns'. ns' \<noteq> lidNS S lid \<longrightarrow> look c' ns' = look c ns')"
proof -
  obtain c1 c2 c3 c4 where c: "applyNS A S lid c = Ok () c1" "applyNetPolicies A S lid g c1 = Ok () c2" "applyManifest A S ns lid g c2 = Ok () c3"
      "cleanupStaleResources A S lid g c3 = Ok () c4" and rest: "Prelude.each (deploy_service A S lid) (mg_Services g) c4 = Ok () c'"
    using assms(2) by (auto simp: Deploy_def bind_Ok_iff)
  have "look c3 = look c"
    using keeps_Ok [OF kube_laws_parts(1) [OF assms(1)] refl c(1)] keeps_Ok [OF kube_laws_parts(2) [OF assms(1)] refl c(2)]
      keeps_Ok [OF kube_laws_parts(3) [OF assms(1)] refl c(3)] by simp
  then have c4: "look c4 = (look c)(lidNS S lid := (\<lambda>n. case look c (lidNS S lid) n of None \<Rightarrow> None | Some d \<Rightarrow> if stale g (kd_Labels d) then None else Some d))"
    using cleanup_effect [OF assms(1) c(4)] by simp
  note effect = deploy_services_effect [OF assms(1) rest assms(3)]
  have "\<not> stale g (kd_Labels d)" if d: "look c' (lidNS S lid) n = Some d" for n d
  proof (cases "n \<in> svc_Name ` set (mg_Services g)")
    case True
    then obtain svc where svc: "svc \<in> set (mg_Services g)" "n = svc_Name svc" by blast
    then have "kd_Labels d = deployment_labels S lid svc" using effect d by (auto simp: runs_service_def)
    then show ?thesis using svc(1) by (simp add: stale_def deployment_labels_def)
  next
    case False
    then have "look c4 (lidNS S lid) n = Some d" using effect d by simp
    then show ?thesis unfolding c4 by (auto split: option.splits if_splits)
  qed
  then show ?thesis using effect c4 by auto
qed


subsection \<open>What is lost and what is left\<close>

text \<open>The exposes of a service that go through the ingress share one object: only the rules of the last one remain.\<close>

lemma last_ingress_wins:
  assumes laws: "kind_laws (Ingresses A) look ki_Name ki_Labels" and ok: "Prelude.each (applyIngress A S lid svc) es c = Ok () c'" and "es \<noteq> []"
  shows "\<exists>i. look c' (lidNS S lid) (svc_Name svc) = Some i \<and> ki_Rules i = ingressBuilder_rules S lid svc (last es)"
proof -
  obtain t where "applyIngress A S lid svc (last es) t = Ok () c'"
  proof -
    have "Prelude.each (applyIngress A S lid svc) (butlast es @ [last es]) c = Ok () c'" using ok assms(3) by simp
    then show ?thesis using that by (auto simp: each_append bind_Ok_iff ret_def)
  qed
  then consider obj where "api_get (Ingresses A) (lidNS S lid) (svc_Name svc) t = Inr obj" "api_update (Ingresses A) (lidNS S lid) (ingressBuilder_update S lid svc (last es) obj) t = (None, c')"
    | "api_create (Ingresses A) (lidNS S lid) (ingressBuilder_create S lid svc (last es)) t = (None, c')"
    by (auto simp: applyIngress_def apply_object_def bind_Ok_iff gets_def built_def or_panic_def or_throw_def ret_def throw_def api_call_Ok
      split: sum.splits api_error.splits)
  then show ?thesis
  proof cases
    case (1 obj)
    have "ki_Name obj = svc_Name svc" using laws 1(1) by (auto simp: kind_laws_def)
    moreover have "look c' = (look t)(lidNS S lid := (look t (lidNS S lid))(ki_Name obj \<mapsto> ingressBuilder_update S lid svc (last es) obj))"
      using laws 1(2) unfolding kind_laws_def by (simp add: ingressBuilder_update_def)
    ultimately show ?thesis by (simp add: ingressBuilder_update_def)
  next
    case 2
    have "look c' = (look t)(lidNS S lid := (look t (lidNS S lid))(svc_Name svc \<mapsto> ingressBuilder_create S lid svc (last es)))"
      using laws 2 unfolding kind_laws_def by (simp add: ingressBuilder_create_def)
    then show ?thesis by (simp add: ingressBuilder_create_def)
  qed
qed

text \<open>The services of a name that is still in the group are never cleaned up, whatever it exposes now.\<close>

lemma kept_name_not_stale:
  assumes "serviceBuilder_create S b lid old = Inr s" "svc \<in> set (mg_Services g)" "svc_Name old = svc_Name svc"
  shows "\<not> stale g (ks_Labels s)"
proof -
  have "ks_Labels s = deployment_labels S lid old" using assms(1)
    by (cases "serviceBuilder_ports b old") (auto simp: serviceBuilder_create_def Let_def)
  then show ?thesis using assms(2,3) by (auto simp: stale_def deployment_labels_def)
qed

subsection \<open>The status of a service\<close>

lemma map_sum_Inr:
  assumes "map_sum f g x = Inr z"
  obtains y where "x = Inr y" "z = g y"
  using assms by (cases x) auto

lemma expose_check_saved:
  "list_all (\<lambda>e. se_Proto e \<in> {TCP, UDP}) es \<Longrightarrow> expose_check U (map manifestServiceExposeFromVirtEngine es) = Inr (list_ex ShouldBeIngress es)"
proof (induction es)
  case (Cons e es)
  have "ParseServiceProtocol U TCP = Inr TCP" "ParseServiceProtocol U UDP = Inr UDP" by code_simp+
  then have "ParseServiceProtocol U (se_Proto e) = Inr (se_Proto e)" using Cons.prems by auto
  then show ?case using Cons by (cases e) (simp add: manifestServiceExposeFromVirtEngine_def)
qed simp

lemma services_from_saved:
  "services_from ss = Some (Inr cs) \<Longrightarrow>
   list_all2 (\<lambda>s c. cs_Name c = svc_Name s \<and> cs_Expose c = map manifestServiceExposeFromVirtEngine (svc_Expose s)) ss cs"
proof (induction ss arbitrary: cs)
  case (Cons s ss)
  then obtain r where r: "manifestServiceFromVirtEngine s = Some r" by (auto simp: bind_eq_Some_conv)
  with Cons.prems obtain c where c: "r = Inr c" by (cases r) auto
  with Cons.prems r obtain ds where "services_from ss = Some (Inr ds)" "cs = c # ds" by (auto elim!: map_sum_Inr)
  with r c have "manifestServiceFromVirtEngine s = Some (Inr c)" "services_from ss = Some (Inr ds)" "cs = c # ds" by simp_all
  then show ?case using Cons.IH by (auto simp: manifestServiceFromVirtEngine_def) (auto elim!: map_sum_Inr)
qed simp

text \<open>What the saved manifest says of a service's ingress is what its group said: the service is found, and has an ingress exactly when one of
  its exposes goes through the ingress.\<close>

lemma saved_ingress:
  assumes "NewManifest name lid g = Some (Inr m)" "distinct (map svc_Name (mg_Services g))" "svc \<in> set (mg_Services g)"
    "list_all (\<lambda>e. se_Proto e \<in> {TCP, UDP}) (svc_Expose svc)"
  shows "exposeCheckLoop U (svc_Name svc) (cg_Services (cm_Group m)) False = Inr (True, list_ex ShouldBeIngress (svc_Expose svc))"
proof -
  have absent: "exposeCheckLoop U n cs found = Inr (found, False)" if "n \<notin> cs_Name ` set cs" for n cs found
    using that by (induction cs arbitrary: found) auto
  have loop: "exposeCheckLoop U (svc_Name svc) cs found = Inr (True, list_ex ShouldBeIngress (svc_Expose svc))"
    if "list_all2 (\<lambda>s c. cs_Name c = svc_Name s \<and> cs_Expose c = map manifestServiceExposeFromVirtEngine (svc_Expose s)) ss cs"
      "distinct (map svc_Name ss)" "svc \<in> set ss" for ss cs found
    using that
  proof (induction ss cs rule: list_all2_induct)
    case (Cons s ss c cs)
    have names: "cs_Name ` set cs = svc_Name ` set ss"
      using Cons.hyps(2) by (induction rule: list_all2_induct) auto
    show ?case
    proof (cases "s = svc")
      case True
      then have "svc_Name svc \<notin> cs_Name ` set cs" using Cons.prems(1) names by simp
      then show ?thesis using True Cons.hyps(1) absent expose_check_saved [OF assms(4), of U] by (simp split: bool.splits)
    next
      case False
      then have "svc \<in> set ss" using Cons.prems(2) by simp
      moreover from this have "svc_Name s \<noteq> svc_Name svc" using Cons.prems(1) by auto
      ultimately show ?thesis using Cons by simp
    qed
  qed simp
  obtain cs where "services_from (mg_Services g) = Some (Inr cs)" "cg_Services (cm_Group m) = cs"
    using assms(1) by (auto simp: NewManifest_def manifestGroupFromVirtEngine_def elim!: map_sum_Inr)
  then show ?thesis using loop [OF services_from_saved assms(2,3)] by simp
qed

subsection \<open>A cluster in memory\<close>

record mem_cluster =
  mem_ns :: "((string \<times> string) \<times> knamespace) list"
  mem_np :: "((string \<times> string) \<times> knetwork_policy) list"
  mem_mf :: "((string \<times> string) \<times> kmanifest) list"
  mem_dp :: "string \<Rightarrow> string \<Rightarrow> kdeployment option"
  mem_sv :: "((string \<times> string) \<times> kservice) list"
  mem_in :: "((string \<times> string) \<times> kingress) list"

definition mem_api :: "('c \<Rightarrow> ((string \<times> string) \<times> 'a) list) \<Rightarrow> ((((string \<times> string) \<times> 'a) list \<Rightarrow> ((string \<times> string) \<times> 'a) list) \<Rightarrow> 'c \<Rightarrow> 'c) \<Rightarrow>
    ('a \<Rightarrow> string) \<Rightarrow> ('a \<Rightarrow> klabels) \<Rightarrow> ('c, 'a) kind_api" where
  "mem_api fld upd nm lab = (let put = (\<lambda>ns x c. (None, upd (\<lambda>m. ((ns, nm x), x) # filter (\<lambda>e. fst e \<noteq> (ns, nm x)) m) c)) in
     \<lparr>api_get = (\<lambda>ns n c. case map_of (fld c) (ns, n) of None \<Rightarrow> Inl ApiNotFound | Some x \<Rightarrow> Inr x), api_create = put, api_update = put,
      api_list = (\<lambda>ns sel c. Inr (map snd (filter (\<lambda>e. fst (fst e) = ns \<and> sel (lab (snd e))) (fld c)))),
      api_delete = (\<lambda>ns n c. (None, upd (filter (\<lambda>e. fst e \<noteq> (ns, n))) c)),
      api_deleteCollection = (\<lambda>ns sel c. (None, upd (filter (\<lambda>e. \<not> (fst (fst e) = ns \<and> sel (lab (snd e))))) c))\<rparr>)"

definition mem_deployment_api :: "(mem_cluster, kdeployment) kind_api" where
  "mem_deployment_api = (let put = (\<lambda>ns x c. (None, c\<lparr>mem_dp := (mem_dp c)(ns := (mem_dp c ns)(kd_Name x \<mapsto> x))\<rparr>)) in
     \<lparr>api_get = (\<lambda>ns n c. case mem_dp c ns n of None \<Rightarrow> Inl ApiNotFound
        | Some x \<Rightarrow> if kd_Name x = n then Inr x else Inl ApiNotFound), api_create = put, api_update = put,
      api_list = (\<lambda>ns sel c. Inl (Errorf ''not listed'')), api_delete = (\<lambda>ns n c. (None, c\<lparr>mem_dp := (mem_dp c)(ns := (mem_dp c ns)(n := None))\<rparr>)),
      api_deleteCollection = (\<lambda>ns sel c. (None, c\<lparr>mem_dp := (mem_dp c)(ns := (\<lambda>n. case mem_dp c ns n of None \<Rightarrow> None
        | Some x \<Rightarrow> if sel (kd_Labels x) then None else Some x))\<rparr>))\<rparr>)"

definition mem_kube :: "mem_cluster kube_api" where
  "mem_kube = \<lparr>Namespaces = mem_api mem_ns mem_ns_update kn_Name kn_Labels, NetworkPolicies = mem_api mem_np mem_np_update np_Name np_Labels,
     Manifests = mem_api mem_mf mem_mf_update (\<lambda>m. cm_Name (km_Object m)) km_Labels, Deployments = mem_deployment_api,
     Services = mem_api mem_sv mem_sv_update ks_Name ks_Labels, Ingresses = mem_api mem_in mem_in_update ki_Name ki_Labels,
     NewRequirement = (\<lambda>_ _. None)\<rparr>"

lemma mem_kube_laws: "kube_laws mem_kube mem_dp"
  by (auto simp: kube_laws_def kind_laws_def untouched_def untouched_by_delete_def mem_kube_def mem_api_def mem_deployment_api_def Let_def
    split: option.splits if_splits)

definition mem_empty :: mem_cluster where
  "mem_empty = \<lparr>mem_ns = [], mem_np = [], mem_mf = [], mem_dp = (\<lambda>_ _. None), mem_sv = [], mem_in = []\<rparr>"

text \<open>In this cluster no call fails, so deploying succeeds once the objects can be built.\<close>

definition succeeds :: "(unit, 'c) act \<Rightarrow> bool" where
  "succeeds m \<longleftrightarrow> (\<forall>c. \<exists>c'. m c = Ok () c')"

lemma succeeds_ret: "succeeds (ret ())"
  by (simp add: succeeds_def ret_def)

lemma succeeds_bind: "succeeds m \<Longrightarrow> succeeds n \<Longrightarrow> succeeds (bind m (\<lambda>_. n))"
  unfolding succeeds_def bind_Ok_iff by blast

lemma succeeds_each: "(\<And>x. x \<in> set xs \<Longrightarrow> succeeds (f x)) \<Longrightarrow> succeeds (Prelude.each f xs)"
  by (induction xs) (simp_all add: succeeds_ret succeeds_bind)

lemma succeeds_if: "(b \<Longrightarrow> succeeds m) \<Longrightarrow> (\<not> b \<Longrightarrow> succeeds n) \<Longrightarrow> succeeds (if b then m else n)"
  by simp

lemmas succeeds_rules = succeeds_ret succeeds_bind succeeds_each succeeds_if

lemma api_call_succeeds: "(\<And>c. fst (f c) = None) \<Longrightarrow> succeeds (api_call f)"
  by (auto simp: succeeds_def api_call_def split: prod.splits option.splits) (metis fst_conv option.distinct(1))

definition reliable :: "('c, 'a) kind_api \<Rightarrow> bool" where
  "reliable api \<longleftrightarrow> (\<forall>ns x c. fst (api_create api ns x c) = None) \<and> (\<forall>ns x c. fst (api_update api ns x c) = None) \<and>
     (\<forall>ns x c. fst (api_delete api ns x c) = None) \<and> (\<forall>ns x c. fst (api_deleteCollection api ns x c) = None) \<and>
     (\<forall>ns n c e. api_get api ns n c \<noteq> Inl (ApiError e))"

lemma apply_object_succeeds:
  assumes "reliable api" "cr = Some (Inr y)" "\<And>x. \<exists>z. up x = Some (Inr z)"
  shows "succeeds (apply_object api ns n cr up)"
proof -
  have calls: "succeeds (api_call (api_create api ns x))" "succeeds (api_call (api_update api ns x))" for x
    using assms(1) by (auto simp: reliable_def intro!: api_call_succeeds)
  have "\<exists>c'. apply_object api ns n cr up c = Ok () c'" for c
  proof (cases "api_get api ns n c")
    case (Inr x)
    obtain z where "up x = Some (Inr z)" using assms(3) by blast
    then show ?thesis using Inr calls(2) [of z] by (simp add: apply_object_def bind_def gets_def or_panic_def or_throw_def ret_def succeeds_def)
  next
    case (Inl e)
    then have "e = ApiNotFound" using assms(1) by (cases e) (auto simp: reliable_def)
    then show ?thesis using Inl calls(1) [of y] assms(2) by (simp add: apply_object_def bind_def gets_def or_panic_def or_throw_def ret_def succeeds_def)
  qed
  then show ?thesis by (simp add: succeeds_def)
qed

lemma mem_reliable: "reliable (Namespaces mem_kube)" "reliable (NetworkPolicies mem_kube)" "reliable (Manifests mem_kube)"
    "reliable (Deployments mem_kube)" "reliable (Services mem_kube)" "reliable (Ingresses mem_kube)"
  by (auto simp: reliable_def mem_kube_def mem_api_def mem_deployment_api_def Let_def split: option.splits)


lemma attempt_succeeds: "succeeds m \<Longrightarrow> succeeds (bind (attempt m) (\<lambda>_. ret ()))"
proof -
  assume m: "succeeds m"
  have "\<exists>c'. bind (attempt m) (\<lambda>_. ret ()) c = Ok () c'" for c
  proof -
    obtain c' where "m c = Ok () c'" using m by (auto simp: succeeds_def)
    then show ?thesis by (simp add: bind_def attempt_def ret_def)
  qed
  then show ?thesis by (simp add: succeeds_def)
qed

lemma mem_policy_succeeds: "succeeds (apply_policy mem_kube S lid pol)"
proof -
  have calls: "succeeds (api_call (api_create (NetworkPolicies mem_kube) ns x))" "succeeds (api_call (api_update (NetworkPolicies mem_kube) ns x))" for ns x
    using mem_reliable(2) by (auto simp: reliable_def intro!: api_call_succeeds)
  have "api_get (NetworkPolicies mem_kube) ns n c \<noteq> Inl (ApiError e)" for ns n c e using mem_reliable(2) by (simp add: reliable_def)
  then show ?thesis using calls
    by (fastforce simp: apply_policy_def succeeds_def bind_def gets_def split: sum.splits api_error.splits)
qed

lemma mem_cleanup_succeeds: "succeeds (cleanupStaleResources mem_kube S lid g)"
proof -
  have calls: "succeeds (api_call (api_deleteCollection (Deployments mem_kube) ns sel))" "succeeds (api_call (api_deleteCollection (Ingresses mem_kube) ns sel))"
      "succeeds (api_call (api_delete (Services mem_kube) ns n))" for ns sel n
    using mem_reliable by (auto simp: reliable_def intro!: api_call_succeeds)
  let ?del = "\<lambda>ns services. Prelude.each (\<lambda>svc. api_call (api_delete (Services mem_kube) ns (ks_Name svc))) services"
  have list: "succeeds (bind (gets (api_list (Services mem_kube) ns sel)) (\<lambda>r. bind (or_throw r) (?del ns)))" for ns sel
  proof -
    have "\<exists>c'. bind (gets (api_list (Services mem_kube) ns sel)) (\<lambda>r. bind (or_throw r) (?del ns)) c = Ok () c'" for c
    proof -
      obtain xs where "api_list (Services mem_kube) ns sel c = Inr xs" by (simp add: mem_kube_def mem_api_def Let_def)
      moreover have "succeeds (?del ns xs)" by (intro succeeds_rules calls)
      ultimately show ?thesis by (simp add: bind_def gets_def or_throw_def ret_def succeeds_def)
    qed
    then show ?thesis by (simp add: succeeds_def)
  qed
  moreover have "NewRequirement mem_kube = (\<lambda>_ _. None)" by (simp add: mem_kube_def)
  ultimately show ?thesis unfolding cleanupStaleResources_def Let_def by (simp add: succeeds_rules calls)
qed

lemma mem_deploys:
  assumes "\<exists>m. NewManifest (lidNS S lid) lid g = Some (Inr m)"
    and "\<And>svc. svc \<in> set (mg_Services g) \<Longrightarrow> build_container S lid svc \<noteq> None \<and> list_all (\<lambda>e. se_Proto e = TCP \<or> se_Proto e = UDP) (svc_Expose svc)"
  shows "succeeds (Deploy mem_kube S ns lid g)"
proof -
  have deployment: "succeeds (applyDeployment mem_kube S lid svc)" if "svc \<in> set (mg_Services g)" for svc
    unfolding applyDeployment_def using assms(2) [OF that]
    by (auto intro!: apply_object_succeeds mem_reliable simp: deploymentBuilder_create_def deploymentBuilder_update_def)
  have service: "succeeds (applyService mem_kube S b lid svc)" if svc: "svc \<in> set (mg_Services g)" and any: "serviceBuilder_any b svc" for svc b
  proof -
    obtain ports where "serviceBuilder_ports b svc = Inr ports"
      using serviceBuilder_ports_spec [of svc b] assms(2) [OF svc] any by auto
    then show ?thesis unfolding applyService_def
      by (auto intro!: apply_object_succeeds mem_reliable simp: serviceBuilder_create_def serviceBuilder_update_def)
  qed
  have ingress: "succeeds (applyIngress mem_kube S lid svc e)" for svc e
    unfolding applyIngress_def by (auto intro!: apply_object_succeeds mem_reliable simp: built_def)
  have services: "succeeds (Prelude.each (deploy_service mem_kube S lid) svcs)" if "set svcs \<subseteq> set (mg_Services g)" for svcs
    using that
  proof (induction svcs)
    case (Cons svc svcs)
    have "succeeds (deploy_service mem_kube S lid svc)"
      unfolding deploy_service_def by (intro succeeds_rules deployment service ingress) (use Cons.prems in auto)
    then show ?case using Cons by (simp add: succeeds_rules)
  qed (simp add: succeeds_rules)
  have "succeeds (applyNS mem_kube S lid)" "succeeds (applyManifest mem_kube S ns lid g)"
    unfolding applyNS_def applyManifest_def using assms(1)
    by (auto intro!: apply_object_succeeds mem_reliable simp: built_def manifestBuilder_create_def manifestBuilder_update_def)
  then show ?thesis unfolding Deploy_def applyNetPolicies_def
    by (intro succeeds_rules attempt_succeeds mem_policy_succeeds mem_cleanup_succeeds services order_refl)
qed

theorem Deploy_runs_group_witness:
  "\<exists>c d. Deploy mem_kube demo_kube ''lease'' (demo_kube_lease 1) demo_mgroup mem_empty = Ok () c \<and>
     mem_dp c (lidNS demo_kube (demo_kube_lease 1)) ''front'' = Some d \<and> runs_service demo_kube (demo_kube_lease 1) demo_web d"
proof -
  have svc: "mg_Services demo_mgroup = [demo_web]" "svc_Name demo_web = ''front''" by (simp_all add: demo_web_def demo_mgroup_def)
  have "build_container demo_kube (demo_kube_lease 1) demo_web \<noteq> None" by code_simp
  moreover have "list_all (\<lambda>e. se_Proto e = TCP \<or> se_Proto e = UDP) (svc_Expose demo_web)" by code_simp
  moreover have "\<exists>m. NewManifest n (demo_kube_lease 1) demo_mgroup = Some (Inr m)" for n
  proof -
    show ?thesis
      by (simp add: NewManifest_def manifestGroupFromVirtEngine_def demo_mgroup_def manifestServiceFromVirtEngine_def resourceUnitsFromVirtEngine_def
        demo_resource_def ResourceValue_Value_def NewResourceValue_def)
  qed
  ultimately have "succeeds (Deploy mem_kube demo_kube ''lease'' (demo_kube_lease 1) demo_mgroup)" using svc by (intro mem_deploys) auto
  then obtain c where c: "Deploy mem_kube demo_kube ''lease'' (demo_kube_lease 1) demo_mgroup mem_empty = Ok () c" unfolding succeeds_def by blast
  from Deploy_runs_group [OF mem_kube_laws this] svc
  obtain d where "mem_dp c (lidNS demo_kube (demo_kube_lease 1)) ''front'' = Some d" "runs_service demo_kube (demo_kube_lease 1) demo_web d" by auto
  with c show ?thesis by blast
qed

end
