(* ===== verification/Kube_Nodes.thy ===== *)
theory Kube_Nodes
  imports Kube_Builder
begin

text \<open>
  What the cluster's nodes have and what is left of it (\<^verbatim>\<open>Inventory\<close>, \<^verbatim>\<open>activeNodes\<close>, \<^verbatim>\<open>nodeIsActive\<close> of
  \<^verbatim>\<open>provider/cluster/kube/client.go\<close>).  Quantities belong to the Kubernetes library and are arguments; the lists of nodes and pods are the
  answers of the API.  Ranging over a map visits it in some order, the argument \<open>order\<close>.
\<close>

record 'q quantity_ops =
  q_empty :: 'q
  q_zero :: 'q
  q_Add :: "'q \<Rightarrow> 'q \<Rightarrow> 'q"
  q_Sub :: "'q \<Rightarrow> 'q \<Rightarrow> 'q"
  q_MilliValue :: "'q \<Rightarrow> 64 word"
  q_Value :: "'q \<Rightarrow> 64 word"

record 'q resourcePair =
  rp_allocatable :: 'q
  rp_allocated :: 'q

record 'q nodeResources =
  nr_cpu :: "'q resourcePair"
  nr_memory :: "'q resourcePair"
  nr_storage :: "'q resourcePair"
  nr_arch :: string

record 'q knode =
  kno_Name :: string
  kno_Conditions :: "(string \<times> string) list"
  kno_CPU :: 'q
  kno_Memory :: 'q
  kno_Storage :: 'q
  kno_Architecture :: string

record 'q krequests =
  kq_CPU :: 'q
  kq_Memory :: 'q
  kq_Storage :: 'q

record 'q kpod =
  kp_NodeName :: string
  kp_Containers :: "'q krequests list"

definition pair_available :: "'q quantity_ops \<Rightarrow> 'q resourcePair \<Rightarrow> 'q" where
  "pair_available Q rp = q_Sub Q (rp_allocatable rp) (rp_allocated rp)"

definition poor_conditions :: "string list" where
  "poor_conditions = [''MemoryPressure'', ''DiskPressure'', ''PIDPressure'', ''NetworkUnavailable'']"

definition check_condition :: "bool \<times> nat \<Rightarrow> string \<times> string \<Rightarrow> bool \<times> nat" where
  "check_condition a c = (case (a, c) of ((ready, issues), (kind, status)) \<Rightarrow>
     if kind = ''Ready'' then (ready \<or> status = ''True'', issues)
     else if kind \<in> set poor_conditions then (ready, if status \<noteq> ''False'' then Suc issues else issues)
     else (ready, issues))"

definition nodeIsActive :: "'q knode \<Rightarrow> bool" where
  "nodeIsActive n = (let (ready, issues) = foldl check_condition (False, 0) (kno_Conditions n) in ready \<and> issues = 0)"

definition node_entry :: "'q quantity_ops \<Rightarrow> 'q knode \<Rightarrow> 'q nodeResources" where
  "node_entry Q n = \<lparr>nr_cpu = \<lparr>rp_allocatable = kno_CPU n, rp_allocated = q_zero Q\<rparr>, nr_memory = \<lparr>rp_allocatable = kno_Memory n, rp_allocated = q_zero Q\<rparr>,
     nr_storage = \<lparr>rp_allocatable = kno_Storage n, rp_allocated = q_zero Q\<rparr>, nr_arch = kno_Architecture n\<rparr>"

text \<open>What a lookup in the map gives for a node that is not in it.\<close>

definition no_entry :: "'q quantity_ops \<Rightarrow> 'q nodeResources" where
  "no_entry Q = (let z = \<lparr>rp_allocatable = q_empty Q, rp_allocated = q_empty Q\<rparr> in \<lparr>nr_cpu = z, nr_memory = z, nr_storage = z, nr_arch = []\<rparr>)"

definition allocate :: "'q quantity_ops \<Rightarrow> 'q \<Rightarrow> 'q resourcePair \<Rightarrow> 'q resourcePair" where
  "allocate Q x rp = rp\<lparr>rp_allocated := q_Add Q (rp_allocated rp) x\<rparr>"

definition add_container :: "'q quantity_ops \<Rightarrow> 'q nodeResources \<Rightarrow> 'q krequests \<Rightarrow> 'q nodeResources" where
  "add_container Q e c = e\<lparr>nr_cpu := allocate Q (kq_CPU c) (nr_cpu e), nr_memory := allocate Q (kq_Memory c) (nr_memory e),
     nr_storage := allocate Q (kq_Storage c) (nr_storage e)\<rparr>"

definition lookup_entry :: "'q quantity_ops \<Rightarrow> 'q nodeResources kv \<Rightarrow> string \<Rightarrow> 'q nodeResources" where
  "lookup_entry Q m n = (case kv_get m n of None \<Rightarrow> no_entry Q | Some e \<Rightarrow> e)"

definition add_pod :: "'q quantity_ops \<Rightarrow> 'q nodeResources kv \<Rightarrow> 'q kpod \<Rightarrow> 'q nodeResources kv" where
  "add_pod Q m p = kv_set (kp_NodeName p) (foldl (add_container Q) (lookup_entry Q m (kp_NodeName p)) (kp_Containers p)) m"

definition activeNodes :: "'q quantity_ops \<Rightarrow> error + 'q knode list \<Rightarrow> error + 'q kpod list \<Rightarrow> error + 'q nodeResources kv" where
  "activeNodes Q knodes pods = (case knodes of Inl e \<Rightarrow> Inl e | Inr ns \<Rightarrow>
     (let retnodes = foldl (\<lambda>m n. if nodeIsActive n then kv_set (kno_Name n) (node_entry Q n) m else m) [] ns in
     map_sum id (foldl (add_pod Q) retnodes) pods))"

definition at_least_0 :: "64 word \<Rightarrow> 64 word" where
  "at_least_0 w = (if w <s 0 then 0 else w)"

definition node_units :: "string \<Rightarrow> 64 word \<Rightarrow> 64 word \<Rightarrow> 64 word \<Rightarrow> resource_units" where
  "node_units arch c m s = \<lparr>CPU = Some \<lparr>cpu_Units = NewResourceValue c, cpu_Attributes = [\<lparr>attr_Key = ''arch'', attr_Value = arch\<rparr>]\<rparr>,
     Memory = Some \<lparr>mem_Quantity = NewResourceValue m, mem_Attributes = []\<rparr>,
     Storage = Some \<lparr>sto_Quantity = NewResourceValue s, sto_Attributes = []\<rparr>, Endpoints = []\<rparr>"

definition inventory_node :: "'q quantity_ops \<Rightarrow> string \<times> 'q nodeResources \<Rightarrow> node" where
  "inventory_node Q x = (case x of (name, k) \<Rightarrow> NewNode name
     (node_units (nr_arch k) (q_MilliValue Q (rp_allocatable (nr_cpu k))) (q_Value Q (rp_allocatable (nr_memory k))) (q_Value Q (rp_allocatable (nr_storage k))))
     (node_units (nr_arch k) (at_least_0 (q_MilliValue Q (pair_available Q (nr_cpu k)))) (at_least_0 (q_Value Q (pair_available Q (nr_memory k))))
        (at_least_0 (q_Value Q (pair_available Q (nr_storage k))))))"

definition client_Inventory ::
  "'q quantity_ops \<Rightarrow> ('q nodeResources kv \<Rightarrow> (string \<times> 'q nodeResources) list) \<Rightarrow> error + 'q knode list \<Rightarrow> error + 'q kpod list \<Rightarrow> error + node list" where
  "client_Inventory Q order knodes pods = map_sum id (\<lambda>m. map (inventory_node Q) (order m)) (activeNodes Q knodes pods)"

end
