(* ===== verification/Kube_Nodes_Properties.thy ===== *)
theory Kube_Nodes_Properties
  imports Complex_Main "HOL-Library.Multiset" Kube_Nodes
begin

text \<open>
  The capacity a cluster reports: what fit nodes have, less what their pods request.  The three resources are treated alike, so the
  argument is made once in the locale \<open>node_resource\<close>.
\<close>

subsection \<open>Fit nodes\<close>

lemma check_conditions:
  "foldl check_condition (r, i) cs = (r \<or> (''Ready'', ''True'') \<in> set cs, i + length (filter (\<lambda>(k, s). k \<in> set poor_conditions \<and> s \<noteq> ''False'') cs))"
proof (induction cs arbitrary: r i)
  case (Cons c cs)
  have "''Ready'' \<notin> set poor_conditions" by (simp add: poor_conditions_def)
  then show ?case using Cons.IH by (cases c) (auto simp: check_condition_def)
qed simp

lemma nodeIsActive_iff:
  "nodeIsActive n \<longleftrightarrow> (''Ready'', ''True'') \<in> set (kno_Conditions n) \<and>
     (\<forall>(k, s)\<in>set (kno_Conditions n). k \<in> set poor_conditions \<longrightarrow> s = ''False'')"
  by (auto simp: nodeIsActive_def check_conditions filter_empty_conv)

subsection \<open>Quantities\<close>

definition round_away :: "rat \<Rightarrow> int" where
  "round_away x = (if 0 \<le> x then \<lceil>x\<rceil> else \<lfloor>x\<rfloor>)"

definition quantity_laws :: "'q quantity_ops \<Rightarrow> ('q \<Rightarrow> rat) \<Rightarrow> bool" where
  "quantity_laws Q val \<longleftrightarrow> val (q_empty Q) = 0 \<and> val (q_zero Q) = 0 \<and> (\<forall>x y. val (q_Add Q x y) = val x + val y) \<and> (\<forall>x y. val (q_Sub Q x y) = val x - val y) \<and>
     (\<forall>x. \<bar>round_away (1000 * val x)\<bar> < 2 ^ 63 \<longrightarrow> sint (q_MilliValue Q x) = round_away (1000 * val x)) \<and>
     (\<forall>x. \<bar>round_away (val x)\<bar> < 2 ^ 63 \<longrightarrow> sint (q_Value Q x) = round_away (val x))"

lemma at_least_0_max: "uint (at_least_0 w) = max 0 (sint w)"
proof (cases "w <s 0")
  case True
  then show ?thesis by (simp add: at_least_0_def word_sless_alt)
next
  case False
  then have "0 \<le> sint w" by (simp add: word_sless_alt)
  moreover have "sint w < 2 ^ 63" using sint_lt [of w] by simp
  ultimately have "uint w = sint w" by (simp add: uint_sint take_bit_int_eq_self)
  then show ?thesis using False \<open>0 \<le> sint w\<close> by (simp add: at_least_0_def)
qed

subsection \<open>One resource of a node\<close>

definition requested :: "('q \<Rightarrow> rat) \<Rightarrow> ('q krequests \<Rightarrow> 'q) \<Rightarrow> 'q kpod list \<Rightarrow> string \<Rightarrow> rat" where
  "requested val req pods n = (\<Sum>p\<leftarrow>filter (\<lambda>p. kp_NodeName p = n) pods. \<Sum>c\<leftarrow>kp_Containers p. val (req c))"

definition fit_node :: "'q knode list \<Rightarrow> string \<Rightarrow> 'q knode option" where
  "fit_node ns n = find (\<lambda>k. nodeIsActive k \<and> kno_Name k = n) ns"

definition free_amount :: "('q \<Rightarrow> rat) \<Rightarrow> ('q knode \<Rightarrow> 'q) \<Rightarrow> ('q krequests \<Rightarrow> 'q) \<Rightarrow> 'q knode list \<Rightarrow> 'q kpod list \<Rightarrow> string \<Rightarrow> rat" where
  "free_amount val has req ns pods n = (case fit_node ns n of None \<Rightarrow> 0 | Some k \<Rightarrow> val (has k)) - requested val req pods n"

definition fit_entries :: "'q quantity_ops \<Rightarrow> 'q knode list \<Rightarrow> 'q nodeResources kv" where
  "fit_entries Q ns = foldl (\<lambda>m n. if nodeIsActive n then kv_set (kno_Name n) (node_entry Q n) m else m) [] ns"

lemma fit_entries_get:
  assumes "distinct (map kno_Name ns)"
  shows "kv_get (fit_entries Q ns) n = map_option (node_entry Q) (fit_node ns n)"
proof -
  have "kv_get (foldl (\<lambda>m n. if nodeIsActive n then kv_set (kno_Name n) (node_entry Q n) m else m) m ns) n =
      (case fit_node ns n of None \<Rightarrow> kv_get m n | Some k \<Rightarrow> Some (node_entry Q k))" for m
    using assms
  proof (induction ns arbitrary: m)
    case (Cons k ns)
    have "fit_node ns (kno_Name k) = None" using Cons.prems by (simp add: fit_node_def find_None_iff image_iff) metis
    then show ?case using Cons by (auto simp: fit_node_def split: option.splits)
  qed (simp add: fit_node_def)
  from this [of "[]"] show ?thesis by (simp add: fit_entries_def split: option.splits)
qed

lemma add_pod_entry:
  "lookup_entry Q (add_pod Q m p) n = (if kp_NodeName p = n then foldl (add_container Q) (lookup_entry Q m n) (kp_Containers p) else lookup_entry Q m n)"
  by (simp add: add_pod_def lookup_entry_def)

locale node_resource =
  fixes sel :: "'q nodeResources \<Rightarrow> 'q resourcePair" and has :: "'q knode \<Rightarrow> 'q" and req :: "'q krequests \<Rightarrow> 'q"
  assumes sel_add: "sel (add_container Q e c) = allocate Q (req c) (sel e)"
    and sel_entry: "sel (node_entry Q k) = \<lparr>rp_allocatable = has k, rp_allocated = q_zero Q\<rparr>"
    and sel_none: "sel (no_entry Q) = \<lparr>rp_allocatable = q_empty Q, rp_allocated = q_empty Q\<rparr>"
begin

lemma containers:
  assumes "quantity_laws Q val"
  shows "rp_allocatable (sel (foldl (add_container Q) e cs)) = rp_allocatable (sel e)"
    and "val (rp_allocated (sel (foldl (add_container Q) e cs))) = val (rp_allocated (sel e)) + (\<Sum>c\<leftarrow>cs. val (req c))"
  by (induction cs arbitrary: e) (use assms in \<open>simp_all add: sel_add allocate_def quantity_laws_def\<close>)

lemma pods:
  assumes "quantity_laws Q val"
  shows "rp_allocatable (sel (lookup_entry Q (foldl (add_pod Q) m ps) n)) = rp_allocatable (sel (lookup_entry Q m n))"
    and "val (rp_allocated (sel (lookup_entry Q (foldl (add_pod Q) m ps) n))) = val (rp_allocated (sel (lookup_entry Q m n))) + requested val req ps n"
proof (induction ps arbitrary: m)
  case (Cons p ps)
  case 1 show ?case using Cons.IH(1) [of "add_pod Q m p"] by (simp add: add_pod_entry containers [OF assms])
  case 2 show ?case using Cons.IH(2) [of "add_pod Q m p"] by (simp add: add_pod_entry containers [OF assms] requested_def)
qed (simp_all add: requested_def)

lemma free:
  assumes laws: "quantity_laws Q val" and "distinct (map kno_Name ns)"
  shows "val (pair_available Q (sel (lookup_entry Q (foldl (add_pod Q) (fit_entries Q ns) ps) n))) = free_amount val has req ns ps n"
proof -
  have "val (rp_allocatable (sel (lookup_entry Q (fit_entries Q ns) n))) = (case fit_node ns n of None \<Rightarrow> 0 | Some k \<Rightarrow> val (has k))"
    "val (rp_allocated (sel (lookup_entry Q (fit_entries Q ns) n))) = 0"
    using laws by (auto simp: lookup_entry_def fit_entries_get [OF assms(2)] sel_entry sel_none quantity_laws_def split: option.splits)
  then show ?thesis using laws by (simp add: pair_available_def free_amount_def pods [OF laws] quantity_laws_def)
qed

end

interpretation node_cpu: node_resource nr_cpu kno_CPU kq_CPU
  by unfold_locales (simp_all add: add_container_def node_entry_def no_entry_def Let_def)

interpretation node_memory: node_resource nr_memory kno_Memory kq_Memory
  by unfold_locales (simp_all add: add_container_def node_entry_def no_entry_def Let_def)

interpretation node_storage: node_resource nr_storage kno_Storage kq_Storage
  by unfold_locales (simp_all add: add_container_def node_entry_def no_entry_def Let_def)

subsection \<open>The inventory\<close>

definition fits :: "rat \<Rightarrow> bool" where
  "fits x \<longleftrightarrow> \<bar>round_away x\<bar> < 2 ^ 63"

lemma node_values:
  assumes "quantity_laws Q val"
  shows "fits (1000 * val x) \<Longrightarrow> NewResourceValue (at_least_0 (q_MilliValue Q x)) = \<lparr>Val = max 0 (round_away (1000 * val x))\<rparr>"
    and "fits (val x) \<Longrightarrow> NewResourceValue (at_least_0 (q_Value Q x)) = \<lparr>Val = max 0 (round_away (val x))\<rparr>"
  using assms by (simp_all add: NewResourceValue_def at_least_0_max fits_def quantity_laws_def)

lemma activeNodes_entries:
  "activeNodes Q (Inr ns) (Inr pods) = Inr (foldl (add_pod Q) (fit_entries Q ns) pods)"
  by (simp add: activeNodes_def fit_entries_def Let_def)

lemma fit_entries_ok: "kv_ok (foldl (add_pod Q) (fit_entries Q ns) pods)"
proof -
  have fit: "kv_ok m \<Longrightarrow> kv_ok (foldl (\<lambda>m n. if nodeIsActive n then kv_set (kno_Name n) (node_entry Q n) m else m) m ns)" for m
    by (induction ns arbitrary: m) (auto intro: kv_ok_set)
  have "kv_ok m \<Longrightarrow> kv_ok (foldl (add_pod Q) m pods)" for m
    by (induction pods arbitrary: m) (auto simp: add_pod_def intro: kv_ok_set)
  then show ?thesis using fit by (simp add: fit_entries_def)
qed

lemma entries_names:
  assumes "distinct (map kno_Name ns)"
  shows "kv_get (foldl (add_pod Q) (fit_entries Q ns) pods) n \<noteq> None \<longleftrightarrow> fit_node ns n \<noteq> None \<or> n \<in> kp_NodeName ` set pods"
proof -
  have "kv_get (foldl (add_pod Q) m pods) n \<noteq> None \<longleftrightarrow> kv_get m n \<noteq> None \<or> n \<in> kp_NodeName ` set pods" for m
    by (induction pods arbitrary: m) (auto simp: add_pod_def)
  then show ?thesis by (simp add: fit_entries_get [OF assms])
qed

text \<open>
  The inventory a provider bids with is what its cluster really has left: each reported node offers of every resource what the
  node has, if it is fit for work, less what the pods on it request, and never less than nothing.  Reported are the
  fit nodes, and with nothing to offer those that only have pods.
\<close>
lemma inventory_exact:
  assumes laws: "quantity_laws Q val" and inv: "client_Inventory Q order (Inr ns) (Inr pods) = Inr nodes"
    and order: "\<And>m. mset (order m) = mset m" and names: "distinct (map kno_Name ns)"
    and fits: "\<And>n. fits (1000 * free_amount val kno_CPU kq_CPU ns pods n) \<and> fits (free_amount val kno_Memory kq_Memory ns pods n) \<and>
      fits (free_amount val kno_Storage kq_Storage ns pods n)"
  shows "node_ID ` set nodes = {n. fit_node ns n \<noteq> None} \<union> kp_NodeName ` set pods \<and>
    (\<forall>x\<in>set nodes.
      map_option cpu_Units (CPU (node_Available x)) = Some \<lparr>Val = max 0 (round_away (1000 * free_amount val kno_CPU kq_CPU ns pods (node_ID x)))\<rparr> \<and>
      map_option mem_Quantity (Memory (node_Available x)) = Some \<lparr>Val = max 0 (round_away (free_amount val kno_Memory kq_Memory ns pods (node_ID x)))\<rparr> \<and>
      map_option sto_Quantity (Storage (node_Available x)) = Some \<lparr>Val = max 0 (round_away (free_amount val kno_Storage kq_Storage ns pods (node_ID x)))\<rparr>)"
proof -
  let ?m = "foldl (add_pod Q) (fit_entries Q ns) pods"
  have nodes: "nodes = map (inventory_node Q) (order ?m)" using inv by (simp add: client_Inventory_def activeNodes_entries)
  have entries: "(n, k) \<in> set (order ?m) \<longleftrightarrow> kv_get ?m n = Some k" for n k
    using mset_eq_setD [OF order [of ?m]] kv_ok_distinct [OF fit_entries_ok [where Q = Q and ns = ns and pods = pods]] by (simp add: kv_get_def)
  have ids: "node_ID ` set nodes = {n. kv_get ?m n \<noteq> None}"
    by (force simp: nodes inventory_node_def NewNode_def entries image_iff)
  have "map_option cpu_Units (CPU (node_Available x)) = Some \<lparr>Val = max 0 (round_away (1000 * free_amount val kno_CPU kq_CPU ns pods (node_ID x)))\<rparr> \<and>
      map_option mem_Quantity (Memory (node_Available x)) = Some \<lparr>Val = max 0 (round_away (free_amount val kno_Memory kq_Memory ns pods (node_ID x)))\<rparr> \<and>
      map_option sto_Quantity (Storage (node_Available x)) = Some \<lparr>Val = max 0 (round_away (free_amount val kno_Storage kq_Storage ns pods (node_ID x)))\<rparr>"
    if "x \<in> set nodes" for x
  proof -
    obtain n k where x: "x = inventory_node Q (n, k)" "kv_get ?m n = Some k" using \<open>x \<in> set nodes\<close> nodes entries by auto
    then have k: "k = lookup_entry Q ?m n" by (simp add: lookup_entry_def)
    note free = node_cpu.free [OF laws names, of pods n] node_memory.free [OF laws names, of pods n] node_storage.free [OF laws names, of pods n]
    show ?thesis
      unfolding x(1) using fits [of n] node_values [OF laws]
      by (simp add: inventory_node_def NewNode_def node_units_def k flip: free)
  qed
  then show ?thesis using ids entries_names [OF names] by auto
qed

text \<open>A node that is not fit offers nothing, whatever its pods request.\<close>

lemma unfit_offers_nothing:
  assumes "fit_node ns n = None" and "\<forall>p\<in>set pods. \<forall>c\<in>set (kp_Containers p). 0 \<le> val (req c)"
  shows "max 0 (round_away (free_amount val has req ns pods n)) = 0"
proof -
  have "0 \<le> requested val req pods n" unfolding requested_def
    using assms(2) by (intro sum_list_nonneg) (auto intro!: sum_list_nonneg)
  then show ?thesis using assms(1) by (simp add: free_amount_def round_away_def)
qed

end
