(* ===== verification/Spec2Isabelle.thy ===== *)
theory Spec2Isabelle
  imports Escrow_Properties Ids_Properties Deployment_Properties Market_Properties Provider_Properties
    Inventory_Properties Hostnames Sdl_Properties Crd Event_Properties Certificate_Properties
    Bid_Order_Properties Bid_Service_Properties Pricing_Properties Manifest_Service_Properties Cluster_Service_Properties
    Kube_Client_Properties Kube_Nodes_Properties
begin

text \<open>
  \<^bold>\<open>Virtengine: a market for computing capacity, verified.\<close>

  Virtengine is a chain application on the Cosmos SDK.  Tenants place deployments, groups of resources with
  requirements and a highest price; every group opens an order; providers bid; the tenant takes a bid and so makes a
  lease, which is paid block by block out of the deployment's escrow account.  Off the chain, a provider's daemon watches
  orders and bids on them, keeps an inventory of its cluster, reserves host names, pairs leases with the manifests tenants
  send it, and saves leases in the cluster.  This development models the chain's modules completely, handler by handler, and the parts
  of the provider and of the tenant's tools that decide something.

  \<^bold>\<open>How Go is written down.\<close>  Theory \<open>Prelude\<close>: a keeper method or message handler is an action on the
  chain's state with outcomes \<open>Ok\<close>, \<open>Err\<close> (writes made before the error stay), \<open>Panic\<close> and
  \<open>OutOfFuel\<close>; its program logic (\<open>hoare\<close>, \<open>keeps\<close>, \<open>safe\<close>, \<open>fueled\<close>) carries the proofs.
  \<open>Errors\<close> has the modules' errors.  \<open>Store\<close> is the key-value store, sorted by key, with prefix scans; its
  contract is the locale \<open>kv_store\<close>.  \<open>Sdk\<close> has coins, checked integers and the environment: block height, bech32
  and bank are fields of a record, and what is assumed of them is \<open>addr_laws\<close> and \<open>bank_laws\<close>.  \<open>Strconv\<close> is
  decimal printing and parsing.  Sequence numbers, counts and ports are words of their width and wrap.

  \<^bold>\<open>The chain.\<close>
  \<^item> \<open>Ids\<close> (\<^verbatim>\<open>x/*/types/id.go\<close>, \<^verbatim>\<open>x/*/keeper/key.go\<close>): identifiers, store keys, escrow ids.
    \<open>Ids_Properties\<close>: round trips, exactness of prefix scans.
  \<^item> \<open>Escrow\<close> (\<^verbatim>\<open>x/escrow\<close>): accounts and payments, settlement, hooks.  \<open>Escrow_Settle\<close>: what settlement pays.
    \<open>Escrow_Solvency\<close>: the module's funds cover its debts.  \<open>Escrow_Fuel\<close>, \<open>Escrow_Properties\<close>.
  \<^item> \<open>Resources\<close> (\<^verbatim>\<open>types/\<close>), \<open>Deployment\<close> (\<^verbatim>\<open>x/deployment\<close>): units, groups, deployments, validation, messages.
    \<open>Deployment_Properties\<close>: validation, prices and requirements against reference definitions.
  \<^item> \<open>Provider\<close> (\<^verbatim>\<open>x/provider\<close>), \<open>Auditing\<close> (\<^verbatim>\<open>x/audit\<close>), \<open>Provider_Properties\<close>.
  \<^item> \<open>Certificates\<close> (\<^verbatim>\<open>x/cert\<close>), \<open>Certificate_Properties\<close>: a store of its own that no other module touches.
  \<^item> \<open>Market\<close> (\<^verbatim>\<open>x/market\<close>): orders, bids, leases; \<open>Hooks\<close> (\<^verbatim>\<open>x/market/hooks\<close>): what the market does when
    escrow closes an account or payment; \<open>Handlers\<close>: the message servers of all modules.  \<open>Market_Properties\<close>, \<open>Leasing\<close>.
  \<^item> \<open>Chain\<close>: transactions, blocks and reachable states.  \<open>Frame\<close>, \<open>Chain_Inv\<close>: the invariant of the
    stores.  \<open>Market_View\<close>, \<open>Coherence\<close>, \<open>Coherent_Chain\<close>: what orders, bids and leases say of each
    other.  \<open>Final\<close>, \<open>Closing\<close>, \<open>Lifecycle\<close>: what ends stays ended, and the abstract life cycle of an order.

  Escrow calls market hooks, and these call escrow again.  The nesting is bounded in the model by three levels;
  \<open>Hooks_Fuel\<close> and \<open>Fuel_Mono\<close> show that no transaction from a reachable state needs more and that a larger bound changes
  nothing, so three levels are the program.

  \<^bold>\<open>The provider and the tenant.\<close>
  \<^item> \<open>Inventory\<close> (\<^verbatim>\<open>provider/cluster/inventory.go\<close>, \<^verbatim>\<open>reservation.go\<close>): the goroutine as a step function with its
    reachable states.  \<open>Inventory_Properties\<close>: capacity (proved once in the locale \<open>amount\<close>, interpreted for processor,
    memory and storage), external ports, recovery.
  \<^item> \<open>Hostnames\<close> (\<^verbatim>\<open>provider/cluster/hostname.go\<close>): both implementations of the interface, the locale
    \<open>hostname_client\<close>.
  \<^item> \<open>Pricing\<close>, \<open>Bid_Order\<close>, \<open>Bid_Service\<close> (\<^verbatim>\<open>provider/bidengine\<close>): the pricing strategies, the goroutine that follows one
    order from its creation to a bid, a win or the release of what it reserved, the cache of auditors' signatures and the table of
    orders, shutdown included.  \<open>Pricing_Properties\<close>, \<open>Bid_Order_Properties\<close>, \<open>Bid_Service_Properties\<close>.
  \<^item> \<open>Manifest_Manager\<close>, \<open>Manifest_Service\<close> (\<^verbatim>\<open>provider/manifest\<close>): the manager of one deployment's leases and manifests, the
    service that routes events to managers, and the watchdogs.  \<open>Manifest_Manager_Properties\<close>, \<open>Manifest_Service_Properties\<close>:
    the service's runs are traced back to runs of its managers.
  \<^item> \<open>Cluster_Manager\<close>, \<open>Cluster_Service\<close> (\<^verbatim>\<open>provider/cluster/manager.go\<close>, \<^verbatim>\<open>monitor.go\<close>, \<^verbatim>\<open>lease_withdraw.go\<close>,
    \<^verbatim>\<open>service.go\<close>): deploying, updating and tearing down one lease, checking it, and the service over all leases.
    \<open>Cluster_Manager_Properties\<close>, \<open>Cluster_Service_Properties\<close>.
  \<^item> \<open>Kube_Builder\<close>, \<open>Kube_Client\<close>, \<open>Kube_Nodes\<close> (\<^verbatim>\<open>provider/cluster/kube\<close>): the Kubernetes objects of a lease, creating, updating and
    cleaning them up, the status of leases and services, the nodes' inventory.  The API's calls and quantities are arguments, and what is
    assumed of them is \<open>kube_laws\<close> and \<open>quantity_laws\<close>.  \<open>Kube_Builder_Properties\<close>: namespaces of different leases differ, each exposed port
    is in exactly one service.  \<open>Kube_Client_Properties\<close>: what runs after a deployment.  \<open>Kube_Nodes_Properties\<close>: the inventory is
    what fit nodes have less what their pods request (proved once in the locale \<open>node_resource\<close>).
  \<^item> \<open>Query_Paths\<close> (\<^verbatim>\<open>x/*/query/path.go\<close>): the paths the daemon uses as keys.
  \<^item> \<open>Manifest\<close> (\<^verbatim>\<open>manifest/\<close>, \<^verbatim>\<open>validation/manifest.go\<close>, \<^verbatim>\<open>util/validation\<close>, \<^verbatim>\<open>provider/cluster/util\<close>),
    \<open>Manifest_Properties\<close>: what the validations accept.
  \<^item> \<open>Sdl\<close> (\<^verbatim>\<open>sdl/\<close>), \<open>Sdl_Properties\<close>: the two halves of a description agree.
  \<^item> \<open>Crd\<close> (\<^verbatim>\<open>pkg/apis/virtengine.network/v1/types.go\<close>): saving a lease and reading it back.
  \<^item> \<open>Event_Codec\<close> (\<^verbatim>\<open>sdkutil/event.go\<close>, \<^verbatim>\<open>x/*/types/event.go\<close>, \<^verbatim>\<open>events/publish.go\<close>), \<open>Event_Properties\<close>: the
    chain's events as attribute lists, and what a client that subscribes to them receives.

  The states and inputs the properties are tried on are in \<open>Example\<close>, \<open>Chain_Example\<close> and at the end of the theories.

  \<^bold>\<open>What is shown.\<close>  Money: the escrow module is solvent in every reachable state, settlement pays rates or
  proportional shares exactly.  Consistency: orders, bids and leases agree with each other in every reachable state; ended things
  stay ended; closing a deployment or group leaves nothing running.  Termination of the mutual recursion.  Validation of groups
  accepts exactly what is within the limits of a group.  Identifiers, genesis, saved manifests and events survive their round trips.  Certificates stay as
  registered, and revoked ones stay revoked.  The
  provider promises no capacity, port or host name twice; it bids at most once on an order, only on groups whose requirements the
  chain finds it to meet, and releases what it reserved unless it wins; it runs for a lease only what was sent for the lease's
  deployment and passes validation, in its newest version, leaves in a lease's namespace the deployments of the newest group and no others, tears a lease down when told to once its host names are granted, and gives one
  up only after forty-one failed checks; and its requests for signatures and manifests are answered at most once and, while it runs and nothing panics, exactly once.

  \<^bold>\<open>Addresses.\<close>  Bech32 accepts an address in lower and in upper case, and the modules keep the string a message had.  A string in the
  spelling the chain prints is \<open>canonical\<close>; \<open>std_address\<close> is that spelling of any string.  The statements say where the spelling
  matters: a deployment is closed by its message exactly when its owner is canonical, saved leases and events come back in the
  chain's spelling, and a provider's leases are found under the string it is registered under.

  The daemon's goroutines are step functions on what their \<^verbatim>\<open>select\<close> receives, with inductive runs in which inputs come in any
  order the channels allow; a run is any finite sequence of inputs, so nothing is bounded there.

  \<^bold>\<open>Not modelled.\<close>  HTTP, command lines, application wiring, the event bus, queries, generated code, simulation and test
  utilities: they are I/O, calls of libraries, or read-only.  Of the modelled parts: YAML decoding, floating-point quantities
  and commit factors, metrics, logs, shutdown of the inventory, gas and SDK events beyond the modules' own; of the
  Kubernetes client logs, events, shells and its construction from a configuration file.  Simplified: block heights are unbounded where the
  code has \<^verbatim>\<open>int64\<close>; an iteration over a store runs over the entries there are when it begins; the
  chain starts from empty stores, and parameters do
  not change; a manager that ends does not wait for its withdrawal goroutines, and one that is replaced under its key is not followed any more.
\<close>

subsection \<open>Money\<close>

text \<open>
  C1. Solvency.  In every state the chain can reach, the escrow module's account in the bank holds at least
  what all escrow accounts and payments are owed together, in every denomination.
\<close>
theorem reachable_solvent:
  assumes "reachable E bal parse s" and "bank_laws E ModuleName bal" and "addr_laws E"
  shows "owed s d \<le> bal (bank s) d"
  using reachable_inv [OF assms] by (simp add: chain_inv_def escrow_inv_def)

theorem reachable_solvent_witness:
  "owed demo_market ''uve'' \<le> bank demo_market ''uve''"
  by (rule reachable_solvent [OF demo_market_reachable demo_bank_laws demo_addr_laws])

text \<open>
  C12. In every reachable state every escrow account and every payment is stored under its own key, and no
  balance is negative.
\<close>
theorem reachable_balances:
  assumes "reachable E bal parse s" and "bank_laws E ModuleName bal" and "addr_laws E"
  shows "list_all (\<lambda>(k, a). k = accountKey (acc_ID a) \<and> 0 \<le> Amount (acc_Balance a)) (accounts s) \<and>
    list_all (\<lambda>(k, p). k = paymentKey (pay_AccountID p) (pay_PaymentID p) \<and> 0 \<le> Amount (pay_Balance p)) (payments s)"
proof -
  have wf: "escrow_wf E (\<lambda>_. True) s" using reachable_inv [OF assms] by (simp add: chain_inv_def escrow_inv_def)
  have get: "(k, v) \<in> set m \<Longrightarrow> kv_ok m \<Longrightarrow> kv_get m k = Some v" for k and v :: 'v and m
    by (simp add: kv_get_def kv_ok_distinct map_of_eq_Some_iff)
  show ?thesis
    using wf_account [OF wf] wf_payment [OF wf] wf_kv_ok [OF wf] by (auto simp: list_all_iff account_ok_def payment_ok_def payKey_def dest!: get)
qed

theorem reachable_balances_witness:
  "list_all (\<lambda>(k, a). k = accountKey (acc_ID a) \<and> 0 \<le> Amount (acc_Balance a)) (accounts demo_market) \<and>
   list_all (\<lambda>(k, p). k = paymentKey (pay_AccountID p) (pay_PaymentID p) \<and> 0 \<le> Amount (pay_Balance p)) (payments demo_market)"
  by (rule reachable_balances [OF demo_market_reachable demo_bank_laws demo_addr_laws])

subsection \<open>Genesis\<close>

text \<open>
  C13. Exporting the escrow module's state and importing it into empty stores gives the same accounts and
  payments, from every reachable state.
\<close>
theorem escrow_genesis_roundtrip:
  assumes "reachable E bal parse s" and "bank_laws E ModuleName bal" and "addr_laws E"
  shows "InitGenesis (ExportGenesis s) (s\<lparr>accounts := [], payments := []\<rparr>) = Ok () s"
proof -
  have "escrow_wf E (\<lambda>_. True) s" using reachable_inv [OF assms] by (simp add: chain_inv_def escrow_inv_def)
  then show ?thesis by (rule genesis_restores)
qed

theorem escrow_genesis_roundtrip_witness:
  "InitGenesis (ExportGenesis demo_market) (demo_market\<lparr>accounts := [], payments := []\<rparr>) = Ok () demo_market"
  by (rule escrow_genesis_roundtrip [OF demo_market_reachable demo_bank_laws demo_addr_laws])

subsection \<open>Nested hooks\<close>

text \<open>
  C4. Nested hook calls end.  Closing an escrow account or payment runs hooks of the market, which close
  other accounts and payments, which run hooks again: from a reachable state, no transaction that users signed goes
  deeper, at any height, than the three levels the model unrolls.
\<close>
theorem nested_hooks_bounded:
  assumes "reachable E bal parse s" and "bank_laws E ModuleName bal" and "addr_laws E"
    and "signed_by_users E msgs"
  shows "runTx (E\<lparr>BlockHeight := h\<rparr>) parse msgs s \<noteq> OutOfFuel"
proof (rule fueledD)
  show "fueled (chain_inv (E\<lparr>BlockHeight := h\<rparr>) bal) (runTx (E\<lparr>BlockHeight := h\<rparr>) parse msgs)"
    using assms by (intro runTx_fueled) simp_all
  show "chain_inv (E\<lparr>BlockHeight := h\<rparr>) bal s" using reachable_inv [OF assms(1-3)] by simp
qed

theorem nested_hooks_bounded_witness:
  "runTx (demo_env\<lparr>BlockHeight := 11\<rparr>) parse1 [MsgCloseDeployment demo_did] demo_market \<noteq> OutOfFuel"
  by (rule nested_hooks_bounded [OF demo_market_reachable demo_bank_laws demo_addr_laws demo_close_signed])

text \<open>
  The depth the model unrolls is not seen in the result: with more levels than three, every transaction
  that users signed gives the same outcome in every reachable state.
\<close>
lemma hook_depth_irrelevant:
  assumes "reachable E bal parse s" and "bank_laws E ModuleName bal" and "addr_laws E"
    and "signed_by_users E msgs"
  shows "runTx_with (E\<lparr>BlockHeight := h\<rparr>) parse (app_hooks (E\<lparr>BlockHeight := h\<rparr>) (3 + k)) msgs s =
    runTx (E\<lparr>BlockHeight := h\<rparr>) parse msgs s"
proof -
  let ?E = "E\<lparr>BlockHeight := h\<rparr>"
  have "fueled (chain_inv ?E bal) (runTx ?E parse msgs)" using assms by (intro runTx_fueled) simp_all
  then have "fueled (chain_inv ?E bal) (runTx_with ?E parse (app_hooks ?E 3) msgs)"
    by (simp add: runTx_def keeper_hooks_def)
  from refines_fueled [OF runTx_refine [OF app_hooks_refine] this] show ?thesis
    using reachable_inv [OF assms(1-3)] unfolding runTx_def keeper_hooks_def by (metis height_inv)
qed

subsection \<open>Orders, bids and leases\<close>

text \<open>
  C7. In a reachable state a bid is active exactly when the lease made from it is.
\<close>
theorem active_bid_iff_active_lease:
  assumes "reachable E bal parse s" and "bank_laws E ModuleName bal" and "addr_laws E" and "bid_id_ok E i"
  shows "(\<exists>b. kv_get (bids s) (bidKey i) = Some b \<and> bd_State b = BidActive) \<longleftrightarrow>
    (\<exists>l. kv_get (leases s) (leaseKey i) = Some l \<and> ls_State l = LeaseActive)"
proof -
  have "vb (view E s) i = Some BidActive \<longleftrightarrow> vl (view E s) i = Some LeaseActive"
    using reachable_coherent [OF assms(1-3)] by (simp add: coherent_def)
  then show ?thesis using assms(4) by (simp add: view_def)
qed

theorem active_bid_iff_active_lease_witness:
  "(\<exists>b. kv_get (bids demo_market) (bidKey demo_bid_id) = Some b \<and> bd_State b = BidActive) \<longleftrightarrow>
    (\<exists>l. kv_get (leases demo_market) (leaseKey demo_bid_id) = Some l \<and> ls_State l = LeaseActive)"
  by (rule active_bid_iff_active_lease [OF demo_market_reachable demo_bank_laws demo_addr_laws demo_bid_ok])

text \<open>
  C3. In a reachable state an order is active exactly when one of its bids has an active lease.
\<close>
theorem active_order_iff_active_lease:
  assumes "reachable E bal parse s" and "bank_laws E ModuleName bal" and "addr_laws E"
  shows "(\<exists>r. kv_get (orders s) (orderKey oid) = Some r \<and> ord_State r = OrderActive) \<longleftrightarrow>
    (\<exists>i l. bid_id_ok E i \<and> BidID_OrderID i = oid \<and> kv_get (leases s) (leaseKey i) = Some l \<and> ls_State l = LeaseActive)"
proof -
  have "vo (view E s) oid = Some OrderActive \<longleftrightarrow> (\<exists>i. vl (view E s) i = Some LeaseActive \<and> BidID_OrderID i = oid)"
    using reachable_coherent [OF assms] unfolding coherent_def by auto
  then show ?thesis by (auto simp: view_def split: if_splits)
qed

theorem active_order_iff_active_lease_witness:
  "(\<exists>r. kv_get (orders demo_market) (orderKey (BidID_OrderID demo_bid_id)) = Some r \<and> ord_State r = OrderActive) \<longleftrightarrow>
    (\<exists>i l. bid_id_ok demo_env i \<and> BidID_OrderID i = BidID_OrderID demo_bid_id \<and> kv_get (leases demo_market) (leaseKey i) = Some l \<and>
       ls_State l = LeaseActive)"
  by (rule active_order_iff_active_lease [OF demo_market_reachable demo_bank_laws demo_addr_laws])

text \<open>
  C8. An order is leased at most once in its whole life: two leases of one order, over or not, are the same.
\<close>
theorem one_lease_per_order:
  assumes "reachable E bal parse s" and "bank_laws E ModuleName bal" and "addr_laws E"
    and "bid_id_ok E i" and "bid_id_ok E j" and "BidID_OrderID i = BidID_OrderID j"
    and "kv_get (leases s) (leaseKey i) \<noteq> None" and "kv_get (leases s) (leaseKey j) \<noteq> None"
  shows "i = j"
proof -
  have "vl (view E s) i \<noteq> None" "vl (view E s) j \<noteq> None" using assms(4,5,7,8) by (auto simp: view_def)
  then show ?thesis using reachable_coherent [OF assms(1-3)] assms(6) unfolding coherent_def by blast
qed

theorem one_lease_per_order_witness:
  "demo_bid_id = \<lparr>bid_Owner = ''owner'', bid_DSeq = 1, bid_GSeq = 1, bid_OSeq = 1, bid_Provider = ''prova''\<rparr>"
proof -
  let ?j = "\<lparr>bid_Owner = ''owner'', bid_DSeq = 1, bid_GSeq = 1, bid_OSeq = 1, bid_Provider = ''prova''\<rparr>"
  have j: "?j = demo_bid_id" by (simp add: demo_bid_id_def)
  have lease: "kv_get (leases demo_market) (leaseKey demo_bid_id) \<noteq> None" using demo_market_lease by auto
  show ?thesis by (rule one_lease_per_order [OF demo_market_reachable demo_bank_laws demo_addr_laws]) (use demo_bid_ok lease in \<open>simp_all add: j\<close>)
qed

text \<open>
  C9. A group has at most one order that is not closed.
\<close>
theorem one_live_order_per_group:
  assumes "reachable E bal parse s" and "bank_laws E ModuleName bal" and "addr_laws E"
    and "kv_get (orders s) (orderKey i) = Some r" and "ord_State r \<noteq> OrderClosed"
    and "kv_get (orders s) (orderKey j) = Some r'" and "ord_State r' \<noteq> OrderClosed"
    and "OrderID_GroupID i = OrderID_GroupID j"
  shows "i = j"
proof -
  have "live (vo (view E s) i)" "live (vo (view E s) j)" using assms(4-7) by (simp_all add: live_def view_def)
  then show ?thesis using reachable_coherent [OF assms(1-3)] assms(8) unfolding coherent_def by blast
qed

theorem one_live_order_per_group_witness:
  "OrderID_GroupID (BidID_OrderID demo_bid_id) = MakeGroupID demo_did 1 \<and>
   (\<exists>r. kv_get (orders demo_market) (orderKey (MakeOrderID (MakeGroupID demo_did 1) 1)) = Some r \<and> ord_State r \<noteq> OrderClosed \<and>
     MakeOrderID (MakeGroupID demo_did 1) 1 = BidID_OrderID demo_bid_id)"
proof -
  let ?i = "MakeOrderID (MakeGroupID demo_did 1) 1"
  have ids: "?i = BidID_OrderID demo_bid_id" by (simp add: demo_bid_id_def demo_did_def id_defs)
  obtain r where r: "kv_get (orders demo_market) (orderKey ?i) = Some r" "ord_State r \<noteq> OrderClosed"
    using demo_market_lease by (auto simp: ids)
  from one_live_order_per_group [OF demo_market_reachable demo_bank_laws demo_addr_laws r r [unfolded ids]] show ?thesis
    using r by (simp add: ids) (simp add: demo_bid_id_def demo_did_def id_defs)
qed

subsection \<open>Lifecycles\<close>

text \<open>
  C10. A closed deployment is never active again: whatever transaction is delivered, at any height, it stays closed.
\<close>
theorem closed_deployment_stays:
  assumes "reachable E bal parse s" and "bank_laws E ModuleName bal" and "addr_laws E" and "signed_by_users E msgs"
    and "deployment_over d s"
  shows "deployment_over d (deliver (E\<lparr>BlockHeight := h\<rparr>) parse msgs s)"
  using assms by (rule ended.deliver_lasting)

theorem closed_deployment_stays_witness:
  "deployment_over demo_did (deliver (demo_env\<lparr>BlockHeight := 12\<rparr>) parse1 [MsgStartGroup (MakeGroupID demo_did 1)] demo_over)"
  using demo_over_states by (intro closed_deployment_stays [OF demo_over_reachable demo_bank_laws demo_addr_laws demo_start_signed]) simp_all

text \<open>
  C5. Orders refine their abstract life cycle: seen through \<open>order_status\<close>, every transaction takes every
  order along the steps created open, open to active, and not closed to closed, and along no other.
\<close>
theorem order_lifecycle:
  assumes "reachable E bal parse s" and "bank_laws E ModuleName bal" and "addr_laws E" and "signed_by_users E msgs"
  shows "order_step\<^sup>*\<^sup>* (order_status i s) (order_status i (deliver (E\<lparr>BlockHeight := h\<rparr>) parse msgs s))"
proof -
  have "order_moves (order_status i s) i s" by (simp add: order_moves_def)
  from moving.deliver_lasting [OF assms this] show ?thesis by (simp add: order_moves_def)
qed

theorem order_lifecycle_witness:
  "order_step\<^sup>*\<^sup>* (Some OrderActive)
     (order_status (BidID_OrderID demo_bid_id) (deliver (demo_env\<lparr>BlockHeight := 9\<rparr>) parse1 [MsgCloseDeployment demo_did] demo_market))"
proof -
  have "order_status (BidID_OrderID demo_bid_id) demo_market = Some OrderActive" using demo_market_lease by (simp add: order_status_def)
  then show ?thesis
    using order_lifecycle [OF demo_market_reachable demo_bank_laws demo_addr_laws demo_close_signed, of "BidID_OrderID demo_bid_id" 9] by simp
qed

text \<open>
  A lease that is over, closed or out of funds, is never active again.
\<close>
lemma ended_lease_stays:
  assumes "reachable E bal parse s" and "bank_laws E ModuleName bal" and "addr_laws E" and "signed_by_users E msgs"
    and "lease_over i s"
  shows "lease_over i (deliver (E\<lparr>BlockHeight := h\<rparr>) parse msgs s)"
  using assms by (rule over.deliver_lasting)

text \<open>
  C6. A transaction that closes a deployment and succeeds has closed it exactly when the owner's address in the message is written
  the way the chain prints it: although the handler only closes the escrow account, the account's hook reaches the deployment, also when
  settling the account finds it overdrawn.  For an address in another spelling (bech32 also accepts upper case, and the
  message's string is the key) the hook looks for a deployment that is not this one: the transaction succeeds and the deployment stays active.
\<close>
theorem MsgCloseDeployment_closes:
  assumes "reachable E bal parse s" and "bank_laws E ModuleName bal" and "addr_laws E"
    and "runTx (E\<lparr>BlockHeight := h\<rparr>) parse [MsgCloseDeployment d] s = Ok u t"
  shows "deployment_over d t \<longleftrightarrow> canonical E (did_Owner d)"
proof -
  let ?E = "E\<lparr>BlockHeight := h\<rparr>"
  have inv: "chain_inv ?E bal s" using reachable_inv [OF assms(1-3)] by simp
  have can: "canonical ?E (did_Owner d) = canonical E (did_Owner d)" by (simp add: canonical_iff)
  from assms(4) obtain s1 where s1: "ValidateBasic ?E parse (MsgCloseDeployment d) s = Ok () s1"
      and run: "Msg_CloseDeployment ?E (app_hooks ?E 3) d s1 = Ok () t"
    by (auto simp: runTx_def runTx_with_def keeper_hooks_def bind_Ok_iff ret_def handle_def Deployment_NewHandler_def)
  have inv1: "chain_inv ?E bal s1" by (rule keeps_Ok [where I = "chain_inv ?E bal", OF keeps_ValidateBasic inv s1])
  from run obtain x where x: "kv_get (deployments s1) (deploymentKey d) = Some x" "dep_State x = DeploymentActive"
      and close: "AccountClose ?E (app_hooks ?E 3) (EscrowAccountForDeployment (dep_ID x)) s1 = Ok () t"
    by (auto simp: Msg_CloseDeployment_def GetDeployment_def bind_Ok_iff gets_def found_or_def check_def ret_def throw_def
      split: option.splits if_splits)
  have own: "k = deploymentKey (dep_ID y)" if "kv_get (deployments s1) k = Some y" for k y
    using inv1 that by (auto simp: chain_inv_def store_inv_def dest: own_keys_get)
  then have d: "dep_ID x = d" using x(1) by (metis deploymentKey_inj)
  then have close: "AccountClose ?E (app_hooks ?E (Suc 2)) (EscrowAccountForDeployment d) s1 = Ok () t"
    using close by simp
  show ?thesis
  proof (cases "canonical E (did_Owner d)")
    case True
    then have "deployment_over d t" by (intro hoare_Ok [OF AccountClose_closes _ close]) (use inv1 x assms(3) can in simp_all)
    with True show ?thesis by simp
  next
    case False
    have "stays d x t"
      by (rule keeps_Ok [OF AccountClose_stays _ close]) (use False assms(3) can x own in \<open>auto simp: stays_def\<close>)
    then show ?thesis using False x(2) by (simp add: stays_def deployment_over_iff)
  qed
qed

theorem MsgCloseDeployment_closes_witness:
  "runTx (demo_env\<lparr>BlockHeight := 9\<rparr>) parse1 [MsgCloseDeployment demo_did] demo_market = Ok () demo_over \<and> deployment_over demo_did demo_over"
proof -
  have "canonical demo_env (did_Owner demo_did)" by code_simp
  then show ?thesis using MsgCloseDeployment_closes [OF demo_market_reachable demo_bank_laws demo_addr_laws demo_close_runs] demo_close_runs by simp
qed

text \<open>An owner in upper case: the deployment's account is closed, the deployment is not.\<close>

definition upper_env :: "(string \<Rightarrow> int) env" where
  "upper_env = demo_env\<lparr>FromBech32 := (\<lambda>s. map_option (\<lambda>a. if a = ''OWNER'' then ''owner'' else a) (FromBech32 demo_env s))\<rparr>"

lemma upper_case_stays_active:
  "let d = \<lparr>did_Owner = ''OWNER'', did_DSeq = 1\<rparr>;
       create = MsgCreateDeployment \<lparr>mcd_ID = d, mcd_Groups = [demo_spec], mcd_Version = replicate 32 (CHR ''v''), mcd_Deposit = \<lparr>Denom = ''uve'', Amount = 100\<rparr>\<rparr>;
       s = history upper_env parse0 [(2, [create])] demo_genesis in
   (case runTx (upper_env\<lparr>BlockHeight := 9\<rparr>) parse0 [MsgCloseDeployment d] s of
      Ok _ t \<Rightarrow> map dep_State (map snd (deployments t)) = [DeploymentActive] \<and> map acc_State (map snd (accounts t)) = [AccountClosed] | _ \<Rightarrow> False)"
  by code_simp

end
